(* ===== verification/Kernel_Errors.thy ===== *)
theory Kernel_Errors
  imports Kernel_Prelude
begin

text \<open>
  The kernel's error values (crates/nous-types/src/error.rs): the stable error codes with their
  wire numbers, the retry hint derived from a code, and the error record with its builders.
  Constructors carry the prefix \<open>EC_\<close> and record fields the prefix \<open>ne_\<close> or \<open>rh_\<close>.
  A fallible kernel operation returns \<open>NousError + 'a\<close>, with \<open>Inl\<close> for the error.
\<close>

datatype ErrorCode =
    EC_Unknown
  | EC_InvalidRequest
  | EC_NotFound
  | EC_AlreadyExists
  | EC_PermissionDenied
  | EC_Unauthenticated
  | EC_ResourceExhausted
  | EC_FailedPrecondition
  | EC_Aborted
  | EC_OutOfRange
  | EC_NotImplemented
  | EC_Internal
  | EC_Unavailable
  | EC_DataLoss
  | EC_DeadlineExceeded
  | EC_WorkloadRejected
  | EC_WorkloadCancelled
  | EC_WorkloadLost
  | EC_WorkloadQuarantined
  | EC_WorkloadConflict
  | EC_ResourceInsufficient
  | EC_LeaseExpired
  | EC_LeaseConflict
  | EC_ModelNotFound
  | EC_ModelIncompatible
  | EC_ModelNotLoaded
  | EC_ModelValidationFailed
  | EC_ModelSecurityBlocked
  | EC_EngineNotFound
  | EC_EngineIncompatible
  | EC_EngineUnhealthy
  | EC_EngineTimeout
  | EC_DeviceNotFound
  | EC_DeviceIncompatible
  | EC_DeviceUnhealthy
  | EC_DeviceOutOfMemory
  | EC_BackendUnavailable
  | EC_BackendIncompatible
  | EC_NotSupported
  | EC_SecurityPolicy
  | EC_CapabilityDenied
  | EC_IsolationFailed

datatype RetryStrategy = RS_Immediate | RS_Backoff | RS_After | RS_NewIdempotency | RS_Never

record RetryHint =
  rh_retryable :: bool
  rh_recommended_delay_ms :: u32
  rh_max_retries :: u32
  rh_strategy :: RetryStrategy

record NousError =
  ne_code :: ErrorCode
  ne_message :: string
  ne_failed_phase :: string
  ne_cause :: string
  ne_retry :: RetryHint

type_synonym 'a nous_result = "NousError + 'a"

primrec error_code_number :: "ErrorCode \<Rightarrow> nat" where
  "error_code_number EC_Unknown = 0"
| "error_code_number EC_InvalidRequest = 1"
| "error_code_number EC_NotFound = 2"
| "error_code_number EC_AlreadyExists = 3"
| "error_code_number EC_PermissionDenied = 4"
| "error_code_number EC_Unauthenticated = 5"
| "error_code_number EC_ResourceExhausted = 6"
| "error_code_number EC_FailedPrecondition = 7"
| "error_code_number EC_Aborted = 8"
| "error_code_number EC_OutOfRange = 9"
| "error_code_number EC_NotImplemented = 10"
| "error_code_number EC_Internal = 11"
| "error_code_number EC_Unavailable = 12"
| "error_code_number EC_DataLoss = 13"
| "error_code_number EC_DeadlineExceeded = 14"
| "error_code_number EC_WorkloadRejected = 20"
| "error_code_number EC_WorkloadCancelled = 21"
| "error_code_number EC_WorkloadLost = 22"
| "error_code_number EC_WorkloadQuarantined = 23"
| "error_code_number EC_WorkloadConflict = 24"
| "error_code_number EC_ResourceInsufficient = 30"
| "error_code_number EC_LeaseExpired = 31"
| "error_code_number EC_LeaseConflict = 32"
| "error_code_number EC_ModelNotFound = 40"
| "error_code_number EC_ModelIncompatible = 41"
| "error_code_number EC_ModelNotLoaded = 42"
| "error_code_number EC_ModelValidationFailed = 43"
| "error_code_number EC_ModelSecurityBlocked = 44"
| "error_code_number EC_EngineNotFound = 50"
| "error_code_number EC_EngineIncompatible = 51"
| "error_code_number EC_EngineUnhealthy = 52"
| "error_code_number EC_EngineTimeout = 53"
| "error_code_number EC_DeviceNotFound = 60"
| "error_code_number EC_DeviceIncompatible = 61"
| "error_code_number EC_DeviceUnhealthy = 62"
| "error_code_number EC_DeviceOutOfMemory = 63"
| "error_code_number EC_BackendUnavailable = 70"
| "error_code_number EC_BackendIncompatible = 71"
| "error_code_number EC_NotSupported = 80"
| "error_code_number EC_SecurityPolicy = 90"
| "error_code_number EC_CapabilityDenied = 91"
| "error_code_number EC_IsolationFailed = 92"

text \<open>The derived \<open>Debug\<close> name, which \<open>Display\<close> prints.\<close>

primrec show_error_code :: "ErrorCode \<Rightarrow> string" where
  "show_error_code EC_Unknown = ''Unknown''"
| "show_error_code EC_InvalidRequest = ''InvalidRequest''"
| "show_error_code EC_NotFound = ''NotFound''"
| "show_error_code EC_AlreadyExists = ''AlreadyExists''"
| "show_error_code EC_PermissionDenied = ''PermissionDenied''"
| "show_error_code EC_Unauthenticated = ''Unauthenticated''"
| "show_error_code EC_ResourceExhausted = ''ResourceExhausted''"
| "show_error_code EC_FailedPrecondition = ''FailedPrecondition''"
| "show_error_code EC_Aborted = ''Aborted''"
| "show_error_code EC_OutOfRange = ''OutOfRange''"
| "show_error_code EC_NotImplemented = ''NotImplemented''"
| "show_error_code EC_Internal = ''Internal''"
| "show_error_code EC_Unavailable = ''Unavailable''"
| "show_error_code EC_DataLoss = ''DataLoss''"
| "show_error_code EC_DeadlineExceeded = ''DeadlineExceeded''"
| "show_error_code EC_WorkloadRejected = ''WorkloadRejected''"
| "show_error_code EC_WorkloadCancelled = ''WorkloadCancelled''"
| "show_error_code EC_WorkloadLost = ''WorkloadLost''"
| "show_error_code EC_WorkloadQuarantined = ''WorkloadQuarantined''"
| "show_error_code EC_WorkloadConflict = ''WorkloadConflict''"
| "show_error_code EC_ResourceInsufficient = ''ResourceInsufficient''"
| "show_error_code EC_LeaseExpired = ''LeaseExpired''"
| "show_error_code EC_LeaseConflict = ''LeaseConflict''"
| "show_error_code EC_ModelNotFound = ''ModelNotFound''"
| "show_error_code EC_ModelIncompatible = ''ModelIncompatible''"
| "show_error_code EC_ModelNotLoaded = ''ModelNotLoaded''"
| "show_error_code EC_ModelValidationFailed = ''ModelValidationFailed''"
| "show_error_code EC_ModelSecurityBlocked = ''ModelSecurityBlocked''"
| "show_error_code EC_EngineNotFound = ''EngineNotFound''"
| "show_error_code EC_EngineIncompatible = ''EngineIncompatible''"
| "show_error_code EC_EngineUnhealthy = ''EngineUnhealthy''"
| "show_error_code EC_EngineTimeout = ''EngineTimeout''"
| "show_error_code EC_DeviceNotFound = ''DeviceNotFound''"
| "show_error_code EC_DeviceIncompatible = ''DeviceIncompatible''"
| "show_error_code EC_DeviceUnhealthy = ''DeviceUnhealthy''"
| "show_error_code EC_DeviceOutOfMemory = ''DeviceOutOfMemory''"
| "show_error_code EC_BackendUnavailable = ''BackendUnavailable''"
| "show_error_code EC_BackendIncompatible = ''BackendIncompatible''"
| "show_error_code EC_NotSupported = ''NotSupported''"
| "show_error_code EC_SecurityPolicy = ''SecurityPolicy''"
| "show_error_code EC_CapabilityDenied = ''CapabilityDenied''"
| "show_error_code EC_IsolationFailed = ''IsolationFailed''"

definition is_retryable :: "ErrorCode \<Rightarrow> bool" where
  "is_retryable c \<longleftrightarrow>
     c \<in> {EC_Unavailable, EC_DeadlineExceeded, EC_ResourceExhausted, EC_Aborted, EC_LeaseExpired,
          EC_EngineUnhealthy, EC_EngineTimeout, EC_DeviceUnhealthy, EC_BackendUnavailable}"

definition error_is_terminal :: "ErrorCode \<Rightarrow> bool" where
  "error_is_terminal c \<longleftrightarrow> \<not> is_retryable c"

definition hint_for_code :: "ErrorCode \<Rightarrow> RetryHint" where
  "hint_for_code c =
     (if is_retryable c
      then \<lparr>rh_retryable = True, rh_recommended_delay_ms = 100, rh_max_retries = 3,
            rh_strategy = RS_Backoff\<rparr>
      else \<lparr>rh_retryable = False, rh_recommended_delay_ms = 0, rh_max_retries = 0,
            rh_strategy = RS_Never\<rparr>)"

definition hint_never :: RetryHint where
  "hint_never = \<lparr>rh_retryable = False, rh_recommended_delay_ms = 0, rh_max_retries = 0,
                 rh_strategy = RS_Never\<rparr>"

definition nous_error :: "ErrorCode \<Rightarrow> string \<Rightarrow> NousError" where
  "nous_error c msg = \<lparr>ne_code = c, ne_message = msg, ne_failed_phase = [], ne_cause = [],
                       ne_retry = hint_for_code c\<rparr>"

definition with_phase :: "NousError \<Rightarrow> string \<Rightarrow> NousError" where
  "with_phase e phase = e\<lparr>ne_failed_phase := phase\<rparr>"

definition with_cause :: "NousError \<Rightarrow> string \<Rightarrow> NousError" where
  "with_cause e cause = e\<lparr>ne_cause := cause\<rparr>"

definition err_not_implemented :: "string \<Rightarrow> NousError" where
  "err_not_implemented feature = nous_error EC_NotImplemented (''NOT_IMPLEMENTED: '' @ feature)"

definition err_not_supported :: "string \<Rightarrow> NousError" where
  "err_not_supported feature = nous_error EC_NotSupported (''NOT_SUPPORTED: '' @ feature)"

definition err_backend_unavailable :: "string \<Rightarrow> NousError" where
  "err_backend_unavailable backend =
     nous_error EC_BackendUnavailable (''BACKEND_UNAVAILABLE: '' @ backend)"

definition err_incompatible :: "string \<Rightarrow> NousError" where
  "err_incompatible detail = nous_error EC_BackendIncompatible (''INCOMPATIBLE: '' @ detail)"

text \<open>\<open>Display\<close> of the error, which the kernel core embeds in its own errors.\<close>

definition show_nous_error :: "NousError \<Rightarrow> string" where
  "show_nous_error e = show_error_code (ne_code e) @ '': '' @ ne_message e"

lemma ne_code_nous_error [simp]: "ne_code (nous_error c m) = c"
  by (simp add: nous_error_def)

lemma ne_message_nous_error [simp]: "ne_message (nous_error c m) = m"
  by (simp add: nous_error_def)

lemma nous_error_inject [simp]: "nous_error c m = nous_error d n \<longleftrightarrow> c = d \<and> m = n"
  by (auto simp: nous_error_def)

end
