(* ===== verification/Object_Meta.thy ===== *)
theory Object_Meta
  imports Kernel_Errors
begin

text \<open>
  Object metadata (crates/nous-types/src/meta.rs), the spec/status pattern
  (crates/nous-types/src/traits.rs) and principals with their capability grants
  (crates/nous-types/src/principal.rs).  The uuid and the clock reading of an operation are
  arguments; labels and annotations are maps.
\<close>

section \<open>Metadata\<close>

datatype ConditionStatus = CS_True | CS_False | CS_Unknown

datatype HealthStatus = HS_Unknown | HS_Healthy | HS_Degraded | HS_Unhealthy | HS_Critical

record Condition =
  cd_condition_type :: string
  cd_status :: ConditionStatus
  cd_reason :: string
  cd_message :: string
  cd_last_transition_time :: instant
  cd_observed_time :: instant

definition condition_new_true :: "instant \<Rightarrow> string \<Rightarrow> string \<Rightarrow> string \<Rightarrow> Condition" where
  "condition_new_true now ty reason message =
     \<lparr>cd_condition_type = ty, cd_status = CS_True, cd_reason = reason, cd_message = message,
      cd_last_transition_time = now, cd_observed_time = now\<rparr>"

definition condition_new_false :: "instant \<Rightarrow> string \<Rightarrow> string \<Rightarrow> string \<Rightarrow> Condition" where
  "condition_new_false now ty reason message =
     \<lparr>cd_condition_type = ty, cd_status = CS_False, cd_reason = reason, cd_message = message,
      cd_last_transition_time = now, cd_observed_time = now\<rparr>"

record AuditMetadata =
  am_created_by :: string
  am_updated_by :: string
  am_approved_by :: string
  am_deployment :: string

record ObjectMeta =
  om_uid :: string
  om_schema_version :: u32
  om_name :: string
  om_namespace :: string
  om_owner_principal :: string
  om_created_at :: instant
  om_updated_at :: instant
  om_generation :: u64
  om_resource_version :: string
  om_labels :: "string \<rightharpoonup> string"
  om_annotations :: "string \<rightharpoonup> string"
  om_phase :: string
  om_phase_reason :: string
  om_health :: HealthStatus
  om_conditions :: "Condition list"
  om_trace_id :: string
  om_audit :: "AuditMetadata option"

definition object_meta_new :: "string \<Rightarrow> instant \<Rightarrow> string \<Rightarrow> string \<Rightarrow> string \<Rightarrow> ObjectMeta" where
  "object_meta_new uuid now name namespace owner_principal =
     \<lparr>om_uid = uuid, om_schema_version = 1, om_name = name, om_namespace = namespace,
      om_owner_principal = owner_principal, om_created_at = now, om_updated_at = now,
      om_generation = 1, om_resource_version = ''1'', om_labels = Map.empty,
      om_annotations = Map.empty, om_phase = ''CREATED'', om_phase_reason = [],
      om_health = HS_Unknown, om_conditions = [], om_trace_id = [], om_audit = None\<rparr>"

definition bump_generation :: "instant \<Rightarrow> ObjectMeta \<Rightarrow> ObjectMeta" where
  "bump_generation now m =
     m\<lparr>om_generation := om_generation m + 1, om_updated_at := now,
       om_resource_version := show_nat (unat (om_generation m + 1))\<rparr>"

definition set_phase :: "instant \<Rightarrow> string \<Rightarrow> string \<Rightarrow> ObjectMeta \<Rightarrow> ObjectMeta" where
  "set_phase now phase reason m = bump_generation now (m\<lparr>om_phase := phase, om_phase_reason := reason\<rparr>)"

definition set_condition :: "instant \<Rightarrow> Condition \<Rightarrow> ObjectMeta \<Rightarrow> ObjectMeta" where
  "set_condition now c m =
     bump_generation now
       (m\<lparr>om_conditions :=
          filter (\<lambda>x. cd_condition_type x \<noteq> cd_condition_type c) (om_conditions m) @ [c]\<rparr>)"

section \<open>Kernel objects\<close>

text \<open>The three parts every kernel object has.\<close>

record ('spec, 'status) kernel_object =
  ko_meta :: ObjectMeta
  ko_spec :: 'spec
  ko_status :: 'status

definition update_status :: "instant \<Rightarrow> 'status \<Rightarrow> ('spec, 'status) kernel_object \<Rightarrow> ('spec, 'status) kernel_object" where
  "update_status now status x = x\<lparr>ko_status := status, ko_meta := bump_generation now (ko_meta x)\<rparr>"

definition uid :: "('spec, 'status) kernel_object \<Rightarrow> string" where
  "uid x = om_uid (ko_meta x)"

section \<open>Principals\<close>

datatype PrincipalType = PT_Unspecified | PT_User | PT_Service | PT_Node | PT_System

record PrincipalSpec =
  ps_principal_type :: PrincipalType
  ps_display_name :: string
  ps_public_key :: string
  ps_roles :: "string list"

record PrincipalStatus =
  pst_authenticated :: bool
  pst_last_seen :: "instant option"
  pst_active_leases :: "string list"

type_synonym Principal = "(PrincipalSpec, PrincipalStatus) kernel_object"

section \<open>Properties\<close>

text \<open>An object's history of metadata updates.\<close>

datatype meta_op =
    MSetPhase instant string string
  | MSetCondition instant Condition
  | MBump instant

fun meta_step :: "ObjectMeta \<Rightarrow> meta_op \<Rightarrow> ObjectMeta" where
  "meta_step m (MSetPhase now phase reason) = set_phase now phase reason m"
| "meta_step m (MSetCondition now c) = set_condition now c m"
| "meta_step m (MBump now) = bump_generation now m"

definition meta_inv :: "nat \<Rightarrow> ObjectMeta \<Rightarrow> bool" where
  "meta_inv n m \<longleftrightarrow>
     distinct (map cd_condition_type (om_conditions m)) \<and>
     om_generation m = 1 + of_nat n \<and>
     om_resource_version m = show_nat (unat (om_generation m))"

lemma distinct_map_filter: "distinct (map f xs) \<Longrightarrow> distinct (map f (filter P xs))"
  by (induction xs) auto

lemma meta_inv_step: "meta_inv n m \<Longrightarrow> meta_inv (Suc n) (meta_step m op)"
  by (cases op)
    (auto simp: meta_inv_def set_phase_def set_condition_def bump_generation_def distinct_map_filter)

lemma meta_inv_run: "meta_inv n m \<Longrightarrow> meta_inv (n + length ops) (foldl meta_step m ops)"
proof (induction ops arbitrary: n m)
  case (Cons op ops)
  then show ?case using Cons.IH [of "Suc n" "meta_step m op"] meta_inv_step by simp
qed simp

lemma show_nat_one: "show_nat 1 = ''1''"
  by (simp add: show_nat.simps)

text \<open>After any history of updates of a new object's metadata, every condition type occurs at
  most once, the generation is one more than the number of updates (as a 64-bit number), the
  resource version is its decimal text, and the condition set last under a type is the one found
  under it.\<close>

theorem metadata_stays_consistent:
  "let m = foldl meta_step (object_meta_new uuid now name ns owner) ops;
       m' = set_condition now' c m
   in distinct (map cd_condition_type (om_conditions m)) \<and>
      om_generation m = 1 + of_nat (length ops) \<and>
      om_resource_version m = show_nat (unat (om_generation m)) \<and>
      filter (\<lambda>x. cd_condition_type x = cd_condition_type c) (om_conditions m') = [c] \<and>
      om_uid m' = om_uid m"
proof -
  have "meta_inv 0 (object_meta_new uuid now name ns owner)"
    using show_nat_one by (simp add: meta_inv_def object_meta_new_def)
  from meta_inv_run [OF this, of ops] show ?thesis
    by (auto simp: meta_inv_def Let_def set_condition_def bump_generation_def filter_empty_conv)
qed

end
