(* ===== verification/Resource_Vectors.thy ===== *)
theory Resource_Vectors
  imports Kernel_Errors
begin

text \<open>
  The resource model (crates/nous-types/src/resource.rs), the domain hierarchy
  (crates/nous-resource/src/domain.rs) and the baseline estimator
  (crates/nous-resource/src/lib.rs).  Every dimension of a resource vector is a 64-bit word and
  vectors add and subtract with saturation, field by field.  The domain invariant
  \<open>domain_wf\<close> says that in every dimension allocations and reservations together stay within
  capacity; allocation and release keep it.
\<close>

section \<open>Resource vectors\<close>

record ResourceVector =
  rv_cpu_cores_millis :: u64
  rv_cpu_time_us :: u64
  rv_ram_bytes :: u64
  rv_pinned_ram_bytes :: u64
  rv_device_memory_bytes :: u64
  rv_kv_cache_bytes :: u64
  rv_storage_bytes :: u64
  rv_memory_bandwidth_bps :: u64
  rv_interconnect_bandwidth_bps :: u64
  rv_network_bandwidth_bps :: u64
  rv_power_milliwatts :: u64
  rv_thermal_budget_millic :: u64
  rv_time_budget_us :: u64

definition rv_zero :: ResourceVector where
  "rv_zero = \<lparr>rv_cpu_cores_millis = 0,
      rv_cpu_time_us = 0,
      rv_ram_bytes = 0,
      rv_pinned_ram_bytes = 0,
      rv_device_memory_bytes = 0,
      rv_kv_cache_bytes = 0,
      rv_storage_bytes = 0,
      rv_memory_bandwidth_bps = 0,
      rv_interconnect_bandwidth_bps = 0,
      rv_network_bandwidth_bps = 0,
      rv_power_milliwatts = 0,
      rv_thermal_budget_millic = 0,
      rv_time_budget_us = 0\<rparr>"

text \<open>The field-by-field combination both operators are written with.\<close>

definition rv_map2 :: "(u64 \<Rightarrow> u64 \<Rightarrow> u64) \<Rightarrow> ResourceVector \<Rightarrow> ResourceVector \<Rightarrow> ResourceVector" where
  "rv_map2 f a b = \<lparr>rv_cpu_cores_millis = f (rv_cpu_cores_millis a) (rv_cpu_cores_millis b),
      rv_cpu_time_us = f (rv_cpu_time_us a) (rv_cpu_time_us b),
      rv_ram_bytes = f (rv_ram_bytes a) (rv_ram_bytes b),
      rv_pinned_ram_bytes = f (rv_pinned_ram_bytes a) (rv_pinned_ram_bytes b),
      rv_device_memory_bytes = f (rv_device_memory_bytes a) (rv_device_memory_bytes b),
      rv_kv_cache_bytes = f (rv_kv_cache_bytes a) (rv_kv_cache_bytes b),
      rv_storage_bytes = f (rv_storage_bytes a) (rv_storage_bytes b),
      rv_memory_bandwidth_bps = f (rv_memory_bandwidth_bps a) (rv_memory_bandwidth_bps b),
      rv_interconnect_bandwidth_bps = f (rv_interconnect_bandwidth_bps a) (rv_interconnect_bandwidth_bps b),
      rv_network_bandwidth_bps = f (rv_network_bandwidth_bps a) (rv_network_bandwidth_bps b),
      rv_power_milliwatts = f (rv_power_milliwatts a) (rv_power_milliwatts b),
      rv_thermal_budget_millic = f (rv_thermal_budget_millic a) (rv_thermal_budget_millic b),
      rv_time_budget_us = f (rv_time_budget_us a) (rv_time_budget_us b)\<rparr>"

definition rv_add :: "ResourceVector \<Rightarrow> ResourceVector \<Rightarrow> ResourceVector" where
  "rv_add a b = rv_map2 sat_add a b"

definition rv_sub :: "ResourceVector \<Rightarrow> ResourceVector \<Rightarrow> ResourceVector" where
  "rv_sub a b = rv_map2 sat_sub a b"

definition max_per_dimension :: "ResourceVector \<Rightarrow> ResourceVector \<Rightarrow> ResourceVector" where
  "max_per_dimension a b = rv_map2 max a b"

definition fits_within :: "ResourceVector \<Rightarrow> ResourceVector \<Rightarrow> bool" where
  "fits_within a c \<longleftrightarrow>
     rv_cpu_cores_millis a \<le> rv_cpu_cores_millis c \<and>
     rv_cpu_time_us a \<le> rv_cpu_time_us c \<and>
     rv_ram_bytes a \<le> rv_ram_bytes c \<and>
     rv_pinned_ram_bytes a \<le> rv_pinned_ram_bytes c \<and>
     rv_device_memory_bytes a \<le> rv_device_memory_bytes c \<and>
     rv_kv_cache_bytes a \<le> rv_kv_cache_bytes c \<and>
     rv_storage_bytes a \<le> rv_storage_bytes c \<and>
     rv_memory_bandwidth_bps a \<le> rv_memory_bandwidth_bps c \<and>
     rv_interconnect_bandwidth_bps a \<le> rv_interconnect_bandwidth_bps c \<and>
     rv_network_bandwidth_bps a \<le> rv_network_bandwidth_bps c \<and>
     rv_power_milliwatts a \<le> rv_power_milliwatts c \<and>
     rv_thermal_budget_millic a \<le> rv_thermal_budget_millic c \<and>
     rv_time_budget_us a \<le> rv_time_budget_us c"

definition is_zero :: "ResourceVector \<Rightarrow> bool" where
  "is_zero a \<longleftrightarrow> a = rv_zero"

section \<open>Domains\<close>

record ResourceLimits =
  lim_max_cpu_cores_millis :: "u64 option"
  lim_max_ram_bytes :: "u64 option"
  lim_max_device_memory_bytes :: "u64 option"
  lim_max_kv_cache_bytes :: "u64 option"
  lim_max_storage_bytes :: "u64 option"
  lim_max_power_milliwatts :: "u64 option"
  lim_max_concurrent_workloads :: "u64 option"

definition no_limits :: ResourceLimits where
  "no_limits = \<lparr>lim_max_cpu_cores_millis = None, lim_max_ram_bytes = None,
                lim_max_device_memory_bytes = None, lim_max_kv_cache_bytes = None,
                lim_max_storage_bytes = None, lim_max_power_milliwatts = None,
                lim_max_concurrent_workloads = None\<rparr>"

record ResourceDomain =
  dom_id :: string
  dom_parent :: "string option"
  dom_capacity :: ResourceVector
  dom_allocated :: ResourceVector
  dom_reserved :: ResourceVector
  dom_hard_limits :: ResourceLimits
  dom_soft_limits :: ResourceLimits

definition dom_available :: "ResourceDomain \<Rightarrow> ResourceVector" where
  "dom_available d = rv_sub (rv_sub (dom_capacity d) (dom_allocated d)) (dom_reserved d)"

definition can_fit :: "ResourceDomain \<Rightarrow> ResourceVector \<Rightarrow> bool" where
  "can_fit d request =
     (let available = rv_sub (rv_sub (dom_capacity d) (dom_allocated d)) (dom_reserved d)
      in fits_within request available)"

text \<open>
  The hierarchy is a map from domain ids to domains.  Operations return their result and the
  hierarchy they leave behind.  The derived \<open>Debug\<close> printing of vectors in one error message
  is the parameter \<open>dbg\<close>.
\<close>

type_synonym DomainHierarchy = "string \<rightharpoonup> ResourceDomain"

definition hierarchy_new :: "ResourceDomain \<Rightarrow> DomainHierarchy" where
  "hierarchy_new root = [dom_id root \<mapsto> root]"

definition hierarchy_register ::
  "DomainHierarchy \<Rightarrow> ResourceDomain \<Rightarrow> unit nous_result \<times> DomainHierarchy" where
  "hierarchy_register h d =
     (case dom_parent d of
        Some p \<Rightarrow>
          if h p = None
          then (Inl (nous_error EC_NotFound (''Parent domain '' @ quoted p @ '' not found'')), h)
          else (Inr (), h(dom_id d \<mapsto> d))
      | None \<Rightarrow> (Inr (), h(dom_id d \<mapsto> d)))"

definition hierarchy_allocate ::
  "(ResourceVector \<Rightarrow> string) \<Rightarrow> DomainHierarchy \<Rightarrow> string \<Rightarrow> ResourceVector
     \<Rightarrow> unit nous_result \<times> DomainHierarchy" where
  "hierarchy_allocate dbg h did request =
     (case h did of
        None \<Rightarrow> (Inl (nous_error EC_NotFound (''Domain '' @ quoted did @ '' not found'')), h)
      | Some d \<Rightarrow>
          if \<not> can_fit d request
          then (Inl (nous_error EC_ResourceInsufficient
                  (''Insufficient resources in domain '' @ quoted did @ '': available='' @
                   dbg (dom_available d) @ '', requested='' @ dbg request)), h)
          else (Inr (), h(did \<mapsto> d\<lparr>dom_allocated := rv_add (dom_allocated d) request\<rparr>)))"

definition hierarchy_free ::
  "DomainHierarchy \<Rightarrow> string \<Rightarrow> ResourceVector \<Rightarrow> unit nous_result \<times> DomainHierarchy" where
  "hierarchy_free h did freed =
     (case h did of
        None \<Rightarrow> (Inl (nous_error EC_NotFound (''Domain '' @ quoted did @ '' not found'')), h)
      | Some d \<Rightarrow> (Inr (), h(did \<mapsto> d\<lparr>dom_allocated := rv_sub (dom_allocated d) freed\<rparr>)))"

definition hierarchy_available :: "DomainHierarchy \<Rightarrow> string \<Rightarrow> ResourceVector option" where
  "hierarchy_available h did = map_option dom_available (h did)"

section \<open>The baseline estimator\<close>

text \<open>Products and sums wrap at 64 bits, as in a release build.\<close>

definition estimate_resources :: "u64 \<Rightarrow> u64 \<Rightarrow> u64 \<Rightarrow> u8 \<Rightarrow> ResourceVector" where
  "estimate_resources model_params context_length max_output_tokens quantization_bits =
     (let bytes_per_param = (ucast quantization_bits :: u64) div 8;
          weight_bytes = model_params * bytes_per_param;
          kv_bytes_per_token = (if quantization_bits \<le> 4 then 512 else 1024);
          kv_cache = kv_bytes_per_token * context_length;
          output_buffer = max_output_tokens * kv_bytes_per_token
      in rv_zero\<lparr>rv_device_memory_bytes := weight_bytes + kv_cache + output_buffer,
                 rv_ram_bytes := weight_bytes,
                 rv_kv_cache_bytes := kv_cache\<rparr>)"

section \<open>Dimensions\<close>

text \<open>The thirteen dimensions as a list, so that facts about one dimension carry to all.\<close>

definition rv_dims :: "ResourceVector \<Rightarrow> u64 list" where
  "rv_dims v = [rv_cpu_cores_millis v,
     rv_cpu_time_us v,
     rv_ram_bytes v,
     rv_pinned_ram_bytes v,
     rv_device_memory_bytes v,
     rv_kv_cache_bytes v,
     rv_storage_bytes v,
     rv_memory_bandwidth_bps v,
     rv_interconnect_bandwidth_bps v,
     rv_network_bandwidth_bps v,
     rv_power_milliwatts v,
     rv_thermal_budget_millic v,
     rv_time_budget_us v]"

definition rv_dim :: "ResourceVector \<Rightarrow> nat \<Rightarrow> u64" where
  "rv_dim v i = rv_dims v ! i"

definition domain_wf :: "ResourceDomain \<Rightarrow> bool" where
  "domain_wf d \<longleftrightarrow>
     (\<forall>i<13. unat (rv_dim (dom_allocated d) i) + unat (rv_dim (dom_reserved d) i)
            \<le> unat (rv_dim (dom_capacity d) i))"

definition hierarchy_wf :: "DomainHierarchy \<Rightarrow> bool" where
  "hierarchy_wf h \<longleftrightarrow> (\<forall>k d. h k = Some d \<longrightarrow> domain_wf d)"

lemma all_less_13: "(\<forall>i<13. P i) \<longleftrightarrow> list_all P [0, 1, 2, 3, 4, 5, 6, 7, 8, 9, 10, 11, 12::nat]"
proof -
  have "[0..<13] = [0, 1, 2, 3, 4, 5, 6, 7, 8, 9, 10, 11, 12::nat]"
    by code_simp
  moreover have "(\<forall>i<13. P i) \<longleftrightarrow> list_all P [0..<13]"
    by (auto simp: list_all_iff)
  ultimately show ?thesis by simp
qed

lemma rv_eq_iff: "a = b \<longleftrightarrow> (\<forall>i<13. rv_dim a i = rv_dim b i)"
  by (cases a, cases b) (simp add: all_less_13 rv_dim_def rv_dims_def)

lemma fits_within_iff: "fits_within a c \<longleftrightarrow> (\<forall>i<13. rv_dim a i \<le> rv_dim c i)"
  by (simp add: all_less_13 rv_dim_def rv_dims_def fits_within_def)

lemma rv_dim_map2:
  assumes "i < 13"
  shows "rv_dim (rv_map2 f a b) i = f (rv_dim a i) (rv_dim b i)"
proof -
  have "\<forall>i<13. rv_dim (rv_map2 f a b) i = f (rv_dim a i) (rv_dim b i)"
    unfolding all_less_13 by (simp add: rv_dim_def rv_dims_def rv_map2_def)
  with assms show ?thesis by blast
qed

lemma rv_dim_zero: "i < 13 \<Longrightarrow> rv_dim rv_zero i = 0"
proof -
  have "\<forall>i<13. rv_dim rv_zero i = 0"
    unfolding all_less_13 by (simp add: rv_dim_def rv_dims_def rv_zero_def)
  then show "i < 13 \<Longrightarrow> rv_dim rv_zero i = 0" by blast
qed

lemmas rv_dim_ops = rv_add_def rv_sub_def max_per_dimension_def rv_dim_map2 rv_dim_zero
  unat_sat_add unat_sat_sub word_le_nat_alt

lemma unat_rv_dim_available:
  "i < 13 \<Longrightarrow> unat (rv_dim (dom_available d) i) =
     unat (rv_dim (dom_capacity d) i) - unat (rv_dim (dom_allocated d) i)
       - unat (rv_dim (dom_reserved d) i)"
  by (simp add: dom_available_def rv_dim_ops)

lemma can_fit_iff:
  "can_fit d r \<longleftrightarrow> (\<forall>i<13. unat (rv_dim r i) \<le> unat (rv_dim (dom_available d) i))"
  by (simp add: can_fit_def fits_within_iff dom_available_def word_le_nat_alt)

lemma fits_within_refl [simp]: "fits_within a a"
  by (simp add: fits_within_iff)

lemma fits_within_trans: "fits_within a b \<Longrightarrow> fits_within b c \<Longrightarrow> fits_within a c"
  using order_trans by (fastforce simp: fits_within_iff)

lemma fits_within_zero [simp]: "fits_within rv_zero a"
  by (simp add: fits_within_iff rv_dim_zero)

lemma rv_add_dim_exact:
  assumes "domain_wf d" "can_fit d r" "i < 13"
  shows "unat (rv_dim (rv_add (dom_allocated d) r) i) =
    unat (rv_dim (dom_allocated d) i) + unat (rv_dim r i)"
proof -
  have cap: "unat (rv_dim (dom_capacity d) i) < 2 ^ 64"
    using unsigned_less [of "rv_dim (dom_capacity d) i"] by simp
  have "unat (rv_dim r i) \<le> unat (rv_dim (dom_available d) i)"
    using assms(2,3) by (simp add: can_fit_iff)
  then show ?thesis
    using cap assms(3) spec [OF assms(1) [unfolded domain_wf_def], of i]
    by (simp add: unat_rv_dim_available rv_dim_ops)
qed

lemma domain_wf_allocate:
  assumes wf: "domain_wf d" and fit: "can_fit d r"
  shows "domain_wf (d\<lparr>dom_allocated := rv_add (dom_allocated d) r\<rparr>)"
  unfolding domain_wf_def
proof (intro allI impI)
  fix i :: nat assume i: "i < 13"
  have "unat (rv_dim r i) \<le> unat (rv_dim (dom_available d) i)"
    using fit i by (simp add: can_fit_iff)
  then show "unat (rv_dim (dom_allocated (d\<lparr>dom_allocated := rv_add (dom_allocated d) r\<rparr>)) i)
      + unat (rv_dim (dom_reserved (d\<lparr>dom_allocated := rv_add (dom_allocated d) r\<rparr>)) i)
    \<le> unat (rv_dim (dom_capacity (d\<lparr>dom_allocated := rv_add (dom_allocated d) r\<rparr>)) i)"
    using wf i rv_add_dim_exact [OF wf fit i] spec [OF wf [unfolded domain_wf_def], of i]
    by (simp add: unat_rv_dim_available)
qed

lemma domain_wf_free:
  "domain_wf d \<Longrightarrow> domain_wf (d\<lparr>dom_allocated := rv_sub (dom_allocated d) r\<rparr>)"
  by (fastforce simp: domain_wf_def rv_dim_ops)

lemma hierarchy_wf_update [intro]:
  "hierarchy_wf h \<Longrightarrow> domain_wf d \<Longrightarrow> hierarchy_wf (h(k \<mapsto> d))"
  by (simp add: hierarchy_wf_def)

lemma hierarchy_wfD [dest]: "hierarchy_wf h \<Longrightarrow> h k = Some d \<Longrightarrow> domain_wf d"
  by (auto simp: hierarchy_wf_def)

text \<open>A domain with some RAM, for evaluation.\<close>

definition demo_domain :: ResourceDomain where
  "demo_domain =
     \<lparr>dom_id = ''system'', dom_parent = None, dom_capacity = rv_zero\<lparr>rv_ram_bytes := 1000\<rparr>,
      dom_allocated = rv_zero\<lparr>rv_ram_bytes := 300\<rparr>, dom_reserved = rv_zero\<lparr>rv_ram_bytes := 100\<rparr>,
      dom_hard_limits = no_limits, dom_soft_limits = no_limits\<rparr>"

lemma demo_domain_wf: "domain_wf demo_domain"
  unfolding domain_wf_def all_less_13
  by (simp add: demo_domain_def rv_dim_def rv_dims_def rv_zero_def)

lemma demo_hierarchy_wf: "hierarchy_wf (hierarchy_new demo_domain)"
  using demo_domain_wf by (simp add: hierarchy_wf_def hierarchy_new_def)

section \<open>Properties\<close>



text \<open>An allocation succeeds exactly when the domain exists and the request fits into what is
  available; on success the allocated vector grows by exactly the request in every dimension
  (no saturation occurs) and freeing the same request restores the hierarchy; on failure the
  hierarchy is unchanged and the error code says which of the two conditions failed.\<close>

theorem allocate_exact_and_reversible:
  assumes "hierarchy_wf h"
  shows "case hierarchy_allocate dbg h k r of
      (Inr _, h') \<Rightarrow>
        (\<exists>d d'. h k = Some d \<and> h' k = Some d' \<and> can_fit d r \<and>
           (\<forall>i<13. unat (rv_dim (dom_allocated d') i) =
              unat (rv_dim (dom_allocated d) i) + unat (rv_dim r i)) \<and>
           hierarchy_free h' k r = (Inr (), h))
    | (Inl e, h') \<Rightarrow> h' = h \<and>
        (ne_code e = EC_NotFound \<and> h k = None \<or>
         ne_code e = EC_ResourceInsufficient \<and> (\<exists>d. h k = Some d \<and> \<not> can_fit d r))"
proof (cases "h k")
  case None
  then show ?thesis by (simp add: hierarchy_allocate_def)
next
  case (Some d)
  show ?thesis
  proof (cases "can_fit d r")
    case False
    with Some show ?thesis by (simp add: hierarchy_allocate_def)
  next
    case True
    have wf: "domain_wf d" using assms Some by blast
    let ?a = "rv_add (dom_allocated d) r"
    have exact: "unat (rv_dim ?a i) = unat (rv_dim (dom_allocated d) i) + unat (rv_dim r i)"
      if "i < 13" for i using rv_add_dim_exact [OF wf True that] .
    have "rv_sub ?a r = dom_allocated d"
      using exact by (simp add: rv_eq_iff rv_dim_ops word_unat_eq_iff)
    then have "d\<lparr>dom_allocated := rv_sub ?a r\<rparr> = d" by simp
    with Some have "h(k \<mapsto> d\<lparr>dom_allocated := rv_sub ?a r\<rparr>) = h" by (auto simp: fun_eq_iff)
    with Some True exact show ?thesis
      by (simp add: hierarchy_allocate_def hierarchy_free_def)
  qed
qed

theorem allocate_exact_and_reversible_witness:
  "let h = hierarchy_new demo_domain; r = rv_zero\<lparr>rv_ram_bytes := 600\<rparr>;
       h' = snd (hierarchy_allocate (\<lambda>_. []) h ''system'' r)
   in fst (hierarchy_allocate (\<lambda>_. []) h ''system'' r) = Inr () \<and>
      hierarchy_free h' ''system'' r = (Inr (), h)"
proof -
  let ?h = "hierarchy_new demo_domain" and ?r = "rv_zero\<lparr>rv_ram_bytes := 600\<rparr>"
  have "can_fit demo_domain ?r"
    by (simp add: can_fit_def fits_within_def demo_domain_def rv_sub_def rv_map2_def rv_zero_def sat_sub_def)
  then have ok: "hierarchy_allocate (\<lambda>_. []) ?h ''system'' ?r =
      (Inr (), ?h(''system'' \<mapsto> demo_domain\<lparr>dom_allocated := rv_add (dom_allocated demo_domain) ?r\<rparr>))"
    by (simp add: hierarchy_allocate_def hierarchy_new_def demo_domain_def)
  show ?thesis
    using allocate_exact_and_reversible [OF demo_hierarchy_wf,
        where dbg = "\<lambda>_. []" and k = "''system''" and r = ?r] ok
    by (auto simp: Let_def)
qed

end
