(* ===== verification/Workload_Types.thy ===== *)
theory Workload_Types
  imports Object_Meta Resource_Vectors
begin

text \<open>
  Workloads (crates/nous-types/src/workload.rs): the specification a client submits with its
  requirements, budgets and policies, the execution graph, and the seventeen-phase lifecycle with
  its transition table.  A 64-bit float is the word of its bits; no definition computes with one.
  \<open>PriorityClass\<close> (crates/nous-types/src/resource.rs) is ordered as the source derives it.
\<close>

section \<open>Phases of a workload\<close>

datatype WorkloadPhase =
    Created | Validating | Validated | Rejected | Admitted | Placed | Preparing | Running
  | Quiescing | Checkpointing | Checkpointed | Recovering | Succeeded | WFailed | Cancelled | Lost
  | Quarantined

definition is_terminal :: "WorkloadPhase \<Rightarrow> bool" where
  "is_terminal p \<longleftrightarrow> p \<in> {Rejected, Succeeded, WFailed, Cancelled, Lost, Quarantined}"

definition is_active :: "WorkloadPhase \<Rightarrow> bool" where
  "is_active p \<longleftrightarrow> p \<in> {Preparing, Running, Quiescing, Checkpointing, Recovering}"

definition phase_table :: "(WorkloadPhase \<times> WorkloadPhase) list" where
  "phase_table =
     [(Created, Validating), (Created, Cancelled),
      (Validating, Validated), (Validating, Rejected),
      (Validated, Admitted), (Validated, Rejected),
      (Admitted, Placed), (Admitted, Cancelled),
      (Placed, Preparing), (Placed, Cancelled),
      (Preparing, Running), (Preparing, WFailed), (Preparing, Cancelled),
      (Running, Quiescing), (Running, Checkpointing), (Running, Succeeded), (Running, WFailed),
      (Running, Cancelled), (Running, Lost),
      (Quiescing, Checkpointing), (Quiescing, Succeeded), (Quiescing, WFailed), (Quiescing, Cancelled),
      (Checkpointing, Checkpointed), (Checkpointing, WFailed),
      (Checkpointed, Running), (Checkpointed, Recovering), (Checkpointed, Cancelled),
      (Recovering, Running), (Recovering, WFailed), (Recovering, Cancelled),
      (WFailed, Recovering), (WFailed, Quarantined),
      (Lost, Recovering)]"

definition can_transition_to :: "WorkloadPhase \<Rightarrow> WorkloadPhase \<Rightarrow> bool" where
  "can_transition_to p q \<longleftrightarrow> p = q \<or> (p, q) \<in> set phase_table"

section \<open>Requirements, budgets and policies\<close>

datatype PriorityClass = PC_System | PC_Interactive | PC_Batch | PC_BestEffort

primrec priority_rank :: "PriorityClass \<Rightarrow> nat" where
  "priority_rank PC_System = 0"
| "priority_rank PC_Interactive = 1"
| "priority_rank PC_Batch = 2"
| "priority_rank PC_BestEffort = 3"

instantiation PriorityClass :: linorder
begin

definition less_eq_PriorityClass :: "PriorityClass \<Rightarrow> PriorityClass \<Rightarrow> bool" where
  "less_eq_PriorityClass p q \<longleftrightarrow> priority_rank p \<le> priority_rank q"

definition less_PriorityClass :: "PriorityClass \<Rightarrow> PriorityClass \<Rightarrow> bool" where
  "less_PriorityClass p q \<longleftrightarrow> priority_rank p < priority_rank q"

instance
proof
  fix x y :: PriorityClass
  show "x \<le> y \<Longrightarrow> y \<le> x \<Longrightarrow> x = y"
    by (cases x; cases y) (simp_all add: less_eq_PriorityClass_def)
qed (auto simp: less_eq_PriorityClass_def less_PriorityClass_def)

end

datatype PreemptionPolicy = PP_Never | PP_IfLowerPriority | PP_Always

datatype SchedulingClass =
  SC_System | SC_Deadline | SC_Interactive | SC_Batch | SC_Background | SC_Maintenance

datatype WorkloadType =
    WT_Unspecified | WT_Chat | WT_Completion | WT_StructuredOutput | WT_Embedding | WT_Rerank
  | WT_Vision | WT_Speech | WT_ModelInference | WT_AgentProgram | WT_Workflow | WT_ToolExecution
  | WT_Retrieval | WT_Evaluation | WT_Batch | WT_DeviceOperation | WT_ModelImport | WT_ModelCompile
  | WT_Benchmark | WT_KernelCommand

datatype Modality = MO_Unspecified | MO_Text | MO_Image | MO_Audio | MO_Video | MO_Code

datatype QuantizationTolerance = QT_FullPrecisionOnly | QT_Int8Ok | QT_Int4Ok | QT_Any

datatype RoutingPreference =
  RP_Any | RP_LocalOnly | RP_LocalPreferred | RP_LowestLatency | RP_LowestCost | RP_HighestQuality

datatype DeviceType =
    DT_Unspecified | DT_Cpu | DT_Cuda | DT_Rocm | DT_Vulkan | DT_OpenVino | DT_Metal | DT_Sycl
  | DT_Cann | DT_Qnn | DT_Dsp | DT_Fpga | DT_Npu | DT_Remote

datatype DataClassification = DC_Public | DC_Internal | DC_Confidential | DC_Restricted

datatype CostModel = CM_PerToken | CM_PerRequest | CM_PerSecond

datatype CheckpointStrategy = CK_None | CK_BeforeRiskyPhase | CK_Periodic | CK_AfterEveryPhase

datatype OutputFormat = OF_Text | OF_Json | OF_JsonSchema | OF_Stream

record ModelRequirements =
  mr_allowed_model_families :: "string list"
  mr_allowed_architectures :: "string list"
  mr_excluded_models :: "string list"
  mr_preferred_model :: string
  mr_max_tokens_per_request :: u64
  mr_min_context_length :: u64
  mr_max_context_length :: u64
  mr_min_quality_score :: u64
  mr_thinking_required :: bool
  mr_min_thinking_budget :: u32
  mr_input_modalities :: "Modality list"
  mr_output_modalities :: "Modality list"
  mr_quantization :: QuantizationTolerance
  mr_max_acceptable_perplexity_increase :: u64
  mr_routing :: RoutingPreference

record CapabilityRequirements =
  cr_required_capabilities :: "string list"
  cr_forbidden_capabilities :: "string list"
  cr_minimum_capability_level :: string

record DeviceRequirements =
  dr_allowed_device_types :: "DeviceType list"
  dr_min_vram_bytes :: u64
  dr_require_unified_memory :: bool
  dr_required_extensions :: "string list"

record QualityEscalation =
  qe_enabled :: bool
  qe_max_retries :: u32
  qe_fallback_model :: string
  qe_escalation_verifier :: string

record QualityRequirements =
  qr_minimum_quality :: u64
  qr_uncertainty_limit :: u64
  qr_verification_required :: bool
  qr_verifier_model :: string
  qr_evidence_required :: bool
  qr_human_review_required :: bool
  qr_escalation :: "QualityEscalation option"
  qr_required_benchmarks :: "string list"

record SecurityRequirements =
  sr_data_classification :: DataClassification
  sr_allow_network_access :: bool
  sr_allowed_hosts :: "string list"
  sr_allow_file_access :: bool
  sr_allowed_paths :: "string list"
  sr_allow_side_effects :: bool
  sr_reversible_side_effects_only :: bool
  sr_require_approval :: bool
  sr_isolation_profile :: string
  sr_audit_all_output :: bool

record ResourceRequirements =
  rq_minimum :: ResourceVector
  rq_maximum :: ResourceVector
  rq_preferred :: ResourceVector
  rq_priority :: PriorityClass
  rq_preemption :: PreemptionPolicy

record LatencySLO =
  ls_max_ttft_ms :: u64
  ls_max_tpot_ms :: u64
  ls_max_total_ms :: u64
  ls_max_queue_ms :: u64

record EnergyBudget =
  eb_max_joules :: u64
  eb_prefer_efficiency :: bool

record CostBudget =
  cb_max_microcents :: u64
  cb_currency :: string
  cb_cost_model :: CostModel

record CheckpointPolicy =
  ckp_enabled :: bool
  ckp_strategy :: CheckpointStrategy
  ckp_min_interval_seconds :: u32
  ckp_max_checkpoints :: u32
  ckp_retention_seconds :: u32

record CancellationPolicy =
  cnp_cancellable :: bool
  cnp_graceful :: bool
  cnp_grace_period_seconds :: u32
  cnp_uncancellable_phases :: "string list"

record RetryPolicy =
  rtp_max_retries :: u32
  rtp_initial_backoff_ms :: u32
  rtp_max_backoff_ms :: u32
  rtp_backoff_multiplier :: u64
  rtp_retryable_errors :: "string list"
  rtp_retry_on_timeout :: bool

record FallbackStep =
  fs_condition :: string
  fs_action :: string
  fs_target :: string

record FallbackPolicy =
  fp_enabled :: bool
  fp_steps :: "FallbackStep list"

record OutputContract =
  oc_format :: OutputFormat
  oc_json_schema :: string
  oc_max_output_tokens :: u32
  oc_include_reasoning :: bool
  oc_include_evidence :: bool
  oc_include_tool_traces :: bool
  oc_include_metrics :: bool
  oc_redact_patterns :: "string list"

section \<open>The execution graph\<close>

datatype PhaseType =
    PH_Unspecified | PH_Receive | PH_Validate | PH_Authenticate | PH_ResolveContext | PH_Retrieve
  | PH_Plan | PH_Admit | PH_Place | PH_Prepare | PH_Tokenize | PH_Encode | PH_Prefill | PH_Decode
  | PH_ToolExecute | PH_Observe | PH_Verify | PH_Replan | PH_Finalize | PH_Commit | PH_Compensate
  | PH_Checkpoint

datatype EdgeCondition =
    EC_Always | EC_OnSuccess | EC_OnFailure | EC_OnOutput string string | EC_OnQuality u64
  | EC_OnApproval string | EC_OnRetryExhausted u32

record PhaseConfig =
  pc_input_artifacts :: "string list"
  pc_output_artifacts :: "string list"
  pc_allowed_devices :: "string list"
  pc_allowed_engines :: "string list"
  pc_estimated_resources :: "ResourceVector option"
  pc_is_idempotent :: bool
  pc_is_cancellable :: bool
  pc_is_retryable :: bool
  pc_is_migratable :: bool
  pc_is_checkpointable :: bool
  pc_is_speculatable :: bool
  pc_has_side_effects :: bool
  pc_compensation_phase_id :: "string option"
  pc_timeout_seconds :: u32
  pc_estimated_duration_ms :: u32
  pc_quality_verifier_phase_id :: "string option"

record PhaseNode =
  pn_node_id :: string
  pn_phase_type :: PhaseType
  pn_config :: PhaseConfig
  pn_description :: string

record PhaseEdge =
  pe_from_node_id :: string
  pe_to_node_id :: string
  pe_condition :: "EdgeCondition option"

record ExecutionGraph =
  eg_nodes :: "PhaseNode list"
  eg_edges :: "PhaseEdge list"
  eg_entry_node_id :: string

section \<open>The specification\<close>

record WorkloadSpec =
  ws_workload_id :: string
  ws_idempotency_key :: string
  ws_schema_version :: u32
  ws_principal_id :: string
  ws_namespace :: string
  ws_goal :: string
  ws_workload_type :: WorkloadType
  ws_execution_graph :: ExecutionGraph
  ws_model_requirements :: ModelRequirements
  ws_capability_requirements :: CapabilityRequirements
  ws_device_requirements :: DeviceRequirements
  ws_quality_requirements :: QualityRequirements
  ws_security_requirements :: SecurityRequirements
  ws_resource_requirements :: ResourceRequirements
  ws_scheduling_class :: SchedulingClass
  ws_latency_slo :: LatencySLO
  ws_deadline_us :: int
  ws_energy_budget :: EnergyBudget
  ws_cost_budget :: CostBudget
  ws_checkpoint_policy :: CheckpointPolicy
  ws_cancellation_policy :: CancellationPolicy
  ws_retry_policy :: RetryPolicy
  ws_fallback_policy :: FallbackPolicy
  ws_output_contract :: OutputContract

definition checkpoint_policy_default :: CheckpointPolicy where
  "checkpoint_policy_default =
     \<lparr>ckp_enabled = False, ckp_strategy = CK_None, ckp_min_interval_seconds = 60,
      ckp_max_checkpoints = 5, ckp_retention_seconds = 3600\<rparr>"

definition cancellation_policy_default :: CancellationPolicy where
  "cancellation_policy_default =
     \<lparr>cnp_cancellable = True, cnp_graceful = True, cnp_grace_period_seconds = 30,
      cnp_uncancellable_phases = []\<rparr>"

text \<open>The multiplier 2.0 is the float with the bits \<open>0x4000000000000000\<close>.\<close>

definition retry_policy_default :: RetryPolicy where
  "retry_policy_default =
     \<lparr>rtp_max_retries = 3, rtp_initial_backoff_ms = 100, rtp_max_backoff_ms = 10000,
      rtp_backoff_multiplier = 0x4000000000000000, rtp_retryable_errors = [],
      rtp_retry_on_timeout = True\<rparr>"

definition output_contract_default :: OutputContract where
  "output_contract_default =
     \<lparr>oc_format = OF_Text, oc_json_schema = [], oc_max_output_tokens = 4096,
      oc_include_reasoning = False, oc_include_evidence = False, oc_include_tool_traces = False,
      oc_include_metrics = False, oc_redact_patterns = []\<rparr>"

definition execution_graph_default :: ExecutionGraph where
  "execution_graph_default = \<lparr>eg_nodes = [], eg_edges = [], eg_entry_node_id = []\<rparr>"

definition model_requirements_default :: ModelRequirements where
  "model_requirements_default =
     \<lparr>mr_allowed_model_families = [], mr_allowed_architectures = [], mr_excluded_models = [],
      mr_preferred_model = [], mr_max_tokens_per_request = 0, mr_min_context_length = 0,
      mr_max_context_length = 0, mr_min_quality_score = 0, mr_thinking_required = False,
      mr_min_thinking_budget = 0, mr_input_modalities = [], mr_output_modalities = [],
      mr_quantization = QT_FullPrecisionOnly, mr_max_acceptable_perplexity_increase = 0,
      mr_routing = RP_Any\<rparr>"

definition security_requirements_default :: SecurityRequirements where
  "security_requirements_default =
     \<lparr>sr_data_classification = DC_Public, sr_allow_network_access = False, sr_allowed_hosts = [],
      sr_allow_file_access = False, sr_allowed_paths = [], sr_allow_side_effects = False,
      sr_reversible_side_effects_only = False, sr_require_approval = False,
      sr_isolation_profile = [], sr_audit_all_output = False\<rparr>"

definition resource_requirements_default :: ResourceRequirements where
  "resource_requirements_default =
     \<lparr>rq_minimum = rv_zero, rq_maximum = rv_zero, rq_preferred = rv_zero,
      rq_priority = PC_Interactive, rq_preemption = PP_Never\<rparr>"

definition workload_spec_default :: WorkloadSpec where
  "workload_spec_default =
     \<lparr>ws_workload_id = [], ws_idempotency_key = [], ws_schema_version = 1, ws_principal_id = [],
      ws_namespace = [], ws_goal = [], ws_workload_type = WT_Unspecified,
      ws_execution_graph = execution_graph_default,
      ws_model_requirements = model_requirements_default,
      ws_capability_requirements =
        \<lparr>cr_required_capabilities = [], cr_forbidden_capabilities = [], cr_minimum_capability_level = []\<rparr>,
      ws_device_requirements =
        \<lparr>dr_allowed_device_types = [], dr_min_vram_bytes = 0, dr_require_unified_memory = False,
         dr_required_extensions = []\<rparr>,
      ws_quality_requirements =
        \<lparr>qr_minimum_quality = 0, qr_uncertainty_limit = 0, qr_verification_required = False,
         qr_verifier_model = [], qr_evidence_required = False, qr_human_review_required = False,
         qr_escalation = None, qr_required_benchmarks = []\<rparr>,
      ws_security_requirements = security_requirements_default,
      ws_resource_requirements = resource_requirements_default,
      ws_scheduling_class = SC_Interactive,
      ws_latency_slo = \<lparr>ls_max_ttft_ms = 0, ls_max_tpot_ms = 0, ls_max_total_ms = 0, ls_max_queue_ms = 0\<rparr>,
      ws_deadline_us = 0,
      ws_energy_budget = \<lparr>eb_max_joules = 0, eb_prefer_efficiency = False\<rparr>,
      ws_cost_budget = \<lparr>cb_max_microcents = 0, cb_currency = [], cb_cost_model = CM_PerToken\<rparr>,
      ws_checkpoint_policy = checkpoint_policy_default,
      ws_cancellation_policy = cancellation_policy_default,
      ws_retry_policy = retry_policy_default,
      ws_fallback_policy = \<lparr>fp_enabled = False, fp_steps = []\<rparr>,
      ws_output_contract = output_contract_default\<rparr>"

definition new_chat :: "string \<Rightarrow> WorkloadSpec" where
  "new_chat goal = workload_spec_default\<lparr>ws_goal := goal, ws_workload_type := WT_Chat\<rparr>"

definition new_agent :: "string \<Rightarrow> ExecutionGraph \<Rightarrow> WorkloadSpec" where
  "new_agent goal graph =
     workload_spec_default\<lparr>ws_goal := goal, ws_workload_type := WT_AgentProgram,
       ws_execution_graph := graph\<rparr>"

section \<open>Lifecycles\<close>

text \<open>A lifecycle is a sequence of phases that starts at \<open>Created\<close> and follows the table.\<close>

fun lifecycle_from :: "WorkloadPhase \<Rightarrow> WorkloadPhase list \<Rightarrow> bool" where
  "lifecycle_from p [] = True"
| "lifecycle_from p (q # qs) = (can_transition_to p q \<and> lifecycle_from q qs)"

text \<open>The phases a workload can only reach through admission and placement.\<close>

definition needs_placement :: "WorkloadPhase \<Rightarrow> bool" where
  "needs_placement p \<longleftrightarrow>
     p \<in> {Preparing, Running, Quiescing, Checkpointing, Checkpointed, Recovering, Succeeded, WFailed,
          Lost, Quarantined}"

lemma can_transition_needs_placement:
  "can_transition_to p q \<Longrightarrow> needs_placement q \<Longrightarrow> \<not> needs_placement p \<Longrightarrow> p = Placed \<and> q = Preparing"
  by (cases p; cases q) (simp_all add: can_transition_to_def phase_table_def needs_placement_def)

lemma can_transition_placed:
  "can_transition_to p Placed \<Longrightarrow> p = Placed \<or> p = Admitted"
  by (cases p) (simp_all add: can_transition_to_def phase_table_def)

lemma can_transition_admitted:
  "can_transition_to p Admitted \<Longrightarrow> p = Admitted \<or> p = Validated"
  by (cases p) (simp_all add: can_transition_to_def phase_table_def)

lemma can_transition_validated:
  "can_transition_to p Validated \<Longrightarrow> p = Validated \<or> p = Validating"
  by (cases p) (simp_all add: can_transition_to_def phase_table_def)

lemma lifecycle_append:
  "lifecycle_from p (xs @ ys) \<longleftrightarrow> lifecycle_from p xs \<and> lifecycle_from (last (p # xs)) ys"
  by (induction xs arbitrary: p) auto

definition passed_through :: "WorkloadPhase \<Rightarrow> WorkloadPhase list \<Rightarrow> bool" where
  "passed_through p ps \<longleftrightarrow>
     (needs_placement p \<longrightarrow> subseq [Validated, Admitted, Placed, Preparing] ps) \<and>
     (p = Placed \<longrightarrow> subseq [Validated, Admitted, Placed] ps) \<and>
     (p = Admitted \<longrightarrow> subseq [Validated, Admitted] ps) \<and>
     (p = Validated \<longrightarrow> subseq [Validated] ps)"

lemma subseq_snoc: "subseq xs ys \<Longrightarrow> subseq (xs @ [z]) (ys @ [z])"
  by (rule list_emb_append_mono) simp_all

lemma subseq_weaken: "subseq xs ys \<Longrightarrow> subseq xs (ys @ [z])"
  by (rule subseq_order.trans) auto

lemma lifecycle_passes:
  "lifecycle_from Created ps \<Longrightarrow> passed_through (last (Created # ps)) ps"
proof (induction ps rule: rev_induct)
  case Nil
  then show ?case by (simp add: passed_through_def needs_placement_def)
next
  case (snoc q ps)
  let ?p = "last (Created # ps)"
  have prev: "passed_through ?p ps" and step: "can_transition_to ?p q"
    using snoc by (simp_all add: lifecycle_append)
  have "subseq [Validated, Admitted, Placed, Preparing] (ps @ [q])" if "needs_placement q"
  proof (cases "needs_placement ?p")
    case True
    then show ?thesis using prev by (auto simp: passed_through_def intro: subseq_weaken)
  next
    case False
    then have "?p = Placed" "q = Preparing" using can_transition_needs_placement step that by blast+
    then show ?thesis using prev subseq_snoc [of "[Validated, Admitted, Placed]" ps Preparing]
      by (simp add: passed_through_def)
  qed
  moreover have "subseq [Validated, Admitted, Placed] (ps @ [q])" if "q = Placed"
    using can_transition_placed [of ?p] step that prev subseq_snoc [of "[Validated, Admitted]" ps Placed]
    by (auto simp: passed_through_def intro: subseq_weaken)
  moreover have "subseq [Validated, Admitted] (ps @ [q])" if "q = Admitted"
    using can_transition_admitted [of ?p] step that prev subseq_snoc [of "[Validated]" ps Admitted]
    by (auto simp: passed_through_def intro: subseq_weaken)
  moreover have "subseq [Validated] (ps @ [q])" if "q = Validated"
    using that subseq_snoc [of "[]" ps Validated] by simp
  ultimately show ?case by (simp add: passed_through_def)
qed

section \<open>Properties\<close>

text \<open>No workload consumes resources, finishes or fails in execution without having been
  validated, admitted, placed and prepared, in this order: every lifecycle from \<open>Created\<close> that
  ends in such a phase passed through these four.\<close>

theorem execution_needs_admission:
  assumes "lifecycle_from Created ps" "ps \<noteq> []" "needs_placement (last ps)"
  shows "subseq [Validated, Admitted, Placed, Preparing] ps"
  using lifecycle_passes [OF assms(1)] assms(2,3) by (simp add: passed_through_def)

theorem execution_needs_admission_witness:
  "subseq [Validated, Admitted, Placed, Preparing]
     [Validating, Validated, Admitted, Placed, Preparing, Running, Succeeded]"
  using execution_needs_admission [of "[Validating, Validated, Admitted, Placed, Preparing, Running, Succeeded]"]
  by (simp add: can_transition_to_def phase_table_def needs_placement_def)

text \<open>Every workload can still end: from every phase some terminal phase is reachable in the
  table.\<close>

theorem termination_stays_possible:
  "\<exists>qs. lifecycle_from p qs \<and> is_terminal (last (p # qs))"
proof (cases p)
  case Validating
  then show ?thesis
    by (intro exI [of _ "[Rejected]"]) (simp add: can_transition_to_def phase_table_def is_terminal_def)
next
  case Validated
  then show ?thesis
    by (intro exI [of _ "[Rejected]"]) (simp add: can_transition_to_def phase_table_def is_terminal_def)
next
  case Checkpointing
  then show ?thesis
    by (intro exI [of _ "[WFailed]"]) (simp add: can_transition_to_def phase_table_def is_terminal_def)
qed (intro exI [of _ "[Cancelled]"] exI [of _ "[]"];
     simp add: can_transition_to_def phase_table_def is_terminal_def; fail)+

text \<open>The phases that are final are exactly rejected, succeeded, cancelled and quarantined:
  these have no transition to another phase.  Failed and lost, which \<open>is_terminal\<close> counts as having
  no further transitions, do have some, and a failed workload can run again.\<close>

theorem final_phases_exact:
  "(\<forall>q. can_transition_to p q = (q = p)) = (p \<in> {Rejected, Succeeded, Cancelled, Quarantined}) \<and>
   is_terminal WFailed \<and> is_terminal Lost \<and> lifecycle_from WFailed [Recovering, Running] \<and>
   lifecycle_from Lost [Recovering, Running]"
proof
  show "(\<forall>q. can_transition_to p q = (q = p)) = (p \<in> {Rejected, Succeeded, Cancelled, Quarantined})"
  proof
    assume "\<forall>q. can_transition_to p q = (q = p)"
    then have "\<not> can_transition_to p q" if "q \<noteq> p" for q using that by simp
    from this [of Validating] this [of Validated] this [of Rejected] this [of Placed] this [of Preparing]
      this [of Running] this [of Checkpointing] this [of Checkpointed] this [of Recovering] this [of WFailed]
    show "p \<in> {Rejected, Succeeded, Cancelled, Quarantined}"
      by (cases p) (simp_all add: can_transition_to_def phase_table_def)
  qed (auto simp: can_transition_to_def phase_table_def)
qed (simp add: can_transition_to_def phase_table_def is_terminal_def)

end
