(* ===== verification/Fencing.thy ===== *)
theory Fencing
  imports Kernel_Prelude
begin

text \<open>
  Fencing tokens (crates/nous-state/src/fencing.rs).  A generator holds an atomic 64-bit counter
  and the node id; a token is the text \<open>node:value\<close>.  Text tokens are issued, parsed back and
  compared.  Counter arithmetic wraps at 64 bits as \<open>fetch_add\<close> does.
\<close>

record FencingToken =
  ft_value :: u64
  ft_node_id :: string

definition fencing_new :: "string \<Rightarrow> FencingToken" where
  "fencing_new node_id = \<lparr>ft_value = 0, ft_node_id = node_id\<rparr>"

definition token_text :: "string \<Rightarrow> u64 \<Rightarrow> string" where
  "token_text node_id v = node_id @ CHR '':'' # show_nat (unat v)"

definition fencing_next :: "FencingToken \<Rightarrow> string \<times> FencingToken" where
  "fencing_next ft =
     (let v = ft_value ft + 1
      in (token_text (ft_node_id ft) v, ft\<lparr>ft_value := ft_value ft + 1\<rparr>))"

definition fencing_current_value :: "FencingToken \<Rightarrow> u64" where
  "fencing_current_value ft = ft_value ft"

definition token_parse :: "string \<Rightarrow> (string \<times> nat) option" where
  "token_parse token =
     (case split_once (CHR '':'') token of
        None \<Rightarrow> None
      | Some (node_id, value_str) \<Rightarrow> map_option (\<lambda>v. (node_id, v)) (parse_u64 value_str))"

definition is_token_valid :: "string \<Rightarrow> string \<Rightarrow> bool" where
  "is_token_valid current provided =
     (case (token_parse current, token_parse provided) of
        (Some (cur_node, cur_val), Some (prov_node, prov_val)) \<Rightarrow>
          cur_node = prov_node \<and> prov_val = cur_val
      | _ \<Rightarrow> False)"

text \<open>Issuing \<open>n\<close> tokens in a row.\<close>

fun fencing_issue :: "nat \<Rightarrow> FencingToken \<Rightarrow> string list \<times> FencingToken" where
  "fencing_issue 0 ft = ([], ft)"
| "fencing_issue (Suc n) ft =
     (let (t, ft') = fencing_next ft; (ts, ft'') = fencing_issue n ft' in (t # ts, ft''))"

section \<open>Lemmas\<close>

lemma token_parse_text [simp]:
  "CHR '':'' \<notin> set node \<Longrightarrow> token_parse (token_text node v) = Some (node, unat v)"
  using unsigned_less [of v, where 'a = nat]
  by (simp add: token_parse_def token_text_def split_once_append)

lemma token_text_inject:
  "CHR '':'' \<notin> set node \<Longrightarrow> token_text node v = token_text node w \<longleftrightarrow> v = w"
  by (auto simp: token_text_def word_unat_eq_iff)

lemma is_token_valid_text [simp]:
  "CHR '':'' \<notin> set node \<Longrightarrow> is_token_valid (token_text node v) (token_text node w) \<longleftrightarrow> v = w"
  by (auto simp: is_token_valid_def word_unat_eq_iff)

lemma is_token_valid_sym: "is_token_valid a b \<longleftrightarrow> is_token_valid b a"
  by (auto simp: is_token_valid_def split: option.splits)

lemma is_token_valid_trans: "is_token_valid a b \<Longrightarrow> is_token_valid b c \<Longrightarrow> is_token_valid a c"
  by (auto simp: is_token_valid_def split: option.splits)

lemma unat_plus_one: "unat (v::u64) < 2 ^ 64 - 1 \<Longrightarrow> unat (v + 1) = unat v + 1"
  by (simp add: unat_word_ariths)

lemma fencing_issue_values:
  assumes "CHR '':'' \<notin> set (ft_node_id ft)" and "unat (ft_value ft) + n < 2 ^ 64"
  shows "map token_parse (fst (fencing_issue n ft)) =
    map (\<lambda>i. Some (ft_node_id ft, unat (ft_value ft) + i)) [1..<n + 1]"
  using assms
proof (induction n arbitrary: ft)
  case 0
  then show ?case by simp
next
  case (Suc n)
  let ?ft = "ft\<lparr>ft_value := ft_value ft + 1\<rparr>"
  have v: "unat (ft_value ft + 1) = unat (ft_value ft) + 1"
    using Suc.prems(2) by (intro unat_plus_one) simp
  have IH: "map token_parse (fst (fencing_issue n ?ft)) =
    map (\<lambda>i. Some (ft_node_id ft, unat (ft_value ft) + 1 + i)) [1..<n + 1]"
    using Suc.IH [of ?ft] Suc.prems v by simp
  have shift: "[1..<Suc n + 1] = 1 # map Suc [1..<n + 1]"
    by (simp add: map_Suc_upt upt_conv_Cons del: upt_Suc)
  show ?case
    using IH Suc.prems(1) v unfolding shift
    by (simp add: fencing_next_def Let_def split_beta)
qed

section \<open>Properties\<close>

text \<open>Tokens are fencing tokens: for a node id without a colon and as long as the 64-bit
  counter does not run over, any number of tokens issued in a row parse back to that node id
  with consecutive values that start right after the generator's value; so they increase
  strictly and every text a generator issues is different from all others.\<close>

theorem issued_tokens_increase:
  assumes "CHR '':'' \<notin> set (ft_node_id ft)" and "unat (ft_value ft) + n < 2 ^ 64"
  shows "map token_parse (fst (fencing_issue n ft)) =
      map (\<lambda>i. Some (ft_node_id ft, unat (ft_value ft) + i)) [1..<n + 1] \<and>
    distinct (fst (fencing_issue n ft))"
proof -
  have eq: "map token_parse (fst (fencing_issue n ft)) =
    map (\<lambda>i. Some (ft_node_id ft, unat (ft_value ft) + i)) [1..<n + 1]"
    by (rule fencing_issue_values [OF assms])
  have "distinct (map (\<lambda>i. Some (ft_node_id ft, unat (ft_value ft) + i)) [1..<n + 1])"
    by (auto simp: distinct_map inj_on_def)
  then have "distinct (map token_parse (fst (fencing_issue n ft)))" by (simp add: eq)
  then have "distinct (fst (fencing_issue n ft))" by (simp add: distinct_map)
  with eq show ?thesis by blast
qed

theorem issued_tokens_increase_witness:
  "map token_parse (fst (fencing_issue 2 (fencing_new ''node-1''))) =
     [Some (''node-1'', 1), Some (''node-1'', 2)]"
  using issued_tokens_increase [of "fencing_new ''node-1''" 2]
  by (simp add: fencing_new_def upt_rec)

end
