(* ===== verification/Leases.thy ===== *)
theory Leases
  imports Fencing Resource_Vectors
begin

text \<open>
  Resource leases and their manager (\<open>ResourceLease\<close> of crates/nous-types/src/resource.rs and
  crates/nous-resource/src/lease.rs).  Every operation takes the clock reading it works with;
  the uuid a grant draws is an argument.  The table of leases is iterated by the code, so it is
  an association list; the two token tables are only looked up.  The file ends with the
  manager's invariant \<open>lease_wf\<close>, runs of operations, and the fencing theorems.
\<close>

section \<open>Leases\<close>

record ResourceLease =
  rl_lease_id :: string
  rl_workload_id :: string
  rl_principal_id :: string
  rl_reserved :: ResourceVector
  rl_node_id :: string
  rl_device_id :: string
  rl_granted_at :: instant
  rl_expires_at :: instant
  rl_generation :: u64
  rl_renewable :: bool

definition lease_is_valid :: "instant \<Rightarrow> ResourceLease \<Rightarrow> bool" where
  "lease_is_valid now l \<longleftrightarrow> now < rl_expires_at l"

definition lease_is_expired :: "instant \<Rightarrow> ResourceLease \<Rightarrow> bool" where
  "lease_is_expired now l \<longleftrightarrow> \<not> lease_is_valid now l"

definition lease_remaining :: "instant \<Rightarrow> ResourceLease \<Rightarrow> int" where
  "lease_remaining now l = (if now < rl_expires_at l then rl_expires_at l - now else 0)"

record FencedLease =
  fl_lease :: ResourceLease
  fl_fencing_token :: string
  fl_resource_key :: string

section \<open>The lease manager\<close>

record LeaseManager =
  lm_leases :: "(string \<times> ResourceLease) list"
  lm_lease_tokens :: "string \<rightharpoonup> string"
  lm_resource_tokens :: "string \<rightharpoonup> string"
  lm_fencing :: FencingToken
  lm_default_duration :: int

definition lease_manager_new :: "string \<Rightarrow> int \<Rightarrow> LeaseManager" where
  "lease_manager_new uuid default_duration =
     \<lparr>lm_leases = [], lm_lease_tokens = Map.empty, lm_resource_tokens = Map.empty,
      lm_fencing = fencing_new (''lease-'' @ uuid), lm_default_duration = default_duration\<rparr>"

definition resource_key :: "string \<Rightarrow> string \<Rightarrow> string" where
  "resource_key node_id device_id = node_id @ CHR '':'' # device_id"

definition has_active_lease :: "instant \<Rightarrow> LeaseManager \<Rightarrow> string \<Rightarrow> bool" where
  "has_active_lease now lm w \<longleftrightarrow>
     list_ex (\<lambda>(_, l). rl_workload_id l = w \<and> lease_is_valid now l) (lm_leases lm)"

definition already_leased :: "string \<Rightarrow> NousError" where
  "already_leased w =
     nous_error EC_AlreadyExists (''Workload '' @ quoted w @ '' already has an active lease'')"

definition grant_internal ::
  "instant \<Rightarrow> string \<Rightarrow> string \<Rightarrow> string \<Rightarrow> ResourceVector \<Rightarrow> string \<Rightarrow> string \<Rightarrow> bool \<Rightarrow> LeaseManager
     \<Rightarrow> ResourceLease nous_result \<times> LeaseManager" where
  "grant_internal now uuid w p resources node_id device_id renewable lm =
     (if has_active_lease now lm w then (Inl (already_leased w), lm)
      else
        let lease = \<lparr>rl_lease_id = uuid, rl_workload_id = w, rl_principal_id = p,
                     rl_reserved = resources, rl_node_id = node_id, rl_device_id = device_id,
                     rl_granted_at = now, rl_expires_at = now + lm_default_duration lm,
                     rl_generation = 1, rl_renewable = renewable\<rparr>
        in if has_active_lease now lm w then (Inl (already_leased w), lm)
           else (Inr lease, lm\<lparr>lm_leases := AList.update uuid lease (lm_leases lm)\<rparr>))"

definition grant_fenced ::
  "instant \<Rightarrow> string \<Rightarrow> string \<Rightarrow> string \<Rightarrow> ResourceVector \<Rightarrow> string \<Rightarrow> string \<Rightarrow> bool \<Rightarrow> LeaseManager
     \<Rightarrow> FencedLease nous_result \<times> LeaseManager" where
  "grant_fenced now uuid w p resources node_id device_id renewable lm =
     (case grant_internal now uuid w p resources node_id device_id renewable lm of
        (Inl e, lm1) \<Rightarrow> (Inl e, lm1)
      | (Inr lease, lm1) \<Rightarrow>
          let key = resource_key node_id device_id;
              (token, fencing') = fencing_next (lm_fencing lm1);
              lm2 = lm1\<lparr>lm_fencing := fencing'\<rparr>;
              lm3 = lm2\<lparr>lm_lease_tokens := (lm_lease_tokens lm2)(rl_lease_id lease \<mapsto> token)\<rparr>;
              lm4 = lm3\<lparr>lm_resource_tokens := (lm_resource_tokens lm3)(key \<mapsto> token)\<rparr>
          in (Inr \<lparr>fl_lease = lease, fl_fencing_token = token, fl_resource_key = key\<rparr>, lm4))"

definition lease_not_found :: "string \<Rightarrow> NousError" where
  "lease_not_found lid = nous_error EC_NotFound (''Lease not found: '' @ lid)"

definition lease_renew ::
  "instant \<Rightarrow> string \<Rightarrow> u64 \<Rightarrow> LeaseManager \<Rightarrow> ResourceLease nous_result \<times> LeaseManager" where
  "lease_renew now lid expected_generation lm =
     (case map_of (lm_leases lm) lid of
        None \<Rightarrow> (Inl (lease_not_found lid), lm)
      | Some lease \<Rightarrow>
          if rl_generation lease \<noteq> expected_generation
          then (Inl (nous_error EC_LeaseConflict
                 (''Lease generation conflict: expected '' @ show_nat (unat expected_generation) @
                  '', current '' @ show_nat (unat (rl_generation lease)))), lm)
          else if \<not> lease_is_valid now lease
          then (Inl (nous_error EC_LeaseExpired ''Cannot renew expired lease''), lm)
          else if \<not> rl_renewable lease
          then (Inl (nous_error EC_FailedPrecondition ''Lease is not renewable''), lm)
          else let lease' = lease\<lparr>rl_expires_at := now + lm_default_duration lm,
                                  rl_generation := rl_generation lease + 1\<rparr>
               in (Inr lease', lm\<lparr>lm_leases := AList.update lid lease' (lm_leases lm)\<rparr>))"

definition lease_release :: "string \<Rightarrow> LeaseManager \<Rightarrow> unit nous_result \<times> LeaseManager" where
  "lease_release lid lm =
     (if map_of (lm_leases lm) lid \<noteq> None
      then (Inr (), lm\<lparr>lm_leases := AList.delete lid (lm_leases lm),
                      lm_lease_tokens := (lm_lease_tokens lm)(lid := None)\<rparr>)
      else (Inl (lease_not_found lid), lm))"

definition lease_revoke :: "string \<Rightarrow> LeaseManager \<Rightarrow> unit nous_result \<times> LeaseManager" where
  "lease_revoke lid lm = lease_release lid lm"

definition lease_authorize :: "instant \<Rightarrow> LeaseManager \<Rightarrow> string \<Rightarrow> string \<Rightarrow> bool" where
  "lease_authorize now lm lid provided =
     (case map_of (lm_leases lm) lid of
        None \<Rightarrow> False
      | Some lease \<Rightarrow>
          if \<not> lease_is_valid now lease then False
          else (case lm_lease_tokens lm lid of
                  None \<Rightarrow> False
                | Some assigned \<Rightarrow>
                    (case lm_resource_tokens lm
                            (resource_key (rl_node_id lease) (rl_device_id lease)) of
                       None \<Rightarrow> False
                     | Some current \<Rightarrow> assigned = provided \<and> is_token_valid current provided)))"

definition lease_get :: "LeaseManager \<Rightarrow> string \<Rightarrow> ResourceLease option" where
  "lease_get lm lid = map_of (lm_leases lm) lid"

definition get_for_workload :: "LeaseManager \<Rightarrow> string \<Rightarrow> ResourceLease option" where
  "get_for_workload lm w = find (\<lambda>l. rl_workload_id l = w) (map snd (lm_leases lm))"

definition has_valid_lease :: "instant \<Rightarrow> LeaseManager \<Rightarrow> string \<Rightarrow> bool" where
  "has_valid_lease now lm w =
     (case get_for_workload lm w of None \<Rightarrow> False | Some l \<Rightarrow> lease_is_valid now l)"

definition try_expire_stale :: "instant \<Rightarrow> LeaseManager \<Rightarrow> string list \<times> LeaseManager" where
  "try_expire_stale now lm =
     (let expired = filter (\<lambda>(_, l). lease_is_expired now l) (lm_leases lm);
          kept = filter (\<lambda>(_, l). \<not> lease_is_expired now l) (lm_leases lm);
          ids = map fst expired
      in (map (\<lambda>(_, l). rl_workload_id l) expired,
          lm\<lparr>lm_leases := kept,
             lm_lease_tokens := foldl (\<lambda>m lid. m(lid := None)) (lm_lease_tokens lm) ids\<rparr>))"

definition try_active_count :: "instant \<Rightarrow> LeaseManager \<Rightarrow> nat" where
  "try_active_count now lm =
     length (filter (\<lambda>l. lease_is_valid now l) (map snd (lm_leases lm)))"

section \<open>Runs of operations\<close>

datatype lease_op =
    OpGrant instant string string string ResourceVector string string bool
  | OpRenew instant string u64
  | OpRelease string
  | OpExpire instant

fun lease_step :: "lease_op \<Rightarrow> LeaseManager \<Rightarrow> LeaseManager" where
  "lease_step (OpGrant t uuid w p r n d rn) lm = snd (grant_fenced t uuid w p r n d rn lm)"
| "lease_step (OpRenew t lid g) lm = snd (lease_renew t lid g lm)"
| "lease_step (OpRelease lid) lm = snd (lease_release lid lm)"
| "lease_step (OpExpire t) lm = snd (try_expire_stale t lm)"

fun lease_run :: "lease_op list \<Rightarrow> LeaseManager \<Rightarrow> LeaseManager" where
  "lease_run [] lm = lm"
| "lease_run (x # xs) lm = lease_run xs (lease_step x lm)"

text \<open>A grant draws a uuid that no current lease has (uuids do not repeat).\<close>

fun op_fresh :: "LeaseManager \<Rightarrow> lease_op \<Rightarrow> bool" where
  "op_fresh lm (OpGrant t uuid w p r n d rn) \<longleftrightarrow> map_of (lm_leases lm) uuid = None"
| "op_fresh lm _ \<longleftrightarrow> True"

fun ops_fresh :: "LeaseManager \<Rightarrow> lease_op list \<Rightarrow> bool" where
  "ops_fresh lm [] \<longleftrightarrow> True"
| "ops_fresh lm (x # xs) \<longleftrightarrow> op_fresh lm x \<and> ops_fresh (lease_step x lm) xs"

text \<open>A run fits if its grants draw fresh uuids and the 64-bit counter does not run over.\<close>

fun op_grants :: "lease_op \<Rightarrow> nat" where
  "op_grants (OpGrant t uuid w p r n d rn) = 1"
| "op_grants _ = 0"

definition run_fits :: "LeaseManager \<Rightarrow> lease_op list \<Rightarrow> bool" where
  "run_fits lm xs \<longleftrightarrow>
     ops_fresh lm xs \<and> unat (ft_value (lm_fencing lm)) + sum_list (map op_grants xs) < 2 ^ 64"

text \<open>Clock readings along a run do not go backwards.\<close>

fun op_time :: "instant \<Rightarrow> lease_op \<Rightarrow> instant" where
  "op_time now (OpGrant t uuid w p r n d rn) = t"
| "op_time now (OpRenew t lid g) = t"
| "op_time now (OpRelease lid) = now"
| "op_time now (OpExpire t) = t"

fun ordered_from :: "instant \<Rightarrow> lease_op list \<Rightarrow> bool" where
  "ordered_from now [] \<longleftrightarrow> True"
| "ordered_from now (x # xs) \<longleftrightarrow> now \<le> op_time now x \<and> ordered_from (op_time now x) xs"

fun last_time :: "instant \<Rightarrow> lease_op list \<Rightarrow> instant" where
  "last_time now [] = now"
| "last_time now (x # xs) = last_time (op_time now x) xs"

definition lease_key :: "ResourceLease \<Rightarrow> string" where
  "lease_key l = resource_key (rl_node_id l) (rl_device_id l)"

definition issued :: "LeaseManager \<Rightarrow> string \<Rightarrow> nat \<Rightarrow> bool" where
  "issued lm tok v \<longleftrightarrow>
     v \<le> unat (ft_value (lm_fencing lm)) \<and>
     tok = ft_node_id (lm_fencing lm) @ CHR '':'' # show_nat v"

definition lease_wf :: "LeaseManager \<Rightarrow> bool" where
  "lease_wf lm \<longleftrightarrow>
     CHR '':'' \<notin> set (ft_node_id (lm_fencing lm)) \<and>
     distinct (map fst (lm_leases lm)) \<and>
     (\<forall>lid l. map_of (lm_leases lm) lid = Some l \<longrightarrow> rl_lease_id l = lid) \<and>
     (\<forall>lid. map_of (lm_leases lm) lid = None \<longrightarrow> lm_lease_tokens lm lid = None) \<and>
     (\<forall>lid tok. lm_lease_tokens lm lid = Some tok \<longrightarrow> (\<exists>v. issued lm tok v)) \<and>
     (\<forall>lid lid' tok. lm_lease_tokens lm lid = Some tok \<longrightarrow> lm_lease_tokens lm lid' = Some tok \<longrightarrow>
        lid = lid') \<and>
     (\<forall>k tok. lm_resource_tokens lm k = Some tok \<longrightarrow> (\<exists>v. issued lm tok v))"

text \<open>No workload has two leases that are valid at time \<open>t\<close>.\<close>

definition single_booking :: "instant \<Rightarrow> LeaseManager \<Rightarrow> bool" where
  "single_booking t lm \<longleftrightarrow>
     (\<forall>lid lid' l l'. map_of (lm_leases lm) lid = Some l \<longrightarrow> map_of (lm_leases lm) lid' = Some l' \<longrightarrow>
        rl_workload_id l = rl_workload_id l' \<longrightarrow> lease_is_valid t l \<longrightarrow> lease_is_valid t l' \<longrightarrow>
        lid = lid')"

section \<open>Lemmas\<close>

lemma grant_fenced_cases:
  "grant_fenced t uuid w p r n d rn lm =
    (if has_active_lease t lm w then (Inl (already_leased w), lm)
     else
       let lease = \<lparr>rl_lease_id = uuid, rl_workload_id = w, rl_principal_id = p,
                    rl_reserved = r, rl_node_id = n, rl_device_id = d,
                    rl_granted_at = t, rl_expires_at = t + lm_default_duration lm,
                    rl_generation = 1, rl_renewable = rn\<rparr>;
           v = ft_value (lm_fencing lm) + 1;
           tok = token_text (ft_node_id (lm_fencing lm)) v
       in (Inr \<lparr>fl_lease = lease, fl_fencing_token = tok, fl_resource_key = resource_key n d\<rparr>,
           lm\<lparr>lm_leases := AList.update uuid lease (lm_leases lm),
              lm_lease_tokens := (lm_lease_tokens lm)(uuid \<mapsto> tok),
              lm_resource_tokens := (lm_resource_tokens lm)(resource_key n d \<mapsto> tok),
              lm_fencing := (lm_fencing lm)\<lparr>ft_value := v\<rparr>\<rparr>))"
  by (simp add: grant_fenced_def grant_internal_def fencing_next_def Let_def)

lemma has_active_lease_iff:
  "lease_wf lm \<Longrightarrow> has_active_lease t lm w \<longleftrightarrow>
     (\<exists>lid l. map_of (lm_leases lm) lid = Some l \<and> rl_workload_id l = w \<and> lease_is_valid t l)"
  unfolding has_active_lease_def lease_wf_def by (subst list_ex_map_of) auto

lemma foldl_remove_keys:
  "foldl (\<lambda>m k. m(k := None)) m ks = (\<lambda>k. if k \<in> set ks then None else m k)"
  by (induction ks arbitrary: m) (auto simp: fun_eq_iff)

lemma map_of_filter_distinct:
  "distinct (map fst al) \<Longrightarrow>
    map_of (filter (\<lambda>(k, v). P v) al) k =
      (case map_of al k of None \<Rightarrow> None | Some v \<Rightarrow> if P v then Some v else None)"
  by (induction al) (auto split: option.splits dest: map_of_SomeD simp: image_iff)

lemma token_text_issued:
  "unat (ft_value (lm_fencing lm)) < 2 ^ 64 - 1 \<Longrightarrow>
     token_text (ft_node_id (lm_fencing lm)) (ft_value (lm_fencing lm) + 1) =
       ft_node_id (lm_fencing lm) @ CHR '':'' # show_nat (unat (ft_value (lm_fencing lm)) + 1)"
  by (simp add: token_text_def unat_plus_one)

lemma issued_inject: "issued lm tok v \<Longrightarrow> issued lm tok v' \<Longrightarrow> v = v'"
  by (auto simp: issued_def)

lemma issued_mono:
  "issued lm tok v \<Longrightarrow> ft_node_id (lm_fencing lm') = ft_node_id (lm_fencing lm) \<Longrightarrow>
     unat (ft_value (lm_fencing lm)) \<le> unat (ft_value (lm_fencing lm')) \<Longrightarrow> issued lm' tok v"
  by (auto simp: issued_def)

lemma lease_wfD:
  assumes "lease_wf lm"
  shows "CHR '':'' \<notin> set (ft_node_id (lm_fencing lm))"
    and "distinct (map fst (lm_leases lm))"
    and "map_of (lm_leases lm) lid = Some l \<Longrightarrow> rl_lease_id l = lid"
    and "map_of (lm_leases lm) lid = None \<Longrightarrow> lm_lease_tokens lm lid = None"
    and "lm_lease_tokens lm lid = Some tok \<Longrightarrow> \<exists>v. issued lm tok v"
    and "lm_lease_tokens lm lid = Some tok \<Longrightarrow> lm_lease_tokens lm lid' = Some tok \<Longrightarrow> lid = lid'"
    and "lm_resource_tokens lm k = Some tok \<Longrightarrow> \<exists>v. issued lm tok v"
  using assms unfolding lease_wf_def by blast+

text \<open>The manager with only some leases and lease tokens removed, or a lease replaced, stays
  well formed.\<close>

lemma lease_wf_shrink:
  assumes wf: "lease_wf lm" and dist: "distinct (map fst ls)"
    and sub: "\<And>lid l. map_of ls lid = Some l \<Longrightarrow> rl_lease_id l = lid"
    and tok: "\<And>lid x. T lid = Some x \<Longrightarrow> lm_lease_tokens lm lid = Some x"
    and dom: "\<And>lid. map_of ls lid = None \<Longrightarrow> T lid = None"
  shows "lease_wf (lm\<lparr>lm_leases := ls, lm_lease_tokens := T\<rparr>)"
  using lease_wfD [OF wf] dist sub tok dom unfolding lease_wf_def issued_def by simp blast

lemma lease_wf_release: "lease_wf lm \<Longrightarrow> lease_wf (snd (lease_release lid lm))"
  using lease_wfD [of lm]
  by (auto simp: lease_release_def kernel_simps distinct_delete intro!: lease_wf_shrink
      split: if_splits)

lemma lease_wf_replace:
  assumes "lease_wf lm" "map_of (lm_leases lm) lid = Some l" "rl_lease_id l' = lid"
  shows "lease_wf (lm\<lparr>lm_leases := AList.update lid l' (lm_leases lm)\<rparr>)"
proof -
  have "lease_wf (lm\<lparr>lm_leases := AList.update lid l' (lm_leases lm),
                    lm_lease_tokens := lm_lease_tokens lm\<rparr>)"
    using assms lease_wfD [OF assms(1)]
    by (intro lease_wf_shrink) (auto simp: kernel_simps distinct_update split: if_splits)
  then show ?thesis by simp
qed

lemma lease_wf_renew: "lease_wf lm \<Longrightarrow> lease_wf (snd (lease_renew t lid g lm))"
  by (auto simp: lease_renew_def Let_def lease_wfD(3) intro!: lease_wf_replace
      split: option.splits simp del: map_of_eq_Some_iff)

lemma lease_wf_expire: "lease_wf lm \<Longrightarrow> lease_wf (snd (try_expire_stale t lm))"
  using lease_wfD(1-4) [of lm]
  by (auto simp: try_expire_stale_def Let_def foldl_remove_keys map_of_filter_distinct
        distinct_map_filter dest!: map_of_SomeD intro!: lease_wf_shrink
      split: option.splits if_splits) force+

lemma lease_wf_grant:
  assumes wf: "lease_wf lm" and fresh: "map_of (lm_leases lm) uuid = None"
    and room: "unat (ft_value (lm_fencing lm)) < 2 ^ 64 - 1"
  shows "lease_wf (snd (grant_fenced t uuid w p r n d rn lm))"
proof (cases "has_active_lease t lm w")
  case True
  with wf show ?thesis by (simp add: grant_fenced_cases)
next
  case False
  let ?lm = "snd (grant_fenced t uuid w p r n d rn lm)"
  let ?v = "unat (ft_value (lm_fencing lm)) + 1"
  let ?tok = "ft_node_id (lm_fencing lm) @ CHR '':'' # show_nat ?v"
  note D = lease_wfD [OF wf]
  have lm: "lm_lease_tokens ?lm = (lm_lease_tokens lm)(uuid \<mapsto> ?tok)"
      "lm_resource_tokens ?lm = (lm_resource_tokens lm)(resource_key n d \<mapsto> ?tok)"
      "ft_node_id (lm_fencing ?lm) = ft_node_id (lm_fencing lm)"
      "unat (ft_value (lm_fencing ?lm)) = ?v"
    using False room by (simp_all add: grant_fenced_cases Let_def token_text_issued unat_plus_one)
  have old: "issued ?lm tok v" "v < ?v" if "issued lm tok v" for tok v
    using that lm by (auto simp: issued_def)
  have new: "issued ?lm ?tok ?v" using lm by (simp add: issued_def)
  have fresh_tok: "lm_lease_tokens lm lid \<noteq> Some ?tok" for lid
    using D(5) [of lid ?tok] by (auto simp: issued_def)
  show ?thesis
    unfolding lease_wf_def
  proof (intro conjI)
    show "CHR '':'' \<notin> set (ft_node_id (lm_fencing ?lm))" using D(1) lm by simp
    show "distinct (map fst (lm_leases ?lm))"
      using False D(2) by (simp add: grant_fenced_cases Let_def distinct_update)
    show "\<forall>lid l. map_of (lm_leases ?lm) lid = Some l \<longrightarrow> rl_lease_id l = lid"
      using False D(3) by (auto simp: grant_fenced_cases Let_def kernel_simps)
    show "\<forall>lid. map_of (lm_leases ?lm) lid = None \<longrightarrow> lm_lease_tokens ?lm lid = None"
      using False D(4) by (auto simp: grant_fenced_cases Let_def kernel_simps)
    show "\<forall>lid tok. lm_lease_tokens ?lm lid = Some tok \<longrightarrow> (\<exists>v. issued ?lm tok v)"
      using D(5) old(1) new by (auto simp: lm) blast
    show "\<forall>lid lid' tok. lm_lease_tokens ?lm lid = Some tok \<longrightarrow>
        lm_lease_tokens ?lm lid' = Some tok \<longrightarrow> lid = lid'"
      using D(6) fresh_tok by (auto simp: lm)
    show "\<forall>k tok. lm_resource_tokens ?lm k = Some tok \<longrightarrow> (\<exists>v. issued ?lm tok v)"
      using D(7) old(1) new by (auto simp: lm) blast
  qed
qed

lemma fencing_release [simp]: "lm_fencing (snd (lease_release lid lm)) = lm_fencing lm"
  by (simp add: lease_release_def)
lemma fencing_renew [simp]: "lm_fencing (snd (lease_renew t lid g lm)) = lm_fencing lm"
  by (simp add: lease_renew_def Let_def split: option.splits)
lemma fencing_expire [simp]: "lm_fencing (snd (try_expire_stale t lm)) = lm_fencing lm"
  by (simp add: try_expire_stale_def Let_def)
lemma rtok_release [simp]:
  "lm_resource_tokens (snd (lease_release lid lm)) = lm_resource_tokens lm"
  by (simp add: lease_release_def)
lemma rtok_renew [simp]:
  "lm_resource_tokens (snd (lease_renew t lid g lm)) = lm_resource_tokens lm"
  by (simp add: lease_renew_def Let_def split: option.splits)
lemma rtok_expire [simp]:
  "lm_resource_tokens (snd (try_expire_stale t lm)) = lm_resource_tokens lm"
  by (simp add: try_expire_stale_def Let_def)

lemma lease_step_value:
  assumes "unat (ft_value (lm_fencing lm)) + op_grants x < 2 ^ 64"
  shows "unat (ft_value (lm_fencing (lease_step x lm))) \<le> unat (ft_value (lm_fencing lm)) + op_grants x"
    and "unat (ft_value (lm_fencing lm)) \<le> unat (ft_value (lm_fencing (lease_step x lm)))"
    and "ft_node_id (lm_fencing (lease_step x lm)) = ft_node_id (lm_fencing lm)"
  using assms by (cases x; simp add: grant_fenced_cases Let_def unat_plus_one)+

lemma run_fits_Cons:
  assumes "run_fits lm (x # xs)"
  shows "op_fresh lm x" "unat (ft_value (lm_fencing lm)) + op_grants x < 2 ^ 64"
    "run_fits (lease_step x lm) xs"
  using assms lease_step_value(1) [of lm x] by (auto simp: run_fits_def)

lemma lease_wf_step:
  assumes "lease_wf lm" "op_fresh lm x" "unat (ft_value (lm_fencing lm)) + op_grants x < 2 ^ 64"
  shows "lease_wf (lease_step x lm)"
  using assms
  by (cases x) (auto intro: lease_wf_grant lease_wf_renew lease_wf_release lease_wf_expire)

lemma lease_wf_run: "lease_wf lm \<Longrightarrow> run_fits lm xs \<Longrightarrow> lease_wf (lease_run xs lm)"
proof (induction xs arbitrary: lm)
  case Nil
  then show ?case by simp
next
  case (Cons x xs)
  then show ?case using run_fits_Cons [OF Cons.prems(2)] lease_wf_step by simp
qed


lemma lease_wf_new: "CHR '':'' \<notin> set uuid \<Longrightarrow> lease_wf (lease_manager_new uuid dur)"
  by (simp add: lease_wf_def lease_manager_new_def fencing_new_def)

lemma issued_token_text:
  "issued lm tok v \<Longrightarrow> tok = token_text (ft_node_id (lm_fencing lm)) (of_nat v)"
  using unsigned_less [of "ft_value (lm_fencing lm)", where 'a = nat]
  by (auto simp: issued_def token_text_def unat_of_nat)

lemma is_token_valid_issued:
  assumes "lease_wf lm" "issued lm a v" "issued lm b w"
  shows "is_token_valid a b \<longleftrightarrow> a = b"
  using issued_token_text [OF assms(2)] issued_token_text [OF assms(3)] lease_wfD(1) [OF assms(1)]
  by (auto simp: token_text_inject)

lemma lease_authorize_iff:
  assumes wf: "lease_wf lm"
  shows "lease_authorize t lm lid tok \<longleftrightarrow>
    (\<exists>l. map_of (lm_leases lm) lid = Some l \<and> lease_is_valid t l \<and>
         lm_lease_tokens lm lid = Some tok \<and> lm_resource_tokens lm (lease_key l) = Some tok)"
proof -
  have "is_token_valid cur tok \<longleftrightarrow> cur = tok"
    if "lm_lease_tokens lm lid = Some tok" "lm_resource_tokens lm k = Some cur" for k cur
    using that lease_wfD(5,7) [OF wf] is_token_valid_issued [OF wf] by blast
  then show ?thesis
    by (cases "map_of (lm_leases lm) lid"; cases "lm_lease_tokens lm lid")
      (auto simp: lease_authorize_def lease_key_def simp del: map_of_eq_Some_iff split: option.split)
qed

lemma grant_fenced_InrD:
  assumes "grant_fenced t uuid w p r n d rn lm = (Inr f, lm')"
  shows "\<not> has_active_lease t lm w" and "rl_lease_id (fl_lease f) = uuid"
    and "map_of (lm_leases lm') uuid = Some (fl_lease f)"
    and "rl_expires_at (fl_lease f) = t + lm_default_duration lm"
    and "lease_key (fl_lease f) = resource_key n d"
    and "fl_fencing_token f = token_text (ft_node_id (lm_fencing lm)) (ft_value (lm_fencing lm) + 1)"
    and "lm_lease_tokens lm' = (lm_lease_tokens lm)(uuid \<mapsto> fl_fencing_token f)"
    and "lm_resource_tokens lm' = (lm_resource_tokens lm)(resource_key n d \<mapsto> fl_fencing_token f)"
    and "lm_fencing lm' = (lm_fencing lm)\<lparr>ft_value := ft_value (lm_fencing lm) + 1\<rparr>"
    and "map_of (lm_leases lm') = (map_of (lm_leases lm))(uuid \<mapsto> fl_lease f)"
    and "rl_workload_id (fl_lease f) = w" and "rl_reserved (fl_lease f) = r"
    and "fl_resource_key f = resource_key n d"
  using assms
  by (auto simp: grant_fenced_cases Let_def kernel_simps lease_key_def split: if_splits)

text \<open>What a superseded token carries along a run: a newer token guards the resource and the
  old token, where it is still assigned, belongs to a lease on that resource.\<close>

definition superseded :: "LeaseManager \<Rightarrow> string \<Rightarrow> string \<Rightarrow> string \<Rightarrow> nat \<Rightarrow> bool" where
  "superseded lm k lid tok v \<longleftrightarrow>
     issued lm tok v \<and>
     (\<exists>tok' v'. lm_resource_tokens lm k = Some tok' \<and> issued lm tok' v' \<and> v < v') \<and>
     (lm_lease_tokens lm lid = Some tok \<longrightarrow>
        (\<exists>l. map_of (lm_leases lm) lid = Some l \<and> lease_key l = k))"

lemma superseded_not_authorized:
  assumes "lease_wf lm" "superseded lm k lid tok v"
  shows "\<not> lease_authorize t lm lid tok"
  using assms by (auto simp: lease_authorize_iff superseded_def dest: issued_inject)

lemma superseded_frame:
  assumes "superseded lm k lid tok v" and "lm_fencing lm' = lm_fencing lm"
    and "lm_resource_tokens lm' = lm_resource_tokens lm"
    and "\<And>l. lm_lease_tokens lm' lid = Some tok \<Longrightarrow> map_of (lm_leases lm) lid = Some l \<Longrightarrow>
      lm_lease_tokens lm lid = Some tok \<and>
      (\<exists>l'. map_of (lm_leases lm') lid = Some l' \<and> lease_key l' = lease_key l)"
    and "lm_lease_tokens lm' lid = Some tok \<Longrightarrow> lm_lease_tokens lm lid = Some tok"
  shows "superseded lm' k lid tok v"
proof -
  have "issued lm' a u \<longleftrightarrow> issued lm a u" for a u using assms(2) by (simp add: issued_def)
  with assms show ?thesis by (auto simp: superseded_def)
qed

lemma superseded_step:
  assumes wf: "lease_wf lm" and s: "superseded lm k lid tok v"
    and room: "unat (ft_value (lm_fencing lm)) + op_grants x < 2 ^ 64"
  shows "superseded (lease_step x lm) k lid tok v"
proof -
  let ?lm = "lease_step x lm"
  have mono: "issued ?lm a u" if "issued lm a u" for a u
    using that lease_step_value(2,3) [OF room] issued_mono by blast
  show ?thesis
  proof (cases x)
    case (OpGrant t uuid w p r n d rn)
    show ?thesis
    proof (cases "grant_fenced t uuid w p r n d rn lm")
      case (Pair res lm')
      show ?thesis
      proof (cases res)
        case (Inl e)
        then have "lm' = lm" using Pair by (auto simp: grant_fenced_cases Let_def split: if_splits)
        with s OpGrant Pair show ?thesis by simp
      next
        case (Inr f)
        note G = grant_fenced_InrD [OF Pair [unfolded Inr]]
        have lm': "?lm = lm'" using OpGrant Pair by simp
        let ?w = "unat (ft_value (lm_fencing lm)) + 1"
        have new: "issued ?lm (fl_fencing_token f) ?w"
          unfolding lm' issued_def G(6,9) using room OpGrant by (simp add: token_text_def unat_plus_one)
        have "v < ?w" using s by (auto simp: superseded_def issued_def)
        moreover have "issued ?lm tok v" using s mono by (simp add: superseded_def)
        ultimately have "tok \<noteq> fl_fencing_token f" using new issued_inject by blast
        with s new mono \<open>v < ?w\<close> lm' show ?thesis
          by (auto simp: superseded_def G(7,8,10))
      qed
    qed
  next
    case (OpRenew t lid' g)
    then show ?thesis
      by (intro superseded_frame [OF s])
        (auto simp: lease_renew_def Let_def kernel_simps lease_key_def
          split: option.splits if_splits)
  next
    case (OpRelease lid')
    then show ?thesis
      by (intro superseded_frame [OF s]) (auto simp: lease_release_def kernel_simps split: if_splits)
  next
    case (OpExpire t)
    then show ?thesis using lease_wfD(2) [OF wf]
      by (intro superseded_frame [OF s])
        (auto simp: try_expire_stale_def Let_def foldl_remove_keys map_of_filter_distinct
          lease_is_expired_def image_iff split: if_splits option.splits)
  qed
qed

lemma superseded_run:
  "lease_wf lm \<Longrightarrow> superseded lm k lid tok v \<Longrightarrow> run_fits lm xs \<Longrightarrow>
     superseded (lease_run xs lm) k lid tok v"
proof (induction xs arbitrary: lm)
  case Nil
  then show ?case by simp
next
  case (Cons x xs)
  note F = run_fits_Cons [OF Cons.prems(3)]
  show ?case
    using Cons.IH [OF lease_wf_step superseded_step] Cons.prems F by simp
qed


text \<open>Validity only ends with time, so one booking per workload survives the clock.\<close>

lemma single_booking_later: "single_booking t lm \<Longrightarrow> t \<le> t' \<Longrightarrow> single_booking t' lm"
  by (fastforce simp: single_booking_def lease_is_valid_def)

lemma single_booking_sub:
  assumes "single_booking t lm"
    and "\<And>lid l. map_of (lm_leases lm') lid = Some l \<Longrightarrow> \<exists>l0. map_of (lm_leases lm) lid = Some l0 \<and>
      rl_workload_id l0 = rl_workload_id l \<and> (lease_is_valid t l \<longrightarrow> lease_is_valid t l0)"
  shows "single_booking t lm'"
  unfolding single_booking_def
proof (intro allI impI)
  fix a b la lb
  assume "map_of (lm_leases lm') a = Some la" "map_of (lm_leases lm') b = Some lb"
    and same: "rl_workload_id la = rl_workload_id lb" "lease_is_valid t la" "lease_is_valid t lb"
  with assms(2) obtain la0 lb0 where
    "map_of (lm_leases lm) a = Some la0" "rl_workload_id la0 = rl_workload_id la" "lease_is_valid t la0"
    "map_of (lm_leases lm) b = Some lb0" "rl_workload_id lb0 = rl_workload_id lb" "lease_is_valid t lb0"
    by meson
  with assms(1) same(1) show "a = b" unfolding single_booking_def by metis
qed

lemma single_booking_grant:
  assumes wf: "lease_wf lm" and sb: "single_booking t lm"
  shows "single_booking t (snd (grant_fenced t uuid w p r n d rn lm))"
proof (cases "has_active_lease t lm w")
  case True
  with sb show ?thesis by (simp add: grant_fenced_cases)
next
  case False
  then have "\<not> lease_is_valid t l" if "map_of (lm_leases lm) lid = Some l" "rl_workload_id l = w" for lid l
    using that has_active_lease_iff [OF wf] by blast
  with False sb show ?thesis
    unfolding single_booking_def by (auto simp: grant_fenced_cases Let_def kernel_simps)
qed

lemma single_booking_renew:
  "single_booking t lm \<Longrightarrow> single_booking t (snd (lease_renew t lid g lm))"
  by (erule single_booking_sub)
    (auto simp: lease_renew_def Let_def kernel_simps split: option.splits if_splits)

lemma single_booking_release: "single_booking t lm \<Longrightarrow> single_booking t (snd (lease_release lid lm))"
  by (erule single_booking_sub) (auto simp: lease_release_def kernel_simps split: if_splits)

lemma single_booking_filter:
  "distinct (map fst (lm_leases lm)) \<Longrightarrow> single_booking t lm \<Longrightarrow>
     single_booking t (lm\<lparr>lm_leases := filter (\<lambda>(_, l). P l) (lm_leases lm)\<rparr>)"
  by (erule single_booking_sub) (auto simp: map_of_filter_distinct split: option.splits if_splits)

lemma single_booking_tokens [simp]:
  "single_booking t (lm\<lparr>lm_lease_tokens := T\<rparr>) \<longleftrightarrow> single_booking t lm"
  "single_booking t (lm\<lparr>lm_resource_tokens := T\<rparr>) \<longleftrightarrow> single_booking t lm"
  "single_booking t (lm\<lparr>lm_leases := ls, lm_lease_tokens := T\<rparr>) \<longleftrightarrow>
     single_booking t (lm\<lparr>lm_leases := ls\<rparr>)"
  by (simp_all add: single_booking_def)

lemma single_booking_step:
  assumes wf: "lease_wf lm" and sb: "single_booking t lm" and t: "t \<le> op_time t x"
  shows "single_booking (op_time t x) (lease_step x lm)"
proof -
  have sb': "single_booking (op_time t x) lm" using single_booking_later [OF sb t] .
  show ?thesis
  proof (cases x)
    case (OpGrant u uuid w p r n d rn)
    with wf sb' show ?thesis by (simp add: single_booking_grant)
  next
    case (OpRenew u lid g)
    with sb' show ?thesis by (simp add: single_booking_renew)
  next
    case (OpRelease lid)
    with sb' show ?thesis by (simp add: single_booking_release)
  next
    case (OpExpire u)
    with sb' lease_wfD(2) [OF wf] show ?thesis
      by (simp add: try_expire_stale_def Let_def single_booking_filter)
  qed
qed

lemma single_booking_run:
  "lease_wf lm \<Longrightarrow> single_booking t lm \<Longrightarrow> run_fits lm xs \<Longrightarrow> ordered_from t xs \<Longrightarrow>
     single_booking (last_time t xs) (lease_run xs lm)"
proof (induction xs arbitrary: lm t)
  case Nil
  then show ?case by simp
next
  case (Cons x xs)
  note F = run_fits_Cons [OF Cons.prems(3)]
  show ?case
    using Cons.IH [OF lease_wf_step single_booking_step] Cons.prems F by simp
qed

section \<open>Properties\<close>

text \<open>C22.  Fencing: when a workload is granted a lease on a resource, the token of the lease that
  was authorized on that resource before is dead for good.  After the grant and after any
  further run of grants, renewals, releases and expirations it never authorizes again, at
  whatever time it is presented.\<close>

theorem stale_token_never_authorized:
  assumes "lease_wf lm" and "run_fits lm (OpGrant t uuid w p r n d rn # xs)"
    and "lease_authorize t0 lm lid tok"
    and "map_of (lm_leases lm) lid = Some l" and "lease_key l = resource_key n d"
    and "grant_fenced t uuid w p r n d rn lm = (Inr f, lm')"
  shows "\<not> lease_authorize t1 (lease_run xs lm') lid tok"
proof -
  note F = run_fits_Cons [OF assms(2)] and G = grant_fenced_InrD [OF assms(6)]
  have lm': "lease_step (OpGrant t uuid w p r n d rn) lm = lm'" using assms(6) by simp
  have wf': "lease_wf lm'" using lease_wf_step [OF assms(1) F(1,2)] lm' by simp
  have tok: "lm_lease_tokens lm lid = Some tok"
    using assms(3) by (auto simp: lease_authorize_iff [OF assms(1)])
  obtain v where v: "issued lm tok v" using lease_wfD(5) [OF assms(1) tok] ..
  let ?w = "unat (ft_value (lm_fencing lm)) + 1"
  have room: "unat (ft_value (lm_fencing lm)) < 2 ^ 64 - 1" using F(2) by simp
  have "issued lm' (fl_fencing_token f) ?w" "issued lm' tok v" "v < ?w"
    using v room unfolding issued_def G(6,9) by (simp_all add: token_text_def unat_plus_one)
  moreover have "uuid \<noteq> lid" using F(1) assms(4) by auto
  ultimately have "superseded lm' (resource_key n d) lid tok v"
    using assms(4,5) by (auto simp: superseded_def G(7,8,10))
  then have "superseded (lease_run xs lm') (resource_key n d) lid tok v"
    using superseded_run [OF wf'] F(3) lm' by simp
  moreover have "lease_wf (lease_run xs lm')" using lease_wf_run [OF wf'] F(3) lm' by simp
  ultimately show ?thesis using superseded_not_authorized by blast
qed

text \<open>Mutual exclusion: in a well-formed manager at most one lease and one token are
  authorized for a resource (a node and device pair) at any moment.\<close>

theorem one_holder_per_resource:
  assumes "lease_wf lm" and "lease_authorize t lm lid tok" and "lease_authorize t' lm lid' tok'"
    and "map_of (lm_leases lm) lid = Some l" and "map_of (lm_leases lm) lid' = Some l'"
    and "lease_key l = lease_key l'"
  shows "lid = lid' \<and> tok = tok'"
  using assms lease_wfD(6) [OF assms(1)] by (auto simp: lease_authorize_iff)

text \<open>A grant is usable: from a well-formed manager with room in its counter, granting a
  workload that has no valid lease always succeeds, leaves the manager well formed, and the
  returned lease and token are authorized at every moment before the lease expires.\<close>

theorem grant_succeeds_and_authorizes:
  assumes "lease_wf lm" and "map_of (lm_leases lm) uuid = None"
    and "unat (ft_value (lm_fencing lm)) < 2 ^ 64 - 1" and "\<not> has_active_lease t lm w"
  shows "\<exists>f lm'. grant_fenced t uuid w p r n d rn lm = (Inr f, lm') \<and> lease_wf lm' \<and>
    rl_workload_id (fl_lease f) = w \<and> rl_reserved (fl_lease f) = r \<and>
    (\<forall>t' < t + lm_default_duration lm.
       lease_authorize t' lm' (rl_lease_id (fl_lease f)) (fl_fencing_token f))"
proof -
  obtain f lm' where G: "grant_fenced t uuid w p r n d rn lm = (Inr f, lm')"
    using assms(4) by (simp add: grant_fenced_cases Let_def)
  have wf': "lease_wf lm'" using lease_wf_grant [OF assms(1-3), of t w p r n d rn] G by simp
  show ?thesis
    using grant_fenced_InrD [OF G] wf' G by (auto simp: lease_authorize_iff lease_is_valid_def)
qed



definition demo_lm0 :: LeaseManager where
  "demo_lm0 = lease_manager_new ''u'' 30"

definition demo_grant :: "instant \<Rightarrow> string \<Rightarrow> string \<Rightarrow> lease_op" where
  "demo_grant t uuid w = OpGrant t uuid w ''p'' rv_zero ''n'' ''d'' True"

definition demo_lm1 :: LeaseManager where
  "demo_lm1 = lease_run [demo_grant 0 ''a'' ''w1''] demo_lm0"

lemma demo_lm0_wf: "lease_wf demo_lm0"
  by (simp add: demo_lm0_def lease_wf_new)

lemmas demo_simps = demo_lm1_def demo_lm0_def demo_grant_def lease_manager_new_def fencing_new_def
  grant_fenced_cases has_active_lease_def Let_def kernel_simps lease_key_def lease_is_valid_def
  run_fits_def

lemma demo_fits: "run_fits demo_lm0 [demo_grant 0 ''a'' ''w1'']"
  by (simp add: demo_simps)

lemma demo_lm1_wf: "lease_wf demo_lm1"
  unfolding demo_lm1_def by (rule lease_wf_run [OF demo_lm0_wf demo_fits])

lemma demo_authorized: "lease_authorize 1 demo_lm1 ''a'' ''lease-u:1''"
  using demo_lm1_wf
  by (simp add: lease_authorize_iff) (simp add: demo_simps token_text_def show_nat.simps)

theorem stale_token_never_authorized_witness:
  "lease_authorize 1 demo_lm1 ''a'' ''lease-u:1'' \<and>
   \<not> lease_authorize 3 (lease_run [OpRenew 2 ''a'' 1] (lease_step (demo_grant 1 ''b'' ''w2'') demo_lm1))
       ''a'' ''lease-u:1''"
proof -
  note a = demo_authorized
  have b: "run_fits demo_lm1 [demo_grant 1 ''b'' ''w2'', OpRenew 2 ''a'' 1]"
    by (simp add: demo_simps)
  obtain l where l: "map_of (lm_leases demo_lm1) ''a'' = Some l" "lease_key l = resource_key ''n'' ''d''"
    by (simp add: demo_simps)
  obtain f lm' where g: "grant_fenced 1 ''b'' ''w2'' ''p'' rv_zero ''n'' ''d'' True demo_lm1 = (Inr f, lm')"
    by (simp add: demo_simps)
  have "\<not> lease_authorize 3 (lease_run [OpRenew 2 ''a'' 1] lm') ''a'' ''lease-u:1''"
    by (rule stale_token_never_authorized [OF demo_lm1_wf b [unfolded demo_grant_def] a l g])
  with a g show ?thesis by (simp add: demo_grant_def)
qed

theorem one_holder_per_resource_witness:
  "lease_authorize 1 demo_lm1 ''a'' ''lease-u:1'' \<and> (''a'' = ''a'' \<and> ''lease-u:1'' = ''lease-u:1'')"
proof -
  note a = demo_authorized
  obtain l where l: "map_of (lm_leases demo_lm1) ''a'' = Some l"
    using a by (auto simp: lease_authorize_iff [OF demo_lm1_wf])
  show ?thesis using one_holder_per_resource [OF demo_lm1_wf a a l l refl] a by simp
qed

theorem grant_succeeds_and_authorizes_witness:
  "\<exists>f lm'. grant_fenced 5 ''b'' ''w2'' ''p'' rv_zero ''n'' ''d'' True demo_lm1 = (Inr f, lm') \<and>
     lease_authorize 34 lm' (rl_lease_id (fl_lease f)) (fl_fencing_token f)"
proof -
  have h: "map_of (lm_leases demo_lm1) ''b'' = None" "\<not> has_active_lease 5 demo_lm1 ''w2''"
    by (simp_all add: demo_simps)
  have v: "unat (ft_value (lm_fencing demo_lm1)) < 2 ^ 64 - 1" by (simp add: demo_simps)
  have d: "lm_default_duration demo_lm1 = 30" by (simp add: demo_simps)
  show ?thesis
    using grant_succeeds_and_authorizes [OF demo_lm1_wf h(1) v h(2), of "''p''" rv_zero "''n''" "''d''" True]
    unfolding d by auto
qed


text \<open>Expiry removes exactly what has expired: \<open>expire_stale\<close> reports the workloads of the
  leases that are past their expiry and no others, keeps every lease that is still valid as it
  was, withdraws the token of every lease it removes, and leaves a manager in which every
  lease is valid and counted as active.\<close>

theorem expire_stale_exact:
  assumes "lease_wf lm"
  shows "case try_expire_stale t lm of (ws, lm') \<Rightarrow>
    set ws = {rl_workload_id l |l lid. map_of (lm_leases lm) lid = Some l \<and> lease_is_expired t l} \<and>
    (\<forall>lid. lease_get lm' lid =
       (case lease_get lm lid of Some l \<Rightarrow> if lease_is_valid t l then Some l else None | None \<Rightarrow> None)) \<and>
    (\<forall>lid tok. lease_get lm' lid = None \<longrightarrow> \<not> lease_authorize t lm' lid tok \<and> lm_lease_tokens lm' lid = None) \<and>
    try_active_count t lm' = length (lm_leases lm')"
proof -
  note D = lease_wfD [OF assms]
  have wf': "lease_wf (snd (try_expire_stale t lm))" using assms by (rule lease_wf_expire)
  have "set (fst (try_expire_stale t lm)) =
    {rl_workload_id l |l lid. map_of (lm_leases lm) lid = Some l \<and> lease_is_expired t l}"
    using D(2) by (force simp: try_expire_stale_def Let_def)
  moreover have "lease_get (snd (try_expire_stale t lm)) lid =
    (case lease_get lm lid of Some l \<Rightarrow> if lease_is_valid t l then Some l else None | None \<Rightarrow> None)" for lid
    using D(2) by (simp add: try_expire_stale_def Let_def lease_get_def map_of_filter_distinct
        lease_is_expired_def split: option.split)
  moreover have "try_active_count t (snd (try_expire_stale t lm)) =
      length (lm_leases (snd (try_expire_stale t lm)))"
    by (simp add: try_active_count_def try_expire_stale_def Let_def lease_is_expired_def filter_map comp_def split_def)
  moreover have "\<not> lease_authorize t (snd (try_expire_stale t lm)) lid tok \<and>
      lm_lease_tokens (snd (try_expire_stale t lm)) lid = None"
    if "lease_get (snd (try_expire_stale t lm)) lid = None" for lid tok
    using that lease_wfD(4) [OF wf'] by (simp add: lease_get_def lease_authorize_def)
  ultimately show ?thesis by (simp add: split_beta)
qed

theorem expire_stale_exact_witness:
  "fst (try_expire_stale 30 demo_lm1) = [''w1''] \<and>
   set (fst (try_expire_stale 30 demo_lm1)) =
     {rl_workload_id l |l lid. map_of (lm_leases demo_lm1) lid = Some l \<and> lease_is_expired 30 l}"
proof -
  have "fst (try_expire_stale 30 demo_lm1) = [''w1'']" by code_simp
  then show ?thesis using expire_stale_exact [OF demo_lm1_wf, of 30] by (simp add: split_beta)
qed

text \<open>A workload can hold a valid lease while \<open>has_valid_lease\<close> answers no.  The grant check
  looks at every lease, but \<open>has_valid_lease\<close> looks at the first lease of the workload in the
  table's iteration order, which may be an expired one that has not been swept yet: after a
  lease lapses and the workload is granted a new one, the two leases are both in the table.\<close>

theorem has_valid_lease_misses_renewed_grant:
  "has_active_lease 40 (lease_run [demo_grant 0 ''a'' ''w1'', demo_grant 35 ''b'' ''w1''] demo_lm0) ''w1'' \<and>
   \<not> has_valid_lease 40 (lease_run [demo_grant 0 ''a'' ''w1'', demo_grant 35 ''b'' ''w1''] demo_lm0) ''w1''"
  by code_simp

text \<open>Renewal is a compare-and-swap on the generation: it succeeds exactly on an existing,
  valid, renewable lease whose generation is the expected one, extends that lease from the
  present by the default duration, raises its generation and changes nothing else, so that a
  second renewal with the same expected generation is refused with a lease conflict; every
  refusal leaves the manager as it was and carries the code of the first failed condition.\<close>

theorem renew_is_compare_and_swap:
  assumes "lease_wf lm"
  shows "case lease_renew t lid g lm of
      (Inr l', lm') \<Rightarrow>
        (\<exists>l. lease_get lm lid = Some l \<and> rl_generation l = g \<and> lease_is_valid t l \<and> rl_renewable l \<and>
           l' = l\<lparr>rl_expires_at := t + lm_default_duration lm, rl_generation := g + 1\<rparr> \<and>
           lease_get lm' = (lease_get lm)(lid \<mapsto> l') \<and>
           lm' = lm\<lparr>lm_leases := lm_leases lm'\<rparr> \<and> lease_wf lm' \<and>
           (\<exists>e. lease_renew t lid g lm' = (Inl e, lm') \<and> ne_code e = EC_LeaseConflict))
    | (Inl e, lm') \<Rightarrow> lm' = lm \<and>
        (case lease_get lm lid of
           None \<Rightarrow> ne_code e = EC_NotFound
         | Some l \<Rightarrow>
             if rl_generation l \<noteq> g then ne_code e = EC_LeaseConflict
             else if \<not> lease_is_valid t l then ne_code e = EC_LeaseExpired
             else \<not> rl_renewable l \<and> ne_code e = EC_FailedPrecondition)"
proof (cases "lease_get lm lid")
  case None
  then show ?thesis by (simp add: lease_renew_def lease_get_def lease_not_found_def)
next
  case (Some l)
  have succ: "g + 1 \<noteq> g" by simp
  show ?thesis
    using Some lease_wf_renew [OF assms, of t lid g] succ
    by (auto simp: lease_renew_def lease_get_def Let_def kernel_simps fun_eq_iff)
qed

theorem renew_is_compare_and_swap_witness:
  "\<exists>l' lm'. lease_renew 10 ''a'' 1 demo_lm1 = (Inr l', lm') \<and> rl_expires_at l' = 40 \<and>
     rl_generation l' = 2 \<and> (\<exists>e. lease_renew 10 ''a'' 1 lm' = (Inl e, lm') \<and> ne_code e = EC_LeaseConflict)"
proof -
  obtain l' lm' where r: "lease_renew 10 ''a'' 1 demo_lm1 = (Inr l', lm')"
      "rl_expires_at l' = 40" "rl_generation l' = 2"
    by (simp add: demo_simps lease_renew_def)
  then show ?thesis using renew_is_compare_and_swap [OF demo_lm1_wf, where t = 10 and lid = "''a''" and g = 1] by auto
qed


end
