(* ===== verification/Kernel_Objects.thy ===== *)
theory Kernel_Objects
  imports Workload_Types Leases
begin

text \<open>
  The kernel objects beside principals: devices, engines, nodes, model packages and workloads
  (crates/nous-types/src/device.rs, engine.rs, node.rs, model.rs, workload.rs), the records of
  checkpoints, events and audits (checkpoint.rs, event.rs, audit.rs) and the deployment profiles
  (profile.rs).  Every object is the three-part record of Object_Meta at its own specification and
  status, as its implementation of \<open>KernelObject\<close> is the plain access to the three fields.  A
  64-bit float is the word of its bits and bytes are characters.
\<close>

section \<open>Checkpoints, events and audits\<close>

record Checkpoint =
  ck_checkpoint_id :: string
  ck_workload_id :: string
  ck_sequence :: u64
  ck_state_snapshot :: string
  ck_node_id :: string
  ck_created_at :: instant
  ck_sha256 :: string

record CheckpointRef =
  ckr_checkpoint_id :: string
  ckr_sequence :: u64
  ckr_created_at :: "instant option"

record Event =
  ev_event_id :: string
  ev_workload_id :: string
  ev_sequence :: u64
  ev_event_type :: string
  ev_timestamp :: instant
  ev_actor :: string
  ev_payload :: string
  ev_phase :: string
  ev_trace_id :: string

record AuditRecord =
  aur_audit_id :: string
  aur_workload_id :: string
  aur_principal_id :: string
  aur_action :: string
  aur_decision :: string
  aur_reason :: string
  aur_context :: string
  aur_timestamp :: instant

section \<open>Runs and the status of workloads\<close>

record PerformanceMetrics =
  pfm_queue_time_us :: u64
  pfm_admission_time_us :: u64
  pfm_ttft_us :: u64
  pfm_tpot_us :: u64
  pfm_total_time_us :: u64
  pfm_tokens_per_second :: u64
  pfm_prefill_tokens :: u64
  pfm_decode_tokens :: u64
  pfm_total_tokens :: u64
  pfm_peak_ram_bytes :: u64
  pfm_peak_vram_bytes :: u64
  pfm_kv_cache_used_bytes :: u64
  pfm_vram_fragmentation :: u64
  pfm_kv_hit_rate :: u64
  pfm_prefix_hit_rate :: u64
  pfm_cache_transfer_bytes :: u64
  pfm_quality_score :: u64
  pfm_fallback_rate :: u64
  pfm_verification_attempts :: u32
  pfm_energy_joules :: u64
  pfm_thermal_throttled :: bool
  pfm_retry_count :: u32
  pfm_tool_failures :: u32
  pfm_failure_reason :: string

record ErrorInfo =
  ei_error_code :: string
  ei_message :: string
  ei_failed_phase :: string
  ei_cause :: string
  ei_stack :: "string list"
  ei_retryable :: bool

datatype RunPhase =
    RPh_Created | RPh_Preparing | RPh_Executing | RPh_Verifying | RPh_Finalizing
    | RPh_Completed | RPh_Failed | RPh_Cancelled

datatype RunOutcome =
    ROut_Unknown | ROut_Success | ROut_PartialSuccess | ROut_Failure | ROut_Cancelled
    | ROut_TimedOut

datatype PhaseExecutionStatus =
    PES_Pending | PES_Running | PES_Completed | PES_Failed | PES_Skipped | PES_TimedOut

record PhaseExecution =
  pex_phase_node_id :: string
  pex_phase_type :: PhaseType
  pex_started_at :: "instant option"
  pex_ended_at :: "instant option"
  pex_status :: PhaseExecutionStatus
  pex_engine_id :: string
  pex_device_id :: string
  pex_metrics :: "PerformanceMetrics option"
  pex_error :: "ErrorInfo option"
  pex_output_artifact_ref :: "string option"

record Run =
  run_run_id :: string
  run_workload_id :: string
  run_run_number :: u32
  run_phase :: RunPhase
  run_phases :: "PhaseExecution list"
  run_consumed :: ResourceVector
  run_started_at :: "instant option"
  run_ended_at :: "instant option"
  run_outcome :: RunOutcome

record WorkloadStatus =
  wst_phase :: WorkloadPhase
  wst_current_phase_index :: u32
  wst_node_id :: string
  wst_engine_id :: string
  wst_model_revision :: string
  wst_lease :: "ResourceLease option"
  wst_runs :: "Run list"
  wst_latest_checkpoint :: "CheckpointRef option"
  wst_conditions :: "Condition list"
  wst_started_at :: "instant option"
  wst_completed_at :: "instant option"
  wst_metrics :: "PerformanceMetrics option"
  wst_error :: "ErrorInfo option"

type_synonym Workload = "(WorkloadSpec, WorkloadStatus) kernel_object"

section \<open>Devices, engines and nodes\<close>

datatype DevicePhase =
    DP_Unknown | DP_Discovered | DP_Probed | DP_Bound | DP_Initialized | DP_Ready
    | DP_Allocating | DP_Busy | DP_Draining | DP_Suspended | DP_Resetting | DP_Failed
    | DP_Unbound

record TopologyLink =
  tl_from_device_id :: string
  tl_to_device_id :: string
  tl_link_type :: string
  tl_bandwidth_bps :: u64
  tl_latency_ns :: u64

record DeviceSpec =
  dsp_device_type :: DeviceType
  dsp_vendor :: string
  dsp_model :: string
  dsp_driver_version :: string
  dsp_total_resources :: ResourceVector
  dsp_capabilities :: "string list"

record DeviceStatus =
  dst_phase :: DevicePhase
  dst_available :: ResourceVector
  dst_temperature_celsius :: u64
  dst_power_milliwatts :: u64
  dst_utilization_percent :: u64
  dst_active_engines :: "string list"
  dst_topology :: "TopologyLink option"
  dst_last_health_check :: "instant option"
  dst_conditions :: "Condition list"

type_synonym Device = "(DeviceSpec, DeviceStatus) kernel_object"

datatype EnginePhase =
    EP_Unknown | EP_Starting | EP_Ready | EP_LoadingModel | EP_Running | EP_Draining
    | EP_Stopping | EP_Stopped | EP_Unhealthy

record EngineSpec =
  esp_engine_type :: string
  esp_version :: string
  esp_capabilities :: "string list"
  esp_supported_architectures :: "string list"
  esp_supported_quantizations :: "string list"
  esp_supports_streaming :: bool
  esp_supports_batching :: bool
  esp_supports_pause :: bool
  esp_supports_snapshot :: bool
  esp_device_requirements :: "DeviceRequirements option"

record EngineStatus =
  est_phase :: EnginePhase
  est_process_id :: string
  est_loaded_models :: "string list"
  est_allocated :: ResourceVector
  est_metrics :: "PerformanceMetrics option"
  est_last_health_check :: "instant option"
  est_conditions :: "Condition list"

type_synonym Engine = "(EngineSpec, EngineStatus) kernel_object"

datatype NodePhase =
    NP_Unknown | NP_Starting | NP_Ready | NP_Busy | NP_Draining | NP_Disconnected | NP_Failed

record NodeSpec =
  nsp_hostname :: string
  nsp_arch :: string
  nsp_os :: string
  nsp_capacity :: ResourceVector
  nsp_roles :: "string list"

record NodeStatus =
  nst_phase :: NodePhase
  nst_allocatable :: ResourceVector
  nst_devices :: "string list"
  nst_engines :: "string list"
  nst_active_workloads :: "string list"
  nst_last_heartbeat :: "instant option"
  nst_kernel_version :: string
  nst_conditions :: "Condition list"

type_synonym Node = "(NodeSpec, NodeStatus) kernel_object"

section \<open>Model packages\<close>

datatype ModelLifecyclePhase =
    ML_Unknown | ML_Importing | ML_Imported | ML_Validating | ML_Validated | ML_Loading
    | ML_Loaded | ML_Active | ML_Unloading | ML_Unloaded | ML_Removing | ML_Removed
    | ML_Failed | ML_Quarantined

record BenchmarkProfile =
  bp_benchmark_name :: string
  bp_hardware_config :: string
  bp_engine :: string
  bp_tokens_per_second :: u64
  bp_ttft_ms :: u64
  bp_tpot_ms :: u64
  bp_memory_bytes :: u64
  bp_quality_score :: u64
  bp_run_at :: "instant option"

record LoadOptions =
  lo_quantization_override :: "string option"
  lo_max_context_override :: "u64 option"
  lo_kv_cache_bytes_override :: "u64 option"
  lo_force_reload :: bool

record ModelPackageSpec =
  mps_family :: string
  mps_architecture :: string
  mps_total_parameters :: u64
  mps_activated_parameters :: u64
  mps_layer_count :: u32
  mps_hidden_size :: u32
  mps_attention_type :: string
  mps_attention_heads :: u32
  mps_kv_heads :: u32
  mps_head_dimension :: u32
  mps_expert_count :: u32
  mps_active_experts :: u32
  mps_shared_experts :: u32
  mps_context_length :: u64
  mps_rope_parameters :: string
  mps_tokenizer :: string
  mps_modalities :: "string list"
  mps_vision_encoder :: string
  mps_audio_encoder :: string
  mps_weight_format :: string
  mps_weight_precision :: string
  mps_activation_precision :: string
  mps_quantization :: string
  mps_tensor_shapes :: "string list"
  mps_kv_bytes_per_token :: u64
  mps_supported_engines :: "string list"
  mps_supported_devices :: "string list"
  mps_required_operators :: "string list"
  mps_parallelism_support :: "string list"
  mps_memory_requirements :: ResourceVector
  mps_license :: string
  mps_source :: string
  mps_sha256 :: string
  mps_signature :: string
  mps_sbom :: string
  mps_security_status :: string
  mps_benchmark_profiles :: "BenchmarkProfile list"

record ModelPackageStatus =
  mpst_phase :: ModelLifecyclePhase
  mpst_loaded_on_engines :: "string list"
  mpst_loaded_on_devices :: "string list"
  mpst_validated_at :: "instant option"
  mpst_last_used_at :: "instant option"
  mpst_conditions :: "Condition list"

type_synonym ModelPackage = "(ModelPackageSpec, ModelPackageStatus) kernel_object"

section \<open>Deployment profiles\<close>

datatype RuntimeProfile =
    RPf_Core | RPf_Edge | RPf_Micro

record RuntimeProfileCapabilities =
  rpc_durable_journal :: bool
  rpc_distributed_scheduling :: bool
  rpc_transactional_effects :: bool
  rpc_governed_learning :: bool
  rpc_dynamic_allocation :: bool

fun capabilities :: "RuntimeProfile \<Rightarrow> RuntimeProfileCapabilities" where
  "capabilities RPf_Core =
     \<lparr>rpc_durable_journal = True, rpc_distributed_scheduling = True, rpc_transactional_effects = True,
      rpc_governed_learning = True, rpc_dynamic_allocation = True\<rparr>"
| "capabilities RPf_Edge =
     \<lparr>rpc_durable_journal = True, rpc_distributed_scheduling = False, rpc_transactional_effects = True,
      rpc_governed_learning = False, rpc_dynamic_allocation = True\<rparr>"
| "capabilities RPf_Micro =
     \<lparr>rpc_durable_journal = False, rpc_distributed_scheduling = False, rpc_transactional_effects = True,
      rpc_governed_learning = False, rpc_dynamic_allocation = False\<rparr>"

section \<open>The provided methods of kernel objects\<close>

definition object_generation :: "('spec, 'status) kernel_object \<Rightarrow> u64" where
  "object_generation x = om_generation (ko_meta x)"

definition object_namespace :: "('spec, 'status) kernel_object \<Rightarrow> string" where
  "object_namespace x = om_namespace (ko_meta x)"

definition object_phase :: "('spec, 'status) kernel_object \<Rightarrow> string" where
  "object_phase x = om_phase (ko_meta x)"

lemmas object_defs = object_generation_def object_namespace_def object_phase_def uid_def

section \<open>Properties\<close>

text \<open>A history of status updates, each with the clock reading it is made at.\<close>

definition status_updates ::
    "('spec, 'status) kernel_object \<Rightarrow> (instant \<times> 'status) list \<Rightarrow> ('spec, 'status) kernel_object" where
  "status_updates = foldl (\<lambda>x (now, status). update_status now status x)"

lemma status_updates_snoc:
  "status_updates x (us @ [(now, status)]) = update_status now status (status_updates x us)"
  by (simp add: status_updates_def)

text \<open>Whatever the kernel observes, the specification, the identifier and the namespace of an object
  are those it was created with, and every update has a generation of its own as long as there are
  less than \<open>2 ^ 64\<close> of them.  The text of the metadata phase is unchanged too: an update of the status
  does not carry the status's own phase over to it.\<close>

theorem status_updates_keep_identity:
  "ko_spec (status_updates x us) = ko_spec x"
  "uid (status_updates x us) = uid x"
  "object_namespace (status_updates x us) = object_namespace x"
  "object_phase (status_updates x us) = object_phase x"
  "object_generation (status_updates x us) = object_generation x + of_nat (length us)"
  by (induction us rule: rev_induct)
    (auto simp: status_updates_snoc status_updates_def update_status_def bump_generation_def object_defs)

text \<open>Two points of a history that differ have different generations, so a reader that compares
  generations sees every update.\<close>

theorem generations_identify_updates:
  assumes "m \<le> length us" and "n \<le> length us" and "length us < 2 ^ 64"
    and "object_generation (status_updates x (take m us)) = object_generation (status_updates x (take n us))"
  shows "status_updates x (take m us) = status_updates x (take n us)"
proof -
  have "(of_nat m :: u64) = of_nat n"
    using assms by (simp add: status_updates_keep_identity(5) min_absorb2)
  then have "unat (of_nat m :: u64) = unat (of_nat n :: u64)" by simp
  then have "m = n"
    using assms(1-3) by (simp add: unat_of_nat take_bit_nat_eq_self)
  then show ?thesis by simp
qed

text \<open>The profiles form a chain: what a smaller profile offers a larger one offers too, and effects are
  transactional in each of them.\<close>

fun profile_rank :: "RuntimeProfile \<Rightarrow> nat" where
  "profile_rank RPf_Micro = 0"
| "profile_rank RPf_Edge = 1"
| "profile_rank RPf_Core = 2"

theorem profiles_form_a_chain:
  assumes "profile_rank p \<le> profile_rank q"
  shows "rpc_durable_journal (capabilities p) \<le> rpc_durable_journal (capabilities q)"
    and "rpc_distributed_scheduling (capabilities p) \<le> rpc_distributed_scheduling (capabilities q)"
    and "rpc_governed_learning (capabilities p) \<le> rpc_governed_learning (capabilities q)"
    and "rpc_dynamic_allocation (capabilities p) \<le> rpc_dynamic_allocation (capabilities q)"
    and "rpc_transactional_effects (capabilities p)"
  using assms by (cases p; cases q; simp)+

end
