(* ===== verification/Lease_Interleaving.thy ===== *)
theory Lease_Interleaving
  imports Leases
begin

text \<open>
  The lease manager under concurrency.  \<open>grant_fenced\<close> takes its locks one after the other, and
  \<open>expire_stale\<close> takes two, so calls of several threads interleave between critical sections.
  Each rule of \<open>conc_step\<close> is one critical section (or the atomic counter); the program counter
  of a thread remembers what a call in progress has read or computed.  The theorems say which of
  the sequential guarantees survive every interleaving and which does not.
\<close>

datatype grant_pc =
    Idle
  | Checked string string ResourceVector string string bool
  | Inserted ResourceLease
  | Drawn ResourceLease string
  | Bound ResourceLease string
  | Swept "string list"

record lease_sys =
  ls_lm :: LeaseManager
  ls_now :: instant
  ls_pc :: "nat \<Rightarrow> grant_pc"

definition sys_init :: "string \<Rightarrow> int \<Rightarrow> instant \<Rightarrow> lease_sys" where
  "sys_init uuid dur now =
     \<lparr>ls_lm = lease_manager_new uuid dur, ls_now = now, ls_pc = (\<lambda>_. Idle)\<rparr>"

abbreviation set_pc :: "nat \<Rightarrow> grant_pc \<Rightarrow> lease_sys \<Rightarrow> lease_sys" where
  "set_pc i c s \<equiv> s\<lparr>ls_pc := (ls_pc s)(i := c)\<rparr>"

definition new_lease ::
  "instant \<Rightarrow> LeaseManager \<Rightarrow> string \<Rightarrow> string \<Rightarrow> string \<Rightarrow> ResourceVector \<Rightarrow> string \<Rightarrow> string \<Rightarrow> bool
     \<Rightarrow> ResourceLease" where
  "new_lease now lm uuid w p r n d rn =
     \<lparr>rl_lease_id = uuid, rl_workload_id = w, rl_principal_id = p, rl_reserved = r,
      rl_node_id = n, rl_device_id = d, rl_granted_at = now,
      rl_expires_at = now + lm_default_duration lm, rl_generation = 1, rl_renewable = rn\<rparr>"

inductive conc_step :: "lease_sys \<Rightarrow> lease_sys \<Rightarrow> bool" where
  check: "ls_pc s i = Idle \<Longrightarrow> \<not> has_active_lease (ls_now s) (ls_lm s) w \<Longrightarrow>
     conc_step s (set_pc i (Checked w p r n d rn) s)"
| recheck_fails: "ls_pc s i = Checked w p r n d rn \<Longrightarrow> has_active_lease (ls_now s) (ls_lm s) w \<Longrightarrow>
     conc_step s (set_pc i Idle s)"
| insert: "ls_pc s i = Checked w p r n d rn \<Longrightarrow> \<not> has_active_lease (ls_now s) (ls_lm s) w \<Longrightarrow>
     map_of (lm_leases (ls_lm s)) uuid = None \<Longrightarrow>
     l = new_lease (ls_now s) (ls_lm s) uuid w p r n d rn \<Longrightarrow>
     conc_step s (set_pc i (Inserted l)
       (s\<lparr>ls_lm := (ls_lm s)\<lparr>lm_leases := AList.update uuid l (lm_leases (ls_lm s))\<rparr>\<rparr>))"
| draw: "ls_pc s i = Inserted l \<Longrightarrow> unat (ft_value (lm_fencing (ls_lm s))) < 2 ^ 64 - 1 \<Longrightarrow>
     fencing_next (lm_fencing (ls_lm s)) = (tok, fencing') \<Longrightarrow>
     conc_step s (set_pc i (Drawn l tok) (s\<lparr>ls_lm := (ls_lm s)\<lparr>lm_fencing := fencing'\<rparr>\<rparr>))"
| bind: "ls_pc s i = Drawn l tok \<Longrightarrow>
     conc_step s (set_pc i (Bound l tok)
       (s\<lparr>ls_lm := (ls_lm s)\<lparr>lm_lease_tokens :=
            (lm_lease_tokens (ls_lm s))(rl_lease_id l \<mapsto> tok)\<rparr>\<rparr>))"
| publish: "ls_pc s i = Bound l tok \<Longrightarrow>
     conc_step s (set_pc i Idle
       (s\<lparr>ls_lm := (ls_lm s)\<lparr>lm_resource_tokens :=
            (lm_resource_tokens (ls_lm s))(lease_key l \<mapsto> tok)\<rparr>\<rparr>))"
| renew: "conc_step s (s\<lparr>ls_lm := snd (lease_renew (ls_now s) lid g (ls_lm s))\<rparr>)"
| release: "conc_step s (s\<lparr>ls_lm := snd (lease_release lid (ls_lm s))\<rparr>)"
| sweep: "ls_pc s i = Idle \<Longrightarrow>
     ids = map fst (filter (\<lambda>(_, l). lease_is_expired (ls_now s) l) (lm_leases (ls_lm s))) \<Longrightarrow>
     conc_step s (set_pc i (Swept ids)
       (s\<lparr>ls_lm := (ls_lm s)\<lparr>lm_leases :=
            filter (\<lambda>(_, l). \<not> lease_is_expired (ls_now s) l) (lm_leases (ls_lm s))\<rparr>\<rparr>))"
| unbind: "ls_pc s i = Swept ids \<Longrightarrow>
     conc_step s (set_pc i Idle
       (s\<lparr>ls_lm := (ls_lm s)\<lparr>lm_lease_tokens :=
            foldl (\<lambda>m lid. m(lid := None)) (lm_lease_tokens (ls_lm s)) ids\<rparr>\<rparr>))"
| tick: "ls_now s \<le> t \<Longrightarrow> conc_step s (s\<lparr>ls_now := t\<rparr>)"

inductive conc_reachable :: "lease_sys \<Rightarrow> bool" where
  start: "CHR '':'' \<notin> set uuid \<Longrightarrow> conc_reachable (sys_init uuid dur now)"
| step: "conc_reachable s \<Longrightarrow> conc_step s s' \<Longrightarrow> conc_reachable s'"

text \<open>A token belongs to a lease once it is drawn for it.\<close>

definition owns :: "lease_sys \<Rightarrow> string \<Rightarrow> string \<Rightarrow> bool" where
  "owns s lid tok \<longleftrightarrow>
     lm_lease_tokens (ls_lm s) lid = Some tok \<or>
     (\<exists>i l. rl_lease_id l = lid \<and> (ls_pc s i = Drawn l tok \<or> ls_pc s i = Bound l tok))"

definition conc_inv :: "lease_sys \<Rightarrow> bool" where
  "conc_inv s \<longleftrightarrow>
     CHR '':'' \<notin> set (ft_node_id (lm_fencing (ls_lm s))) \<and>
     distinct (map fst (lm_leases (ls_lm s))) \<and>
     (\<forall>lid tok. owns s lid tok \<longrightarrow> (\<exists>v. issued (ls_lm s) tok v)) \<and>
     (\<forall>k tok. lm_resource_tokens (ls_lm s) k = Some tok \<longrightarrow> (\<exists>v. issued (ls_lm s) tok v)) \<and>
     (\<forall>lid lid' tok. owns s lid tok \<longrightarrow> owns s lid' tok \<longrightarrow> lid = lid') \<and>
     single_booking (ls_now s) (ls_lm s)"

section \<open>The invariant\<close>

lemma conc_inv_init: "CHR '':'' \<notin> set uuid \<Longrightarrow> conc_inv (sys_init uuid dur now)"
  by (simp add: conc_inv_def sys_init_def owns_def single_booking_def lease_manager_new_def
      fencing_new_def)

lemma conc_invD:
  assumes "conc_inv s"
  shows "CHR '':'' \<notin> set (ft_node_id (lm_fencing (ls_lm s)))"
    and "owns s lid tok \<Longrightarrow> \<exists>v. issued (ls_lm s) tok v"
    and "lm_resource_tokens (ls_lm s) k = Some tok \<Longrightarrow> \<exists>v. issued (ls_lm s) tok v"
    and "owns s lid tok \<Longrightarrow> owns s lid' tok \<Longrightarrow> lid = lid'"
    and "distinct (map fst (lm_leases (ls_lm s)))"
    and "single_booking (ls_now s) (ls_lm s)"
  using assms unfolding conc_inv_def by blast+

text \<open>A step that draws no token keeps the token part if it adds no owner and no resource token
  that was not owned.\<close>

lemma conc_inv_frame:
  assumes inv: "conc_inv s"
    and "lm_fencing (ls_lm s') = lm_fencing (ls_lm s)"
    and "distinct (map fst (lm_leases (ls_lm s')))"
    and own: "\<And>lid tok. owns s' lid tok \<Longrightarrow> owns s lid tok"
    and res: "\<And>k tok. lm_resource_tokens (ls_lm s') k = Some tok \<Longrightarrow>
      lm_resource_tokens (ls_lm s) k = Some tok \<or> (\<exists>lid. owns s lid tok)"
    and "single_booking (ls_now s') (ls_lm s')"
  shows "conc_inv s'"
proof -
  have "issued (ls_lm s') = issued (ls_lm s)"
    using assms(2) by (simp add: issued_def fun_eq_iff)
  then show ?thesis
    using assms unfolding conc_inv_def by (metis (no_types, lifting))
qed

lemma single_booking_insert:
  assumes "distinct (map fst (lm_leases lm))" "single_booking t lm" "\<not> has_active_lease t lm w"
    and "map_of (lm_leases lm) uuid = None" "rl_workload_id l = w"
  shows "single_booking t (lm\<lparr>lm_leases := AList.update uuid l (lm_leases lm)\<rparr>)"
proof -
  have "\<not> lease_is_valid t x" if "map_of (lm_leases lm) lid = Some x" "rl_workload_id x = w" for lid x
    using that assms(1,3) unfolding has_active_lease_def by (subst (asm) list_ex_map_of) auto
  with assms(2,4,5) show ?thesis
    unfolding single_booking_def by (auto simp: kernel_simps)
qed

lemma pc_upd_ex:
  "(\<exists>j x. Q x \<and> ((f(i := c)) j = Drawn x a \<or> (f(i := c)) j = Bound x a)) \<longleftrightarrow>
     (\<exists>x. Q x \<and> (c = Drawn x a \<or> c = Bound x a)) \<or>
     (\<exists>j x. j \<noteq> i \<and> Q x \<and> (f j = Drawn x a \<or> f j = Bound x a))"
  by (auto simp: fun_upd_def)

lemma conc_inv_draw:
  assumes inv: "conc_inv s" and pc: "ls_pc s i = Inserted l"
    and room: "unat (ft_value (lm_fencing (ls_lm s))) < 2 ^ 64 - 1"
    and nxt: "fencing_next (lm_fencing (ls_lm s)) = (tok, fencing')"
  shows "conc_inv (set_pc i (Drawn l tok) (s\<lparr>ls_lm := (ls_lm s)\<lparr>lm_fencing := fencing'\<rparr>\<rparr>))"
    (is "conc_inv ?s")
proof -
  let ?v = "unat (ft_value (lm_fencing (ls_lm s))) + 1"
  have f: "unat (ft_value fencing') = ?v" "ft_node_id fencing' = ft_node_id (lm_fencing (ls_lm s))"
      "tok = ft_node_id (lm_fencing (ls_lm s)) @ CHR '':'' # show_nat ?v"
    using nxt room by (auto simp: fencing_next_def Let_def token_text_def unat_plus_one)
  have new: "issued (ls_lm ?s) tok ?v" using f by (simp add: issued_def)
  have mono: "issued (ls_lm ?s) a u" if "issued (ls_lm s) a u" for a u
    using that f by (auto simp: issued_def)
  have fresh: "\<not> owns s lid tok" for lid
  proof
    assume "owns s lid tok"
    then obtain v where "issued (ls_lm s) tok v" using inv unfolding conc_inv_def by blast
    then show False using f(3) by (auto simp: issued_def)
  qed
  have own: "owns ?s lid a \<longleftrightarrow> owns s lid a \<or> lid = rl_lease_id l \<and> a = tok" for lid a
  proof -
    have "(\<exists>j x. rl_lease_id x = lid \<and> (ls_pc ?s j = Drawn x a \<or> ls_pc ?s j = Bound x a)) \<longleftrightarrow>
      (\<exists>j x. rl_lease_id x = lid \<and> (ls_pc s j = Drawn x a \<or> ls_pc s j = Bound x a)) \<or>
      lid = rl_lease_id l \<and> a = tok"
    proof -
      have "j \<noteq> i" if "ls_pc s j = Drawn x a \<or> ls_pc s j = Bound x a" for j x
        using pc that by auto
      then have "(\<exists>j x. j \<noteq> i \<and> rl_lease_id x = lid \<and> (ls_pc s j = Drawn x a \<or> ls_pc s j = Bound x a))
        \<longleftrightarrow> (\<exists>j x. rl_lease_id x = lid \<and> (ls_pc s j = Drawn x a \<or> ls_pc s j = Bound x a))"
        by blast
      then show ?thesis
        using pc_upd_ex [of "\<lambda>x. rl_lease_id x = lid" "ls_pc s" i "Drawn l tok" a] by auto
    qed
    then show ?thesis unfolding owns_def by auto
  qed
  show ?thesis
    unfolding conc_inv_def
  proof (intro conjI)
    show "\<forall>lid a. owns ?s lid a \<longrightarrow> (\<exists>v. issued (ls_lm ?s) a v)"
      unfolding own using conc_invD(2) [OF inv] new mono by blast
    show "\<forall>k a. lm_resource_tokens (ls_lm ?s) k = Some a \<longrightarrow> (\<exists>v. issued (ls_lm ?s) a v)"
    proof (intro allI impI)
      fix k a assume "lm_resource_tokens (ls_lm ?s) k = Some a"
      then have "lm_resource_tokens (ls_lm s) k = Some a" by simp
      then show "\<exists>v. issued (ls_lm ?s) a v" using conc_invD(3) [OF inv] mono by blast
    qed
    show "\<forall>lid lid' a. owns ?s lid a \<longrightarrow> owns ?s lid' a \<longrightarrow> lid = lid'"
      unfolding own using conc_invD(4) [OF inv] fresh by blast
  qed (use inv f in \<open>simp_all add: conc_inv_def single_booking_def\<close>)
qed

lemma owns_set_pc:
  assumes "\<And>l tok. c \<noteq> Drawn l tok" "\<And>l tok. c \<noteq> Bound l tok"
  shows "owns (set_pc i c s) lid tok \<Longrightarrow> owns s lid tok"
  using assms by (auto simp: owns_def split: if_splits)

lemma owns_set_pc_lm:
  assumes "owns (s\<lparr>ls_lm := lm', ls_pc := (ls_pc s)(i := c)\<rparr>) lid tok"
    and "lm_lease_tokens lm' = lm_lease_tokens (ls_lm s)"
    and "\<And>l tok. c \<noteq> Drawn l tok" "\<And>l tok. c \<noteq> Bound l tok"
  shows "owns s lid tok"
  using assms by (auto simp: owns_def split: if_splits)

lemma owns_cong:
  "lm_lease_tokens (ls_lm s') = lm_lease_tokens (ls_lm s) \<Longrightarrow> ls_pc s' = ls_pc s \<Longrightarrow>
     owns s' lid tok \<longleftrightarrow> owns s lid tok"
  by (simp add: owns_def)

lemma conc_step_inv: "conc_step s s' \<Longrightarrow> conc_inv s \<Longrightarrow> conc_inv s'"
proof (induction rule: conc_step.induct)
  case (check s i w p r n d rn)
  then show ?case by (intro conc_inv_frame [OF check.prems])
    (auto simp: conc_inv_def intro: owns_set_pc)
next
  case (recheck_fails s i w p r n d rn)
  then show ?case by (intro conc_inv_frame [OF recheck_fails.prems])
    (auto simp: conc_inv_def intro: owns_set_pc)
next
  case (insert s i w p r n d rn uuid l)
  then have "single_booking (ls_now s)
      ((ls_lm s)\<lparr>lm_leases := AList.update uuid l (lm_leases (ls_lm s))\<rparr>)"
    by (intro single_booking_insert) (auto simp: conc_inv_def new_lease_def)
  with insert show ?case by (intro conc_inv_frame [OF insert.prems])
    (auto simp: conc_inv_def distinct_update dest: owns_set_pc_lm)
next
  case (draw s i l tok fencing')
  then show ?case by (intro conc_inv_draw)
next
  case (bind s i l tok)
  let ?s = "set_pc i (Bound l tok) (s\<lparr>ls_lm := (ls_lm s)\<lparr>lm_lease_tokens :=
    (lm_lease_tokens (ls_lm s))(rl_lease_id l \<mapsto> tok)\<rparr>\<rparr>)"
  have "owns s lid a" if "owns ?s lid a" for lid a
  proof -
    from that consider "lm_lease_tokens (ls_lm s) lid = Some a" | "lid = rl_lease_id l" "a = tok"
      | j x where "rl_lease_id x = lid" "ls_pc s j = Drawn x a \<or> ls_pc s j = Bound x a"
      by (auto simp: owns_def split: if_splits)
    then show ?thesis using bind.hyps by cases (auto simp: owns_def)
  qed
  with conc_invD(5,6) [OF bind.prems] show ?case
    by (intro conc_inv_frame [OF bind.prems]) (auto simp: single_booking_def)
next
  case (publish s i l tok)
  have own: "owns s (rl_lease_id l) tok" using publish.hyps by (auto simp: owns_def)
  have sub: "owns s lid a" if "owns (s\<lparr>ls_lm := (ls_lm s)\<lparr>lm_resource_tokens := R\<rparr>,
      ls_pc := (ls_pc s)(i := Idle)\<rparr>) lid a" for R lid a
    using owns_set_pc_lm [OF that] by simp
  show ?case
  proof (rule conc_inv_frame [OF publish.prems])
    fix k a
    assume "lm_resource_tokens (ls_lm (set_pc i Idle (s\<lparr>ls_lm := (ls_lm s)\<lparr>lm_resource_tokens :=
      (lm_resource_tokens (ls_lm s))(lease_key l \<mapsto> tok)\<rparr>\<rparr>))) k = Some a"
    then show "lm_resource_tokens (ls_lm s) k = Some a \<or> (\<exists>lid. owns s lid a)"
      using own by (cases "k = lease_key l") auto
  qed (use conc_invD(5,6) [OF publish.prems] sub in \<open>simp_all add: single_booking_def\<close>)
next
  case (renew s lid g)
  have "lm_lease_tokens (snd (lease_renew (ls_now s) lid g (ls_lm s))) = lm_lease_tokens (ls_lm s)"
      "distinct (map fst (lm_leases (snd (lease_renew (ls_now s) lid g (ls_lm s)))))"
    using conc_invD(5) [OF renew]
    by (auto simp: lease_renew_def Let_def distinct_update split: option.split)
  with conc_invD(6) [OF renew] show ?case
    by (intro conc_inv_frame [OF renew]) (simp_all add: single_booking_renew owns_def)
next
  case (release s lid)
  have tok: "lm_lease_tokens (snd (lease_release lid (ls_lm s))) x = Some a \<Longrightarrow>
      lm_lease_tokens (ls_lm s) x = Some a" for x a
    by (auto simp: lease_release_def split: if_splits)
  have "distinct (map fst (lm_leases (snd (lease_release lid (ls_lm s)))))"
    using conc_invD(5) [OF release] by (simp add: lease_release_def distinct_delete)
  with conc_invD(6) [OF release] tok show ?case
    by (intro conc_inv_frame [OF release]) (auto simp: single_booking_release owns_def)
next
  case (sweep s i ids)
  have sub: "owns s lid a" if "owns (s\<lparr>ls_lm := (ls_lm s)\<lparr>lm_leases := L\<rparr>,
      ls_pc := (ls_pc s)(i := Swept ids)\<rparr>) lid a" for L lid a
    using owns_set_pc_lm [OF that] by simp
  show ?case
    by (rule conc_inv_frame [OF sweep.prems])
      (use conc_invD(5,6) [OF sweep.prems] sub in
        \<open>simp_all add: single_booking_filter distinct_map_filter\<close>)
next
  case (unbind s i ids)
  let ?T = "foldl (\<lambda>m lid. m(lid := None)) (lm_lease_tokens (ls_lm s)) ids"
  have "?T x = Some a \<Longrightarrow> lm_lease_tokens (ls_lm s) x = Some a" for x a
    by (simp add: foldl_remove_keys split: if_splits)
  then have sub: "owns s lid a" if "owns (s\<lparr>ls_lm := (ls_lm s)\<lparr>lm_lease_tokens := ?T\<rparr>,
      ls_pc := (ls_pc s)(i := Idle)\<rparr>) lid a" for lid a
    using that unfolding owns_def by (auto split: if_splits)
  show ?case
    by (rule conc_inv_frame [OF unbind.prems])
      (use conc_invD(5,6) [OF unbind.prems] sub in simp_all)
next
  case (tick s t)
  with conc_invD(5,6) [OF tick.prems] show ?case
    by (intro conc_inv_frame [OF tick.prems]) (auto simp: owns_def intro: single_booking_later)
qed

lemma conc_reachable_inv: "conc_reachable s \<Longrightarrow> conc_inv s"
  by (induction rule: conc_reachable.induct) (auto intro: conc_inv_init conc_step_inv)

lemma conc_authorizeD:
  assumes inv: "conc_inv s" and auth: "lease_authorize t (ls_lm s) lid tok"
    and l: "map_of (lm_leases (ls_lm s)) lid = Some l"
  shows "owns s lid tok" "lm_resource_tokens (ls_lm s) (lease_key l) = Some tok"
proof -
  obtain cur where a: "lm_lease_tokens (ls_lm s) lid = Some tok" "is_token_valid cur tok"
      "lm_resource_tokens (ls_lm s) (lease_key l) = Some cur"
    using auth l by (auto simp: lease_authorize_def lease_key_def split: option.splits if_splits)
  then show own: "owns s lid tok" by (simp add: owns_def)
  obtain u v where "issued (ls_lm s) cur u" "issued (ls_lm s) tok v"
    using inv own a(3) unfolding conc_inv_def by blast
  then have "cur = token_text (ft_node_id (lm_fencing (ls_lm s))) (of_nat u)"
      "tok = token_text (ft_node_id (lm_fencing (ls_lm s))) (of_nat v)"
    by (auto dest: issued_token_text)
  moreover have "CHR '':'' \<notin> set (ft_node_id (lm_fencing (ls_lm s)))"
    using inv unfolding conc_inv_def by blast
  ultimately have "cur = tok" using a(2) by simp
  with a(3) show "lm_resource_tokens (ls_lm s) (lease_key l) = Some tok" by simp
qed

section \<open>Properties\<close>



text \<open>A race between two grants of the same resource: both leases are inserted, thread 0 draws
  token 1, thread 1 draws token 2 and publishes it, and thread 0 publishes token 1 last.\<close>

definition race_lease :: "string \<Rightarrow> string \<Rightarrow> ResourceLease" where
  "race_lease uuid w = new_lease 0 (lease_manager_new ''u'' 30) uuid w ''p'' rv_zero ''n'' ''d'' True"

definition race_lm :: LeaseManager where
  "race_lm = (lease_manager_new ''u'' 30)
     \<lparr>lm_leases := [(''a'', race_lease ''a'' ''w1''), (''b'', race_lease ''b'' ''w2'')],
      lm_lease_tokens := [''a'' \<mapsto> ''lease-u:1'', ''b'' \<mapsto> ''lease-u:2''],
      lm_resource_tokens := [''n:d'' \<mapsto> ''lease-u:1''],
      lm_fencing := \<lparr>ft_value = 2, ft_node_id = ''lease-u''\<rparr>\<rparr>"

lemmas race_simps = race_lease_def new_lease_def lease_manager_new_def fencing_new_def
  has_active_lease_def fencing_next_def token_text_def show_nat.simps Let_def lease_key_def
  resource_key_def

lemma race_reachable:
  "conc_reachable \<lparr>ls_lm = race_lm, ls_now = 0, ls_pc = (\<lambda>_. Idle)\<rparr>"
proof -
  let ?lm = "lease_manager_new ''u'' 30"
  let ?a = "race_lease ''a'' ''w1''" and ?b = "race_lease ''b'' ''w2''"
  let ?A = "[(''a'', ?a)]" and ?AB = "[(''a'', ?a), (''b'', ?b)]"
  let ?f = "\<lambda>v. \<lparr>ft_value = v, ft_node_id = ''lease-u''\<rparr>"
  let ?s = "\<lambda>lm c0 c1. \<lparr>ls_lm = lm, ls_now = 0, ls_pc = ((\<lambda>_. Idle)(0 := c0))(1 := c1)\<rparr>"
  let ?c = "\<lambda>w. Checked w ''p'' rv_zero ''n'' ''d'' True"
  note st = conc_reachable.step
  have pc: "(\<lambda>_. Idle) = ((\<lambda>_. Idle)(0 := Idle))(1 := Idle)" by (simp add: fun_eq_iff)
  have "conc_reachable (sys_init ''u'' 30 0)" by (rule conc_reachable.start) simp
  then have "conc_reachable (?s ?lm Idle Idle)" unfolding sys_init_def by (subst (asm) pc)
  from st [OF this conc_step.check [where i = 0 and w = "''w1''" and p = "''p''" and r = rv_zero
      and n = "''n''" and d = "''d''" and rn = True]]
  have "conc_reachable (?s ?lm (?c ''w1'') Idle)" by (simp add: race_simps fun_upd_twist)
  from st [OF this conc_step.insert [where i = 0 and uuid = "''a''" and l = ?a]]
  have "conc_reachable (?s (?lm\<lparr>lm_leases := ?A\<rparr>) (Inserted ?a) Idle)"
    by (simp add: race_simps fun_upd_twist)
  from st [OF this conc_step.check [where i = 1 and w = "''w2''" and p = "''p''" and r = rv_zero
      and n = "''n''" and d = "''d''" and rn = True]]
  have "conc_reachable (?s (?lm\<lparr>lm_leases := ?A\<rparr>) (Inserted ?a) (?c ''w2''))"
    by (simp add: race_simps fun_upd_twist)
  from st [OF this conc_step.insert [where i = 1 and uuid = "''b''" and l = ?b]]
  have "conc_reachable (?s (?lm\<lparr>lm_leases := ?AB\<rparr>) (Inserted ?a) (Inserted ?b))"
    by (simp add: race_simps fun_upd_twist)
  from st [OF this conc_step.draw [where i = 0 and l = ?a and tok = "''lease-u:1''" and fencing' = "?f 1"]]
  have "conc_reachable (?s (?lm\<lparr>lm_leases := ?AB, lm_fencing := ?f 1\<rparr>)
      (Drawn ?a ''lease-u:1'') (Inserted ?b))"
    by (simp add: race_simps fun_upd_twist)
  from st [OF this conc_step.draw [where i = 1 and l = ?b and tok = "''lease-u:2''" and fencing' = "?f 2"]]
  have "conc_reachable (?s (?lm\<lparr>lm_leases := ?AB, lm_fencing := ?f 2\<rparr>)
      (Drawn ?a ''lease-u:1'') (Drawn ?b ''lease-u:2''))"
    by (simp add: race_simps fun_upd_twist)
  from st [OF this conc_step.bind [where i = 0]]
  have "conc_reachable (?s (?lm\<lparr>lm_leases := ?AB, lm_fencing := ?f 2,
      lm_lease_tokens := [''a'' \<mapsto> ''lease-u:1'']\<rparr>) (Bound ?a ''lease-u:1'') (Drawn ?b ''lease-u:2''))"
    by (simp add: race_simps fun_upd_twist)
  from st [OF this conc_step.bind [where i = 1]]
  have "conc_reachable (?s (?lm\<lparr>lm_leases := ?AB, lm_fencing := ?f 2,
      lm_lease_tokens := [''a'' \<mapsto> ''lease-u:1'', ''b'' \<mapsto> ''lease-u:2'']\<rparr>)
      (Bound ?a ''lease-u:1'') (Bound ?b ''lease-u:2''))"
    by (simp add: race_simps fun_upd_twist)
  from st [OF this conc_step.publish [where i = 1]]
  have "conc_reachable (?s (?lm\<lparr>lm_leases := ?AB, lm_fencing := ?f 2,
      lm_lease_tokens := [''a'' \<mapsto> ''lease-u:1'', ''b'' \<mapsto> ''lease-u:2''],
      lm_resource_tokens := [''n:d'' \<mapsto> ''lease-u:2'']\<rparr>) (Bound ?a ''lease-u:1'') Idle)"
    by (simp add: race_simps fun_upd_twist)
  from st [OF this conc_step.publish [where i = 0]]
  have "conc_reachable (?s race_lm Idle Idle)"
    by (simp add: race_simps race_lm_def fun_upd_twist)
  then show ?thesis by (subst pc)
qed

text \<open>The order of tokens does not survive interleaving: two grants of one resource can end,
  with both calls returned, in a state where the lease with the lower token is authorized and
  the lease with the higher, more recently drawn token is not.\<close>

theorem interleaved_grants_can_fence_the_newer_lease:
  "\<exists>s. conc_reachable s \<and> (\<forall>i. ls_pc s i = Idle) \<and>
     lease_authorize 0 (ls_lm s) ''a'' ''lease-u:1'' \<and>
     \<not> lease_authorize 0 (ls_lm s) ''b'' ''lease-u:2'' \<and>
     lm_lease_tokens (ls_lm s) ''b'' = Some ''lease-u:2''"
proof -
  have "lease_authorize 0 race_lm ''a'' ''lease-u:1''" "\<not> lease_authorize 0 race_lm ''b'' ''lease-u:2''"
      "lm_lease_tokens race_lm ''b'' = Some ''lease-u:2''"
    by (simp_all add: race_lm_def lease_authorize_def race_simps lease_is_valid_def is_token_valid_def
        token_parse_def parse_u64_def digits_val_def digit_val_def is_ascii_digit_def)
  then show ?thesis
    by (intro exI [of _ "\<lparr>ls_lm = race_lm, ls_now = 0, ls_pc = (\<lambda>_. Idle)\<rparr>"])
      (simp add: race_reachable)
qed

end
