(* ===== verification/Journal.thy ===== *)
theory Journal
  imports Kernel_Errors
begin

text \<open>
  The append-only journal (crates/nous-state/src/journal.rs).  The SQLite table
  \<open>journal_entries\<close> is the list of its rows in insertion order, and each SQL statement of the
  source is written out over that list: the \<open>UNIQUE\<close> constraints, the 64-bit signed range of an
  \<open>INTEGER\<close> column, \<open>ORDER BY sequence\<close>, \<open>COALESCE(MAX(sequence), 0)\<close>.  A row keeps the entry
  type as the text that is stored.  What lies outside the repository is a parameter: SHA-256
  (\<open>env_sha\<close>), the text of a storage error (\<open>env_sql\<close>), the outcome of \<open>PRAGMA quick_check\<close>
  (\<open>db_quick_check\<close>) and whether the next insertions fail (\<open>jn_faults\<close>, one entry for each
  coming insertion; a missing entry means success).  Unsigned 64-bit fields are natural numbers;
  the insertion refuses the ones an \<open>INTEGER\<close> column cannot hold, so that they never wrap.

  The second half states the contract of a log as the locale \<open>append_log\<close>, proves what clients
  rely on inside it, and interprets it on the journal.
\<close>

section \<open>Entries\<close>

datatype EntryType = ET_Intent | ET_Transition | ET_Observation | ET_Commit | ET_Abort | ET_Compensate

record JournalEntry =
  je_sequence :: nat
  je_workload_id :: string
  je_entry_type :: EntryType
  je_object_type :: string
  je_object_id :: string
  je_previous_phase :: "string option"
  je_new_phase :: string
  je_generation :: nat
  je_payload :: string
  je_fencing_token :: string
  je_actor :: string
  je_idempotency_key :: "string option"
  je_timestamp_us :: int
  je_checksum :: string

fun entry_type_as_str :: "EntryType \<Rightarrow> string" where
  "entry_type_as_str ET_Intent = ''INTENT''"
| "entry_type_as_str ET_Transition = ''TRANSITION''"
| "entry_type_as_str ET_Observation = ''OBSERVATION''"
| "entry_type_as_str ET_Commit = ''COMMIT''"
| "entry_type_as_str ET_Abort = ''ABORT''"
| "entry_type_as_str ET_Compensate = ''COMPENSATE''"

definition entry_type_parse :: "string \<Rightarrow> EntryType option" where
  "entry_type_parse s =
     (if s = ''INTENT'' then Some ET_Intent
      else if s = ''TRANSITION'' then Some ET_Transition
      else if s = ''OBSERVATION'' then Some ET_Observation
      else if s = ''COMMIT'' then Some ET_Commit
      else if s = ''ABORT'' then Some ET_Abort
      else if s = ''COMPENSATE'' then Some ET_Compensate
      else None)"

section \<open>The table\<close>

record journal_row =
  row_sequence :: nat
  row_workload_id :: string
  row_entry_type :: string
  row_object_type :: string
  row_object_id :: string
  row_previous_phase :: "string option"
  row_new_phase :: string
  row_generation :: nat
  row_payload :: string
  row_fencing_token :: string
  row_actor :: string
  row_idempotency_key :: "string option"
  row_timestamp_us :: int
  row_checksum :: string

definition row_of_entry :: "JournalEntry \<Rightarrow> journal_row" where
  "row_of_entry e =
     \<lparr>row_sequence = je_sequence e, row_workload_id = je_workload_id e,
      row_entry_type = entry_type_as_str (je_entry_type e), row_object_type = je_object_type e,
      row_object_id = je_object_id e, row_previous_phase = je_previous_phase e,
      row_new_phase = je_new_phase e, row_generation = je_generation e,
      row_payload = je_payload e, row_fencing_token = je_fencing_token e,
      row_actor = je_actor e, row_idempotency_key = je_idempotency_key e,
      row_timestamp_us = je_timestamp_us e, row_checksum = je_checksum e\<rparr>"

definition decode_entry :: "journal_row \<Rightarrow> JournalEntry option" where
  "decode_entry r =
     (case entry_type_parse (row_entry_type r) of
        None \<Rightarrow> None
      | Some ty \<Rightarrow> Some
          \<lparr>je_sequence = row_sequence r, je_workload_id = row_workload_id r, je_entry_type = ty,
           je_object_type = row_object_type r, je_object_id = row_object_id r,
           je_previous_phase = row_previous_phase r, je_new_phase = row_new_phase r,
           je_generation = row_generation r, je_payload = row_payload r,
           je_fencing_token = row_fencing_token r, je_actor = row_actor r,
           je_idempotency_key = row_idempotency_key r, je_timestamp_us = row_timestamp_us r,
           je_checksum = row_checksum r\<rparr>)"

datatype sql_failure = SqlUniqueSequence | SqlUniqueKey | SqlOutOfRange | SqlConversion string | SqlIo string

record journal_env =
  env_sha :: "string \<Rightarrow> string"
  env_sql :: "sql_failure \<Rightarrow> string"

record journal_db =
  db_rows :: "journal_row list"
  db_format_version :: "string option"
  db_quick_check :: string

record Journal =
  jn_db :: journal_db
  jn_next_sequence :: nat
  jn_faults :: "string option list"

definition JOURNAL_FORMAT_VERSION :: nat where
  "JOURNAL_FORMAT_VERSION = 2"

definition i64_max :: nat where
  "i64_max = 2 ^ 63 - 1"

section \<open>Checksums\<close>

definition to_be_bytes :: "nat \<Rightarrow> string" where
  "to_be_bytes n = map (\<lambda>i. char_of (n div 256 ^ (7 - i) mod 256)) [0..<8]"

definition i64_to_be_bytes :: "int \<Rightarrow> string" where
  "i64_to_be_bytes i = to_be_bytes (nat (i mod 2 ^ 64))"

definition opt_bytes :: "string option \<Rightarrow> string" where
  "opt_bytes x = (case x of None \<Rightarrow> [] | Some s \<Rightarrow> s)"

text \<open>The bytes fed to the hasher, one update after the other.\<close>

definition checksum_input :: "JournalEntry \<Rightarrow> string" where
  "checksum_input e =
     to_be_bytes (je_sequence e) @ je_workload_id e @ entry_type_as_str (je_entry_type e) @
     je_object_type e @ je_object_id e @ opt_bytes (je_previous_phase e) @ je_new_phase e @
     to_be_bytes (je_generation e) @ je_payload e @ je_fencing_token e @ je_actor e @
     opt_bytes (je_idempotency_key e) @ i64_to_be_bytes (je_timestamp_us e)"

definition compute_checksum :: "journal_env \<Rightarrow> JournalEntry \<Rightarrow> string" where
  "compute_checksum env e = env_sha env (checksum_input e)"

section \<open>Operations\<close>

definition max_sequence_of :: "journal_row list \<Rightarrow> nat" where
  "max_sequence_of rows = foldr (\<lambda>r m. max (row_sequence r) m) rows 0"

definition journal_open :: "journal_db \<Rightarrow> Journal nous_result \<times> journal_db" where
  "journal_open db =
     (let max_seq = max_sequence_of (db_rows db)
      in case db_format_version db of
           Some version \<Rightarrow>
             if version = show_nat JOURNAL_FORMAT_VERSION
             then (Inr \<lparr>jn_db = db, jn_next_sequence = max_seq + 1, jn_faults = []\<rparr>, db)
             else (Inl (nous_error EC_FailedPrecondition
                    (''Journal format '' @ version @ '' is incompatible with format '' @
                     show_nat JOURNAL_FORMAT_VERSION)), db)
         | None \<Rightarrow>
             if max_seq = 0
             then let db' = db\<lparr>db_format_version := Some (show_nat JOURNAL_FORMAT_VERSION)\<rparr>
                  in (Inr \<lparr>jn_db = db', jn_next_sequence = max_seq + 1, jn_faults = []\<rparr>, db')
             else (Inl (nous_error EC_FailedPrecondition
                    ''Unversioned non-empty journal requires an explicit migration''), db))"

definition journal_open_in_memory :: Journal where
  "journal_open_in_memory =
     \<lparr>jn_db = \<lparr>db_rows = [], db_format_version = None, db_quick_check = ''ok''\<rparr>,
      jn_next_sequence = 1, jn_faults = []\<rparr>"

definition find_by_idempotency_key :: "Journal \<Rightarrow> string \<Rightarrow> nat option" where
  "find_by_idempotency_key j key =
     map_option row_sequence (find (\<lambda>r. row_idempotency_key r = Some key) (db_rows (jn_db j)))"

text \<open>The \<open>INSERT\<close> statement with its constraints.\<close>

definition sql_insert :: "journal_row \<Rightarrow> Journal \<Rightarrow> (sql_failure + unit) \<times> Journal" where
  "sql_insert r j =
     (let fault = (case jn_faults j of [] \<Rightarrow> None | f # _ \<Rightarrow> f);
          j1 = j\<lparr>jn_faults := tl (jn_faults j)\<rparr>
      in if row_sequence r > i64_max \<or> row_generation r > i64_max then (Inl SqlOutOfRange, j)
         else case fault of
                Some msg \<Rightarrow> (Inl (SqlIo msg), j1)
              | None \<Rightarrow>
                  if list_ex (\<lambda>q. row_sequence q = row_sequence r) (db_rows (jn_db j))
                  then (Inl SqlUniqueSequence, j1)
                  else if row_idempotency_key r \<noteq> None \<and>
                    list_ex (\<lambda>q. row_idempotency_key q = row_idempotency_key r) (db_rows (jn_db j))
                  then (Inl SqlUniqueKey, j1)
                  else (Inr (), j1\<lparr>jn_db := (jn_db j)\<lparr>db_rows := db_rows (jn_db j) @ [r]\<rparr>\<rparr>))"

definition append_error :: "journal_env \<Rightarrow> sql_failure \<Rightarrow> NousError" where
  "append_error env f =
     (let text = env_sql env f
      in if str_contains text ''UNIQUE'' \<and> str_contains text ''idempotency''
         then nous_error EC_AlreadyExists ''Idempotency key already used''
         else nous_error EC_Internal (''Failed to append journal entry: '' @ text))"

definition journal_append ::
  "journal_env \<Rightarrow> int \<Rightarrow> JournalEntry \<Rightarrow> Journal \<Rightarrow> nat nous_result \<times> Journal" where
  "journal_append env now entry j =
     (case Option.bind (je_idempotency_key entry) (find_by_idempotency_key j) of
        Some seq \<Rightarrow> (Inr seq, j)
      | None \<Rightarrow>
          let seq = jn_next_sequence j;
              e1 = entry\<lparr>je_sequence := seq\<rparr>;
              e2 = (if je_timestamp_us e1 = 0 then e1\<lparr>je_timestamp_us := now\<rparr> else e1);
              e3 = e2\<lparr>je_checksum := compute_checksum env e2\<rparr>
          in (case sql_insert (row_of_entry e3) j of
                (Inl f, j') \<Rightarrow> (Inl (append_error env f), j')
              | (Inr _, j') \<Rightarrow> (Inr seq, j'\<lparr>jn_next_sequence := seq + 1\<rparr>)))"

text \<open>\<open>SELECT ... ORDER BY sequence\<close>, decoding every row; the first row that does not decode
  fails the whole read.\<close>

fun decode_rows :: "journal_row list \<Rightarrow> string + JournalEntry list" where
  "decode_rows [] = Inr []"
| "decode_rows (r # rs) =
     (case decode_entry r of
        None \<Rightarrow> Inl (row_entry_type r)
      | Some e \<Rightarrow> (case decode_rows rs of Inl x \<Rightarrow> Inl x | Inr es \<Rightarrow> Inr (e # es)))"

definition select_entries ::
  "journal_env \<Rightarrow> (journal_row \<Rightarrow> bool) \<Rightarrow> Journal \<Rightarrow> JournalEntry list nous_result" where
  "select_entries env P j =
     (case decode_rows (sort_key row_sequence (filter P (db_rows (jn_db j)))) of
        Inl raw \<Rightarrow> Inl (nous_error EC_Internal
                   (''Failed to collect entries: '' @ env_sql env (SqlConversion raw)))
      | Inr es \<Rightarrow> Inr es)"

definition read_workload :: "journal_env \<Rightarrow> Journal \<Rightarrow> string \<Rightarrow> JournalEntry list nous_result" where
  "read_workload env j w = select_entries env (\<lambda>r. row_workload_id r = w) j"

definition read_from :: "journal_env \<Rightarrow> Journal \<Rightarrow> nat \<Rightarrow> JournalEntry list nous_result" where
  "read_from env j n = select_entries env (\<lambda>r. n \<le> row_sequence r) j"

definition current_sequence :: "Journal \<Rightarrow> nat" where
  "current_sequence j = jn_next_sequence j - 1"

definition count_object_type :: "Journal \<Rightarrow> string \<Rightarrow> nat" where
  "count_object_type j ty =
     length (filter (\<lambda>r. row_object_type r = ty) (db_rows (jn_db j)))"

definition verify_integrity :: "journal_env \<Rightarrow> Journal \<Rightarrow> nat list nous_result" where
  "verify_integrity env j =
     (if db_quick_check (jn_db j) \<noteq> ''ok''
      then Inl (nous_error EC_DataLoss (''Journal storage is corrupt: '' @ db_quick_check (jn_db j)))
      else (case decode_rows (sort_key row_sequence (db_rows (jn_db j))) of
              Inl raw \<Rightarrow> Inl (nous_error EC_Internal
                         (''Failed to read row: '' @ env_sql env (SqlConversion raw)))
            | Inr es \<Rightarrow>
                Inr (map je_sequence (filter (\<lambda>e. compute_checksum env e \<noteq> je_checksum e) es))))"

section \<open>The log a journal stands for\<close>

text \<open>The abstract state of a journal: the decoded entries in table order.\<close>

definition journal_log :: "Journal \<Rightarrow> JournalEntry list" where
  "journal_log j = List.map_filter decode_entry (db_rows (jn_db j))"

definition journal_wf :: "Journal \<Rightarrow> bool" where
  "journal_wf j \<longleftrightarrow>
     sorted_wrt (<) (map row_sequence (db_rows (jn_db j))) \<and>
     (\<forall>r \<in> set (db_rows (jn_db j)). 0 < row_sequence r \<and> row_sequence r < jn_next_sequence j \<and>
        decode_entry r \<noteq> None) \<and>
     distinct (List.map_filter row_idempotency_key (db_rows (jn_db j))) \<and>
     0 < jn_next_sequence j"

text \<open>The entry an append writes.\<close>

definition stamped :: "journal_env \<Rightarrow> int \<Rightarrow> nat \<Rightarrow> JournalEntry \<Rightarrow> JournalEntry" where
  "stamped env now seq entry =
     (let e = entry\<lparr>je_sequence := seq,
                    je_timestamp_us := (if je_timestamp_us entry = 0 then now else je_timestamp_us entry)\<rparr>
      in e\<lparr>je_checksum := compute_checksum env e\<rparr>)"

section \<open>The contract of a log\<close>

definition same_content :: "JournalEntry \<Rightarrow> JournalEntry \<Rightarrow> bool" where
  "same_content a b \<longleftrightarrow>
     je_workload_id a = je_workload_id b \<and> je_entry_type a = je_entry_type b \<and>
     je_object_type a = je_object_type b \<and> je_object_id a = je_object_id b \<and>
     je_previous_phase a = je_previous_phase b \<and> je_new_phase a = je_new_phase b \<and>
     je_generation a = je_generation b \<and> je_payload a = je_payload b \<and>
     je_fencing_token a = je_fencing_token b \<and> je_actor a = je_actor b \<and>
     je_idempotency_key a = je_idempotency_key b"

definition has_key :: "JournalEntry list \<Rightarrow> string \<Rightarrow> bool" where
  "has_key es k \<longleftrightarrow> (\<exists>x \<in> set es. je_idempotency_key x = Some k)"

locale append_log =
  fixes inv :: "'j \<Rightarrow> bool"
    and log :: "'j \<Rightarrow> JournalEntry list"
    and append :: "int \<Rightarrow> JournalEntry \<Rightarrow> 'j \<Rightarrow> nat nous_result \<times> 'j"
    and read_all :: "'j \<Rightarrow> JournalEntry list nous_result"
    and read_wl :: "'j \<Rightarrow> string \<Rightarrow> JournalEntry list nous_result"
  assumes inv_append: "inv j \<Longrightarrow> inv (snd (append t e j))"
    and append_replay: "inv j \<Longrightarrow> je_idempotency_key e = Some k \<Longrightarrow> has_key (log j) k \<Longrightarrow>
      \<exists>x \<in> set (log j). je_idempotency_key x = Some k \<and> append t e j = (Inr (je_sequence x), j)"
    and append_new: "inv j \<Longrightarrow> (\<And>k. je_idempotency_key e = Some k \<Longrightarrow> \<not> has_key (log j) k) \<Longrightarrow>
      append t e j = (Inr n, j') \<Longrightarrow>
      \<exists>x. log j' = log j @ [x] \<and> same_content x e \<and> je_sequence x = n \<and>
          (\<forall>y \<in> set (log j). je_sequence y < n)"
    and append_fails: "inv j \<Longrightarrow> append t e j = (Inl err, j') \<Longrightarrow> log j' = log j"
    and keys_unique: "inv j \<Longrightarrow> x \<in> set (log j) \<Longrightarrow> y \<in> set (log j) \<Longrightarrow>
      je_idempotency_key x = Some k \<Longrightarrow> je_idempotency_key y = Some k \<Longrightarrow> x = y"
    and read_all_log: "inv j \<Longrightarrow> read_all j = Inr (log j)"
    and read_wl_log: "inv j \<Longrightarrow> read_wl j w = Inr (filter (\<lambda>x. je_workload_id x = w) (log j))"
begin

lemma append_cases:
  assumes "inv j" "append t e j = (res, j')"
  obtains (replay) k x where "je_idempotency_key e = Some k" "x \<in> set (log j)"
      "je_idempotency_key x = Some k" "res = Inr (je_sequence x)" "j' = j"
  | (new) x where "log j' = log j @ [x]" "same_content x e" "res = Inr (je_sequence x)"
      "\<forall>y \<in> set (log j). je_sequence y < je_sequence x"
      "\<And>k. je_idempotency_key e = Some k \<Longrightarrow> \<not> has_key (log j) k"
  | (failed) err where "res = Inl err" "log j' = log j"
proof (cases "\<exists>k. je_idempotency_key e = Some k \<and> has_key (log j) k")
  case True
  then show thesis using append_replay [OF assms(1)] assms(2) replay by (metis prod.inject)
next
  case False
  then have fresh: "\<And>k. je_idempotency_key e = Some k \<Longrightarrow> \<not> has_key (log j) k" by blast
  show thesis
  proof (cases res)
    case (Inl err)
    then show thesis using append_fails assms failed by blast
  next
    case (Inr n)
    then show thesis using append_new [OF assms(1) fresh, where t = t and n = n and j' = j'] assms(2)
      fresh new by blast
  qed
qed

lemma append_only:
  assumes "inv j"
  shows "prefix (log j) (log (snd (append t e j)))"
proof (cases "append t e j")
  case (Pair res j')
  from assms Pair show ?thesis by (cases rule: append_cases) (simp_all add: Pair)
qed

lemma append_keeps: "inv j \<Longrightarrow> x \<in> set (log j) \<Longrightarrow> x \<in> set (log (snd (append t e j)))"
  using append_only set_mono_prefix by blast

lemma append_has_key:
  assumes "inv j" "append t e j = (Inr n, j')" "je_idempotency_key e = Some k"
  shows "\<exists>x \<in> set (log j'). je_idempotency_key x = Some k \<and> je_sequence x = n"
  using assms(1,2) by (cases rule: append_cases) (use assms(3) in \<open>auto simp: same_content_def\<close>)

lemma append_twice:
  assumes "inv j" "append t e j = (Inr n, j')" "je_idempotency_key e = Some k"
    and "je_idempotency_key e' = Some k"
  shows "append t' e' j' = (Inr n, j')"
proof -
  have inv': "inv j'" using inv_append [OF assms(1), of t e] assms(2) by simp
  obtain x where x: "x \<in> set (log j')" "je_idempotency_key x = Some k" "je_sequence x = n"
    using append_has_key [OF assms(1-3)] by blast
  then have "has_key (log j') k" by (auto simp: has_key_def)
  then obtain y where "y \<in> set (log j')" "je_idempotency_key y = Some k"
      "append t' e' j' = (Inr (je_sequence y), j')"
    using append_replay [OF inv' assms(4)] by blast
  then show ?thesis using keys_unique [OF inv' x(1)] x by auto
qed

end

section \<open>The journal meets the contract\<close>

lemma entry_type_roundtrip [simp]: "entry_type_parse (entry_type_as_str t) = Some t"
  by (cases t) (simp_all add: entry_type_parse_def)

lemma entry_type_parse_Some: "entry_type_parse s = Some t \<longleftrightarrow> s = entry_type_as_str t"
proof
  show "entry_type_parse s = Some t \<Longrightarrow> s = entry_type_as_str t"
    by (auto simp: entry_type_parse_def split: if_splits)
qed simp

lemma decode_row_of_entry [simp]: "decode_entry (row_of_entry e) = Some e"
  by (simp add: decode_entry_def row_of_entry_def)

lemma decode_entry_fields:
  assumes "decode_entry r = Some e"
  shows "row_of_entry e = r" "je_sequence e = row_sequence r" "je_workload_id e = row_workload_id r"
    "je_idempotency_key e = row_idempotency_key r"
  using assms
  by (auto simp: decode_entry_def row_of_entry_def entry_type_parse_Some split: option.splits)

lemma decode_rows_log:
  "(\<forall>r \<in> set rs. decode_entry r \<noteq> None) \<Longrightarrow> decode_rows rs = Inr (List.map_filter decode_entry rs)"
  by (induction rs) (auto simp: map_filter_simps)

lemma map_filter_append [simp]:
  "List.map_filter f (xs @ ys) = List.map_filter f xs @ List.map_filter f ys"
  by (simp add: map_filter_def)

lemma set_map_filter [simp]: "set (List.map_filter f xs) = {y. \<exists>x \<in> set xs. f x = Some y}"
  by (force simp: map_filter_def)

lemma sort_key_filter_sorted:
  "sorted_wrt (<) (map f xs) \<Longrightarrow> sort_key f (filter P xs) = filter P xs"
  for f :: "'a \<Rightarrow> nat"
proof -
  assume "sorted_wrt (<) (map f xs)"
  then have "sorted (map f xs)" by (rule strict_sorted_imp_sorted)
  then have "sorted (map f (filter P xs))" by (rule sorted_filter)
  then show ?thesis by (simp add: sort_key_id_if_sorted)
qed

lemma map_filter_filter_decode:
  "(\<And>r e. decode_entry r = Some e \<Longrightarrow> P r = Q e) \<Longrightarrow>
     List.map_filter decode_entry (filter P rs) = filter Q (List.map_filter decode_entry rs)"
  by (induction rs) (auto simp: map_filter_simps split: option.splits)

lemma select_entries_wf:
  assumes "journal_wf j" and "\<And>r e. decode_entry r = Some e \<Longrightarrow> P r = Q e"
  shows "select_entries env P j = Inr (filter Q (journal_log j))"
proof -
  have "sort_key row_sequence (filter P (db_rows (jn_db j))) = filter P (db_rows (jn_db j))"
    using assms(1) by (intro sort_key_filter_sorted) (simp add: journal_wf_def)
  moreover have "decode_rows (filter P (db_rows (jn_db j))) = Inr (filter Q (journal_log j))"
    using assms(1) map_filter_filter_decode [of P Q, OF assms(2)]
    by (simp add: decode_rows_log journal_wf_def journal_log_def)
  ultimately show ?thesis by (simp add: select_entries_def)
qed

lemma find_key_wf:
  assumes "journal_wf j"
  shows "find_by_idempotency_key j k = None \<longleftrightarrow> \<not> has_key (journal_log j) k"
    and "find_by_idempotency_key j k = Some n \<Longrightarrow>
      \<exists>x \<in> set (journal_log j). je_idempotency_key x = Some k \<and> je_sequence x = n"
proof -
  have ex: "\<exists>e. decode_entry r = Some e" if "r \<in> set (db_rows (jn_db j))" for r
    using that assms by (auto simp: journal_wf_def)
  show "find_by_idempotency_key j k = None \<longleftrightarrow> \<not> has_key (journal_log j) k"
    using ex by (fastforce simp: find_by_idempotency_key_def find_None_iff has_key_def journal_log_def
        dest: decode_entry_fields)
  assume "find_by_idempotency_key j k = Some n"
  then obtain r where r: "r \<in> set (db_rows (jn_db j))" "row_idempotency_key r = Some k" "row_sequence r = n"
    by (auto simp: find_by_idempotency_key_def find_Some_iff) (metis nth_mem)
  then obtain e where "decode_entry r = Some e" using ex by blast
  with r show "\<exists>x \<in> set (journal_log j). je_idempotency_key x = Some k \<and> je_sequence x = n"
    by (fastforce simp: journal_log_def dest: decode_entry_fields)
qed

lemma journal_append_unfold:
  "journal_append env now entry j =
     (case Option.bind (je_idempotency_key entry) (find_by_idempotency_key j) of
        Some seq \<Rightarrow> (Inr seq, j)
      | None \<Rightarrow>
          (case sql_insert (row_of_entry (stamped env now (jn_next_sequence j) entry)) j of
             (Inl f, j') \<Rightarrow> (Inl (append_error env f), j')
           | (Inr _, j') \<Rightarrow> (Inr (jn_next_sequence j), j'\<lparr>jn_next_sequence := jn_next_sequence j + 1\<rparr>)))"
  by (cases "je_timestamp_us entry = 0")
    (simp_all add: journal_append_def stamped_def Let_def cong: option.case_cong)

lemma row_of_entry_sel [simp]:
  "row_sequence (row_of_entry e) = je_sequence e"
  "row_idempotency_key (row_of_entry e) = je_idempotency_key e"
  "row_workload_id (row_of_entry e) = je_workload_id e"
  by (simp_all add: row_of_entry_def)

lemma same_content_stamped: "same_content (stamped env now seq e) e"
  by (simp add: stamped_def same_content_def Let_def)

lemma stamped_fields [simp]:
  "je_sequence (stamped env now seq e) = seq"
  "je_idempotency_key (stamped env now seq e) = je_idempotency_key e"
  "je_checksum (stamped env now seq e) = compute_checksum env (stamped env now seq e)"
  by (simp_all add: stamped_def Let_def compute_checksum_def checksum_input_def)

lemma sql_insert_Inr:
  "sql_insert r j = (Inr u, j') \<Longrightarrow>
     jn_db j' = (jn_db j)\<lparr>db_rows := db_rows (jn_db j) @ [r]\<rparr> \<and>
     jn_next_sequence j' = jn_next_sequence j \<and>
     (\<forall>q \<in> set (db_rows (jn_db j)). row_idempotency_key r \<noteq> None \<longrightarrow>
        row_idempotency_key q \<noteq> row_idempotency_key r)"
  by (auto simp: sql_insert_def Let_def list_ex_iff split: if_splits option.splits)

lemma sql_insert_Inl:
  "sql_insert r j = (Inl f, j') \<Longrightarrow> jn_db j' = jn_db j \<and> jn_next_sequence j' = jn_next_sequence j"
  by (auto simp: sql_insert_def Let_def split: if_splits option.splits)

lemma journal_wf_cong:
  "jn_db j' = jn_db j \<Longrightarrow> jn_next_sequence j' = jn_next_sequence j \<Longrightarrow>
     journal_wf j' = journal_wf j \<and> journal_log j' = journal_log j"
  by (simp add: journal_wf_def journal_log_def)

text \<open>What one append does to a well-formed journal.\<close>

lemma journal_append_cases:
  assumes "journal_append env now entry j = (res, j')"
  obtains (replay) k n where "je_idempotency_key entry = Some k"
      "find_by_idempotency_key j k = Some n" "res = Inr n" "j' = j"
  | (new) "res = Inr (jn_next_sequence j)"
      "db_rows (jn_db j') = db_rows (jn_db j) @ [row_of_entry (stamped env now (jn_next_sequence j) entry)]"
      "jn_next_sequence j' = jn_next_sequence j + 1"
      "db_format_version (jn_db j') = db_format_version (jn_db j)"
      "db_quick_check (jn_db j') = db_quick_check (jn_db j)"
      "\<And>k. je_idempotency_key entry = Some k \<Longrightarrow> find_by_idempotency_key j k = None"
  | (failed) f where "res = Inl (append_error env f)" "jn_db j' = jn_db j"
      "jn_next_sequence j' = jn_next_sequence j"
proof (cases "Option.bind (je_idempotency_key entry) (find_by_idempotency_key j)")
  case (Some n)
  with assms show thesis by (auto simp: journal_append_unfold bind_eq_Some_conv intro: replay)
next
  case None
  show thesis
  proof (cases "sql_insert (row_of_entry (stamped env now (jn_next_sequence j) entry)) j")
    case (Pair r j1)
    show thesis
    proof (cases r)
      case (Inl f)
      then show thesis using assms None Pair sql_insert_Inl failed
        by (fastforce simp: journal_append_unfold)
    next
      case (Inr u)
      note I = sql_insert_Inr [OF Pair [unfolded Inr]]
      have "find_by_idempotency_key j k = None" if "je_idempotency_key entry = Some k" for k
        using None that by simp
      then show thesis using assms None Pair Inr I by (intro new) (auto simp: journal_append_unfold)
    qed
  qed
qed

lemma journal_log_snoc:
  "db_rows (jn_db j') = db_rows (jn_db j) @ [row_of_entry e] \<Longrightarrow> journal_log j' = journal_log j @ [e]"
  by (simp add: journal_log_def map_filter_simps)

lemma journal_wf_append: "journal_wf j \<Longrightarrow> journal_wf (snd (journal_append env now entry j))"
proof -
  assume wf: "journal_wf j"
  obtain res j' where P: "journal_append env now entry j = (res, j')" by fastforce
  then show ?thesis
  proof (cases rule: journal_append_cases)
    case (replay k n)
    with wf P show ?thesis by simp
  next
    case new
    let ?r = "row_of_entry (stamped env now (jn_next_sequence j) entry)"
    have "distinct (List.map_filter row_idempotency_key (db_rows (jn_db j) @ [?r]))"
    proof (cases "je_idempotency_key entry")
      case None
      with wf show ?thesis by (simp add: journal_wf_def map_filter_simps row_of_entry_def)
    next
      case (Some k)
      then have "find (\<lambda>r. row_idempotency_key r = Some k) (db_rows (jn_db j)) = None"
        using new(6) by (simp add: find_by_idempotency_key_def)
      with wf Some show ?thesis
        by (auto simp: journal_wf_def map_filter_simps row_of_entry_def find_None_iff)
    qed
    moreover have "sorted_wrt (<) (map row_sequence (db_rows (jn_db j) @ [?r]))"
      using wf by (auto simp: journal_wf_def sorted_wrt_append)
    moreover have "\<forall>r \<in> set (db_rows (jn_db j) @ [?r]).
        0 < row_sequence r \<and> row_sequence r < jn_next_sequence j + 1 \<and> decode_entry r \<noteq> None"
      using wf by (fastforce simp: journal_wf_def)
    moreover have "0 < jn_next_sequence j + 1" by simp
    ultimately have "journal_wf j'"
      unfolding journal_wf_def new(2,3) by (intro conjI)
    with P show ?thesis by simp
  next
    case (failed f)
    with wf P journal_wf_cong [OF failed(2,3)] show ?thesis by simp
  qed
qed

lemma distinct_map_filter_eq:
  "distinct (List.map_filter f xs) \<Longrightarrow> a \<in> set xs \<Longrightarrow> b \<in> set xs \<Longrightarrow> f a = Some k \<Longrightarrow> f b = Some k \<Longrightarrow>
     a = b"
  by (induction xs) (auto simp: map_filter_simps split: option.splits)

lemma journal_keys_unique:
  assumes "journal_wf j" "x \<in> set (journal_log j)" "y \<in> set (journal_log j)"
    and "je_idempotency_key x = Some k" "je_idempotency_key y = Some k"
  shows "x = y"
proof -
  obtain a b where ab: "a \<in> set (db_rows (jn_db j))" "decode_entry a = Some x"
      "b \<in> set (db_rows (jn_db j))" "decode_entry b = Some y"
    using assms(2,3) by (auto simp: journal_log_def)
  then have "row_idempotency_key a = Some k" "row_idempotency_key b = Some k"
    using assms(4,5) by (simp_all add: decode_entry_fields)
  then have "a = b"
    using assms(1) ab by (auto simp: journal_wf_def intro: distinct_map_filter_eq)
  with ab show ?thesis by simp
qed

interpretation jl: append_log journal_wf journal_log "journal_append env"
  "\<lambda>j. read_from env j 0" "read_workload env" for env
proof unfold_locales
  fix j t e assume "journal_wf j"
  then show "journal_wf (snd (journal_append env t e j))" by (rule journal_wf_append)
next
  fix j and e :: JournalEntry and k t assume "journal_wf j" "je_idempotency_key e = Some k" "has_key (journal_log j) k"
  then show "\<exists>x \<in> set (journal_log j). je_idempotency_key x = Some k \<and>
      journal_append env t e j = (Inr (je_sequence x), j)"
    using find_key_wf [of j k] by (auto simp: journal_append_unfold)
next
  fix j and e :: JournalEntry and t n j' assume wf: "journal_wf j"
    and fresh: "\<And>k. je_idempotency_key e = Some k \<Longrightarrow> \<not> has_key (journal_log j) k"
    and app: "journal_append env t e j = (Inr n, j')"
  have before: "\<forall>y \<in> set (journal_log j). je_sequence y < jn_next_sequence j"
    using wf by (auto simp: journal_log_def journal_wf_def dest: decode_entry_fields)
  from app show "\<exists>x. journal_log j' = journal_log j @ [x] \<and> same_content x e \<and> je_sequence x = n \<and>
      (\<forall>y \<in> set (journal_log j). je_sequence y < n)"
  proof (cases rule: journal_append_cases)
    case (replay k m)
    then show ?thesis using fresh find_key_wf(1) [OF wf, of k] by auto
  next
    case new
    then show ?thesis using before journal_log_snoc same_content_stamped by fastforce
  qed simp
next
  fix j t e err j' assume "journal_wf j" "journal_append env t e j = (Inl err, j')"
  then show "journal_log j' = journal_log j"
    by (auto elim!: journal_append_cases simp: journal_log_def)
next
  fix j x y k assume wf: "journal_wf j" and x: "x \<in> set (journal_log j)" and y: "y \<in> set (journal_log j)"
    and k: "je_idempotency_key x = Some k" "je_idempotency_key y = Some k"
  show "x = y" using journal_keys_unique [OF wf x y k] .
next
  fix j assume "journal_wf j"
  then show "read_from env j 0 = Inr (journal_log j)"
    unfolding read_from_def by (subst select_entries_wf [where Q = "\<lambda>_. True"]) auto
next
  fix j w assume "journal_wf j"
  then show "read_workload env j w = Inr (filter (\<lambda>x. je_workload_id x = w) (journal_log j))"
    unfolding read_workload_def by (intro select_entries_wf) (auto dest: decode_entry_fields)
qed

section \<open>Histories of appends\<close>

definition append_all :: "journal_env \<Rightarrow> (int \<times> JournalEntry) list \<Rightarrow> Journal \<Rightarrow> Journal" where
  "append_all env reqs j = fold (\<lambda>(now, e) j. snd (journal_append env now e j)) reqs j"

text \<open>What the operations keep of a journal nobody tampers with: a well-formed table without gaps
  in its sequence numbers, whose checksums are the ones its records have.\<close>

definition journal_honest :: "journal_env \<Rightarrow> Journal \<Rightarrow> bool" where
  "journal_honest env j \<longleftrightarrow>
     journal_wf j \<and>
     map row_sequence (db_rows (jn_db j)) = [1..<jn_next_sequence j] \<and>
     (\<forall>e \<in> set (journal_log j). je_checksum e = compute_checksum env e)"

lemma journal_honest_append:
  assumes "journal_honest env j"
  shows "journal_honest env (snd (journal_append env now e j))"
proof -
  obtain res j' where P: "journal_append env now e j = (res, j')" by fastforce
  have wf: "journal_wf j" and "1 \<le> jn_next_sequence j"
    using assms by (auto simp: journal_honest_def journal_wf_def)
  have wf': "journal_wf j'" using journal_wf_append [OF wf, of env now e] P by simp
  from P have "journal_honest env j'"
  proof (cases rule: journal_append_cases)
    case new
    then show ?thesis
      using assms wf' \<open>1 \<le> jn_next_sequence j\<close> journal_log_snoc [OF new(2)]
      by (auto simp: journal_honest_def)
  qed (use assms wf' in \<open>auto simp: journal_honest_def journal_log_def\<close>)
  with P show ?thesis by simp
qed

lemma journal_honest_append_all:
  "journal_honest env j \<Longrightarrow> journal_honest env (append_all env reqs j)"
  by (induction reqs arbitrary: j)
    (auto simp: append_all_def intro: journal_honest_append split: prod.splits)

lemma journal_honest_open_in_memory: "journal_honest env journal_open_in_memory"
  by (simp add: journal_honest_def journal_open_in_memory_def journal_wf_def journal_log_def
      map_filter_simps)

lemma append_all_frame:
  "db_format_version (jn_db (append_all env reqs j)) = db_format_version (jn_db j) \<and>
   db_quick_check (jn_db (append_all env reqs j)) = db_quick_check (jn_db j)"
proof (induction reqs arbitrary: j)
  case (Cons r reqs)
  obtain now e where r: "r = (now, e)" by fastforce
  obtain res j' where P: "journal_append env now e j = (res, j')" by fastforce
  then have "db_format_version (jn_db j') = db_format_version (jn_db j) \<and>
      db_quick_check (jn_db j') = db_quick_check (jn_db j)"
    by (cases rule: journal_append_cases) simp_all
  with Cons P r show ?case by (simp add: append_all_def)
qed (simp add: append_all_def)

lemma journal_log_sequences:
  "journal_wf j \<Longrightarrow> map je_sequence (journal_log j) = map row_sequence (db_rows (jn_db j))"
proof -
  have "(\<forall>r \<in> set rs. decode_entry r \<noteq> None) \<Longrightarrow>
      map je_sequence (List.map_filter decode_entry rs) = map row_sequence rs" for rs
    by (induction rs) (auto simp: map_filter_simps decode_entry_fields)
  then show "journal_wf j \<Longrightarrow> ?thesis" by (simp add: journal_wf_def journal_log_def)
qed

lemma max_sequence_upt: "map row_sequence rows = [1..<Suc n] \<Longrightarrow> max_sequence_of rows = n"
proof -
  have eq: "max_sequence_of rows = foldr max (map row_sequence rows) 0" for rows
    by (induction rows) (simp_all add: max_sequence_of_def)
  have "foldr max [1..<Suc n] b = max n b" for b
    by (induction n arbitrary: b) simp_all
  then show "map row_sequence rows = [1..<Suc n] \<Longrightarrow> ?thesis" by (simp only: eq)
qed

lemma verify_integrity_wf:
  assumes "journal_wf j" "db_quick_check (jn_db j) = ''ok''"
  shows "verify_integrity env j =
    Inr (map je_sequence (filter (\<lambda>e. compute_checksum env e \<noteq> je_checksum e) (journal_log j)))"
  using assms sort_key_filter_sorted [of row_sequence "db_rows (jn_db j)" "\<lambda>_. True"]
  by (simp add: verify_integrity_def journal_wf_def decode_rows_log journal_log_def)

lemma journal_append_succeeds:
  assumes "journal_append env now e j = (res, j')" "jn_faults j = []"
    and "jn_next_sequence j \<le> i64_max" "je_generation e \<le> i64_max" "journal_wf j"
  shows "\<exists>n. res = Inr n"
proof (cases "Option.bind (je_idempotency_key e) (find_by_idempotency_key j)")
  case (Some n)
  with assms(1) show ?thesis by (auto simp: journal_append_unfold)
next
  case None
  let ?r = "row_of_entry (stamped env now (jn_next_sequence j) e)"
  have "\<not> list_ex (\<lambda>q. row_sequence q = row_sequence ?r) (db_rows (jn_db j))"
    using assms(5) by (auto simp: list_ex_iff journal_wf_def)
  moreover have "\<not> (row_idempotency_key ?r \<noteq> None \<and>
      list_ex (\<lambda>q. row_idempotency_key q = row_idempotency_key ?r) (db_rows (jn_db j)))"
    using None by (auto simp: list_ex_iff find_by_idempotency_key_def find_None_iff)
  moreover have "row_generation ?r = je_generation e"
    by (simp add: row_of_entry_def stamped_def Let_def)
  ultimately have "fst (sql_insert ?r j) = Inr ()"
    using assms(2-4) by (simp add: sql_insert_def Let_def)
  with assms(1) None show ?thesis
    by (auto simp: journal_append_unfold split: prod.splits)
qed

lemma journal_append_frame:
  "jn_faults j = [] \<Longrightarrow> jn_faults (snd (journal_append env now e j)) = [] \<and>
     jn_next_sequence (snd (journal_append env now e j)) \<le> jn_next_sequence j + 1"
  by (simp add: journal_append_unfold sql_insert_def Let_def split: option.split)

lemma append_all_keeps:
  "journal_wf j \<Longrightarrow> x \<in> set (journal_log j) \<Longrightarrow>
     journal_wf (append_all env reqs j) \<and> x \<in> set (journal_log (append_all env reqs j))"
proof (induction reqs arbitrary: j)
  case (Cons r reqs)
  obtain now e where r: "r = (now, e)" by fastforce
  have "append_all env (r # reqs) j = append_all env reqs (snd (journal_append env now e j))"
    by (simp add: append_all_def r)
  then show ?case
    using Cons.IH [OF journal_wf_append jl.append_keeps] Cons.prems by metis
qed (simp add: append_all_def)

lemma append_known_key:
  assumes "journal_wf j" "x \<in> set (journal_log j)"
    and "je_idempotency_key x = Some k" "je_idempotency_key e = Some k"
  shows "journal_append env t e j = (Inr (je_sequence x), j)"
proof -
  have "has_key (journal_log j) k" using assms(2,3) by (auto simp: has_key_def)
  then obtain y where "y \<in> set (journal_log j)" "je_idempotency_key y = Some k"
      "journal_append env t e j = (Inr (je_sequence y), j)"
    using jl.append_replay [OF assms(1,4)] by blast
  then show ?thesis using journal_keys_unique [OF assms(1,2)] assms(3) by auto
qed

lemma journal_rows_log:
  assumes "journal_wf j"
  shows "db_rows (jn_db j) = map row_of_entry (journal_log j)"
proof -
  have "(\<forall>r \<in> set rs. decode_entry r \<noteq> None) \<Longrightarrow> rs = map row_of_entry (List.map_filter decode_entry rs)"
    for rs by (induction rs) (auto simp: map_filter_simps decode_entry_fields)
  with assms show ?thesis by (simp add: journal_wf_def journal_log_def)
qed

lemma map_filter_decode_rows [simp]: "List.map_filter decode_entry (map row_of_entry es) = es"
  by (induction es) (simp_all add: map_filter_simps)

lemma map_filter_map: "List.map_filter f (map g xs) = List.map_filter (f \<circ> g) xs"
  by (simp add: map_filter_def filter_map comp_def)

lemma journal_wf_rows:
  assumes "db_rows (jn_db j) = map row_of_entry es"
  shows "journal_wf j \<longleftrightarrow>
      sorted_wrt (<) (map je_sequence es) \<and>
      (\<forall>n \<in> set (map je_sequence es). 0 < n \<and> n < jn_next_sequence j) \<and>
      distinct (List.map_filter id (map je_idempotency_key es)) \<and> 0 < jn_next_sequence j"
    and "journal_log j = es"
proof -
  have "map row_sequence (map row_of_entry es) = map je_sequence es" by simp
  moreover have "List.map_filter row_idempotency_key (map row_of_entry es) =
      List.map_filter id (map je_idempotency_key es)"
    by (simp add: map_filter_map comp_def)
  ultimately show "journal_wf j \<longleftrightarrow> sorted_wrt (<) (map je_sequence es) \<and>
      (\<forall>n \<in> set (map je_sequence es). 0 < n \<and> n < jn_next_sequence j) \<and>
      distinct (List.map_filter id (map je_idempotency_key es)) \<and> 0 < jn_next_sequence j"
    unfolding journal_wf_def assms by (auto simp: comp_def)
  show "journal_log j = es" by (simp add: journal_log_def assms)
qed

lemma edited_row_wf:
  assumes "journal_wf j" "i < length (journal_log j)"
    and "je_sequence e' = je_sequence (journal_log j ! i)"
    and "je_idempotency_key e' = je_idempotency_key (journal_log j ! i)"
    and "j' = j\<lparr>jn_db := (jn_db j)\<lparr>db_rows := (db_rows (jn_db j))[i := row_of_entry e']\<rparr>\<rparr>"
  shows "journal_wf j'" "journal_log j' = (journal_log j)[i := e']"
proof -
  let ?es = "journal_log j" and ?es' = "(journal_log j)[i := e']"
  have rows: "db_rows (jn_db j) = map row_of_entry ?es" by (rule journal_rows_log [OF assms(1)])
  have rows': "db_rows (jn_db j') = map row_of_entry ?es'" by (simp add: assms(5) rows map_update)
  have "map je_sequence ?es' = map je_sequence ?es"
    using assms(2,3) by (simp add: map_update list_update_same_conv)
  moreover have "map je_idempotency_key ?es' = map je_idempotency_key ?es"
    using assms(2,4) by (simp add: map_update list_update_same_conv)
  moreover have "jn_next_sequence j' = jn_next_sequence j" by (simp add: assms(5))
  ultimately show "journal_wf j'"
    using assms(1) unfolding journal_wf_rows(1) [OF rows] journal_wf_rows(1) [OF rows'] by metis
  show "journal_log j' = ?es'" by (rule journal_wf_rows(2) [OF rows'])
qed

lemma filter_update_one:
  "i < length xs \<Longrightarrow> P y \<Longrightarrow> \<forall>x \<in> set xs. \<not> P x \<Longrightarrow> filter P (xs[i := y]) = [y]"
  by (induction xs arbitrary: i) (auto split: nat.split simp: filter_empty_conv)

text \<open>The first append to a fresh in-memory journal.\<close>

lemma journal_append_first:
  assumes "je_generation e \<le> i64_max"
  shows "fst (journal_append env t e journal_open_in_memory) = Inr 1"
    and "journal_log (snd (journal_append env t e journal_open_in_memory)) = [stamped env t 1 e]"
    and "journal_wf (snd (journal_append env t e journal_open_in_memory))"
proof -
  let ?j = journal_open_in_memory
  have wf: "journal_wf ?j" using journal_honest_open_in_memory by (auto simp: journal_honest_def)
  have log: "journal_log ?j = []" "jn_next_sequence ?j = 1" "jn_faults ?j = []"
    by (simp_all add: journal_log_def journal_open_in_memory_def map_filter_simps)
  obtain res j' where P: "journal_append env t e ?j = (res, j')" by fastforce
  have "\<exists>n. res = Inr n"
    using journal_append_succeeds [OF P] assms wf log by (simp add: i64_max_def)
  with P have "res = Inr 1 \<and> journal_log j' = [stamped env t 1 e]"
  proof (cases rule: journal_append_cases)
    case (replay k n)
    then show ?thesis using find_key_wf(1) [OF wf, of k] log by (simp add: has_key_def)
  next
    case new
    then show ?thesis using journal_log_snoc [OF new(2)] log by simp
  qed auto
  with P show "fst (journal_append env t e ?j) = Inr 1"
    "journal_log (snd (journal_append env t e ?j)) = [stamped env t 1 e]" by simp_all
  show "journal_wf (snd (journal_append env t e ?j))" by (rule journal_wf_append [OF wf])
qed

text \<open>A concrete environment and a concrete entry, for evaluation.\<close>

definition demo_env :: journal_env where
  "demo_env = \<lparr>env_sha = (\<lambda>bytes. bytes), env_sql = (\<lambda>_. ''storage error'')\<rparr>"

definition demo_entry :: JournalEntry where
  "demo_entry =
     \<lparr>je_sequence = 0, je_workload_id = ''w'', je_entry_type = ET_Intent,
      je_object_type = ''Workload'', je_object_id = ''op'', je_previous_phase = None,
      je_new_phase = ''PENDING'', je_generation = 1, je_payload = ''{}'', je_fencing_token = [],
      je_actor = ''kernel'', je_idempotency_key = Some ''intent'', je_timestamp_us = 7,
      je_checksum = []\<rparr>"

section \<open>Properties\<close>

text \<open>C19.  An append refines appending to the abstract log, on every branch: it keeps the journal
  well formed; a request whose idempotency key is in the log returns the sequence number of the
  entry that has the key and changes nothing; a success with a fresh key adds exactly the stamped
  entry at the end under the next sequence number; a failure leaves the log as it was; and without
  a storage fault, while the numbers fit an INTEGER column, the append does succeed.\<close>

theorem append_refines_log:
  assumes "journal_wf j"
  shows "case journal_append env now e j of (res, j') \<Rightarrow>
    journal_wf j' \<and>
    (case res of
       Inl _ \<Rightarrow> journal_log j' = journal_log j
     | Inr n \<Rightarrow>
         (\<exists>k x. je_idempotency_key e = Some k \<and> x \<in> set (journal_log j) \<and>
            je_idempotency_key x = Some k \<and> n = je_sequence x \<and> j' = j) \<or>
         ((\<forall>k. je_idempotency_key e = Some k \<longrightarrow> \<not> has_key (journal_log j) k) \<and>
          journal_log j' = journal_log j @ [stamped env now n e] \<and>
          n = jn_next_sequence j \<and> jn_next_sequence j' = n + 1)) \<and>
    (jn_faults j = [] \<and> jn_next_sequence j \<le> i64_max \<and> je_generation e \<le> i64_max \<longrightarrow>
       (\<exists>n. res = Inr n))"
proof -
  obtain res j' where P: "journal_append env now e j = (res, j')" by fastforce
  note wf' = journal_wf_append [OF assms, of env now e, unfolded P snd_conv]
  have ok: "\<exists>n. res = Inr n"
    if "jn_faults j = []" "jn_next_sequence j \<le> i64_max" "je_generation e \<le> i64_max"
    using P that assms by (rule journal_append_succeeds)
  from P show ?thesis
  proof (cases rule: journal_append_cases)
    case (replay k n)
    then show ?thesis using wf' find_key_wf(2) [OF assms, of k n] by (auto simp: P)
  next
    case new
    then show ?thesis
      using wf' find_key_wf(1) [OF assms] journal_log_snoc [OF new(2)] by (simp add: P)
  next
    case (failed f)
    then show ?thesis using wf' ok by (auto simp: P journal_log_def)
  qed
qed

theorem append_refines_log_witness:
  "journal_wf journal_open_in_memory \<and>
   journal_log (snd (journal_append demo_env 5 demo_entry journal_open_in_memory)) =
     [stamped demo_env 5 1 demo_entry]"
proof -
  have wf: "journal_wf journal_open_in_memory"
    using journal_honest_open_in_memory [of demo_env] by (simp add: journal_honest_def)
  have log: "journal_log journal_open_in_memory = []"
    by (simp add: journal_log_def journal_open_in_memory_def map_filter_simps)
  have pre: "jn_faults journal_open_in_memory = []" "jn_next_sequence journal_open_in_memory = 1"
      "(1::nat) \<le> i64_max" "je_generation demo_entry \<le> i64_max"
    by (simp_all add: journal_open_in_memory_def demo_entry_def i64_max_def)
  show ?thesis
    using append_refines_log [OF wf, where env = demo_env and now = 5 and e = demo_entry] wf pre log
    by (auto split: prod.splits sum.splits)
qed

text \<open>A journal opened empty numbers its entries without a gap, whatever is appended to it
  and whichever insertions fail: the sequence numbers of the log are 1, 2, and so on up to
  \<open>current_sequence\<close>, reading from sequence 0 returns exactly the log, and reading one workload
  returns exactly the entries of that workload, in order.\<close>

theorem journal_reads_are_gapless:
  "let j = append_all env reqs journal_open_in_memory
   in map je_sequence (journal_log j) = [1..<Suc (current_sequence j)] \<and>
      current_sequence j = length (journal_log j) \<and>
      read_from env j 0 = Inr (journal_log j) \<and>
      read_workload env j w = Inr (filter (\<lambda>e. je_workload_id e = w) (journal_log j))"
proof -
  define j where "j = append_all env reqs journal_open_in_memory"
  have H: "journal_honest env j"
    unfolding j_def by (rule journal_honest_append_all [OF journal_honest_open_in_memory])
  then have wf: "journal_wf j" by (simp add: journal_honest_def)
  then have next_pos: "Suc (current_sequence j) = jn_next_sequence j"
    by (simp add: journal_wf_def current_sequence_def)
  have seqs: "map je_sequence (journal_log j) = [1..<Suc (current_sequence j)]"
    using H journal_log_sequences [OF wf] next_pos by (simp add: journal_honest_def)
  from arg_cong [where f = length, OF seqs] have "current_sequence j = length (journal_log j)" by simp
  with seqs show ?thesis using jl.read_all_log [OF wf] jl.read_wl_log [OF wf] by (simp add: j_def [symmetric])
qed

text \<open>Two appends under one idempotency key, with any requests in between and whatever
  else the second one carries, are one append: the second returns the sequence number of the
  first and leaves the journal as it is.\<close>

theorem append_is_idempotent:
  assumes "journal_wf j" "journal_append env t e j = (Inr n, j1)"
    and "je_idempotency_key e = Some k" "je_idempotency_key e' = Some k"
  shows "journal_append env t' e' (append_all env reqs j1) = (Inr n, append_all env reqs j1)"
proof -
  have wf1: "journal_wf j1" using journal_wf_append [OF assms(1), of env t e] assms(2) by simp
  obtain x where "x \<in> set (journal_log j1)" "je_idempotency_key x = Some k" "je_sequence x = n"
    using jl.append_has_key [OF assms(1-3)] by blast
  with wf1 have "journal_wf (append_all env reqs j1) \<and> x \<in> set (journal_log (append_all env reqs j1))"
    by (intro append_all_keeps)
  then show ?thesis
    using \<open>je_idempotency_key x = Some k\<close> \<open>je_sequence x = n\<close> assms(4) append_known_key by blast
qed

theorem append_is_idempotent_witness:
  "let j1 = snd (journal_append demo_env 5 demo_entry journal_open_in_memory)
   in fst (journal_append demo_env 9 (demo_entry\<lparr>je_payload := ''other''\<rparr>)
        (append_all demo_env [(6, demo_entry\<lparr>je_idempotency_key := Some ''second''\<rparr>)] j1)) = Inr 1"
proof -
  have wf: "journal_wf journal_open_in_memory"
    using journal_honest_open_in_memory [of demo_env] by (simp add: journal_honest_def)
  have app: "journal_append demo_env 5 demo_entry journal_open_in_memory =
      (Inr 1, snd (journal_append demo_env 5 demo_entry journal_open_in_memory))"
    by (simp add: journal_append_def demo_entry_def journal_open_in_memory_def Let_def
        find_by_idempotency_key_def sql_insert_def row_of_entry_def i64_max_def)
  show ?thesis
    using append_is_idempotent [OF wf app, of "''intent''" "demo_entry\<lparr>je_payload := ''other''\<rparr>" 9
        "[(6, demo_entry\<lparr>je_idempotency_key := Some ''second''\<rparr>)]"]
    by (simp add: demo_entry_def Let_def)
qed



text \<open>C33.  Closing and opening again is the identity on a journal: on the database that any
  sequence of appends leaves behind in a fresh or versioned file, \<open>open\<close> succeeds, writes nothing,
  and continues with the same rows and the same next sequence number.\<close>

theorem reopen_restores_journal:
  assumes "fst (journal_open db) = Inr j0" "db_rows db = []"
  shows "let j = append_all env reqs j0
    in journal_open (jn_db j) = (Inr (j\<lparr>jn_faults := []\<rparr>), jn_db j)"
proof -
  let ?v = "show_nat JOURNAL_FORMAT_VERSION"
  have j0: "jn_db j0 = db\<lparr>db_format_version := Some ?v\<rparr>" "jn_next_sequence j0 = 1"
    using assms by (auto simp: journal_open_def max_sequence_of_def Let_def split: option.splits if_splits)
  have "journal_honest env j0"
    using j0 assms(2) by (simp add: journal_honest_def journal_wf_def journal_log_def map_filter_simps)
  then have H: "journal_honest env (append_all env reqs j0)" by (rule journal_honest_append_all)
  define j where "j = append_all env reqs j0"
  obtain n where n: "jn_next_sequence j = Suc n"
    using H by (cases "jn_next_sequence j") (auto simp: j_def journal_honest_def journal_wf_def)
  have "max_sequence_of (db_rows (jn_db j)) = n"
    using H n by (intro max_sequence_upt) (simp add: j_def journal_honest_def)
  moreover have "db_format_version (jn_db j) = Some ?v"
    using append_all_frame [of env reqs j0] j0 by (simp add: j_def)
  ultimately show ?thesis by (simp add: journal_open_def j_def [symmetric] n Let_def)
qed

definition demo_db :: journal_db where
  "demo_db = \<lparr>db_rows = [], db_format_version = None, db_quick_check = ''ok''\<rparr>"

theorem reopen_restores_journal_witness:
  "\<exists>j0. fst (journal_open demo_db) = Inr j0 \<and>
     (let j = append_all demo_env [(5, demo_entry)] j0
      in journal_open (jn_db j) = (Inr (j\<lparr>jn_faults := []\<rparr>), jn_db j))"
proof -
  obtain j0 where j0: "fst (journal_open demo_db) = Inr j0"
    by (simp add: journal_open_def demo_db_def max_sequence_of_def Let_def)
  moreover have "db_rows demo_db = []" by (simp add: demo_db_def)
  ultimately show ?thesis
    using reopen_restores_journal [of demo_db j0 demo_env "[(5, demo_entry)]"] by blast
qed

text \<open>The checksum does not determine the record: the hashed fields are concatenated without
  lengths or separators, so that moving a character over the boundary between the object type and
  the object id, or turning an absent previous phase into a part of the new phase, changes the
  record and keeps its checksum, whatever the hash function is.\<close>

theorem checksum_misses_moved_boundaries:
  "\<exists>a b c. a \<noteq> b \<and> a \<noteq> c \<and> b \<noteq> c \<and> compute_checksum env a = compute_checksum env b \<and>
     compute_checksum env a = compute_checksum env c"
proof (intro exI conjI)
  let ?a = "demo_entry\<lparr>je_object_type := ''ab'', je_object_id := ''c'', je_new_phase := ''de''\<rparr>"
  let ?b = "demo_entry\<lparr>je_object_type := ''a'', je_object_id := ''bc'', je_new_phase := ''de''\<rparr>"
  let ?c = "demo_entry\<lparr>je_object_type := ''ab'', je_object_id := ''c'',
              je_previous_phase := Some ''d'', je_new_phase := ''e''\<rparr>"
  show "?a \<noteq> ?b" "?a \<noteq> ?c" "?b \<noteq> ?c"
    by (simp_all add: demo_entry_def)
  show "compute_checksum env ?a = compute_checksum env ?b"
    "compute_checksum env ?a = compute_checksum env ?c"
    by (simp_all add: compute_checksum_def checksum_input_def demo_entry_def opt_bytes_def)
qed

end
