(* ===== verification/State_Machine.thy ===== *)
theory State_Machine
  imports Journal
begin

text \<open>
  The generic state machine (crates/nous-state/src/state_machine.rs).  \<open>StateMachine<S>\<close> is the
  record \<open>StateMachine\<close> over the type of states; a hook is the function it runs, with \<open>None\<close> for
  \<open>Ok(())\<close>.  The uuid of the new fencing token and the clock reading of a transition are
  arguments, as is the serialisation of the payload.  The generation is a 64-bit word: it wraps
  like the release build does.
\<close>

section \<open>The machine\<close>

record 's TransitionRecord =
  tr_from :: 's
  tr_to :: 's
  tr_generation :: u64
  tr_fencing_token :: string
  tr_timestamp :: instant

type_synonym 's hook = "'s \<Rightarrow> 's \<Rightarrow> NousError option"

record 's StateMachine =
  sm_current :: 's
  sm_transitions :: "('s \<times> 's) set"
  sm_history :: "'s TransitionRecord list"
  sm_generation :: u64
  sm_fencing_token :: string
  sm_before_hooks :: "'s hook list"
  sm_after_hooks :: "'s hook list"

record 's TransitionResult =
  res_from :: 's
  res_to :: 's
  res_previous_generation :: u64
  res_new_generation :: u64
  res_previous_fencing_token :: string
  res_new_fencing_token :: string
  res_record :: "'s TransitionRecord"

definition sm_new :: "string \<Rightarrow> 's \<Rightarrow> 's StateMachine" where
  "sm_new uuid initial_state =
     \<lparr>sm_current = initial_state, sm_transitions = {}, sm_history = [], sm_generation = 1,
      sm_fencing_token = uuid, sm_before_hooks = [], sm_after_hooks = []\<rparr>"

definition allow_transition :: "'s \<Rightarrow> 's \<Rightarrow> 's StateMachine \<Rightarrow> 's StateMachine" where
  "allow_transition from to m = m\<lparr>sm_transitions := insert (from, to) (sm_transitions m)\<rparr>"

definition allow_transitions_from :: "'s \<Rightarrow> 's list \<Rightarrow> 's StateMachine \<Rightarrow> 's StateMachine" where
  "allow_transitions_from from to_states m =
     fold (\<lambda>to m. m\<lparr>sm_transitions := insert (from, to) (sm_transitions m)\<rparr>) to_states m"

definition before_transition :: "'s hook \<Rightarrow> 's StateMachine \<Rightarrow> 's StateMachine" where
  "before_transition hook m = m\<lparr>sm_before_hooks := sm_before_hooks m @ [hook]\<rparr>"

definition after_transition :: "'s hook \<Rightarrow> 's StateMachine \<Rightarrow> 's StateMachine" where
  "after_transition hook m = m\<lparr>sm_after_hooks := sm_after_hooks m @ [hook]\<rparr>"

text \<open>The loops over the hooks stop at the first error.\<close>

fun run_hooks :: "'s hook list \<Rightarrow> 's \<Rightarrow> 's \<Rightarrow> NousError option" where
  "run_hooks [] from to = None"
| "run_hooks (h # hs) from to =
     (case h from to of Some err \<Rightarrow> Some err | None \<Rightarrow> run_hooks hs from to)"

definition generation_conflict :: "u64 \<Rightarrow> u64 \<Rightarrow> NousError" where
  "generation_conflict expected current =
     nous_error EC_WorkloadConflict
       (''Generation conflict: expected '' @ show_nat (unat expected) @ '', current '' @
        show_nat (unat current))"

definition invalid_transition :: "('s \<Rightarrow> string) \<Rightarrow> 's \<Rightarrow> 's \<Rightarrow> NousError" where
  "invalid_transition disp from to =
     nous_error EC_FailedPrecondition
       (''Invalid transition: '' @ [CHR 0x27] @ disp from @ [CHR 0x27] @ '' -> '' @ [CHR 0x27] @
        disp to @ [CHR 0x27] @ '' is not allowed'')"

definition sm_transition ::
  "('s \<Rightarrow> string) \<Rightarrow> string \<Rightarrow> instant \<Rightarrow> 's \<Rightarrow> u64 \<Rightarrow> 's StateMachine \<Rightarrow>
     's TransitionResult nous_result \<times> 's StateMachine" where
  "sm_transition disp uuid now to expected_generation m =
     (let from = sm_current m
      in if expected_generation \<noteq> sm_generation m
         then (Inl (generation_conflict expected_generation (sm_generation m)), m)
         else if from \<noteq> to \<and> (from, to) \<notin> sm_transitions m
         then (Inl (invalid_transition disp from to), m)
         else case run_hooks (sm_before_hooks m) from to of
                Some err \<Rightarrow> (Inl err, m)
              | None \<Rightarrow>
                  let prev_generation = sm_generation m;
                      prev_token = sm_fencing_token m;
                      m1 = m\<lparr>sm_current := to, sm_generation := sm_generation m + 1,
                             sm_fencing_token := uuid\<rparr>;
                      rec = \<lparr>tr_from = from, tr_to = to, tr_generation = sm_generation m1,
                             tr_fencing_token = uuid, tr_timestamp = now\<rparr>;
                      m2 = m1\<lparr>sm_history := sm_history m1 @ [rec]\<rparr>
                  in (case run_hooks (sm_after_hooks m2) from to of
                        Some err \<Rightarrow>
                          (Inl err, m2\<lparr>sm_current := from, sm_generation := prev_generation,
                                      sm_fencing_token := prev_token,
                                      sm_history := butlast (sm_history m2)\<rparr>)
                      | None \<Rightarrow>
                          (Inr \<lparr>res_from = from, res_to = to, res_previous_generation = prev_generation,
                                res_new_generation = sm_generation m2,
                                res_previous_fencing_token = prev_token,
                                res_new_fencing_token = uuid, res_record = rec\<rparr>, m2)))"

record journal_context =
  jc_object_type :: string
  jc_object_id :: string
  jc_workload_id :: string
  jc_actor :: string
  jc_idempotency_key :: "string option"

definition transition_entry :: "('s \<Rightarrow> string) \<Rightarrow> journal_context \<Rightarrow> string \<Rightarrow> 's TransitionResult \<Rightarrow> JournalEntry" where
  "transition_entry disp c payload_bytes r =
     \<lparr>je_sequence = 0, je_workload_id = jc_workload_id c, je_entry_type = ET_Transition,
      je_object_type = jc_object_type c, je_object_id = jc_object_id c,
      je_previous_phase = Some (disp (res_from r)), je_new_phase = disp (res_to r),
      je_generation = unat (res_new_generation r), je_payload = payload_bytes,
      je_fencing_token = res_new_fencing_token r, je_actor = jc_actor c,
      je_idempotency_key = jc_idempotency_key c, je_timestamp_us = 0, je_checksum = []\<rparr>"

text \<open>\<open>payload\<close> is the outcome of \<open>serde_json::to_vec\<close>: the text of its error, or the bytes.\<close>

definition transition_with_journal ::
  "journal_env \<Rightarrow> ('s \<Rightarrow> string) \<Rightarrow> string \<Rightarrow> instant \<Rightarrow> 's \<Rightarrow> u64 \<Rightarrow> journal_context \<Rightarrow> string + string \<Rightarrow>
     's StateMachine \<times> Journal \<Rightarrow> 's TransitionResult nous_result \<times> 's StateMachine \<times> Journal" where
  "transition_with_journal env disp uuid now to expected_generation c payload =
     (\<lambda>(m, j).
        case sm_transition disp uuid now to expected_generation m of
          (Inl err, m1) \<Rightarrow> (Inl err, m1, j)
        | (Inr result, m1) \<Rightarrow>
            (case payload of
               Inl text \<Rightarrow>
                 (Inl (nous_error EC_Internal (''Failed to serialize payload: '' @ text)), m1, j)
             | Inr payload_bytes \<Rightarrow>
                 (case journal_append env now (transition_entry disp c payload_bytes result) j of
                    (Inl err, j1) \<Rightarrow>
                      (Inl err, m1\<lparr>sm_current := res_from result,
                                  sm_generation := res_previous_generation result,
                                  sm_fencing_token := res_previous_fencing_token result,
                                  sm_history := butlast (sm_history m1)\<rparr>, j1)
                  | (Inr _, j1) \<Rightarrow> (Inr result, m1, j1))))"

section \<open>One transition\<close>

text \<open>The guard of a transition, and the machine after a successful one.\<close>

definition transition_enabled :: "'s \<Rightarrow> u64 \<Rightarrow> 's StateMachine \<Rightarrow> bool" where
  "transition_enabled to g m \<longleftrightarrow>
     g = sm_generation m \<and> (sm_current m = to \<or> (sm_current m, to) \<in> sm_transitions m) \<and>
     (\<forall>h \<in> set (sm_before_hooks m @ sm_after_hooks m). h (sm_current m) to = None)"

definition moved :: "string \<Rightarrow> instant \<Rightarrow> 's \<Rightarrow> 's StateMachine \<Rightarrow> 's StateMachine" where
  "moved uuid now to m =
     m\<lparr>sm_current := to, sm_generation := sm_generation m + 1, sm_fencing_token := uuid,
       sm_history := sm_history m @
         [\<lparr>tr_from = sm_current m, tr_to = to, tr_generation = sm_generation m + 1,
           tr_fencing_token = uuid, tr_timestamp = now\<rparr>]\<rparr>"

lemma run_hooks_None: "run_hooks hs from to = None \<longleftrightarrow> (\<forall>h \<in> set hs. h from to = None)"
  by (induction hs) (auto split: option.splits)

lemma sm_rollback: "m\<lparr>sm_current := sm_current m, sm_generation := sm_generation m,
    sm_fencing_token := sm_fencing_token m, sm_history := sm_history m\<rparr> = m"
  by simp

lemma sm_transition_enabled:
  assumes "transition_enabled to g m"
  shows "\<exists>r. sm_transition disp uuid now to g m = (Inr r, moved uuid now to m) \<and>
    res_from r = sm_current m \<and> res_to r = to \<and> res_previous_generation r = g \<and>
    res_new_generation r = g + 1 \<and> res_previous_fencing_token r = sm_fencing_token m \<and>
    res_new_fencing_token r = uuid"
proof -
  have "run_hooks (sm_before_hooks m) (sm_current m) to = None"
    "run_hooks (sm_after_hooks m) (sm_current m) to = None"
    using assms by (auto simp: transition_enabled_def run_hooks_None)
  then show ?thesis using assms
    by (auto simp: sm_transition_def transition_enabled_def moved_def Let_def)
qed

lemma sm_transition_disabled:
  assumes "\<not> transition_enabled to g m"
  shows "\<exists>err. sm_transition disp uuid now to g m = (Inl err, m)"
proof (cases "g = sm_generation m \<and> (sm_current m = to \<or> (sm_current m, to) \<in> sm_transitions m) \<and>
    run_hooks (sm_before_hooks m) (sm_current m) to = None")
  case True
  then obtain err where "run_hooks (sm_after_hooks m) (sm_current m) to = Some err"
    using assms by (cases "run_hooks (sm_after_hooks m) (sm_current m) to")
      (auto simp: transition_enabled_def run_hooks_None)
  with True show ?thesis by (auto simp: sm_transition_def Let_def)
next
  case False
  then show ?thesis by (auto simp: sm_transition_def Let_def split: option.splits)
qed

lemma sm_transition_cases:
  obtains (moves) r where "transition_enabled to g m"
      "sm_transition disp uuid now to g m = (Inr r, moved uuid now to m)"
  | (stays) err where "\<not> transition_enabled to g m" "sm_transition disp uuid now to g m = (Inl err, m)"
  using sm_transition_enabled [of to g m disp uuid now]
    sm_transition_disabled [of to g m disp uuid now] by blast

section \<open>Runs of transitions\<close>

type_synonym 's transition_request = "string \<times> instant \<times> 's \<times> u64"

definition sm_run :: "('s \<Rightarrow> string) \<Rightarrow> 's transition_request list \<Rightarrow> 's StateMachine \<Rightarrow> 's StateMachine" where
  "sm_run disp reqs m =
     fold (\<lambda>(uuid, now, to, g) m. snd (sm_transition disp uuid now to g m)) reqs m"

text \<open>The history tells the truth: it is a path of allowed steps from the initial to the current
  state, and it counts the generation.\<close>

fun path_from :: "('s \<times> 's) set \<Rightarrow> 's \<Rightarrow> 's TransitionRecord list \<Rightarrow> 's \<Rightarrow> bool" where
  "path_from T a [] b \<longleftrightarrow> a = b"
| "path_from T a (r # rs) b \<longleftrightarrow>
     tr_from r = a \<and> (a = tr_to r \<or> (a, tr_to r) \<in> T) \<and> path_from T (tr_to r) rs b"

definition sm_inv :: "'s \<Rightarrow> 's StateMachine \<Rightarrow> bool" where
  "sm_inv a m \<longleftrightarrow>
     path_from (sm_transitions m) a (sm_history m) (sm_current m) \<and>
     sm_generation m = 1 + of_nat (length (sm_history m)) \<and>
     map tr_generation (sm_history m) = map (\<lambda>i. of_nat (i + 2)) [0..<length (sm_history m)]"

lemma path_from_snoc:
  "path_from T a (rs @ [r]) b \<longleftrightarrow>
     (\<exists>c. path_from T a rs c \<and> tr_from r = c \<and> (c = tr_to r \<or> (c, tr_to r) \<in> T) \<and> tr_to r = b)"
  by (induction rs arbitrary: a) auto

lemma sm_inv_moved: "sm_inv a m \<Longrightarrow> transition_enabled to g m \<Longrightarrow> sm_inv a (moved uuid now to m)"
  by (auto simp: sm_inv_def moved_def path_from_snoc transition_enabled_def algebra_simps)

lemma sm_inv_transition: "sm_inv a m \<Longrightarrow> sm_inv a (snd (sm_transition disp uuid now to g m))"
  by (rule sm_transition_cases [of to g m disp uuid now]) (simp_all add: sm_inv_moved)

lemma sm_inv_run: "sm_inv a m \<Longrightarrow> sm_inv a (sm_run disp reqs m)"
  by (induction reqs arbitrary: m) (auto simp: sm_run_def sm_inv_transition)

lemma sm_run_frame: "sm_transitions (sm_run disp reqs m) = sm_transitions m"
proof (induction reqs arbitrary: m)
  case (Cons q reqs)
  obtain uuid now to g where q: "q = (uuid, now, to, g)" by (cases q) auto
  have "sm_transitions (snd (sm_transition disp uuid now to g m)) = sm_transitions m"
    by (rule sm_transition_cases [of to g m disp uuid now]) (simp_all add: moved_def)
  with Cons q show ?case by (simp add: sm_run_def)
qed (simp add: sm_run_def)

section \<open>Properties\<close>

text \<open>A transition is all or nothing: it succeeds exactly when the expected generation is the
  current one, the step is allowed (staying put always is) and every hook, before or after the
  change, accepts; then state, generation, token and history advance by one step, and in every
  other case, an after-hook's error included, the whole machine is as it was.\<close>

theorem transition_all_or_nothing:
  "case sm_transition disp uuid now to g m of (res, m') \<Rightarrow>
     if transition_enabled to g m
     then m' = moved uuid now to m \<and>
        (\<exists>r. res = Inr r \<and> res_from r = sm_current m \<and> res_to r = to \<and>
           res_previous_generation r = g \<and> res_new_generation r = g + 1)
     else m' = m \<and> (\<exists>err. res = Inl err)"
  using sm_transition_enabled [of to g m disp uuid now] sm_transition_disabled [of to g m disp uuid now]
  by (cases "transition_enabled to g m") auto

text \<open>Whatever transitions are requested, in whatever order and with whatever generations, the
  history of a machine is a path of allowed steps from its initial to its current state, its
  records carry the generations 2, 3, and so on, and the generation is one more than the number of
  transitions made.\<close>

theorem history_is_an_allowed_path:
  "let m = sm_run disp reqs
         ((sm_new uuid a)\<lparr>sm_transitions := T, sm_before_hooks := before, sm_after_hooks := after\<rparr>)
   in path_from T a (sm_history m) (sm_current m) \<and>
      sm_generation m = 1 + of_nat (length (sm_history m)) \<and>
      map tr_generation (sm_history m) = map (\<lambda>i. of_nat (i + 2)) [0..<length (sm_history m)]"
proof -
  let ?m0 = "(sm_new uuid a)\<lparr>sm_transitions := T, sm_before_hooks := before, sm_after_hooks := after\<rparr>"
  have "sm_inv a ?m0" by (simp add: sm_inv_def sm_new_def)
  then have "sm_inv a (sm_run disp reqs ?m0)" by (rule sm_inv_run)
  moreover have "sm_transitions (sm_run disp reqs ?m0) = T" by (simp add: sm_run_frame)
  ultimately show ?thesis by (simp add: sm_inv_def Let_def)
qed

text \<open>The generation is a compare-and-swap: when one of two requests made under the same
  generation succeeds, the other fails with a generation conflict and changes nothing.\<close>

theorem transition_cas_single_winner:
  "case sm_transition disp uuid now to g m of
     (Inl err, m') \<Rightarrow> m' = m
   | (Inr r, m') \<Rightarrow>
       sm_transition disp uuid' now' to' g m' = (Inl (generation_conflict g (g + 1)), m')"
proof (rule sm_transition_cases [of to g m disp uuid now])
  fix r assume en: "transition_enabled to g m"
    and eq: "sm_transition disp uuid now to g m = (Inr r, moved uuid now to m)"
  have "sm_generation (moved uuid now to m) = g + 1"
    using en by (simp add: moved_def transition_enabled_def)
  moreover have "g \<noteq> g + 1" by simp
  ultimately have "sm_transition disp uuid' now' to' g (moved uuid now to m) =
      (Inl (generation_conflict g (g + 1)), moved uuid now to m)"
    by (simp add: sm_transition_def Let_def)
  with eq show ?thesis by simp
qed simp

text \<open>With a payload that serialises and an idempotency key that is new, a journaled
  transition either moves the machine and adds exactly the entry that records the step, with its
  phases, generation and token, or changes neither the machine nor the log.\<close>

theorem journaled_transition_atomic:
  assumes "journal_wf j" "\<And>k. jc_idempotency_key c = Some k \<Longrightarrow> \<not> has_key (journal_log j) k"
  shows "case transition_with_journal env disp uuid now to g c (Inr bytes) (m, j) of (res, m', j') \<Rightarrow>
    journal_wf j' \<and>
    (case res of
       Inl err \<Rightarrow> m' = m \<and> journal_log j' = journal_log j
     | Inr r \<Rightarrow> m' = moved uuid now to m \<and>
         (\<exists>x. journal_log j' = journal_log j @ [x] \<and> je_entry_type x = ET_Transition \<and>
            je_object_id x = jc_object_id c \<and> je_previous_phase x = Some (disp (sm_current m)) \<and>
            je_new_phase x = disp (sm_current m') \<and>
            je_generation x = unat (sm_generation m') \<and> je_fencing_token x = sm_fencing_token m'))"
proof (cases "transition_enabled to g m")
  case False
  then show ?thesis
    using sm_transition_disabled [of to g m disp uuid now] assms(1)
    by (auto simp: transition_with_journal_def)
next
  case True
  then obtain r where r: "sm_transition disp uuid now to g m = (Inr r, moved uuid now to m)"
      "res_from r = sm_current m" "res_to r = to" "res_previous_generation r = g"
      "res_new_generation r = g + 1" "res_previous_fencing_token r = sm_fencing_token m"
      "res_new_fencing_token r = uuid"
    using sm_transition_enabled [of to g m disp uuid now] by auto
  let ?e = "transition_entry disp c bytes r"
  have key: "je_idempotency_key ?e = jc_idempotency_key c" by (simp add: transition_entry_def)
  have g: "sm_generation m = g" using True by (simp add: transition_enabled_def)
  obtain ares j1 where P: "journal_append env now ?e j = (ares, j1)" by fastforce
  have wf1: "journal_wf j1" using journal_wf_append [OF assms(1), of env now ?e] P by simp
  from assms(1) P show ?thesis
  proof (cases rule: jl.append_cases)
    case (replay k x)
    then show ?thesis using assms(2) key by (auto simp: has_key_def)
  next
    case (new x)
    then show ?thesis
      using wf1 P r g by (simp add: transition_with_journal_def same_content_def transition_entry_def moved_def)
  next
    case (failed err)
    then show ?thesis
      using wf1 P r g by (simp add: transition_with_journal_def moved_def)
  qed
qed

definition demo_machine :: "nat StateMachine" where
  "demo_machine = allow_transition 0 1 (sm_new ''t0'' 0)"

definition demo_context :: "string option \<Rightarrow> journal_context" where
  "demo_context key =
     \<lparr>jc_object_type = ''Workload'', jc_object_id = ''w'', jc_workload_id = ''w'',
      jc_actor = ''kernel'', jc_idempotency_key = key\<rparr>"

lemma demo_machine_enabled: "transition_enabled 1 1 demo_machine"
  by (simp add: transition_enabled_def demo_machine_def allow_transition_def sm_new_def)

theorem journaled_transition_atomic_witness:
  "case transition_with_journal demo_env show_nat ''t1'' 5 1 1 (demo_context (Some ''k'')) (Inr ''{}'')
     (demo_machine, journal_open_in_memory) of (res, m', j') \<Rightarrow>
     journal_wf j' \<and> (isl res \<or> sm_current m' = 1)"
proof -
  have "journal_wf journal_open_in_memory" "journal_log journal_open_in_memory = []"
    using journal_honest_open_in_memory [of demo_env]
    by (simp_all add: journal_honest_def journal_log_def journal_open_in_memory_def map_filter_simps)
  then show ?thesis
    using journaled_transition_atomic [of journal_open_in_memory "demo_context (Some ''k'')",
        where env = demo_env and disp = show_nat and uuid = "''t1''" and now = 5 and to = 1 and g = 1
          and bytes = "''{}''" and m = demo_machine]
    by (auto simp: has_key_def moved_def split: prod.splits sum.splits)
qed

text \<open>Two ways in which a transition escapes the journal: when the payload does not serialise,
  the caller gets an error but the machine has moved and nothing is journaled; and under an
  idempotency key that another entry already used, the call succeeds and the machine moves, and
  again nothing is journaled.\<close>

theorem transition_escapes_journal:
  "(case transition_with_journal env show_nat uuid now 1 1 (demo_context None) (Inl text)
      (demo_machine, j) of (res, m', j') \<Rightarrow> isl res \<and> sm_current m' = 1 \<and> j' = j) \<and>
   (case transition_with_journal demo_env show_nat uuid now 1 1 (demo_context (Some ''intent'')) (Inr [])
      (demo_machine, snd (journal_append demo_env 5 demo_entry journal_open_in_memory)) of
      (res, m', j') \<Rightarrow> \<not> isl res \<and> sm_current m' = 1 \<and>
        j' = snd (journal_append demo_env 5 demo_entry journal_open_in_memory))"
proof -
  obtain r where r: "sm_transition show_nat uuid now 1 1 demo_machine =
      (Inr r, moved uuid now 1 demo_machine)"
    using sm_transition_enabled [OF demo_machine_enabled] by blast
  let ?j = "snd (journal_append demo_env 5 demo_entry journal_open_in_memory)"
  have "find_by_idempotency_key ?j ''intent'' = Some 1"
    by (simp add: journal_append_def demo_entry_def journal_open_in_memory_def Let_def
        find_by_idempotency_key_def sql_insert_def row_of_entry_def i64_max_def)
  then have "journal_append demo_env now (transition_entry show_nat (demo_context (Some ''intent'')) [] r) ?j =
      (Inr 1, ?j)"
    by (simp add: journal_append_def transition_entry_def demo_context_def)
  with r show ?thesis by (simp add: transition_with_journal_def moved_def)
qed

end
