(* ===== verification/Log_View.thy ===== *)
theory Log_View
  imports Journal
begin

text \<open>
  Views that are rebuilt from the journal.  Semantic state, execution profiles and crash recovery
  all read the whole journal and fold a step over its entries; the locale \<open>log_view\<close> extends
  the contract of a log with such a view and says how one append moves it.  The theory also has
  the JSON values and the codecs the views use: an encoder and a decoder stand for \<open>serde_json\<close>,
  each failing with the text of its error.
\<close>

section \<open>JSON values and codecs\<close>

datatype json =
    JNull
  | JBool bool
  | JNumber string
  | JString string
  | JArray "json list"
  | JObject "(string \<times> json) list"

record 'a codec =
  enc :: "'a \<Rightarrow> string + string"
  dec :: "string \<Rightarrow> string + 'a"

text \<open>What the callers rely on: a value that was encoded is what decoding gives back.\<close>

definition codec_roundtrip :: "'a codec \<Rightarrow> bool" where
  "codec_roundtrip c \<longleftrightarrow> (\<forall>x b. enc c x = Inr b \<longrightarrow> dec c b = Inr x)"

lemma codec_roundtripD [kernel_dests]: "codec_roundtrip c \<Longrightarrow> enc c x = Inr b \<Longrightarrow> dec c b = Inr x"
  by (simp add: codec_roundtrip_def)

section \<open>Folding over a log\<close>

fun fold_results :: "('v \<Rightarrow> 'e \<Rightarrow> 'v nous_result) \<Rightarrow> 'v \<Rightarrow> 'e list \<Rightarrow> 'v nous_result" where
  "fold_results f v [] = Inr v"
| "fold_results f v (x # xs) = (case f v x of Inl err \<Rightarrow> Inl err | Inr v' \<Rightarrow> fold_results f v' xs)"

lemma fold_results_append:
  "fold_results f v (xs @ ys) =
     (case fold_results f v xs of Inl err \<Rightarrow> Inl err | Inr v' \<Rightarrow> fold_results f v' ys)"
  by (induction xs arbitrary: v) (auto split: sum.splits)

lemma fold_results_foldl: "fold_results (\<lambda>v x. Inr (f v x)) v xs = Inr (foldl f v xs)"
  by (induction xs arbitrary: v) simp_all

locale log_view = append_log inv log append read_all read_wl
  for inv :: "'j \<Rightarrow> bool"
    and log :: "'j \<Rightarrow> JournalEntry list"
    and append :: "int \<Rightarrow> JournalEntry \<Rightarrow> 'j \<Rightarrow> nat nous_result \<times> 'j"
    and read_all :: "'j \<Rightarrow> JournalEntry list nous_result"
    and read_wl :: "'j \<Rightarrow> string \<Rightarrow> JournalEntry list nous_result" +
  fixes step :: "'v \<Rightarrow> JournalEntry \<Rightarrow> 'v nous_result"
    and start :: 'v
    and view :: "'j \<Rightarrow> 'v nous_result"
  assumes view_is_fold: "inv j \<Longrightarrow> view j = fold_results step start (log j)"
begin

lemma view_after_append:
  assumes "inv j" "view j = Inr v" "append t e j = (res, j')"
  obtains (replay) k where "je_idempotency_key e = Some k" "has_key (log j) k" "j' = j" "view j' = Inr v"
  | (new) x where "log j' = log j @ [x]" "same_content x e" "res = Inr (je_sequence x)"
      "view j' = step v x"
  | (failed) err where "res = Inl err" "log j' = log j" "view j' = Inr v"
proof -
  have inv': "inv j'" using inv_append [OF assms(1), of t e] assms(3) by simp
  from assms(1,3) show thesis
  proof (cases rule: append_cases)
    case (replay k x)
    then show thesis using that(1) [of k] assms(2) by (auto simp: has_key_def)
  next
    case (new x)
    have "view j' = step v x"
      using view_is_fold [OF inv'] view_is_fold [OF assms(1)] assms(2)
      by (simp add: new(1) fold_results_append split: sum.splits)
    then show thesis using that(2) new by blast
  next
    case (failed err)
    then show thesis
      using that(3) view_is_fold [OF inv'] view_is_fold [OF assms(1)] assms(2) by simp
  qed
qed

lemma view_ignores:
  assumes "inv j" "view j = Inr v" and "\<And>x v. same_content x e \<Longrightarrow> step v x = Inr v"
  shows "view (snd (append t e j)) = Inr v"
proof (cases "append t e j")
  case (Pair res j')
  with assms(1,2) show ?thesis by (cases rule: view_after_append) (use assms(3) Pair in auto)
qed

end

text \<open>The idempotency keys of a log only grow by the key that is appended.\<close>

definition log_keys :: "Journal \<Rightarrow> string set" where
  "log_keys j = {k. has_key (journal_log j) k}"

lemma log_keys_append:
  assumes "journal_wf j"
  shows "log_keys (snd (journal_append env t e j)) \<subseteq>
    log_keys j \<union> (case je_idempotency_key e of None \<Rightarrow> {} | Some k \<Rightarrow> {k})"
proof (cases "journal_append env t e j")
  case (Pair res j')
  with assms show ?thesis
    by (cases rule: jl.append_cases) (auto simp: log_keys_def has_key_def same_content_def Pair)
qed

lemma log_keys_open_in_memory [simp]: "log_keys journal_open_in_memory = {}"
  by (simp add: log_keys_def has_key_def journal_log_def journal_open_in_memory_def map_filter_simps)

end
