(* ===== verification/Recovery.thy ===== *)
theory Recovery
  imports Log_View
begin

text \<open>
  Crash recovery (crates/nous-state/src/recovery.rs): the fold that rebuilds the kernel's view of
  its workloads from the journal, and the decision what to do with interrupted ones.  The two hash
  maps are maps, the three vectors lists in the order of the source.  What the fold computes is
  specified over the whole log, without recursion over it: the last phase of an object, and the
  phases since its last terminal entry.
\<close>

section \<open>Replay\<close>

record RecoveryState =
  rs_workload_phases :: "string \<rightharpoonup> string"
  rs_workload_generations :: "string \<rightharpoonup> nat"
  rs_active_workloads :: "string list"
  rs_interrupted_workloads :: "string list"
  rs_leased_workloads :: "string list"
  rs_entries_replayed :: nat
  rs_max_sequence :: nat

definition recovery_default :: RecoveryState where
  "recovery_default =
     \<lparr>rs_workload_phases = Map.empty, rs_workload_generations = Map.empty, rs_active_workloads = [],
      rs_interrupted_workloads = [], rs_leased_workloads = [], rs_entries_replayed = 0,
      rs_max_sequence = 0\<rparr>"

definition is_terminal_phase :: "string \<Rightarrow> bool" where
  "is_terminal_phase p \<longleftrightarrow>
     p \<in> set [''REJECTED'', ''SUCCEEDED'', ''FAILED'', ''CANCELLED'', ''LOST'', ''QUARANTINED'']"

definition is_active_phase :: "string \<Rightarrow> bool" where
  "is_active_phase p \<longleftrightarrow>
     p \<in> set [''ADMITTED'', ''PLACED'', ''PREPARING'', ''RUNNING'', ''QUIESCING'', ''CHECKPOINTING'',
              ''RECOVERING'']"

definition push_unless_present :: "string \<Rightarrow> string list \<Rightarrow> string list" where
  "push_unless_present x xs = (if x \<in> set xs then xs else xs @ [x])"

definition replay_entry :: "RecoveryState \<Rightarrow> JournalEntry \<Rightarrow> RecoveryState" where
  "replay_entry st0 e =
     (let st = st0\<lparr>rs_entries_replayed := rs_entries_replayed st0 + 1, rs_max_sequence := je_sequence e\<rparr>;
          oid = je_object_id e
      in if je_object_type e \<noteq> ''Workload'' then st
         else
           let st1 = st\<lparr>rs_workload_phases := (rs_workload_phases st)(oid \<mapsto> je_new_phase e),
                        rs_workload_generations := (rs_workload_generations st)(oid \<mapsto> je_generation e)\<rparr>;
               st2 = (if is_terminal_phase (je_new_phase e)
                      then st1\<lparr>rs_active_workloads := filter (\<lambda>x. x \<noteq> oid) (rs_active_workloads st1),
                               rs_interrupted_workloads := filter (\<lambda>x. x \<noteq> oid) (rs_interrupted_workloads st1),
                               rs_leased_workloads := filter (\<lambda>x. x \<noteq> oid) (rs_leased_workloads st1)\<rparr>
                      else st1\<lparr>rs_active_workloads := push_unless_present oid (rs_active_workloads st1)\<rparr>);
               st3 = (if is_active_phase (je_new_phase e)
                      then st2\<lparr>rs_interrupted_workloads := push_unless_present oid (rs_interrupted_workloads st2)\<rparr>
                      else st2)
           in if je_entry_type e = ET_Commit
              then st3\<lparr>rs_leased_workloads := push_unless_present oid (rs_leased_workloads st3)\<rparr>
              else st3)"

definition replay_entries :: "JournalEntry list \<Rightarrow> RecoveryState" where
  "replay_entries es = foldl replay_entry recovery_default es"

definition replay_journal :: "journal_env \<Rightarrow> Journal \<Rightarrow> RecoveryState nous_result" where
  "replay_journal env j = map_sum id replay_entries (read_from env j 0)"

section \<open>Actions\<close>

datatype RecoveryAction =
    RA_Resume string string
  | RA_Restart string
  | RA_MarkLost string
  | RA_MarkFailed string string

definition recovery_action :: "RecoveryState \<Rightarrow> string \<Rightarrow> RecoveryAction" where
  "recovery_action st w =
     (let current_phase = (case rs_workload_phases st w of None \<Rightarrow> ''UNKNOWN'' | Some p \<Rightarrow> p);
          resumable_pre_execution = current_phase \<in> set [''ADMITTED'', ''PLACED'', ''PREPARING'']
      in if w \<in> set (rs_leased_workloads st) \<or> resumable_pre_execution
         then RA_Resume w current_phase else RA_MarkLost w)"

definition compute_recovery_actions :: "RecoveryState \<Rightarrow> RecoveryAction list" where
  "compute_recovery_actions st = map (recovery_action st) (rs_interrupted_workloads st)"

definition recover :: "journal_env \<Rightarrow> Journal \<Rightarrow> (RecoveryState \<times> RecoveryAction list) nous_result" where
  "recover env j =
     map_sum id (\<lambda>st. (st, compute_recovery_actions st)) (replay_journal env j)"

section \<open>What the log says of an object\<close>

text \<open>The workload entries of one object, in order, and the part after its last terminal entry.\<close>

definition object_entries :: "JournalEntry list \<Rightarrow> string \<Rightarrow> JournalEntry list" where
  "object_entries es oid =
     filter (\<lambda>e. je_object_type e = ''Workload'' \<and> je_object_id e = oid) es"

definition since_terminal :: "JournalEntry list \<Rightarrow> JournalEntry list" where
  "since_terminal es = rev (takeWhile (\<lambda>e. \<not> is_terminal_phase (je_new_phase e)) (rev es))"

definition last_phase :: "JournalEntry list \<Rightarrow> string \<Rightarrow> string option" where
  "last_phase es oid =
     (if object_entries es oid = [] then None
      else Some (je_new_phase (last (object_entries es oid))))"

text \<open>The trailing entries from the last terminal one on, that one included.\<close>

definition from_terminal :: "JournalEntry list \<Rightarrow> JournalEntry list" where
  "from_terminal es = drop (length es - length (since_terminal es) - 1) es"

lemma object_entries_snoc:
  "object_entries (es @ [e]) oid =
     (if je_object_type e = ''Workload'' \<and> je_object_id e = oid
      then object_entries es oid @ [e] else object_entries es oid)"
  by (simp add: object_entries_def)

lemma since_terminal_snoc:
  "since_terminal (es @ [e]) = (if is_terminal_phase (je_new_phase e) then [] else since_terminal es @ [e])"
  by (simp add: since_terminal_def)

lemma length_since_terminal: "length (since_terminal es) \<le> length es"
  using length_takeWhile_le [of _ "rev es"] by (simp add: since_terminal_def)

lemma from_terminal_snoc:
  "from_terminal (es @ [e]) = (if is_terminal_phase (je_new_phase e) then [e] else from_terminal es @ [e])"
  using length_since_terminal [of es]
  by (auto simp: from_terminal_def since_terminal_snoc Suc_diff_le)

lemma object_entries_Nil [simp]: "object_entries [] oid = []"
  by (simp add: object_entries_def)

lemma since_terminal_Nil [simp]: "since_terminal [] = []"
  by (simp add: since_terminal_def)

lemma from_terminal_Nil [simp]: "from_terminal [] = []"
  by (simp add: from_terminal_def)

lemma last_phase_Nil [simp]: "last_phase [] oid = None"
  by (simp add: last_phase_def)

lemma last_phase_snoc:
  "last_phase (es @ [e]) oid =
     (if je_object_type e = ''Workload'' \<and> je_object_id e = oid then Some (je_new_phase e)
      else last_phase es oid)"
  by (simp add: last_phase_def object_entries_snoc)

lemma set_push [simp]: "set (push_unless_present x xs) = insert x (set xs)"
  by (auto simp: push_unless_present_def)

lemma distinct_push [simp]: "distinct (push_unless_present x xs) = distinct xs"
  by (auto simp: push_unless_present_def)

lemma replay_entries_snoc: "replay_entries (es @ [e]) = replay_entry (replay_entries es) e"
  by (simp add: replay_entries_def)

lemma active_not_terminal: "is_active_phase p \<Longrightarrow> \<not> is_terminal_phase p"
  by (auto simp: is_active_phase_def is_terminal_phase_def)

text \<open>The effect of one entry, field by field.\<close>

lemma replay_entry_other:
  "je_object_type e \<noteq> ''Workload'' \<Longrightarrow>
     replay_entry st e = st\<lparr>rs_entries_replayed := rs_entries_replayed st + 1, rs_max_sequence := je_sequence e\<rparr>"
  by (simp add: replay_entry_def)

lemma replay_entry_counts [simp]:
  "rs_entries_replayed (replay_entry st e) = rs_entries_replayed st + 1"
  "rs_max_sequence (replay_entry st e) = je_sequence e"
  by (simp_all add: replay_entry_def Let_def)

lemma replay_entry_workload:
  assumes "je_object_type e = ''Workload''"
  shows "rs_workload_phases (replay_entry st e) = (rs_workload_phases st)(je_object_id e \<mapsto> je_new_phase e)"
    and "set (rs_active_workloads (replay_entry st e)) =
      (if is_terminal_phase (je_new_phase e) then set (rs_active_workloads st) - {je_object_id e}
       else insert (je_object_id e) (set (rs_active_workloads st)))"
    and "set (rs_interrupted_workloads (replay_entry st e)) =
      (if is_terminal_phase (je_new_phase e) then set (rs_interrupted_workloads st) - {je_object_id e}
       else if is_active_phase (je_new_phase e)
       then insert (je_object_id e) (set (rs_interrupted_workloads st))
       else set (rs_interrupted_workloads st))"
    and "set (rs_leased_workloads (replay_entry st e)) =
      (if is_terminal_phase (je_new_phase e) then set (rs_leased_workloads st) - {je_object_id e}
       else set (rs_leased_workloads st)) \<union> (if je_entry_type e = ET_Commit then {je_object_id e} else {})"
    and "distinct (rs_active_workloads st) \<Longrightarrow> distinct (rs_active_workloads (replay_entry st e))"
    and "distinct (rs_interrupted_workloads st) \<Longrightarrow> distinct (rs_interrupted_workloads (replay_entry st e))"
  using assms active_not_terminal [of "je_new_phase e"] by (auto simp: replay_entry_def Let_def)

lemma replay_entries_phases: "rs_workload_phases (replay_entries es) oid = last_phase es oid"
proof (induction es rule: rev_induct)
  case (snoc e es)
  then show ?case
    by (cases "je_object_type e = ''Workload''")
      (auto simp: replay_entries_snoc last_phase_snoc replay_entry_other replay_entry_workload)
qed (simp add: replay_entries_def recovery_default_def)

lemma replay_entries_active:
  "oid \<in> set (rs_active_workloads (replay_entries es)) \<longleftrightarrow>
     (\<exists>p. last_phase es oid = Some p \<and> \<not> is_terminal_phase p)"
proof (induction es rule: rev_induct)
  case (snoc e es)
  then show ?case
    by (cases "je_object_type e = ''Workload''")
      (auto simp: replay_entries_snoc last_phase_snoc replay_entry_other replay_entry_workload)
qed (simp add: replay_entries_def recovery_default_def)

lemma replay_entries_interrupted:
  "oid \<in> set (rs_interrupted_workloads (replay_entries es)) \<longleftrightarrow>
     (\<exists>e \<in> set (since_terminal (object_entries es oid)). is_active_phase (je_new_phase e))"
proof (induction es rule: rev_induct)
  case (snoc e es)
  then show ?case
    by (cases "je_object_type e = ''Workload''")
      (auto simp: replay_entries_snoc object_entries_snoc since_terminal_snoc replay_entry_other
        replay_entry_workload)
qed (simp add: replay_entries_def recovery_default_def)

lemma replay_entries_leased:
  "oid \<in> set (rs_leased_workloads (replay_entries es)) \<longleftrightarrow>
     (\<exists>e \<in> set (from_terminal (object_entries es oid)). je_entry_type e = ET_Commit)"
proof (induction es rule: rev_induct)
  case (snoc e es)
  then show ?case
    by (cases "je_object_type e = ''Workload''")
      (auto simp: replay_entries_snoc object_entries_snoc from_terminal_snoc replay_entry_other
        replay_entry_workload)
qed (simp add: replay_entries_def recovery_default_def)

lemma replay_entries_counts:
  "rs_entries_replayed (replay_entries es) = length es \<and>
   rs_max_sequence (replay_entries es) = (if es = [] then 0 else je_sequence (last es)) \<and>
   distinct (rs_active_workloads (replay_entries es)) \<and>
   distinct (rs_interrupted_workloads (replay_entries es))"
proof (induction es rule: rev_induct)
  case (snoc e es)
  then show ?case
    by (cases "je_object_type e = ''Workload''")
      (auto simp: replay_entries_snoc replay_entry_other replay_entry_workload)
qed (simp add: replay_entries_def recovery_default_def)

lemma since_terminal_phase:
  assumes "e \<in> set (since_terminal (object_entries es oid))"
  shows "\<exists>p. last_phase es oid = Some p \<and> \<not> is_terminal_phase p"
  using assms
proof (induction es arbitrary: e rule: rev_induct)
  case (snoc x es)
  then show ?case
    by (cases "je_object_type x = ''Workload'' \<and> je_object_id x = oid")
      (auto simp: object_entries_snoc since_terminal_snoc last_phase_snoc split: if_splits)
qed simp

lemmas replay_facts = replay_entries_phases replay_entries_active replay_entries_interrupted
  replay_entries_leased replay_entries_counts

interpretation recv: log_view journal_wf journal_log "journal_append env" "\<lambda>j. read_from env j 0"
  "read_workload env" "\<lambda>st e. Inr (replay_entry st e)" recovery_default "replay_journal env" for env
  by unfold_locales (simp add: replay_journal_def replay_entries_def fold_results_foldl jl.read_all_log)

lemma replay_journal_wf: "journal_wf j \<Longrightarrow> replay_journal env j = Inr (replay_entries (journal_log j))"
  by (simp add: recv.view_is_fold fold_results_foldl replay_entries_def)

fun action_target :: "RecoveryAction \<Rightarrow> string" where
  "action_target (RA_Resume w _) = w"
| "action_target (RA_Restart w) = w"
| "action_target (RA_MarkLost w) = w"
| "action_target (RA_MarkFailed w _) = w"

lemma action_target_recovery_action [simp]: "action_target (recovery_action st w) = w"
  by (simp add: recovery_action_def Let_def)

section \<open>Properties\<close>



text \<open>Recovery decides every interrupted workload exactly once, and only those: each action
  concerns a different workload whose last phase is not terminal; it is a resume at that phase when
  the workload has a commit entry or stopped before it started executing, and otherwise the
  workload is marked lost; nothing is restarted or marked failed.\<close>

theorem recover_decides_each_interrupted_once:
  assumes "journal_wf j"
  shows "\<exists>st acts. recover env j = Inr (st, acts) \<and>
    map action_target acts = rs_interrupted_workloads st \<and> distinct (map action_target acts) \<and>
    (\<forall>a \<in> set acts. \<exists>w p. last_phase (journal_log j) w = Some p \<and> \<not> is_terminal_phase p \<and>
       (let leased = \<exists>e \<in> set (from_terminal (object_entries (journal_log j) w)). je_entry_type e = ET_Commit
        in a = (if leased \<or> p \<in> {''ADMITTED'', ''PLACED'', ''PREPARING''}
                then RA_Resume w p else RA_MarkLost w)))"
proof -
  define st where "st = replay_entries (journal_log j)"
  have eq: "recover env j = Inr (st, compute_recovery_actions st)"
    using replay_journal_wf [OF assms, of env] by (simp add: recover_def st_def)
  have tgt: "map action_target (compute_recovery_actions st) = rs_interrupted_workloads st"
    by (simp add: compute_recovery_actions_def comp_def)
  have "\<exists>w p. last_phase (journal_log j) w = Some p \<and> \<not> is_terminal_phase p \<and>
      (let leased = \<exists>e \<in> set (from_terminal (object_entries (journal_log j) w)). je_entry_type e = ET_Commit
       in a = (if leased \<or> p \<in> {''ADMITTED'', ''PLACED'', ''PREPARING''}
               then RA_Resume w p else RA_MarkLost w))"
    if a: "a \<in> set (compute_recovery_actions st)" for a
  proof -
    obtain w where w: "w \<in> set (rs_interrupted_workloads st)" "a = recovery_action st w"
      using a by (auto simp: compute_recovery_actions_def)
    then obtain p where p: "last_phase (journal_log j) w = Some p" "\<not> is_terminal_phase p"
      using since_terminal_phase [of _ "journal_log j" w] by (auto simp: st_def replay_facts)
    then have "rs_workload_phases st w = Some p" by (simp add: st_def replay_facts)
    moreover have "w \<in> set (rs_leased_workloads st) \<longleftrightarrow>
        (\<exists>e \<in> set (from_terminal (object_entries (journal_log j) w)). je_entry_type e = ET_Commit)"
      by (simp add: st_def replay_facts)
    ultimately show ?thesis using w p by (intro exI [of _ w] exI [of _ p]) (simp add: recovery_action_def Let_def)
  qed
  with eq tgt show ?thesis by (auto simp: st_def replay_facts)
qed

definition workload_entry :: "EntryType \<Rightarrow> string \<Rightarrow> JournalEntry" where
  "workload_entry ty phase =
     demo_entry\<lparr>je_entry_type := ty, je_new_phase := phase, je_idempotency_key := None\<rparr>"

theorem recover_decides_each_interrupted_once_witness:
  "\<exists>st acts. recover demo_env
      (append_all demo_env [(5, workload_entry ET_Intent ''RUNNING'')] journal_open_in_memory) = Inr (st, acts) \<and>
      map action_target acts = rs_interrupted_workloads st"
proof -
  have "journal_wf (append_all demo_env [(5, workload_entry ET_Intent ''RUNNING'')] journal_open_in_memory)"
    using journal_honest_append_all [OF journal_honest_open_in_memory] by (simp add: journal_honest_def)
  then show ?thesis using recover_decides_each_interrupted_once by blast
qed

text \<open>Two shapes of a log where the rebuilt view is not the one the comments describe: a
  workload that ran and was then suspended is still reported as interrupted, although it was not
  running at the crash, and without a commit it is marked lost; and a workload that ends with a
  terminal commit entry is put back among the leased ones right after its lease is dropped.\<close>

theorem replay_keeps_suspended_and_terminal_commits:
  "compute_recovery_actions (replay_entries
      [workload_entry ET_Transition ''RUNNING'', workload_entry ET_Transition ''SUSPENDED'']) =
     [RA_MarkLost ''op''] \<and>
   rs_leased_workloads (replay_entries [workload_entry ET_Commit ''CANCELLED'']) = [''op''] \<and>
   rs_active_workloads (replay_entries [workload_entry ET_Commit ''CANCELLED'']) = []"
  by (simp add: replay_entries_def replay_entry_def recovery_default_def workload_entry_def demo_entry_def
      is_terminal_phase_def is_active_phase_def push_unless_present_def compute_recovery_actions_def
      recovery_action_def Let_def)

end
