(* ===== verification/Semantic_State.thy ===== *)
theory Semantic_State
  imports Log_View
begin

text \<open>
  Journal-backed semantic state (crates/nous-state/src/semantic.rs) and execution profiles
  (crates/nous-state/src/execution_profile.rs).  The fabric is the map behind its lock; \<open>put\<close>
  works on the pair of fabric and journal.  Replaying the journal is a view of the log, so the
  contract \<open>log_view\<close> applies to it.
\<close>

section \<open>The fabric\<close>

datatype StateRepresentation = SR_Raw | SR_Structured | SR_Summary | SR_Artifact

record SemanticStateRecord =
  ss_state_id :: string
  ss_namespace :: string
  ss_semantic_type :: string
  ss_representation :: StateRepresentation
  ss_owner :: string
  ss_source_model_revision :: string
  ss_generation :: u64
  ss_value :: json
  ss_evidence_refs :: "string list"
  ss_updated_at_us :: int

type_synonym SemanticStateFabric = "string \<rightharpoonup> SemanticStateRecord"

definition fabric_new :: SemanticStateFabric where
  "fabric_new = Map.empty"

definition fabric_get :: "SemanticStateFabric \<Rightarrow> string \<Rightarrow> SemanticStateRecord option" where
  "fabric_get f state_id = f state_id"

definition fabric_generation :: "SemanticStateFabric \<Rightarrow> string \<Rightarrow> u64" where
  "fabric_generation f state_id = (case f state_id of None \<Rightarrow> 0 | Some r \<Rightarrow> ss_generation r)"

definition semantic_entry :: "u64 \<Rightarrow> SemanticStateRecord \<Rightarrow> string \<Rightarrow> string \<Rightarrow> string \<Rightarrow> JournalEntry" where
  "semantic_entry current_generation r payload actor key =
     \<lparr>je_sequence = 0, je_workload_id = ss_state_id r, je_entry_type = ET_Commit,
      je_object_type = ''SemanticState'', je_object_id = ss_state_id r,
      je_previous_phase = Some (if current_generation = 0 then ''ABSENT'' else ''ACTIVE''),
      je_new_phase = ''ACTIVE'', je_generation = unat (ss_generation r), je_payload = payload,
      je_fencing_token = ''semantic:'' @ ss_state_id r @ '':'' @ show_nat (unat (ss_generation r)),
      je_actor = actor, je_idempotency_key = Some key, je_timestamp_us = ss_updated_at_us r,
      je_checksum = []\<rparr>"

definition semantic_conflict :: "u64 \<Rightarrow> u64 \<Rightarrow> NousError" where
  "semantic_conflict expected current =
     nous_error EC_WorkloadConflict
       (''Semantic state generation conflict: expected '' @ show_nat (unat expected) @
        '', current '' @ show_nat (unat current))"

definition semantic_put ::
  "journal_env \<Rightarrow> SemanticStateRecord codec \<Rightarrow> int \<Rightarrow> SemanticStateRecord \<Rightarrow> u64 \<Rightarrow> string \<Rightarrow> string \<Rightarrow>
     SemanticStateFabric \<times> Journal \<Rightarrow> nat nous_result \<times> SemanticStateFabric \<times> Journal" where
  "semantic_put env c now r0 expected_generation actor key =
     (\<lambda>(f, j).
        let current_generation = fabric_generation f (ss_state_id r0)
        in if current_generation \<noteq> expected_generation
           then (Inl (semantic_conflict expected_generation current_generation), f, j)
           else
             let r = r0\<lparr>ss_generation := current_generation + 1, ss_updated_at_us := now\<rparr>
             in (case enc c r of
                   Inl text \<Rightarrow>
                     (Inl (nous_error EC_Internal (''Cannot encode semantic state: '' @ text)), f, j)
                 | Inr payload \<Rightarrow>
                     (case journal_append env now
                             (semantic_entry current_generation r payload actor key) j of
                        (Inl err, j1) \<Rightarrow> (Inl err, f, j1)
                      | (Inr sequence, j1) \<Rightarrow> (Inr sequence, f(ss_state_id r \<mapsto> r), j1))))"

definition semantic_replay_entry ::
  "SemanticStateRecord codec \<Rightarrow> SemanticStateFabric \<Rightarrow> JournalEntry \<Rightarrow> SemanticStateFabric nous_result" where
  "semantic_replay_entry c f e =
     (if je_object_type e = ''SemanticState'' \<and> je_entry_type e = ET_Commit
      then (case dec c (je_payload e) of
              Inl text \<Rightarrow>
                Inl (nous_error EC_DataLoss (''Invalid semantic state journal entry: '' @ text))
            | Inr r \<Rightarrow> Inr (f(ss_state_id r \<mapsto> r)))
      else Inr f)"

definition semantic_replay ::
  "journal_env \<Rightarrow> SemanticStateRecord codec \<Rightarrow> Journal \<Rightarrow> SemanticStateFabric nous_result" where
  "semantic_replay env c j =
     (case read_from env j 0 of
        Inl err \<Rightarrow> Inl err
      | Inr entries \<Rightarrow> fold_results (semantic_replay_entry c) fabric_new entries)"

section \<open>Execution profiles\<close>

record ExecutionProfile =
  ep_operation_id :: string
  ep_workload_id :: string
  ep_task_type :: string
  ep_task_class :: string
  ep_model :: string
  ep_provider :: string
  ep_execution_domain :: string
  ep_device :: string
  ep_latency_ms :: u64
  ep_queue_latency_ms :: u64
  ep_state_transfer_ms :: "u64 option"
  ep_recovery_latency_ms :: "u64 option"
  ep_cost_microcents :: "u64 option"
  ep_failure_code :: "string option"
  ep_retry_count :: u32
  ep_recovered :: bool
  ep_quality_signal :: "u64 option"
  ep_recorded_at_us :: int

definition execution_profile_default :: ExecutionProfile where
  "execution_profile_default =
     \<lparr>ep_operation_id = [], ep_workload_id = [], ep_task_type = [], ep_task_class = [],
      ep_model = [], ep_provider = [], ep_execution_domain = ''unknown'', ep_device = [],
      ep_latency_ms = 0, ep_queue_latency_ms = 0, ep_state_transfer_ms = None,
      ep_recovery_latency_ms = None, ep_cost_microcents = None, ep_failure_code = None,
      ep_retry_count = 0, ep_recovered = False, ep_quality_signal = None, ep_recorded_at_us = 0\<rparr>"

definition profile_outcome :: "ExecutionProfile \<Rightarrow> string" where
  "profile_outcome p = (if ep_failure_code p \<noteq> None then ''FAILED'' else ''COMPLETED'')"

definition profile_entry :: "ExecutionProfile \<Rightarrow> string \<Rightarrow> JournalEntry" where
  "profile_entry p payload =
     \<lparr>je_sequence = 0, je_workload_id = ep_workload_id p, je_entry_type = ET_Observation,
      je_object_type = ''ExecutionProfile'',
      je_object_id = ep_operation_id p @ '':'' @ ep_provider p @ '':'' @ profile_outcome p,
      je_previous_phase = None, je_new_phase = profile_outcome p, je_generation = 1,
      je_payload = payload, je_fencing_token = [], je_actor = ''kernel-runtime'',
      je_idempotency_key =
        Some (''operation:'' @ ep_operation_id p @ '':profile:'' @ ep_provider p @ '':'' @ profile_outcome p),
      je_timestamp_us = ep_recorded_at_us p, je_checksum = []\<rparr>"

definition profile_record ::
  "journal_env \<Rightarrow> ExecutionProfile codec \<Rightarrow> int \<Rightarrow> ExecutionProfile \<Rightarrow> Journal \<Rightarrow> nat nous_result \<times> Journal" where
  "profile_record env c now p0 j =
     (let p = p0\<lparr>ep_recorded_at_us := now\<rparr>
      in case enc c p of
           Inl text \<Rightarrow> (Inl (nous_error EC_Internal (''Cannot encode execution profile: '' @ text)), j)
         | Inr payload \<Rightarrow> journal_append env now (profile_entry p payload) j)"

definition profile_list_entry ::
  "ExecutionProfile codec \<Rightarrow> ExecutionProfile list \<Rightarrow> JournalEntry \<Rightarrow> ExecutionProfile list nous_result" where
  "profile_list_entry c ps e =
     (if je_object_type e = ''ExecutionProfile''
      then (case dec c (je_payload e) of
              Inl text \<Rightarrow> Inl (nous_error EC_DataLoss (''Invalid execution profile: '' @ text))
            | Inr p \<Rightarrow> Inr (ps @ [p]))
      else Inr ps)"

definition profile_list ::
  "journal_env \<Rightarrow> ExecutionProfile codec \<Rightarrow> Journal \<Rightarrow> ExecutionProfile list nous_result" where
  "profile_list env c j =
     (case read_from env j 0 of
        Inl err \<Rightarrow> Inl err
      | Inr entries \<Rightarrow> fold_results (profile_list_entry c) [] entries)"

section \<open>Both are views of the log\<close>

interpretation sv: log_view journal_wf journal_log "journal_append env" "\<lambda>j. read_from env j 0"
  "read_workload env" "semantic_replay_entry c" fabric_new "semantic_replay env c" for env c
  by unfold_locales (simp add: semantic_replay_def jl.read_all_log)

interpretation pv: log_view journal_wf journal_log "journal_append env" "\<lambda>j. read_from env j 0"
  "read_workload env" "profile_list_entry c" "[]" "profile_list env c" for env c
  by unfold_locales (simp add: profile_list_def jl.read_all_log)

text \<open>A fabric that agrees with its journal.\<close>

definition fabric_synced :: "journal_env \<Rightarrow> SemanticStateRecord codec \<Rightarrow> SemanticStateFabric \<times> Journal \<Rightarrow> bool" where
  "fabric_synced env c s \<longleftrightarrow> journal_wf (snd s) \<and> semantic_replay env c (snd s) = Inr (fst s)"

lemma semantic_entry_sel [simp]:
  "je_object_type (semantic_entry g r p a k) = ''SemanticState''"
  "je_entry_type (semantic_entry g r p a k) = ET_Commit"
  "je_payload (semantic_entry g r p a k) = p"
  "je_idempotency_key (semantic_entry g r p a k) = Some k"
  by (simp_all add: semantic_entry_def)

lemma semantic_step_put:
  assumes "codec_roundtrip c" "enc c r = Inr payload" "same_content x (semantic_entry g r payload a k)"
  shows "semantic_replay_entry c f x = Inr (f(ss_state_id r \<mapsto> r))"
  using assms by (simp add: semantic_replay_entry_def same_content_def codec_roundtripD)

lemma semantic_put_synced:
  assumes "codec_roundtrip c" "fabric_synced env c (f, j)" "key \<notin> log_keys j"
  shows "fabric_synced env c (snd (semantic_put env c now r g actor key (f, j)))"
proof -
  let ?cur = "fabric_generation f (ss_state_id r)"
  let ?r = "r\<lparr>ss_generation := ?cur + 1, ss_updated_at_us := now\<rparr>"
  have wf: "journal_wf j" and view: "semantic_replay env c j = Inr f"
    using assms(2) by (auto simp: fabric_synced_def)
  show ?thesis
  proof (cases "?cur = g \<and> \<not> isl (enc c ?r)")
    case False
    then show ?thesis using assms(2)
      by (cases "enc c ?r") (auto simp: semantic_put_def Let_def)
  next
    case True
    then obtain payload where p: "enc c ?r = Inr payload" by (cases "enc c ?r") auto
    let ?e = "semantic_entry ?cur ?r payload actor key"
    obtain res j' where P: "journal_append env now ?e j = (res, j')" by fastforce
    have wf': "journal_wf j'" using journal_wf_append [OF wf, of env now ?e] P by simp
    from wf view P have "fabric_synced env c (case res of Inl _ \<Rightarrow> f | Inr _ \<Rightarrow> f(ss_state_id r \<mapsto> ?r), j')"
    proof (cases rule: sv.view_after_append)
      case (replay k)
      then show ?thesis using assms(3) by (simp add: log_keys_def)
    next
      case (new x)
      then show ?thesis
        using wf' semantic_step_put [OF assms(1) p new(2), of f] by (simp add: fabric_synced_def)
    next
      case (failed err)
      then show ?thesis using wf' by (simp add: fabric_synced_def)
    qed
    moreover have "snd (semantic_put env c now r g actor key (f, j)) =
        (case res of Inl _ \<Rightarrow> f | Inr _ \<Rightarrow> f(ss_state_id r \<mapsto> ?r), j')"
      using True p P by (simp add: semantic_put_def Let_def split: sum.splits)
    ultimately show ?thesis by simp
  qed
qed

section \<open>Histories\<close>

text \<open>Puts interleaved with what the other components append to the same journal.\<close>

datatype fabric_op =
    FPut int SemanticStateRecord u64 string string
  | FOther int JournalEntry

fun fabric_op_key :: "fabric_op \<Rightarrow> string option" where
  "fabric_op_key (FPut _ _ _ _ key) = Some key"
| "fabric_op_key (FOther _ e) = je_idempotency_key e"

fun fabric_op_foreign :: "fabric_op \<Rightarrow> bool" where
  "fabric_op_foreign (FPut _ _ _ _ _) = True"
| "fabric_op_foreign (FOther _ e) = (je_object_type e \<noteq> ''SemanticState'')"

fun fabric_step ::
  "journal_env \<Rightarrow> SemanticStateRecord codec \<Rightarrow> fabric_op \<Rightarrow> SemanticStateFabric \<times> Journal \<Rightarrow>
     SemanticStateFabric \<times> Journal" where
  "fabric_step env c (FPut now r g actor key) s = snd (semantic_put env c now r g actor key s)"
| "fabric_step env c (FOther now e) (f, j) = (f, snd (journal_append env now e j))"

definition fabric_run ::
  "journal_env \<Rightarrow> SemanticStateRecord codec \<Rightarrow> fabric_op list \<Rightarrow> SemanticStateFabric \<times> Journal \<Rightarrow>
     SemanticStateFabric \<times> Journal" where
  "fabric_run env c ops s = fold (fabric_step env c) ops s"

lemma fabric_other_synced:
  assumes "fabric_synced env c (f, j)" "je_object_type e \<noteq> ''SemanticState''"
  shows "fabric_synced env c (f, snd (journal_append env now e j))"
proof -
  have "semantic_replay_entry c v x = Inr v" if "same_content x e" for x v
    using that assms(2) by (simp add: semantic_replay_entry_def same_content_def)
  then show ?thesis
    using assms(1) sv.view_ignores [of j env c f e now] journal_wf_append [of j env now e]
    by (simp add: fabric_synced_def)
qed

lemma semantic_put_journal:
  "snd (snd (semantic_put env c now r g actor key (f, j))) = j \<or>
   (\<exists>e. je_idempotency_key e = Some key \<and>
      snd (snd (semantic_put env c now r g actor key (f, j))) = snd (journal_append env now e j))"
  by (auto simp: semantic_put_def Let_def split: sum.split prod.split)
    (metis semantic_entry_sel(4) snd_conv)+

lemma fabric_step_keys:
  assumes "journal_wf (snd s)"
  shows "log_keys (snd (fabric_step env c op s)) \<subseteq> log_keys (snd s) \<union> set_option (fabric_op_key op)"
proof (cases op)
  case (FPut now r g actor key)
  obtain f j where s: "s = (f, j)" by fastforce
  from semantic_put_journal [of env c now r g actor key f j] show ?thesis
  proof
    assume "\<exists>e. je_idempotency_key e = Some key \<and>
      snd (snd (semantic_put env c now r g actor key (f, j))) = snd (journal_append env now e j)"
    then obtain e where e: "je_idempotency_key e = Some key"
      "snd (snd (semantic_put env c now r g actor key (f, j))) = snd (journal_append env now e j)" by blast
    then show ?thesis using assms log_keys_append [of j env now e] FPut s by simp
  qed (use FPut s in auto)
next
  case (FOther now e)
  then show ?thesis
    using assms log_keys_append [of "snd s" env now e] by (cases s) (auto split: option.splits)
qed

lemma fabric_step_synced:
  assumes "codec_roundtrip c" "fabric_synced env c s" "fabric_op_foreign op"
    and "\<And>k. fabric_op_key op = Some k \<Longrightarrow> k \<notin> log_keys (snd s)"
  shows "fabric_synced env c (fabric_step env c op s)"
  using assms by (cases s; cases op) (auto intro: semantic_put_synced fabric_other_synced)

lemma fabric_run_synced:
  assumes "codec_roundtrip c"
  shows "fabric_synced env c s \<Longrightarrow> \<forall>op \<in> set ops. fabric_op_foreign op \<Longrightarrow>
    distinct (List.map_filter fabric_op_key ops) \<Longrightarrow>
    (\<forall>op \<in> set ops. \<forall>k. fabric_op_key op = Some k \<longrightarrow> k \<notin> log_keys (snd s)) \<Longrightarrow>
    fabric_synced env c (fabric_run env c ops s)"
proof (induction ops arbitrary: s)
  case (Cons op ops)
  have wf: "journal_wf (snd s)" using Cons.prems(1) by (simp add: fabric_synced_def)
  have step: "fabric_synced env c (fabric_step env c op s)"
    using Cons.prems by (intro fabric_step_synced assms) auto
  have "k \<notin> log_keys (snd (fabric_step env c op s))"
    if op': "op' \<in> set ops" "fabric_op_key op' = Some k" for op' k
  proof -
    have "k \<notin> set_option (fabric_op_key op)"
      using Cons.prems(3) op' by (auto simp: map_filter_simps split: option.splits)
    moreover have "k \<notin> log_keys (snd s)" using Cons.prems(4) op' by simp
    ultimately show ?thesis using fabric_step_keys [OF wf, of env c op] by blast
  qed
  moreover have "distinct (List.map_filter fabric_op_key ops)"
    using Cons.prems(3) by (auto simp: map_filter_simps split: option.splits)
  ultimately show ?case
    using Cons.IH [OF step] Cons.prems(2) by (simp add: fabric_run_def)
qed (simp add: fabric_run_def)

section \<open>Properties\<close>


definition demo_record :: SemanticStateRecord where
  "demo_record =
     \<lparr>ss_state_id = ''s'', ss_namespace = ''n'', ss_semantic_type = ''t'', ss_representation = SR_Raw,
      ss_owner = ''o'', ss_source_model_revision = [], ss_generation = 1, ss_value = JNull,
      ss_evidence_refs = [], ss_updated_at_us = 5\<rparr>"

definition demo_record2 :: SemanticStateRecord where
  "demo_record2 = demo_record\<lparr>ss_generation := 2\<rparr>"

text \<open>A codec for these two records; it refuses every other one.\<close>

definition demo_codec :: "SemanticStateRecord codec" where
  "demo_codec =
     \<lparr>enc = (\<lambda>r. if r = demo_record then Inr ''1'' else if r = demo_record2 then Inr ''2''
                 else Inl ''unsupported''),
      dec = (\<lambda>b. if b = ''1'' then Inr demo_record else if b = ''2'' then Inr demo_record2
                 else Inl ''syntax'')\<rparr>"

lemma demo_codec_roundtrip: "codec_roundtrip demo_codec"
  by (auto simp: codec_roundtrip_def demo_codec_def split: if_splits)

lemma demo_replay:
  "semantic_replay demo_env demo_codec
     (snd (journal_append demo_env 5 (semantic_entry 0 demo_record ''1'' ''a'' ''put'') journal_open_in_memory)) =
   Inr [''s'' \<mapsto> demo_record]"
proof -
  let ?e = "semantic_entry 0 demo_record ''1'' ''a'' ''put''"
  have "je_generation ?e \<le> i64_max" by (simp add: semantic_entry_def demo_record_def i64_max_def)
  note first = journal_append_first [OF this, of demo_env 5]
  have "same_content (stamped demo_env 5 1 ?e) ?e" by (rule same_content_stamped)
  moreover have "enc demo_codec demo_record = Inr ''1''" by (simp add: demo_codec_def)
  ultimately show ?thesis
    using sv.view_is_fold [OF first(3), of demo_env demo_codec] first(2)
      semantic_step_put [OF demo_codec_roundtrip, of demo_record "''1''" _ 0 "''a''" "''put''" fabric_new]
    by (simp add: fabric_new_def demo_record_def)
qed


text \<open>A put is a compare-and-swap on one record: it succeeds only when the expected
  generation is the current one (0 for an absent record), then the stored record has the next
  generation and all other records are untouched; a put that fails leaves the fabric as it was,
  and under another generation it leaves the journal as it was too.\<close>

theorem semantic_put_is_cas:
  "case semantic_put env c now r g actor key (f, j) of (res, f', j') \<Rightarrow>
     (case res of
        Inl err \<Rightarrow> f' = f
      | Inr n \<Rightarrow> g = fabric_generation f (ss_state_id r) \<and>
          f' = f(ss_state_id r \<mapsto> r\<lparr>ss_generation := g + 1, ss_updated_at_us := now\<rparr>)) \<and>
     (g = fabric_generation f (ss_state_id r) \<or>
      res = Inl (semantic_conflict g (fabric_generation f (ss_state_id r))) \<and> j' = j)"
  by (auto simp: semantic_put_def Let_def split: sum.splits prod.splits)

text \<open>A put under an idempotency key that was already used returns success and changes the
  fabric although nothing is journaled, so that the fabric in memory is no longer the one the
  journal replays to.\<close>

theorem semantic_put_reused_key_diverges:
  "let s1 = snd (semantic_put demo_env demo_codec 5 demo_record 0 ''a'' ''put'' (fabric_new, journal_open_in_memory))
   in case semantic_put demo_env demo_codec 5 demo_record 1 ''a'' ''put'' s1 of (res, f, j) \<Rightarrow>
        res = Inr 1 \<and> map_option ss_generation (f ''s'') = Some 2 \<and>
        semantic_replay demo_env demo_codec j \<noteq> Inr f"
proof -
  have step1: "semantic_put demo_env demo_codec 5 demo_record 0 ''a'' ''put'' (fabric_new, journal_open_in_memory) =
      (Inr 1, [''s'' \<mapsto> demo_record],
       snd (journal_append demo_env 5 (semantic_entry 0 demo_record ''1'' ''a'' ''put'') journal_open_in_memory))"
    by (simp add: semantic_put_def Let_def fabric_generation_def fabric_new_def demo_codec_def demo_record_def
        journal_append_def semantic_entry_def journal_open_in_memory_def find_by_idempotency_key_def
        sql_insert_def row_of_entry_def i64_max_def)
  let ?j = "snd (journal_append demo_env 5 (semantic_entry 0 demo_record ''1'' ''a'' ''put'') journal_open_in_memory)"
  have j: "find_by_idempotency_key ?j ''put'' = Some 1"
    by (simp add: Let_def demo_record_def
        journal_append_def semantic_entry_def journal_open_in_memory_def find_by_idempotency_key_def
        sql_insert_def row_of_entry_def i64_max_def)
  have "demo_record2 \<noteq> demo_record" by (simp add: demo_record2_def demo_record_def)
  then have step2: "semantic_put demo_env demo_codec 5 demo_record 1 ''a'' ''put'' ([''s'' \<mapsto> demo_record], ?j) =
      (Inr 1, [''s'' \<mapsto> demo_record2], ?j)"
    using j by (simp add: semantic_put_def Let_def fabric_generation_def demo_codec_def demo_record2_def
        demo_record_def journal_append_def)
  have "semantic_replay demo_env demo_codec ?j = Inr [''s'' \<mapsto> demo_record]"
    by (rule demo_replay)
  with step1 step2 \<open>demo_record2 \<noteq> demo_record\<close> show ?thesis
    by (auto simp: demo_record2_def fun_eq_iff)
qed

text \<open>Recording a profile and listing: a profile recorded under a new operation, provider and
  outcome appears at the end of the list with its recording time; recording it again adds nothing;
  a failure leaves the list as it was.  The encoding of a profile is assumed to decode to it.\<close>

theorem profile_record_then_list:
  assumes "codec_roundtrip c" "journal_wf j" "profile_list env c j = Inr ps"
  shows "case profile_record env c now p j of (res, j') \<Rightarrow>
    journal_wf j' \<and>
    profile_list env c j' =
      (if isl res \<or>
          ''operation:'' @ ep_operation_id p @ '':profile:'' @ ep_provider p @ '':'' @ profile_outcome p
            \<in> log_keys j
       then Inr ps else Inr (ps @ [p\<lparr>ep_recorded_at_us := now\<rparr>]))"
proof (cases "enc c (p\<lparr>ep_recorded_at_us := now\<rparr>)")
  case (Inl msg)
  then show ?thesis using assms by (simp add: profile_record_def Let_def)
next
  case (Inr payload)
  let ?e = "profile_entry (p\<lparr>ep_recorded_at_us := now\<rparr>) payload"
  have e: "je_object_type ?e = ''ExecutionProfile''" "je_payload ?e = payload"
      "je_idempotency_key ?e = Some (''operation:'' @ ep_operation_id p @ '':profile:'' @
         ep_provider p @ '':'' @ profile_outcome p)"
    by (simp_all add: profile_entry_def profile_outcome_def)
  obtain res j' where P: "journal_append env now ?e j = (res, j')" by fastforce
  have eq: "profile_record env c now p j = (res, j')"
    using Inr P by (simp add: profile_record_def Let_def)
  have wf': "journal_wf j'" using journal_wf_append [OF assms(2), of env now ?e] P by simp
  from assms(2,3) P show ?thesis
  proof (cases rule: pv.view_after_append)
    case (replay k)
    then show ?thesis using eq wf' e by (simp add: log_keys_def)
  next
    case (new x)
    then have "profile_list env c j' = Inr (ps @ [p\<lparr>ep_recorded_at_us := now\<rparr>])"
      using e codec_roundtripD [OF assms(1) Inr] by (simp add: profile_list_entry_def same_content_def)
    moreover have "\<not> has_key (journal_log j) (''operation:'' @ ep_operation_id p @ '':profile:'' @
        ep_provider p @ '':'' @ profile_outcome p)"
      using jl.append_replay [OF assms(2) e(3), of env now] P new(1) by auto
    ultimately show ?thesis using eq wf' new(3) by (simp add: log_keys_def)
  next
    case (failed err)
    then show ?thesis using eq wf' by simp
  qed
qed

definition demo_profile_codec :: "ExecutionProfile codec" where
  "demo_profile_codec =
     \<lparr>enc = (\<lambda>p. if p = execution_profile_default then Inr ''p'' else Inl ''unsupported''),
      dec = (\<lambda>b. if b = ''p'' then Inr execution_profile_default else Inl ''syntax'')\<rparr>"

theorem profile_record_then_list_witness:
  "profile_list demo_env demo_profile_codec
     (snd (profile_record demo_env demo_profile_codec 0 execution_profile_default journal_open_in_memory)) =
   Inr [execution_profile_default]"
proof -
  have rt: "codec_roundtrip demo_profile_codec"
    by (auto simp: codec_roundtrip_def demo_profile_codec_def split: if_splits)
  have wf: "journal_wf journal_open_in_memory"
    using journal_honest_open_in_memory by (auto simp: journal_honest_def)
  have empty: "profile_list demo_env demo_profile_codec journal_open_in_memory = Inr []"
    using pv.view_is_fold [OF wf]
    by (simp add: journal_log_def journal_open_in_memory_def map_filter_simps)
  have same: "execution_profile_default\<lparr>ep_recorded_at_us := 0\<rparr> = execution_profile_default"
    by (simp add: execution_profile_default_def)
  have "je_generation (profile_entry execution_profile_default ''p'') \<le> i64_max"
    by (simp add: profile_entry_def i64_max_def)
  then have "fst (profile_record demo_env demo_profile_codec 0 execution_profile_default journal_open_in_memory) = Inr 1"
    using journal_append_first(1) by (simp add: profile_record_def same demo_profile_codec_def)
  then show ?thesis
    using profile_record_then_list [OF rt wf empty, where now = 0 and p = execution_profile_default]
    by (simp add: same split: prod.splits)
qed

end
