(* ===== verification/Effects.thy ===== *)
theory Effects
  imports Kernel_Errors
begin

text \<open>
  Transactional effects (crates/nous-execution-proof/src/transaction.rs) over the intents and
  receipts of crates/nous-execution-proof/src/lib.rs.  The two hash maps behind the lock are the
  record \<open>EffectState\<close>.  \<open>execute\<close> takes the lock twice with the effector's run in between, so it
  is two steps here, \<open>execute_begin\<close> and \<open>execute_finish\<close>; \<open>effect_execute\<close> is their composition in
  one thread, and the step relation at the end interleaves the steps of any number of threads.
  A digest is a string of bytes; the uuid of a new transaction is an argument.
\<close>

section \<open>Intents, receipts and transactions\<close>

record EffectIntent =
  ei_description :: string
  ei_expected_target :: string
  ei_expected_outcome :: string
  ei_max_retries :: u32
  ei_timeout_ms :: u64

record EffectReceipt =
  er_receipt_id :: string
  er_actual_target :: string
  er_actual_outcome :: string
  er_execution_time_us :: u64
  er_retry_count :: u32
  er_success :: bool
  er_error :: "string option"
  er_output_hash :: string
  er_executed_at :: instant
  er_executed_by :: string

datatype EffectTransactionPhase =
  Planned | Authorized | Prepared | Verified | Committed | Compensated | Failed

record EffectTransaction =
  et_transaction_id :: string
  et_idempotency_key :: string
  et_principal_id :: string
  et_capability :: string
  et_intent :: EffectIntent
  et_phase :: EffectTransactionPhase
  et_receipt :: "EffectReceipt option"
  et_authorization_ref :: "string option"

record EffectState =
  es_transactions :: "string \<rightharpoonup> EffectTransaction"
  es_idempotency_index :: "string \<rightharpoonup> string"

definition effect_state_default :: EffectState where
  "effect_state_default = \<lparr>es_transactions = Map.empty, es_idempotency_index = Map.empty\<rparr>"

section \<open>Operations\<close>

definition effect_plan ::
  "string \<Rightarrow> string \<Rightarrow> string \<Rightarrow> string \<Rightarrow> EffectIntent \<Rightarrow> EffectState \<Rightarrow>
     EffectTransaction nous_result \<times> EffectState" where
  "effect_plan uuid principal_id capability key intent st =
     (case es_idempotency_index st key of
        Some existing_id \<Rightarrow>
          (case es_transactions st existing_id of
             Some t \<Rightarrow> (Inr t, st)
           | None \<Rightarrow> (Inl (nous_error EC_DataLoss ''Effect idempotency index is inconsistent''), st))
      | None \<Rightarrow>
          let t = \<lparr>et_transaction_id = uuid, et_idempotency_key = key, et_principal_id = principal_id,
                   et_capability = capability, et_intent = intent, et_phase = Planned,
                   et_receipt = None, et_authorization_ref = None\<rparr>
          in (Inr t, \<lparr>es_transactions = (es_transactions st)(uuid \<mapsto> t),
                      es_idempotency_index = (es_idempotency_index st)(key \<mapsto> uuid)\<rparr>))"

definition effect_not_found :: NousError where
  "effect_not_found = nous_error EC_NotFound ''Effect transaction not found''"

definition set_transaction :: "string \<Rightarrow> EffectTransaction \<Rightarrow> EffectState \<Rightarrow> EffectState" where
  "set_transaction tid t st = st\<lparr>es_transactions := (es_transactions st)(tid \<mapsto> t)\<rparr>"

definition effect_authorize :: "string \<Rightarrow> string \<Rightarrow> EffectState \<Rightarrow> unit nous_result \<times> EffectState" where
  "effect_authorize tid authorization_ref st =
     (case es_transactions st tid of
        None \<Rightarrow> (Inl effect_not_found, st)
      | Some t \<Rightarrow>
          if et_phase t \<noteq> Planned
          then (Inl (nous_error EC_FailedPrecondition ''Effect is not awaiting authorization''), st)
          else (Inr (), set_transaction tid
                 (t\<lparr>et_authorization_ref := Some authorization_ref, et_phase := Authorized\<rparr>) st))"

text \<open>The first critical section of \<open>execute\<close>: either the call returns at once, or the effector is
  to be run on the intent.\<close>

datatype execute_start = Return "EffectReceipt nous_result" | RunEffector EffectIntent

definition execute_begin :: "string \<Rightarrow> EffectState \<Rightarrow> execute_start \<times> EffectState" where
  "execute_begin tid st =
     (case es_transactions st tid of
        None \<Rightarrow> (Return (Inl effect_not_found), st)
      | Some t \<Rightarrow>
          if et_phase t = Verified \<or> et_phase t = Committed
          then (Return (case et_receipt t of
                  Some r \<Rightarrow> Inr r
                | None \<Rightarrow> Inl (nous_error EC_DataLoss ''Verified effect has no receipt'')), st)
          else if et_phase t \<noteq> Authorized
          then (Return (Inl (nous_error EC_PermissionDenied ''Effect has not been authorized'')), st)
          else (RunEffector (et_intent t), set_transaction tid (t\<lparr>et_phase := Prepared\<rparr>) st))"

text \<open>The rest of \<open>execute\<close>, from the effector's result on.\<close>

definition update_transaction ::
  "string \<Rightarrow> (EffectTransaction \<Rightarrow> EffectTransaction) \<Rightarrow> EffectState \<Rightarrow> EffectState" where
  "update_transaction tid f st =
     (case es_transactions st tid of None \<Rightarrow> st | Some t \<Rightarrow> set_transaction tid (f t) st)"

definition execute_finish ::
  "string \<Rightarrow> EffectIntent \<Rightarrow> EffectReceipt nous_result \<Rightarrow> EffectState \<Rightarrow>
     EffectReceipt nous_result \<times> EffectState" where
  "execute_finish tid intent outcome st =
     (case outcome of
        Inl err \<Rightarrow> (Inl err, update_transaction tid (\<lambda>t. t\<lparr>et_phase := Failed\<rparr>) st)
      | Inr r \<Rightarrow>
          if \<not> er_success r \<or> er_actual_target r \<noteq> ei_expected_target intent
          then (Inl (nous_error EC_SecurityPolicy ''Effect receipt does not match the authorized intent''),
                update_transaction tid (\<lambda>t. t\<lparr>et_phase := Failed, et_receipt := Some r\<rparr>) st)
          else (case es_transactions st tid of
                  None \<Rightarrow>
                    (Inl (nous_error EC_DataLoss ''Effect transaction disappeared while executing''), st)
                | Some t \<Rightarrow>
                    (Inr r, set_transaction tid (t\<lparr>et_receipt := Some r, et_phase := Verified\<rparr>) st)))"

definition effect_execute ::
  "string \<Rightarrow> (EffectIntent \<Rightarrow> EffectReceipt nous_result) \<Rightarrow> EffectState \<Rightarrow>
     EffectReceipt nous_result \<times> EffectState" where
  "effect_execute tid effector st =
     (case execute_begin tid st of
        (Return res, st1) \<Rightarrow> (res, st1)
      | (RunEffector intent, st1) \<Rightarrow> execute_finish tid intent (effector intent) st1)"

definition effect_commit :: "string \<Rightarrow> EffectState \<Rightarrow> unit nous_result \<times> EffectState" where
  "effect_commit tid st =
     (case es_transactions st tid of
        None \<Rightarrow> (Inl effect_not_found, st)
      | Some t \<Rightarrow>
          if et_phase t \<noteq> Verified
          then (Inl (nous_error EC_FailedPrecondition ''Only a verified effect can commit''), st)
          else (Inr (), set_transaction tid (t\<lparr>et_phase := Committed\<rparr>) st))"

definition effect_get :: "EffectState \<Rightarrow> string \<Rightarrow> EffectTransaction option" where
  "effect_get st tid = es_transactions st tid"

section \<open>Threads\<close>

text \<open>What a thread inside \<open>execute\<close> knows between its two critical sections: the transaction and
  the intent it runs the effector on.  \<open>eng_runs\<close> counts, per transaction, how often an effector
  was started.\<close>

record effect_system =
  eng_state :: EffectState
  eng_running :: "nat \<rightharpoonup> string \<times> EffectIntent"
  eng_runs :: "string \<Rightarrow> nat"

definition effect_system_init :: effect_system where
  "effect_system_init =
     \<lparr>eng_state = effect_state_default, eng_running = Map.empty, eng_runs = (\<lambda>_. 0)\<rparr>"

inductive effect_step :: "effect_system \<Rightarrow> effect_system \<Rightarrow> bool" where
  plan: "es_transactions (eng_state s) uuid = None \<Longrightarrow>
    effect_step s (s\<lparr>eng_state := snd (effect_plan uuid p c k i (eng_state s))\<rparr>)"
| authorize: "effect_step s (s\<lparr>eng_state := snd (effect_authorize tid ref (eng_state s))\<rparr>)"
| commit: "effect_step s (s\<lparr>eng_state := snd (effect_commit tid (eng_state s))\<rparr>)"
| start: "eng_running s th = None \<Longrightarrow> execute_begin tid (eng_state s) = (RunEffector i, st) \<Longrightarrow>
    effect_step s (s\<lparr>eng_state := st, eng_running := (eng_running s)(th \<mapsto> (tid, i)),
      eng_runs := (eng_runs s)(tid := eng_runs s tid + 1)\<rparr>)"
| return: "eng_running s th = None \<Longrightarrow> execute_begin tid (eng_state s) = (Return r, st) \<Longrightarrow>
    effect_step s (s\<lparr>eng_state := st\<rparr>)"
| finish: "eng_running s th = Some (tid, i) \<Longrightarrow>
    effect_step s (s\<lparr>eng_state := snd (execute_finish tid i outcome (eng_state s)),
      eng_running := (eng_running s)(th := None)\<rparr>)"

inductive effect_reachable :: "effect_system \<Rightarrow> bool" where
  init: "effect_reachable effect_system_init"
| step: "effect_reachable s \<Longrightarrow> effect_step s s' \<Longrightarrow> effect_reachable s'"

inductive_cases effect_stepE: "effect_step s s'"

text \<open>A transaction is internally consistent: what its phase says about its authorisation and its
  receipt is true, and it is what its id and key point to.\<close>

definition transaction_ok :: "EffectTransaction \<Rightarrow> bool" where
  "transaction_ok t \<longleftrightarrow>
     (et_phase t = Planned \<longleftrightarrow> et_authorization_ref t = None) \<and>
     (et_phase t \<in> {Verified, Committed} \<longrightarrow>
        (\<exists>r. et_receipt t = Some r \<and> er_success r \<and>
           er_actual_target r = ei_expected_target (et_intent t))) \<and>
     et_phase t \<noteq> Compensated"

definition effect_inv :: "effect_system \<Rightarrow> bool" where
  "effect_inv s \<longleftrightarrow>
     (\<forall>tid t. es_transactions (eng_state s) tid = Some t \<longrightarrow>
        transaction_ok t \<and> et_transaction_id t = tid \<and>
        es_idempotency_index (eng_state s) (et_idempotency_key t) = Some tid \<and>
        eng_runs s tid = (if et_phase t \<in> {Planned, Authorized} then 0 else 1)) \<and>
     (\<forall>tid. es_transactions (eng_state s) tid = None \<longrightarrow> eng_runs s tid = 0) \<and>
     (\<forall>k tid. es_idempotency_index (eng_state s) k = Some tid \<longrightarrow>
        (\<exists>t. es_transactions (eng_state s) tid = Some t \<and> et_idempotency_key t = k)) \<and>
     (\<forall>th tid i. eng_running s th = Some (tid, i) \<longrightarrow>
        (\<exists>t. es_transactions (eng_state s) tid = Some t \<and> et_phase t = Prepared \<and> et_intent t = i)) \<and>
     (\<forall>th th' tid i i'. eng_running s th = Some (tid, i) \<and> eng_running s th' = Some (tid, i') \<longrightarrow> th = th')"

lemma set_transaction_sel [simp]:
  "es_transactions (set_transaction tid t st) = (es_transactions st)(tid \<mapsto> t)"
  "es_idempotency_index (set_transaction tid t st) = es_idempotency_index st"
  by (simp_all add: set_transaction_def)

lemma effect_inv_init: "effect_inv effect_system_init"
  by (simp add: effect_inv_def effect_system_init_def effect_state_default_def)

lemma effect_inv_transaction:
  "effect_inv s \<Longrightarrow> es_transactions (eng_state s) tid = Some t \<Longrightarrow>
     transaction_ok t \<and> et_transaction_id t = tid \<and>
     es_idempotency_index (eng_state s) (et_idempotency_key t) = Some tid \<and>
     eng_runs s tid = (if et_phase t \<in> {Planned, Authorized} then 0 else 1)"
  by (simp add: effect_inv_def)

lemma effect_inv_index:
  "effect_inv s \<Longrightarrow> es_idempotency_index (eng_state s) k = Some tid \<Longrightarrow>
     \<exists>t. es_transactions (eng_state s) tid = Some t \<and> et_idempotency_key t = k"
  unfolding effect_inv_def by metis

lemma effect_inv_running:
  "effect_inv s \<Longrightarrow> eng_running s th = Some (tid, i) \<Longrightarrow>
     \<exists>t. es_transactions (eng_state s) tid = Some t \<and> et_phase t = Prepared \<and> et_intent t = i"
  unfolding effect_inv_def by metis

lemma effect_inv_one_thread:
  "effect_inv s \<Longrightarrow> eng_running s th = Some (tid, i) \<Longrightarrow> eng_running s th' = Some (tid, i') \<Longrightarrow> th = th'"
  unfolding effect_inv_def by metis

lemmas effect_inv_dests = effect_inv_transaction effect_inv_index effect_inv_running effect_inv_one_thread

text \<open>Replacing one transaction, keeping its identity and its intent, keeps the invariant when the
  replacement is consistent and the threads that run it agree.\<close>

lemma effect_inv_update:
  assumes "effect_inv s" "es_transactions (eng_state s) tid = Some t"
    and "transaction_ok t'" "et_transaction_id t' = et_transaction_id t"
      "et_idempotency_key t' = et_idempotency_key t" "et_intent t' = et_intent t"
    and "runs' = (if et_phase t' \<in> {Planned, Authorized} then 0 else 1)"
    and "\<And>th i. running' th = Some (tid, i) \<Longrightarrow> et_phase t' = Prepared \<and> i = et_intent t"
    and "\<And>th th' i i'. running' th = Some (tid, i) \<Longrightarrow> running' th' = Some (tid, i') \<Longrightarrow> th = th'"
    and "\<And>th x i. x \<noteq> tid \<Longrightarrow> running' th = Some (x, i) \<Longrightarrow> eng_running s th = Some (x, i)"
  shows "effect_inv (s\<lparr>eng_state := set_transaction tid t' (eng_state s), eng_running := running',
    eng_runs := (eng_runs s)(tid := runs')\<rparr>)"
  unfolding effect_inv_def
proof ((intro conjI allI impI; (elim conjE)?), goal_cases)
  case (1 x u) then show ?case using assms(1-7) by (auto simp: effect_inv_def split: if_splits)
next
  case (2 x u) then show ?case using assms(1-7) by (auto simp: effect_inv_def split: if_splits)
next
  case (3 x u) then show ?case using assms(1-7) by (auto simp: effect_inv_def split: if_splits)
next
  case (4 x u) then show ?case using assms(1-7) by (auto simp: effect_inv_def split: if_splits)
next
  case (5 x) then show ?case using assms(1,2) by (auto simp: effect_inv_def split: if_splits)
next
  case (6 k x) then show ?case using assms(1,2,5) by (fastforce simp: effect_inv_def)
next
  case (7 th x i)
  then show ?case using assms(1,6,8,10) by (cases "x = tid") (fastforce simp: effect_inv_def)+
next
  case (8 th th' x i i')
  then show ?case using assms(1,9,10) by (cases "x = tid") (fastforce simp: effect_inv_def)+
qed

lemma effect_inv_plan:
  assumes "effect_inv s" "es_transactions (eng_state s) uuid = None"
  shows "effect_inv (s\<lparr>eng_state := snd (effect_plan uuid p c k i (eng_state s))\<rparr>)"
proof (cases "es_idempotency_index (eng_state s) k")
  case (Some tid)
  then obtain t where "es_transactions (eng_state s) tid = Some t"
    using effect_inv_index [OF assms(1)] by blast
  with Some assms(1) show ?thesis by (simp add: effect_plan_def)
next
  case None
  let ?t = "\<lparr>et_transaction_id = uuid, et_idempotency_key = k, et_principal_id = p, et_capability = c,
    et_intent = i, et_phase = Planned, et_receipt = None, et_authorization_ref = None\<rparr>"
  have st: "snd (effect_plan uuid p c k i (eng_state s)) =
      \<lparr>es_transactions = (es_transactions (eng_state s))(uuid \<mapsto> ?t),
       es_idempotency_index = (es_idempotency_index (eng_state s))(k \<mapsto> uuid)\<rparr>"
    using None by (simp add: effect_plan_def Let_def)
  have "transaction_ok ?t" by (simp add: transaction_ok_def)
  moreover have "et_idempotency_key t \<noteq> k" if "es_transactions (eng_state s) tid = Some t" for tid t
    using that None effect_inv_transaction [OF assms(1)] by force
  ultimately show ?thesis
    using assms unfolding st effect_inv_def by (auto split: if_splits) (metis option.distinct(1))+
qed

lemma effect_inv_same_runs:
  assumes "effect_inv s" "es_transactions (eng_state s) tid = Some t" "et_phase t \<noteq> Prepared"
    and "transaction_ok t'" "et_transaction_id t' = et_transaction_id t"
      "et_idempotency_key t' = et_idempotency_key t" "et_intent t' = et_intent t"
    and "et_phase t' \<in> {Planned, Authorized} \<longleftrightarrow> et_phase t \<in> {Planned, Authorized}"
  shows "effect_inv (s\<lparr>eng_state := set_transaction tid t' (eng_state s)\<rparr>)"
proof -
  have idle: "eng_running s th \<noteq> Some (tid, i)" for th i
    using effect_inv_running [OF assms(1), of th tid i] assms(2,3) by auto
  have "eng_runs s tid = (if et_phase t' \<in> {Planned, Authorized} then 0 else 1)"
    using effect_inv_transaction [OF assms(1,2)] assms(8) by simp
  from effect_inv_update [OF assms(1,2,4-7) this, of "eng_running s"] idle show ?thesis by simp
qed

lemma transaction_okD:
  assumes "effect_inv s" "es_transactions (eng_state s) tid = Some t"
  shows "transaction_ok t"
  using assms by (simp add: effect_inv_def)

lemma effect_inv_authorize:
  assumes "effect_inv s"
  shows "effect_inv (s\<lparr>eng_state := snd (effect_authorize tid ref (eng_state s))\<rparr>)"
proof (cases "\<exists>t. es_transactions (eng_state s) tid = Some t \<and> et_phase t = Planned")
  case False
  with assms show ?thesis by (auto simp: effect_authorize_def split: option.splits)
next
  case True
  then obtain t where t: "es_transactions (eng_state s) tid = Some t" "et_phase t = Planned" by blast
  then show ?thesis
    using transaction_okD [OF assms t(1)]
      effect_inv_same_runs [OF assms t(1), of "t\<lparr>et_authorization_ref := Some ref, et_phase := Authorized\<rparr>"]
    by (simp add: effect_authorize_def transaction_ok_def)
qed

lemma effect_inv_commit:
  assumes "effect_inv s"
  shows "effect_inv (s\<lparr>eng_state := snd (effect_commit tid (eng_state s))\<rparr>)"
proof (cases "\<exists>t. es_transactions (eng_state s) tid = Some t \<and> et_phase t = Verified")
  case False
  with assms show ?thesis by (auto simp: effect_commit_def split: option.splits)
next
  case True
  then obtain t where t: "es_transactions (eng_state s) tid = Some t" "et_phase t = Verified" by blast
  then show ?thesis
    using transaction_okD [OF assms t(1)]
      effect_inv_same_runs [OF assms t(1), of "t\<lparr>et_phase := Committed\<rparr>"]
    by (simp add: effect_commit_def transaction_ok_def)
qed

lemma execute_begin_run:
  assumes "execute_begin tid st = (RunEffector i, st')"
  obtains t where "es_transactions st tid = Some t" "et_phase t = Authorized" "i = et_intent t"
    "st' = set_transaction tid (t\<lparr>et_phase := Prepared\<rparr>) st"
  using assms by (auto simp: execute_begin_def split: option.splits if_splits)

lemma execute_begin_return: "execute_begin tid st = (Return r, st') \<Longrightarrow> st' = st"
  by (auto simp: execute_begin_def split: option.splits if_splits)

lemma effect_inv_start:
  assumes "effect_inv s" "eng_running s th = None" "execute_begin tid (eng_state s) = (RunEffector i, st)"
  shows "effect_inv (s\<lparr>eng_state := st, eng_running := (eng_running s)(th \<mapsto> (tid, i)),
    eng_runs := (eng_runs s)(tid := eng_runs s tid + 1)\<rparr>)"
proof -
  obtain t where t: "es_transactions (eng_state s) tid = Some t" "et_phase t = Authorized"
      "i = et_intent t" "st = set_transaction tid (t\<lparr>et_phase := Prepared\<rparr>) (eng_state s)"
    using assms(3) by (rule execute_begin_run)
  have idle: "eng_running s th' \<noteq> Some (tid, i')" for th' i'
    using effect_inv_running [OF assms(1), of th' tid i'] t by auto
  have "eng_runs s tid = 0" using effect_inv_transaction [OF assms(1) t(1)] t(2) by simp
  moreover have "transaction_ok (t\<lparr>et_phase := Prepared\<rparr>)"
    using transaction_okD [OF assms(1) t(1)] t(2) by (simp add: transaction_ok_def)
  ultimately show ?thesis
    unfolding t(4) using t idle assms(2)
    by (intro effect_inv_update [OF assms(1) t(1)]) (auto split: if_splits)
qed

lemma effect_inv_finish:
  assumes "effect_inv s" "eng_running s th = Some (tid, i)"
  shows "effect_inv (s\<lparr>eng_state := snd (execute_finish tid i outcome (eng_state s)),
    eng_running := (eng_running s)(th := None)\<rparr>)"
proof -
  obtain t where t: "es_transactions (eng_state s) tid = Some t" "et_phase t = Prepared" "et_intent t = i"
    using effect_inv_running [OF assms] by blast
  have ok: "transaction_ok t" by (rule transaction_okD [OF assms(1) t(1)])
  have single: "((eng_running s)(th := None)) th' \<noteq> Some (tid, i')" for th' i'
    using effect_inv_one_thread [OF assms(1) assms(2), of th' i'] by auto
  have runs: "eng_runs s tid = 1" using effect_inv_transaction [OF assms(1) t(1)] t(2) by simp
  have upd: "effect_inv (s\<lparr>eng_state := set_transaction tid t' (eng_state s),
      eng_running := (eng_running s)(th := None)\<rparr>)"
    if "transaction_ok t'" "et_transaction_id t' = et_transaction_id t"
      "et_idempotency_key t' = et_idempotency_key t" "et_intent t' = et_intent t"
      "et_phase t' \<notin> {Planned, Authorized}" for t'
  proof -
    have "eng_runs s tid = (if et_phase t' \<in> {Planned, Authorized} then 0 else 1)"
      using runs that(5) by simp
    note inv = effect_inv_update [OF assms(1) t(1) that(1-4) this, where running' = "(eng_running s)(th := None)"]
    have other: "eng_running s th' = Some (x, j)" if "((eng_running s)(th := None)) th' = Some (x, j)" for th' x j
      using that by (simp split: if_splits)
    have "effect_inv (s\<lparr>eng_state := set_transaction tid t' (eng_state s),
        eng_running := (eng_running s)(th := None), eng_runs := (eng_runs s)(tid := eng_runs s tid)\<rparr>)"
      by (rule inv) (use single other in blast)+
    then show ?thesis by simp
  qed
  show ?thesis
  proof (cases outcome)
    case (Inl err)
    then show ?thesis
      using t ok upd [of "t\<lparr>et_phase := Failed\<rparr>"]
      by (simp add: execute_finish_def update_transaction_def transaction_ok_def)
  next
    case (Inr r)
    then show ?thesis
      using t ok upd [of "t\<lparr>et_phase := Failed, et_receipt := Some r\<rparr>"]
        upd [of "t\<lparr>et_receipt := Some r, et_phase := Verified\<rparr>"]
      by (auto simp: execute_finish_def update_transaction_def transaction_ok_def)
  qed
qed

lemma effect_inv_step: "effect_step s s' \<Longrightarrow> effect_inv s \<Longrightarrow> effect_inv s'"
proof (induction rule: effect_step.induct)
  case (return s th tid r st)
  then show ?case using execute_begin_return by fastforce
next
  case (start s th tid i st)
  then show ?case by (intro effect_inv_start)
qed (auto intro: effect_inv_plan effect_inv_authorize effect_inv_commit effect_inv_finish)

lemma effect_inv_reachable: "effect_reachable s \<Longrightarrow> effect_inv s"
  by (induction rule: effect_reachable.induct) (auto intro: effect_inv_init effect_inv_step)

text \<open>The edges between the phases of one transaction.\<close>

fun phase_edge :: "EffectTransactionPhase \<Rightarrow> EffectTransactionPhase \<Rightarrow> bool" where
  "phase_edge Planned Authorized = True"
| "phase_edge Authorized Prepared = True"
| "phase_edge Prepared Verified = True"
| "phase_edge Prepared Failed = True"
| "phase_edge Verified Committed = True"
| "phase_edge p q = (p = q)"

definition same_effect :: "EffectTransaction \<Rightarrow> EffectTransaction \<Rightarrow> bool" where
  "same_effect t t' \<longleftrightarrow>
     et_transaction_id t' = et_transaction_id t \<and> et_idempotency_key t' = et_idempotency_key t \<and>
     et_principal_id t' = et_principal_id t \<and> et_capability t' = et_capability t \<and>
     et_intent t' = et_intent t"

definition evolves :: "EffectTransaction \<Rightarrow> EffectTransaction \<Rightarrow> bool" where
  "evolves t t' \<longleftrightarrow>
     same_effect t t' \<and> phase_edge (et_phase t) (et_phase t') \<and>
     (et_authorization_ref t \<noteq> None \<longrightarrow> et_authorization_ref t' = et_authorization_ref t) \<and>
     (et_receipt t \<noteq> None \<and> et_phase t \<noteq> Prepared \<longrightarrow> et_receipt t' = et_receipt t)"

lemma phase_edge_refl [simp]: "phase_edge p p"
  by (cases p) simp_all

lemma evolves_refl [simp]: "evolves t t"
  by (simp add: evolves_def same_effect_def)

lemma effect_step_evolves:
  assumes "effect_step s s'" "effect_inv s" "es_transactions (eng_state s) tid = Some t"
  shows "\<exists>t'. es_transactions (eng_state s') tid = Some t' \<and> evolves t t'"
  using assms
proof (induction rule: effect_step.induct)
  case (plan s uuid p c k i)
  then show ?case by (auto simp: effect_plan_def Let_def split: option.splits)
next
  case (authorize s x ref)
  have "et_phase t = Planned \<Longrightarrow> et_authorization_ref t = None"
    using effect_inv_transaction [OF authorize] by (simp add: transaction_ok_def)
  with authorize(2) show ?case
    by (cases "tid = x")
      (auto simp: effect_authorize_def evolves_def same_effect_def split: option.splits)
next
  case (commit s x)
  then show ?case
    by (auto simp: effect_commit_def evolves_def same_effect_def split: option.splits)
next
  case (start s th x i st)
  from start(2) obtain u where "es_transactions (eng_state s) x = Some u" "et_phase u = Authorized"
      "st = set_transaction x (u\<lparr>et_phase := Prepared\<rparr>) (eng_state s)"
    by (rule execute_begin_run)
  with start show ?case by (auto simp: evolves_def same_effect_def)
next
  case (return s th x r st)
  then show ?case using execute_begin_return by fastforce
next
  case (finish s th x i outcome)
  obtain u where "es_transactions (eng_state s) x = Some u" "et_phase u = Prepared"
    using effect_inv_running [OF finish(2,1)] by blast
  with finish show ?case
    by (auto simp: execute_finish_def update_transaction_def evolves_def same_effect_def split: sum.splits)
qed

section \<open>Properties\<close>

definition demo_intent :: EffectIntent where
  "demo_intent = \<lparr>ei_description = ''write'', ei_expected_target = ''device:1'',
     ei_expected_outcome = ''ok'', ei_max_retries = 0, ei_timeout_ms = 1000\<rparr>"

definition demo_receipt :: EffectReceipt where
  "demo_receipt = \<lparr>er_receipt_id = ''r'', er_actual_target = ''device:1'', er_actual_outcome = ''ok'',
     er_execution_time_us = 1, er_retry_count = 0, er_success = True, er_error = None,
     er_output_hash = [], er_executed_at = 0, er_executed_by = ''worker''\<rparr>"

definition demo_planned :: EffectState where
  "demo_planned = snd (effect_plan ''t1'' ''p'' ''c'' ''key'' demo_intent effect_state_default)"

definition demo_system :: effect_system where
  "demo_system = effect_system_init\<lparr>eng_state := demo_planned\<rparr>"

lemma demo_system_reachable: "effect_reachable demo_system"
proof -
  have "effect_step effect_system_init demo_system"
    unfolding demo_system_def demo_planned_def
    using effect_step.plan [of effect_system_init "''t1''" "''p''" "''c''" "''key''" demo_intent]
    by (simp add: effect_system_init_def effect_state_default_def)
  then show ?thesis by (rule effect_reachable.step [OF effect_reachable.init])
qed

text \<open>C23.  However the calls of any number of threads interleave, the effector of a transaction is
  started at most once; a transaction that is verified or committed was authorised, its effector
  was started exactly once, and it carries a successful receipt for the target its intent names;
  and no two threads run the same effect.\<close>

theorem effects_run_at_most_once:
  assumes "effect_reachable s"
  shows "eng_runs s tid \<le> 1 \<and>
    (\<forall>t. es_transactions (eng_state s) tid = Some t \<and> et_phase t \<in> {Verified, Committed} \<longrightarrow>
       eng_runs s tid = 1 \<and> et_authorization_ref t \<noteq> None \<and>
       (\<exists>r. et_receipt t = Some r \<and> er_success r \<and>
          er_actual_target r = ei_expected_target (et_intent t))) \<and>
    (\<forall>th th' i i'. eng_running s th = Some (tid, i) \<and> eng_running s th' = Some (tid, i') \<longrightarrow> th = th')"
proof -
  have inv: "effect_inv s" by (rule effect_inv_reachable [OF assms])
  have "eng_runs s tid \<le> 1"
  proof (cases "es_transactions (eng_state s) tid")
    case None
    then have "eng_runs s tid = 0" using inv by (simp add: effect_inv_def)
    then show ?thesis by simp
  next
    case (Some t)
    then show ?thesis using effect_inv_transaction [OF inv Some] by (simp split: if_splits)
  qed
  moreover have "eng_runs s tid = 1 \<and> et_authorization_ref t \<noteq> None \<and>
      (\<exists>r. et_receipt t = Some r \<and> er_success r \<and> er_actual_target r = ei_expected_target (et_intent t))"
    if "es_transactions (eng_state s) tid = Some t" "et_phase t \<in> {Verified, Committed}" for t
    using effect_inv_transaction [OF inv that(1)] that(2) by (auto simp: transaction_ok_def)
  ultimately show ?thesis using effect_inv_one_thread [OF inv] by blast
qed

theorem effects_run_at_most_once_witness:
  "effect_reachable demo_system \<and> eng_runs demo_system ''t1'' \<le> 1"
  using effects_run_at_most_once [OF demo_system_reachable] demo_system_reachable by blast

text \<open>A transaction never disappears and never changes what it stands for: in every step of
  every thread its id, key, principal, capability and intent stay, its phase moves only along
  planned, authorised, prepared, verified, committed (or prepared to failed), and an authorisation
  or a verified receipt is never replaced.\<close>

theorem transactions_only_evolve:
  assumes "effect_reachable s" "effect_step s s'" "es_transactions (eng_state s) tid = Some t"
  shows "\<exists>t'. es_transactions (eng_state s') tid = Some t' \<and> evolves t t'"
  using effect_step_evolves [OF assms(2) effect_inv_reachable [OF assms(1)] assms(3)] .

theorem transactions_only_evolve_witness:
  "\<exists>t t'. es_transactions demo_planned ''t1'' = Some t \<and>
     es_transactions (snd (effect_authorize ''t1'' ''ref'' demo_planned)) ''t1'' = Some t' \<and> evolves t t'"
proof -
  obtain t where t: "es_transactions (eng_state demo_system) ''t1'' = Some t"
    by (simp add: demo_system_def demo_planned_def effect_plan_def effect_state_default_def Let_def)
  show ?thesis
    using transactions_only_evolve [OF demo_system_reachable effect_step.authorize [of _ "''t1''" "''ref''"] t] t
    by (simp add: demo_system_def)
qed

text \<open>Executing again is harmless: after an execution that returned a receipt, a further
  execution, after a commit or not, returns the same receipt without running its effector, and
  leaves the state as it is.\<close>

theorem execute_again_returns_receipt:
  assumes "effect_execute tid effector st = (Inr r, st')"
  shows "effect_execute tid effector' st' = (Inr r, st') \<and>
    (let st'' = snd (effect_commit tid st') in effect_execute tid effector' st'' = (Inr r, st''))"
proof -
  obtain t where "es_transactions st' tid = Some t" "et_phase t \<in> {Verified, Committed}" "et_receipt t = Some r"
  proof (cases "execute_begin tid st")
    case (Pair start st1)
    show thesis
    proof (cases start)
      case (Return res)
      then show thesis using assms Pair that
        by (auto simp: effect_execute_def execute_begin_def split: option.splits if_splits)
    next
      case (RunEffector i)
      then show thesis using assms Pair that
        by (auto simp: effect_execute_def execute_finish_def split: option.splits if_splits sum.splits)
    qed
  qed
  then show ?thesis by (auto simp: effect_execute_def execute_begin_def effect_commit_def Let_def)
qed

theorem execute_again_returns_receipt_witness:
  "let st = snd (effect_authorize ''t1'' ''ref'' demo_planned);
       st' = snd (effect_execute ''t1'' (\<lambda>_. Inr demo_receipt) st)
   in effect_execute ''t1'' (\<lambda>_. Inl effect_not_found) st' = (Inr demo_receipt, st')"
proof -
  let ?st = "snd (effect_authorize ''t1'' ''ref'' demo_planned)"
  have "effect_execute ''t1'' (\<lambda>_. Inr demo_receipt) ?st =
      (Inr demo_receipt, snd (effect_execute ''t1'' (\<lambda>_. Inr demo_receipt) ?st))"
    by (simp add: demo_planned_def effect_plan_def effect_state_default_def Let_def effect_authorize_def
        effect_execute_def execute_begin_def execute_finish_def demo_receipt_def demo_intent_def)
  from execute_again_returns_receipt [OF this] show ?thesis by (simp add: Let_def)
qed

text \<open>Planning under one key twice gives one transaction: the second plan, whatever its other
  arguments are, returns the transaction in its present phase and changes nothing.\<close>

theorem plan_is_idempotent:
  "case effect_plan uuid p c k i st of (res, st') \<Rightarrow>
     (case res of
        Inl err \<Rightarrow> st' = st
      | Inr t \<Rightarrow> effect_plan uuid' p' c' k i' st' = (Inr t, st') \<and>
          es_idempotency_index st' k \<noteq> None)"
  by (auto simp: effect_plan_def Let_def split: option.splits)

end
