(* ===== verification/Certificates.thy ===== *)
theory Certificates
  imports Effects
begin

text \<open>
  Proof-carrying execution (crates/nous-execution-proof/src/lib.rs): canonical actions, their
  verification, and the workload certificate built from them.  SHA-256 is the parameter \<open>sha\<close>, the
  uuid and the clock reading of a certificate are arguments.
\<close>

section \<open>Actions\<close>

datatype RiskLevel = RL_Low | RL_Medium | RL_High | RL_Critical

datatype Decision = D_Approved | D_Denied | D_ApprovedWithConditions | D_Escalated

datatype ApproverType = AT_Human | AT_AutomatedPolicy | AT_MultiPartyConsensus

record ActionSpec =
  as_action_type :: string
  as_target :: string
  as_parameters :: string
  as_output_schema :: "string option"
  as_is_idempotent :: bool
  as_is_reversible :: bool
  as_compensation_action_id :: "string option"
  as_risk_level :: RiskLevel

record PolicyDecision =
  pd_decision_id :: string
  pd_decided_by :: string
  pd_decision :: Decision
  pd_reason :: string
  pd_decided_at :: instant
  pd_expires_at :: "instant option"

record ApprovalReceipt =
  ar_receipt_id :: string
  ar_approver_id :: string
  ar_approver_type :: ApproverType
  ar_approved_at :: instant
  ar_justification :: "string option"
  ar_signature :: "string option"

record EnvironmentFingerprint =
  ef_node_id :: string
  ef_device_id :: string
  ef_engine_id :: string
  ef_model_revision :: string
  ef_kernel_version :: string
  ef_nki_version :: u32
  ef_sandbox_profile :: string
  ef_runtime_hash :: "string option"

record ReplayDescriptor =
  rd_nonce :: u64
  rd_idempotency_key :: string
  rd_process_id :: string
  rd_sequence_number :: u64

record CanonicalAction =
  ca_action_id :: string
  ca_canonical_spec :: ActionSpec
  ca_principal_id :: string
  ca_process_id :: string
  ca_capability :: string
  ca_policy_decision :: PolicyDecision
  ca_approval_receipt :: "ApprovalReceipt option"
  ca_input_digest :: string
  ca_execution_environment :: EnvironmentFingerprint
  ca_effect_intent :: EffectIntent
  ca_effect_receipt :: "EffectReceipt option"
  ca_output_digest :: "string option"
  ca_causal_parent :: "string option"
  ca_replay_descriptor :: ReplayDescriptor

definition compute_input_digest :: "(string \<Rightarrow> string) \<Rightarrow> ActionSpec \<Rightarrow> string" where
  "compute_input_digest sha spec =
     sha (as_action_type spec @ as_target spec @ as_parameters spec)"

definition is_data_exit_action :: "ActionSpec \<Rightarrow> bool" where
  "is_data_exit_action spec \<longleftrightarrow>
     as_action_type spec \<in> set [''email_send'', ''file_upload'', ''api_call_external'', ''content_publish'',
                                ''data_export'']"

section \<open>Verification\<close>

record VerificationCheck =
  vc_check_name :: string
  vc_passed :: bool
  vc_detail :: string

record VerificationResult =
  vr_action_id :: string
  vr_verified :: bool
  vr_checks :: "VerificationCheck list"

fun show_decision :: "Decision \<Rightarrow> string" where
  "show_decision D_Approved = ''Approved''"
| "show_decision D_Denied = ''Denied''"
| "show_decision D_ApprovedWithConditions = ''ApprovedWithConditions''"
| "show_decision D_Escalated = ''Escalated''"

definition in_quotes :: "string \<Rightarrow> string" where
  "in_quotes s = [CHR 0x27] @ s @ [CHR 0x27]"

definition input_check :: "(string \<Rightarrow> string) \<Rightarrow> CanonicalAction \<Rightarrow> VerificationCheck" where
  "input_check sha a =
     (let input_match = compute_input_digest sha (ca_canonical_spec a) = ca_input_digest a
      in \<lparr>vc_check_name = ''input_digest_match'', vc_passed = input_match,
          vc_detail = (if input_match then ''Input digest matches canonical spec''
                       else ''Input digest mismatch - spec may have been modified after approval'')\<rparr>)"

definition receipt_checks :: "CanonicalAction \<Rightarrow> VerificationCheck list" where
  "receipt_checks a =
     (case ca_effect_receipt a of
        None \<Rightarrow> []
      | Some r \<Rightarrow>
          let expected = ei_expected_target (ca_effect_intent a);
              target_match = er_actual_target r = expected
          in [\<lparr>vc_check_name = ''effect_receipt_present'', vc_passed = True,
               vc_detail = ''Effect receipt '' @ in_quotes (er_receipt_id r) @ '' present''\<rparr>,
              \<lparr>vc_check_name = ''target_matches_intent'', vc_passed = target_match,
               vc_detail = (if target_match then ''Actual target matches intended target''
                            else ''Target mismatch: expected '' @ in_quotes expected @ '', got '' @
                                 in_quotes (er_actual_target r))\<rparr>])"

definition decision_approves :: "Decision \<Rightarrow> bool" where
  "decision_approves d \<longleftrightarrow> d = D_Approved \<or> d = D_ApprovedWithConditions"

definition verify_action :: "(string \<Rightarrow> string) \<Rightarrow> CanonicalAction \<Rightarrow> VerificationResult" where
  "verify_action sha a =
     (let checks = [input_check sha a] @ receipt_checks a @
            [\<lparr>vc_check_name = ''replay_descriptor_present'', vc_passed = True,
              vc_detail = ''Replay descriptor: nonce='' @
                show_nat (unat (rd_nonce (ca_replay_descriptor a))) @ '', key='' @
                rd_idempotency_key (ca_replay_descriptor a)\<rparr>,
             \<lparr>vc_check_name = ''policy_approved'',
              vc_passed = decision_approves (pd_decision (ca_policy_decision a)),
              vc_detail = ''Policy decision: '' @ show_decision (pd_decision (ca_policy_decision a))\<rparr>]
      in \<lparr>vr_action_id = ca_action_id a, vr_verified = list_all vc_passed checks, vr_checks = checks\<rparr>)"

section \<open>Certificates\<close>

record DataExitRecord =
  dx_data_description :: string
  dx_destination :: string
  dx_approved :: bool
  dx_action_id :: string

record VerificationSummary =
  vs_action_id :: string
  vs_verified :: bool
  vs_verifier :: string

record RecoveryRecord =
  rr_failure_action_id :: string
  rr_recovery_action_id :: string
  rr_recovery_success :: bool

record WorkloadCertificate =
  wc_certificate_id :: string
  wc_process_id :: string
  wc_program_name :: string
  wc_actions :: "CanonicalAction list"
  wc_models_used :: "string list"
  wc_tools_used :: "string list"
  wc_approvals_granted :: "ApprovalReceipt list"
  wc_data_exfiltrated :: "DataExitRecord list"
  wc_results_verified :: "VerificationSummary list"
  wc_failures_recovered :: "RecoveryRecord list"
  wc_final_side_effects :: "EffectReceipt list"
  wc_generated_at :: instant
  wc_generated_by :: string
  wc_attestation :: "string option"

record certificate_parts =
  cp_models :: "string list"
  cp_approvals :: "ApprovalReceipt list"
  cp_summaries :: "VerificationSummary list"
  cp_side_effects :: "EffectReceipt list"

text \<open>One iteration of the first loop of \<open>generate\<close>.\<close>

definition collect_action :: "(string \<Rightarrow> string) \<Rightarrow> certificate_parts \<Rightarrow> CanonicalAction \<Rightarrow> certificate_parts" where
  "collect_action sha p a =
     (let model = ef_model_revision (ca_execution_environment a)
      in \<lparr>cp_models = (if model \<in> set (cp_models p) then cp_models p else cp_models p @ [model]),
          cp_approvals = cp_approvals p @ (case ca_approval_receipt a of None \<Rightarrow> [] | Some r \<Rightarrow> [r]),
          cp_summaries = cp_summaries p @
            [\<lparr>vs_action_id = ca_action_id a, vs_verified = vr_verified (verify_action sha a),
              vs_verifier = ''kernel''\<rparr>],
          cp_side_effects = cp_side_effects p @
            (case ca_effect_receipt a of None \<Rightarrow> [] | Some r \<Rightarrow> if er_success r then [r] else [])\<rparr>)"

definition data_exit :: "CanonicalAction \<Rightarrow> DataExitRecord" where
  "data_exit a =
     \<lparr>dx_data_description = as_parameters (ca_canonical_spec a),
      dx_destination = as_target (ca_canonical_spec a),
      dx_approved = (pd_decision (ca_policy_decision a) = D_Approved), dx_action_id = ca_action_id a\<rparr>"

definition certificate_generate ::
  "(string \<Rightarrow> string) \<Rightarrow> string \<Rightarrow> instant \<Rightarrow> string \<Rightarrow> string \<Rightarrow> CanonicalAction list \<Rightarrow> string \<Rightarrow>
     WorkloadCertificate" where
  "certificate_generate sha uuid now process_id program_name actions generated_by =
     (let p = foldl (collect_action sha)
                \<lparr>cp_models = [], cp_approvals = [], cp_summaries = [], cp_side_effects = []\<rparr> actions
      in \<lparr>wc_certificate_id = ''cert-'' @ uuid, wc_process_id = process_id, wc_program_name = program_name,
          wc_actions = actions, wc_models_used = cp_models p, wc_tools_used = [],
          wc_approvals_granted = cp_approvals p,
          wc_data_exfiltrated = map data_exit (filter (\<lambda>a. is_data_exit_action (ca_canonical_spec a)) actions),
          wc_results_verified = cp_summaries p, wc_failures_recovered = [],
          wc_final_side_effects = cp_side_effects p, wc_generated_at = now,
          wc_generated_by = generated_by, wc_attestation = None\<rparr>)"

record CertificateVerificationResult =
  cv_certificate_id :: string
  cv_verified :: bool
  cv_total_actions :: nat
  cv_verified_actions :: nat
  cv_failed_actions :: nat
  cv_failure_details :: "string list"

definition certificate_verify :: "(string \<Rightarrow> string) \<Rightarrow> WorkloadCertificate \<Rightarrow> CertificateVerificationResult" where
  "certificate_verify sha c =
     (let action_results = map (verify_action sha) (wc_actions c);
          failed = filter (\<lambda>r. \<not> vr_verified r) action_results
      in \<lparr>cv_certificate_id = wc_certificate_id c, cv_verified = list_all vr_verified action_results,
          cv_total_actions = length (wc_actions c),
          cv_verified_actions = length (filter vr_verified action_results),
          cv_failed_actions = length failed,
          cv_failure_details =
            map (\<lambda>r. str_join ''; '' (map vc_detail (filter (\<lambda>x. \<not> vc_passed x) (vr_checks r)))) failed\<rparr>)"

section \<open>What verification establishes\<close>

definition action_valid :: "(string \<Rightarrow> string) \<Rightarrow> CanonicalAction \<Rightarrow> bool" where
  "action_valid sha a \<longleftrightarrow>
     compute_input_digest sha (ca_canonical_spec a) = ca_input_digest a \<and>
     (\<forall>r. ca_effect_receipt a = Some r \<longrightarrow> er_actual_target r = ei_expected_target (ca_effect_intent a)) \<and>
     pd_decision (ca_policy_decision a) \<in> {D_Approved, D_ApprovedWithConditions}"

lemma verify_action_valid: "vr_verified (verify_action sha a) \<longleftrightarrow> action_valid sha a"
  by (auto simp: verify_action_def action_valid_def input_check_def receipt_checks_def
      decision_approves_def Let_def split: option.splits)

text \<open>Removal of repetitions, keeping first occurrences, and what the first loop collects.\<close>

fun first_occurrences :: "'a list \<Rightarrow> 'a list \<Rightarrow> 'a list" where
  "first_occurrences seen [] = seen"
| "first_occurrences seen (x # xs) =
     first_occurrences (if x \<in> set seen then seen else seen @ [x]) xs"

lemma first_occurrences_set: "set (first_occurrences seen xs) = set seen \<union> set xs"
  by (induction xs arbitrary: seen) auto

lemma first_occurrences_distinct: "distinct seen \<Longrightarrow> distinct (first_occurrences seen xs)"
  by (induction xs arbitrary: seen) auto

lemma collect_actions:
  "let q = foldl (collect_action sha) p actions
   in cp_models q = first_occurrences (cp_models p) (map (ef_model_revision \<circ> ca_execution_environment) actions) \<and>
      cp_approvals q = cp_approvals p @ List.map_filter ca_approval_receipt actions \<and>
      map vs_action_id (cp_summaries q) = map vs_action_id (cp_summaries p) @ map ca_action_id actions \<and>
      map vs_verified (cp_summaries q) = map vs_verified (cp_summaries p) @ map (action_valid sha) actions \<and>
      cp_side_effects q = cp_side_effects p @ filter er_success (List.map_filter ca_effect_receipt actions)"
proof (induction actions arbitrary: p)
  case (Cons a actions)
  have "cp_models (collect_action sha p a) = (if ef_model_revision (ca_execution_environment a) \<in> set (cp_models p)
        then cp_models p else cp_models p @ [ef_model_revision (ca_execution_environment a)])"
    by (simp add: collect_action_def Let_def)
  then show ?case
    using Cons [of "collect_action sha p a"]
    by (simp add: Let_def collect_action_def verify_action_valid map_filter_simps split: option.split)
qed (simp add: map_filter_simps)

section \<open>Properties\<close>

text \<open>A certificate is verified exactly when every action in it has the digest of its approved
  specification, is approved (with or without conditions), and, where it has an effect receipt, hit
  the target its intent names.  The verified and the failed actions add up to all, and there is one
  failure text per failed action.\<close>

theorem certificate_verify_exact:
  "let v = certificate_verify sha c
   in cv_verified v = list_all (action_valid sha) (wc_actions c) \<and>
      cv_verified_actions v + cv_failed_actions v = cv_total_actions v \<and>
      cv_verified v = (cv_failed_actions v = 0) \<and>
      length (cv_failure_details v) = cv_failed_actions v"
proof -
  have "length (filter (vr_verified \<circ> verify_action sha) xs) +
      length (filter (\<lambda>a. \<not> vr_verified (verify_action sha a)) xs) = length xs" for xs
    using sum_length_filter_compl [of "\<lambda>a. vr_verified (verify_action sha a)" xs] by (simp add: comp_def)
  then show ?thesis
    by (auto simp: certificate_verify_def Let_def filter_map comp_def list_all_iff verify_action_valid
        filter_empty_conv)
qed

text \<open>The summary in a generated certificate agrees with verifying the certificate afresh:
  one entry per action in order with its verdict, the certificate verifies exactly when all entries
  say so, the models are listed once each, the approvals and the successful effects are those of
  the actions, and every action that sends data out is listed as an exit.\<close>

theorem certificate_generate_faithful:
  "let c = certificate_generate sha uuid now pid prog actions by_whom
   in map vs_action_id (wc_results_verified c) = map ca_action_id actions \<and>
      cv_verified (certificate_verify sha c) = list_all vs_verified (wc_results_verified c) \<and>
      distinct (wc_models_used c) \<and>
      set (wc_models_used c) = (ef_model_revision \<circ> ca_execution_environment) ` set actions \<and>
      wc_approvals_granted c = List.map_filter ca_approval_receipt actions \<and>
      wc_final_side_effects c = filter er_success (List.map_filter ca_effect_receipt actions) \<and>
      map dx_action_id (wc_data_exfiltrated c) =
        map ca_action_id (filter (\<lambda>a. is_data_exit_action (ca_canonical_spec a)) actions)"
proof -
  define p where "p = foldl (collect_action sha)
    \<lparr>cp_models = [], cp_approvals = [], cp_summaries = [], cp_side_effects = []\<rparr> actions"
  note parts = collect_actions [of sha "\<lparr>cp_models = [], cp_approvals = [], cp_summaries = [], cp_side_effects = []\<rparr>"
      actions, folded p_def, simplified Let_def, simplified]
  have "list_all vs_verified (cp_summaries p) \<longleftrightarrow> list_all id (map vs_verified (cp_summaries p))"
    by (simp add: list_all_iff)
  then have "list_all vs_verified (cp_summaries p) \<longleftrightarrow> list_all (action_valid sha) actions"
    using parts by (simp add: list_all_iff)
  then show ?thesis
    using parts
    by (simp add: certificate_generate_def certificate_verify_def p_def [symmetric] Let_def list_all_iff
        verify_action_valid first_occurrences_set first_occurrences_distinct data_exit_def comp_def)
qed

definition demo_action :: "(string \<Rightarrow> string) \<Rightarrow> CanonicalAction" where
  "demo_action sha =
     \<lparr>ca_action_id = ''a1'',
      ca_canonical_spec = \<lparr>as_action_type = ''email_send'', as_target = ''x'', as_parameters = ''{}'',
        as_output_schema = None, as_is_idempotent = True, as_is_reversible = True,
        as_compensation_action_id = None, as_risk_level = RL_Low\<rparr>,
      ca_principal_id = ''p'', ca_process_id = ''q'', ca_capability = ''c'',
      ca_policy_decision = \<lparr>pd_decision_id = ''d'', pd_decided_by = ''governance-gate'',
        pd_decision = D_ApprovedWithConditions, pd_reason = [], pd_decided_at = 0, pd_expires_at = None\<rparr>,
      ca_approval_receipt = None, ca_input_digest = sha ''email_sendx{}'',
      ca_execution_environment = \<lparr>ef_node_id = [], ef_device_id = [], ef_engine_id = [],
        ef_model_revision = ''m'', ef_kernel_version = [], ef_nki_version = 1, ef_sandbox_profile = [],
        ef_runtime_hash = None\<rparr>,
      ca_effect_intent = demo_intent, ca_effect_receipt = None, ca_output_digest = None,
      ca_causal_parent = None,
      ca_replay_descriptor = \<lparr>rd_nonce = 0, rd_idempotency_key = [], rd_process_id = [],
        rd_sequence_number = 0\<rparr>\<rparr>"

text \<open>The digest binds less than the approved specification: after approval the target can take
  over a character of the parameters, and the risk level, the reversibility and the compensation
  can be changed at will, and the action still verifies, whatever the hash is; and an action whose
  receipt reports failure verifies as well.\<close>

theorem digest_does_not_bind_spec:
  "let a = demo_action sha; s = ca_canonical_spec a
   in vr_verified (verify_action sha a) \<and>
      vr_verified (verify_action sha (a\<lparr>ca_canonical_spec := s\<lparr>as_target := ''x{'', as_parameters := ''}''\<rparr>\<rparr>)) \<and>
      vr_verified (verify_action sha (a\<lparr>ca_canonical_spec := s\<lparr>as_risk_level := RL_Critical,
        as_is_reversible := False, as_compensation_action_id := Some ''z''\<rparr>\<rparr>)) \<and>
      vr_verified (verify_action sha (a\<lparr>ca_effect_receipt := Some (demo_receipt\<lparr>er_success := False\<rparr>)\<rparr>))"
  by (simp add: Let_def verify_action_valid action_valid_def demo_action_def compute_input_digest_def
      demo_receipt_def demo_intent_def)

end
