(* ===== verification/Admission.thy ===== *)
theory Admission
  imports Workload_Types
begin

text \<open>
  Admission control (crates/nous-resource/src/admission.rs) over the resource domains of
  \<open>Resource_Vectors\<close>.  The clock reading is an argument.
\<close>

datatype AdmissionDecision =
    AD_Admitted
  | AD_Rejected string "string list"
  | AD_Infeasible string ResourceVector ResourceVector

definition validate_security :: "SecurityRequirements \<Rightarrow> string list + unit" where
  "validate_security sec =
     (let issues =
        (if sr_allow_network_access sec \<and> sr_allowed_hosts sec = []
         then [''Network access allowed but no allowed_hosts specified''] else []) @
        (if sr_allow_file_access sec \<and> sr_allowed_paths sec = []
         then [''File access allowed but no allowed_paths specified''] else [])
      in if issues = [] then Inr () else Inl issues)"

definition missing_text :: "string \<Rightarrow> u64 \<Rightarrow> u64 \<Rightarrow> string list" where
  "missing_text label need avail =
     (if need > avail
      then [label @ '': need '' @ show_nat (unat need) @ '' bytes, have '' @ show_nat (unat avail) @ '' bytes'']
      else [])"

definition deadline_expired :: "int \<Rightarrow> WorkloadSpec \<Rightarrow> bool" where
  "deadline_expired now_us spec \<longleftrightarrow> ws_deadline_us spec > 0 \<and> ws_deadline_us spec < now_us"

definition admit :: "int \<Rightarrow> ResourceDomain \<Rightarrow> WorkloadSpec \<Rightarrow> AdmissionDecision" where
  "admit now_us system_domain spec =
     (let required = rq_minimum (ws_resource_requirements spec)
      in if deadline_expired now_us spec
         then AD_Rejected
                (''Deadline expired: deadline='' @ show_int (ws_deadline_us spec) @ ''us, now='' @
                 show_int now_us @ ''us ('' @ show_int (now_us - ws_deadline_us spec) @ ''us past)'')
                [''valid_deadline'']
         else if \<not> fits_within required (dom_capacity system_domain)
         then AD_Infeasible ''Required resources exceed system capacity'' required (dom_capacity system_domain)
         else if \<not> can_fit system_domain required
         then let available = dom_available system_domain
              in AD_Rejected ''Insufficient resources''
                   (missing_text ''RAM'' (rv_ram_bytes required) (rv_ram_bytes available) @
                    missing_text ''VRAM'' (rv_device_memory_bytes required) (rv_device_memory_bytes available) @
                    missing_text ''KV Cache'' (rv_kv_cache_bytes required) (rv_kv_cache_bytes available))
         else (case validate_security (ws_security_requirements spec) of
                 Inl missing \<Rightarrow> AD_Rejected ''Security requirements not met'' missing
               | Inr _ \<Rightarrow> AD_Admitted))"

section \<open>Properties\<close>

definition security_ok :: "SecurityRequirements \<Rightarrow> bool" where
  "security_ok sec \<longleftrightarrow>
     (sr_allow_network_access sec \<longrightarrow> sr_allowed_hosts sec \<noteq> []) \<and>
     (sr_allow_file_access sec \<longrightarrow> sr_allowed_paths sec \<noteq> [])"

lemma validate_security_ok: "validate_security sec = Inr () \<longleftrightarrow> security_ok sec"
  by (simp add: validate_security_def security_ok_def Let_def)

lemma can_fit_capacity: "can_fit d r \<Longrightarrow> fits_within r (dom_capacity d)"
  by (fastforce simp: can_fit_iff fits_within_iff unat_rv_dim_available word_le_nat_alt)

text \<open>A workload is admitted exactly when its deadline is not past, its minimum fits into what
  the system domain has available, and its network and file access are bounded by hosts and paths;
  it is infeasible exactly when, with a deadline that is not past, its minimum exceeds the whole
  capacity; in every other case it is rejected.\<close>

theorem admit_exact:
  "(admit now d spec = AD_Admitted) =
     (\<not> deadline_expired now spec \<and> can_fit d (rq_minimum (ws_resource_requirements spec)) \<and>
      security_ok (ws_security_requirements spec)) \<and>
   (\<exists>reason req cap. admit now d spec = AD_Infeasible reason req cap) =
     (\<not> deadline_expired now spec \<and>
      \<not> fits_within (rq_minimum (ws_resource_requirements spec)) (dom_capacity d))"
  using can_fit_capacity [of d "rq_minimum (ws_resource_requirements spec)"]
    validate_security_ok [of "ws_security_requirements spec"]
  by (auto simp: admit_def Let_def split: sum.splits)

text \<open>Admission and allocation agree: in a hierarchy where the admitting domain is registered,
  an admitted workload's minimum is allocated without an error, and the accounting stays within
  capacity.\<close>

theorem admitted_workload_allocates:
  assumes "hierarchy_wf h" "h k = Some d" "admit now d spec = AD_Admitted"
  shows "fst (hierarchy_allocate dbg h k (rq_minimum (ws_resource_requirements spec))) = Inr () \<and>
    hierarchy_wf (snd (hierarchy_allocate dbg h k (rq_minimum (ws_resource_requirements spec))))"
proof -
  have "can_fit d (rq_minimum (ws_resource_requirements spec))"
    using assms(3) by (auto simp: admit_def Let_def split: if_splits sum.splits)
  then show ?thesis
    using assms(1,2) by (auto simp: hierarchy_allocate_def intro!: hierarchy_wf_update domain_wf_allocate)
qed

theorem admitted_workload_allocates_witness:
  "fst (hierarchy_allocate (\<lambda>_. []) (hierarchy_new demo_domain) ''system'' rv_zero) = Inr ()"
proof -
  have req: "rq_minimum (ws_resource_requirements workload_spec_default) = rv_zero"
    by (simp add: workload_spec_default_def resource_requirements_default_def)
  have "can_fit demo_domain rv_zero" by (simp add: can_fit_iff rv_dim_zero)
  moreover have "validate_security (ws_security_requirements workload_spec_default) = Inr ()"
    by (simp add: validate_security_def workload_spec_default_def security_requirements_default_def)
  moreover have "\<not> deadline_expired 0 workload_spec_default"
    by (simp add: deadline_expired_def workload_spec_default_def)
  ultimately have "admit 0 demo_domain workload_spec_default = AD_Admitted"
    using can_fit_capacity [of demo_domain rv_zero] by (simp add: admit_def req Let_def)
  moreover have "hierarchy_new demo_domain ''system'' = Some demo_domain"
    by (simp add: hierarchy_new_def demo_domain_def)
  ultimately show ?thesis
    using admitted_workload_allocates [OF demo_hierarchy_wf, where k = "''system''" and dbg = "\<lambda>_. []"] req by fastforce
qed

end
