(* ===== verification/Security.thy ===== *)
theory Security
  imports Workload_Types
begin

text \<open>
  The security kernel: the execution gate, capability manifests and the policy engine
  (crates/nous-security/src/lib.rs), capability grants (crates/nous-types/src/principal.rs) and
  the credential broker (crates/nous-security/src/credential.rs).  The clock reading, the uuid of
  a credential lease and the process environment are arguments.  The engine's two maps are the
  record \<open>SecurityEngine\<close>.
\<close>

section \<open>Grants and manifests\<close>

record CapabilityGrant =
  cg_grant_id :: string
  cg_principal_id :: string
  cg_capability :: string
  cg_paths :: "string list"
  cg_hosts :: "string list"
  cg_limits :: "ResourceLimits option"
  cg_requires_approval :: bool
  cg_data_classification :: string
  cg_granted_at :: "instant option"
  cg_expires_at :: "instant option"

definition grant_is_valid :: "instant \<Rightarrow> CapabilityGrant \<Rightarrow> bool" where
  "grant_is_valid now g =
     (case cg_expires_at g of Some expires \<Rightarrow> now < expires | None \<Rightarrow> True)"

record CapabilityManifest =
  cm_reads :: "string list"
  cm_writes :: "string list"
  cm_devices :: "string list"
  cm_network_destinations :: "string list"
  cm_credentials :: "string list"
  cm_side_effects :: "string list"
  cm_reversible :: bool
  cm_data_classification :: DataClassification
  cm_requires_approval :: bool
  cm_resource_limits :: "ResourceLimits option"

definition path_granted :: "string \<Rightarrow> CapabilityGrant list \<Rightarrow> string \<Rightarrow> bool" where
  "path_granted capability grants path =
     list_ex (\<lambda>g. cg_capability g = capability \<and> list_ex (\<lambda>p. starts_with path p) (cg_paths g)) grants"

definition host_granted :: "CapabilityGrant list \<Rightarrow> string \<Rightarrow> bool" where
  "host_granted grants host =
     list_ex (\<lambda>g. cg_capability g = ''network'' \<and>
       list_ex (\<lambda>h. str_contains host h \<or> str_contains h host) (cg_hosts g)) grants"

definition manifest_issues :: "CapabilityManifest \<Rightarrow> CapabilityGrant list \<Rightarrow> string list" where
  "manifest_issues m grants =
     map (\<lambda>r. ''Read access not granted for: '' @ r)
       (filter (\<lambda>r. \<not> path_granted ''read'' grants r) (cm_reads m)) @
     map (\<lambda>w. ''Write access not granted for: '' @ w)
       (filter (\<lambda>w. \<not> path_granted ''write'' grants w) (cm_writes m)) @
     map (\<lambda>h. ''Network access not granted for: '' @ h)
       (filter (\<lambda>h. \<not> host_granted grants h) (cm_network_destinations m)) @
     (if cm_side_effects m \<noteq> [] \<and> \<not> list_ex (\<lambda>g. cg_capability g = ''side_effect'') grants
      then [''Side effects not explicitly granted''] else [])"

definition manifest_validate :: "CapabilityManifest \<Rightarrow> CapabilityGrant list \<Rightarrow> string list + unit" where
  "manifest_validate m grants =
     (let issues = manifest_issues m grants in if issues = [] then Inr () else Inl issues)"

section \<open>The execution gate\<close>

record ExecutionGate =
  xg_principal_authenticated :: bool
  xg_capability_granted :: bool
  xg_workload_validated :: bool
  xg_lease_active :: bool
  xg_deadline_valid :: bool
  xg_cancellation_policy_set :: bool
  xg_governance_approved :: bool
  xg_isolation_configured :: bool
  xg_audit_id_set :: bool
  xg_failure_reasons :: "string list"

definition gate_new :: ExecutionGate where
  "gate_new =
     \<lparr>xg_principal_authenticated = False, xg_capability_granted = False, xg_workload_validated = False,
      xg_lease_active = False, xg_deadline_valid = False, xg_cancellation_policy_set = False,
      xg_governance_approved = False, xg_isolation_configured = False, xg_audit_id_set = False,
      xg_failure_reasons = []\<rparr>"

definition is_open :: "ExecutionGate \<Rightarrow> bool" where
  "is_open g \<longleftrightarrow>
     xg_principal_authenticated g \<and> xg_capability_granted g \<and> xg_workload_validated g \<and>
     xg_lease_active g \<and> xg_deadline_valid g \<and> xg_cancellation_policy_set g \<and>
     xg_governance_approved g \<and> xg_isolation_configured g \<and> xg_audit_id_set g"

definition is_open_for :: "ExecutionGate \<Rightarrow> bool \<Rightarrow> bool" where
  "is_open_for g has_side_effects =
     (if has_side_effects then is_open g
      else xg_principal_authenticated g \<and> xg_workload_validated g \<and> xg_lease_active g)"

definition gate_summary :: "ExecutionGate \<Rightarrow> string" where
  "gate_summary g =
     str_join '' | ''
       (map (\<lambda>(name, open). name @ '': '' @ (if open then ''pass'' else ''fail''))
          [(''Principal'', xg_principal_authenticated g), (''Capability'', xg_capability_granted g),
           (''Workload'', xg_workload_validated g), (''Lease'', xg_lease_active g),
           (''Deadline'', xg_deadline_valid g), (''Cancellation'', xg_cancellation_policy_set g),
           (''Governance'', xg_governance_approved g), (''Isolation'', xg_isolation_configured g),
           (''Audit'', xg_audit_id_set g)])"

section \<open>The policy engine\<close>

record SecurityEngine =
  se_principals :: "string \<rightharpoonup> Principal"
  se_grants :: "string \<rightharpoonup> CapabilityGrant list"

definition security_engine_new :: SecurityEngine where
  "security_engine_new = \<lparr>se_principals = Map.empty, se_grants = Map.empty\<rparr>"

definition register_principal :: "Principal \<Rightarrow> SecurityEngine \<Rightarrow> SecurityEngine" where
  "register_principal p e = e\<lparr>se_principals := (se_principals e)(uid p \<mapsto> p)\<rparr>"

definition engine_grants :: "SecurityEngine \<Rightarrow> string \<Rightarrow> CapabilityGrant list" where
  "engine_grants e pid = (case se_grants e pid of None \<Rightarrow> [] | Some gs \<Rightarrow> gs)"

definition grant_capability :: "CapabilityGrant \<Rightarrow> SecurityEngine \<Rightarrow> SecurityEngine" where
  "grant_capability g e =
     e\<lparr>se_grants := (se_grants e)(cg_principal_id g \<mapsto> engine_grants e (cg_principal_id g) @ [g])\<rparr>"

definition check_capability :: "instant \<Rightarrow> SecurityEngine \<Rightarrow> string \<Rightarrow> string \<Rightarrow> bool" where
  "check_capability now e pid capability =
     (case se_grants e pid of
        None \<Rightarrow> False
      | Some gs \<Rightarrow> list_ex (\<lambda>g. cg_capability g = capability \<and> grant_is_valid now g) gs)"

definition get_grants :: "instant \<Rightarrow> SecurityEngine \<Rightarrow> string \<Rightarrow> CapabilityGrant list" where
  "get_grants now e pid =
     (case se_grants e pid of None \<Rightarrow> [] | Some gs \<Rightarrow> filter (grant_is_valid now) gs)"

definition gate_reasons :: "ExecutionGate \<Rightarrow> string list" where
  "gate_reasons g =
     (if \<not> xg_principal_authenticated g then [''Principal not authenticated''] else []) @
     (if \<not> xg_capability_granted g then [''Capability not granted''] else []) @
     (if \<not> xg_lease_active g then [''No active resource lease''] else []) @
     (if \<not> xg_deadline_valid g then [''Deadline has passed''] else []) @
     (if \<not> xg_isolation_configured g then [''No isolation profile configured''] else [])"

definition evaluate ::
  "instant \<Rightarrow> SecurityEngine \<Rightarrow> string \<Rightarrow> CapabilityManifest \<Rightarrow> bool \<Rightarrow> int \<Rightarrow> bool \<Rightarrow> string \<Rightarrow> ExecutionGate" where
  "evaluate now e pid manifest has_lease deadline_us has_cancellation_policy isolation_profile =
     (let grants = get_grants now e pid;
          gate = gate_new\<lparr>
            xg_principal_authenticated := se_principals e pid \<noteq> None,
            xg_capability_granted := \<not> isl (manifest_validate manifest grants),
            xg_workload_validated := False,
            xg_lease_active := has_lease,
            xg_deadline_valid := (deadline_us = 0 \<or> deadline_us > now),
            xg_cancellation_policy_set := has_cancellation_policy,
            xg_governance_approved := \<not> cm_requires_approval manifest,
            xg_isolation_configured := isolation_profile \<noteq> [],
            xg_audit_id_set := True\<rparr>
      in gate\<lparr>xg_failure_reasons := xg_failure_reasons gate @ gate_reasons gate\<rparr>)"

section \<open>Credentials\<close>

record CredentialReference =
  cref_credential_id :: string
  cref_environment_variable :: string
  cref_allowed_principals :: "string list"
  cref_allowed_capabilities :: "string list"

record CredentialLease =
  cl_lease_id :: string
  cl_credential_id :: string
  cl_principal_id :: string
  cl_capability :: string
  cl_expires_at_us :: int
  cl_secret :: string

type_synonym CredentialBroker = "string \<rightharpoonup> CredentialReference"

definition with_secret :: "int \<Rightarrow> CredentialLease \<Rightarrow> (string \<Rightarrow> 'a) \<Rightarrow> 'a nous_result" where
  "with_secret now l operation =
     (if now \<ge> cl_expires_at_us l then Inl (nous_error EC_Unauthenticated ''Credential lease expired'')
      else Inr (operation (cl_secret l)))"

definition drop_credential_lease :: "CredentialLease \<Rightarrow> CredentialLease" where
  "drop_credential_lease l = l\<lparr>cl_secret := replicate (length (cl_secret l)) (CHR 0x00)\<rparr>"

definition credential_register ::
  "CredentialReference \<Rightarrow> CredentialBroker \<Rightarrow> unit nous_result \<times> CredentialBroker" where
  "credential_register r b =
     (if trim (cref_environment_variable r) = []
      then (Inl (nous_error EC_InvalidRequest ''Credential reference requires an environment variable''), b)
      else (Inr (), b(cref_credential_id r \<mapsto> r)))"

definition credential_lease ::
  "(string \<Rightarrow> string option) \<Rightarrow> string \<Rightarrow> int \<Rightarrow> CredentialBroker \<Rightarrow> string \<Rightarrow> string \<Rightarrow> string \<Rightarrow> u32 \<Rightarrow>
     CredentialLease nous_result" where
  "credential_lease os_env uuid now b credential_id principal_id capability ttl_seconds =
     (case b credential_id of
        None \<Rightarrow> Inl (nous_error EC_NotFound ''Credential reference not found'')
      | Some r \<Rightarrow>
          if \<not> list_ex (\<lambda>allowed. allowed = principal_id) (cref_allowed_principals r)
          then Inl (nous_error EC_PermissionDenied ''Principal is not allowed to lease this credential'')
          else if \<not> list_ex (\<lambda>allowed. allowed = capability) (cref_allowed_capabilities r)
          then Inl (nous_error EC_CapabilityDenied ''Credential is not valid for the requested capability'')
          else (case os_env (cref_environment_variable r) of
                  None \<Rightarrow> Inl (nous_error EC_Unauthenticated ''Credential source is unavailable'')
                | Some secret \<Rightarrow> Inr
                    \<lparr>cl_lease_id = uuid, cl_credential_id = credential_id, cl_principal_id = principal_id,
                     cl_capability = capability,
                     cl_expires_at_us = now + int (unat (max ttl_seconds 1)) * 1000000,
                     cl_secret = secret\<rparr>))"

section \<open>Histories of the engine\<close>

datatype engine_op = RegisterPrincipal Principal | GrantCapability CapabilityGrant

fun engine_step :: "SecurityEngine \<Rightarrow> engine_op \<Rightarrow> SecurityEngine" where
  "engine_step e (RegisterPrincipal p) = register_principal p e"
| "engine_step e (GrantCapability g) = grant_capability g e"

definition engine_run :: "engine_op list \<Rightarrow> SecurityEngine" where
  "engine_run ops = foldl engine_step security_engine_new ops"

text \<open>What the history says: the grants given to a principal, and who was registered.\<close>

fun grants_to :: "string \<Rightarrow> engine_op \<Rightarrow> CapabilityGrant option" where
  "grants_to pid (GrantCapability g) = (if cg_principal_id g = pid then Some g else None)"
| "grants_to pid (RegisterPrincipal _) = None"

fun registers :: "string \<Rightarrow> engine_op \<Rightarrow> bool" where
  "registers pid (RegisterPrincipal p) = (uid p = pid)"
| "registers pid (GrantCapability _) = False"

lemma engine_run_grants: "engine_grants (engine_run ops) pid = List.map_filter (grants_to pid) ops"
proof (induction ops rule: rev_induct)
  case Nil
  then show ?case by (simp add: engine_run_def engine_grants_def security_engine_new_def map_filter_simps)
next
  case (snoc x ops)
  have "List.map_filter (grants_to pid) (ops @ [x]) =
      List.map_filter (grants_to pid) ops @ (case grants_to pid x of None \<Rightarrow> [] | Some g \<Rightarrow> [g])"
    by (simp add: map_filter_def split: option.split)
  with snoc show ?case
    by (cases x) (auto simp: engine_run_def engine_grants_def register_principal_def grant_capability_def)
qed

lemma engine_run_principals: "(se_principals (engine_run ops) pid \<noteq> None) = list_ex (registers pid) ops"
proof (induction ops rule: rev_induct)
  case (snoc x ops)
  then show ?case
    by (cases x) (auto simp: engine_run_def register_principal_def grant_capability_def)
qed (simp add: engine_run_def security_engine_new_def)

lemma get_grants_run:
  "get_grants now (engine_run ops) pid = filter (grant_is_valid now) (List.map_filter (grants_to pid) ops)"
  using engine_run_grants [of ops pid]
  by (auto simp: get_grants_def engine_grants_def split: option.splits)

lemma manifest_validate_ok:
  "manifest_validate m gs = Inr () \<longleftrightarrow>
     list_all (path_granted ''read'' gs) (cm_reads m) \<and> list_all (path_granted ''write'' gs) (cm_writes m) \<and>
     list_all (host_granted gs) (cm_network_destinations m) \<and>
     (cm_side_effects m = [] \<or> list_ex (\<lambda>g. cg_capability g = ''side_effect'') gs)"
  by (auto simp: manifest_validate_def manifest_issues_def Let_def list_all_iff filter_empty_conv)

lemma not_isl_validate: "\<not> isl (manifest_validate m gs) \<longleftrightarrow> manifest_validate m gs = Inr ()"
  by (simp add: manifest_validate_def Let_def)

section \<open>Properties\<close>

text \<open>Default deny: a gate the engine evaluates is closed, with or without side effects, until
  the caller marks the workload validated; it then opens for a workload with side effects exactly
  when the principal was registered, the grants given to this very principal that have not expired
  cover every declared read, write, destination and the side effects, a lease is held, the deadline
  is absent or ahead, a cancellation policy is set, no approval is required and an isolation profile
  is named.\<close>

theorem gate_opens_exactly:
  "let gate = evaluate now (engine_run ops) pid m has_lease deadline has_policy isolation;
       gs = filter (grant_is_valid now) (List.map_filter (grants_to pid) ops)
   in \<not> is_open_for gate effects \<and>
      is_open_for (gate\<lparr>xg_workload_validated := True\<rparr>) True =
        (list_ex (registers pid) ops \<and>
         list_all (path_granted ''read'' gs) (cm_reads m) \<and> list_all (path_granted ''write'' gs) (cm_writes m) \<and>
         list_all (host_granted gs) (cm_network_destinations m) \<and>
         (cm_side_effects m = [] \<or> list_ex (\<lambda>g. cg_capability g = ''side_effect'') gs) \<and>
         has_lease \<and> (deadline = 0 \<or> deadline > now) \<and> has_policy \<and> \<not> cm_requires_approval m \<and>
         isolation \<noteq> [])"
  unfolding Let_def
  by (auto simp: evaluate_def is_open_for_def is_open_def gate_new_def Let_def not_isl_validate
      manifest_validate_ok get_grants_run engine_run_principals [symmetric])

text \<open>The engine grants exactly what was given: a principal passes a capability check exactly
  when some earlier grant to that principal names the capability and has not expired; no grant to
  another principal, and no registration, contributes.\<close>

theorem check_capability_exact:
  "check_capability now (engine_run ops) pid capability =
     list_ex (\<lambda>op. case grants_to pid op of
        None \<Rightarrow> False | Some g \<Rightarrow> cg_capability g = capability \<and> grant_is_valid now g) ops"
proof -
  have "check_capability now (engine_run ops) pid capability =
      list_ex (\<lambda>g. cg_capability g = capability \<and> grant_is_valid now g) (engine_grants (engine_run ops) pid)"
    by (simp add: check_capability_def engine_grants_def split: option.splits)
  also have "\<dots> = list_ex (\<lambda>op. case grants_to pid op of
        None \<Rightarrow> False | Some g \<Rightarrow> cg_capability g = capability \<and> grant_is_valid now g) ops"
    unfolding engine_run_grants by (induction ops) (auto simp: map_filter_simps split: option.splits)
  finally show ?thesis .
qed

definition empty_manifest :: "bool \<Rightarrow> CapabilityManifest" where
  "empty_manifest approval =
     \<lparr>cm_reads = [], cm_writes = [], cm_devices = [], cm_network_destinations = [], cm_credentials = [],
      cm_side_effects = [], cm_reversible = False, cm_data_classification = DC_Public,
      cm_requires_approval = approval, cm_resource_limits = None\<rparr>"

definition demo_grant_of :: "string \<Rightarrow> string list \<Rightarrow> string list \<Rightarrow> CapabilityGrant" where
  "demo_grant_of capability paths hosts =
     \<lparr>cg_grant_id = ''g'', cg_principal_id = ''u'', cg_capability = capability, cg_paths = paths,
      cg_hosts = hosts, cg_limits = None, cg_requires_approval = False, cg_data_classification = [],
      cg_granted_at = None, cg_expires_at = None\<rparr>"

text \<open>The gate's failure reasons do not name every closed condition: without a cancellation
  policy, or with an approval that is required, the validated gate of an otherwise entitled
  principal is closed and its list of reasons is empty.\<close>

theorem gate_closed_without_reason:
  "let e = register_principal p security_engine_new;
       g1 = (evaluate now e (uid p) (empty_manifest False) True 0 False ''sandbox'')\<lparr>xg_workload_validated := True\<rparr>;
       g2 = (evaluate now e (uid p) (empty_manifest True) True 0 True ''sandbox'')\<lparr>xg_workload_validated := True\<rparr>
   in \<not> is_open g1 \<and> xg_failure_reasons g1 = [] \<and> \<not> is_open g2 \<and> xg_failure_reasons g2 = []"
  by (simp add: Let_def evaluate_def is_open_def gate_new_def gate_reasons_def register_principal_def
      security_engine_new_def get_grants_def manifest_validate_def manifest_issues_def empty_manifest_def)

text \<open>Destinations and paths are matched as substrings and prefixes of text: a grant for one
  host covers hosts of another domain whose name contains it and covers every fragment of it, and a
  grant for a directory covers its siblings with a longer name and the way up out of it.\<close>

theorem grants_match_substrings:
  "host_granted [demo_grant_of ''network'' [] [''api.example.com'']] ''api.example.com.attacker.net'' \<and>
   host_granted [demo_grant_of ''network'' [] [''api.example.com'']] ''com'' \<and>
   path_granted ''read'' [demo_grant_of ''read'' [''/data''] []] ''/database/secrets'' \<and>
   path_granted ''write'' [demo_grant_of ''write'' [''/out/''] []] ''/out/../etc/passwd''"
proof (intro conjI)
  show "host_granted [demo_grant_of ''network'' [] [''api.example.com'']] ''api.example.com.attacker.net''"
    by code_simp
  show "host_granted [demo_grant_of ''network'' [] [''api.example.com'']] ''com''" by code_simp
  show "path_granted ''read'' [demo_grant_of ''read'' [''/data''] []] ''/database/secrets''" by code_simp
  show "path_granted ''write'' [demo_grant_of ''write'' [''/out/''] []] ''/out/../etc/passwd''" by code_simp
qed

text \<open>A credential lease is scoped: the broker issues one only for a registered reference that
  lists both the principal and the capability, and only while its variable is set; the secret of the
  lease is the value of that variable, it can be used exactly until the time to live (at least one
  second) has passed, and dropping the lease leaves no byte of it.\<close>

theorem credential_lease_scoped:
  "case credential_lease os_env uuid now b cid pid cap ttl of
     Inr l \<Rightarrow>
       (\<exists>r. b cid = Some r \<and> pid \<in> set (cref_allowed_principals r) \<and> cap \<in> set (cref_allowed_capabilities r) \<and>
          os_env (cref_environment_variable r) = Some (cl_secret l)) \<and>
       with_secret t l f =
         (if t < now + int (max (unat ttl) 1) * 1000000 then Inr (f (cl_secret l))
          else Inl (nous_error EC_Unauthenticated ''Credential lease expired'')) \<and>
       set (cl_secret (drop_credential_lease l)) \<subseteq> {CHR 0x00}
   | Inl err \<Rightarrow>
       ne_code err \<in> {EC_NotFound, EC_PermissionDenied, EC_CapabilityDenied, EC_Unauthenticated} \<and>
       (ne_code err = EC_PermissionDenied) = (\<exists>r. b cid = Some r \<and> pid \<notin> set (cref_allowed_principals r))"
proof -
  have "unat (max ttl 1) = max (unat ttl) 1"
    by (auto simp: max_def word_le_nat_alt)
  then show ?thesis
    by (auto simp: credential_lease_def with_secret_def drop_credential_lease_def list_ex_iff
        split: option.splits)
qed

end
