(* ===== verification/Runtime_API.thy ===== *)
theory Runtime_API
  imports Log_View
begin

text \<open>
  The runtime's request types and their screening (crates/nous-types/src/runtime_api.rs), model
  compatibility (crates/nous-kernel-core/src/provider.rs), and the errors, receipts and external
  provider protocol of the kernel core (crates/nous-kernel-core/src/lib.rs).  SHA-256 in
  hexadecimal is the parameter \<open>sha_hex\<close>, the JSON parser is the parameter \<open>parse\<close>.  A 64-bit
  float is the word of its bits.
\<close>

section \<open>Requests\<close>

datatype ProviderRuntimeClass = RC_Remote | RC_Local | RC_Edge | RC_Reference | RC_Unknown

datatype DeliverySemantics =
  DS_AtMostOnce | DS_AtLeastOnce | DS_Idempotent | DS_Compensatable | DS_ExternalCommit
  | DS_Reconcilable | DS_Unknown

record ModelInvocationInput =
  mi_schema_version :: u32
  mi_capability :: string
  mi_messages :: "json list"
  mi_input :: json
  mi_tools :: "json list"
  mi_response_format :: "json option"
  mi_max_output_tokens :: "u64 option"
  mi_temperature :: "u64 option"

text \<open>The bits of the finite floats between 0 and 2: those up to the bits of 2.0, and minus zero.\<close>

definition f64_between_0_and_2 :: "u64 \<Rightarrow> bool" where
  "f64_between_0_and_2 bits \<longleftrightarrow> bits \<le> 0x4000000000000000 \<or> bits = 0x8000000000000000"

definition model_invocation_validate :: "ModelInvocationInput \<Rightarrow> string + unit" where
  "model_invocation_validate m =
     (if mi_schema_version m \<noteq> 1 then Inl ''model invocation schema_version must be 1''
      else if mi_messages m = [] \<and> mi_input m = JNull
      then Inl ''model invocation requires messages or input''
      else if mi_max_output_tokens m = Some 0 then Inl ''max_output_tokens must be positive''
      else if (case mi_temperature m of None \<Rightarrow> False | Some t \<Rightarrow> \<not> f64_between_0_and_2 t)
      then Inl ''temperature must be between 0 and 2''
      else Inr ())"

record SemanticExecutionSnapshot =
  sn_model_revision :: string
  sn_provider_revision :: string
  sn_prompt_revision :: string
  sn_tool_revision :: string
  sn_knowledge_revision :: string
  sn_policy_revision :: string
  sn_capability_revision :: string
  sn_context_revision :: string

record OperationRequest =
  op_operation_id :: string
  op_workload_id :: string
  op_step_id :: string
  op_backend :: string
  op_execution_domain :: ProviderRuntimeClass
  op_model :: string
  op_endpoint :: string
  op_credential_env :: string
  op_provider_entrypoint :: string
  op_input :: string
  op_delivery :: DeliverySemantics
  op_snapshot :: SemanticExecutionSnapshot
  op_timeout_ms :: u64

record ProviderProbeRequest =
  pr_provider :: string
  pr_backend :: string
  pr_execution_domain :: ProviderRuntimeClass
  pr_model :: string
  pr_endpoint :: string
  pr_credential_env :: string
  pr_provider_entrypoint :: string
  pr_timeout_ms :: u64

definition is_ascii_alphabetic :: "char \<Rightarrow> bool" where
  "is_ascii_alphabetic c \<longleftrightarrow>
     (let n = (of_char c :: nat) in 65 \<le> n \<and> n \<le> 90 \<or> 97 \<le> n \<and> n \<le> 122)"

definition is_ascii_alphanumeric :: "char \<Rightarrow> bool" where
  "is_ascii_alphanumeric c \<longleftrightarrow> is_ascii_alphabetic c \<or> is_ascii_digit c"

definition validate_credential_reference :: "string \<Rightarrow> string + unit" where
  "validate_credential_reference reference =
     (if reference = [] then Inr ()
      else if \<not> (hd reference = CHR ''_'' \<or> is_ascii_alphabetic (hd reference)) \<or>
              length reference > 128 \<or>
              \<not> list_all (\<lambda>c. c = CHR ''_'' \<or> is_ascii_alphanumeric c) (tl reference)
      then Inl ''credential must be an environment-variable name, not a credential value''
      else Inr ())"

text \<open>\<open>str::split_once\<close> on a string, and the first piece of \<open>str::split\<close> on a character.\<close>

fun split_once_str :: "string \<Rightarrow> string \<Rightarrow> (string \<times> string) option" where
  "split_once_str sep s =
     (if starts_with s sep then Some ([], drop (length sep) s)
      else case s of
             [] \<Rightarrow> None
           | c # cs \<Rightarrow> map_option (\<lambda>(a, b). (c # a, b)) (split_once_str sep cs))"

definition first_piece :: "char \<Rightarrow> string \<Rightarrow> string" where
  "first_piece d s = takeWhile (\<lambda>c. c \<noteq> d) s"

fun split_char :: "char \<Rightarrow> string \<Rightarrow> string list" where
  "split_char d [] = [[]]"
| "split_char d (c # cs) =
     (if c = d then [] # split_char d cs
      else case split_char d cs of [] \<Rightarrow> [[c]] | p # ps \<Rightarrow> (c # p) # ps)"

definition validate_endpoint_reference :: "string \<Rightarrow> string + unit" where
  "validate_endpoint_reference endpoint =
     (if endpoint = [] then Inr ()
      else if CHR ''?'' \<in> set endpoint \<or> CHR ''#'' \<in> set endpoint
      then Inl ''endpoint must not contain query parameters or fragments''
      else
        let authority = (case split_once_str ''://'' endpoint of
              None \<Rightarrow> [] | Some (_, rest) \<Rightarrow> first_piece (CHR ''/'') rest)
        in if authority = [] \<or> CHR ''@'' \<in> set authority
           then Inl ''endpoint is invalid or contains user information''
           else Inr ())"

text \<open>The components of a path on a Unix host: the pieces between slashes.\<close>

definition validate_provider_entrypoint :: "string \<Rightarrow> string + unit" where
  "validate_provider_entrypoint entrypoint =
     (if entrypoint = [] then Inr ()
      else if list_ex (\<lambda>component. component = ''..'') (split_char (CHR ''/'') entrypoint)
      then Inl ''provider entrypoint must not traverse parent directories''
      else if CHR 0x00 \<in> set entrypoint then Inl ''provider entrypoint contains a null byte''
      else Inr ())"

definition validate_references :: "string \<Rightarrow> string \<Rightarrow> string \<Rightarrow> string + unit" where
  "validate_references credential endpoint entrypoint =
     (case validate_credential_reference credential of
        Inl err \<Rightarrow> Inl err
      | Inr _ \<Rightarrow>
          (case validate_endpoint_reference endpoint of
             Inl err \<Rightarrow> Inl err
           | Inr _ \<Rightarrow> validate_provider_entrypoint entrypoint))"

definition op_validate_sensitive_references :: "OperationRequest \<Rightarrow> string + unit" where
  "op_validate_sensitive_references r =
     validate_references (op_credential_env r) (op_endpoint r) (op_provider_entrypoint r)"

definition probe_validate_sensitive_references :: "ProviderProbeRequest \<Rightarrow> string + unit" where
  "probe_validate_sensitive_references r =
     validate_references (pr_credential_env r) (pr_endpoint r) (pr_provider_entrypoint r)"

definition input_digest :: "(string \<Rightarrow> string) \<Rightarrow> OperationRequest \<Rightarrow> string" where
  "input_digest sha_hex r = sha_hex (op_input r)"

section \<open>Model compatibility\<close>

datatype CapabilitySupport = Supported | Unsupported | SupportUnknown

datatype ModelPrivacy = LocalOnly | ProviderManaged | PrivateEndpoint | PrivacyUnknown

datatype ModelCapability =
  MC_Chat | MC_Reasoning | MC_Tools | MC_StructuredOutput | MC_Vision | MC_Embedding | MC_Streaming
  | MC_LocalExecution | MC_RemoteExecution

record ModelCapabilityManifest =
  mm_schema_version :: u32
  mm_provider :: string
  mm_backend :: string
  mm_model :: string
  mm_runtime_class :: ProviderRuntimeClass
  mm_chat :: CapabilitySupport
  mm_streaming :: CapabilitySupport
  mm_tools :: CapabilitySupport
  mm_structured_output :: CapabilitySupport
  mm_vision :: CapabilitySupport
  mm_embedding :: CapabilitySupport
  mm_reasoning :: CapabilitySupport
  mm_local_execution :: CapabilitySupport
  mm_remote_execution :: CapabilitySupport
  mm_context_length :: "u64 option"
  mm_privacy_local :: bool
  mm_privacy :: ModelPrivacy
  mm_estimated_latency_ms :: "u64 option"
  mm_estimated_cost_microcents :: "u64 option"
  mm_probed_at_us :: int

record ProviderProbeReport =
  rep_reachable :: bool
  rep_latency_ms :: u64
  rep_available_models :: "string list"
  rep_capabilities :: ModelCapabilityManifest
  rep_warnings :: "string list"

record ModelCompatibilityRequirements =
  mcr_chat :: bool
  mcr_streaming :: bool
  mcr_tools :: bool
  mcr_structured_output :: bool
  mcr_vision :: bool
  mcr_embedding :: bool
  mcr_reasoning :: bool
  mcr_min_context_length :: u64
  mcr_local_only :: bool

datatype ModelCompatibility = Compatible | Rebindable | Degraded | Incompatible

record CompatibilityReport =
  cpr_classification :: ModelCompatibility
  cpr_reasons :: "string list"

definition capability_checks ::
  "ModelCompatibilityRequirements \<Rightarrow> ModelCapabilityManifest \<Rightarrow> (bool \<times> CapabilitySupport \<times> string) list" where
  "capability_checks r m =
     [(mcr_chat r, mm_chat m, ''chat''), (mcr_streaming r, mm_streaming m, ''streaming''),
      (mcr_tools r, mm_tools m, ''tools''),
      (mcr_structured_output r, mm_structured_output m, ''structured_output''),
      (mcr_vision r, mm_vision m, ''vision''), (mcr_embedding r, mm_embedding m, ''embedding''),
      (mcr_reasoning r, mm_reasoning m, ''reasoning'')]"

definition assess_compatibility ::
  "ModelCompatibilityRequirements \<Rightarrow> ModelCapabilityManifest \<Rightarrow> CompatibilityReport" where
  "assess_compatibility r m =
     (let checks = filter (\<lambda>(required, support, name). required) (capability_checks r m);
          incompatible1 = map (\<lambda>(required, support, name). ''missing '' @ name @ '' capability'')
            (filter (\<lambda>(required, support, name). support = Unsupported) checks);
          unknown1 = map (\<lambda>(required, support, name). name @ '' capability is unverified'')
            (filter (\<lambda>(required, support, name). support = SupportUnknown) checks);
          incompatible2 = incompatible1 @
            (if mcr_local_only r \<and> (\<not> mm_privacy_local m \<or> mm_local_execution m \<noteq> Supported)
             then [''privacy policy requires local execution''] else []);
          incompatible = incompatible2 @
            (case mm_context_length m of
               Some n \<Rightarrow>
                 if n < mcr_min_context_length r
                 then [''context length '' @ show_nat (unat n) @ '' is below required '' @
                       show_nat (unat (mcr_min_context_length r))]
                 else []
             | None \<Rightarrow> []);
          unknown = unknown1 @
            (if mm_context_length m = None \<and> mcr_min_context_length r > 0
             then [''context length is unverified''] else []);
          classification = (if incompatible \<noteq> [] then Incompatible
                            else if unknown \<noteq> [] then Degraded else Compatible)
      in \<lparr>cpr_classification = classification, cpr_reasons = incompatible @ unknown\<rparr>)"

section \<open>Kernel errors and receipts\<close>

datatype KernelState = KS_Starting | KS_Recovering | KS_Ready | KS_Degraded | KS_Failed | KS_ShuttingDown

record OperationReceipt =
  rc_operation_id :: string
  rc_input_digest :: string
  rc_output_digest :: string
  rc_snapshot_digest :: string
  rc_provider_revision :: string
  rc_result :: string
  rc_completed_at_us :: int

datatype KernelError =
    KE_Journal string
  | KE_Provider string
  | KE_Serialization string
  | KE_UnsafeRecovery string
  | KE_Cancelled string
  | KE_DeadlineExceeded string
  | KE_Admission string
  | KE_Scheduling string
  | KE_Resource string
  | KE_ShuttingDown

type_synonym 'a kernel_result = "KernelError + 'a"

fun show_kernel_error :: "KernelError \<Rightarrow> string" where
  "show_kernel_error (KE_Journal m) = ''journal error: '' @ m"
| "show_kernel_error (KE_Provider m) = ''provider process error: '' @ m"
| "show_kernel_error (KE_Serialization m) = ''serialization error: '' @ m"
| "show_kernel_error (KE_UnsafeRecovery m) = ''unsafe recovery for operation '' @ m"
| "show_kernel_error (KE_Cancelled m) = ''operation cancelled: '' @ m"
| "show_kernel_error (KE_DeadlineExceeded m) = ''operation deadline exceeded: '' @ m"
| "show_kernel_error (KE_Admission m) = ''admission denied: '' @ m"
| "show_kernel_error (KE_Scheduling m) = ''scheduling failed: '' @ m"
| "show_kernel_error (KE_Resource m) = ''resource error: '' @ m"
| "show_kernel_error KE_ShuttingDown = ''kernel is shutting down''"

fun kernel_error_code :: "KernelError \<Rightarrow> string" where
  "kernel_error_code (KE_Journal _) = ''JOURNAL_ERROR''"
| "kernel_error_code (KE_Provider _) = ''PROVIDER_ERROR''"
| "kernel_error_code (KE_Serialization _) = ''SERIALIZATION_ERROR''"
| "kernel_error_code (KE_UnsafeRecovery _) = ''UNSAFE_RECOVERY''"
| "kernel_error_code (KE_Cancelled _) = ''OPERATION_CANCELLED''"
| "kernel_error_code (KE_DeadlineExceeded _) = ''DEADLINE_EXCEEDED''"
| "kernel_error_code (KE_Admission _) = ''ADMISSION_DENIED''"
| "kernel_error_code (KE_Scheduling _) = ''NO_FEASIBLE_PLACEMENT''"
| "kernel_error_code (KE_Resource _) = ''RESOURCE_ERROR''"
| "kernel_error_code KE_ShuttingDown = ''KERNEL_SHUTTING_DOWN''"

fun kernel_error_category :: "KernelError \<Rightarrow> string" where
  "kernel_error_category (KE_Journal _) = ''state''"
| "kernel_error_category (KE_Serialization _) = ''state''"
| "kernel_error_category (KE_Provider _) = ''provider''"
| "kernel_error_category (KE_UnsafeRecovery _) = ''execution''"
| "kernel_error_category (KE_Cancelled _) = ''execution''"
| "kernel_error_category (KE_DeadlineExceeded _) = ''execution''"
| "kernel_error_category KE_ShuttingDown = ''execution''"
| "kernel_error_category (KE_Admission _) = ''resource''"
| "kernel_error_category (KE_Resource _) = ''resource''"
| "kernel_error_category (KE_Scheduling _) = ''scheduler''"

fun kernel_error_retryable :: "KernelError \<Rightarrow> bool" where
  "kernel_error_retryable (KE_Provider _) = True"
| "kernel_error_retryable (KE_Resource _) = True"
| "kernel_error_retryable (KE_DeadlineExceeded _) = True"
| "kernel_error_retryable _ = False"

fun kernel_error_source :: "KernelError \<Rightarrow> string" where
  "kernel_error_source (KE_Journal _) = ''nous-state''"
| "kernel_error_source (KE_Serialization _) = ''nous-state''"
| "kernel_error_source (KE_Provider _) = ''provider-runtime''"
| "kernel_error_source (KE_Scheduling _) = ''nous-scheduler''"
| "kernel_error_source (KE_Admission _) = ''nous-resource''"
| "kernel_error_source (KE_Resource _) = ''nous-resource''"
| "kernel_error_source _ = ''nous-kernel-core''"

section \<open>External providers\<close>

datatype ProviderCommand =
  PC_Health | PC_Probe ProviderProbeRequest | PC_Execute OperationRequest

record ProviderResponse =
  pres_ok :: bool
  pres_receipt :: "OperationReceipt option"
  pres_probe :: "ProviderProbeReport option"
  pres_error_code :: string
  pres_error_message :: string

fun json_get :: "string \<Rightarrow> json \<Rightarrow> json option" where
  "json_get k (JObject kvs) = map_of kvs k"
| "json_get k _ = None"

fun json_as_str :: "json \<Rightarrow> string option" where
  "json_as_str (JString s) = Some s"
| "json_as_str _ = None"

fun json_as_bool :: "json \<Rightarrow> bool option" where
  "json_as_bool (JBool b) = Some b"
| "json_as_bool _ = None"

definition external_provider_request :: "ProviderCommand \<Rightarrow> json" where
  "external_provider_request command =
     (case command of
        PC_Execute r \<Rightarrow> JObject
          [(''schema_version'', JNumber ''1''), (''type'', JString ''execute''),
           (''operation_id'', JString (op_operation_id r)), (''input'', JString (op_input r)),
           (''model'', JString (op_model r))]
      | PC_Probe _ \<Rightarrow> JObject [(''schema_version'', JNumber ''1''), (''type'', JString ''probe'')]
      | PC_Health \<Rightarrow> JObject [(''schema_version'', JNumber ''1''), (''type'', JString ''health'')])"

definition error_pointer :: "string \<Rightarrow> json \<Rightarrow> string option" where
  "error_pointer field body =
     Option.bind (json_get ''error'' body) (\<lambda>e. Option.bind (json_get field e) json_as_str)"

definition external_probe_report :: "int \<Rightarrow> ProviderProbeRequest \<Rightarrow> ProviderProbeReport" where
  "external_probe_report now r =
     \<lparr>rep_reachable = True, rep_latency_ms = 0, rep_available_models = [],
      rep_capabilities =
        \<lparr>mm_schema_version = 1, mm_provider = pr_provider r, mm_backend = pr_backend r,
         mm_model = pr_model r, mm_runtime_class = pr_execution_domain r,
         mm_chat = SupportUnknown, mm_streaming = SupportUnknown, mm_tools = SupportUnknown,
         mm_structured_output = SupportUnknown, mm_vision = SupportUnknown,
         mm_embedding = SupportUnknown, mm_reasoning = SupportUnknown,
         mm_local_execution = Supported, mm_remote_execution = Unsupported,
         mm_context_length = None, mm_privacy_local = True, mm_privacy = LocalOnly,
         mm_estimated_latency_ms = None, mm_estimated_cost_microcents = None,
         mm_probed_at_us = now\<rparr>,
      rep_warnings = [''generic capabilities are declared by ProviderManifest v1'']\<rparr>"

text \<open>\<open>encode_snapshot\<close> is \<open>serde_json::to_vec\<close> on the snapshot.\<close>

definition normalize_external_provider_response ::
  "(string \<Rightarrow> string + json) \<Rightarrow> (string \<Rightarrow> string) \<Rightarrow> (SemanticExecutionSnapshot \<Rightarrow> string + string) \<Rightarrow> int \<Rightarrow>
     ProviderCommand \<Rightarrow> string \<Rightarrow> ProviderResponse kernel_result" where
  "normalize_external_provider_response parse sha_hex encode_snapshot now command output =
     (case parse output of
        Inl err \<Rightarrow> Inl (KE_Provider (''malformed provider response: '' @ err))
      | Inr body \<Rightarrow>
          if Option.bind (json_get ''ok'' body) json_as_bool \<noteq> Some True
          then Inr \<lparr>pres_ok = False, pres_receipt = None, pres_probe = None,
                    pres_error_code = (case error_pointer ''code'' body of
                       None \<Rightarrow> ''PROVIDER_EXECUTION_FAILED'' | Some s \<Rightarrow> s),
                    pres_error_message = (case error_pointer ''message'' body of
                       None \<Rightarrow> ''external provider rejected the request'' | Some s \<Rightarrow> s)\<rparr>
          else
            (case command of
               PC_Execute r \<Rightarrow>
                 (case Option.bind (json_get ''output'' body) json_as_str of
                    None \<Rightarrow> Inl (KE_Provider ''external provider returned no string output'')
                  | Some result \<Rightarrow>
                      (case encode_snapshot (op_snapshot r) of
                         Inl err \<Rightarrow> Inl (KE_Serialization err)
                       | Inr bytes \<Rightarrow> Inr
                           \<lparr>pres_ok = True,
                            pres_receipt = Some
                              \<lparr>rc_operation_id = op_operation_id r,
                               rc_input_digest = input_digest sha_hex r,
                               rc_output_digest = sha_hex result, rc_snapshot_digest = sha_hex bytes,
                               rc_provider_revision = sn_provider_revision (op_snapshot r),
                               rc_result = result, rc_completed_at_us = now\<rparr>,
                            pres_probe = None, pres_error_code = [], pres_error_message = []\<rparr>))
             | PC_Probe r \<Rightarrow> Inr
                 \<lparr>pres_ok = True, pres_receipt = None, pres_probe = Some (external_probe_report now r),
                  pres_error_code = [], pres_error_message = []\<rparr>
             | PC_Health \<Rightarrow> Inr
                 \<lparr>pres_ok = True, pres_receipt = None, pres_probe = None, pres_error_code = [],
                  pres_error_message = []\<rparr>))"

section \<open>Lemmas\<close>

declare split_once_str.simps [simp del]

lemma split_once_str_step:
  "starts_with s sep \<Longrightarrow> split_once_str sep s = Some ([], drop (length sep) s)"
  "\<not> starts_with (c # cs) sep \<Longrightarrow>
     split_once_str sep (c # cs) = map_option (\<lambda>(a, b). (c # a, b)) (split_once_str sep cs)"
  by (simp_all add: split_once_str.simps [of sep s] split_once_str.simps [of sep "c # cs"])

lemma split_once_str_SomeD: "split_once_str sep s = Some (a, b) \<Longrightarrow> s = a @ sep @ b"
proof (induction s arbitrary: a)
  case Nil
  then show ?case
    by (auto simp: split_once_str.simps [of sep "[]"] starts_with_def split: if_splits)
next
  case (Cons c s)
  then show ?case
    by (cases "starts_with (c # s) sep")
      (auto simp: split_once_str.simps [of sep "c # s"] starts_with_def prefix_def)
qed

lemma first_piece_split:
  obtains rest where "s = first_piece d s @ rest" "rest = [] \<or> hd rest = d"
proof
  show "s = first_piece d s @ dropWhile (\<lambda>c. c \<noteq> d) s" by (simp add: first_piece_def)
  show "dropWhile (\<lambda>c. c \<noteq> d) s = [] \<or> hd (dropWhile (\<lambda>c. c \<noteq> d) s) = d"
    using hd_dropWhile [of "\<lambda>c. c \<noteq> d" s] by blast
qed

lemma split_char_nonempty [simp]: "split_char d s \<noteq> []"
  by (cases s) (auto split: list.split)

lemma str_join_split_char: "str_join [d] (split_char d s) = s"
proof (induction s)
  case (Cons c s)
  then show ?case
    by (cases "split_char d s"; cases "tl (split_char d s)") (auto simp: neq_Nil_conv)
qed simp

lemma all_supported_iff:
  "list_all (\<lambda>(q, s, n). s = Supported) xs \<longleftrightarrow>
     filter (\<lambda>(q, s, n). s = Unsupported) xs = [] \<and> filter (\<lambda>(q, s, n). s = SupportUnknown) xs = []"
proof (induction xs)
  case (Cons x xs)
  obtain q s n where "x = (q, s, n)" by (cases x) auto
  with Cons show ?case by (cases s) auto
qed simp

section \<open>Properties\<close>

text \<open>What passes the screening of sensitive references: the credential is empty or the name
  of an environment variable of at most 128 letters, digits and underscores that does not start
  with a digit; the endpoint is empty, or a scheme, \<open>://\<close>, a non-empty authority without user
  information and a path, with no query and no fragment anywhere; the entrypoint has no component
  that goes up and no zero byte.\<close>

theorem screened_references:
  assumes "op_validate_sensitive_references r = Inr ()"
  shows "(op_credential_env r = [] \<or>
      (\<not> is_ascii_digit (hd (op_credential_env r)) \<and> length (op_credential_env r) \<le> 128 \<and>
       list_all (\<lambda>c. c = CHR ''_'' \<or> is_ascii_alphanumeric c) (op_credential_env r))) \<and>
    (op_endpoint r = [] \<or>
      (\<exists>scheme authority path. op_endpoint r = scheme @ ''://'' @ authority @ path \<and>
         authority \<noteq> [] \<and> CHR ''@'' \<notin> set authority \<and> CHR ''/'' \<notin> set authority \<and>
         (path = [] \<or> hd path = CHR ''/'') \<and>
         set (op_endpoint r) \<inter> {CHR ''?'', CHR ''#''} = {})) \<and>
    ''..'' \<notin> set (split_char (CHR ''/'') (op_provider_entrypoint r)) \<and>
    CHR 0x00 \<notin> set (op_provider_entrypoint r)"
proof -
  have cred: "validate_credential_reference (op_credential_env r) = Inr ()"
    and endp: "validate_endpoint_reference (op_endpoint r) = Inr ()"
    and entry: "validate_provider_entrypoint (op_provider_entrypoint r) = Inr ()"
    using assms by (auto simp: op_validate_sensitive_references_def validate_references_def split: sum.splits)
  have "\<not> is_ascii_digit c" if "c = CHR ''_'' \<or> is_ascii_alphabetic c" for c
    using that by (auto simp: is_ascii_digit_def is_ascii_alphabetic_def Let_def)
  then have c: "op_credential_env r = [] \<or>
      (\<not> is_ascii_digit (hd (op_credential_env r)) \<and> length (op_credential_env r) \<le> 128 \<and>
       list_all (\<lambda>c. c = CHR ''_'' \<or> is_ascii_alphanumeric c) (op_credential_env r))"
    using cred by (cases "op_credential_env r")
      (auto simp: validate_credential_reference_def is_ascii_alphanumeric_def split: if_splits)
  have e: "op_endpoint r = [] \<or>
      (\<exists>scheme authority path. op_endpoint r = scheme @ ''://'' @ authority @ path \<and>
         authority \<noteq> [] \<and> CHR ''@'' \<notin> set authority \<and> CHR ''/'' \<notin> set authority \<and>
         (path = [] \<or> hd path = CHR ''/'') \<and>
         set (op_endpoint r) \<inter> {CHR ''?'', CHR ''#''} = {})"
  proof (cases "op_endpoint r = []")
    case False
    with endp obtain a b where split: "split_once_str ''://'' (op_endpoint r) = Some (a, b)"
        and auth: "first_piece (CHR ''/'') b \<noteq> []" "CHR ''@'' \<notin> set (first_piece (CHR ''/'') b)"
        and chars: "CHR ''?'' \<notin> set (op_endpoint r)" "CHR ''#'' \<notin> set (op_endpoint r)"
      by (auto simp: validate_endpoint_reference_def Let_def split: if_splits option.splits)
    obtain rest where rest: "b = first_piece (CHR ''/'') b @ rest" "rest = [] \<or> hd rest = CHR ''/''"
      by (rule first_piece_split)
    have "CHR ''/'' \<notin> set (first_piece (CHR ''/'') b)"
      by (auto simp: first_piece_def dest: set_takeWhileD)
    moreover have "op_endpoint r = a @ ''://'' @ first_piece (CHR ''/'') b @ rest"
      using split_once_str_SomeD [OF split] rest(1) by simp
    ultimately show ?thesis using auth chars rest(2) by blast
  qed simp
  have "''..'' \<notin> set (split_char (CHR ''/'') (op_provider_entrypoint r)) \<and>
      CHR 0x00 \<notin> set (op_provider_entrypoint r)"
    using entry by (auto simp: validate_provider_entrypoint_def list_ex_iff split: if_splits)
  with c e show ?thesis by blast
qed

definition demo_request :: OperationRequest where
  "demo_request =
     \<lparr>op_operation_id = ''op'', op_workload_id = ''w'', op_step_id = ''s'', op_backend = ''b'',
      op_execution_domain = RC_Reference, op_model = ''m'', op_endpoint = ''https://host/v1'',
      op_credential_env = ''API_KEY'', op_provider_entrypoint = [], op_input = ''i'',
      op_delivery = DS_Idempotent,
      op_snapshot = \<lparr>sn_model_revision = [], sn_provider_revision = ''p'', sn_prompt_revision = [],
        sn_tool_revision = [], sn_knowledge_revision = [], sn_policy_revision = [],
        sn_capability_revision = [], sn_context_revision = []\<rparr>,
      op_timeout_ms = 1000\<rparr>"

theorem screened_references_witness:
  "op_validate_sensitive_references demo_request = Inr () \<and>
   CHR 0x00 \<notin> set (op_provider_entrypoint demo_request)"
proof -
  have ok: "op_validate_sensitive_references demo_request = Inr ()"
    by (simp add: op_validate_sensitive_references_def validate_references_def demo_request_def
        validate_credential_reference_def is_ascii_alphanumeric_def is_ascii_alphabetic_def
        validate_endpoint_reference_def validate_provider_entrypoint_def first_piece_def
        split_once_str_step starts_with_def)
  with screened_references [OF ok] show ?thesis by blast
qed

text \<open>Compatibility is decided by the requirements: a model is compatible exactly when every
  required capability is known to be supported, a required context length is known and reached, and
  local-only execution is met where it is required; it is incompatible exactly when a required
  capability is known to be missing, the known context is too short, or execution must be local and
  is not; in between it is degraded.  Rebindable is never reported, and the reasons are empty
  exactly for compatible models.\<close>

theorem compatibility_exact:
  "let rep = assess_compatibility r m; cls = cpr_classification rep;
       required = filter (\<lambda>(q, s, n). q) (capability_checks r m);
       not_local = mcr_local_only r \<and> \<not> (mm_privacy_local m \<and> mm_local_execution m = Supported)
   in (cls = Compatible) =
        (list_all (\<lambda>(q, s, n). s = Supported) required \<and> \<not> not_local \<and>
         (case mm_context_length m of None \<Rightarrow> mcr_min_context_length r = 0
          | Some n \<Rightarrow> mcr_min_context_length r \<le> n)) \<and>
      (cls = Incompatible) =
        (list_ex (\<lambda>(q, s, n). s = Unsupported) required \<or> not_local \<or>
         (case mm_context_length m of None \<Rightarrow> False | Some n \<Rightarrow> n < mcr_min_context_length r)) \<and>
      cls \<noteq> Rebindable \<and> (cpr_reasons rep = []) = (cls = Compatible)"
proof -
  define required where "required = filter (\<lambda>(q, s, n). q) (capability_checks r m)"
  have inc: "list_ex (\<lambda>(q, s, n). s = Unsupported) required \<longleftrightarrow>
      filter (\<lambda>(q, s, n). s = Unsupported) required \<noteq> []"
    by (auto simp: filter_empty_conv list_ex_iff)
  have sup: "list_all (\<lambda>(q, s, n). s = Supported) required \<longleftrightarrow>
      filter (\<lambda>(q, s, n). s = Unsupported) required = [] \<and>
      filter (\<lambda>(q, s, n). s = SupportUnknown) required = []"
    by (rule all_supported_iff)
  have len: "0 < mcr_min_context_length r \<longleftrightarrow> mcr_min_context_length r \<noteq> 0"
    by (simp add: word_gt_0)
  define u n l where "u = filter (\<lambda>(q, s, n). s = Unsupported) required"
    and "n = filter (\<lambda>(q, s, n). s = SupportUnknown) required"
    and "l = (mcr_local_only r \<and> (\<not> mm_privacy_local m \<or> mm_local_execution m \<noteq> Supported))"
  show ?thesis
  proof (cases "mm_context_length m")
    case None
    show ?thesis
      unfolding assess_compatibility_def Let_def de_Morgan_conj required_def [symmetric] sup inc
        u_def [symmetric] n_def [symmetric] l_def [symmetric]
      by (cases "u = []"; cases "n = []"; cases l) (simp_all add: None len)
  next
    case (Some k)
    show ?thesis
      unfolding assess_compatibility_def Let_def de_Morgan_conj required_def [symmetric] sup inc
        u_def [symmetric] n_def [symmetric] l_def [symmetric]
      by (cases "u = []"; cases "n = []"; cases l; cases "k < mcr_min_context_length r") (simp_all add: Some)
  qed
qed

end
