(* ===== verification/Durable_Executor.thy ===== *)
theory Durable_Executor
  imports Runtime_API
begin

text \<open>
  The durable executor and the boot of the kernel core (crates/nous-kernel-core/src/lib.rs,
  crates/nous-kernel-core/src/fault.rs).  The provider is a parameter: \<open>xe_provider n r\<close> is its answer when
  it is called for the \<open>n\<close>-th time, with request \<open>r\<close>; the calls made are recorded in \<open>ex_calls\<close>.
  The process may stop at a fault point: the argument \<open>crash\<close> names the point, and a result
  \<open>None\<close> means that the process was aborted there, leaving what the journal holds.  Cancellation is
  observed once, where the source asks the token: the argument \<open>cancelled\<close>.
\<close>

section \<open>Boot\<close>

record BootCore =
  bc_state :: KernelState
  bc_integrity_failures :: "nat list"
  bc_journal :: Journal

definition boot_open :: "journal_env \<Rightarrow> journal_db \<Rightarrow> BootCore kernel_result" where
  "boot_open env db =
     (case fst (journal_open db) of
        Inl err \<Rightarrow> Inl (KE_Journal (show_nous_error err))
      | Inr j \<Rightarrow>
          (case verify_integrity env j of
             Inl err \<Rightarrow> Inl (KE_Journal (show_nous_error err))
           | Inr corrupted \<Rightarrow> Inr
               \<lparr>bc_state = (if corrupted = [] then KS_Ready else KS_Degraded),
                bc_integrity_failures = corrupted, bc_journal = j\<rparr>))"

definition boot_integrity_failures ::
  "journal_env \<Rightarrow> bool \<Rightarrow> BootCore \<Rightarrow> nat list kernel_result \<times> BootCore" where
  "boot_integrity_failures env verify core =
     (if verify
      then (case verify_integrity env (bc_journal core) of
              Inl err \<Rightarrow> (Inl (KE_Journal (show_nous_error err)), core)
            | Inr corrupted \<Rightarrow> (Inr corrupted, core\<lparr>bc_integrity_failures := corrupted\<rparr>))
      else (Inr (bc_integrity_failures core), core))"

definition boot_shutdown :: "BootCore \<Rightarrow> BootCore" where
  "boot_shutdown core = core\<lparr>bc_state := KS_ShuttingDown\<rparr>"

section \<open>The executor\<close>

datatype FaultPoint =
    EffectAfterIntent | EffectBeforeExecute | EffectAfterExecute | EffectAfterReceipt
  | EffectAfterCommit | ResourceAfterRelease

fun fault_point_as_str :: "FaultPoint \<Rightarrow> string" where
  "fault_point_as_str EffectAfterIntent = ''effect.after_intent''"
| "fault_point_as_str EffectBeforeExecute = ''effect.before_execute''"
| "fault_point_as_str EffectAfterExecute = ''effect.after_execute''"
| "fault_point_as_str EffectAfterReceipt = ''effect.after_receipt''"
| "fault_point_as_str EffectAfterCommit = ''effect.after_commit''"
| "fault_point_as_str ResourceAfterRelease = ''resource.after_release''"

record executor_env =
  xe_journal :: journal_env
  xe_request :: "OperationRequest codec"
  xe_receipt :: "OperationReceipt codec"
  xe_provider :: "nat \<Rightarrow> OperationRequest \<Rightarrow> OperationReceipt kernel_result"

record executor_state =
  ex_journal :: Journal
  ex_calls :: "OperationRequest list"

definition op_key :: "string \<Rightarrow> string \<Rightarrow> string" where
  "op_key operation_id what = ''operation:'' @ operation_id @ '':'' @ what"

definition operation_entry ::
  "OperationRequest \<Rightarrow> EntryType \<Rightarrow> string \<Rightarrow> string \<Rightarrow> string \<Rightarrow> string option \<Rightarrow> JournalEntry" where
  "operation_entry r ty object_type phase payload key =
     \<lparr>je_sequence = 0, je_workload_id = op_workload_id r, je_entry_type = ty,
      je_object_type = object_type, je_object_id = op_operation_id r, je_previous_phase = None,
      je_new_phase = phase, je_generation = 1, je_payload = payload,
      je_fencing_token = op_operation_id r, je_actor = ''nousd'', je_idempotency_key = key,
      je_timestamp_us = 0, je_checksum = []\<rparr>"

definition executor_append ::
  "executor_env \<Rightarrow> int \<Rightarrow> OperationRequest \<Rightarrow> EntryType \<Rightarrow> string \<Rightarrow> string \<Rightarrow> string + string \<Rightarrow> string option \<Rightarrow>
     executor_state \<Rightarrow> unit kernel_result \<times> executor_state" where
  "executor_append xe now r ty object_type phase payload key s =
     (case payload of
        Inl err \<Rightarrow> (Inl (KE_Serialization err), s)
      | Inr bytes \<Rightarrow>
          (case journal_append (xe_journal xe) now (operation_entry r ty object_type phase bytes key)
                  (ex_journal s) of
             (Inl err, j) \<Rightarrow> (Inl (KE_Journal (show_nous_error err)), s\<lparr>ex_journal := j\<rparr>)
           | (Inr _, j) \<Rightarrow> (Inr (), s\<lparr>ex_journal := j\<rparr>)))"

text \<open>The latest entry of one kind for an operation, among the entries of its workload.\<close>

definition decode_ok :: "'a codec \<Rightarrow> string \<Rightarrow> 'a option" where
  "decode_ok c bytes = (case dec c bytes of Inl _ \<Rightarrow> None | Inr x \<Rightarrow> Some x)"

definition is_step :: "EntryType \<Rightarrow> string \<Rightarrow> string \<Rightarrow> JournalEntry \<Rightarrow> bool" where
  "is_step ty object_type oid e \<longleftrightarrow>
     je_entry_type e = ty \<and> je_object_type e = object_type \<and> je_object_id e = oid"

definition latest_receipt ::
  "executor_env \<Rightarrow> EntryType \<Rightarrow> string \<Rightarrow> OperationRequest \<Rightarrow> Journal \<Rightarrow> OperationReceipt option kernel_result" where
  "latest_receipt xe ty object_type r j =
     (case read_workload (xe_journal xe) j (op_workload_id r) of
        Inl err \<Rightarrow> Inl (KE_Journal (show_nous_error err))
      | Inr entries \<Rightarrow>
          Inr (Option.bind (find (is_step ty object_type (op_operation_id r)) (rev entries))
                 (\<lambda>e. decode_ok (xe_receipt xe) (je_payload e))))"

definition committed_receipt ::
  "executor_env \<Rightarrow> OperationRequest \<Rightarrow> Journal \<Rightarrow> OperationReceipt option kernel_result" where
  "committed_receipt xe r j = latest_receipt xe ET_Commit ''StepCommit'' r j"

definition received_receipt ::
  "executor_env \<Rightarrow> OperationRequest \<Rightarrow> Journal \<Rightarrow> OperationReceipt option kernel_result" where
  "received_receipt xe r j = latest_receipt xe ET_Observation ''OperationReceipt'' r j"

definition call_provider ::
  "executor_env \<Rightarrow> OperationRequest \<Rightarrow> executor_state \<Rightarrow> OperationReceipt kernel_result \<times> executor_state" where
  "call_provider xe r s =
     (xe_provider xe (length (ex_calls s)) r, s\<lparr>ex_calls := ex_calls s @ [r]\<rparr>)"

definition commit_receipt ::
  "executor_env \<Rightarrow> int \<Rightarrow> FaultPoint option \<Rightarrow> OperationRequest \<Rightarrow> OperationReceipt \<Rightarrow> executor_state \<Rightarrow>
     OperationReceipt kernel_result option \<times> executor_state" where
  "commit_receipt xe now crash r receipt s =
     (if crash = Some EffectAfterReceipt then (None, s)
      else
        (case executor_append xe now r ET_Commit ''StepCommit'' ''COMMITTED'' (enc (xe_receipt xe) receipt)
                (Some (op_key (op_operation_id r) ''commit'')) s of
           (Inl err, s1) \<Rightarrow> (Some (Inl err), s1)
         | (Inr _, s1) \<Rightarrow>
             if crash = Some EffectAfterCommit then (None, s1) else (Some (Inr receipt), s1)))"

definition execute_effect ::
  "executor_env \<Rightarrow> int \<Rightarrow> FaultPoint option \<Rightarrow> OperationRequest \<Rightarrow> executor_state \<Rightarrow>
     OperationReceipt kernel_result option \<times> executor_state" where
  "execute_effect xe now crash r s =
     (if crash = Some EffectBeforeExecute then (None, s)
      else
        (case call_provider xe r s of
           (Inl err, s1) \<Rightarrow> (Some (Inl err), s1)
         | (Inr receipt, s1) \<Rightarrow>
             if crash = Some EffectAfterExecute then (None, s1)
             else
               (case executor_append xe now r ET_Observation ''OperationReceipt'' ''RECEIVED''
                       (enc (xe_receipt xe) receipt) (Some (op_key (op_operation_id r) ''receipt'')) s1 of
                  (Inl err, s2) \<Rightarrow> (Some (Inl err), s2)
                | (Inr _, s2) \<Rightarrow> commit_receipt xe now crash r receipt s2)))"

definition execute_cancellable ::
  "executor_env \<Rightarrow> int \<Rightarrow> bool \<Rightarrow> FaultPoint option \<Rightarrow> OperationRequest \<Rightarrow> executor_state \<Rightarrow>
     OperationReceipt kernel_result option \<times> executor_state" where
  "execute_cancellable xe now cancelled crash r s =
     (case committed_receipt xe r (ex_journal s) of
        Inl err \<Rightarrow> (Some (Inl err), s)
      | Inr (Some receipt) \<Rightarrow> (Some (Inr receipt), s)
      | Inr None \<Rightarrow>
          (case executor_append xe now r ET_Intent ''Operation'' ''PENDING'' (enc (xe_request xe) r)
                  (Some (op_key (op_operation_id r) ''intent'')) s of
             (Inl err, s1) \<Rightarrow> (Some (Inl err), s1)
           | (Inr _, s1) \<Rightarrow>
               if crash = Some EffectAfterIntent then (None, s1)
               else if cancelled then (Some (Inl (KE_Cancelled (op_operation_id r))), s1)
               else
                 (case received_receipt xe r (ex_journal s1) of
                    Inl err \<Rightarrow> (Some (Inl err), s1)
                  | Inr (Some receipt) \<Rightarrow> commit_receipt xe now crash r receipt s1
                  | Inr None \<Rightarrow> execute_effect xe now crash r s1)))"

text \<open>The pending operations: intents without a later commit or abort, by operation id.  The order
  in which the source's hash map yields them is not specified; here it is that of their first
  intent.\<close>

definition pending_step ::
  "executor_env \<Rightarrow> (string \<times> OperationRequest) list \<Rightarrow> JournalEntry \<Rightarrow> (string \<times> OperationRequest) list" where
  "pending_step xe pending e =
     (if je_entry_type e = ET_Intent \<and> je_object_type e = ''Operation''
      then (case decode_ok (xe_request xe) (je_payload e) of
              Some r \<Rightarrow> AList.update (op_operation_id r) r pending
            | None \<Rightarrow> pending)
      else if je_entry_type e = ET_Commit \<and> je_object_type e = ''StepCommit'' \<or>
              je_entry_type e = ET_Abort \<and> je_object_type e = ''Operation''
      then AList.delete (je_object_id e) pending
      else pending)"

definition pending_operations :: "executor_env \<Rightarrow> Journal \<Rightarrow> OperationRequest list kernel_result" where
  "pending_operations xe j =
     (case read_from (xe_journal xe) j 0 of
        Inl err \<Rightarrow> Inl (KE_Journal (show_nous_error err))
      | Inr entries \<Rightarrow> Inr (map snd (foldl (pending_step xe) [] entries)))"

section \<open>Keys\<close>

abbreviation intent_key :: "string \<Rightarrow> string" where
  "intent_key oid \<equiv> op_key oid ''intent''"

abbreviation receipt_key :: "string \<Rightarrow> string" where
  "receipt_key oid \<equiv> op_key oid ''receipt''"

abbreviation commit_key :: "string \<Rightarrow> string" where
  "commit_key oid \<equiv> op_key oid ''commit''"

lemma colon_append_inject:
  "CHR '':'' \<notin> set x \<Longrightarrow> CHR '':'' \<notin> set y \<Longrightarrow>
     a @ CHR '':'' # x = b @ CHR '':'' # y \<longleftrightarrow> a = b \<and> x = y"
proof -
  assume x: "CHR '':'' \<notin> set x" and y: "CHR '':'' \<notin> set y"
  have "a @ CHR '':'' # x = b @ CHR '':'' # y \<longleftrightarrow> rev x @ CHR '':'' # rev a = rev y @ CHR '':'' # rev b"
    by (metis append.assoc append_Cons append_Nil rev.simps(2) rev_append rev_rev_ident)
  then show ?thesis using append_colon_inject [of "rev x" "rev y" "rev a" "rev b"] x y by auto
qed

lemma op_key_inject:
  "CHR '':'' \<notin> set s \<Longrightarrow> CHR '':'' \<notin> set t \<Longrightarrow> op_key a s = op_key b t \<longleftrightarrow> a = b \<and> s = t"
  using colon_append_inject [of s t "''operation:'' @ a" "''operation:'' @ b"] by (simp add: op_key_def)

lemma op_keys [simp]:
  "intent_key a = intent_key b \<longleftrightarrow> a = b"
  "receipt_key a = receipt_key b \<longleftrightarrow> a = b"
  "commit_key a = commit_key b \<longleftrightarrow> a = b"
  "intent_key a \<noteq> receipt_key b" "receipt_key a \<noteq> intent_key b"
  "intent_key a \<noteq> commit_key b" "commit_key a \<noteq> intent_key b"
  "receipt_key a \<noteq> commit_key b" "commit_key a \<noteq> receipt_key b"
  by (simp_all add: op_key_inject)

section \<open>What the executor writes\<close>

text \<open>The three shapes of an entry, and the invariant of the state: the log holds such entries
  only, the receipts in them are encodings, and \<open>Q\<close> says which workloads an operation may belong
  to.\<close>

definition exec_entry :: "executor_env \<Rightarrow> JournalEntry \<Rightarrow> bool" where
  "exec_entry xe x \<longleftrightarrow>
     is_step ET_Intent ''Operation'' (je_object_id x) x \<and>
       je_idempotency_key x = Some (intent_key (je_object_id x)) \<or>
     is_step ET_Observation ''OperationReceipt'' (je_object_id x) x \<and>
       je_idempotency_key x = Some (receipt_key (je_object_id x)) \<and>
       (\<exists>r. enc (xe_receipt xe) r = Inr (je_payload x)) \<or>
     is_step ET_Commit ''StepCommit'' (je_object_id x) x \<and>
       je_idempotency_key x = Some (commit_key (je_object_id x)) \<and>
       (\<exists>r. enc (xe_receipt xe) r = Inr (je_payload x))"

text \<open>Other components write to the same journal: their entries are neither receipts nor step
  commits, and their idempotency keys are not keys of an operation that end like those of the executor.  \<open>F\<close>
  says which of these a log may hold.\<close>

definition key_tail :: "string \<Rightarrow> string" where
  "key_tail k = rev (takeWhile (\<lambda>c. c \<noteq> CHR '':'') (rev k))"

definition executor_tails :: "string set" where
  "executor_tails = {''intent'', ''receipt'', ''commit''}"

definition foreign_key :: "string \<Rightarrow> bool" where
  "foreign_key k \<longleftrightarrow> \<not> (take 10 k = ''operation:'' \<and> key_tail k \<in> executor_tails)"

definition foreign_entry :: "JournalEntry \<Rightarrow> bool" where
  "foreign_entry x \<longleftrightarrow>
     (je_entry_type x, je_object_type x) \<notin> {(ET_Observation, ''OperationReceipt''), (ET_Commit, ''StepCommit'')} \<and>
     (case je_idempotency_key x of None \<Rightarrow> True | Some k \<Rightarrow> foreign_key k)"

definition exec_inv :: "executor_env \<Rightarrow> (JournalEntry \<Rightarrow> bool) \<Rightarrow> executor_state \<Rightarrow> bool" where
  "exec_inv xe F s \<longleftrightarrow>
     journal_wf (ex_journal s) \<and>
     (\<forall>x \<in> set (journal_log (ex_journal s)). exec_entry xe x \<or> foreign_entry x \<and> F x)"

definition owned_by :: "(string \<Rightarrow> string \<Rightarrow> bool) \<Rightarrow> executor_state \<Rightarrow> bool" where
  "owned_by Q s \<longleftrightarrow>
     (\<forall>x \<in> set (journal_log (ex_journal s)). foreign_entry x \<or> Q (je_object_id x) (je_workload_id x))"

lemma key_tail_colon: "CHR '':'' \<notin> set t \<Longrightarrow> key_tail (a @ CHR '':'' # t) = t"
proof -
  assume "CHR '':'' \<notin> set t"
  then have "takeWhile (\<lambda>c. c \<noteq> CHR '':'') (rev t @ CHR '':'' # rev a) = rev t"
    by (subst takeWhile_append2) auto
  then show ?thesis by (simp add: key_tail_def)
qed

lemma key_tail_op_key [simp]: "CHR '':'' \<notin> set t \<Longrightarrow> key_tail (op_key oid t) = t"
  using key_tail_colon [of t "''operation:'' @ oid"] by (simp add: op_key_def)

lemma foreign_key_op_key [simp]: "CHR '':'' \<notin> set t \<Longrightarrow> foreign_key (op_key oid t) \<longleftrightarrow> t \<notin> executor_tails"
  by (simp add: foreign_key_def) (simp add: op_key_def)

lemma foreign_keyI: "key_tail k \<notin> executor_tails \<Longrightarrow> foreign_key k"
  by (simp add: foreign_key_def)

lemma exec_entry_not_foreign: "exec_entry xe x \<Longrightarrow> \<not> foreign_entry x"
  by (auto simp: exec_entry_def foreign_entry_def is_step_def executor_tails_def)

lemma exec_invD:
  assumes "exec_inv xe F s"
  shows "journal_wf (ex_journal s)"
    and "x \<in> set (journal_log (ex_journal s)) \<Longrightarrow> exec_entry xe x \<or> foreign_entry x \<and> F x"
  using assms by (auto simp: exec_inv_def)

text \<open>An append by the executor, seen from the log.\<close>

lemma executor_append_cases:
  assumes "journal_wf (ex_journal s)" "executor_append xe now r ty obj phase payload (Some k) s = (res, s')"
  obtains (replay) "has_key (journal_log (ex_journal s)) k" "res = Inr ()" "s' = s" "\<not> isl payload"
  | (new) x bytes where "payload = Inr bytes" "res = Inr ()" "ex_calls s' = ex_calls s"
      "journal_log (ex_journal s') = journal_log (ex_journal s) @ [x]"
      "same_content x (operation_entry r ty obj phase bytes (Some k))"
      "\<not> has_key (journal_log (ex_journal s)) k"
  | (failed) err where "res = Inl err" "ex_calls s' = ex_calls s"
      "journal_log (ex_journal s') = journal_log (ex_journal s)"
proof (cases payload)
  case (Inl err)
  with assms(2) show thesis by (intro failed [of "KE_Serialization err"]) (auto simp: executor_append_def)
next
  case (Inr bytes)
  let ?e = "operation_entry r ty obj phase bytes (Some k)"
  have key: "je_idempotency_key ?e = Some k" by (simp add: operation_entry_def)
  obtain ares j where P: "journal_append (xe_journal xe) now ?e (ex_journal s) = (ares, j)" by fastforce
  from assms(1) P show thesis
  proof (cases rule: jl.append_cases)
    case (replay k' x)
    then have "has_key (journal_log (ex_journal s)) k" using key by (auto simp: has_key_def)
    with replay P Inr assms(2) show thesis by (intro that(1)) (auto simp: executor_append_def)
  next
    case (new x)
    then have "\<not> has_key (journal_log (ex_journal s)) k" using key by blast
    with new P Inr assms(2) show thesis by (intro that(2) [of bytes x]) (auto simp: executor_append_def)
  next
    case (failed err)
    with P Inr assms(2) show thesis
      by (intro that(3) [of "KE_Journal (show_nous_error err)"]) (auto simp: executor_append_def)
  qed
qed

lemma executor_append_wf:
  "journal_wf (ex_journal s) \<Longrightarrow>
     journal_wf (ex_journal (snd (executor_append xe now r ty obj phase payload key s)))"
  using journal_wf_append [of "ex_journal s" "xe_journal xe" now]
  by (auto simp: executor_append_def split: sum.splits prod.splits) (metis snd_conv)+

definition exec_good ::
  "executor_env \<Rightarrow> (string \<Rightarrow> string \<Rightarrow> bool) \<Rightarrow> (JournalEntry \<Rightarrow> bool) \<Rightarrow> executor_state \<Rightarrow> bool" where
  "exec_good xe Q F s \<longleftrightarrow> exec_inv xe F s \<and> owned_by Q s"

lemma exec_good_append:
  assumes "exec_good xe Q F s" "Q (op_operation_id r) (op_workload_id r)"
    and "executor_append xe now r ty obj phase payload (Some k) s = (res, s')"
    and "\<And>bytes x. payload = Inr bytes \<Longrightarrow>
      same_content x (operation_entry r ty obj phase bytes (Some k)) \<Longrightarrow> exec_entry xe x"
  shows "exec_good xe Q F s'"
proof -
  have wf: "journal_wf (ex_journal s)" using assms(1) by (simp add: exec_good_def exec_inv_def)
  have wf': "journal_wf (ex_journal s')"
    using executor_append_wf [OF wf, of xe now r ty obj phase payload "Some k"] assms(3) by simp
  from wf assms(3) show ?thesis
  proof (cases rule: executor_append_cases)
    case (new x bytes)
    have "Q (je_object_id x) (je_workload_id x)"
      using new(5) assms(2) by (simp add: same_content_def operation_entry_def)
    then show ?thesis
      using assms(1) wf' new(4) assms(4) [OF new(1) new(5)]
      by (auto simp: exec_good_def exec_inv_def owned_by_def)
  qed (use assms(1) wf' in \<open>auto simp: exec_good_def exec_inv_def owned_by_def\<close>)
qed

text \<open>The three appends of the executor.\<close>

lemma intent_shape:
  "same_content x (operation_entry r ET_Intent ''Operation'' ph b (Some (intent_key (op_operation_id r)))) \<Longrightarrow>
     exec_entry xe x"
  by (simp add: exec_entry_def is_step_def same_content_def operation_entry_def)

lemma receipt_shape:
  "enc (xe_receipt xe) receipt = Inr b \<Longrightarrow>
     same_content x (operation_entry r ET_Observation ''OperationReceipt'' ph b
       (Some (receipt_key (op_operation_id r)))) \<Longrightarrow> exec_entry xe x"
  by (auto simp: exec_entry_def is_step_def same_content_def operation_entry_def)

lemma commit_shape:
  "enc (xe_receipt xe) receipt = Inr b \<Longrightarrow>
     same_content x (operation_entry r ET_Commit ''StepCommit'' ph b
       (Some (commit_key (op_operation_id r)))) \<Longrightarrow> exec_entry xe x"
  by (auto simp: exec_entry_def is_step_def same_content_def operation_entry_def)

lemma exec_good_foreign:
  assumes "exec_good xe Q F s" "journal_append (xe_journal xe) now e (ex_journal s) = (res, j)"
    and "foreign_entry e" "\<And>x. same_content x e \<Longrightarrow> F x"
  shows "exec_good xe Q F (s\<lparr>ex_journal := j\<rparr>)"
proof -
  have wf: "journal_wf (ex_journal s)" using assms(1) by (simp add: exec_good_def exec_inv_def)
  have wf': "journal_wf j" using journal_wf_append [OF wf, of "xe_journal xe" now e] assms(2) by simp
  from wf assms(2) show ?thesis
  proof (cases rule: jl.append_cases)
    case (new x)
    have "foreign_entry x" using assms(3) new by (simp add: same_content_def foreign_entry_def)
    then show ?thesis
      using assms(1) wf' new assms(4) by (auto simp: exec_good_def exec_inv_def owned_by_def)
  qed (use assms(1) wf' in \<open>auto simp: exec_good_def exec_inv_def owned_by_def\<close>)
qed

lemma exec_good_call: "exec_good xe Q F s \<Longrightarrow> exec_good xe Q F (snd (call_provider xe r s))"
  by (simp add: call_provider_def exec_good_def exec_inv_def owned_by_def)

lemma exec_good_commit:
  assumes "exec_good xe Q F s" "Q (op_operation_id r) (op_workload_id r)"
  shows "exec_good xe Q F (snd (commit_receipt xe now crash r receipt s))"
proof (cases "crash = Some EffectAfterReceipt")
  case False
  obtain res s1 where P: "executor_append xe now r ET_Commit ''StepCommit'' ''COMMITTED''
      (enc (xe_receipt xe) receipt) (Some (commit_key (op_operation_id r))) s = (res, s1)" by fastforce
  have "exec_good xe Q F s1" using exec_good_append [OF assms P] commit_shape by blast
  then show ?thesis using False P by (auto simp: commit_receipt_def split: sum.splits)
qed (simp add: commit_receipt_def assms)

lemma exec_good_effect:
  assumes "exec_good xe Q F s" "Q (op_operation_id r) (op_workload_id r)"
  shows "exec_good xe Q F (snd (execute_effect xe now crash r s))"
proof (cases "crash = Some EffectBeforeExecute")
  case False
  obtain res s1 where C: "call_provider xe r s = (res, s1)" by fastforce
  have s1: "exec_good xe Q F s1" using exec_good_call [OF assms(1), of r] C by simp
  show ?thesis
  proof (cases "isl res \<or> crash = Some EffectAfterExecute")
    case True
    then show ?thesis using C False s1 by (auto simp: execute_effect_def split: sum.splits)
  next
    case noncrash: False
    then obtain receipt where R: "res = Inr receipt" by (cases res) auto
    obtain res2 s2 where P: "executor_append xe now r ET_Observation ''OperationReceipt'' ''RECEIVED''
        (enc (xe_receipt xe) receipt) (Some (receipt_key (op_operation_id r))) s1 = (res2, s2)" by fastforce
    have s2: "exec_good xe Q F s2" using exec_good_append [OF s1 assms(2) P] receipt_shape by blast
    then show ?thesis
      using False noncrash C R P exec_good_commit [OF s2 assms(2), of now crash receipt]
      by (auto simp: execute_effect_def split: sum.splits)
  qed
qed (simp add: execute_effect_def assms)

lemma exec_good_execute:
  assumes "exec_good xe Q F s" "Q (op_operation_id r) (op_workload_id r)"
  shows "exec_good xe Q F (snd (execute_cancellable xe now cancelled crash r s))"
proof -
  obtain res s1 where P: "executor_append xe now r ET_Intent ''Operation'' ''PENDING''
      (enc (xe_request xe) r) (Some (intent_key (op_operation_id r))) s = (res, s1)" by fastforce
  have s1: "exec_good xe Q F s1" using exec_good_append [OF assms P] intent_shape by blast
  then show ?thesis
    using assms P exec_good_commit [OF s1 assms(2), of now crash] exec_good_effect [OF s1 assms(2), of now crash]
    by (auto simp: execute_cancellable_def split: sum.splits option.splits)
qed

section \<open>Reading back\<close>

lemma find_rev_filter:
  "(\<And>x. x \<in> set xs \<Longrightarrow> P x \<Longrightarrow> Q x) \<Longrightarrow> find P (rev (filter Q xs)) = find P (rev xs)"
proof (induction xs rule: rev_induct)
  case (snoc x xs)
  then show ?case by (cases "P x") (auto split: if_splits)
qed simp

definition exec_kind :: "EntryType \<Rightarrow> string \<Rightarrow> bool" where
  "exec_kind ty obj \<longleftrightarrow>
     (ty, obj) \<in> {(ET_Intent, ''Operation''), (ET_Observation, ''OperationReceipt''), (ET_Commit, ''StepCommit'')}"

lemma latest_receipt_good:
  assumes "exec_good xe Q F s" "\<And>w. Q (op_operation_id r) w \<Longrightarrow> w = op_workload_id r"
    and "exec_kind ty obj" "ty \<noteq> ET_Intent"
  shows "latest_receipt xe ty obj r (ex_journal s) =
    Inr (Option.bind (find (is_step ty obj (op_operation_id r)) (rev (journal_log (ex_journal s))))
      (\<lambda>e. decode_ok (xe_receipt xe) (je_payload e)))"
proof -
  have wf: "journal_wf (ex_journal s)" using assms(1) by (simp add: exec_good_def exec_inv_def)
  have "je_workload_id x = op_workload_id r"
    if "x \<in> set (journal_log (ex_journal s))" "is_step ty obj (op_operation_id r) x" for x
    using that assms by (auto simp: exec_good_def owned_by_def is_step_def exec_kind_def foreign_entry_def)
  then have "find (is_step ty obj (op_operation_id r))
      (rev (filter (\<lambda>e. je_workload_id e = op_workload_id r) (journal_log (ex_journal s)))) =
      find (is_step ty obj (op_operation_id r)) (rev (journal_log (ex_journal s)))"
    by (intro find_rev_filter) auto
  then show ?thesis using jl.read_wl_log [OF wf] by (simp add: latest_receipt_def)
qed

text \<open>In a good log an entry of one kind for an operation exists exactly when its key is taken, and
  there is at most one.\<close>

fun step_key :: "EntryType \<Rightarrow> string \<Rightarrow> string \<Rightarrow> string" where
  "step_key ET_Intent _ oid = intent_key oid"
| "step_key ET_Observation _ oid = receipt_key oid"
| "step_key _ _ oid = commit_key oid"

lemma exec_entry_step:
  assumes "exec_entry xe x \<or> foreign_entry x \<and> ty \<noteq> ET_Intent" "exec_kind ty obj"
  shows "is_step ty obj oid x \<longleftrightarrow> je_idempotency_key x = Some (step_key ty obj oid)"
  using assms
  by (auto simp: exec_entry_def exec_kind_def is_step_def foreign_entry_def executor_tails_def split: option.splits)

text \<open>The kinds whose entries are exactly the executor's.\<close>

definition owned_kind :: "(JournalEntry \<Rightarrow> bool) \<Rightarrow> EntryType \<Rightarrow> string \<Rightarrow> bool" where
  "owned_kind F ty obj \<longleftrightarrow> exec_kind ty obj \<and> (ty = ET_Intent \<longrightarrow> F = (\<lambda>_. False))"

lemma exec_step_iff:
  assumes "exec_good xe Q F s" "owned_kind F ty obj" "x \<in> set (journal_log (ex_journal s))"
  shows "is_step ty obj oid x \<longleftrightarrow> je_idempotency_key x = Some (step_key ty obj oid)"
  using exec_entry_step [of xe x ty obj oid] exec_invD(2) [of xe F s x] assms
  by (auto simp: exec_good_def owned_kind_def)

lemma exec_has_key:
  assumes "exec_good xe Q F s" "owned_kind F ty obj"
  shows "has_key (journal_log (ex_journal s)) (step_key ty obj oid) \<longleftrightarrow>
    (\<exists>x \<in> set (journal_log (ex_journal s)). is_step ty obj oid x)"
  using exec_step_iff [OF assms] by (auto simp: has_key_def)

lemma exec_step_unique:
  assumes "exec_good xe Q F s" "owned_kind F ty obj"
    and "x \<in> set (journal_log (ex_journal s))" "is_step ty obj oid x"
    and "y \<in> set (journal_log (ex_journal s))" "is_step ty obj oid y"
  shows "x = y"
proof -
  have inv: "exec_inv xe F s" using assms(1) by (simp add: exec_good_def)
  have "je_idempotency_key x = Some (step_key ty obj oid)" "je_idempotency_key y = Some (step_key ty obj oid)"
    using exec_step_iff [OF assms(1,2)] assms(3-6) by blast+
  then show ?thesis using journal_keys_unique [OF exec_invD(1) [OF inv] assms(3,5)] by blast
qed

lemma exec_find_step:
  assumes "exec_good xe Q F s" "owned_kind F ty obj"
    and "x \<in> set (journal_log (ex_journal s))" "is_step ty obj oid x"
  shows "find (is_step ty obj oid) (rev (journal_log (ex_journal s))) = Some x"
proof (cases "find (is_step ty obj oid) (rev (journal_log (ex_journal s)))")
  case None
  with assms(3,4) show ?thesis by (auto simp: find_None_iff)
next
  case (Some y)
  then have "y \<in> set (journal_log (ex_journal s))" "is_step ty obj oid y"
    by (auto simp: find_Some_iff) (metis length_rev nth_mem set_rev)
  with assms exec_step_unique Some show ?thesis by metis
qed

lemma exec_receipt_decodes:
  assumes "codec_roundtrip (xe_receipt xe)" "exec_good xe Q F s"
    and "x \<in> set (journal_log (ex_journal s))" "is_step ty obj oid x" "exec_kind ty obj" "ty \<noteq> ET_Intent"
  shows "\<exists>receipt. enc (xe_receipt xe) receipt = Inr (je_payload x) \<and>
    decode_ok (xe_receipt xe) (je_payload x) = Some receipt"
proof -
  have "exec_entry xe x"
    using assms(2-6) by (auto simp: exec_good_def exec_inv_def foreign_entry_def exec_kind_def is_step_def)
  then obtain receipt where "enc (xe_receipt xe) receipt = Inr (je_payload x)"
    using assms(4-6) by (auto simp: exec_entry_def is_step_def exec_kind_def)
  then show ?thesis using codec_roundtripD [OF assms(1)] by (auto simp: decode_ok_def)
qed

text \<open>The receipt a good log holds for an operation under one kind.\<close>

definition log_receipt :: "executor_env \<Rightarrow> EntryType \<Rightarrow> string \<Rightarrow> string \<Rightarrow> executor_state \<Rightarrow> OperationReceipt option" where
  "log_receipt xe ty obj oid s =
     Option.bind (find (is_step ty obj oid) (rev (journal_log (ex_journal s))))
       (\<lambda>e. decode_ok (xe_receipt xe) (je_payload e))"

lemma log_receipt_None:
  assumes "codec_roundtrip (xe_receipt xe)" "exec_good xe Q F s" "exec_kind ty obj" "ty \<noteq> ET_Intent"
  shows "log_receipt xe ty obj oid s = None \<longleftrightarrow> \<not> has_key (journal_log (ex_journal s)) (step_key ty obj oid)"
proof -
  have own: "owned_kind F ty obj" using assms(3,4) by (simp add: owned_kind_def)
  show ?thesis
  proof (cases "has_key (journal_log (ex_journal s)) (step_key ty obj oid)")
    case True
    then obtain x where x: "x \<in> set (journal_log (ex_journal s))" "is_step ty obj oid x"
      using exec_has_key [OF assms(2) own] by blast
    then show ?thesis
      using True exec_find_step [OF assms(2) own x] exec_receipt_decodes [OF assms(1,2) x assms(3,4)]
      by (auto simp: log_receipt_def)
  next
    case False
    then have "find (is_step ty obj oid) (rev (journal_log (ex_journal s))) = None"
      using exec_has_key [OF assms(2) own] by (auto simp: find_None_iff)
    then show ?thesis using False by (simp add: log_receipt_def)
  qed
qed

section \<open>Histories of executions\<close>

type_synonym exec_call = "int \<times> bool \<times> FaultPoint option \<times> OperationRequest"

definition exec_run :: "executor_env \<Rightarrow> exec_call list \<Rightarrow> executor_state \<Rightarrow> executor_state" where
  "exec_run xe calls s =
     fold (\<lambda>(now, cancelled, crash, r) s. snd (execute_cancellable xe now cancelled crash r s)) calls s"

definition exec_start :: executor_state where
  "exec_start = \<lparr>ex_journal = journal_open_in_memory, ex_calls = []\<rparr>"

definition call_request :: "exec_call \<Rightarrow> OperationRequest" where
  "call_request c = (case c of (now, cancelled, crash, r) \<Rightarrow> r)"

lemma exec_good_start: "exec_good xe Q F exec_start"
  using journal_honest_open_in_memory
  by (auto simp: exec_good_def exec_inv_def owned_by_def exec_start_def journal_honest_def journal_log_def
      journal_open_in_memory_def map_filter_simps)

lemma exec_good_run:
  assumes "\<And>c. c \<in> set calls \<Longrightarrow> Q (op_operation_id (call_request c)) (op_workload_id (call_request c))"
  shows "exec_good xe Q F s \<Longrightarrow> exec_good xe Q F (exec_run xe calls s)"
  using assms
proof (induction calls arbitrary: s)
  case (Cons c calls)
  obtain now cancelled crash r where c: "c = (now, cancelled, crash, r)" by (cases c) auto
  have "Q (op_operation_id r) (op_workload_id r)" using Cons.prems(2) [of c] c by (simp add: call_request_def)
  then have "exec_good xe Q F (snd (execute_cancellable xe now cancelled crash r s))"
    by (rule exec_good_execute [OF Cons.prems(1)])
  then show ?case using Cons c by (simp add: exec_run_def)
qed (simp add: exec_run_def)

lemma journal_log_distinct: "journal_wf j \<Longrightarrow> distinct (journal_log j)"
proof -
  assume wf: "journal_wf j"
  then have "distinct (map row_sequence (db_rows (jn_db j)))"
    by (auto simp: journal_wf_def strict_sorted_iff)
  then show ?thesis
    using journal_log_sequences [OF wf] by (metis distinct_map)
qed

lemma length_filter_le_1:
  "distinct xs \<Longrightarrow> (\<And>x y. x \<in> set xs \<Longrightarrow> y \<in> set xs \<Longrightarrow> P x \<Longrightarrow> P y \<Longrightarrow> x = y) \<Longrightarrow>
     length (filter P xs) \<le> 1"
proof (induction xs)
  case (Cons x xs)
  show ?case
  proof (cases "P x")
    case True
    then have "filter P xs = []" using Cons.prems by (auto simp: filter_empty_conv)
    with True show ?thesis by simp
  next
    case False
    with Cons show ?thesis by simp
  qed
qed simp

lemma no_key_append:
  assumes "journal_wf (ex_journal s)"
    and "executor_append xe now r ty obj phase payload (Some k) s = (res, s')"
    and "k' \<noteq> k" "\<not> has_key (journal_log (ex_journal s)) k'"
  shows "\<not> has_key (journal_log (ex_journal s')) k'"
  using assms(1,2)
  by (cases rule: executor_append_cases)
    (use assms(3,4) in \<open>auto simp: has_key_def same_content_def operation_entry_def\<close>)

lemma log_receipt_snoc:
  "journal_log (ex_journal s') = journal_log (ex_journal s) @ [x] \<Longrightarrow> is_step ty obj oid x \<Longrightarrow>
     log_receipt xe ty obj oid s' = decode_ok (xe_receipt xe) (je_payload x)"
  by (simp add: log_receipt_def)

text \<open>A commit that succeeds over a log without a commit for the operation is in the log.\<close>

lemma commit_receipt_durable:
  assumes "codec_roundtrip (xe_receipt xe)" "journal_wf (ex_journal s)"
    and "\<not> has_key (journal_log (ex_journal s)) (commit_key (op_operation_id r))"
    and "commit_receipt xe now crash r receipt s = (Some (Inr rc), s')"
  shows "rc = receipt \<and> log_receipt xe ET_Commit ''StepCommit'' (op_operation_id r) s' = Some rc"
proof -
  obtain res s1 where P: "executor_append xe now r ET_Commit ''StepCommit'' ''COMMITTED''
      (enc (xe_receipt xe) receipt) (Some (commit_key (op_operation_id r))) s = (res, s1)" by fastforce
  have ok: "res = Inr ()" "rc = receipt" "s' = s1"
    using assms(4) P by (auto simp: commit_receipt_def split: if_splits sum.splits)
  from assms(2) P show ?thesis
  proof (cases rule: executor_append_cases)
    case (new x bytes)
    have "is_step ET_Commit ''StepCommit'' (op_operation_id r) x" "je_payload x = bytes"
      using new(5) by (simp_all add: is_step_def same_content_def operation_entry_def)
    then show ?thesis
      using ok new(1) log_receipt_snoc [OF new(4)] codec_roundtripD [OF assms(1)] by (simp add: decode_ok_def)
  qed (use assms(3) ok in auto)
qed

lemma execute_effect_durable:
  assumes "codec_roundtrip (xe_receipt xe)" "journal_wf (ex_journal s)"
    and "\<not> has_key (journal_log (ex_journal s)) (commit_key (op_operation_id r))"
    and "execute_effect xe now crash r s = (Some (Inr rc), s')"
  shows "log_receipt xe ET_Commit ''StepCommit'' (op_operation_id r) s' = Some rc"
proof -
  obtain receipt where R: "xe_provider xe (length (ex_calls s)) r = Inr receipt"
    using assms(4) by (auto simp: execute_effect_def call_provider_def split: if_splits sum.splits)
  let ?s1 = "s\<lparr>ex_calls := ex_calls s @ [r]\<rparr>"
  obtain res s2 where P: "executor_append xe now r ET_Observation ''OperationReceipt'' ''RECEIVED''
      (enc (xe_receipt xe) receipt) (Some (receipt_key (op_operation_id r))) ?s1 = (res, s2)" by fastforce
  have wf1: "journal_wf (ex_journal ?s1)" using assms(2) by simp
  have wf2: "journal_wf (ex_journal s2)" using executor_append_wf [OF wf1] P by (metis snd_conv)
  have nk: "\<not> has_key (journal_log (ex_journal s2)) (commit_key (op_operation_id r))"
    using no_key_append [OF wf1 P] assms(3) by simp
  have "commit_receipt xe now crash r receipt s2 = (Some (Inr rc), s')"
    using assms(4) R P by (auto simp: execute_effect_def call_provider_def split: if_splits sum.splits)
  from commit_receipt_durable [OF assms(1) wf2 nk this] show ?thesis by simp
qed

lemma execute_durable:
  assumes rt: "codec_roundtrip (xe_receipt xe)" and good: "exec_good xe Q F s"
    and mine: "\<And>w. Q (op_operation_id r) w \<longleftrightarrow> w = op_workload_id r"
    and run: "execute_cancellable xe now cancelled crash r s = (Some (Inr rc), s')"
  shows "committed_receipt xe r (ex_journal s') = Inr (Some rc)"
proof -
  let ?oid = "op_operation_id r"
  have wf: "journal_wf (ex_journal s)" using good by (simp add: exec_good_def exec_inv_def)
  have good': "exec_good xe Q F s'"
    using exec_good_execute [OF good, of r now cancelled crash] mine run by simp
  have latest: "committed_receipt xe r (ex_journal t) = Inr (log_receipt xe ET_Commit ''StepCommit'' ?oid t)"
    if "exec_good xe Q F t" for t
    using latest_receipt_good [OF that, of r] mine by (simp add: committed_receipt_def log_receipt_def exec_kind_def)
  show ?thesis
  proof (cases "log_receipt xe ET_Commit ''StepCommit'' ?oid s")
    case (Some receipt)
    with run latest [OF good] show ?thesis by (simp add: execute_cancellable_def)
  next
    case None
    have nk: "\<not> has_key (journal_log (ex_journal s)) (commit_key ?oid)"
      using None log_receipt_None [OF rt good, of ET_Commit "''StepCommit''" ?oid] by (simp add: exec_kind_def)
    obtain res s1 where P: "executor_append xe now r ET_Intent ''Operation'' ''PENDING''
        (enc (xe_request xe) r) (Some (intent_key ?oid)) s = (res, s1)" by fastforce
    have wf1: "journal_wf (ex_journal s1)" using executor_append_wf [OF wf] P by (metis snd_conv)
    have nk1: "\<not> has_key (journal_log (ex_journal s1)) (commit_key ?oid)"
      using no_key_append [OF wf P] nk by simp
    have "(\<exists>receipt. commit_receipt xe now crash r receipt s1 = (Some (Inr rc), s')) \<or>
        execute_effect xe now crash r s1 = (Some (Inr rc), s')"
      using run P None latest [OF good]
      by (auto simp: execute_cancellable_def split: if_splits sum.splits option.splits)
    then have "log_receipt xe ET_Commit ''StepCommit'' ?oid s' = Some rc"
      using commit_receipt_durable [OF rt wf1 nk1] execute_effect_durable [OF rt wf1 nk1] by blast
    with latest [OF good'] show ?thesis by simp
  qed
qed

section \<open>Executions over healthy storage\<close>

text \<open>Storage that takes the next \<open>n\<close> appends.\<close>

definition healthy :: "nat \<Rightarrow> executor_state \<Rightarrow> bool" where
  "healthy n s \<longleftrightarrow> jn_faults (ex_journal s) = [] \<and> jn_next_sequence (ex_journal s) + n \<le> i64_max + 1"

lemma healthy_mono: "healthy n s \<Longrightarrow> m \<le> n \<Longrightarrow> healthy m s"
  by (simp add: healthy_def)

lemma healthy_append:
  "healthy (Suc n) s \<Longrightarrow> healthy n (snd (executor_append xe now r ty obj phase payload key s))"
proof (cases payload)
  case (Inr bytes)
  let ?e = "operation_entry r ty obj phase bytes key"
  assume "healthy (Suc n) s"
  then show ?thesis
    using journal_append_frame [of "ex_journal s" "xe_journal xe" now ?e] Inr
    by (auto simp: healthy_def executor_append_def split: sum.split prod.split)
qed (simp add: healthy_def executor_append_def)

text \<open>Over healthy storage an append succeeds and its key is then in the log.\<close>

lemma executor_append_ok:
  assumes "journal_wf (ex_journal s)" "healthy (Suc n) s" "payload = Inr bytes"
  shows "\<exists>s'. executor_append xe now r ty obj phase payload (Some k) s = (Inr (), s') \<and> healthy n s' \<and>
    ex_calls s' = ex_calls s \<and> has_key (journal_log (ex_journal s')) k"
proof -
  let ?e = "operation_entry r ty obj phase bytes (Some k)"
  obtain res s' where P: "executor_append xe now r ty obj phase payload (Some k) s = (res, s')" by fastforce
  have h: "healthy n s'" using healthy_append [OF assms(2), of xe now r ty obj phase payload "Some k"] P by simp
  obtain ares j' where J: "journal_append (xe_journal xe) now ?e (ex_journal s) = (ares, j')" by fastforce
  have "je_generation ?e \<le> i64_max" by (simp add: operation_entry_def i64_max_def)
  with journal_append_succeeds [OF J] assms(1,2) obtain m where "ares = Inr m" by (auto simp: healthy_def)
  then have res: "res = Inr ()" using P J assms(3) by (simp add: executor_append_def)
  from assms(1) P show ?thesis
  proof (cases rule: executor_append_cases)
    case replay
    then show ?thesis using P h by auto
  next
    case (new x b)
    then have "has_key (journal_log (ex_journal s')) k"
      by (auto simp: has_key_def same_content_def operation_entry_def)
    then show ?thesis using P h new by auto
  qed (use res in simp)
qed

text \<open>One execution stage after the other.  \<open>stage_ok\<close> collects what holds of the state in between.\<close>

definition stage_ok :: "executor_env \<Rightarrow> (string \<Rightarrow> string \<Rightarrow> bool) \<Rightarrow> OperationRequest \<Rightarrow> nat \<Rightarrow> executor_state \<Rightarrow> bool" where
  "stage_ok xe Q r n s \<longleftrightarrow>
     codec_roundtrip (xe_receipt xe) \<and> exec_good xe Q (\<lambda>_. True) s \<and> healthy n s \<and>
     (\<forall>w. Q (op_operation_id r) w = (w = op_workload_id r))"

abbreviation receipt_of :: "executor_env \<Rightarrow> OperationRequest \<Rightarrow> executor_state \<Rightarrow> OperationReceipt option" where
  "receipt_of xe r s \<equiv> log_receipt xe ET_Observation ''OperationReceipt'' (op_operation_id r) s"

abbreviation commit_of :: "executor_env \<Rightarrow> OperationRequest \<Rightarrow> executor_state \<Rightarrow> OperationReceipt option" where
  "commit_of xe r s \<equiv> log_receipt xe ET_Commit ''StepCommit'' (op_operation_id r) s"

lemma stage_reads:
  assumes "stage_ok xe Q r n s"
  shows "committed_receipt xe r (ex_journal s) = Inr (commit_of xe r s)"
    and "received_receipt xe r (ex_journal s) = Inr (receipt_of xe r s)"
    and "commit_of xe r s = None \<longleftrightarrow> \<not> has_key (journal_log (ex_journal s)) (commit_key (op_operation_id r))"
    and "receipt_of xe r s = None \<longleftrightarrow> \<not> has_key (journal_log (ex_journal s)) (receipt_key (op_operation_id r))"
    and "journal_wf (ex_journal s)"
  using assms latest_receipt_good [of xe Q "\<lambda>_. True" s r]
    log_receipt_None [of xe Q "\<lambda>_. True" s ET_Commit "''StepCommit''" "op_operation_id r"]
    log_receipt_None [of xe Q "\<lambda>_. True" s ET_Observation "''OperationReceipt''" "op_operation_id r"]
  by (auto simp: stage_ok_def committed_receipt_def received_receipt_def log_receipt_def exec_kind_def
      exec_good_def exec_inv_def)

lemma stage_append_other:
  assumes "journal_wf (ex_journal s)"
    and "executor_append xe now r ty obj phase payload (Some k) s = (Inr (), s')"
    and "ty \<noteq> ty' \<or> obj \<noteq> obj'"
  shows "log_receipt xe ty' obj' oid s' = log_receipt xe ty' obj' oid s"
  using assms(1,2)
  by (cases rule: executor_append_cases)
    (use assms(3) in \<open>auto simp: log_receipt_def is_step_def same_content_def operation_entry_def\<close>)

lemma stage_append_this:
  assumes "stage_ok xe Q r (Suc n) s" "enc (xe_receipt xe) receipt = Inr bytes"
    and "\<not> has_key (journal_log (ex_journal s)) k"
    and "executor_append xe now r ty obj phase (enc (xe_receipt xe) receipt) (Some k) s = (Inr (), s')"
  shows "log_receipt xe ty obj (op_operation_id r) s' = Some receipt"
  using stage_reads(5) [OF assms(1)] assms(4)
proof (cases rule: executor_append_cases)
  case (new x b)
  have "is_step ty obj (op_operation_id r) x" "je_payload x = b"
    using new(5) by (simp_all add: is_step_def same_content_def operation_entry_def)
  then show ?thesis
    using log_receipt_snoc [OF new(4)] new(1) assms(1) codec_roundtripD [of "xe_receipt xe"]
    by (simp add: stage_ok_def decode_ok_def)
qed (use assms(3) in auto)

lemma commit_stage:
  assumes st: "stage_ok xe Q r (Suc n) s" and fresh: "commit_of xe r s = None"
    and enc: "enc (xe_receipt xe) receipt = Inr bytes" and crash: "crash \<noteq> Some EffectAfterReceipt"
  shows "\<exists>s'. commit_receipt xe now crash r receipt s =
      (if crash = Some EffectAfterCommit then None else Some (Inr receipt), s') \<and>
    stage_ok xe Q r n s' \<and> ex_calls s' = ex_calls s \<and> commit_of xe r s' = Some receipt"
proof -
  let ?k = "commit_key (op_operation_id r)"
  have nk: "\<not> has_key (journal_log (ex_journal s)) ?k" using stage_reads(3) [OF st] fresh by simp
  have h: "healthy (Suc n) s" using st by (simp add: stage_ok_def)
  obtain s' where P: "executor_append xe now r ET_Commit ''StepCommit'' ''COMMITTED''
      (enc (xe_receipt xe) receipt) (Some ?k) s = (Inr (), s')" "healthy n s'" "ex_calls s' = ex_calls s"
    using executor_append_ok [OF stage_reads(5) [OF st] h enc] by blast
  have "exec_good xe Q (\<lambda>_. True) s'"
    using exec_good_append [OF _ _ P(1)] commit_shape st by (auto simp: stage_ok_def)
  moreover have "commit_of xe r s' = Some receipt" by (rule stage_append_this [OF st enc nk P(1)])
  ultimately show ?thesis using P crash st by (auto simp: commit_receipt_def stage_ok_def)
qed

lemma effect_stage:
  assumes st: "stage_ok xe Q r (Suc (Suc n)) s" and fresh: "commit_of xe r s = None" "receipt_of xe r s = None"
    and prov: "xe_provider xe (length (ex_calls s)) r = Inr receipt"
    and enc: "enc (xe_receipt xe) receipt = Inr bytes"
    and crash: "crash \<notin> {Some EffectBeforeExecute, Some EffectAfterExecute}"
  shows "\<exists>s'. execute_effect xe now crash r s =
      (if crash \<in> {Some EffectAfterReceipt, Some EffectAfterCommit} then None else Some (Inr receipt), s') \<and>
    stage_ok xe Q r n s' \<and> ex_calls s' = ex_calls s @ [r] \<and> receipt_of xe r s' = Some receipt \<and>
    commit_of xe r s' = (if crash = Some EffectAfterReceipt then None else Some receipt)"
proof -
  let ?s1 = "s\<lparr>ex_calls := ex_calls s @ [r]\<rparr>" and ?k = "receipt_key (op_operation_id r)"
  have st1: "stage_ok xe Q r (Suc (Suc n)) ?s1"
    using st exec_good_call [of xe Q "\<lambda>_. True" s r] by (simp add: stage_ok_def healthy_def call_provider_def)
  have nk: "\<not> has_key (journal_log (ex_journal ?s1)) ?k" using stage_reads(4) [OF st] fresh by simp
  have h1: "healthy (Suc (Suc n)) ?s1" using st1 by (simp add: stage_ok_def)
  obtain s2 where P: "executor_append xe now r ET_Observation ''OperationReceipt'' ''RECEIVED''
      (enc (xe_receipt xe) receipt) (Some ?k) ?s1 = (Inr (), s2)" "healthy (Suc n) s2" "ex_calls s2 = ex_calls s @ [r]"
    using executor_append_ok [OF stage_reads(5) [OF st1] h1 enc, of xe now r ET_Observation
        "''OperationReceipt''" "''RECEIVED''" ?k] by auto
  have good2: "exec_good xe Q (\<lambda>_. True) s2"
    using exec_good_append [OF _ _ P(1)] receipt_shape st1 by (auto simp: stage_ok_def)
  have st2: "stage_ok xe Q r (Suc n) s2" using good2 P(2) st by (simp add: stage_ok_def)
  have c2: "commit_of xe r s2 = None"
    using stage_append_other [OF stage_reads(5) [OF st1] P(1)] fresh by (simp add: log_receipt_def)
  have r2: "receipt_of xe r s2 = Some receipt" by (rule stage_append_this [OF st1 enc nk P(1)])
  have eq: "execute_effect xe now crash r s = commit_receipt xe now crash r receipt s2"
    using crash prov P(1) by (simp add: execute_effect_def call_provider_def)
  show ?thesis
  proof (cases "crash = Some EffectAfterReceipt")
    case True
    then show ?thesis using eq c2 r2 P healthy_mono [OF P(2)] st2
      by (auto simp: commit_receipt_def stage_ok_def)
  next
    case False
    then obtain s3 where C: "commit_receipt xe now crash r receipt s2 =
        (if crash = Some EffectAfterCommit then None else Some (Inr receipt), s3)"
        "stage_ok xe Q r n s3" "ex_calls s3 = ex_calls s2" "commit_of xe r s3 = Some receipt"
      using commit_stage [OF st2 c2 enc] by blast
    have "receipt_of xe r s3 = Some receipt"
    proof -
      obtain res s4 where A: "executor_append xe now r ET_Commit ''StepCommit'' ''COMMITTED''
          (enc (xe_receipt xe) receipt) (Some (commit_key (op_operation_id r))) s2 = (res, s4)" by fastforce
      have "s4 = s3 \<and> res = Inr ()"
        using C(1) A False by (auto simp: commit_receipt_def split: sum.splits if_splits)
      then show ?thesis
        using stage_append_other [OF stage_reads(5) [OF st2]] A r2 by simp
    qed
    with C eq False P(3) show ?thesis by auto
  qed
qed

lemma intent_stage:
  assumes st: "stage_ok xe Q r (Suc n) s" and fresh: "commit_of xe r s = None"
    and enc: "enc (xe_request xe) r = Inr q"
  shows "\<exists>s1. stage_ok xe Q r n s1 \<and> ex_calls s1 = ex_calls s \<and> commit_of xe r s1 = None \<and>
    receipt_of xe r s1 = receipt_of xe r s \<and>
    has_key (journal_log (ex_journal s1)) (intent_key (op_operation_id r)) \<and>
    execute_cancellable xe now False crash r s =
      (if crash = Some EffectAfterIntent then (None, s1)
       else case receipt_of xe r s of
              Some receipt \<Rightarrow> commit_receipt xe now crash r receipt s1
            | None \<Rightarrow> execute_effect xe now crash r s1)"
proof -
  have h: "healthy (Suc n) s" using st by (simp add: stage_ok_def)
  obtain s1 where P: "executor_append xe now r ET_Intent ''Operation'' ''PENDING'' (enc (xe_request xe) r)
      (Some (intent_key (op_operation_id r))) s = (Inr (), s1)" "healthy n s1" "ex_calls s1 = ex_calls s"
      "has_key (journal_log (ex_journal s1)) (intent_key (op_operation_id r))"
    using executor_append_ok [OF stage_reads(5) [OF st] h enc] by blast
  have "exec_good xe Q (\<lambda>_. True) s1"
    using exec_good_append [OF _ _ P(1)] intent_shape st by (auto simp: stage_ok_def)
  with P st have st1: "stage_ok xe Q r n s1" by (simp add: stage_ok_def)
  have same: "commit_of xe r s1 = None" "receipt_of xe r s1 = receipt_of xe r s"
    using stage_append_other [OF stage_reads(5) [OF st] P(1)] fresh by simp_all
  show ?thesis
    using P st1 same fresh stage_reads(1) [OF st] stage_reads(2) [OF st1]
    by (intro exI [of _ s1]) (simp add: execute_cancellable_def split: option.split)
qed

text \<open>A first attempt that is aborted, and an attempt without an abort.\<close>

lemma first_attempt:
  assumes st: "stage_ok xe Q r (Suc 5) s" and fresh: "commit_of xe r s = None" "receipt_of xe r s = None"
    and encq: "enc (xe_request xe) r = Inr q"
    and prov: "\<forall>n. xe_provider xe n r = Inr receipt" and enc: "enc (xe_receipt xe) receipt = Inr bytes"
    and s'_def: "s' = snd (execute_cancellable xe now False (Some point) r s)"
  shows "stage_ok xe Q r 3 s' \<and>
      length (ex_calls s') = length (ex_calls s) + (if point \<in> {EffectAfterIntent, EffectBeforeExecute} then 0 else 1) \<and>
      (if point \<in> {EffectAfterIntent, EffectBeforeExecute, EffectAfterExecute}
       then receipt_of xe r s' = None \<and> commit_of xe r s' = None
       else receipt_of xe r s' = Some receipt \<and>
            commit_of xe r s' = (if point = EffectAfterReceipt then None else Some receipt))"
proof -
  obtain s1 where s1: "stage_ok xe Q r 5 s1" "ex_calls s1 = ex_calls s" "commit_of xe r s1 = None"
      "receipt_of xe r s1 = None"
      "execute_cancellable xe now False (Some point) r s =
        (if point = EffectAfterIntent then (None, s1) else execute_effect xe now (Some point) r s1)"
    using intent_stage [OF st fresh(1) encq, of now "Some point"] fresh(2) by auto
  have st1: "stage_ok xe Q r (Suc (Suc 3)) s1" using s1(1) by (simp add: numeral_eq_Suc)
  have early: "stage_ok xe Q r 3 s1" using st1 healthy_mono by (auto simp: stage_ok_def)
  have called: "stage_ok xe Q r 3 (s1\<lparr>ex_calls := ex_calls s1 @ [r]\<rparr>)"
    using early exec_good_call [of xe Q "\<lambda>_. True" s1 r] by (simp add: stage_ok_def healthy_def call_provider_def)
  show ?thesis
  proof (cases "point \<in> {EffectAfterIntent, EffectBeforeExecute, EffectAfterExecute}")
    case True
    then show ?thesis
      using s1 early called prov
      by (auto simp: s'_def execute_effect_def call_provider_def log_receipt_def)
  next
    case False
    then obtain s2 where "execute_effect xe now (Some point) r s1 =
        (if Some point \<in> {Some EffectAfterReceipt, Some EffectAfterCommit} then None else Some (Inr receipt), s2)"
        "stage_ok xe Q r 3 s2" "ex_calls s2 = ex_calls s1 @ [r]" "receipt_of xe r s2 = Some receipt"
        "commit_of xe r s2 = (if Some point = Some EffectAfterReceipt then None else Some receipt)"
      using effect_stage [OF st1 s1(3,4) _ enc, of "Some point" now] prov by auto
    then show ?thesis using s1 False by (auto simp: s'_def)
  qed
qed

lemma second_attempt:
  assumes st: "stage_ok xe Q r (Suc (Suc (Suc 0))) s"
    and encq: "enc (xe_request xe) r = Inr q"
    and "receipt_of xe r s = None \<or> receipt_of xe r s = Some receipt"
    and "commit_of xe r s = None \<or> commit_of xe r s = Some receipt \<and> receipt_of xe r s = Some receipt"
    and prov: "\<forall>n. xe_provider xe n r = Inr receipt" and enc: "enc (xe_receipt xe) receipt = Inr bytes"
  shows "case execute_cancellable xe now False None r s of (res, s') \<Rightarrow>
      res = Some (Inr receipt) \<and> committed_receipt xe r (ex_journal s') = Inr (Some receipt) \<and>
      length (ex_calls s') = length (ex_calls s) + (if receipt_of xe r s = None then 1 else 0)"
proof (cases "commit_of xe r s")
  case (Some rc)
  then show ?thesis using assms(4) stage_reads(1) [OF st] by (simp add: execute_cancellable_def)
next
  case None
  obtain s1 where s1: "stage_ok xe Q r (Suc (Suc 0)) s1" "ex_calls s1 = ex_calls s" "commit_of xe r s1 = None"
      "receipt_of xe r s1 = receipt_of xe r s"
      "execute_cancellable xe now False None r s =
        (case receipt_of xe r s of
           Some receipt \<Rightarrow> commit_receipt xe now None r receipt s1
         | None \<Rightarrow> execute_effect xe now None r s1)"
    using intent_stage [OF st None encq, of now None] by auto
  show ?thesis
  proof (cases "receipt_of xe r s")
    case (Some rc)
    then have "rc = receipt" using assms(3) by simp
    then show ?thesis
      using commit_stage [OF s1(1,3) enc, of None now] s1 Some stage_reads(1) by fastforce
  next
    case none: None
    then show ?thesis
      using effect_stage [OF s1(1,3) _ _ enc, of None now] prov s1 stage_reads(1) by fastforce
  qed
qed

text \<open>Keys stay taken, and an append under a taken key is replayed.\<close>

lemma executor_append_replays:
  assumes "journal_wf (ex_journal s)" "has_key (journal_log (ex_journal s)) k"
  shows "executor_append xe now r ty obj phase (Inr b) (Some k) s = (Inr (), s)"
proof -
  let ?e = "operation_entry r ty obj phase b (Some k)"
  have "je_idempotency_key ?e = Some k" by (simp add: operation_entry_def)
  then obtain n where "journal_append (xe_journal xe) now ?e (ex_journal s) = (Inr n, ex_journal s)"
    using jl.append_replay [OF assms(1) _ assms(2)] by blast
  then show ?thesis by (simp add: executor_append_def)
qed

lemma append_keeps_key:
  assumes "journal_wf (ex_journal s)" "has_key (journal_log (ex_journal s)) k'"
  shows "has_key (journal_log (ex_journal (snd (executor_append xe now r ty obj phase payload (Some k) s)))) k'"
proof -
  obtain res s' where P: "executor_append xe now r ty obj phase payload (Some k) s = (res, s')" by fastforce
  from assms(1) P show ?thesis
    by (cases rule: executor_append_cases) (use assms(2) P in \<open>auto simp: has_key_def\<close>)
qed

lemma commit_keeps_key:
  assumes "journal_wf (ex_journal s)" "has_key (journal_log (ex_journal s)) k'"
  shows "has_key (journal_log (ex_journal (snd (commit_receipt xe now crash r receipt s)))) k'"
  using append_keeps_key [OF assms, of xe now r ET_Commit "''StepCommit''" "''COMMITTED''"
      "enc (xe_receipt xe) receipt" "commit_key (op_operation_id r)"] assms(2)
  by (auto simp: commit_receipt_def split: sum.splits prod.splits)

lemma effect_keeps_key:
  assumes "journal_wf (ex_journal s)" "has_key (journal_log (ex_journal s)) k'"
  shows "has_key (journal_log (ex_journal (snd (execute_effect xe now crash r s)))) k'"
proof (cases "xe_provider xe (length (ex_calls s)) r")
  case (Inr receipt)
  let ?s1 = "s\<lparr>ex_calls := ex_calls s @ [r]\<rparr>"
  obtain res s2 where P: "executor_append xe now r ET_Observation ''OperationReceipt'' ''RECEIVED''
      (enc (xe_receipt xe) receipt) (Some (receipt_key (op_operation_id r))) ?s1 = (res, s2)" by fastforce
  have wf1: "journal_wf (ex_journal ?s1)" and k1: "has_key (journal_log (ex_journal ?s1)) k'"
    using assms by simp_all
  have "journal_wf (ex_journal s2)" "has_key (journal_log (ex_journal s2)) k'"
    using executor_append_wf [OF wf1] append_keeps_key [OF wf1 k1] P by (metis snd_conv)+
  then show ?thesis
    using commit_keeps_key [of s2 k' xe now crash r receipt] P Inr assms(2)
    by (auto simp: execute_effect_def call_provider_def split: sum.splits)
qed (use assms(2) in \<open>auto simp: execute_effect_def call_provider_def\<close>)

text \<open>A new operation over healthy storage with a provider that answers: it succeeds, and its three
  keys are taken.\<close>

lemma new_operation_succeeds:
  assumes st: "stage_ok xe Q r (Suc (Suc (Suc n))) s"
    and fresh: "commit_of xe r s = None" "receipt_of xe r s = None"
    and encq: "enc (xe_request xe) r = Inr q"
    and prov: "\<forall>n. xe_provider xe n r = Inr receipt" and enc: "enc (xe_receipt xe) receipt = Inr bytes"
  shows "\<exists>s'. execute_cancellable xe now False None r s = (Some (Inr receipt), s') \<and>
    stage_ok xe Q r n s' \<and> ex_calls s' = ex_calls s @ [r] \<and>
    (\<forall>k \<in> {intent_key (op_operation_id r), receipt_key (op_operation_id r), commit_key (op_operation_id r)}.
      has_key (journal_log (ex_journal s')) k)"
proof -
  obtain s1 where s1: "stage_ok xe Q r (Suc (Suc n)) s1" "ex_calls s1 = ex_calls s" "commit_of xe r s1 = None"
      "receipt_of xe r s1 = None" "has_key (journal_log (ex_journal s1)) (intent_key (op_operation_id r))"
      "execute_cancellable xe now False None r s = execute_effect xe now None r s1"
    using intent_stage [OF st fresh(1) encq, of now None] fresh(2) by auto
  obtain s2 where s2: "execute_effect xe now None r s1 = (Some (Inr receipt), s2)" "stage_ok xe Q r n s2"
      "ex_calls s2 = ex_calls s1 @ [r]" "receipt_of xe r s2 = Some receipt" "commit_of xe r s2 = Some receipt"
    using effect_stage [OF s1(1,3,4) _ enc, of None now] prov by auto
  have "has_key (journal_log (ex_journal s2)) (intent_key (op_operation_id r))"
    using effect_keeps_key [OF stage_reads(5) [OF s1(1)] s1(5), of xe now None r] s2(1) by simp
  then show ?thesis using s1 s2 stage_reads(3,4) [OF s2(2)] by auto
qed

text \<open>The pending operations are those whose last relevant entry is their intent.\<close>

definition opened :: "executor_env \<Rightarrow> JournalEntry \<Rightarrow> OperationRequest option" where
  "opened xe e =
     (if je_entry_type e = ET_Intent \<and> je_object_type e = ''Operation''
      then decode_ok (xe_request xe) (je_payload e) else None)"

definition concerns :: "executor_env \<Rightarrow> string \<Rightarrow> JournalEntry \<Rightarrow> bool" where
  "concerns xe oid e \<longleftrightarrow>
     map_option op_operation_id (opened xe e) = Some oid \<or>
     is_step ET_Commit ''StepCommit'' oid e \<or> is_step ET_Abort ''Operation'' oid e"

lemma set_update_alist: "p \<in> set (AList.update k v al) \<Longrightarrow> p = (k, v) \<or> p \<in> set al"
  by (induction al) (auto split: if_splits)

lemma pending_fold:
  "map_of (foldl (pending_step xe) [] es) oid =
     Option.bind (find (concerns xe oid) (rev es)) (opened xe) \<and>
   distinct (map fst (foldl (pending_step xe) [] es)) \<and>
   (\<forall>(k, r) \<in> set (foldl (pending_step xe) [] es). k = op_operation_id r)"
proof (induction es rule: rev_induct)
  case (snoc e es)
  let ?p = "foldl (pending_step xe) [] es"
  show ?case
  proof (cases "opened xe e")
    case (Some r)
    then have step: "pending_step xe ?p e = AList.update (op_operation_id r) r ?p"
      and kind: "je_entry_type e = ET_Intent"
      by (auto simp: pending_step_def opened_def split: if_splits option.splits)
    then show ?thesis
      using snoc Some by (auto simp: concerns_def is_step_def update_conv' AList.distinct_update
          dest!: set_update_alist)
  next
    case None
    let ?closes = "\<lambda>oid. is_step ET_Commit ''StepCommit'' oid e \<or> is_step ET_Abort ''Operation'' oid e"
    have step: "pending_step xe ?p e = (if ?closes (je_object_id e) then AList.delete (je_object_id e) ?p else ?p)"
      using None by (auto simp: pending_step_def opened_def is_step_def split: if_splits option.splits)
    have conc: "concerns xe oid e \<longleftrightarrow> ?closes (je_object_id e) \<and> oid = je_object_id e"
      using None by (auto simp: concerns_def is_step_def)
    have sub: "p \<in> set (AList.delete k ?p) \<Longrightarrow> p \<in> set ?p" for p k by (auto simp: AList.delete_eq)
    show ?thesis
      using snoc None step conc
      by (auto simp: delete_conv' AList.distinct_delete dest!: sub split: if_splits)
  qed
qed simp

text \<open>A receipt, a codec for it and a provider that always answers with it.\<close>

definition demo_op_receipt :: OperationReceipt where
  "demo_op_receipt =
     \<lparr>rc_operation_id = ''op'', rc_input_digest = [], rc_output_digest = [], rc_snapshot_digest = [],
      rc_provider_revision = ''p'', rc_result = ''ok'', rc_completed_at_us = 1\<rparr>"

definition demo_xe :: executor_env where
  "demo_xe =
     \<lparr>xe_journal = demo_env,
      xe_request = \<lparr>enc = (\<lambda>_. Inr ''q''), dec = (\<lambda>_. Inr demo_request)\<rparr>,
      xe_receipt = \<lparr>enc = (\<lambda>r. if r = demo_op_receipt then Inr ''r'' else Inl ''unsupported''),
                    dec = (\<lambda>b. if b = ''r'' then Inr demo_op_receipt else Inl ''syntax'')\<rparr>,
      xe_provider = (\<lambda>_ _. Inr demo_op_receipt)\<rparr>"

lemma demo_xe_facts:
  "codec_roundtrip (xe_receipt demo_xe)" "enc (xe_request demo_xe) r = Inr ''q''"
  "enc (xe_receipt demo_xe) demo_op_receipt = Inr ''r''" "xe_provider demo_xe n r = Inr demo_op_receipt"
  by (auto simp: demo_xe_def codec_roundtrip_def split: if_splits)

lemma demo_stage:
  "stage_ok demo_xe (\<lambda>_ w. w = op_workload_id demo_request) demo_request 6 exec_start"
  "commit_of demo_xe demo_request exec_start = None" "receipt_of demo_xe demo_request exec_start = None"
  using exec_good_start
  by (auto simp: stage_ok_def demo_xe_facts healthy_def log_receipt_def exec_start_def journal_log_def
      journal_open_in_memory_def map_filter_simps i64_max_def)

lemma demo_first_run:
  "\<exists>s'. execute_cancellable demo_xe now False None demo_request exec_start =
      (Some (Inr demo_op_receipt), s') \<and>
    stage_ok demo_xe (\<lambda>_ w. w = op_workload_id demo_request) demo_request 3 s' \<and>
    (\<forall>k \<in> {intent_key (op_operation_id demo_request), receipt_key (op_operation_id demo_request),
        commit_key (op_operation_id demo_request)}. has_key (journal_log (ex_journal s')) k)"
proof -
  have "stage_ok demo_xe (\<lambda>_ w. w = op_workload_id demo_request) demo_request (Suc (Suc (Suc 3))) exec_start"
    using demo_stage(1) by (simp add: numeral_eq_Suc)
  from new_operation_succeeds [OF this demo_stage(2,3) demo_xe_facts(2) _ demo_xe_facts(3)]
  show ?thesis using demo_xe_facts(4) by blast
qed

section \<open>Properties\<close>

text \<open>Whatever operations are executed, in whatever order, however often, with whatever
  provider, storage faults, cancellations and crashes: the journal never holds two commits for one
  operation, nor two receipts, nor two intents.\<close>

theorem committed_at_most_once:
  "let log = journal_log (ex_journal (exec_run xe calls exec_start))
   in length (filter (is_step ET_Commit ''StepCommit'' oid) log) \<le> 1 \<and>
      length (filter (is_step ET_Observation ''OperationReceipt'' oid) log) \<le> 1 \<and>
      length (filter (is_step ET_Intent ''Operation'' oid) log) \<le> 1"
proof -
  have good: "exec_good xe (\<lambda>_ _. True) (\<lambda>_. False) (exec_run xe calls exec_start)"
    by (rule exec_good_run [OF _ exec_good_start]) simp
  then have "distinct (journal_log (ex_journal (exec_run xe calls exec_start)))"
    by (simp add: exec_good_def exec_inv_def journal_log_distinct)
  then have "length (filter (is_step ty obj oid) (journal_log (ex_journal (exec_run xe calls exec_start)))) \<le> 1"
    if "owned_kind (\<lambda>_. False) ty obj" for ty obj
    using exec_step_unique [OF good that] by (intro length_filter_le_1) auto
  then show ?thesis by (simp add: owned_kind_def exec_kind_def Let_def)
qed

text \<open>A success is durable: in any history in which an operation id belongs to one workload,
  when an execution returns a receipt, the journal holds this receipt as the commit of the operation,
  and executing the operation again, whatever happens, returns the same receipt and neither calls
  the provider nor writes anything.  A receipt that was encoded is assumed to decode to itself.\<close>

theorem execution_success_is_durable:
  assumes "codec_roundtrip (xe_receipt xe)"
    and "\<forall>c \<in> set calls. op_workload_id (call_request c) = W (op_operation_id (call_request c))"
    and "op_workload_id r = W (op_operation_id r)"
    and "execute_cancellable xe now cancelled crash r (exec_run xe calls exec_start) = (Some (Inr rc), s')"
  shows "committed_receipt xe r (ex_journal s') = Inr (Some rc) \<and>
    execute_cancellable xe now' cancelled' crash' r s' = (Some (Inr rc), s')"
proof -
  have "exec_good xe (\<lambda>oid w. w = W oid) F (exec_run xe calls exec_start)"
    using assms(2) by (intro exec_good_run exec_good_start) auto
  from execute_durable [OF assms(1) this _ assms(4)] assms(3)
  have "committed_receipt xe r (ex_journal s') = Inr (Some rc)" by simp
  then show ?thesis by (simp add: execute_cancellable_def)
qed

theorem execution_success_is_durable_witness:
  "\<exists>s'. execute_cancellable demo_xe 5 False None demo_request exec_start = (Some (Inr demo_op_receipt), s') \<and>
     committed_receipt demo_xe demo_request (ex_journal s') = Inr (Some demo_op_receipt) \<and>
     execute_cancellable demo_xe 9 True (Some EffectAfterIntent) demo_request s' = (Some (Inr demo_op_receipt), s')"
proof -
  obtain s' where run: "execute_cancellable demo_xe 5 False None demo_request (exec_run demo_xe [] exec_start) =
      (Some (Inr demo_op_receipt), s')"
    using demo_first_run [of 5] by (auto simp: exec_run_def)
  from execution_success_is_durable [OF demo_xe_facts(1) _ _ this,
      of "\<lambda>_. op_workload_id demo_request" 9 True "Some EffectAfterIntent"] run
  show ?thesis by (auto simp: exec_run_def)
qed




text \<open>Recovery finds exactly the unfinished operations: over any sound journal,
  \<open>pending_operations\<close> returns each request at most once per operation id, and it returns a request
  exactly when the last entry of the log that concerns its operation (an intent that decodes to it,
  a step commit, or an abort of the operation) is an intent holding this request.\<close>

theorem pending_operations_exact:
  assumes "journal_wf j"
  shows "\<exists>ps. pending_operations xe j = Inr ps \<and> distinct (map op_operation_id ps) \<and>
    set ps = {r. Option.bind (find (concerns xe (op_operation_id r)) (rev (journal_log j))) (opened xe) = Some r}"
proof -
  let ?p = "foldl (pending_step xe) [] (journal_log j)"
  have run: "pending_operations xe j = Inr (map snd ?p)"
    using jl.read_all_log [OF assms] by (simp add: pending_operations_def)
  have keys: "map fst ?p = map (op_operation_id \<circ> snd) ?p"
    using pending_fold [of xe "journal_log j"] by (fastforce simp: split_beta)
  have d: "distinct (map fst ?p)" using pending_fold by blast
  have own: "k = op_operation_id r" if "(k, r) \<in> set ?p" for k r
    using pending_fold [of xe "journal_log j"] that by blast
  have "r \<in> snd ` set ?p \<longleftrightarrow> map_of ?p (op_operation_id r) = Some r" for r
  proof
    assume "r \<in> snd ` set ?p"
    then obtain k where "(k, r) \<in> set ?p" by auto
    then show "map_of ?p (op_operation_id r) = Some r" using own map_of_is_SomeI [OF d] by metis
  next
    assume "map_of ?p (op_operation_id r) = Some r"
    then have "(op_operation_id r, r) \<in> set ?p" by (rule map_of_SomeD)
    then show "r \<in> snd ` set ?p" by (rule image_eqI [rotated]) simp
  qed
  then have "set (map snd ?p) = {r. map_of ?p (op_operation_id r) = Some r}" by auto
  moreover have "distinct (map op_operation_id (map snd ?p))" using d unfolding keys by simp
  ultimately show ?thesis using run pending_fold [of xe "journal_log j"] by auto
qed

theorem pending_operations_exact_witness:
  "\<exists>s' ps. execute_cancellable demo_xe 5 False None demo_request exec_start = (Some (Inr demo_op_receipt), s') \<and>
     pending_operations demo_xe (ex_journal s') = Inr ps \<and> distinct (map op_operation_id ps)"
proof -
  obtain s' where s': "execute_cancellable demo_xe 5 False None demo_request exec_start = (Some (Inr demo_op_receipt), s')"
      "stage_ok demo_xe (\<lambda>_ w. w = op_workload_id demo_request) demo_request 3 s'"
    using demo_first_run by blast
  from pending_operations_exact [OF stage_reads(5) [OF s'(2)], of demo_xe] s'(1) show ?thesis by blast
qed

text \<open>C40.  An operation id is not scoped to its workload: in a history in which the operation ids
  belong to one workload each, let an operation id whose intent, receipt and commit are journaled be
  used for another workload, with a provider that answers.  The lookups are by workload and
  find nothing, the appends are by key and write nothing: the provider is called, the execution reports
  success, and no receipt of it is durable; so it is called again on every retry.\<close>

theorem reused_operation_id_is_not_durable:
  assumes "\<forall>c \<in> set calls. op_workload_id (call_request c) = W (op_operation_id (call_request c))"
    and "s = exec_run xe calls exec_start" "op_workload_id r \<noteq> W (op_operation_id r)"
    and "{Some (intent_key (op_operation_id r)), Some (receipt_key (op_operation_id r)),
          Some (commit_key (op_operation_id r))} \<subseteq> je_idempotency_key ` set (journal_log (ex_journal s))"
    and "enc (xe_request xe) r = Inr q" "xe_provider xe (length (ex_calls s)) r = Inr receipt"
    and "enc (xe_receipt xe) receipt = Inr bytes"
  shows "execute_cancellable xe now False None r s =
      (Some (Inr receipt), s\<lparr>ex_calls := ex_calls s @ [r]\<rparr>) \<and>
    committed_receipt xe r (ex_journal (s\<lparr>ex_calls := ex_calls s @ [r]\<rparr>)) = Inr None"
proof -
  have good: "exec_good xe (\<lambda>oid w. w = W oid) (\<lambda>_. False) s"
    unfolding assms(2) using assms(1) by (intro exec_good_run exec_good_start) auto
  have wf: "journal_wf (ex_journal s)" using good by (simp add: exec_good_def exec_inv_def)
  have none: "latest_receipt xe ty obj r (ex_journal s) = Inr None" for ty obj
  proof -
    have "find (is_step ty obj (op_operation_id r))
        (rev (filter (\<lambda>e. je_workload_id e = op_workload_id r) (journal_log (ex_journal s)))) = None"
      using good assms(3) exec_entry_not_foreign [of xe]
      by (fastforce simp: find_None_iff exec_good_def owned_by_def is_step_def exec_inv_def)
    then show ?thesis using jl.read_wl_log [OF wf] by (simp add: latest_receipt_def)
  qed
  have replay: "executor_append xe now r ty obj phase (Inr b) (Some k) t = (Inr (), t)"
    if "has_key (journal_log (ex_journal s)) k" "ex_journal t = ex_journal s" for ty obj phase b k t
    using executor_append_replays [of t k] that wf by simp
  have keys: "has_key (journal_log (ex_journal s)) (intent_key (op_operation_id r))"
      "has_key (journal_log (ex_journal s)) (receipt_key (op_operation_id r))"
      "has_key (journal_log (ex_journal s)) (commit_key (op_operation_id r))"
    using assms(4) by (auto simp: has_key_def)
  show ?thesis
    using none assms(5-7) replay [OF keys(1)] replay [OF keys(2)] replay [OF keys(3)]
    by (simp add: execute_cancellable_def committed_receipt_def received_receipt_def execute_effect_def
        call_provider_def commit_receipt_def)
qed

theorem reused_operation_id_is_not_durable_witness:
  "\<exists>s r. op_operation_id r = op_operation_id demo_request \<and>
     execute_cancellable demo_xe 7 False None r s =
       (Some (Inr demo_op_receipt), s\<lparr>ex_calls := ex_calls s @ [r]\<rparr>) \<and>
     committed_receipt demo_xe r (ex_journal s) = Inr None"
proof -
  let ?r = "demo_request\<lparr>op_workload_id := ''other''\<rparr>"
  obtain s' where s': "execute_cancellable demo_xe 5 False None demo_request exec_start = (Some (Inr demo_op_receipt), s')"
      and k: "\<forall>k \<in> {intent_key (op_operation_id demo_request), receipt_key (op_operation_id demo_request),
        commit_key (op_operation_id demo_request)}. has_key (journal_log (ex_journal s')) k"
    using demo_first_run by blast
  have run: "s' = exec_run demo_xe [(5, False, None, demo_request)] exec_start" using s' by (simp add: exec_run_def)
  have keys: "{Some (intent_key (op_operation_id ?r)), Some (receipt_key (op_operation_id ?r)),
      Some (commit_key (op_operation_id ?r))} \<subseteq> je_idempotency_key ` set (journal_log (ex_journal s'))"
    using k by (auto simp: has_key_def image_iff) metis+
  have other: "op_workload_id ?r \<noteq> op_workload_id demo_request" by (simp add: demo_request_def)
  from reused_operation_id_is_not_durable [OF _ run _ keys demo_xe_facts(2,4,3),
      of "\<lambda>_. op_workload_id demo_request" 7] other
  have "execute_cancellable demo_xe 7 False None ?r s' =
       (Some (Inr demo_op_receipt), s'\<lparr>ex_calls := ex_calls s' @ [?r]\<rparr>) \<and>
     committed_receipt demo_xe ?r (ex_journal s') = Inr None"
    by (simp add: call_request_def)
  then show ?thesis by (intro exI [of _ s'] exI [of _ ?r]) simp
qed

end
