(* ===== verification/Scheduling_Policies.thy ===== *)
theory Scheduling_Policies
  imports Workload_Types "HOL-Library.Multiset"
begin

text \<open>
  The scheduling policies (crates/nous-scheduler/src/policy.rs): candidates, the policy interface
  and its nine implementations, and the registry.  A 64-bit float is the word of its bits.  The
  comparisons of floats are defined on the bits (\<open>f64_lt\<close> is the partial order of IEEE 754,
  \<open>f64_total_key\<close> the order of \<open>total_cmp\<close>); the arithmetic is the parameter \<open>f64_ops\<close>, and no
  fact below depends on what it computes.  A clock reading is an argument: one reading is taken
  per selection.  The locale \<open>scheduler_policy\<close> states what a policy promises to the placement
  scheduler, \<open>ranking_policy\<close> what a policy that sorts by its score promises beyond that.
\<close>

section \<open>Floats\<close>

type_synonym f64 = u64

record f64_ops =
  fo_add :: "f64 \<Rightarrow> f64 \<Rightarrow> f64"
  fo_sub :: "f64 \<Rightarrow> f64 \<Rightarrow> f64"
  fo_mul :: "f64 \<Rightarrow> f64 \<Rightarrow> f64"
  fo_div :: "f64 \<Rightarrow> f64 \<Rightarrow> f64"
  fo_min :: "f64 \<Rightarrow> f64 \<Rightarrow> f64"
  fo_max :: "f64 \<Rightarrow> f64 \<Rightarrow> f64"
  fo_ln :: "f64 \<Rightarrow> f64"
  fo_sqrt :: "f64 \<Rightarrow> f64"
  fo_of_int :: "int \<Rightarrow> f64"

definition f64_is_nan :: "f64 \<Rightarrow> bool" where
  "f64_is_nan x \<longleftrightarrow> 0x7FF0000000000000 < take_bit 63 x"

definition f64_total_key :: "f64 \<Rightarrow> int" where
  "f64_total_key x = (if x < 0x8000000000000000 then uint x else 2 ^ 63 - 1 - uint x)"

definition f64_is_zero :: "f64 \<Rightarrow> bool" where
  "f64_is_zero x \<longleftrightarrow> x = 0 \<or> x = 0x8000000000000000"

definition f64_lt :: "f64 \<Rightarrow> f64 \<Rightarrow> bool" where
  "f64_lt x y \<longleftrightarrow>
     \<not> f64_is_nan x \<and> \<not> f64_is_nan y \<and> \<not> (f64_is_zero x \<and> f64_is_zero y) \<and>
     f64_total_key x < f64_total_key y"

definition f64_le :: "f64 \<Rightarrow> f64 \<Rightarrow> bool" where
  "f64_le x y \<longleftrightarrow> \<not> f64_is_nan x \<and> \<not> f64_is_nan y \<and> \<not> f64_lt y x"

text \<open>The literals of the source by their bits.\<close>

abbreviation lit_neg_inf :: f64 where "lit_neg_inf \<equiv> 0xFFF0000000000000"
abbreviation lit_inf :: f64 where "lit_inf \<equiv> 0x7FF0000000000000"
abbreviation lit_0 :: f64 where "lit_0 \<equiv> 0"
abbreviation lit_0_001 :: f64 where "lit_0_001 \<equiv> 0x3F50624DD2F1A9FC"
abbreviation lit_0_05 :: f64 where "lit_0_05 \<equiv> 0x3FA999999999999A"
abbreviation lit_0_1 :: f64 where "lit_0_1 \<equiv> 0x3FB999999999999A"
abbreviation lit_0_15 :: f64 where "lit_0_15 \<equiv> 0x3FC3333333333333"
abbreviation lit_0_2 :: f64 where "lit_0_2 \<equiv> 0x3FC999999999999A"
abbreviation lit_0_25 :: f64 where "lit_0_25 \<equiv> 0x3FD0000000000000"
abbreviation lit_0_3 :: f64 where "lit_0_3 \<equiv> 0x3FD3333333333333"
abbreviation lit_0_4 :: f64 where "lit_0_4 \<equiv> 0x3FD999999999999A"
abbreviation lit_0_5 :: f64 where "lit_0_5 \<equiv> 0x3FE0000000000000"
abbreviation lit_0_6 :: f64 where "lit_0_6 \<equiv> 0x3FE3333333333333"
abbreviation lit_0_7 :: f64 where "lit_0_7 \<equiv> 0x3FE6666666666666"
abbreviation lit_0_9 :: f64 where "lit_0_9 \<equiv> 0x3FECCCCCCCCCCCCD"
abbreviation lit_1 :: f64 where "lit_1 \<equiv> 0x3FF0000000000000"
abbreviation lit_2 :: f64 where "lit_2 \<equiv> 0x4000000000000000"
abbreviation lit_3 :: f64 where "lit_3 \<equiv> 0x4008000000000000"
abbreviation lit_4 :: f64 where "lit_4 \<equiv> 0x4010000000000000"
abbreviation lit_10 :: f64 where "lit_10 \<equiv> 0x4024000000000000"
abbreviation lit_100 :: f64 where "lit_100 \<equiv> 0x4059000000000000"
abbreviation lit_500 :: f64 where "lit_500 \<equiv> 0x407F400000000000"
abbreviation lit_1000 :: f64 where "lit_1000 \<equiv> 0x408F400000000000"
abbreviation lit_3600 :: f64 where "lit_3600 \<equiv> 0x40AC200000000000"
abbreviation lit_1000000 :: f64 where "lit_1000000 \<equiv> 0x412E848000000000"

section \<open>Candidates, decisions and the policy interface\<close>

record SchedulerCandidate =
  sc_node_id :: string
  sc_device_id :: string
  sc_engine_id :: string
  sc_model_revision :: string
  sc_resources_available :: ResourceVector
  sc_resources_required :: ResourceVector
  sc_estimated_ttft_ms :: u64
  sc_estimated_tps :: f64
  sc_estimated_cost_microcents :: u64
  sc_estimated_quality :: f64
  sc_kv_cache_hit_rate :: f64
  sc_engine_load :: f64
  sc_device_utilization :: f64

datatype FallbackStrategy = TryNextBest | DegradeModel | QueueAndWait | FS_Reject

record ScheduleDecision =
  sd_selected :: "SchedulerCandidate option"
  sd_candidates :: "SchedulerCandidate list"
  sd_rejections :: "nat \<rightharpoonup> string"
  sd_score_breakdown :: "string \<rightharpoonup> f64"
  sd_confidence_interval :: "f64 \<times> f64"
  sd_is_out_of_distribution :: bool
  sd_fallback_strategy :: FallbackStrategy

record SchedulerPolicy =
  pol_name :: string
  pol_filter :: "WorkloadSpec \<Rightarrow> SchedulerCandidate list \<Rightarrow> nat list"
  pol_score :: "WorkloadSpec \<Rightarrow> SchedulerCandidate \<Rightarrow> f64"
  pol_select :: "WorkloadSpec \<Rightarrow> SchedulerCandidate list \<Rightarrow> ScheduleDecision"

text \<open>The filters: the indices of the candidates that satisfy a condition.\<close>

definition filter_indices :: "(SchedulerCandidate \<Rightarrow> bool) \<Rightarrow> SchedulerCandidate list \<Rightarrow> nat list" where
  "filter_indices P cs = map fst (filter (\<lambda>(i, c). P c) (enumerate 0 cs))"

definition candidate_fits :: "SchedulerCandidate \<Rightarrow> bool" where
  "candidate_fits c \<longleftrightarrow> fits_within (sc_resources_required c) (sc_resources_available c)"

definition fits_filter :: "WorkloadSpec \<Rightarrow> SchedulerCandidate list \<Rightarrow> nat list" where
  "fits_filter w cs = filter_indices candidate_fits cs"

text \<open>The two ways of selecting that several policies share: the first feasible candidate, and the
  head of the list after a stable sort by descending score.\<close>

definition plain_decision ::
  "SchedulerCandidate option \<Rightarrow> SchedulerCandidate list \<Rightarrow> bool \<Rightarrow> FallbackStrategy \<Rightarrow> ScheduleDecision" where
  "plain_decision selected candidates ood fallback =
     \<lparr>sd_selected = selected, sd_candidates = candidates, sd_rejections = Map.empty,
      sd_score_breakdown = Map.empty, sd_confidence_interval = (lit_0, lit_0),
      sd_is_out_of_distribution = ood, sd_fallback_strategy = fallback\<rparr>"

definition first_feasible ::
  "nat list \<Rightarrow> bool \<Rightarrow> FallbackStrategy \<Rightarrow> SchedulerCandidate list \<Rightarrow> ScheduleDecision" where
  "first_feasible feasible ood fallback cs =
     plain_decision (case feasible of [] \<Rightarrow> None | i # _ \<Rightarrow> Some (cs ! i)) cs ood fallback"

definition first_of :: "'a list \<Rightarrow> 'a option" where
  "first_of xs = (case xs of [] \<Rightarrow> None | x # _ \<Rightarrow> Some x)"

definition sorted_select ::
  "(SchedulerCandidate \<Rightarrow> f64) \<Rightarrow> FallbackStrategy \<Rightarrow> SchedulerCandidate list \<Rightarrow> ScheduleDecision" where
  "sorted_select score fallback cs =
     (let sorted = sort_key (\<lambda>c. - f64_total_key (score c)) cs
      in plain_decision (first_of sorted) sorted False fallback)"

section \<open>The policies\<close>

definition FifoPolicy :: SchedulerPolicy where
  "FifoPolicy =
     \<lparr>pol_name = ''FIFO'', pol_filter = fits_filter, pol_score = (\<lambda>w c. lit_0),
      pol_select = (\<lambda>w cs. first_feasible (fits_filter w cs) False TryNextBest cs)\<rparr>"

fun priority_score :: "PriorityClass \<Rightarrow> f64" where
  "priority_score PC_System = lit_4"
| "priority_score PC_Interactive = lit_3"
| "priority_score PC_Batch = lit_2"
| "priority_score PC_BestEffort = lit_1"

definition PriorityPolicy :: SchedulerPolicy where
  "PriorityPolicy =
     (let score = \<lambda>w c. priority_score (rq_priority (ws_resource_requirements w))
      in \<lparr>pol_name = ''Priority'', pol_filter = (\<lambda>w cs. [0..<length cs]), pol_score = score,
          pol_select = (\<lambda>w cs. sorted_select (score w) QueueAndWait cs)\<rparr>)"

record SchedulingWeights =
  sw_latency :: f64
  sw_throughput :: f64
  sw_cost :: f64
  sw_quality :: f64
  sw_cache :: f64
  sw_load :: f64

definition scheduling_weights_default :: SchedulingWeights where
  "scheduling_weights_default =
     \<lparr>sw_latency = lit_0_25, sw_throughput = lit_0_2, sw_cost = lit_0_15, sw_quality = lit_0_2,
      sw_cache = lit_0_1, sw_load = lit_0_1\<rparr>"

text \<open>\<open>1.0 / (1.0 + n as f64 / d)\<close>\<close>

definition inverse_score :: "f64_ops \<Rightarrow> u64 \<Rightarrow> f64 \<Rightarrow> f64" where
  "inverse_score fo n d =
     fo_div fo lit_1 (fo_add fo lit_1 (fo_div fo (fo_of_int fo (uint n)) d))"

definition weighted_score :: "f64_ops \<Rightarrow> SchedulingWeights \<Rightarrow> SchedulerCandidate \<Rightarrow> f64" where
  "weighted_score fo w c =
     (let latency_score = inverse_score fo (sc_estimated_ttft_ms c) lit_1000;
          throughput_score = fo_div fo (fo_min fo (sc_estimated_tps c) lit_100) lit_100;
          cost_score = inverse_score fo (sc_estimated_cost_microcents c) lit_1000000;
          quality_score = sc_estimated_quality c;
          cache_score = sc_kv_cache_hit_rate c;
          load_score = fo_sub fo lit_1 (sc_engine_load c)
      in fo_add fo (fo_add fo (fo_add fo (fo_add fo (fo_add fo
           (fo_mul fo (sw_latency w) latency_score)
           (fo_mul fo (sw_throughput w) throughput_score))
           (fo_mul fo (sw_cost w) cost_score))
           (fo_mul fo (sw_quality w) quality_score))
           (fo_mul fo (sw_cache w) cache_score))
           (fo_mul fo (sw_load w) load_score))"

text \<open>The loop over the candidates: best score, best index and the score breakdown.\<close>

fun weighted_loop ::
  "(SchedulerCandidate \<Rightarrow> f64) \<Rightarrow> (nat \<times> SchedulerCandidate) list \<Rightarrow>
     f64 \<times> nat option \<times> (string \<rightharpoonup> f64) \<Rightarrow> f64 \<times> nat option \<times> (string \<rightharpoonup> f64)" where
  "weighted_loop score [] acc = acc"
| "weighted_loop score ((i, c) # rest) (best_score, best_idx, breakdown) =
     weighted_loop score rest
       (if f64_lt best_score (score c)
        then (score c, Some i, breakdown(sc_node_id c \<mapsto> score c))
        else (best_score, best_idx, breakdown(sc_node_id c \<mapsto> score c)))"

definition weighted_select ::
  "f64_ops \<Rightarrow> (SchedulerCandidate \<Rightarrow> f64) \<Rightarrow> SchedulerCandidate list \<Rightarrow> ScheduleDecision" where
  "weighted_select fo score cs =
     (case weighted_loop score (enumerate 0 cs) (lit_neg_inf, None, Map.empty) of
        (best_score, best_idx, breakdown) \<Rightarrow>
          \<lparr>sd_selected = map_option (\<lambda>i. cs ! i) best_idx, sd_candidates = cs, sd_rejections = Map.empty,
           sd_score_breakdown = breakdown,
           sd_confidence_interval = (fo_sub fo best_score lit_0_05, fo_add fo best_score lit_0_05),
           sd_is_out_of_distribution = False, sd_fallback_strategy = TryNextBest\<rparr>)"

definition WeightedSumPolicy :: "f64_ops \<Rightarrow> SchedulingWeights \<Rightarrow> SchedulerPolicy" where
  "WeightedSumPolicy fo weights =
     \<lparr>pol_name = ''WeightedSum'', pol_filter = fits_filter, pol_score = (\<lambda>w. weighted_score fo weights),
      pol_select = (\<lambda>w cs. weighted_select fo (weighted_score fo weights) cs)\<rparr>"

definition multiplicative_score :: "f64_ops \<Rightarrow> SchedulerCandidate \<Rightarrow> f64" where
  "multiplicative_score fo c =
     (let latency_factor = inverse_score fo (sc_estimated_ttft_ms c) lit_500;
          quality_factor = fo_add fo lit_0_1 (fo_mul fo lit_0_9 (sc_estimated_quality c));
          cache_factor = fo_add fo lit_0_5 (fo_mul fo lit_0_5 (sc_kv_cache_hit_rate c));
          load_factor = fo_sub fo lit_1 (fo_mul fo lit_0_5 (sc_engine_load c))
      in fo_mul fo (fo_mul fo (fo_mul fo latency_factor quality_factor) cache_factor) load_factor)"

definition MultiplicativePolicy :: "f64_ops \<Rightarrow> SchedulerPolicy" where
  "MultiplicativePolicy fo =
     \<lparr>pol_name = ''Multiplicative'', pol_filter = fits_filter,
      pol_score = (\<lambda>w. multiplicative_score fo),
      pol_select = (\<lambda>w cs. sorted_select (multiplicative_score fo) TryNextBest cs)\<rparr>"

text \<open>The objectives of the Pareto policy are stored and never used.\<close>

definition ParetoPolicy :: "f64_ops \<Rightarrow> SchedulerPolicy" where
  "ParetoPolicy fo =
     \<lparr>pol_name = ''Pareto'', pol_filter = fits_filter,
      pol_score = (\<lambda>w c. fo_div fo lit_1 (fo_add fo lit_1 (fo_of_int fo 0))),
      pol_select = (\<lambda>w cs. first_feasible (fits_filter w cs) True DegradeModel cs)\<rparr>"

definition CacheAwarePolicy :: "f64_ops \<Rightarrow> f64 \<Rightarrow> SchedulerPolicy" where
  "CacheAwarePolicy fo min_cache_hit_rate =
     (let score = \<lambda>c. fo_mul fo (sc_kv_cache_hit_rate c)
            (fo_sub fo lit_1 (fo_mul fo lit_0_3 (sc_engine_load c)))
      in \<lparr>pol_name = ''CacheAware'',
          pol_filter = (\<lambda>w. filter_indices (\<lambda>c. candidate_fits c \<and> f64_le min_cache_hit_rate (sc_kv_cache_hit_rate c))),
          pol_score = (\<lambda>w. score),
          pol_select = (\<lambda>w cs. sorted_select score TryNextBest cs)\<rparr>)"

definition deadline_score :: "f64_ops \<Rightarrow> int \<Rightarrow> WorkloadSpec \<Rightarrow> SchedulerCandidate \<Rightarrow> f64" where
  "deadline_score fo now w c =
     (let time_left_secs =
            (if ws_deadline_us w > 0
             then fo_max fo (fo_div fo (fo_of_int fo (ws_deadline_us w - now)) lit_1000000) lit_0
             else lit_3600);
          token_time_secs =
            (if f64_lt lit_0 (sc_estimated_tps c) then fo_div fo lit_1 (sc_estimated_tps c) else lit_inf);
          ttft_secs = fo_div fo (fo_of_int fo (uint (sc_estimated_ttft_ms c))) lit_1000;
          exec_time_secs = fo_add fo ttft_secs token_time_secs;
          urgency = fo_div fo lit_1 (fo_add fo (fo_add fo time_left_secs exec_time_secs) lit_0_001);
          can_meet = f64_le ttft_secs time_left_secs
      in fo_mul fo urgency (if can_meet then lit_10 else lit_0_1))"

definition DeadlineAwarePolicy :: "f64_ops \<Rightarrow> int \<Rightarrow> SchedulerPolicy" where
  "DeadlineAwarePolicy fo now =
     \<lparr>pol_name = ''DeadlineAware'', pol_filter = fits_filter, pol_score = deadline_score fo now,
      pol_select = (\<lambda>w cs. sorted_select (deadline_score fo now w) DegradeModel cs)\<rparr>"

definition fan_out :: "ExecutionGraph \<Rightarrow> nat" where
  "fan_out g =
     foldr max (map (\<lambda>e. length (filter (\<lambda>e'. pe_from_node_id e' = pe_from_node_id e) (eg_edges g))) (eg_edges g)) 0"

definition critical_path_score :: "f64_ops \<Rightarrow> WorkloadSpec \<Rightarrow> SchedulerCandidate \<Rightarrow> f64" where
  "critical_path_score fo w c =
     (let g = ws_execution_graph w;
          criticality = fo_div fo (fo_of_int fo (int (fan_out g)))
            (fo_of_int fo (int (max (length (eg_nodes g)) 1)));
          latency_score = inverse_score fo (sc_estimated_ttft_ms c) lit_1000
      in fo_add fo (fo_mul fo criticality lit_0_6) (fo_mul fo latency_score lit_0_4))"

definition CriticalPathPolicy :: "f64_ops \<Rightarrow> SchedulerPolicy" where
  "CriticalPathPolicy fo =
     \<lparr>pol_name = ''CriticalPathAware'', pol_filter = fits_filter, pol_score = critical_path_score fo,
      pol_select = (\<lambda>w cs. sorted_select (critical_path_score fo w) TryNextBest cs)\<rparr>"

text \<open>The contextual bandit keeps the count and the running mean of the rewards per key.\<close>

record ContextualBandit =
  cb_alpha :: f64
  cb_epsilon :: f64
  cb_history :: "string \<rightharpoonup> u64 \<times> f64"

definition bandit_new :: "f64 \<Rightarrow> f64 \<Rightarrow> ContextualBandit" where
  "bandit_new alpha epsilon = \<lparr>cb_alpha = alpha, cb_epsilon = epsilon, cb_history = Map.empty\<rparr>"

definition candidate_key :: "SchedulerCandidate \<Rightarrow> string" where
  "candidate_key c = sc_node_id c @ '':'' @ sc_engine_id c @ '':'' @ sc_model_revision c"

definition bandit_stats :: "ContextualBandit \<Rightarrow> SchedulerCandidate \<Rightarrow> u64 \<times> f64" where
  "bandit_stats b c = (case cb_history b (candidate_key c) of None \<Rightarrow> (0, lit_0) | Some s \<Rightarrow> s)"

definition record_outcome ::
  "f64_ops \<Rightarrow> SchedulerCandidate \<Rightarrow> f64 \<Rightarrow> ContextualBandit \<Rightarrow> ContextualBandit" where
  "record_outcome fo c reward b =
     (case bandit_stats b c of (visits, mean) \<Rightarrow>
        b\<lparr>cb_history := (cb_history b)(candidate_key c \<mapsto>
             (visits + 1, fo_add fo mean (fo_mul fo (cb_alpha b) (fo_sub fo reward mean))))\<rparr>)"

definition bandit_score :: "f64_ops \<Rightarrow> ContextualBandit \<Rightarrow> SchedulerCandidate \<Rightarrow> f64" where
  "bandit_score fo b c =
     (case bandit_stats b c of (visits, mean) \<Rightarrow>
        fo_add fo mean
          (if visits > 0
           then fo_mul fo (cb_epsilon b)
                  (fo_sqrt fo (fo_div fo (fo_mul fo lit_2 (fo_ln fo (fo_of_int fo (uint visits))))
                     (fo_of_int fo (uint visits))))
           else fo_mul fo (cb_epsilon b) lit_2))"

definition ContextualBanditPolicy :: "f64_ops \<Rightarrow> ContextualBandit \<Rightarrow> SchedulerPolicy" where
  "ContextualBanditPolicy fo b =
     \<lparr>pol_name = ''ContextualBandit'', pol_filter = fits_filter, pol_score = (\<lambda>w. bandit_score fo b),
      pol_select = (\<lambda>w cs. sorted_select (bandit_score fo b) TryNextBest cs)\<rparr>"

section \<open>The registry\<close>

type_synonym PolicyRegistry = "string \<rightharpoonup> SchedulerPolicy"

definition registry_register :: "PolicyRegistry \<Rightarrow> SchedulerPolicy \<Rightarrow> PolicyRegistry" where
  "registry_register r p = r(pol_name p \<mapsto> p)"

definition baseline_policies :: "f64_ops \<Rightarrow> int \<Rightarrow> SchedulerPolicy list" where
  "baseline_policies fo now =
     [FifoPolicy, PriorityPolicy, WeightedSumPolicy fo scheduling_weights_default, MultiplicativePolicy fo,
      CacheAwarePolicy fo lit_0, DeadlineAwarePolicy fo now, CriticalPathPolicy fo,
      ContextualBanditPolicy fo (bandit_new lit_0_1 lit_0_05), ParetoPolicy fo]"

definition with_all_baselines :: "f64_ops \<Rightarrow> int \<Rightarrow> PolicyRegistry" where
  "with_all_baselines fo now = foldl registry_register Map.empty (baseline_policies fo now)"

section \<open>The order of floats\<close>

text \<open>\<open>total_cmp\<close> is a linear order on bit patterns; \<open><\<close> compares the values, in which the two zeros are
  one, and is false when a side is not a number.\<close>

lemma f64_total_key_inj: "f64_total_key x = f64_total_key y \<longleftrightarrow> x = y"
proof -
  define a b where ab: "a = uint x" "b = uint y"
  have "0 \<le> a" "0 \<le> b" "x = y \<longleftrightarrow> a = b" by (simp_all add: ab word_uint_eq_iff)
  then show ?thesis
    unfolding f64_total_key_def word_less_def ab [symmetric] by auto
qed

definition f64_key :: "f64 \<Rightarrow> int" where
  "f64_key x = (if f64_is_zero x then 0 else f64_total_key x)"

lemma f64_total_key_zeros:
  "f64_total_key x = 0 \<longleftrightarrow> x = 0" "f64_total_key x = - 1 \<longleftrightarrow> x = 0x8000000000000000"
  using f64_total_key_inj [of x 0] f64_total_key_inj [of x "0x8000000000000000"]
  by (simp_all add: f64_total_key_def)

lemma f64_lt_key: "f64_lt x y \<longleftrightarrow> \<not> f64_is_nan x \<and> \<not> f64_is_nan y \<and> f64_key x < f64_key y"
  using f64_total_key_zeros [of x] f64_total_key_zeros [of y]
  by (auto simp: f64_lt_def f64_key_def f64_is_zero_def)

lemma f64_lt_irrefl: "\<not> f64_lt x x"
  by (simp add: f64_lt_key)

section \<open>What a policy promises\<close>

locale scheduler_policy =
  fixes select :: "WorkloadSpec \<Rightarrow> SchedulerCandidate list \<Rightarrow> ScheduleDecision"
  assumes selected_from: "sd_selected (select w cs) = Some c \<Longrightarrow> c \<in> set cs"
    and considered: "mset (sd_candidates (select w cs)) = mset cs"
begin

lemma selects_none_of_none: "sd_selected (select w []) = None"
  using selected_from [of w "[]"] by (cases "sd_selected (select w [])") auto

lemma honest: "set_option (sd_selected (select w cs)) \<subseteq> set cs \<and> mset (sd_candidates (select w cs)) = mset cs"
  using selected_from considered by auto

end

text \<open>The first of the candidates with the greatest score, in the order of \<open>total_cmp\<close>.\<close>

definition first_best :: "(SchedulerCandidate \<Rightarrow> f64) \<Rightarrow> SchedulerCandidate list \<Rightarrow> SchedulerCandidate option" where
  "first_best score cs =
     find (\<lambda>c. list_all (\<lambda>d. f64_total_key (score d) \<le> f64_total_key (score c)) cs) cs"

locale ranking_policy = scheduler_policy select
  for select :: "WorkloadSpec \<Rightarrow> SchedulerCandidate list \<Rightarrow> ScheduleDecision" +
  fixes score :: "WorkloadSpec \<Rightarrow> SchedulerCandidate \<Rightarrow> f64"
  assumes selects_first_best: "sd_selected (select w cs) = first_best (score w) cs"
begin

lemma selects_some:
  assumes "cs \<noteq> []"
  shows "\<exists>c \<in> set cs. sd_selected (select w cs) = Some c \<and>
    (\<forall>d \<in> set cs. f64_total_key (score w d) \<le> f64_total_key (score w c))"
proof -
  let ?k = "\<lambda>c. f64_total_key (score w c)"
  obtain m where m: "m \<in> set cs" "?k m = Max (?k ` set cs)"
    using Max_in [of "?k ` set cs"] assms by (metis (no_types, lifting) finite_imageI finite_set imageE image_is_empty set_empty)
  then have best: "list_all (\<lambda>d. ?k d \<le> ?k m) cs" by (auto simp: list_all_iff)
  obtain c where c: "first_best (score w) cs = Some c"
  proof (cases "first_best (score w) cs")
    case None
    then show thesis using m best by (auto simp: first_best_def find_None_iff)
  qed
  then have "list_all (\<lambda>d. ?k d \<le> ?k c) cs" "c \<in> set cs"
    by (auto simp: first_best_def find_Some_iff)
  then show ?thesis using c selects_first_best by (auto simp: list_all_iff)
qed

lemma selects_only_candidate: "sd_selected (select w [c]) = Some c"
  using selects_first_best by (simp add: first_best_def)

end

lemma first_of_sort_key:
  fixes f :: "'a \<Rightarrow> int"
  shows "first_of (sort_key f xs) = find (\<lambda>x. list_all (\<lambda>y. f x \<le> f y) xs) xs"
proof (induction xs)
  case (Cons x xs)
  show ?case
  proof (cases "sort_key f xs")
    case Nil
    then have "xs = []" by (metis length_0_conv length_sort)
    then show ?thesis by (simp add: first_of_def)
  next
    case (Cons y ys)
    with Cons.IH have y: "find (\<lambda>x. list_all (\<lambda>y. f x \<le> f y) xs) xs = Some y" by (simp add: first_of_def)
    then have ymin: "y \<in> set xs" "\<forall>z \<in> set xs. f y \<le> f z"
      by (auto simp: find_Some_iff list_all_iff)
    show ?thesis
    proof (cases "f x \<le> f y")
      case True
      then have "list_all (\<lambda>y. f x \<le> f y) xs" using ymin(2) by (auto simp: list_all_iff)
      with True Cons show ?thesis by (simp add: first_of_def)
    next
      case False
      then have less: "f y < f x" by simp
      then have "\<not> list_all (\<lambda>z. f x \<le> f z) xs" using ymin(1) by (force simp: list_all_iff)
      moreover have "find (\<lambda>z. list_all (\<lambda>y. f z \<le> f y) (x # xs)) xs = find (\<lambda>z. list_all (\<lambda>y. f z \<le> f y) xs) xs"
        using less ymin by (intro find_cong) (auto simp: list_all_iff)
      ultimately show ?thesis using y Cons less by (simp add: first_of_def)
    qed
  qed
qed (simp add: first_of_def)

lemma sorted_select_policy:
  "sd_selected (sorted_select score fb cs) = first_best score cs"
  "mset (sd_candidates (sorted_select score fb cs)) = mset cs"
  by (simp_all add: sorted_select_def plain_decision_def Let_def first_of_sort_key first_best_def)

lemma ranking_policyI:
  assumes "\<And>w cs. select w cs = sorted_select (score w) fb cs"
  shows "ranking_policy select score"
proof
  show "sd_selected (select w cs) = Some c \<Longrightarrow> c \<in> set cs" for w cs c
    by (auto simp: assms sorted_select_policy first_best_def find_Some_iff)
qed (simp_all add: assms sorted_select_policy)

lemma first_feasible_policy:
  "sd_selected (first_feasible (filter_indices P cs) ood fb cs) = find P cs"
  "mset (sd_candidates (first_feasible (filter_indices P cs) ood fb cs)) = mset cs"
proof -
  have "(case filter_indices P cs of [] \<Rightarrow> None | i # _ \<Rightarrow> Some (cs ! i)) = find P cs"
  proof -
    have "(case map fst (filter (\<lambda>(i, c). P c) (enumerate n xs)) of [] \<Rightarrow> None | i # _ \<Rightarrow> Some ((ys @ xs) ! i)) = find P xs"
      if "length ys = n" for n xs ys
      using that
    proof (induction xs arbitrary: n ys)
      case (Cons x xs)
      have "length (ys @ [x]) = Suc n" using Cons.prems by simp
      from Cons.IH [OF this] Cons.prems show ?case by (auto simp: case_prod_unfold split: list.splits)
    qed simp
    from this [of "[]" 0 cs, OF list.size(3)] show ?thesis
      unfolding filter_indices_def append_Nil by this
  qed
  then show "sd_selected (first_feasible (filter_indices P cs) ood fb cs) = find P cs"
    "mset (sd_candidates (first_feasible (filter_indices P cs) ood fb cs)) = mset cs"
    by (simp_all add: first_feasible_def plain_decision_def)
qed

lemma first_feasible_policyI:
  assumes "\<And>w cs. select w cs = first_feasible (filter_indices P cs) ood fb cs"
  shows "scheduler_policy select"
  by unfold_locales (auto simp: assms first_feasible_policy find_Some_iff)

text \<open>The loop of the weighted sum keeps the first candidate with the greatest score among those whose
  score is a number above negative infinity.\<close>

definition usable :: "f64 \<Rightarrow> bool" where
  "usable s \<longleftrightarrow> f64_lt lit_neg_inf s"

definition weighted_best :: "(SchedulerCandidate \<Rightarrow> f64) \<Rightarrow> SchedulerCandidate list \<Rightarrow> SchedulerCandidate option" where
  "weighted_best score cs =
     find (\<lambda>c. usable (score c) \<and> list_all (\<lambda>d. \<not> f64_lt (score c) (score d)) cs) cs"

lemma weighted_loop_append:
  "weighted_loop score (xs @ ys) acc = weighted_loop score ys (weighted_loop score xs acc)"
  by (induction score xs acc rule: weighted_loop.induct) simp_all

lemma weighted_best_snoc:
  "weighted_best score (cs @ [d]) =
     (case weighted_best score cs of
        None \<Rightarrow> if usable (score d) then Some d else None
      | Some c \<Rightarrow> if f64_lt (score c) (score d) then Some d else Some c)"
proof -
  let ?P = "\<lambda>cs c. usable (score c) \<and> list_all (\<lambda>d. \<not> f64_lt (score c) (score d)) cs"
  have find_append: "find Q (xs @ [y]) = (case find Q xs of None \<Rightarrow> if Q y then Some y else None | Some x \<Rightarrow> Some x)"
    for Q :: "SchedulerCandidate \<Rightarrow> bool" and xs y by (induction xs) auto
  show ?thesis
  proof (cases "weighted_best score cs")
    case None
    have none: "\<not> usable (score c)" if "c \<in> set cs" for c
    proof
      let ?U = "filter (\<lambda>c. usable (score c)) cs" and ?k = "\<lambda>c. f64_key (score c)"
      assume "usable (score c)"
      with that have "?U \<noteq> []" by (auto simp: filter_empty_conv)
      then obtain m where m: "m \<in> set ?U" "?k m = Max (?k ` set ?U)"
        using Max_in [of "?k ` set ?U"]
        by (metis (no_types, lifting) finite_imageI finite_set imageE image_is_empty set_empty)
      then have "?k d \<le> ?k m" if "d \<in> set ?U" for d using that by simp
      then have "?P cs m" using m(1) by (fastforce simp: list_all_iff f64_lt_key usable_def)
      with m(1) None show False by (auto simp: weighted_best_def find_None_iff)
    qed
    then have "find (?P (cs @ [d])) cs = None" by (auto simp: find_None_iff)
    moreover have "?P (cs @ [d]) d \<longleftrightarrow> usable (score d)"
      using none by (fastforce simp: list_all_iff f64_lt_key usable_def)
    ultimately show ?thesis using None by (simp add: weighted_best_def find_append)
  next
    case (Some c)
    then have c: "c \<in> set cs" "?P cs c" by (auto simp: weighted_best_def find_Some_iff)
    show ?thesis
    proof (cases "f64_lt (score c) (score d)")
      case True
      have "f64_lt (score e) (score d)" if "e \<in> set cs" "usable (score e)" for e
        using True c that by (fastforce simp: list_all_iff f64_lt_key usable_def)
      then have "find (?P (cs @ [d])) cs = None" by (auto simp: find_None_iff)
      moreover have "?P (cs @ [d]) d"
        using True c by (fastforce simp: list_all_iff f64_lt_key usable_def)
      ultimately show ?thesis using Some True by (simp add: weighted_best_def find_append)
    next
      case False
      have "?P (cs @ [d]) e \<longleftrightarrow> ?P cs e" if "e \<in> set cs" for e
        using False c that by (fastforce simp: list_all_iff f64_lt_key usable_def)
      then have "find (?P (cs @ [d])) cs = find (?P cs) cs" by (intro find_cong) auto
      then show ?thesis using Some False by (simp add: weighted_best_def find_append)
    qed
  qed
qed

lemma weighted_loop_best:
  "case weighted_loop score (enumerate 0 cs) (lit_neg_inf, None, m) of (best_score, best_idx, _) \<Rightarrow>
     (case weighted_best score cs of
        None \<Rightarrow> best_score = lit_neg_inf \<and> best_idx = None
      | Some c \<Rightarrow> best_score = score c \<and> (\<exists>i < length cs. best_idx = Some i \<and> cs ! i = c))"
proof (induction cs rule: rev_induct)
  case Nil
  show ?case by (simp add: weighted_best_def)
next
  case (snoc d cs)
  obtain bs bi bm where L: "weighted_loop score (enumerate 0 cs) (lit_neg_inf, None, m) = (bs, bi, bm)"
    by (cases "weighted_loop score (enumerate 0 cs) (lit_neg_inf, None, m)") auto
  show ?case
    using snoc
    by (auto simp: enumerate_append_eq weighted_loop_append L weighted_best_snoc usable_def nth_append
        split: option.splits if_splits)
qed

lemma weighted_select_policy:
  "sd_selected (weighted_select fo score cs) = weighted_best score cs"
  "mset (sd_candidates (weighted_select fo score cs)) = mset cs"
  using weighted_loop_best [of score cs Map.empty]
  by (auto simp: weighted_select_def split: prod.splits option.splits)

section \<open>The policies keep their promises\<close>

interpretation fifo: scheduler_policy "pol_select FifoPolicy"
  by (rule first_feasible_policyI) (simp add: FifoPolicy_def fits_filter_def)

interpretation pareto: scheduler_policy "pol_select (ParetoPolicy fo)" for fo
  by (rule first_feasible_policyI) (simp add: ParetoPolicy_def fits_filter_def)

interpretation weighted: scheduler_policy "pol_select (WeightedSumPolicy fo weights)" for fo weights
  by unfold_locales
    (auto simp: WeightedSumPolicy_def weighted_select_policy weighted_best_def find_Some_iff)

interpretation prio: ranking_policy "pol_select PriorityPolicy" "pol_score PriorityPolicy"
  by (rule ranking_policyI) (simp add: PriorityPolicy_def Let_def)

interpretation multiplicative: ranking_policy "pol_select (MultiplicativePolicy fo)" "pol_score (MultiplicativePolicy fo)"
  for fo
  by (rule ranking_policyI) (simp add: MultiplicativePolicy_def)

interpretation cache_aware: ranking_policy "pol_select (CacheAwarePolicy fo m)" "pol_score (CacheAwarePolicy fo m)"
  for fo m
  by (rule ranking_policyI) (simp add: CacheAwarePolicy_def Let_def)

interpretation deadline: ranking_policy "pol_select (DeadlineAwarePolicy fo now)" "pol_score (DeadlineAwarePolicy fo now)"
  for fo now
  by (rule ranking_policyI) (simp add: DeadlineAwarePolicy_def)

interpretation critical: ranking_policy "pol_select (CriticalPathPolicy fo)" "pol_score (CriticalPathPolicy fo)"
  for fo
  by (rule ranking_policyI) (simp add: CriticalPathPolicy_def)

interpretation bandit: ranking_policy "pol_select (ContextualBanditPolicy fo b)" "pol_score (ContextualBanditPolicy fo b)"
  for fo b
  by (rule ranking_policyI) (simp add: ContextualBanditPolicy_def)

section \<open>Properties\<close>


text \<open>Every registered policy is found under its own name, and is honest: it selects one of
  the candidates it was given, or none, and reports exactly the candidates it was given.\<close>

theorem registered_policies_are_honest:
  "list_all (\<lambda>p. with_all_baselines fo now (pol_name p) = Some p \<and>
       (\<forall>w cs. set_option (sd_selected (pol_select p w cs)) \<subseteq> set cs \<and>
               mset (sd_candidates (pol_select p w cs)) = mset cs))
     (baseline_policies fo now) \<and>
   dom (with_all_baselines fo now) = pol_name ` set (baseline_policies fo now)"
proof -
  have names: "map pol_name (baseline_policies fo now) =
      [''FIFO'', ''Priority'', ''WeightedSum'', ''Multiplicative'', ''CacheAware'', ''DeadlineAware'',
       ''CriticalPathAware'', ''ContextualBandit'', ''Pareto'']"
    by (simp add: baseline_policies_def FifoPolicy_def PriorityPolicy_def WeightedSumPolicy_def
        MultiplicativePolicy_def CacheAwarePolicy_def DeadlineAwarePolicy_def CriticalPathPolicy_def
        ContextualBanditPolicy_def ParetoPolicy_def Let_def)
  have reg: "foldl registry_register r ps = r ++ map_of (rev (map (\<lambda>p. (pol_name p, p)) ps))" for r ps
    by (induction ps arbitrary: r) (simp_all add: registry_register_def map_add_def fun_eq_iff split: option.split)
  have "distinct (map fst (rev (map (\<lambda>p. (pol_name p, p)) (baseline_policies fo now))))"
    using names by (simp add: rev_map [symmetric] comp_def)
  then have "with_all_baselines fo now (pol_name p) = Some p" if "p \<in> set (baseline_policies fo now)" for p
    using that by (simp add: with_all_baselines_def reg map_of_eq_Some_iff)
  moreover have "dom (with_all_baselines fo now) = pol_name ` set (baseline_policies fo now)"
    by (simp add: with_all_baselines_def reg dom_map_of_conv_image_fst image_image)
  moreover have "\<forall>p \<in> set (baseline_policies fo now). \<forall>w cs.
      set_option (sd_selected (pol_select p w cs)) \<subseteq> set cs \<and> mset (sd_candidates (pol_select p w cs)) = mset cs"
    using fifo.honest prio.honest weighted.honest multiplicative.honest cache_aware.honest deadline.honest
      critical.honest bandit.honest pareto.honest
    by (simp add: baseline_policies_def)
  ultimately show ?thesis by (simp add: list_all_iff)
qed

text \<open>The hard-constraint filter is not consulted: each of the six sorting policies selects a
  lone candidate whatever it requires, also when the policy's own filter leaves nothing.\<close>

theorem sorting_policies_ignore_their_filter:
  "\<exists>c. \<not> candidate_fits c \<and>
     list_all (\<lambda>p. \<forall>w. sd_selected (pol_select p w [c]) = Some c \<and> sd_rejections (pol_select p w [c]) = Map.empty)
       [PriorityPolicy, MultiplicativePolicy fo, CacheAwarePolicy fo m, DeadlineAwarePolicy fo now,
        CriticalPathPolicy fo, ContextualBanditPolicy fo b]"
proof -
  let ?c = "\<lparr>sc_node_id = ''n'', sc_device_id = ''d'', sc_engine_id = ''e'', sc_model_revision = ''m'',
      sc_resources_available = rv_zero, sc_resources_required = rv_zero\<lparr>rv_ram_bytes := 1\<rparr>,
      sc_estimated_ttft_ms = 0, sc_estimated_tps = 0, sc_estimated_cost_microcents = 0,
      sc_estimated_quality = 0, sc_kv_cache_hit_rate = 0, sc_engine_load = 0, sc_device_utilization = 0\<rparr>"
  have "\<not> candidate_fits ?c" by (simp add: candidate_fits_def fits_within_def rv_zero_def)
  moreover have "sd_rejections (sorted_select score fb cs) = Map.empty" for score fb cs
    by (simp add: sorted_select_def plain_decision_def Let_def)
  ultimately show ?thesis
    using prio.selects_only_candidate multiplicative.selects_only_candidate cache_aware.selects_only_candidate
      deadline.selects_only_candidate critical.selects_only_candidate bandit.selects_only_candidate
    by (intro exI [of _ ?c])
      (simp add: PriorityPolicy_def MultiplicativePolicy_def CacheAwarePolicy_def DeadlineAwarePolicy_def
        CriticalPathPolicy_def ContextualBanditPolicy_def Let_def)
qed

end
