(* ===== verification/Placement.thy ===== *)
theory Placement
  imports Scheduling_Policies
begin

text \<open>
  Placement (crates/nous-scheduler/src/placement.rs, core.rs and node_transport.rs): the state of a
  node's connection, the candidates of a workload on a list of nodes, the placement decision, and
  the scheduler core with its explanation of a decision.  Letters are lowered in ASCII.  The
  printing of floats in the reasoning text is the parameter \<open>f64_text\<close>.  The properties
  of placement are proved once for any policy, in the locale \<open>scheduler_policy\<close>, and hold for the core
  through the interpretations of the policies.
\<close>

section \<open>Node connections\<close>

datatype NodeConnectionState = NC_Connected | NC_Degraded | NC_Offline | NC_Reconnecting

definition schedulable :: "NodeConnectionState \<Rightarrow> bool" where
  "schedulable s \<longleftrightarrow> s = NC_Connected \<or> s = NC_Degraded"

fun node_state_debug :: "NodeConnectionState \<Rightarrow> string" where
  "node_state_debug NC_Connected = ''Connected''"
| "node_state_debug NC_Degraded = ''Degraded''"
| "node_state_debug NC_Offline = ''Offline''"
| "node_state_debug NC_Reconnecting = ''Reconnecting''"

record NodeAdvertisement =
  na_node_id :: string
  na_capabilities :: "string list"
  na_state :: NodeConnectionState
  na_last_heartbeat_us :: int
  na_heartbeat_timeout_us :: int

definition i64_clamp :: "int \<Rightarrow> int" where
  "i64_clamp x = max (- (2 ^ 63)) (min (2 ^ 63 - 1) x)"

definition node_connect :: "string \<Rightarrow> string list \<Rightarrow> int \<Rightarrow> int \<Rightarrow> NodeAdvertisement" where
  "node_connect node_id capabilities now_us heartbeat_timeout_us =
     \<lparr>na_node_id = node_id, na_capabilities = capabilities, na_state = NC_Connected,
      na_last_heartbeat_us = now_us, na_heartbeat_timeout_us = max heartbeat_timeout_us 1\<rparr>"

definition node_heartbeat :: "int \<Rightarrow> string list \<Rightarrow> NodeAdvertisement \<Rightarrow> NodeAdvertisement" where
  "node_heartbeat now_us capabilities n =
     n\<lparr>na_last_heartbeat_us := now_us, na_capabilities := capabilities, na_state := NC_Connected\<rparr>"

definition node_disconnect :: "NodeAdvertisement \<Rightarrow> NodeAdvertisement" where
  "node_disconnect n = n\<lparr>na_state := NC_Offline\<rparr>"

definition node_begin_reconnect :: "NodeAdvertisement \<Rightarrow> NodeAdvertisement" where
  "node_begin_reconnect n = n\<lparr>na_state := NC_Reconnecting\<rparr>"

definition evaluate_health :: "int \<Rightarrow> NodeAdvertisement \<Rightarrow> NodeAdvertisement" where
  "evaluate_health now_us n =
     (let silent = i64_clamp (now_us - na_last_heartbeat_us n)
      in if na_state n = NC_Connected \<and> silent > na_heartbeat_timeout_us n
         then n\<lparr>na_state := NC_Degraded\<rparr>
         else if na_state n = NC_Degraded \<and> silent > i64_clamp (na_heartbeat_timeout_us n * 2)
         then n\<lparr>na_state := NC_Offline\<rparr>
         else n)"

section \<open>Nodes, devices and engines\<close>

record DevicePlacementInfo =
  di_device_id :: string
  di_device_type :: string
  di_vendor :: string
  di_total_vram :: u64
  di_free_vram :: u64
  di_utilization :: f64
  di_temperature_celsius :: f64
  di_has_kv_cache_for_model :: bool

record EnginePlacementInfo =
  ei_engine_id :: string
  ei_engine_type :: string
  ei_loaded_models :: "string list"
  ei_active_requests :: u32
  ei_max_batch_size :: u32
  ei_supports_streaming :: bool
  ei_capabilities :: "string list"
  ei_healthy :: bool
  ei_queue_depth :: u32
  ei_model_load_ms :: u64
  ei_state_transfer_ms :: u64
  ei_estimated_execution_ms :: u64
  ei_estimated_tps :: f64
  ei_kv_cache_hit_rate :: f64

record NodeInfo =
  ni_node_id :: string
  ni_hostname :: string
  ni_arch :: string
  ni_os :: string
  ni_capacity :: ResourceVector
  ni_allocatable :: ResourceVector
  ni_devices :: "DevicePlacementInfo list"
  ni_engines :: "EnginePlacementInfo list"
  ni_network_latency_us :: u64
  ni_is_local :: bool
  ni_connection_state :: NodeConnectionState

datatype KVCachePlacement = KV_Local | KV_Remote | KV_Shared | KV_None

record ExpectedCompletionTime =
  ect_queue_delay_ms :: u64
  ect_model_load_ms :: u64
  ect_state_transfer_ms :: u64
  ect_execution_estimate_ms :: u64
  ect_total_ms :: u64

record PlacementDecision =
  pd_node_id :: string
  pd_device_id :: string
  pd_engine_id :: string
  pd_model_revision :: string
  pd_tensor_parallelism :: u32
  pd_pipeline_parallelism :: u32
  pd_kv_cache_placement :: KVCachePlacement
  pd_resources_reserved :: ResourceVector
  pd_expected_completion_ms :: u64
  pd_expected_completion :: ExpectedCompletionTime
  pd_reasoning :: string

fun device_type_debug :: "DeviceType \<Rightarrow> string" where
  "device_type_debug DT_Unspecified = ''Unspecified''"
| "device_type_debug DT_Cpu = ''Cpu''"
| "device_type_debug DT_Cuda = ''Cuda''"
| "device_type_debug DT_Rocm = ''Rocm''"
| "device_type_debug DT_Vulkan = ''Vulkan''"
| "device_type_debug DT_OpenVino = ''OpenVino''"
| "device_type_debug DT_Metal = ''Metal''"
| "device_type_debug DT_Sycl = ''Sycl''"
| "device_type_debug DT_Cann = ''Cann''"
| "device_type_debug DT_Qnn = ''Qnn''"
| "device_type_debug DT_Dsp = ''Dsp''"
| "device_type_debug DT_Fpga = ''Fpga''"
| "device_type_debug DT_Npu = ''Npu''"
| "device_type_debug DT_Remote = ''Remote''"

definition to_lowercase :: "string \<Rightarrow> string" where
  "to_lowercase s = map ascii_lower s"

section \<open>Candidates\<close>

definition node_feasible :: "WorkloadSpec \<Rightarrow> NodeInfo \<Rightarrow> bool" where
  "node_feasible w node \<longleftrightarrow>
     schedulable (ni_connection_state node) \<and>
     \<not> (mr_routing (ws_model_requirements w) = RP_LocalOnly \<and> \<not> ni_is_local node) \<and>
     fits_within (rq_minimum (ws_resource_requirements w)) (ni_allocatable node)"

definition engine_feasible :: "WorkloadSpec \<Rightarrow> EnginePlacementInfo \<Rightarrow> bool" where
  "engine_feasible w engine \<longleftrightarrow>
     ei_healthy engine \<and>
     list_all (\<lambda>required. required \<in> set (ei_capabilities engine))
       (cr_required_capabilities (ws_capability_requirements w))"

definition device_feasible :: "WorkloadSpec \<Rightarrow> DevicePlacementInfo \<Rightarrow> bool" where
  "device_feasible w device \<longleftrightarrow>
     (let allowed = dr_allowed_device_types (ws_device_requirements w)
      in allowed = [] \<or>
         list_ex (\<lambda>dt. to_lowercase (device_type_debug dt) = to_lowercase (di_device_type device)) allowed) \<and>
     \<not> rv_device_memory_bytes (rq_minimum (ws_resource_requirements w)) > di_free_vram device"

definition matching_model :: "WorkloadSpec \<Rightarrow> EnginePlacementInfo \<Rightarrow> string option" where
  "matching_model w engine =
     find (\<lambda>m. list_ex (\<lambda>f. str_contains m f) (mr_allowed_model_families (ws_model_requirements w)))
       (ei_loaded_models engine)"

definition make_candidate ::
  "f64_ops \<Rightarrow> WorkloadSpec \<Rightarrow> NodeInfo \<Rightarrow> DevicePlacementInfo \<Rightarrow> EnginePlacementInfo \<Rightarrow> SchedulerCandidate" where
  "make_candidate fo w node device engine =
     \<lparr>sc_node_id = ni_node_id node, sc_device_id = di_device_id device, sc_engine_id = ei_engine_id engine,
      sc_model_revision = (case matching_model w engine of None \<Rightarrow> [] | Some m \<Rightarrow> m),
      sc_resources_available = rv_zero
        \<lparr>rv_device_memory_bytes := di_free_vram device,
         rv_ram_bytes := rv_ram_bytes (ni_allocatable node),
         rv_kv_cache_bytes := rv_kv_cache_bytes (ni_allocatable node),
         rv_cpu_cores_millis := rv_cpu_cores_millis (ni_allocatable node)\<rparr>,
      sc_resources_required = rq_minimum (ws_resource_requirements w),
      sc_estimated_ttft_ms = (if di_device_type device = ''cpu'' then 2000 else 200),
      sc_estimated_tps = ei_estimated_tps engine,
      sc_estimated_cost_microcents = (if ni_is_local node then 0 else 1000),
      sc_estimated_quality = (if matching_model w engine \<noteq> None then lit_0_9 else lit_0_7),
      sc_kv_cache_hit_rate = ei_kv_cache_hit_rate engine,
      sc_engine_load = fo_div fo (fo_of_int fo (uint (ei_active_requests engine)))
        (fo_of_int fo (uint (max (ei_max_batch_size engine) 1))),
      sc_device_utilization = di_utilization device\<rparr>"

definition placement_candidates :: "f64_ops \<Rightarrow> WorkloadSpec \<Rightarrow> NodeInfo list \<Rightarrow> SchedulerCandidate list" where
  "placement_candidates fo w nodes =
     concat (map (\<lambda>node.
       if node_feasible w node
       then concat (map (\<lambda>device. concat (map (\<lambda>engine.
              if engine_feasible w engine \<and> device_feasible w device
              then [make_candidate fo w node device engine] else [])
            (ni_engines node))) (ni_devices node))
       else []) nodes)"

section \<open>The placement decision\<close>

record f64_text =
  ft_debug :: "f64 option \<Rightarrow> string"
  ft_fixed2 :: "f64 \<Rightarrow> string"

definition completion_of :: "EnginePlacementInfo \<Rightarrow> string \<Rightarrow> ExpectedCompletionTime" where
  "completion_of engine model_revision =
     (let queue_delay_ms = sat_mul (ucast (ei_queue_depth engine)) (ei_estimated_execution_ms engine);
          model_load_ms = (if model_revision \<in> set (ei_loaded_models engine) then 0 else ei_model_load_ms engine)
      in \<lparr>ect_queue_delay_ms = queue_delay_ms, ect_model_load_ms = model_load_ms,
          ect_state_transfer_ms = ei_state_transfer_ms engine,
          ect_execution_estimate_ms = ei_estimated_execution_ms engine,
          ect_total_ms = sat_add (sat_add (sat_add queue_delay_ms model_load_ms) (ei_state_transfer_ms engine))
            (ei_estimated_execution_ms engine)\<rparr>)"

definition find_engine :: "NodeInfo list \<Rightarrow> SchedulerCandidate \<Rightarrow> EnginePlacementInfo option" where
  "find_engine nodes c =
     Option.bind (find (\<lambda>node. ni_node_id node = sc_node_id c) nodes)
       (\<lambda>node. find (\<lambda>engine. ei_engine_id engine = sc_engine_id c) (ni_engines node))"

definition expected_completion :: "NodeInfo list \<Rightarrow> SchedulerCandidate \<Rightarrow> ExpectedCompletionTime" where
  "expected_completion nodes c =
     (case find_engine nodes c of
        Some engine \<Rightarrow> completion_of engine (sc_model_revision c)
      | None \<Rightarrow> \<lparr>ect_queue_delay_ms = 0, ect_model_load_ms = 0, ect_state_transfer_ms = 0,
                 ect_execution_estimate_ms = 0, ect_total_ms = u64_max\<rparr>)"

definition decision_of ::
  "f64_text \<Rightarrow> NodeInfo list \<Rightarrow> ScheduleDecision \<Rightarrow> SchedulerCandidate \<Rightarrow> PlacementDecision" where
  "decision_of ft nodes decision c =
     \<lparr>pd_node_id = sc_node_id c, pd_device_id = sc_device_id c, pd_engine_id = sc_engine_id c,
      pd_model_revision = sc_model_revision c, pd_tensor_parallelism = 1, pd_pipeline_parallelism = 1,
      pd_kv_cache_placement = (if f64_lt lit_0_5 (sc_kv_cache_hit_rate c) then KV_Shared else KV_Local),
      pd_resources_reserved = sc_resources_required c,
      pd_expected_completion_ms = ect_total_ms (expected_completion nodes c),
      pd_expected_completion = expected_completion nodes c,
      pd_reasoning = ''Selected '' @ sc_engine_id c @ '' on '' @ sc_device_id c @ '' (score: '' @
        ft_debug ft (sd_score_breakdown decision (sc_node_id c)) @ '', kv_hit: '' @
        ft_fixed2 ft (sc_kv_cache_hit_rate c) @ '', load: '' @ ft_fixed2 ft (sc_engine_load c) @ '')''\<rparr>"

definition place ::
  "f64_ops \<Rightarrow> f64_text \<Rightarrow> SchedulerPolicy \<Rightarrow> WorkloadSpec \<Rightarrow> NodeInfo list \<Rightarrow> PlacementDecision option" where
  "place fo ft policy w nodes =
     (let decision = pol_select policy w (placement_candidates fo w nodes)
      in map_option (decision_of ft nodes decision) (sd_selected decision))"

section \<open>The scheduler core\<close>

datatype SchedulerPolicySet = PS_Deterministic | PS_StateAware | PS_Adaptive

fun policy_set_debug :: "SchedulerPolicySet \<Rightarrow> string" where
  "policy_set_debug PS_Deterministic = ''Deterministic''"
| "policy_set_debug PS_StateAware = ''StateAware''"
| "policy_set_debug PS_Adaptive = ''Adaptive''"

record SchedulerCoreConfig =
  cfg_policy_set :: SchedulerPolicySet
  cfg_learning_authorized :: bool

definition scheduler_core_config_default :: SchedulerCoreConfig where
  "scheduler_core_config_default = \<lparr>cfg_policy_set = PS_Deterministic, cfg_learning_authorized = False\<rparr>"

record CandidateRejection =
  rej_candidate :: string
  rej_reason :: string

record DecisionTrace =
  dt_policy :: string
  dt_candidates :: "string list"
  dt_rejections :: "CandidateRejection list"
  dt_selected :: "string option"
  dt_selected_provider :: "string option"
  dt_selected_model :: "string option"
  dt_fallback_candidate :: "string option"
  dt_capability_match :: string
  dt_reason :: string
  dt_expected_completion_ms :: "u64 option"
  dt_expected_completion :: "ExpectedCompletionTime option"
  dt_resource_snapshot :: ResourceVector

definition effective_policy_set :: "SchedulerCoreConfig \<Rightarrow> SchedulerPolicySet" where
  "effective_policy_set cfg =
     (if cfg_policy_set cfg = PS_Adaptive \<and> \<not> cfg_learning_authorized cfg then PS_Deterministic
      else cfg_policy_set cfg)"

fun core_policy :: "f64_ops \<Rightarrow> SchedulerPolicySet \<Rightarrow> SchedulerPolicy" where
  "core_policy fo PS_Deterministic = WeightedSumPolicy fo scheduling_weights_default"
| "core_policy fo PS_StateAware = CriticalPathPolicy fo"
| "core_policy fo PS_Adaptive = ContextualBanditPolicy fo (bandit_new lit_0_1 lit_0_05)"

definition core_place ::
  "f64_ops \<Rightarrow> f64_text \<Rightarrow> SchedulerCoreConfig \<Rightarrow> WorkloadSpec \<Rightarrow> NodeInfo list \<Rightarrow> PlacementDecision option" where
  "core_place fo ft cfg w nodes = place fo ft (core_policy fo (effective_policy_set cfg)) w nodes"

text \<open>The reason why a node is not a candidate, if there is one.\<close>

definition rejection_reason :: "WorkloadSpec \<Rightarrow> NodeInfo \<Rightarrow> string option" where
  "rejection_reason w node =
     (if \<not> schedulable (ni_connection_state node)
      then Some (to_lowercase (''node is '' @ node_state_debug (ni_connection_state node)))
      else if mr_routing (ws_model_requirements w) = RP_LocalOnly \<and> \<not> ni_is_local node
      then Some ''privacy requires local execution''
      else if ni_devices node = [] then Some ''no device is available''
      else if ni_engines node = [] then Some ''no provider engine is available''
      else if list_all (\<lambda>engine. \<not> ei_healthy engine) (ni_engines node)
      then Some ''all provider engines are unhealthy''
      else if \<not> list_all (\<lambda>required. list_ex (\<lambda>engine. ei_healthy engine \<and> required \<in> set (ei_capabilities engine))
                 (ni_engines node)) (cr_required_capabilities (ws_capability_requirements w))
      then Some ''required provider capability is unavailable''
      else if \<not> fits_within (rq_minimum (ws_resource_requirements w)) (ni_allocatable node)
      then Some ''minimum resources exceed allocatable resources''
      else None)"

fun trace_nodes :: "WorkloadSpec \<Rightarrow> NodeInfo list \<Rightarrow> string list \<times> CandidateRejection list" where
  "trace_nodes w [] = ([], [])"
| "trace_nodes w (node # nodes) =
     (case trace_nodes w nodes of (candidates, rejections) \<Rightarrow>
        (case rejection_reason w node of
           Some reason \<Rightarrow> (candidates, \<lparr>rej_candidate = ni_node_id node, rej_reason = reason\<rparr> # rejections)
         | None \<Rightarrow> (ni_node_id node # candidates, rejections)))"

definition place_with_trace ::
  "f64_ops \<Rightarrow> f64_text \<Rightarrow> SchedulerCoreConfig \<Rightarrow> WorkloadSpec \<Rightarrow> NodeInfo list \<Rightarrow>
     PlacementDecision option \<times> DecisionTrace" where
  "place_with_trace fo ft cfg w nodes =
     (let decision = core_place fo ft cfg w nodes;
          candidates = fst (trace_nodes w nodes);
          rejections = snd (trace_nodes w nodes);
          selected = map_option pd_node_id decision
      in (decision,
          \<lparr>dt_policy = policy_set_debug (effective_policy_set cfg), dt_candidates = candidates,
           dt_rejections = rejections, dt_selected = selected,
           dt_selected_provider = map_option pd_engine_id decision,
           dt_selected_model = map_option pd_model_revision decision,
           dt_fallback_candidate = find (\<lambda>c. Some c \<noteq> selected) candidates,
           dt_capability_match =
             (if decision \<noteq> None then ''all hard capability constraints satisfied''
              else ''no candidate satisfied every hard capability constraint''),
           dt_reason =
             (case decision of Some d \<Rightarrow> pd_reasoning d
              | None \<Rightarrow> ''no feasible candidate passed hard constraints''),
           dt_expected_completion_ms = map_option pd_expected_completion_ms decision,
           dt_expected_completion = map_option pd_expected_completion decision,
           dt_resource_snapshot =
             (case Option.bind decision (\<lambda>d. find (\<lambda>node. ni_node_id node = pd_node_id d) nodes) of
                Some node \<Rightarrow> ni_allocatable node | None \<Rightarrow> rv_zero)\<rparr>))"

section \<open>Placement under any policy\<close>

text \<open>What a decision must satisfy: it names a node, a device and an engine of that node that pass
  every hard constraint, and reserves the minimum the workload asks for.\<close>

definition placed_on :: "WorkloadSpec \<Rightarrow> NodeInfo \<Rightarrow> DevicePlacementInfo \<Rightarrow> EnginePlacementInfo \<Rightarrow> PlacementDecision \<Rightarrow> bool" where
  "placed_on w node device engine d \<longleftrightarrow>
     device \<in> set (ni_devices node) \<and> engine \<in> set (ni_engines node) \<and>
     node_feasible w node \<and> device_feasible w device \<and> engine_feasible w engine \<and>
     pd_node_id d = ni_node_id node \<and> pd_device_id d = di_device_id device \<and>
     pd_engine_id d = ei_engine_id engine \<and>
     pd_model_revision d = (case matching_model w engine of None \<Rightarrow> [] | Some m \<Rightarrow> m) \<and>
     pd_resources_reserved d = rq_minimum (ws_resource_requirements w)"

lemma placement_candidates_iff:
  "c \<in> set (placement_candidates fo w nodes) \<longleftrightarrow>
     (\<exists>node \<in> set nodes. \<exists>device \<in> set (ni_devices node). \<exists>engine \<in> set (ni_engines node).
        node_feasible w node \<and> device_feasible w device \<and> engine_feasible w engine \<and>
        c = make_candidate fo w node device engine)"
  by (auto simp: placement_candidates_def split: if_splits)

lemma make_candidate_sel:
  "sc_node_id (make_candidate fo w node device engine) = ni_node_id node"
  "sc_device_id (make_candidate fo w node device engine) = di_device_id device"
  "sc_engine_id (make_candidate fo w node device engine) = ei_engine_id engine"
  "sc_model_revision (make_candidate fo w node device engine) =
     (case matching_model w engine of None \<Rightarrow> [] | Some m \<Rightarrow> m)"
  "sc_resources_required (make_candidate fo w node device engine) = rq_minimum (ws_resource_requirements w)"
  by (simp_all add: make_candidate_def)

context scheduler_policy
begin

lemma place_sound:
  assumes "pol_select policy = select" "place fo ft policy w nodes = Some d"
  shows "\<exists>node \<in> set nodes. \<exists>device engine. placed_on w node device engine d"
proof -
  obtain c where c: "sd_selected (select w (placement_candidates fo w nodes)) = Some c"
      "d = decision_of ft nodes (select w (placement_candidates fo w nodes)) c"
    using assms by (auto simp: place_def Let_def)
  obtain node device engine where "node \<in> set nodes" "device \<in> set (ni_devices node)"
      "engine \<in> set (ni_engines node)" "node_feasible w node" "device_feasible w device"
      "engine_feasible w engine" "c = make_candidate fo w node device engine"
    using selected_from [OF c(1)] by (auto simp: placement_candidates_iff)
  then show ?thesis using c(2) by (auto simp: placed_on_def decision_of_def make_candidate_sel)
qed

lemma place_none_of_none:
  assumes "pol_select policy = select" "placement_candidates fo w nodes = []"
  shows "place fo ft policy w nodes = None"
  using assms selects_none_of_none [of w] by (simp add: place_def)

end

context ranking_policy
begin

lemma place_complete:
  assumes "pol_select policy = select"
  shows "place fo ft policy w nodes = None \<longleftrightarrow> placement_candidates fo w nodes = []"
proof (cases "placement_candidates fo w nodes = []")
  case True
  then show ?thesis using place_none_of_none [OF assms] by simp
next
  case False
  then show ?thesis using selects_some [OF False, of w] assms by (auto simp: place_def Let_def)
qed

end

interpretation core: scheduler_policy "pol_select (core_policy fo ps)" for fo ps
  by (cases ps)
    (simp_all add: weighted.scheduler_policy_axioms critical.scheduler_policy_axioms bandit.scheduler_policy_axioms)

section \<open>Explanations\<close>

lemma trace_nodes_eq:
  "trace_nodes w nodes =
     (map ni_node_id (filter (\<lambda>n. rejection_reason w n = None) nodes),
      map (\<lambda>n. \<lparr>rej_candidate = ni_node_id n, rej_reason = the (rejection_reason w n)\<rparr>)
        (filter (\<lambda>n. rejection_reason w n \<noteq> None) nodes))"
  by (induction nodes) (auto split: option.splits)

lemma placed_node_not_rejected: "placed_on w node device engine d \<Longrightarrow> rejection_reason w node = None"
  by (force simp: placed_on_def node_feasible_def engine_feasible_def rejection_reason_def list_all_iff list_ex_iff)

lemma core_place_sound:
  "core_place fo ft cfg w nodes = Some d \<Longrightarrow> \<exists>node \<in> set nodes. \<exists>device engine. placed_on w node device engine d"
  unfolding core_place_def by (rule core.place_sound [OF refl])

section \<open>Properties\<close>


text \<open>The explanation matches the decision: every node of the list appears either among the
  candidates or, with its reason, among the rejections, in order; what the trace calls selected is what
  was decided, and it is one of the candidates; the fallback is a candidate other than the
  selected one.\<close>

theorem trace_explains_decision:
  "case place_with_trace fo ft cfg w nodes of (decision, trace) \<Rightarrow>
     decision = core_place fo ft cfg w nodes \<and>
     dt_candidates trace = map ni_node_id (filter (\<lambda>n. rejection_reason w n = None) nodes) \<and>
     map rej_candidate (dt_rejections trace) = map ni_node_id (filter (\<lambda>n. rejection_reason w n \<noteq> None) nodes) \<and>
     length (dt_candidates trace) + length (dt_rejections trace) = length nodes \<and>
     dt_selected trace = map_option pd_node_id decision \<and>
     set_option (dt_selected trace) \<subseteq> set (dt_candidates trace) \<and>
     set_option (dt_fallback_candidate trace) \<subseteq> set (dt_candidates trace) - set_option (dt_selected trace)"
proof -
  have sel: "pd_node_id d \<in> ni_node_id ` {n \<in> set nodes. rejection_reason w n = None}"
    if "core_place fo ft cfg w nodes = Some d" for d
    using core_place_sound [OF that] placed_node_not_rejected by (fastforce simp: placed_on_def)
  have len: "length (filter (\<lambda>n. rejection_reason w n = None) nodes) +
      length (filter (\<lambda>n. rejection_reason w n \<noteq> None) nodes) = length nodes"
    by (rule sum_length_filter_compl)
  have fb: "x \<in> set cs \<and> Some x \<noteq> s" if "find (\<lambda>c. Some c \<noteq> s) cs = Some x" for x s and cs :: "string list"
    using that by (auto simp: find_Some_iff)
  have fb': "set_option (find (\<lambda>c. Some c \<noteq> s) cs) \<subseteq> set cs - set_option s" for s and cs :: "string list"
    using fb [of s cs] by (cases "find (\<lambda>c. Some c \<noteq> s) cs") (auto elim!: allE)
  have sel': "set_option (map_option pd_node_id (core_place fo ft cfg w nodes)) \<subseteq>
      set (map ni_node_id (filter (\<lambda>n. rejection_reason w n = None) nodes))"
    using sel by auto
  show ?thesis
    unfolding place_with_trace_def trace_nodes_eq Let_def prod.case fst_conv snd_conv DecisionTrace.select_convs
    by (intro conjI refl sel' fb') (simp_all add: comp_def len del: not_None_eq)
qed

text \<open>Two engines with one capability each, for a workload that requires both.\<close>

definition demo_engine :: "string \<Rightarrow> EnginePlacementInfo" where
  "demo_engine cap =
     \<lparr>ei_engine_id = cap, ei_engine_type = ''e'', ei_loaded_models = [''m''], ei_active_requests = 0,
      ei_max_batch_size = 1, ei_supports_streaming = False, ei_capabilities = [cap], ei_healthy = True,
      ei_queue_depth = 0, ei_model_load_ms = 0, ei_state_transfer_ms = 0, ei_estimated_execution_ms = 1,
      ei_estimated_tps = lit_1, ei_kv_cache_hit_rate = lit_0\<rparr>"

definition demo_device :: DevicePlacementInfo where
  "demo_device =
     \<lparr>di_device_id = ''host-cpu'', di_device_type = ''cpu'', di_vendor = ''host'', di_total_vram = 0,
      di_free_vram = 0, di_utilization = lit_0, di_temperature_celsius = lit_0,
      di_has_kv_cache_for_model = False\<rparr>"

definition demo_node :: NodeInfo where
  "demo_node =
     \<lparr>ni_node_id = ''n'', ni_hostname = ''h'', ni_arch = ''a'', ni_os = ''o'', ni_capacity = rv_zero,
      ni_allocatable = rv_zero, ni_devices = [demo_device],
      ni_engines = [demo_engine ''chat'', demo_engine ''tools''], ni_network_latency_us = 0,
      ni_is_local = True, ni_connection_state = NC_Connected\<rparr>"

text \<open>The explanation can call a node a candidate that no placement can use: the trace looks
  for each required capability among all healthy engines of a node, placement for one engine that has
  them all; the trace of a workload that needs two capabilities then lists the node as a candidate and as
  the fallback, rejects nothing, and the workload is not placed.\<close>

theorem trace_lists_unplaceable_candidate:
  "\<exists>w. place_with_trace fo ft cfg w [demo_node] =
     (None, \<lparr>dt_policy = policy_set_debug (effective_policy_set cfg), dt_candidates = [''n''], dt_rejections = [],
       dt_selected = None, dt_selected_provider = None, dt_selected_model = None,
       dt_fallback_candidate = Some ''n'',
       dt_capability_match = ''no candidate satisfied every hard capability constraint'',
       dt_reason = ''no feasible candidate passed hard constraints'', dt_expected_completion_ms = None,
       dt_expected_completion = None, dt_resource_snapshot = rv_zero\<rparr>)"
proof -
  let ?w = "workload_spec_default\<lparr>ws_capability_requirements :=
      (ws_capability_requirements workload_spec_default)\<lparr>cr_required_capabilities := [''chat'', ''tools'']\<rparr>\<rparr>"
  have "\<not> engine_feasible ?w (demo_engine ''chat'')" "\<not> engine_feasible ?w (demo_engine ''tools'')"
    by (simp_all add: engine_feasible_def demo_engine_def)
  then have "placement_candidates fo ?w [demo_node] = []"
    by (simp add: placement_candidates_def demo_node_def)
  then have none: "core_place fo ft cfg ?w [demo_node] = None"
    unfolding core_place_def by (rule core.place_none_of_none [OF refl])
  have "fits_within (rq_minimum (ws_resource_requirements ?w)) rv_zero"
    by (simp add: fits_within_def workload_spec_default_def resource_requirements_default_def rv_zero_def)
  then have "rejection_reason ?w demo_node = None"
    by (simp add: rejection_reason_def demo_node_def demo_engine_def schedulable_def
        workload_spec_default_def model_requirements_default_def)
  then show ?thesis
    using none by (intro exI [of _ ?w]) (simp add: place_with_trace_def Let_def demo_node_def)
qed

text \<open>The adaptive policy set does not adapt: the core makes a new contextual bandit with an
  empty history for every placement, all candidates score the same, and the placement
  is that of the first candidate.\<close>

theorem adaptive_core_places_first_candidate:
  "core_place fo ft \<lparr>cfg_policy_set = PS_Adaptive, cfg_learning_authorized = True\<rparr> w nodes =
     map_option (decision_of ft nodes (plain_decision None [] False TryNextBest))
       (first_of (placement_candidates fo w nodes))"
proof -
  let ?b = "bandit_new lit_0_1 lit_0_05" and ?cs = "placement_candidates fo w nodes"
  have const: "bandit_score fo ?b c = bandit_score fo ?b d" for c d
    by (simp add: bandit_score_def bandit_stats_def bandit_new_def)
  have "list_all (\<lambda>d. f64_total_key (bandit_score fo ?b d) \<le> f64_total_key (bandit_score fo ?b c)) ?cs" for c
    unfolding list_all_iff by (intro ballI order_eq_refl arg_cong [where f = f64_total_key] const)
  then have first: "first_best (bandit_score fo ?b) ?cs = first_of ?cs"
    by (cases ?cs) (auto simp: first_best_def first_of_def)
  have "sd_score_breakdown (sorted_select score fb cs) = Map.empty" for score fb cs
    by (simp add: sorted_select_def plain_decision_def Let_def)
  then have same: "decision_of ft nodes (sorted_select score fb cs) =
      decision_of ft nodes (plain_decision None [] False TryNextBest)" for score fb cs
    by (rule_tac ext) (simp add: decision_of_def plain_decision_def)
  show ?thesis
    by (simp add: core_place_def place_def effective_policy_set_def Let_def ContextualBanditPolicy_def
        sorted_select_policy first same)
qed

text \<open>Health evaluation: a node never becomes schedulable by it; a connected node that has been
  silent for longer than its timeout is degraded, still schedulable; evaluated again after more
  than twice the timeout it is offline and not schedulable; and only a heartbeat makes it connected
  again.\<close>

theorem silent_node_leaves_scheduling:
  "let n1 = evaluate_health t1 (node_connect i caps t0 timeout); n2 = evaluate_health t2 n1
   in (if t0 + max timeout 1 < t1 \<and> t1 \<le> t2 \<and> {t0, t1, t2, timeout} \<subseteq> {0 .. 2 ^ 62 - 1}
       then na_state n1 = NC_Degraded \<and> schedulable (na_state n1) \<and>
            na_state n2 = (if t0 + 2 * max timeout 1 < t2 then NC_Offline else NC_Degraded)
       else True) \<and>
      (if schedulable (na_state n) then True else evaluate_health t2 n = n) \<and>
      na_state (node_heartbeat t2 caps n) = NC_Connected"
  by (auto simp: evaluate_health_def node_connect_def node_heartbeat_def schedulable_def i64_clamp_def Let_def)

end
