(* ===== verification/Coordinator.thy ===== *)
theory Coordinator
  imports Durable_Executor Placement Leases Semantic_State Admission
begin

text \<open>
  The coordinator (crates/nous-kernel-core/src/coordinator.rs, continuity.rs, cancellation.rs): one
  operation goes through screening, admission, placement, a fenced lease, the durable executor and
  its bookkeeping; a continuity plan tries the candidates of each step; recovery revokes orphaned
  leases and executes pending operations again.

  The state \<open>runtime_state\<close> holds the executor's state (journal and provider calls), the kernel state, the
  lease manager and the active operations.  What a call reads from outside (clock readings, the
  uuid of its lease, whether its cancellation token is set by the time the executor asks, the point
  at which the process is aborted, the measured latencies) is the record \<open>rt_inputs\<close>; the
  \<open>n\<close>-th execution reads \<open>re_inputs n\<close>.  A result \<open>None\<close> means that the process was aborted.  The
  iteration order of the source's hash maps is that of the first insertion.  Clock instants are
  in microseconds.
\<close>

section \<open>Continuity plans\<close>

record FailoverCandidate =
  fc_request :: OperationRequest
  fc_capabilities :: ModelCapabilityManifest

record ContinuityStep =
  cs_step_id :: string
  cs_requirements :: ModelCompatibilityRequirements
  cs_allow_degraded :: bool
  cs_candidates :: "FailoverCandidate list"

record ContinuityPlan =
  cp_workload_id :: string
  cp_process_identity :: string
  cp_steps :: "ContinuityStep list"

record FailoverRecord =
  fr_step_id :: string
  fr_from_provider :: string
  fr_to_provider :: string
  fr_failure_code :: string
  fr_compatibility :: CompatibilityReport

record RuntimeExecution =
  rx_workload_id :: string
  rx_receipt :: OperationReceipt
  rx_decision_trace :: DecisionTrace

record ContinuityExecution =
  cx_workload_id :: string
  cx_process_identity :: string
  cx_completed_steps :: "RuntimeExecution list"
  cx_failovers :: "FailoverRecord list"

section \<open>State and environment\<close>

record ActiveOperation =
  ao_operation_id :: string
  ao_request :: OperationRequest
  ao_cancelled :: bool

record runtime_state =
  rt_exec :: executor_state
  rt_kernel :: KernelState
  rt_leases :: LeaseManager
  rt_active :: "(string \<times> ActiveOperation) list"
  rt_tick :: nat
  rt_probes :: "ProviderProbeRequest list"

record rt_inputs =
  ri_now :: int
  ri_instant :: instant
  ri_authorize_at :: instant
  ri_uuid :: string
  ri_cancelled :: bool
  ri_crash :: "FaultPoint option"
  ri_queue_ms :: u64
  ri_latency_ms :: u64

record runtime_env =
  re_exec :: executor_env
  re_trace :: "DecisionTrace codec"
  re_lease :: "FencedLease codec"
  re_profile :: "ExecutionProfile codec"
  re_json :: "json codec"
  re_compat_json :: "CompatibilityReport \<Rightarrow> json"
  re_fo :: f64_ops
  re_ft :: f64_text
  re_arch :: string
  re_os :: string
  re_inputs :: "nat \<Rightarrow> rt_inputs"
  re_probe :: "nat \<Rightarrow> ProviderProbeRequest \<Rightarrow> ProviderProbeReport kernel_result"

abbreviation rt_journal :: "runtime_state \<Rightarrow> Journal" where
  "rt_journal s \<equiv> ex_journal (rt_exec s)"

definition rt_now :: "runtime_env \<Rightarrow> runtime_state \<Rightarrow> int" where
  "rt_now env s = ri_now (re_inputs env (rt_tick s))"

definition local_capacity :: ResourceVector where
  "local_capacity = rv_zero\<lparr>rv_cpu_cores_millis := 4000, rv_ram_bytes := 8589934592,
     rv_network_bandwidth_bps := u64_max\<rparr>"

definition local_domain :: ResourceDomain where
  "local_domain =
     \<lparr>dom_id = ''local-kernel'', dom_parent = None, dom_capacity = local_capacity, dom_allocated = rv_zero,
      dom_reserved = rv_zero, dom_hard_limits = no_limits, dom_soft_limits = no_limits\<rparr>"

definition kernel_runtime_new :: "string \<Rightarrow> BootCore \<Rightarrow> runtime_state" where
  "kernel_runtime_new uuid core =
     \<lparr>rt_exec = \<lparr>ex_journal = bc_journal core, ex_calls = []\<rparr>, rt_kernel = bc_state core,
      rt_leases = lease_manager_new uuid 30000000, rt_active = [], rt_tick = 0, rt_probes = []\<rparr>"

section \<open>Workloads and the reference node\<close>

definition workload_for :: "OperationRequest \<Rightarrow> WorkloadSpec" where
  "workload_for r =
     (let w = workload_spec_default\<lparr>ws_workload_id := op_workload_id r, ws_idempotency_key := op_operation_id r,
            ws_principal_id := ''kernel-runtime'', ws_namespace := ''default'', ws_goal := op_input r\<rparr>;
          w1 = w\<lparr>ws_resource_requirements := (ws_resource_requirements w)
                 \<lparr>rq_minimum := rv_zero\<lparr>rv_cpu_cores_millis := 1, rv_ram_bytes := 1048576\<rparr>\<rparr>\<rparr>
      in if op_model r \<noteq> []
         then w1\<lparr>ws_model_requirements := (ws_model_requirements w1)
                 \<lparr>mr_allowed_model_families := mr_allowed_model_families (ws_model_requirements w1) @ [op_model r]\<rparr>\<rparr>
         else w1)"

definition reference_node :: "runtime_env \<Rightarrow> OperationRequest \<Rightarrow> NodeInfo" where
  "reference_node env r =
     \<lparr>ni_node_id = ''local-reference'', ni_hostname = ''localhost'', ni_arch = re_arch env, ni_os = re_os env,
      ni_capacity = local_capacity, ni_allocatable = local_capacity,
      ni_devices =
        [\<lparr>di_device_id = ''host-cpu'', di_device_type = ''cpu'', di_vendor = ''host'', di_total_vram = 0,
          di_free_vram = 0, di_utilization = lit_0, di_temperature_celsius = lit_0,
          di_has_kv_cache_for_model = False\<rparr>],
      ni_engines =
        [\<lparr>ei_engine_id = op_backend r, ei_engine_type = ''provider-worker'',
          ei_loaded_models = [if op_model r = [] then op_backend r else op_model r],
          ei_active_requests = 0, ei_max_batch_size = 1, ei_supports_streaming = False,
          ei_capabilities = [''chat''], ei_healthy = True, ei_queue_depth = 0, ei_model_load_ms = 0,
          ei_state_transfer_ms = 0, ei_estimated_execution_ms = 1, ei_estimated_tps = lit_1,
          ei_kv_cache_hit_rate = lit_0\<rparr>],
      ni_network_latency_us = 0, ni_is_local = True, ni_connection_state = NC_Connected\<rparr>"

definition replay_trace :: DecisionTrace where
  "replay_trace =
     \<lparr>dt_policy = ''JournalReplay'', dt_candidates = [], dt_rejections = [], dt_selected = None,
      dt_selected_provider = None, dt_selected_model = None, dt_fallback_candidate = None,
      dt_capability_match = ''replayed from durable committed receipt'',
      dt_reason = ''returned a previously committed operation receipt'',
      dt_expected_completion_ms = None, dt_expected_completion = None, dt_resource_snapshot = rv_zero\<rparr>"

section \<open>Decision traces\<close>

definition latest_trace_in :: "runtime_env \<Rightarrow> (JournalEntry \<Rightarrow> bool) \<Rightarrow> JournalEntry list \<Rightarrow> DecisionTrace option" where
  "latest_trace_in env P entries =
     Option.bind (find (\<lambda>e. je_object_type e = ''SchedulerDecision'' \<and> P e) (rev entries))
       (\<lambda>e. decode_ok (re_trace env) (je_payload e))"

definition latest_decision_trace ::
  "runtime_env \<Rightarrow> string \<Rightarrow> runtime_state \<Rightarrow> DecisionTrace option kernel_result" where
  "latest_decision_trace env operation_id s =
     (case read_from (xe_journal (re_exec env)) (rt_journal s) 0 of
        Inl err \<Rightarrow> Inl (KE_Journal (show_nous_error err))
      | Inr entries \<Rightarrow> Inr (latest_trace_in env (\<lambda>e. je_object_id e = operation_id) entries))"

definition latest_decision_trace_any :: "runtime_env \<Rightarrow> runtime_state \<Rightarrow> DecisionTrace option kernel_result" where
  "latest_decision_trace_any env s =
     (case read_from (xe_journal (re_exec env)) (rt_journal s) 0 of
        Inl err \<Rightarrow> Inl (KE_Journal (show_nous_error err))
      | Inr entries \<Rightarrow> Inr (latest_trace_in env (\<lambda>e. True) entries))"

definition latest_decision_trace_for_workload ::
  "runtime_env \<Rightarrow> string \<Rightarrow> runtime_state \<Rightarrow> DecisionTrace option kernel_result" where
  "latest_decision_trace_for_workload env workload_id s =
     (case read_workload (xe_journal (re_exec env)) (rt_journal s) workload_id of
        Inl err \<Rightarrow> Inl (KE_Journal (show_nous_error err))
      | Inr entries \<Rightarrow> Inr (latest_trace_in env (\<lambda>e. True) entries))"

section \<open>One operation\<close>

definition rt_append ::
  "runtime_env \<Rightarrow> int \<Rightarrow> OperationRequest \<Rightarrow> EntryType \<Rightarrow> string \<Rightarrow> string \<Rightarrow> string + string \<Rightarrow> string \<Rightarrow>
     runtime_state \<Rightarrow> unit kernel_result \<times> runtime_state" where
  "rt_append env now r ty object_type phase payload what s =
     (case executor_append (re_exec env) now r ty object_type phase payload
             (Some (op_key (op_operation_id r) what)) (rt_exec s) of
        (res, e) \<Rightarrow> (res, s\<lparr>rt_exec := e\<rparr>))"

definition rt_release :: "string \<Rightarrow> runtime_state \<Rightarrow> unit nous_result \<times> runtime_state" where
  "rt_release lease_id s =
     (case lease_release lease_id (rt_leases s) of (res, lm) \<Rightarrow> (res, s\<lparr>rt_leases := lm\<rparr>))"

record execution_ticket =
  tk_placement :: PlacementDecision
  tk_trace :: DecisionTrace
  tk_lease :: FencedLease

abbreviation tk_lease_id :: "execution_ticket \<Rightarrow> string" where
  "tk_lease_id tk \<equiv> rl_lease_id (fl_lease (tk_lease tk))"

text \<open>From the grant of the lease to the entry in the table of active operations.\<close>

definition lease_operation ::
  "runtime_env \<Rightarrow> rt_inputs \<Rightarrow> OperationRequest \<Rightarrow> PlacementDecision \<Rightarrow> DecisionTrace \<Rightarrow> runtime_state \<Rightarrow>
     (KernelError + execution_ticket) \<times> runtime_state" where
  "lease_operation env inp r placement trace s =
     (case grant_fenced (ri_instant inp) (ri_uuid inp) (op_workload_id r) ''kernel-runtime''
             (pd_resources_reserved placement) (pd_node_id placement) (pd_device_id placement) True (rt_leases s) of
        (Inl err, lm) \<Rightarrow> (Inl (KE_Resource (show_nous_error err)), s\<lparr>rt_leases := lm\<rparr>)
      | (Inr fenced, lm) \<Rightarrow>
          let s1 = s\<lparr>rt_leases := lm\<rparr>; lease_id = rl_lease_id (fl_lease fenced)
          in (case rt_append env (ri_now inp) r ET_Commit ''ResourceLease'' ''ACTIVE'' (enc (re_lease env) fenced)
                     (''lease:'' @ lease_id @ '':grant'') s1 of
                (Inl err, s2) \<Rightarrow> (Inl err, snd (rt_release lease_id s2))
              | (Inr _, s2) \<Rightarrow>
                  if \<not> lease_authorize (ri_authorize_at inp) (rt_leases s2) lease_id (fl_fencing_token fenced)
                  then (Inl (KE_Resource ''new resource lease failed fencing validation''), snd (rt_release lease_id s2))
                  else (Inr \<lparr>tk_placement = placement, tk_trace = trace, tk_lease = fenced\<rparr>,
                        s2\<lparr>rt_active := AList.update (op_workload_id r)
                             \<lparr>ao_operation_id = op_operation_id r, ao_request = r, ao_cancelled = False\<rparr>
                             (rt_active s2)\<rparr>)))"

text \<open>From the screening of the request to the lease: an early answer, or a ticket for the execution.\<close>

definition begin_execution ::
  "runtime_env \<Rightarrow> rt_inputs \<Rightarrow> OperationRequest \<Rightarrow> runtime_state \<Rightarrow>
     (RuntimeExecution kernel_result + execution_ticket) \<times> runtime_state" where
  "begin_execution env inp r s =
     (case op_validate_sensitive_references r of
        Inl err \<Rightarrow> (Inl (Inl (KE_Admission err)), s)
      | Inr _ \<Rightarrow>
      if rt_kernel s = KS_ShuttingDown then (Inl (Inl KE_ShuttingDown), s)
      else (case committed_receipt (re_exec env) r (rt_journal s) of
        Inl err \<Rightarrow> (Inl (Inl err), s)
      | Inr (Some receipt) \<Rightarrow>
          (case latest_decision_trace env (op_operation_id r) s of
             Inl err \<Rightarrow> (Inl (Inl err), s)
           | Inr trace \<Rightarrow> (Inl (Inr \<lparr>rx_workload_id = op_workload_id r, rx_receipt = receipt,
                rx_decision_trace = (case trace of Some t \<Rightarrow> t | None \<Rightarrow> replay_trace)\<rparr>), s))
      | Inr None \<Rightarrow>
          (case admit (ri_now inp) local_domain (workload_for r) of
             AD_Rejected reason _ \<Rightarrow> (Inl (Inl (KE_Admission reason)), s)
           | AD_Infeasible reason _ _ \<Rightarrow> (Inl (Inl (KE_Admission reason)), s)
           | AD_Admitted \<Rightarrow>
               (case place_with_trace (re_fo env) (re_ft env) scheduler_core_config_default
                       (workload_for r) [reference_node env r] of
                  (None, trace) \<Rightarrow>
                    (Inl (Inl (KE_Scheduling ''no provider placement passed hard constraints'')), s)
                | (Some placement, trace) \<Rightarrow>
                    (case rt_append env (ri_now inp) r ET_Observation ''SchedulerDecision'' ''SELECTED''
                            (enc (re_trace env) trace) ''schedule'' s of
                       (Inl err, s1) \<Rightarrow> (Inl (Inl err), s1)
                     | (Inr _, s1) \<Rightarrow>
                         (case lease_operation env inp r placement trace s1 of
                            (Inl err, s2) \<Rightarrow> (Inl (Inl err), s2)
                          | (Inr tk, s2) \<Rightarrow> (Inr tk, s2)))))))"

fun scheduling_class_debug :: "SchedulingClass \<Rightarrow> string" where
  "scheduling_class_debug SC_System = ''System''"
| "scheduling_class_debug SC_Deadline = ''Deadline''"
| "scheduling_class_debug SC_Interactive = ''Interactive''"
| "scheduling_class_debug SC_Batch = ''Batch''"
| "scheduling_class_debug SC_Background = ''Background''"
| "scheduling_class_debug SC_Maintenance = ''Maintenance''"

fun runtime_class_debug :: "ProviderRuntimeClass \<Rightarrow> string" where
  "runtime_class_debug RC_Remote = ''Remote''"
| "runtime_class_debug RC_Local = ''Local''"
| "runtime_class_debug RC_Edge = ''Edge''"
| "runtime_class_debug RC_Reference = ''Reference''"
| "runtime_class_debug RC_Unknown = ''Unknown''"

definition execution_profile ::
  "rt_inputs \<Rightarrow> OperationRequest \<Rightarrow> bool \<Rightarrow> execution_ticket \<Rightarrow> OperationReceipt kernel_result \<Rightarrow> ExecutionProfile" where
  "execution_profile inp r recovered tk execution =
     \<lparr>ep_operation_id = op_operation_id r, ep_workload_id = op_workload_id r, ep_task_type = ''operation'',
      ep_task_class = to_lowercase (scheduling_class_debug (ws_scheduling_class (workload_for r))),
      ep_model = op_model r, ep_provider = sn_provider_revision (op_snapshot r),
      ep_execution_domain = to_lowercase (runtime_class_debug (op_execution_domain r)),
      ep_device = pd_device_id (tk_placement tk), ep_latency_ms = ri_latency_ms inp,
      ep_queue_latency_ms = ri_queue_ms inp, ep_state_transfer_ms = None,
      ep_recovery_latency_ms = (if recovered then Some (ri_queue_ms inp) else None),
      ep_cost_microcents = None,
      ep_failure_code = (case execution of Inl err \<Rightarrow> Some (kernel_error_code err) | Inr _ \<Rightarrow> None),
      ep_retry_count = 0, ep_recovered = recovered, ep_quality_signal = None, ep_recorded_at_us = 0\<rparr>"

definition record_profile ::
  "runtime_env \<Rightarrow> int \<Rightarrow> ExecutionProfile \<Rightarrow> runtime_state \<Rightarrow> KernelError option \<times> runtime_state" where
  "record_profile env now p s =
     (case profile_record (xe_journal (re_exec env)) (re_profile env) now p (rt_journal s) of
        (res, j) \<Rightarrow>
          ((case res of Inl err \<Rightarrow> Some (KE_Journal (show_nous_error err)) | Inr _ \<Rightarrow> None),
           s\<lparr>rt_exec := (rt_exec s)\<lparr>ex_journal := j\<rparr>\<rparr>))"

definition error_json :: "KernelError \<Rightarrow> json" where
  "error_json err =
     JObject [(''code'', JString (kernel_error_code err)), (''category'', JString (kernel_error_category err)),
              (''retryable'', JBool (kernel_error_retryable err)), (''source'', JString (kernel_error_source err))]"

text \<open>A failing step overwrites the bookkeeping error (\<open>replace\<close>) or fills it when there is none yet.\<close>

fun note_replace :: "unit kernel_result \<Rightarrow> KernelError option \<Rightarrow> KernelError option" where
  "note_replace (Inl err) _ = Some err"
| "note_replace (Inr _) prev = prev"

fun note_insert :: "unit kernel_result \<Rightarrow> KernelError option \<Rightarrow> KernelError option" where
  "note_insert (Inl err) None = Some err"
| "note_insert _ prev = prev"

definition record_failure ::
  "runtime_env \<Rightarrow> int \<Rightarrow> OperationRequest \<Rightarrow> OperationReceipt kernel_result \<Rightarrow> KernelError option \<Rightarrow> runtime_state \<Rightarrow>
     KernelError option \<times> runtime_state" where
  "record_failure env now r execution note s =
     (case execution of
        Inr _ \<Rightarrow> (note, s)
      | Inl err \<Rightarrow>
          (case rt_append env now r ET_Abort ''Operation'' (kernel_error_code err) (enc (re_json env) (error_json err))
                  (''abort:'' @ sn_provider_revision (op_snapshot r)) s of
             (res1, s1) \<Rightarrow>
               (case rt_append env now r ET_Observation ''OperationFailure'' (kernel_error_code err)
                       (enc (re_json env) (error_json err)) ''failure'' s1 of
                  (res2, s2) \<Rightarrow> (note_replace res2 (note_replace res1 note), s2))))"

fun workload_outcome :: "OperationReceipt kernel_result \<Rightarrow> EntryType \<times> string" where
  "workload_outcome (Inr _) = (ET_Commit, ''COMPLETED'')"
| "workload_outcome (Inl (KE_Cancelled _)) = (ET_Commit, ''CANCELLED'')"
| "workload_outcome (Inl _) = (ET_Transition, ''FAILED'')"

text \<open>From the end of the execution to the result: profile, active table, failure records, workload
  phase, release of the lease.\<close>

definition finish_execution ::
  "runtime_env \<Rightarrow> rt_inputs \<Rightarrow> OperationRequest \<Rightarrow> bool \<Rightarrow> execution_ticket \<Rightarrow> OperationReceipt kernel_result \<Rightarrow>
     runtime_state \<Rightarrow> RuntimeExecution kernel_result option \<times> runtime_state" where
  "finish_execution env inp r recovered tk execution s =
     (case record_profile env (ri_now inp) (execution_profile inp r recovered tk execution) s of
        (note1, s1) \<Rightarrow>
      let s2 = s1\<lparr>rt_active := AList.delete (op_workload_id r) (rt_active s1)\<rparr>
      in case record_failure env (ri_now inp) r execution note1 s2 of
        (note2, s3) \<Rightarrow>
      (case workload_outcome execution of (entry_type, phase) \<Rightarrow>
      (case rt_append env (ri_now inp) r entry_type ''Workload'' phase
              (enc (re_json env) (JObject [(''workload_id'', JString (op_workload_id r)), (''phase'', JString phase)]))
              (''workload:'' @ phase) s3 of
        (res4, s4) \<Rightarrow>
      (case rt_release (tk_lease_id tk) s4 of
        (res5, s5) \<Rightarrow>
      let note5 = note_insert (case res5 of Inl err \<Rightarrow> Inl (KE_Resource (show_nous_error err)) | Inr u \<Rightarrow> Inr u)
            (note_insert res4 note2)
      in if ri_crash inp = Some ResourceAfterRelease then (None, s5)
      else (case rt_append env (ri_now inp) r ET_Commit ''ResourceLease'' ''RELEASED''
              (enc (re_json env) (JObject [(''lease_id'', JString (tk_lease_id tk))]))
              (''lease:'' @ tk_lease_id tk @ '':release'') s5 of
        (res6, s6) \<Rightarrow>
      (case note_insert res6 note5 of
         Some err \<Rightarrow> (Some (Inl err), s6)
       | None \<Rightarrow>
           (case execution of
              Inl err \<Rightarrow> (Some (Inl err), s6)
            | Inr receipt \<Rightarrow>
                (Some (Inr \<lparr>rx_workload_id = op_workload_id r, rx_receipt = receipt, rx_decision_trace = tk_trace tk\<rparr>), s6))))))))"

definition execute_internal ::
  "runtime_env \<Rightarrow> OperationRequest \<Rightarrow> bool \<Rightarrow> runtime_state \<Rightarrow>
     RuntimeExecution kernel_result option \<times> runtime_state" where
  "execute_internal env r recovered s0 =
     (let inp = re_inputs env (rt_tick s0); s = s0\<lparr>rt_tick := rt_tick s0 + 1\<rparr>
      in case begin_execution env inp r s of
           (Inl res, s1) \<Rightarrow> (Some res, s1)
         | (Inr tk, s1) \<Rightarrow>
             (case execute_cancellable (re_exec env) (ri_now inp) (ri_cancelled inp) (ri_crash inp) r (rt_exec s1) of
                (None, e) \<Rightarrow> (None, s1\<lparr>rt_exec := e\<rparr>)
              | (Some execution, e) \<Rightarrow> finish_execution env inp r recovered tk execution (s1\<lparr>rt_exec := e\<rparr>)))"

definition runtime_execute ::
  "runtime_env \<Rightarrow> OperationRequest \<Rightarrow> runtime_state \<Rightarrow> RuntimeExecution kernel_result option \<times> runtime_state" where
  "runtime_execute env r s = execute_internal env r False s"

section \<open>Probing and continuity\<close>

definition probe_provider ::
  "runtime_env \<Rightarrow> ProviderProbeRequest \<Rightarrow> runtime_state \<Rightarrow> ProviderProbeReport kernel_result \<times> runtime_state" where
  "probe_provider env p s =
     (case probe_validate_sensitive_references p of
        Inl err \<Rightarrow> (Inl (KE_Admission err), s)
      | Inr _ \<Rightarrow> (re_probe env (length (rt_probes s)) p, s\<lparr>rt_probes := rt_probes s @ [p]\<rparr>))"

definition record_rebind ::
  "runtime_env \<Rightarrow> OperationRequest \<Rightarrow> string \<Rightarrow> KernelError \<Rightarrow> CompatibilityReport \<Rightarrow> runtime_state \<Rightarrow>
     unit kernel_result \<times> runtime_state" where
  "record_rebind env r from_provider failure compatibility s =
     (let rev = sn_provider_revision (op_snapshot r)
      in case rt_append env (rt_now env s) r ET_Intent ''Operation'' ''REBOUND'' (enc (xe_request (re_exec env)) r)
                (''rebind:'' @ rev) s of
           (Inl err, s1) \<Rightarrow> (Inl err, s1)
         | (Inr _, s1) \<Rightarrow>
             rt_append env (rt_now env s) r ET_Observation ''ProviderRebind'' ''SELECTED''
               (enc (re_json env) (JObject [(''from_provider'', JString from_provider), (''to_provider'', JString rev),
                  (''failure_code'', JString (kernel_error_code failure)),
                  (''compatibility'', re_compat_json env compatibility)]))
               (''provider-rebind:'' @ rev) s1)"

definition record_candidate_outcome ::
  "runtime_env \<Rightarrow> OperationRequest \<Rightarrow> string \<Rightarrow> string \<Rightarrow> string \<Rightarrow> runtime_state \<Rightarrow> unit kernel_result \<times> runtime_state" where
  "record_candidate_outcome env r provider phase reason s =
     rt_append env (rt_now env s) r ET_Observation ''ProviderCandidate'' phase
       (enc (re_json env) (JObject [(''provider'', JString provider), (''reason'', JString reason)]))
       (''candidate:'' @ provider @ '':'' @ phase) s"

definition validate_continuity_candidate ::
  "ContinuityPlan \<Rightarrow> string \<Rightarrow> string \<Rightarrow> OperationRequest \<Rightarrow> ModelCapabilityManifest \<Rightarrow> unit kernel_result" where
  "validate_continuity_candidate plan step_id operation_id r caps =
     (if op_workload_id r \<noteq> cp_workload_id plan \<or> op_step_id r \<noteq> step_id \<or> op_operation_id r \<noteq> operation_id
      then Inl (KE_Admission ''failover candidates must preserve workload, step, and operation identities'')
      else if mm_backend caps \<noteq> op_backend r \<or> op_model r \<noteq> [] \<and> mm_model caps \<noteq> op_model r
      then Inl (KE_Admission ''candidate request does not match its capability manifest'')
      else Inr ())"

definition probe_request_for :: "FailoverCandidate \<Rightarrow> ProviderProbeRequest" where
  "probe_request_for c =
     \<lparr>pr_provider = mm_provider (fc_capabilities c), pr_backend = op_backend (fc_request c),
      pr_execution_domain = op_execution_domain (fc_request c), pr_model = op_model (fc_request c),
      pr_endpoint = op_endpoint (fc_request c), pr_credential_env = op_credential_env (fc_request c),
      pr_provider_entrypoint = op_provider_entrypoint (fc_request c), pr_timeout_ms = op_timeout_ms (fc_request c)\<rparr>"

text \<open>The progress of a step over its candidates.\<close>

record step_progress =
  sp_last_failure :: "(string \<times> KernelError) option"
  sp_last_rejection :: "KernelError option"
  sp_was_rejection :: bool
  sp_failovers :: "FailoverRecord list"

text \<open>The capabilities a candidate is judged by: as declared for a reference provider, else as probed.\<close>

definition effective_capabilities ::
  "runtime_env \<Rightarrow> FailoverCandidate \<Rightarrow> runtime_state \<Rightarrow> ModelCapabilityManifest kernel_result \<times> runtime_state" where
  "effective_capabilities env c s =
     (if mm_runtime_class (fc_capabilities c) = RC_Reference then (Inr (fc_capabilities c), s)
      else (case probe_provider env (probe_request_for c) s of
              (Inl err, s1) \<Rightarrow> (Inl err, s1)
            | (Inr report, s1) \<Rightarrow> (Inr (rep_capabilities report), s1)))"

definition gate_rejects :: "ContinuityStep \<Rightarrow> CompatibilityReport \<Rightarrow> bool" where
  "gate_rejects step rep \<longleftrightarrow>
     cpr_classification rep = Incompatible \<or> cpr_classification rep = Degraded \<and> \<not> cs_allow_degraded step"

definition rebind_report :: "(string \<times> KernelError) option \<Rightarrow> CompatibilityReport \<Rightarrow> CompatibilityReport" where
  "rebind_report last_failure rep =
     (if last_failure \<noteq> None \<and> cpr_classification rep = Compatible
      then \<lparr>cpr_classification = Rebindable,
            cpr_reasons = cpr_reasons rep @ [''provider rebind required; kernel state remains authoritative'']\<rparr>
      else rep)"

text \<open>What the body of the candidate loop does: go on to the next candidate, complete the step, or leave with
  an error.\<close>

datatype candidate_result =
    CR_Continue step_progress
  | CR_Completed RuntimeExecution step_progress
  | CR_Error KernelError

definition execute_candidate ::
  "runtime_env \<Rightarrow> ContinuityStep \<Rightarrow> FailoverCandidate \<Rightarrow> ModelCapabilityManifest \<Rightarrow> CompatibilityReport \<Rightarrow> step_progress \<Rightarrow>
     runtime_state \<Rightarrow> candidate_result option \<times> runtime_state" where
  "execute_candidate env step c caps rep0 sp s =
     (let rep = rebind_report (sp_last_failure sp) rep0;
          rebound =
            (case sp_last_failure sp of
               None \<Rightarrow> (Inr sp, s)
             | Some (failed_provider, failure) \<Rightarrow>
                 (case record_rebind env (fc_request c) failed_provider failure rep s of
                    (Inl err, s1) \<Rightarrow> (Inl err, s1)
                  | (Inr _, s1) \<Rightarrow>
                      (Inr (sp\<lparr>sp_failovers := sp_failovers sp @
                         [\<lparr>fr_step_id = cs_step_id step, fr_from_provider = failed_provider,
                           fr_to_provider = mm_provider caps, fr_failure_code = kernel_error_code failure,
                           fr_compatibility = rep\<rparr>]\<rparr>), s1)))
      in case rebound of
           (Inl err, s1) \<Rightarrow> (Some (CR_Error err), s1)
         | (Inr sp1, s1) \<Rightarrow>
             (case runtime_execute env (fc_request c) s1 of
                (None, s2) \<Rightarrow> (None, s2)
              | (Some (Inr execution), s2) \<Rightarrow> (Some (CR_Completed execution sp1), s2)
              | (Some (Inl err), s2) \<Rightarrow>
                  if kernel_error_retryable err
                  then (case record_candidate_outcome env (fc_request c) (mm_provider (fc_capabilities c))
                               ''EXECUTION_FAILED'' (kernel_error_code err) s2 of
                          (Inl err1, s3) \<Rightarrow> (Some (CR_Error err1), s3)
                        | (Inr _, s3) \<Rightarrow>
                            (Some (CR_Continue (sp1\<lparr>sp_last_failure := Some (mm_provider (fc_capabilities c), err),
                               sp_was_rejection := False\<rparr>)), s3))
                  else (Some (CR_Error err), s2)))"

definition gate_error :: "ModelCapabilityManifest \<Rightarrow> CompatibilityReport \<Rightarrow> KernelError" where
  "gate_error caps rep =
     KE_Scheduling (''provider '' @ quoted (mm_provider caps) @ '' failed compatibility gate: '' @
       str_join '', '' (cpr_reasons rep))"

definition try_candidate ::
  "runtime_env \<Rightarrow> ContinuityPlan \<Rightarrow> ContinuityStep \<Rightarrow> string \<Rightarrow> FailoverCandidate \<Rightarrow> step_progress \<Rightarrow> runtime_state \<Rightarrow>
     candidate_result option \<times> runtime_state" where
  "try_candidate env plan step operation_id c sp s =
     (case record_candidate_outcome env (fc_request c) (mm_provider (fc_capabilities c)) ''EVALUATING''
             ''candidate entered compatibility pipeline'' s of
        (Inl err, s1) \<Rightarrow> (Some (CR_Error err), s1)
      | (Inr _, s1) \<Rightarrow>
      (case validate_continuity_candidate plan (cs_step_id step) operation_id (fc_request c) (fc_capabilities c) of
        Inl err \<Rightarrow> (Some (CR_Error err), s1)
      | Inr _ \<Rightarrow>
      (case effective_capabilities env c s1 of
        (Inl err, s2) \<Rightarrow>
          if kernel_error_retryable err
          then (case record_candidate_outcome env (fc_request c) (mm_provider (fc_capabilities c)) ''UNAVAILABLE''
                       (kernel_error_code err) s2 of
                  (Inl err1, s3) \<Rightarrow> (Some (CR_Error err1), s3)
                | (Inr _, s3) \<Rightarrow>
                    (Some (CR_Continue (sp\<lparr>sp_last_failure := Some (mm_provider (fc_capabilities c), err),
                       sp_was_rejection := False\<rparr>)), s3))
          else (Some (CR_Error err), s2)
      | (Inr caps, s2) \<Rightarrow>
          let rep = assess_compatibility (cs_requirements step) caps
          in if gate_rejects step rep
             then (case record_candidate_outcome env (fc_request c) (mm_provider caps) ''INCOMPATIBLE''
                          (str_join '', '' (cpr_reasons rep)) s2 of
                     (Inl err, s3) \<Rightarrow> (Some (CR_Error err), s3)
                   | (Inr _, s3) \<Rightarrow>
                       (Some (CR_Continue (sp\<lparr>sp_last_rejection := Some (gate_error caps rep),
                          sp_was_rejection := True\<rparr>)), s3))
             else execute_candidate env step c caps rep sp s2)))"

fun try_candidates ::
  "runtime_env \<Rightarrow> ContinuityPlan \<Rightarrow> ContinuityStep \<Rightarrow> string \<Rightarrow> FailoverCandidate list \<Rightarrow> step_progress \<Rightarrow> runtime_state \<Rightarrow>
     candidate_result option \<times> runtime_state" where
  "try_candidates env plan step operation_id [] sp s = (Some (CR_Continue sp), s)"
| "try_candidates env plan step operation_id (c # cs) sp s =
     (case try_candidate env plan step operation_id c sp s of
        (Some (CR_Continue sp1), s1) \<Rightarrow> try_candidates env plan step operation_id cs sp1 s1
      | other \<Rightarrow> other)"

definition step_error :: "ContinuityStep \<Rightarrow> step_progress \<Rightarrow> KernelError" where
  "step_error step sp =
     (let failure = map_option snd (sp_last_failure sp); rejection = sp_last_rejection sp;
          chosen = (if sp_was_rejection sp
                    then (case rejection of Some err \<Rightarrow> Some err | None \<Rightarrow> failure)
                    else (case failure of Some err \<Rightarrow> Some err | None \<Rightarrow> rejection))
      in case chosen of
           Some err \<Rightarrow> err
         | None \<Rightarrow> KE_Scheduling (''step '' @ quoted (cs_step_id step) @
             '' has no compatible provider after evaluating '' @ show_nat (length (cs_candidates step)) @ '' candidates''))"

text \<open>One step of a plan, with the failovers recorded so far.\<close>

definition run_step ::
  "runtime_env \<Rightarrow> ContinuityPlan \<Rightarrow> ContinuityStep \<Rightarrow> FailoverRecord list \<Rightarrow> runtime_state \<Rightarrow>
     (RuntimeExecution \<times> FailoverRecord list) kernel_result option \<times> runtime_state" where
  "run_step env plan step failovers s =
     (case cs_candidates step of
        [] \<Rightarrow> (Some (Inl (KE_Scheduling (''step '' @ quoted (cs_step_id step) @ '' has no provider candidate''))), s)
      | c0 # _ \<Rightarrow>
          (case committed_receipt (re_exec env) (fc_request c0) (rt_journal s) of
             Inl err \<Rightarrow> (Some (Inl err), s)
           | Inr (Some receipt) \<Rightarrow>
               (Some (Inr (\<lparr>rx_workload_id = cp_workload_id plan, rx_receipt = receipt, rx_decision_trace = replay_trace\<rparr>,
                  failovers)), s)
           | Inr None \<Rightarrow>
               (case try_candidates env plan step (op_operation_id (fc_request c0)) (cs_candidates step)
                       \<lparr>sp_last_failure = None, sp_last_rejection = None, sp_was_rejection = False,
                        sp_failovers = failovers\<rparr> s of
                  (None, s1) \<Rightarrow> (None, s1)
                | (Some (CR_Error err), s1) \<Rightarrow> (Some (Inl err), s1)
                | (Some (CR_Completed execution sp), s1) \<Rightarrow> (Some (Inr (execution, sp_failovers sp)), s1)
                | (Some (CR_Continue sp), s1) \<Rightarrow> (Some (Inl (step_error step sp)), s1))))"

fun run_steps ::
  "runtime_env \<Rightarrow> ContinuityPlan \<Rightarrow> ContinuityStep list \<Rightarrow> RuntimeExecution list \<Rightarrow> FailoverRecord list \<Rightarrow> runtime_state \<Rightarrow>
     ContinuityExecution kernel_result option \<times> runtime_state" where
  "run_steps env plan [] completed failovers s =
     (Some (Inr \<lparr>cx_workload_id = cp_workload_id plan, cx_process_identity = cp_process_identity plan,
        cx_completed_steps = completed, cx_failovers = failovers\<rparr>), s)"
| "run_steps env plan (step # steps) completed failovers s =
     (case run_step env plan step failovers s of
        (None, s1) \<Rightarrow> (None, s1)
      | (Some (Inl err), s1) \<Rightarrow> (Some (Inl err), s1)
      | (Some (Inr (execution, failovers1)), s1) \<Rightarrow>
          run_steps env plan steps (completed @ [execution]) failovers1 s1)"

definition execute_continuously ::
  "runtime_env \<Rightarrow> ContinuityPlan \<Rightarrow> runtime_state \<Rightarrow> ContinuityExecution kernel_result option \<times> runtime_state" where
  "execute_continuously env plan s =
     (if cp_workload_id plan = [] \<or> cp_process_identity plan = []
      then (Some (Inl (KE_Admission ''continuity plan requires workload and process identities'')), s)
      else run_steps env plan (cp_steps plan) [] [] s)"

section \<open>Cancellation and shutdown\<close>

definition runtime_cancel :: "runtime_env \<Rightarrow> string \<Rightarrow> runtime_state \<Rightarrow> string kernel_result \<times> runtime_state" where
  "runtime_cancel env workload_id s =
     (case map_of (rt_active s) workload_id of
        None \<Rightarrow> (Inl (KE_Cancelled (workload_id @ '' is not active'')), s)
      | Some ao \<Rightarrow>
          (case executor_append (re_exec env) (rt_now env s) (ao_request ao) ET_Transition ''Workload''
                  ''CANCELLATION_REQUESTED''
                  (enc (re_json env) (JObject [(''workload_id'', JString workload_id),
                     (''operation_id'', JString (ao_operation_id ao))]))
                  (Some (op_key (ao_operation_id ao) ''cancellation-requested'')) (rt_exec s) of
             (Inl err, e) \<Rightarrow> (Inl err, s\<lparr>rt_exec := e\<rparr>)
           | (Inr _, e) \<Rightarrow>
               (Inr (ao_operation_id ao),
                s\<lparr>rt_exec := e, rt_active := AList.update workload_id (ao\<lparr>ao_cancelled := True\<rparr>) (rt_active s)\<rparr>)))"

definition shutdown_request :: "runtime_state \<Rightarrow> runtime_state" where
  "shutdown_request s =
     s\<lparr>rt_kernel := KS_ShuttingDown,
       rt_active := map (\<lambda>(w, ao). (w, ao\<lparr>ao_cancelled := True\<rparr>)) (rt_active s)\<rparr>"

text \<open>The wait of a shutdown: \<open>idle n\<close> says whether the active table is empty at the \<open>n\<close>-th look, and
  the deadline has passed after \<open>k\<close> more looks.\<close>

fun shutdown_wait :: "(nat \<Rightarrow> bool) \<Rightarrow> nat \<Rightarrow> nat \<Rightarrow> unit kernel_result" where
  "shutdown_wait idle 0 n = (if idle n then Inr () else Inl KE_ShuttingDown)"
| "shutdown_wait idle (Suc k) n = (if idle n then Inr () else shutdown_wait idle k (Suc n))"

definition active_count :: "runtime_state \<Rightarrow> nat" where
  "active_count s = length (rt_active s)"

section \<open>Recovery\<close>

record orphan_scan =
  os_requests :: "string \<rightharpoonup> OperationRequest"
  os_active :: "(string \<times> string \<times> FencedLease) list"

definition payload_lease_id :: "runtime_env \<Rightarrow> string \<Rightarrow> string option" where
  "payload_lease_id env bytes =
     Option.bind (decode_ok (re_json env) bytes) (\<lambda>v. Option.bind (json_get ''lease_id'' v) json_as_str)"

definition orphan_step :: "runtime_env \<Rightarrow> orphan_scan \<Rightarrow> JournalEntry \<Rightarrow> orphan_scan" where
  "orphan_step env st e =
     (if je_object_type e = ''Operation'' \<and> je_entry_type e = ET_Intent
      then (case decode_ok (xe_request (re_exec env)) (je_payload e) of
              Some r \<Rightarrow> st\<lparr>os_requests := (os_requests st)(op_workload_id r \<mapsto> r)\<rparr>
            | None \<Rightarrow> st)
      else if je_object_type e \<noteq> ''ResourceLease'' then st
      else if je_new_phase e = ''ACTIVE''
      then (case decode_ok (re_lease env) (je_payload e) of
              Some fl \<Rightarrow> st\<lparr>os_active := AList.update (rl_lease_id (fl_lease fl)) (je_workload_id e, fl) (os_active st)\<rparr>
            | None \<Rightarrow> st)
      else if je_new_phase e \<in> set [''RELEASED'', ''REVOKED'', ''EXPIRED'']
      then (case payload_lease_id env (je_payload e) of
              Some lid \<Rightarrow> st\<lparr>os_active := AList.delete lid (os_active st)\<rparr>
            | None \<Rightarrow> st)
      else st)"

definition orphan_scan_of :: "runtime_env \<Rightarrow> JournalEntry list \<Rightarrow> orphan_scan" where
  "orphan_scan_of env entries = foldl (orphan_step env) \<lparr>os_requests = Map.empty, os_active = []\<rparr> entries"

definition revoke_payload :: "string \<Rightarrow> FencedLease \<Rightarrow> json" where
  "revoke_payload lid fl =
     JObject [(''lease_id'', JString lid), (''fencing_token'', JString (fl_fencing_token fl)),
              (''reason'', JString ''runtime recovery invalidated an orphaned lease'')]"

fun revoke_loop ::
  "runtime_env \<Rightarrow> (string \<rightharpoonup> OperationRequest) \<Rightarrow> (string \<times> string \<times> FencedLease) list \<Rightarrow> runtime_state \<Rightarrow>
     unit kernel_result \<times> runtime_state" where
  "revoke_loop env requests [] s = (Inr (), s)"
| "revoke_loop env requests ((lid, workload_id, fl) # rest) s =
     (case requests workload_id of
        None \<Rightarrow> (Inl (KE_Journal (''orphaned lease '' @ lid @ '' has no durable operation intent'')), s)
      | Some r \<Rightarrow>
          (case rt_append env (rt_now env s) r ET_Commit ''ResourceLease'' ''REVOKED''
                  (enc (re_json env) (revoke_payload lid fl))
                  (''lease:'' @ rl_lease_id (fl_lease fl) @ '':recovery-revoke'') s of
             (Inl err, s1) \<Rightarrow> (Inl err, s1)
           | (Inr _, s1) \<Rightarrow> revoke_loop env requests rest s1))"

definition revoke_orphaned_leases :: "runtime_env \<Rightarrow> runtime_state \<Rightarrow> unit kernel_result \<times> runtime_state" where
  "revoke_orphaned_leases env s =
     (case read_from (xe_journal (re_exec env)) (rt_journal s) 0 of
        Inl err \<Rightarrow> (Inl (KE_Journal (show_nous_error err)), s)
      | Inr entries \<Rightarrow>
          revoke_loop env (os_requests (orphan_scan_of env entries)) (os_active (orphan_scan_of env entries)) s)"

fun recover_loop ::
  "runtime_env \<Rightarrow> OperationRequest list \<Rightarrow> RuntimeExecution list \<Rightarrow> runtime_state \<Rightarrow>
     RuntimeExecution list kernel_result option \<times> runtime_state" where
  "recover_loop env [] recovered s = (Some (Inr recovered), s)"
| "recover_loop env (r # rs) recovered s =
     (if op_delivery r \<in> {DS_Idempotent, DS_Reconcilable}
      then (case execute_internal env r True s of
              (None, s1) \<Rightarrow> (None, s1)
            | (Some (Inl err), s1) \<Rightarrow> (Some (Inl err), s1)
            | (Some (Inr x), s1) \<Rightarrow> recover_loop env rs (recovered @ [x]) s1)
      else (Some (Inl (KE_UnsafeRecovery (op_operation_id r))), s))"

definition runtime_recover ::
  "runtime_env \<Rightarrow> runtime_state \<Rightarrow> RuntimeExecution list kernel_result option \<times> runtime_state" where
  "runtime_recover env s =
     (case revoke_orphaned_leases env s of
        (Inl err, s1) \<Rightarrow> (Some (Inl err), s1)
      | (Inr _, s1) \<Rightarrow>
          (case pending_operations (re_exec env) (rt_journal s1) of
             Inl err \<Rightarrow> (Some (Inl err), s1)
           | Inr rs \<Rightarrow> recover_loop env rs [] s1))"

end
