(* ===== verification/Coordinator_Safety.thy ===== *)
theory Coordinator_Safety
  imports Coordinator
begin

text \<open>
  Safety of the coordinator.  The locale \<open>runtime_invariant\<close> says what is to be shown of a property of
  the runtime's executor state so that every coordinator operation keeps it: it is kept by foreign
  appends, by profiles and by executions.  It is interpreted three times: for the discipline of
  the journal (\<open>rt_good\<close>), for the growth of the log, and for the provider calls made.
\<close>

section \<open>Frames\<close>

lemma rt_append_frame [simp]:
  "rt_leases (snd (rt_append env now r ty obj ph pl what s)) = rt_leases s"
  "rt_active (snd (rt_append env now r ty obj ph pl what s)) = rt_active s"
  "rt_kernel (snd (rt_append env now r ty obj ph pl what s)) = rt_kernel s"
  "rt_tick (snd (rt_append env now r ty obj ph pl what s)) = rt_tick s"
  "rt_probes (snd (rt_append env now r ty obj ph pl what s)) = rt_probes s"
  by (simp_all add: rt_append_def split: prod.split)

lemma rt_append_exec:
  "rt_append env now r ty obj ph pl what s =
     (fst (executor_append (re_exec env) now r ty obj ph pl (Some (op_key (op_operation_id r) what)) (rt_exec s)),
      s\<lparr>rt_exec := snd (executor_append (re_exec env) now r ty obj ph pl (Some (op_key (op_operation_id r) what))
           (rt_exec s))\<rparr>)"
  by (simp add: rt_append_def split: prod.split)

lemma record_profile_frame [simp]:
  "rt_leases (snd (record_profile env now p s)) = rt_leases s"
  "rt_active (snd (record_profile env now p s)) = rt_active s"
  by (simp_all add: record_profile_def split: prod.split)

lemma record_failure_frame [simp]:
  "rt_leases (snd (record_failure env now r x note s)) = rt_leases s"
  "rt_active (snd (record_failure env now r x note s)) = rt_active s"
  by (auto simp: record_failure_def rt_append_exec split: sum.split prod.split)

lemma rt_release_exec [simp]: "rt_exec (snd (rt_release lid s)) = rt_exec s"
  by (simp add: rt_release_def split: prod.split)

section \<open>Invariants of the runtime\<close>

definition foreign_write ::
  "runtime_env \<Rightarrow> (OperationRequest \<Rightarrow> bool) \<Rightarrow> (string \<Rightarrow> bool) \<Rightarrow> OperationRequest \<Rightarrow> EntryType \<Rightarrow> string \<Rightarrow>
     string + string \<Rightarrow> string \<Rightarrow> bool" where
  "foreign_write env ok K r ty obj payload k \<longleftrightarrow>
     (ty, obj) \<notin> {(ET_Observation, ''OperationReceipt''), (ET_Commit, ''StepCommit'')} \<and> take 9 obj \<noteq> ''Extension'' \<and> K k \<and>
     (ty = ET_Intent \<and> obj = ''Operation'' \<longrightarrow> ok r \<and> payload = enc (xe_request (re_exec env)) r)"

definition caps_source :: "runtime_env \<Rightarrow> FailoverCandidate \<Rightarrow> ModelCapabilityManifest \<Rightarrow> bool" where
  "caps_source env c caps \<longleftrightarrow>
     (if mm_runtime_class (fc_capabilities c) = RC_Reference then caps = fc_capabilities c
      else \<exists>n rep. re_probe env n (probe_request_for c) = Inr rep \<and> caps = rep_capabilities rep)"

definition eligible :: "runtime_env \<Rightarrow> ContinuityStep \<Rightarrow> FailoverCandidate \<Rightarrow> bool" where
  "eligible env step c \<longleftrightarrow>
     (\<exists>caps. caps_source env c caps \<and> \<not> gate_rejects step (assess_compatibility (cs_requirements step) caps))"

lemma effective_capabilities_cases:
  "effective_capabilities env c s = (res, s') \<Longrightarrow>
     rt_exec s' = rt_exec s \<and> (\<forall>caps. res = Inr caps \<longrightarrow> caps_source env c caps)"
  by (auto simp: effective_capabilities_def probe_provider_def caps_source_def split: if_splits sum.splits prod.splits)

locale runtime_invariant =
  fixes env :: runtime_env
    and ok :: "OperationRequest \<Rightarrow> bool"
    and K :: "string \<Rightarrow> bool"
    and I :: "runtime_state \<Rightarrow> bool"
  assumes fixed_keys: "key_tail k \<notin> executor_tails \<Longrightarrow> K k"
    and request_keys: "ok r \<Longrightarrow> K (op_key (op_operation_id r) (pre @ CHR '':'' # sn_provider_revision (op_snapshot r)))"
    and inv_append: "I s \<Longrightarrow> foreign_write env ok K r ty obj payload k \<Longrightarrow>
      I (s\<lparr>rt_exec := snd (executor_append (re_exec env) now r ty obj phase payload (Some k) (rt_exec s))\<rparr>)"
    and inv_profile: "I s \<Longrightarrow> I (snd (record_profile env now p s))"
    and inv_execute: "I s \<Longrightarrow> ok r \<Longrightarrow>
      I (s\<lparr>rt_exec := snd (execute_cancellable (re_exec env) now cancelled crash r (rt_exec s))\<rparr>)"
    and inv_local: "I s \<Longrightarrow> rt_exec s' = rt_exec s \<Longrightarrow> I s'"
begin

lemma tail_keys:
  "CHR '':'' \<notin> set t \<Longrightarrow> t \<notin> executor_tails \<Longrightarrow> K (op_key oid (pre @ CHR '':'' # t))"
  "CHR '':'' \<notin> set t \<Longrightarrow> t \<notin> executor_tails \<Longrightarrow> K (op_key oid t)"
  using key_tail_colon [of t "''operation:'' @ oid @ '':'' @ pre"] key_tail_op_key [of t oid]
  by (auto intro!: fixed_keys simp: op_key_def)

lemma inv_rt_append:
  "I s \<Longrightarrow> foreign_write env ok K r ty obj payload (op_key (op_operation_id r) what) \<Longrightarrow>
     I (snd (rt_append env now r ty obj phase payload what s))"
  by (simp add: rt_append_exec inv_append)

lemma inv_release: "I s \<Longrightarrow> I (snd (rt_release lid s))"
  using inv_local rt_release_exec by blast

lemma inv_lease_operation:
  assumes "I s" shows "I (snd (lease_operation env inp r placement trace s))"
proof -
  have key: "K (op_key oid (''lease:'' @ lid @ '':grant''))" for oid lid
    using tail_keys(1) [of "''grant''" oid "''lease:'' @ lid"] by (simp add: executor_tails_def)
  obtain res lm where G: "grant_fenced (ri_instant inp) (ri_uuid inp) (op_workload_id r) ''kernel-runtime''
      (pd_resources_reserved placement) (pd_node_id placement) (pd_device_id placement) True (rt_leases s) = (res, lm)"
    by fastforce
  have s1: "I (s\<lparr>rt_leases := lm\<rparr>)" by (rule inv_local [OF assms]) simp
  show ?thesis
  proof (cases res)
    case (Inl err)
    then show ?thesis using G s1 by (simp add: lease_operation_def)
  next
    case (Inr fenced)
    let ?lid = "rl_lease_id (fl_lease fenced)"
    obtain res2 s2 where A: "rt_append env (ri_now inp) r ET_Commit ''ResourceLease'' ''ACTIVE''
        (enc (re_lease env) fenced) (''lease:'' @ ?lid @ '':grant'') (s\<lparr>rt_leases := lm\<rparr>) = (res2, s2)" by fastforce
    have "foreign_write env ok K r ET_Commit ''ResourceLease'' (enc (re_lease env) fenced)
        (op_key (op_operation_id r) (''lease:'' @ ?lid @ '':grant''))"
      using key [of "op_operation_id r" ?lid] by (simp add: foreign_write_def)
    from inv_rt_append [OF s1 this] A have "I s2" by (metis snd_conv)
    then show ?thesis
      using G Inr A inv_release [of s2] inv_local [of s2]
      by (auto simp: lease_operation_def Let_def split: sum.split)
  qed
qed

lemma inv_begin:
  assumes "I s" shows "I (snd (begin_execution env inp r s))"
proof -
  have "foreign_write env ok K r ET_Observation ''SchedulerDecision'' pl (op_key (op_operation_id r) ''schedule'')" for pl
    using tail_keys(2) [of "''schedule''"] by (simp add: foreign_write_def executor_tails_def)
  then have step: "I (snd (rt_append env now r ET_Observation ''SchedulerDecision'' ph pl ''schedule'' s))" for now ph pl
    using inv_rt_append [OF assms] by blast
  show ?thesis
    using assms step inv_lease_operation
    by (auto simp: begin_execution_def split: sum.split option.split AdmissionDecision.split prod.split)
      (metis snd_conv)+
qed

lemma inv_record_failure:
  assumes "I s" "ok r" shows "I (snd (record_failure env now r x note s))"
proof (cases x)
  case (Inl err)
  have w1: "foreign_write env ok K r ET_Abort ''Operation'' pl
      (op_key (op_operation_id r) (''abort:'' @ sn_provider_revision (op_snapshot r)))" for pl
    using request_keys [OF assms(2), of "''abort''"] by (simp add: foreign_write_def)
  have w2: "foreign_write env ok K r ET_Observation ''OperationFailure'' pl (op_key (op_operation_id r) ''failure'')" for pl
    using tail_keys(2) [of "''failure''"] by (simp add: foreign_write_def executor_tails_def)
  show ?thesis
    using inv_rt_append [OF inv_rt_append [OF assms(1) w1] w2] Inl
    by (auto simp: record_failure_def split: prod.split) (metis snd_conv)
qed (simp add: record_failure_def assms)

lemma inv_finish:
  assumes "I s" "ok r" shows "I (snd (finish_execution env inp r recovered tk x s))"
proof -
  obtain note1 s1 where P: "record_profile env (ri_now inp) (execution_profile inp r recovered tk x) s = (note1, s1)"
    by fastforce
  have "I s1" using inv_profile [OF assms(1)] P by (metis snd_conv)
  then have s2: "I (s1\<lparr>rt_active := AList.delete (op_workload_id r) (rt_active s1)\<rparr>)" by (rule inv_local) simp
  obtain note2 s3 where F: "record_failure env (ri_now inp) r x note1
      (s1\<lparr>rt_active := AList.delete (op_workload_id r) (rt_active s1)\<rparr>) = (note2, s3)" by fastforce
  have s3: "I s3" using inv_record_failure [OF s2 assms(2)] F by (metis snd_conv)
  obtain ty ph where O: "workload_outcome x = (ty, ph)" by fastforce
  have ph: "CHR '':'' \<notin> set ph" "ph \<notin> executor_tails" "(ty, ''Workload'') \<notin> {(ET_Commit, ''StepCommit'')}"
    using O by (cases x rule: workload_outcome.cases; auto simp: executor_tails_def)+
  have w4: "foreign_write env ok K r ty ''Workload'' pl (op_key (op_operation_id r) (''workload:'' @ ph))" for pl
    using tail_keys(1) [OF ph(1,2), of "op_operation_id r" "''workload''"] by (simp add: foreign_write_def)
  obtain res4 s4 where W: "rt_append env (ri_now inp) r ty ''Workload'' ph
      (enc (re_json env) (JObject [(''workload_id'', JString (op_workload_id r)), (''phase'', JString ph)]))
      (''workload:'' @ ph) s3 = (res4, s4)" by fastforce
  have "I s4" using inv_rt_append [OF s3 w4] W by (metis snd_conv)
  obtain res5 s5 where R: "rt_release (tk_lease_id tk) s4 = (res5, s5)" by fastforce
  have s5: "I s5" using inv_release [OF \<open>I s4\<close>] R by (metis snd_conv)
  have w6: "foreign_write env ok K r ET_Commit ''ResourceLease'' pl
      (op_key (op_operation_id r) (''lease:'' @ tk_lease_id tk @ '':release''))" for pl
    using tail_keys(1) [of "''release''" "op_operation_id r" "''lease:'' @ tk_lease_id tk"]
    by (simp add: foreign_write_def executor_tails_def)
  obtain res6 s6 where L: "rt_append env (ri_now inp) r ET_Commit ''ResourceLease'' ''RELEASED''
      (enc (re_json env) (JObject [(''lease_id'', JString (tk_lease_id tk))]))
      (''lease:'' @ tk_lease_id tk @ '':release'') s5 = (res6, s6)" by fastforce
  have s6: "I s6" using inv_rt_append [OF s5 w6] L by (metis snd_conv)
  show ?thesis
    unfolding finish_execution_def P prod.case Let_def F O W R L
    using s5 s6 by (simp split: option.split sum.split)
qed

lemma inv_execute_internal:
  assumes "I s" "ok r" shows "I (snd (execute_internal env r recovered s))"
proof -
  let ?inp = "re_inputs env (rt_tick s)" and ?s = "s\<lparr>rt_tick := rt_tick s + 1\<rparr>"
  obtain b s1 where B: "begin_execution env ?inp r ?s = (b, s1)" by fastforce
  have "I ?s" by (rule inv_local [OF assms(1)]) simp
  from inv_begin [OF this, of ?inp r] B have s1: "I s1" by simp
  obtain x e where X: "execute_cancellable (re_exec env) (ri_now ?inp) (ri_cancelled ?inp) (ri_crash ?inp) r (rt_exec s1) = (x, e)"
    by fastforce
  have "I (s1\<lparr>rt_exec := e\<rparr>)" using inv_execute [OF s1 assms(2)] X by (metis snd_conv)
  with s1 B X inv_finish [OF this assms(2)] show ?thesis
    by (auto simp: execute_internal_def Let_def split: sum.split option.split)
qed

lemma inv_candidate_outcome:
  assumes "I s" "CHR '':'' \<notin> set phase" "phase \<notin> executor_tails"
  shows "I (snd (record_candidate_outcome env r provider phase reason s))"
proof -
  have "foreign_write env ok K r ET_Observation ''ProviderCandidate'' pl
      (op_key (op_operation_id r) (''candidate:'' @ provider @ '':'' @ phase))" for pl
    using tail_keys(1) [OF assms(2,3), of "op_operation_id r" "''candidate:'' @ provider"]
    by (simp add: foreign_write_def)
  from inv_rt_append [OF assms(1) this] show ?thesis by (simp add: record_candidate_outcome_def)
qed

lemma inv_rebind:
  assumes "I s" "ok r" shows "I (snd (record_rebind env r from failure rep s))"
proof -
  have w1: "foreign_write env ok K r ET_Intent ''Operation'' (enc (xe_request (re_exec env)) r)
      (op_key (op_operation_id r) (''rebind:'' @ sn_provider_revision (op_snapshot r)))"
    using request_keys [OF assms(2), of "''rebind''"] assms(2) by (simp add: foreign_write_def)
  have w2: "foreign_write env ok K r ET_Observation ''ProviderRebind'' pl
      (op_key (op_operation_id r) (''provider-rebind:'' @ sn_provider_revision (op_snapshot r)))" for pl
    using request_keys [OF assms(2), of "''provider-rebind''"] by (simp add: foreign_write_def)
  show ?thesis
    using inv_rt_append [OF assms(1) w1] inv_rt_append [OF inv_rt_append [OF assms(1) w1] w2]
    by (auto simp: record_rebind_def Let_def split: prod.split sum.split) (metis snd_conv)+
qed

lemma inv_execute_candidate:
  assumes "I s" "ok (fc_request c)" shows "I (snd (execute_candidate env step c caps rep sp s))"
proof -
  have run: "I (snd (execute_internal env (fc_request c) False t))" if "I t" for t
    by (rule inv_execute_internal [OF that assms(2)])
  have out: "I (snd (record_candidate_outcome env r p ''EXECUTION_FAILED'' reason t))" if "I t" for t r p reason
    using inv_candidate_outcome [OF that] by (simp add: executor_tails_def)
  have fin: "I (snd (case runtime_execute env (fc_request c) t of
                (None, s2) \<Rightarrow> (None, s2)
              | (Some (Inr execution), s2) \<Rightarrow> (Some (CR_Completed execution sp1), s2)
              | (Some (Inl err), s2) \<Rightarrow>
                  if kernel_error_retryable err
                  then (case record_candidate_outcome env (fc_request c) (mm_provider (fc_capabilities c))
                               ''EXECUTION_FAILED'' (kernel_error_code err) s2 of
                          (Inl err1, s3) \<Rightarrow> (Some (CR_Error err1), s3)
                        | (Inr _, s3) \<Rightarrow>
                            (Some (CR_Continue (sp1\<lparr>sp_last_failure := Some (mm_provider (fc_capabilities c), err),
                               sp_was_rejection := False\<rparr>)), s3))
                  else (Some (CR_Error err), s2)))" if "I t" for t sp1
    using run [OF that] out
    by (auto simp: runtime_execute_def split: prod.split option.split sum.split) (metis snd_conv)+
  show ?thesis
  proof (cases "sp_last_failure sp")
    case None
    then show ?thesis using fin [OF assms(1), of sp] by (simp add: execute_candidate_def Let_def)
  next
    case (Some pf)
    obtain p failure where pf: "pf = (p, failure)" by fastforce
    let ?rep = "rebind_report (sp_last_failure sp) rep"
    obtain res s1 where R: "record_rebind env (fc_request c) p failure ?rep s = (res, s1)" by fastforce
    have s1: "I s1" using inv_rebind [OF assms] R by (metis snd_conv)
    show ?thesis
    proof (cases res)
      case (Inl err)
      then show ?thesis using Some pf R s1 by (simp add: execute_candidate_def Let_def)
    next
      case (Inr u)
      then show ?thesis using Some pf R fin [OF s1] by (simp add: execute_candidate_def Let_def)
    qed
  qed
qed

lemma inv_try_candidate:
  assumes "I s" "eligible env step c \<Longrightarrow> ok (fc_request c)"
  shows "I (snd (try_candidate env plan step oid c sp s))"
proof -
  have out: "I (snd (record_candidate_outcome env r p ph reason t))"
    if "I t" "ph \<in> {''EVALUATING'', ''UNAVAILABLE'', ''INCOMPATIBLE''}" for t r p ph reason
    using inv_candidate_outcome [OF that(1), of ph] that(2) by (auto simp: executor_tails_def)
  obtain res1 s1 where A: "record_candidate_outcome env (fc_request c) (mm_provider (fc_capabilities c)) ''EVALUATING''
      ''candidate entered compatibility pipeline'' s = (res1, s1)" by fastforce
  have s1: "I s1" using out [OF assms(1), of "''EVALUATING''"] A by (metis insertI1 snd_conv)
  obtain ec s2 where E: "effective_capabilities env c s1 = (ec, s2)" by fastforce
  have s2: "I s2" using inv_local [OF s1] effective_capabilities_cases [OF E] by blast
  have gate: "ok (fc_request c)" if "ec = Inr caps" "\<not> gate_rejects step (assess_compatibility (cs_requirements step) caps)" for caps
    using effective_capabilities_cases [OF E] that assms(2) by (auto simp: eligible_def)
  show ?thesis
    using A E s1 s2 gate inv_execute_candidate [OF s2] out [OF s2]
    by (auto simp: try_candidate_def Let_def split: sum.split prod.split) (metis insertCI snd_conv)+
qed

lemma inv_try_candidates:
  "I s \<Longrightarrow> (\<And>c. c \<in> set cands \<Longrightarrow> eligible env step c \<Longrightarrow> ok (fc_request c)) \<Longrightarrow>
     I (snd (try_candidates env plan step oid cands sp s))"
proof (induction cands arbitrary: sp s)
  case (Cons c cands)
  obtain res s1 where T: "try_candidate env plan step oid c sp s = (res, s1)" by fastforce
  have "I s1" using inv_try_candidate [OF Cons.prems(1)] Cons.prems(2) T by (metis list.set_intros(1) snd_conv)
  with Cons T show ?case by (auto split: option.split candidate_result.split)
qed simp

lemma inv_run_step:
  assumes "I s" "\<And>c. c \<in> set (cs_candidates step) \<Longrightarrow> eligible env step c \<Longrightarrow> ok (fc_request c)"
  shows "I (snd (run_step env plan step fo s))"
proof (cases "cs_candidates step")
  case (Cons c0 rest)
  obtain res s1 where T: "try_candidates env plan step (op_operation_id (fc_request c0)) (c0 # rest)
      \<lparr>sp_last_failure = None, sp_last_rejection = None, sp_was_rejection = False, sp_failovers = fo\<rparr> s = (res, s1)"
    by fastforce
  have "I s1" using inv_try_candidates [OF assms(1), of "c0 # rest"] assms(2) Cons T by (metis snd_conv)
  then show ?thesis
    using assms(1) by (simp add: run_step_def Cons T del: try_candidates.simps split: sum.split option.split candidate_result.split)
qed (simp add: run_step_def assms(1))

lemma inv_run_steps:
  "I s \<Longrightarrow> (\<And>step c. step \<in> set steps \<Longrightarrow> c \<in> set (cs_candidates step) \<Longrightarrow> eligible env step c \<Longrightarrow> ok (fc_request c)) \<Longrightarrow>
     I (snd (run_steps env plan steps done fo s))"
proof (induction steps arbitrary: "done" fo s)
  case (Cons step steps)
  obtain res s1 where R: "run_step env plan step fo s = (res, s1)" by fastforce
  have "I s1" using inv_run_step [OF Cons.prems(1)] Cons.prems(2) R by (metis list.set_intros(1) snd_conv)
  then have "I (snd (run_steps env plan steps d f s1))" for d f
    by (rule Cons.IH) (use Cons.prems(2) in auto)
  with \<open>I s1\<close> R show ?case by (simp split: option.split sum.split prod.split)
qed simp

lemma inv_execute_continuously:
  assumes "I s"
    and "\<And>step c. step \<in> set (cp_steps plan) \<Longrightarrow> c \<in> set (cs_candidates step) \<Longrightarrow> eligible env step c \<Longrightarrow> ok (fc_request c)"
  shows "I (snd (execute_continuously env plan s))"
  using assms(1) inv_run_steps [OF assms] by (simp add: execute_continuously_def)

lemma inv_cancel: "I s \<Longrightarrow> I (snd (runtime_cancel env w s))"
proof -
  assume s: "I s"
  have w: "foreign_write env ok K r ET_Transition ''Workload'' pl (op_key oid ''cancellation-requested'')" for r pl oid
    using tail_keys(2) [of "''cancellation-requested''" oid] by (simp add: foreign_write_def executor_tails_def)
  have app: "I (s\<lparr>rt_exec := e\<rparr>)"
    if "executor_append (re_exec env) now r ET_Transition ''Workload'' ph pl (Some (op_key oid ''cancellation-requested'')) (rt_exec s) = (res, e)"
    for now r ph pl oid res e
    using inv_append [OF s w] that by (metis snd_conv)
  have app': "I (s\<lparr>rt_exec := e, rt_active := a\<rparr>)"
    if "executor_append (re_exec env) now r ET_Transition ''Workload'' ph pl (Some (op_key oid ''cancellation-requested'')) (rt_exec s) = (res, e)"
    for now r ph pl oid res e a
    by (rule inv_local [OF app [OF that]]) simp
  show ?thesis
    using s by (auto simp: runtime_cancel_def split: option.split prod.split sum.split dest: app app')
qed

lemma inv_revoke: "I s \<Longrightarrow> I (snd (revoke_orphaned_leases env s))"
proof -
  have w: "foreign_write env ok K r ET_Commit ''ResourceLease'' pl (op_key oid (''lease:'' @ lid @ '':recovery-revoke''))"
    for r pl oid lid
    using tail_keys(1) [of "''recovery-revoke''" oid "''lease:'' @ lid"] by (simp add: foreign_write_def executor_tails_def)
  have loop: "I t \<Longrightarrow> I (snd (revoke_loop env requests ls t))" for requests ls t
  proof (induction ls arbitrary: t)
    case (Cons l ls)
    obtain lid wid fl where l: "l = (lid, wid, fl)" by (cases l) auto
    show ?case
    proof (cases "requests wid")
      case (Some r)
      obtain res t1 where A: "rt_append env (rt_now env t) r ET_Commit ''ResourceLease'' ''REVOKED''
          (enc (re_json env) (revoke_payload lid fl))
          (''lease:'' @ rl_lease_id (fl_lease fl) @ '':recovery-revoke'') t = (res, t1)" by fastforce
      have "I t1" using inv_rt_append [OF Cons.prems w] A by (metis snd_conv)
      with Cons.IH A l Some show ?thesis by (simp split: sum.split)
    qed (simp add: l Cons.prems)
  qed simp
  assume "I s"
  with loop show ?thesis by (simp add: revoke_orphaned_leases_def split: sum.split)
qed

end

text \<open>Recovery executes what the journal says is pending.\<close>

locale recoverable_invariant = runtime_invariant +
  assumes inv_pending: "I s \<Longrightarrow> pending_operations (re_exec env) (rt_journal s) = Inr rs \<Longrightarrow> r \<in> set rs \<Longrightarrow> ok r"
begin

lemma inv_recover_loop:
  "I s \<Longrightarrow> (\<And>r. r \<in> set rs \<Longrightarrow> ok r) \<Longrightarrow> I (snd (recover_loop env rs acc s))"
proof (induction rs arbitrary: acc s)
  case (Cons r rs)
  obtain res s1 where X: "execute_internal env r True s = (res, s1)" by fastforce
  have s1: "I s1" using inv_execute_internal [OF Cons.prems(1), of r True] Cons.prems(2) X by simp
  then have "I (snd (recover_loop env rs a s1))" for a
    by (rule Cons.IH) (use Cons.prems(2) in auto)
  with s1 X Cons.prems(1) show ?case by (simp split: option.split sum.split)
qed simp

lemma inv_recover: "I s \<Longrightarrow> I (snd (runtime_recover env s))"
proof -
  assume "I s"
  obtain res s1 where R: "revoke_orphaned_leases env s = (res, s1)" by fastforce
  have s1: "I s1" using inv_revoke [OF \<open>I s\<close>] R by (metis snd_conv)
  then show ?thesis
    using R inv_pending [OF s1] inv_recover_loop [OF s1]
    by (simp add: runtime_recover_def split: sum.split)
qed

end

section \<open>Growth of the log\<close>

text \<open>The log only grows, by entries that satisfy \<open>N\<close>.\<close>

definition log_extends :: "(JournalEntry \<Rightarrow> bool) \<Rightarrow> executor_state \<Rightarrow> executor_state \<Rightarrow> bool" where
  "log_extends N s s' \<longleftrightarrow>
     journal_wf (ex_journal s') \<and>
     (\<exists>new. journal_log (ex_journal s') = journal_log (ex_journal s) @ new \<and> (\<forall>x \<in> set new. N x))"

lemma log_extends_refl: "journal_wf (ex_journal s) \<Longrightarrow> log_extends N s s"
  by (simp add: log_extends_def)

lemma log_extends_trans: "log_extends N s t \<Longrightarrow> log_extends N t u \<Longrightarrow> log_extends N s u"
  by (fastforce simp: log_extends_def)

lemma log_extends_append:
  assumes "journal_wf (ex_journal s)"
    and "\<And>x bytes. payload = Inr bytes \<Longrightarrow> same_content x (operation_entry r ty obj ph bytes (Some k)) \<Longrightarrow> N x"
  shows "log_extends N s (snd (executor_append xe now r ty obj ph payload (Some k) s))"
proof -
  obtain res s' where P: "executor_append xe now r ty obj ph payload (Some k) s = (res, s')" by fastforce
  have wf: "journal_wf (ex_journal s')" using executor_append_wf [OF assms(1)] P by (metis snd_conv)
  from assms(1) P show ?thesis
    by (cases rule: executor_append_cases) (use assms P wf in \<open>auto simp: log_extends_def\<close>)
qed

definition executor_writes :: "executor_env \<Rightarrow> OperationRequest \<Rightarrow> JournalEntry \<Rightarrow> bool" where
  "executor_writes xe r x \<longleftrightarrow>
     je_object_id x = op_operation_id r \<and> je_workload_id x = op_workload_id r \<and>
     (is_step ET_Intent ''Operation'' (op_operation_id r) x \<and> enc (xe_request xe) r = Inr (je_payload x) \<or>
      is_step ET_Observation ''OperationReceipt'' (op_operation_id r) x \<or>
      is_step ET_Commit ''StepCommit'' (op_operation_id r) x)"

lemma commit_receipt_extends:
  "journal_wf (ex_journal s) \<Longrightarrow> log_extends (executor_writes xe r) s (snd (commit_receipt xe now crash r receipt s))"
proof -
  assume wf: "journal_wf (ex_journal s)"
  have "log_extends (executor_writes xe r) s (snd (executor_append xe now r ET_Commit ''StepCommit'' ''COMMITTED''
      (enc (xe_receipt xe) receipt) (Some (commit_key (op_operation_id r))) s))"
    by (rule log_extends_append [OF wf]) (simp add: executor_writes_def is_step_def same_content_def operation_entry_def)
  with log_extends_refl [OF wf] show ?thesis
    by (auto simp: commit_receipt_def split: prod.split sum.split)
qed

lemma execute_effect_extends:
  "journal_wf (ex_journal s) \<Longrightarrow> log_extends (executor_writes xe r) s (snd (execute_effect xe now crash r s))"
proof -
  assume wf: "journal_wf (ex_journal s)"
  let ?s1 = "s\<lparr>ex_calls := ex_calls s @ [r]\<rparr>" and ?N = "executor_writes xe r"
  have call: "log_extends ?N s ?s1" using wf by (simp add: log_extends_def)
  have wf1: "journal_wf (ex_journal ?s1)" using wf by simp
  show ?thesis
  proof (cases "xe_provider xe (length (ex_calls s)) r")
    case (Inr receipt)
    obtain res s2 where P: "executor_append xe now r ET_Observation ''OperationReceipt'' ''RECEIVED''
        (enc (xe_receipt xe) receipt) (Some (receipt_key (op_operation_id r))) ?s1 = (res, s2)" by fastforce
    have "log_extends ?N ?s1 (snd (executor_append xe now r ET_Observation ''OperationReceipt'' ''RECEIVED''
        (enc (xe_receipt xe) receipt) (Some (receipt_key (op_operation_id r))) ?s1))"
      by (rule log_extends_append [OF wf1])
        (simp add: executor_writes_def is_step_def same_content_def operation_entry_def)
    then have s2: "log_extends ?N s s2" using log_extends_trans [OF call] P by simp
    then have "log_extends ?N s (snd (commit_receipt xe now crash r receipt s2))"
      using log_extends_trans [OF s2] commit_receipt_extends by (auto simp: log_extends_def)
    with s2 call log_extends_refl [OF wf] Inr P show ?thesis
      by (auto simp: execute_effect_def call_provider_def split: sum.split)
  qed (use log_extends_refl [OF wf] call in \<open>auto simp: execute_effect_def call_provider_def\<close>)
qed

lemma execute_extends:
  "journal_wf (ex_journal s) \<Longrightarrow>
     log_extends (executor_writes xe r) s (snd (execute_cancellable xe now cancelled crash r s))"
proof -
  assume wf: "journal_wf (ex_journal s)"
  let ?N = "executor_writes xe r"
  obtain res s1 where P: "executor_append xe now r ET_Intent ''Operation'' ''PENDING''
      (enc (xe_request xe) r) (Some (intent_key (op_operation_id r))) s = (res, s1)" by fastforce
  have "log_extends ?N s (snd (executor_append xe now r ET_Intent ''Operation'' ''PENDING''
      (enc (xe_request xe) r) (Some (intent_key (op_operation_id r))) s))"
    by (rule log_extends_append [OF wf]) (simp add: executor_writes_def is_step_def same_content_def operation_entry_def)
  then have s1: "log_extends ?N s s1" using P by simp
  then have wf1: "journal_wf (ex_journal s1)" by (simp add: log_extends_def)
  show ?thesis
    using log_extends_refl [OF wf] s1 P log_extends_trans [OF s1 commit_receipt_extends [OF wf1]]
      log_extends_trans [OF s1 execute_effect_extends [OF wf1]]
    by (auto simp: execute_cancellable_def split: sum.split option.split)
qed

section \<open>The discipline of the journal\<close>

text \<open>A request whose provider revision does not end like an executor key, and that belongs to the one
  workload of its operation id.\<close>

definition plain_request :: "OperationRequest \<Rightarrow> bool" where
  "plain_request r \<longleftrightarrow> key_tail (CHR '':'' # sn_provider_revision (op_snapshot r)) \<notin> executor_tails"

definition admissible :: "(string \<Rightarrow> string) \<Rightarrow> OperationRequest \<Rightarrow> bool" where
  "admissible W r \<longleftrightarrow> op_workload_id r = W (op_operation_id r) \<and> plain_request r"

definition is_intent :: "JournalEntry \<Rightarrow> bool" where
  "is_intent x \<longleftrightarrow> je_entry_type x = ET_Intent \<and> je_object_type x = ''Operation''"

definition intent_ok :: "runtime_env \<Rightarrow> (string \<Rightarrow> string) \<Rightarrow> JournalEntry \<Rightarrow> bool" where
  "intent_ok env W x \<longleftrightarrow>
     (is_intent x \<longrightarrow> (\<exists>r. enc (xe_request (re_exec env)) r = Inr (je_payload x) \<and> admissible W r))"

definition rt_good :: "runtime_env \<Rightarrow> (string \<Rightarrow> string) \<Rightarrow> runtime_state \<Rightarrow> bool" where
  "rt_good env W s \<longleftrightarrow>
     codec_roundtrip (xe_receipt (re_exec env)) \<and> codec_roundtrip (xe_request (re_exec env)) \<and>
     exec_good (re_exec env) (\<lambda>oid w. w = W oid) (\<lambda>_. True) (rt_exec s) \<and>
     (\<forall>x \<in> set (journal_log (rt_journal s)). intent_ok env W x)"

lemma rt_good_wf: "rt_good env W s \<Longrightarrow> journal_wf (rt_journal s)"
  by (simp add: rt_good_def exec_good_def exec_inv_def)

lemma key_tail_last_piece: "key_tail (a @ CHR '':'' # b) = key_tail (CHR '':'' # b)"
proof (cases "CHR '':'' \<in> set b")
  case True
  then obtain p q where b: "b = p @ CHR '':'' # q" "CHR '':'' \<notin> set q" by (metis split_list_last)
  then show ?thesis using key_tail_colon [OF b(2), of "a @ CHR '':'' # p"] key_tail_colon [OF b(2), of "CHR '':'' # p"] by simp
next
  case False
  then show ?thesis using key_tail_colon [OF False, of a] key_tail_colon [OF False, of "[]"] by simp
qed

lemma plain_request_key:
  "plain_request r \<Longrightarrow> key_tail (op_key oid (pre @ CHR '':'' # sn_provider_revision (op_snapshot r))) \<notin> executor_tails"
  using key_tail_last_piece [of "''operation:'' @ oid @ '':'' @ pre" "sn_provider_revision (op_snapshot r)"]
  by (simp add: plain_request_def op_key_def)

lemma rt_good_foreign:
  assumes "rt_good env W s" "journal_append (xe_journal (re_exec env)) now e (rt_journal s) = (res, j)"
    and "foreign_entry e" "intent_ok env W e"
  shows "rt_good env W (s\<lparr>rt_exec := (rt_exec s)\<lparr>ex_journal := j\<rparr>\<rparr>)"
proof -
  have wf: "journal_wf (rt_journal s)" by (rule rt_good_wf [OF assms(1)])
  have "exec_good (re_exec env) (\<lambda>oid w. w = W oid) (\<lambda>_. True) ((rt_exec s)\<lparr>ex_journal := j\<rparr>)"
    using exec_good_foreign [OF _ assms(2,3)] assms(1) by (simp add: rt_good_def)
  moreover have "\<forall>x \<in> set (journal_log j). intent_ok env W x"
    using wf assms(2)
  proof (cases rule: jl.append_cases)
    case (new x)
    then have "intent_ok env W x" using assms(4) by (simp add: intent_ok_def is_intent_def same_content_def)
    then show ?thesis using new assms(1) by (auto simp: rt_good_def)
  qed (use assms(1) in \<open>auto simp: rt_good_def\<close>)
  ultimately show ?thesis using assms(1) by (simp add: rt_good_def)
qed

lemma rt_good_foreign_write:
  assumes "rt_good env W s"
    and "foreign_write env (admissible W) (\<lambda>k. key_tail k \<notin> executor_tails) r ty obj payload k"
  shows "rt_good env W (s\<lparr>rt_exec := snd (executor_append (re_exec env) now r ty obj phase payload (Some k) (rt_exec s))\<rparr>)"
proof (cases payload)
  case (Inr bytes)
  let ?e = "operation_entry r ty obj phase bytes (Some k)"
  obtain res j where A: "journal_append (xe_journal (re_exec env)) now ?e (rt_journal s) = (res, j)" by fastforce
  have "foreign_entry ?e" "intent_ok env W ?e"
    using assms(2) Inr by (auto simp: foreign_write_def foreign_entry_def operation_entry_def intent_ok_def is_intent_def foreign_keyI)
  from rt_good_foreign [OF assms(1) A this] show ?thesis
    using A Inr by (simp add: executor_append_def split: sum.split)
qed (use assms(1) in \<open>simp add: executor_append_def\<close>)

lemma profile_entry_foreign: "foreign_entry (profile_entry p b)" "\<not> is_intent (profile_entry p b)"
proof -
  have "CHR '':'' \<notin> set (profile_outcome p)" "profile_outcome p \<notin> executor_tails"
    by (simp_all add: profile_outcome_def executor_tails_def)
  then show "foreign_entry (profile_entry p b)"
    using key_tail_colon [of "profile_outcome p" "''operation:'' @ ep_operation_id p @ '':profile:'' @ ep_provider p"]
    by (simp add: foreign_entry_def profile_entry_def foreign_key_def)
qed (simp add: is_intent_def profile_entry_def)

lemma profile_outcome_update [simp]: "profile_outcome (p\<lparr>ep_recorded_at_us := t\<rparr>) = profile_outcome p"
  by (simp add: profile_outcome_def)

lemma rt_good_profile: "rt_good env W s \<Longrightarrow> rt_good env W (snd (record_profile env now p s))"
proof (cases "enc (re_profile env) (p\<lparr>ep_recorded_at_us := now\<rparr>)")
  case (Inl err)
  then show "rt_good env W s \<Longrightarrow> ?thesis" by (simp add: record_profile_def profile_record_def rt_good_def)
next
  case (Inr b)
  assume good: "rt_good env W s"
  let ?e = "profile_entry (p\<lparr>ep_recorded_at_us := now\<rparr>) b"
  obtain res j where A: "journal_append (xe_journal (re_exec env)) now ?e (rt_journal s) = (res, j)" by fastforce
  have "foreign_entry ?e" "intent_ok env W ?e" using profile_entry_foreign by (simp_all add: intent_ok_def)
  from rt_good_foreign [OF good A this] show ?thesis
    using A Inr by (simp add: record_profile_def profile_record_def Let_def)
qed

lemma rt_good_execute:
  assumes "rt_good env W s" "admissible W r"
  shows "rt_good env W (s\<lparr>rt_exec := snd (execute_cancellable (re_exec env) now cancelled crash r (rt_exec s))\<rparr>)"
proof -
  let ?e = "snd (execute_cancellable (re_exec env) now cancelled crash r (rt_exec s))"
  have "exec_good (re_exec env) (\<lambda>oid w. w = W oid) (\<lambda>_. True) ?e"
    using exec_good_execute [of "re_exec env" "\<lambda>oid w. w = W oid"] assms by (simp add: rt_good_def admissible_def)
  moreover have "\<forall>x \<in> set (journal_log (ex_journal ?e)). intent_ok env W x"
    using execute_extends [OF rt_good_wf [OF assms(1)], of "re_exec env" r now cancelled crash] assms
    by (fastforce simp: log_extends_def rt_good_def executor_writes_def intent_ok_def is_intent_def is_step_def)
  ultimately show ?thesis using assms(1) by (simp add: rt_good_def)
qed

lemma rt_good_pending:
  assumes "rt_good env W s" "pending_operations (re_exec env) (rt_journal s) = Inr rs" "r \<in> set rs"
  shows "admissible W r"
proof -
  let ?log = "journal_log (rt_journal s)"
  have "rs = map snd (foldl (pending_step (re_exec env)) [] ?log)"
    using assms(2) jl.read_all_log [OF rt_good_wf [OF assms(1)]] by (simp add: pending_operations_def)
  then obtain oid where "(oid, r) \<in> set (foldl (pending_step (re_exec env)) [] ?log)" using assms(3) by auto
  then have "map_of (foldl (pending_step (re_exec env)) [] ?log) oid = Some r"
    using pending_fold [of "re_exec env" ?log oid] map_of_is_SomeI by metis
  then obtain e where "find (concerns (re_exec env) oid) (rev ?log) = Some e" "opened (re_exec env) e = Some r"
    using pending_fold [of "re_exec env" ?log oid] by (metis Option.bind_eq_Some_conv)
  then have e: "e \<in> set ?log" "is_intent e" "decode_ok (xe_request (re_exec env)) (je_payload e) = Some r"
    by (auto simp: find_Some_iff opened_def is_intent_def split: if_splits) (metis length_rev nth_mem set_rev)
  then obtain q where q: "enc (xe_request (re_exec env)) q = Inr (je_payload e)" "admissible W q"
    using assms(1) by (auto simp: rt_good_def intent_ok_def)
  have "dec (xe_request (re_exec env)) (je_payload e) = Inr q"
    using codec_roundtripD [OF _ q(1)] assms(1) by (simp add: rt_good_def)
  then have "q = r" using e(3) by (simp add: decode_ok_def)
  with q(2) show ?thesis by simp
qed

interpretation journal_rules: recoverable_invariant env "admissible W" "\<lambda>k. key_tail k \<notin> executor_tails" "rt_good env W"
  for env W
proof
  show "rt_good env W s \<Longrightarrow> rt_exec s' = rt_exec s \<Longrightarrow> rt_good env W s'" for s s'
    by (simp add: rt_good_def)
qed (auto simp: admissible_def plain_request_key intro: rt_good_foreign_write rt_good_profile rt_good_execute
    dest: rt_good_pending)

text \<open>Every operation only extends the log.\<close>

definition log_from :: "JournalEntry list \<Rightarrow> runtime_state \<Rightarrow> bool" where
  "log_from base s \<longleftrightarrow> journal_wf (rt_journal s) \<and> prefix base (journal_log (rt_journal s))"

lemma log_from_extends: "log_from base s \<Longrightarrow> log_extends N (rt_exec s) e \<Longrightarrow> log_from base (s\<lparr>rt_exec := e\<rparr>)"
  by (auto simp: log_from_def log_extends_def intro: prefix_prefix)

interpretation growth: recoverable_invariant env "\<lambda>_. True" "\<lambda>_. True" "log_from base" for env base
proof
  show "log_from base s \<Longrightarrow> rt_exec s' = rt_exec s \<Longrightarrow> log_from base s'" for s s'
    by (simp add: log_from_def)
  show "log_from base (s\<lparr>rt_exec := snd (executor_append (re_exec env) now r ty obj phase payload (Some k) (rt_exec s))\<rparr>)"
    if "log_from base s" for s now r ty obj phase payload k
    using log_from_extends [OF that log_extends_append [where N = "\<lambda>_. True"]] that by (simp add: log_from_def)
  show "log_from base (s\<lparr>rt_exec := snd (execute_cancellable (re_exec env) now cancelled crash r (rt_exec s))\<rparr>)"
    if "log_from base s" for s now r cancelled crash
    using log_from_extends [OF that execute_extends] that by (simp add: log_from_def)
  show "log_from base (snd (record_profile env now p s))" if "log_from base s" for s now p
  proof (cases "enc (re_profile env) (p\<lparr>ep_recorded_at_us := now\<rparr>)")
    case (Inr b)
    let ?e = "profile_entry (p\<lparr>ep_recorded_at_us := now\<rparr>) b"
    obtain res j where A: "journal_append (xe_journal (re_exec env)) now ?e (rt_journal s) = (res, j)" by fastforce
    have wf: "journal_wf (rt_journal s)" using that by (simp add: log_from_def)
    have "journal_wf j" using journal_wf_append [OF wf] A by (metis snd_conv)
    moreover from wf A have "prefix base (journal_log j)"
      by (cases rule: jl.append_cases) (use that in \<open>auto simp: log_from_def intro: prefix_prefix\<close>)
    ultimately show ?thesis using A Inr by (simp add: record_profile_def profile_record_def Let_def log_from_def)
  qed (use that in \<open>simp add: record_profile_def profile_record_def log_from_def\<close>)
qed simp_all

text \<open>The provider is called only for requests that pass.\<close>

lemma executor_append_calls: "ex_calls (snd (executor_append xe now r ty obj ph pl k s)) = ex_calls s"
  by (simp add: executor_append_def split: sum.split prod.split)

lemma commit_receipt_calls: "ex_calls (snd (commit_receipt xe now crash r receipt s)) = ex_calls s"
  using executor_append_calls [of xe now r ET_Commit "''StepCommit''" "''COMMITTED''" "enc (xe_receipt xe) receipt"
      "Some (commit_key (op_operation_id r))" s]
  by (auto simp: commit_receipt_def split: prod.split sum.split)

lemma execute_effect_calls:
  "ex_calls (snd (execute_effect xe now crash r s)) \<in> {ex_calls s, ex_calls s @ [r]}"
proof (cases "xe_provider xe (length (ex_calls s)) r")
  case (Inr receipt)
  let ?s1 = "s\<lparr>ex_calls := ex_calls s @ [r]\<rparr>"
  obtain res s2 where P: "executor_append xe now r ET_Observation ''OperationReceipt'' ''RECEIVED''
      (enc (xe_receipt xe) receipt) (Some (receipt_key (op_operation_id r))) ?s1 = (res, s2)" by fastforce
  have "ex_calls s2 = ex_calls s @ [r]"
    using executor_append_calls [of xe now r ET_Observation "''OperationReceipt''" "''RECEIVED''"
        "enc (xe_receipt xe) receipt" "Some (receipt_key (op_operation_id r))" ?s1] P by simp
  then show ?thesis
    using P Inr commit_receipt_calls [of xe now crash r receipt s2]
    by (auto simp: execute_effect_def call_provider_def split: sum.split)
qed (auto simp: execute_effect_def call_provider_def)

lemma execute_calls:
  "ex_calls (snd (execute_cancellable xe now cancelled crash r s)) \<in> {ex_calls s, ex_calls s @ [r]}"
proof -
  obtain res s1 where P: "executor_append xe now r ET_Intent ''Operation'' ''PENDING''
      (enc (xe_request xe) r) (Some (intent_key (op_operation_id r))) s = (res, s1)" by fastforce
  have s1: "ex_calls s1 = ex_calls s"
    using executor_append_calls [of xe now r ET_Intent "''Operation''" "''PENDING''" "enc (xe_request xe) r"
        "Some (intent_key (op_operation_id r))" s] P by simp
  show ?thesis
    using P s1 commit_receipt_calls [of xe now crash r _ s1] execute_effect_calls [of xe now crash r s1]
    by (auto simp: execute_cancellable_def split: sum.split option.split)
qed

definition calls_within :: "OperationRequest set \<Rightarrow> runtime_state \<Rightarrow> bool" where
  "calls_within E s \<longleftrightarrow> set (ex_calls (rt_exec s)) \<subseteq> E"

interpretation provider_calls: runtime_invariant env "\<lambda>r. r \<in> E" "\<lambda>_. True" "calls_within E" for env E
proof
  show "calls_within E (s\<lparr>rt_exec := snd (execute_cancellable (re_exec env) now cancelled crash r (rt_exec s))\<rparr>)"
    if "calls_within E s" "r \<in> E" for s r now cancelled crash
    using execute_calls [of "re_exec env" now cancelled crash r "rt_exec s"] that by (auto simp: calls_within_def)
qed (auto simp: calls_within_def executor_append_calls record_profile_def split: prod.split)

section \<open>Histories\<close>

datatype runtime_op =
    RO_Execute OperationRequest
  | RO_Plan ContinuityPlan
  | RO_Recover
  | RO_Cancel string
  | RO_Shutdown
  | RO_Restart string

text \<open>A restart keeps the journal and the record of the calls made; everything else is made anew.\<close>

definition runtime_restart :: "string \<Rightarrow> runtime_state \<Rightarrow> runtime_state" where
  "runtime_restart uuid s =
     (kernel_runtime_new uuid \<lparr>bc_state = KS_Ready, bc_integrity_failures = [], bc_journal = rt_journal s\<rparr>)
       \<lparr>rt_exec := rt_exec s, rt_tick := rt_tick s\<rparr>"

fun runtime_step :: "runtime_env \<Rightarrow> runtime_op \<Rightarrow> runtime_state \<Rightarrow> runtime_state" where
  "runtime_step env (RO_Execute r) s = snd (runtime_execute env r s)"
| "runtime_step env (RO_Plan plan) s = snd (execute_continuously env plan s)"
| "runtime_step env RO_Recover s = snd (runtime_recover env s)"
| "runtime_step env (RO_Cancel w) s = snd (runtime_cancel env w s)"
| "runtime_step env RO_Shutdown s = shutdown_request s"
| "runtime_step env (RO_Restart uuid) s = runtime_restart uuid s"

definition runtime_run :: "runtime_env \<Rightarrow> runtime_op list \<Rightarrow> runtime_state \<Rightarrow> runtime_state" where
  "runtime_run env ops s = fold (runtime_step env) ops s"

definition plan_requests :: "ContinuityPlan \<Rightarrow> OperationRequest list" where
  "plan_requests plan = concat (map (\<lambda>step. map fc_request (cs_candidates step)) (cp_steps plan))"

fun op_admissible :: "(string \<Rightarrow> string) \<Rightarrow> runtime_op \<Rightarrow> bool" where
  "op_admissible W (RO_Execute r) = admissible W r"
| "op_admissible W (RO_Plan plan) = list_all (admissible W) (plan_requests plan)"
| "op_admissible W _ = True"

definition runtime_fresh :: "string \<Rightarrow> runtime_state" where
  "runtime_fresh uuid =
     kernel_runtime_new uuid \<lparr>bc_state = KS_Ready, bc_integrity_failures = [], bc_journal = journal_open_in_memory\<rparr>"

lemma rt_good_step:
  assumes "rt_good env W s" "op_admissible W x" shows "rt_good env W (runtime_step env x s)"
proof (cases x)
  case (RO_Plan plan)
  have "admissible W (fc_request c)" if "step \<in> set (cp_steps plan)" "c \<in> set (cs_candidates step)" for step c
    using assms(2) RO_Plan that by (auto simp: plan_requests_def list_all_iff)
  then show ?thesis using RO_Plan journal_rules.inv_execute_continuously [OF assms(1)] by simp
qed (use assms in \<open>auto simp: runtime_execute_def shutdown_request_def runtime_restart_def
      intro: journal_rules.inv_execute_internal journal_rules.inv_recover journal_rules.inv_cancel
        journal_rules.inv_local\<close>)

lemma log_from_step: "log_from base s \<Longrightarrow> log_from base (runtime_step env x s)"
  by (cases x)
    (auto simp: runtime_execute_def shutdown_request_def runtime_restart_def
      intro: growth.inv_execute_internal growth.inv_execute_continuously growth.inv_recover growth.inv_cancel
        growth.inv_local [of base s])

lemma rt_good_run: "rt_good env W s \<Longrightarrow> list_all (op_admissible W) ops \<Longrightarrow> rt_good env W (runtime_run env ops s)"
  by (induction ops arbitrary: s) (simp_all add: runtime_run_def rt_good_step)

lemma log_from_run: "log_from base s \<Longrightarrow> log_from base (runtime_run env ops s)"
  by (induction ops arbitrary: s) (simp_all add: runtime_run_def log_from_step)

lemma log_from_self: "rt_good env W s \<Longrightarrow> log_from (journal_log (rt_journal s)) s"
  by (simp add: log_from_def rt_good_wf)

lemma rt_good_fresh:
  assumes "codec_roundtrip (xe_receipt (re_exec env))" "codec_roundtrip (xe_request (re_exec env))"
  shows "rt_good env W (runtime_fresh uuid)"
proof -
  have "rt_exec (runtime_fresh uuid) = exec_start"
    by (simp add: runtime_fresh_def kernel_runtime_new_def exec_start_def)
  then show ?thesis
    using exec_good_start assms
    by (simp add: rt_good_def exec_start_def journal_log_def journal_open_in_memory_def map_filter_simps)
qed

section \<open>Commits are permanent\<close>

definition commit_in :: "runtime_env \<Rightarrow> OperationRequest \<Rightarrow> runtime_state \<Rightarrow> OperationReceipt option" where
  "commit_in env r s = log_receipt (re_exec env) ET_Commit ''StepCommit'' (op_operation_id r) (rt_exec s)"

lemma committed_receipt_commit_in:
  assumes "rt_good env W s" "admissible W r"
  shows "committed_receipt (re_exec env) r (rt_journal s) = Inr (commit_in env r s)"
  using latest_receipt_good [of "re_exec env" "\<lambda>oid w. w = W oid" "\<lambda>_. True" "rt_exec s" r ET_Commit "''StepCommit''"] assms
  by (simp add: rt_good_def admissible_def committed_receipt_def commit_in_def log_receipt_def exec_kind_def)

lemma commit_in_stable:
  assumes "rt_good env W s'" "log_from (journal_log (rt_journal s)) s'" "commit_in env r s = Some rc"
  shows "commit_in env r s' = Some rc"
proof -
  let ?P = "is_step ET_Commit ''StepCommit'' (op_operation_id r)"
  obtain x where x: "find ?P (rev (journal_log (rt_journal s))) = Some x"
      "decode_ok (xe_receipt (re_exec env)) (je_payload x) = Some rc"
    using assms(3) by (auto simp: commit_in_def log_receipt_def Option.bind_eq_Some_conv)
  then have "x \<in> set (journal_log (rt_journal s))" "?P x"
    by (auto simp: find_Some_iff) (metis length_rev nth_mem set_rev)
  then have "x \<in> set (journal_log (rt_journal s'))" using assms(2) set_mono_prefix by (auto simp: log_from_def)
  moreover have "owned_kind (\<lambda>_. True) ET_Commit ''StepCommit''" by (simp add: owned_kind_def exec_kind_def)
  ultimately have "find ?P (rev (journal_log (rt_journal s'))) = Some x"
    using exec_find_step [of "re_exec env" "\<lambda>oid w. w = W oid" "\<lambda>_. True" "rt_exec s'"] assms(1) \<open>?P x\<close>
    by (simp add: rt_good_def)
  with x(2) show ?thesis by (simp add: commit_in_def log_receipt_def)
qed

lemma begin_execution_early:
  assumes "begin_execution env inp r s = (Inl (Inr x), s1)"
  shows "s1 = s \<and> committed_receipt (re_exec env) r (rt_journal s) = Inr (Some (rx_receipt x))"
  using assms
  by (auto simp: begin_execution_def split: sum.splits if_splits option.splits AdmissionDecision.splits prod.splits)

lemma finish_execution_success:
  "finish_execution env inp r recovered tk execution s = (Some (Inr x), s') \<Longrightarrow> execution = Inr (rx_receipt x)"
  by (auto simp: finish_execution_def Let_def split: prod.splits if_splits option.splits sum.splits)

lemma execute_internal_commits:
  assumes good: "rt_good env W s" and adm: "admissible W r"
    and run: "execute_internal env r recovered s = (Some (Inr x), s')"
  shows "commit_in env r s' = Some (rx_receipt x)"
proof -
  let ?inp = "re_inputs env (rt_tick s)" and ?s = "s\<lparr>rt_tick := rt_tick s + 1\<rparr>"
  have g: "rt_good env W ?s" by (rule journal_rules.inv_local [OF good]) simp
  obtain b s1 where B: "begin_execution env ?inp r ?s = (b, s1)" by fastforce
  have s1: "rt_good env W s1" using journal_rules.inv_begin [OF g, of ?inp r] B by simp
  show ?thesis
  proof (cases b)
    case (Inl res)
    then have "begin_execution env ?inp r ?s = (Inl (Inr x), s')" using run B by (simp add: execute_internal_def Let_def)
    from begin_execution_early [OF this] committed_receipt_commit_in [OF g adm] show ?thesis by simp
  next
    case (Inr tk)
    obtain y e where X: "execute_cancellable (re_exec env) (ri_now ?inp) (ri_cancelled ?inp) (ri_crash ?inp) r (rt_exec s1) = (y, e)"
      by fastforce
    then obtain execution where y: "y = Some execution"
        "finish_execution env ?inp r recovered tk execution (s1\<lparr>rt_exec := e\<rparr>) = (Some (Inr x), s')"
      using run B Inr by (auto simp: execute_internal_def Let_def split: option.splits)
    have ok: "execution = Inr (rx_receipt x)" using finish_execution_success [OF y(2)] .
    have s2: "rt_good env W (s1\<lparr>rt_exec := e\<rparr>)" using rt_good_execute [OF s1 adm] X by (metis snd_conv)
    have "committed_receipt (re_exec env) r (ex_journal e) = Inr (Some (rx_receipt x))"
      using execute_durable [of "re_exec env" "\<lambda>oid w. w = W oid" "\<lambda>_. True" "rt_exec s1" r] s1 adm X y(1) ok
      by (auto simp: rt_good_def admissible_def)
    then have c2: "commit_in env r (s1\<lparr>rt_exec := e\<rparr>) = Some (rx_receipt x)"
      using committed_receipt_commit_in [OF s2 adm] by simp
    have s': "rt_good env W s'" using journal_rules.inv_finish [OF s2 adm] y(2) by (metis snd_conv)
    have "log_from (journal_log (rt_journal (s1\<lparr>rt_exec := e\<rparr>))) s'"
      using growth.inv_finish [OF log_from_self [OF s2]] y(2) by (metis snd_conv)
    from commit_in_stable [OF s' this c2] show ?thesis .
  qed
qed

lemma execute_internal_replays:
  assumes "rt_good env W s" "admissible W r" "commit_in env r s = Some rc"
    and "op_validate_sensitive_references r = Inr ()" "rt_kernel s \<noteq> KS_ShuttingDown"
  shows "\<exists>x. execute_internal env r recovered s = (Some (Inr x), s\<lparr>rt_tick := rt_tick s + 1\<rparr>) \<and> rx_receipt x = rc"
proof -
  let ?s = "s\<lparr>rt_tick := rt_tick s + 1\<rparr>"
  have "committed_receipt (re_exec env) r (rt_journal ?s) = Inr (Some rc)"
    using committed_receipt_commit_in [OF assms(1,2)] assms(3) by simp
  moreover obtain t where "latest_decision_trace env (op_operation_id r) ?s = Inr t"
    using jl.read_all_log [OF rt_good_wf [OF assms(1)]] by (simp add: latest_decision_trace_def)
  ultimately show ?thesis
    using assms(4,5) by (simp add: execute_internal_def begin_execution_def Let_def)
qed

end
