(* ===== verification/Coordinator_Properties.thy ===== *)
theory Coordinator_Properties
  imports Coordinator_Safety
begin

text \<open>
  The properties of the coordinator: what an execution leaves behind, that an operation commits once in any
  history of executions, plans, recoveries, cancellations and restarts, that a healthy kernel answers,
  what a continuity plan may call, and what recovery does with the lease of an operation that was
  interrupted before its intent.
\<close>

section \<open>Leases and the active table\<close>

lemma lease_operation_leases:
  assumes "lease_operation env inp r placement trace s = (res, s')"
    and "map_of (lm_leases (rt_leases s)) (ri_uuid inp) = None"
  shows "case res of
      Inl _ \<Rightarrow> map_of (lm_leases (rt_leases s')) = map_of (lm_leases (rt_leases s)) \<and> rt_active s' = rt_active s
    | Inr tk \<Rightarrow> tk_lease_id tk = ri_uuid inp \<and>
        map_of (lm_leases (rt_leases s')) = (map_of (lm_leases (rt_leases s)))(ri_uuid inp \<mapsto> fl_lease (tk_lease tk)) \<and>
        map_of (rt_active s') = (map_of (rt_active s))(op_workload_id r \<mapsto>
          \<lparr>ao_operation_id = op_operation_id r, ao_request = r, ao_cancelled = False\<rparr>)"
proof (cases "has_active_lease (ri_instant inp) (rt_leases s) (op_workload_id r)")
  case True
  then show ?thesis using assms(1) by (auto simp: lease_operation_def grant_fenced_cases)
next
  case False
  obtain fenced lm where G: "grant_fenced (ri_instant inp) (ri_uuid inp) (op_workload_id r) ''kernel-runtime''
      (pd_resources_reserved placement) (pd_node_id placement) (pd_device_id placement) True (rt_leases s) = (Inr fenced, lm)"
    using False by (simp add: grant_fenced_cases Let_def)
  then have lid: "rl_lease_id (fl_lease fenced) = ri_uuid inp"
    and ls: "lm_leases lm = AList.update (ri_uuid inp) (fl_lease fenced) (lm_leases (rt_leases s))"
    using False by (auto simp: grant_fenced_cases Let_def)
  obtain res2 s2 where A: "rt_append env (ri_now inp) r ET_Commit ''ResourceLease'' ''ACTIVE'' (enc (re_lease env) fenced)
      (''lease:'' @ ri_uuid inp @ '':grant'') (s\<lparr>rt_leases := lm\<rparr>) = (res2, s2)" by fastforce
  have s2: "rt_leases s2 = lm" "rt_active s2 = rt_active s"
    using rt_append_frame(1,2) [of env "ri_now inp" r ET_Commit "''ResourceLease''" "''ACTIVE''" "enc (re_lease env) fenced"
        "''lease:'' @ ri_uuid inp @ '':grant''" "s\<lparr>rt_leases := lm\<rparr>"] unfolding A by simp_all
  have rel: "map_of (lm_leases (rt_leases (snd (rt_release (ri_uuid inp) s2)))) = map_of (lm_leases (rt_leases s))"
      "rt_active (snd (rt_release (ri_uuid inp) s2)) = rt_active s"
    using assms(2) s2 ls by (auto simp: rt_release_def lease_release_def kernel_simps fun_eq_iff)
  show ?thesis
    using assms(1) G A lid ls s2 rel
    by (auto simp: lease_operation_def Let_def kernel_simps split: sum.splits if_splits)
qed

lemma begin_execution_leases:
  assumes "begin_execution env inp r s = (b, s1)" "map_of (lm_leases (rt_leases s)) (ri_uuid inp) = None"
  shows "case b of
      Inl _ \<Rightarrow> map_of (lm_leases (rt_leases s1)) = map_of (lm_leases (rt_leases s)) \<and> rt_active s1 = rt_active s
    | Inr tk \<Rightarrow> tk_lease_id tk = ri_uuid inp \<and>
        map_of (lm_leases (rt_leases s1)) = (map_of (lm_leases (rt_leases s)))(ri_uuid inp \<mapsto> fl_lease (tk_lease tk)) \<and>
        map_of (rt_active s1) = (map_of (rt_active s))(op_workload_id r \<mapsto>
          \<lparr>ao_operation_id = op_operation_id r, ao_request = r, ao_cancelled = False\<rparr>)"
proof -
  obtain pl trace where P: "place_with_trace (re_fo env) (re_ft env) scheduler_core_config_default
      (workload_for r) [reference_node env r] = (pl, trace)" by fastforce
  obtain res s2 where A: "rt_append env (ri_now inp) r ET_Observation ''SchedulerDecision'' ''SELECTED''
      (enc (re_trace env) trace) ''schedule'' s = (res, s2)" by fastforce
  have s2: "rt_leases s2 = rt_leases s" "rt_active s2 = rt_active s"
    using rt_append_frame(1,2) [of env "ri_now inp" r ET_Observation "''SchedulerDecision''" "''SELECTED''"
        "enc (re_trace env) trace" "''schedule''" s] A by simp_all
  have L: "lease_operation env inp r placement trace s2 = (x, t) \<Longrightarrow> case x of
      Inl _ \<Rightarrow> map_of (lm_leases (rt_leases t)) = map_of (lm_leases (rt_leases s)) \<and> rt_active t = rt_active s
    | Inr tk \<Rightarrow> tk_lease_id tk = ri_uuid inp \<and>
        map_of (lm_leases (rt_leases t)) = (map_of (lm_leases (rt_leases s)))(ri_uuid inp \<mapsto> fl_lease (tk_lease tk)) \<and>
        map_of (rt_active t) = (map_of (rt_active s))(op_workload_id r \<mapsto>
          \<lparr>ao_operation_id = op_operation_id r, ao_request = r, ao_cancelled = False\<rparr>)" for placement x t
    using lease_operation_leases [of env inp r placement trace s2 x t] assms(2) unfolding s2 by blast
  show ?thesis
    using assms(1) A s2 P
    by (auto simp: begin_execution_def split: sum.splits if_splits option.splits AdmissionDecision.splits prod.splits
        dest!: L)
qed

lemma finish_execution_leases:
  assumes "finish_execution env inp r recovered tk x s = (res, s')"
  shows "map_of (lm_leases (rt_leases s')) = (map_of (lm_leases (rt_leases s)))(tk_lease_id tk := None) \<and>
    map_of (rt_active s') = (map_of (rt_active s))(op_workload_id r := None)"
proof -
  have rel: "map_of (lm_leases (rt_leases (snd (rt_release lid t)))) = (map_of (lm_leases (rt_leases t)))(lid := None)"
      "rt_active (snd (rt_release lid t)) = rt_active t" for lid t
    by (auto simp: rt_release_def lease_release_def kernel_simps fun_eq_iff)
  have app: "rt_leases t' = rt_leases t \<and> rt_active t' = rt_active t"
    if "rt_append env now r ty obj ph pl what t = (res', t')" for now ty obj ph pl what t res' t'
    using rt_append_frame(1,2) [of env now r ty obj ph pl what t] that by simp_all
  have prof: "rt_leases t' = rt_leases t \<and> rt_active t' = rt_active t"
    if "record_profile env now p t = (res', t')" for now p t res' t'
    using record_profile_frame [of env now p t] that by simp_all
  have fail: "rt_leases t' = rt_leases t \<and> rt_active t' = rt_active t"
    if "record_failure env now r err nt t = (res', t')" for now err nt t res' t'
    using record_failure_frame [of env now r err nt t] that by simp_all
  have relp: "map_of (lm_leases (rt_leases t')) = (map_of (lm_leases (rt_leases t)))(lid := None) \<and> rt_active t' = rt_active t"
    if "rt_release lid t = (res', t')" for lid t res' t'
    using rel [of lid t] that by simp_all
  show ?thesis
    using assms
    by (auto simp: finish_execution_def Let_def kernel_simps split: prod.splits if_splits option.splits sum.splits
        dest!: app prof fail relp)
qed

section \<open>A healthy kernel answers\<close>

lemma workload_for_sel:
  "ws_deadline_us (workload_for r) = 0"
  "rq_minimum (ws_resource_requirements (workload_for r)) = rv_zero\<lparr>rv_cpu_cores_millis := 1, rv_ram_bytes := 1048576\<rparr>"
  "ws_security_requirements (workload_for r) = security_requirements_default"
  "cr_required_capabilities (ws_capability_requirements (workload_for r)) = []"
  "dr_allowed_device_types (ws_device_requirements (workload_for r)) = []"
  by (simp_all add: workload_for_def workload_spec_default_def Let_def)

text \<open>Every operation is admitted: it asks for a thousandth of a core and a megabyte.\<close>

lemma operation_admitted: "admit now local_domain (workload_for r) = AD_Admitted"
  by (simp add: admit_def Let_def workload_for_sel deadline_expired_def fits_within_def can_fit_def dom_available_def
      local_domain_def local_capacity_def rv_zero_def rv_map2_def rv_sub_def sat_sub_def validate_security_def
      security_requirements_default_def)

lemma reference_candidates:
  "\<exists>c. placement_candidates fo (workload_for r) [reference_node env r] = [c]"
  by (simp add: placement_candidates_def reference_node_def node_feasible_def engine_feasible_def device_feasible_def
      workload_for_sel fits_within_def local_capacity_def rv_zero_def schedulable_def)

text \<open>The score of the reference candidate is a number above negative infinity.\<close>

definition usable_score :: "runtime_env \<Rightarrow> OperationRequest \<Rightarrow> bool" where
  "usable_score env r \<longleftrightarrow>
     list_all (\<lambda>c. usable (weighted_score (re_fo env) scheduling_weights_default c))
       (placement_candidates (re_fo env) (workload_for r) [reference_node env r])"

lemma reference_placement:
  assumes "usable_score env r"
  shows "\<exists>d trace. place_with_trace (re_fo env) (re_ft env) scheduler_core_config_default (workload_for r)
    [reference_node env r] = (Some d, trace)"
proof -
  obtain c where c: "placement_candidates (re_fo env) (workload_for r) [reference_node env r] = [c]"
    using reference_candidates by blast
  then have "weighted_best (weighted_score (re_fo env) scheduling_weights_default) [c] = Some c"
    using assms by (simp add: usable_score_def weighted_best_def f64_lt_def)
  then show ?thesis
    using c by (simp add: place_with_trace_def Let_def core_place_def place_def effective_policy_set_def
        scheduler_core_config_default_def WeightedSumPolicy_def weighted_select_policy)
qed

definition encodes :: "'a codec \<Rightarrow> bool" where
  "encodes c \<longleftrightarrow> (\<forall>x. \<exists>b. enc c x = Inr b)"

lemma rt_append_ok:
  assumes "journal_wf (rt_journal s)" "healthy (Suc n) (rt_exec s)" "\<exists>b. payload = Inr b"
  shows "\<exists>e. rt_append env now r ty obj ph payload what s = (Inr (), s\<lparr>rt_exec := e\<rparr>) \<and> healthy n e \<and>
    journal_wf (ex_journal e) \<and> ex_calls e = ex_calls (rt_exec s)"
proof -
  let ?k = "Some (op_key (op_operation_id r) what)"
  obtain b where b: "payload = Inr b" using assms(3) by blast
  from executor_append_ok [OF assms(1,2) b, of "re_exec env" now r ty obj ph "op_key (op_operation_id r) what"]
    executor_append_wf [OF assms(1), of "re_exec env" now r ty obj ph payload ?k]
  show ?thesis by (auto simp: rt_append_def)
qed

lemma record_profile_ok:
  assumes "journal_wf (rt_journal s)" "healthy (Suc n) (rt_exec s)" "encodes (re_profile env)"
  shows "\<exists>j. record_profile env now p s = (None, s\<lparr>rt_exec := (rt_exec s)\<lparr>ex_journal := j\<rparr>\<rparr>) \<and>
    healthy n ((rt_exec s)\<lparr>ex_journal := j\<rparr>)"
proof -
  let ?p = "p\<lparr>ep_recorded_at_us := now\<rparr>"
  obtain b where b: "enc (re_profile env) ?p = Inr b" using assms(3) unfolding encodes_def by blast
  obtain res j where J: "journal_append (xe_journal (re_exec env)) now (profile_entry ?p b) (rt_journal s) = (res, j)"
    by fastforce
  have "je_generation (profile_entry ?p b) \<le> i64_max" by (simp add: profile_entry_def i64_max_def)
  with journal_append_succeeds [OF J] assms(1,2) obtain m where "res = Inr m" by (auto simp: healthy_def)
  moreover have "healthy n ((rt_exec s)\<lparr>ex_journal := j\<rparr>)"
    using journal_append_frame [of "rt_journal s" "xe_journal (re_exec env)" now "profile_entry ?p b"] assms(2) J
    by (simp add: healthy_def)
  ultimately show ?thesis using b J by (auto simp: record_profile_def profile_record_def Let_def)
qed

text \<open>What the run of a new operation needs: a request that passes the screening, room for eight journal
  entries on storage without faults, codecs that encode, a provider that answers, no live lease for the
  workload, and a clock that reads the lease before it ends.\<close>

definition answerable :: "runtime_env \<Rightarrow> (string \<Rightarrow> string) \<Rightarrow> OperationRequest \<Rightarrow> OperationReceipt \<Rightarrow> runtime_state \<Rightarrow> bool" where
  "answerable env W r receipt s \<longleftrightarrow>
     (let inp = re_inputs env (rt_tick s); lm = rt_leases s
      in rt_good env W s \<and> admissible W r \<and> op_validate_sensitive_references r = Inr () \<and>
         rt_kernel s \<noteq> KS_ShuttingDown \<and> healthy 8 (rt_exec s) \<and>
         commit_of (re_exec env) r (rt_exec s) = None \<and> receipt_of (re_exec env) r (rt_exec s) = None \<and>
         \<not> ri_cancelled inp \<and> ri_crash inp = None \<and>
         lease_wf lm \<and> map_of (lm_leases lm) (ri_uuid inp) = None \<and>
         unat (ft_value (lm_fencing lm)) < 2 ^ 64 - 1 \<and>
         \<not> has_active_lease (ri_instant inp) lm (op_workload_id r) \<and>
         ri_authorize_at inp < ri_instant inp + lm_default_duration lm \<and>
         usable_score env r \<and> encodes (re_trace env) \<and> encodes (re_lease env) \<and> encodes (re_profile env) \<and>
         encodes (re_json env) \<and> (\<exists>q. enc (xe_request (re_exec env)) r = Inr q) \<and>
         (\<forall>n. xe_provider (re_exec env) n r = Inr receipt) \<and> (\<exists>b. enc (xe_receipt (re_exec env)) receipt = Inr b))"

lemma lease_operation_ok:
  assumes wf: "journal_wf (rt_journal s)" and h: "healthy (Suc n) (rt_exec s)" and enc: "encodes (re_lease env)"
    and lm: "lease_wf (rt_leases s)" "map_of (lm_leases (rt_leases s)) (ri_uuid inp) = None"
      "unat (ft_value (lm_fencing (rt_leases s))) < 2 ^ 64 - 1"
      "\<not> has_active_lease (ri_instant inp) (rt_leases s) (op_workload_id r)"
      "ri_authorize_at inp < ri_instant inp + lm_default_duration (rt_leases s)"
  shows "\<exists>tk s'. lease_operation env inp r placement trace s = (Inr tk, s') \<and> healthy n (rt_exec s') \<and>
    ex_calls (rt_exec s') = ex_calls (rt_exec s) \<and> tk_trace tk = trace"
proof -
  let ?g = "grant_fenced (ri_instant inp) (ri_uuid inp) (op_workload_id r) ''kernel-runtime''
      (pd_resources_reserved placement) (pd_node_id placement) (pd_device_id placement) True (rt_leases s)"
  obtain fl lm' where G: "?g = (Inr fl, lm')"
    using lm(4) by (simp add: grant_fenced_cases Let_def)
  have wf': "lease_wf lm'"
    using lease_wf_grant [OF lm(1-3), of "ri_instant inp" "op_workload_id r" "''kernel-runtime''"
        "pd_resources_reserved placement" "pd_node_id placement" "pd_device_id placement" True] unfolding G by simp
  have auth: "lease_authorize (ri_authorize_at inp) lm' (ri_uuid inp) (fl_fencing_token fl)"
    using grant_fenced_InrD [OF G] wf' lm(5) by (auto simp: lease_authorize_iff lease_is_valid_def)
  obtain b where b: "enc (re_lease env) fl = Inr b" using enc unfolding encodes_def by blast
  obtain e where "rt_append env (ri_now inp) r ET_Commit ''ResourceLease'' ''ACTIVE'' (enc (re_lease env) fl)
      (''lease:'' @ ri_uuid inp @ '':grant'') (s\<lparr>rt_leases := lm'\<rparr>) = (Inr (), s\<lparr>rt_leases := lm', rt_exec := e\<rparr>)"
      "healthy n e" "ex_calls e = ex_calls (rt_exec s)"
    using rt_append_ok [of "s\<lparr>rt_leases := lm'\<rparr>" n "enc (re_lease env) fl" env "ri_now inp" r ET_Commit
        "''ResourceLease''" "''ACTIVE''" "''lease:'' @ ri_uuid inp @ '':grant''"] wf h b by auto
  then show ?thesis
    unfolding lease_operation_def G using grant_fenced_InrD(2) [OF G] auth by (simp add: Let_def)
qed

lemma rt_append_receipts:
  assumes "journal_wf (rt_journal s)" "rt_append env now r ty obj ph payload what s = (Inr (), s')"
    and "obj \<notin> {''StepCommit'', ''OperationReceipt''}"
  shows "commit_of (re_exec env) q (rt_exec s') = commit_of (re_exec env) q (rt_exec s)"
    and "receipt_of (re_exec env) q (rt_exec s') = receipt_of (re_exec env) q (rt_exec s)"
  using stage_append_other [OF assms(1)] assms(2,3) by (auto simp: rt_append_def split: prod.splits)

lemma lease_operation_receipts:
  assumes "journal_wf (rt_journal s)" "lease_operation env inp r placement trace s = (Inr tk, s')"
  shows "commit_of (re_exec env) q (rt_exec s') = commit_of (re_exec env) q (rt_exec s) \<and>
    receipt_of (re_exec env) q (rt_exec s') = receipt_of (re_exec env) q (rt_exec s)"
proof -
  obtain fl lm where G: "grant_fenced (ri_instant inp) (ri_uuid inp) (op_workload_id r) ''kernel-runtime''
      (pd_resources_reserved placement) (pd_node_id placement) (pd_device_id placement) True (rt_leases s) = (Inr fl, lm)"
    using assms(2) by (auto simp: lease_operation_def split: prod.splits sum.splits)
  obtain res s2 where A: "rt_append env (ri_now inp) r ET_Commit ''ResourceLease'' ''ACTIVE'' (enc (re_lease env) fl)
      (''lease:'' @ rl_lease_id (fl_lease fl) @ '':grant'') (s\<lparr>rt_leases := lm\<rparr>) = (res, s2)" by fastforce
  have "res = Inr ()" "rt_exec s' = rt_exec s2"
    using assms(2) unfolding lease_operation_def G prod.case sum.case Let_def A
    by (auto split: sum.splits if_splits)
  then show ?thesis using rt_append_receipts [of "s\<lparr>rt_leases := lm\<rparr>"] A assms(1) by fastforce
qed

lemma finish_execution_ok:
  assumes good: "rt_good env W s" "admissible W r" and h: "healthy 3 (rt_exec s)"
    and inp: "ri_crash inp = None" and lease: "map_of (lm_leases (rt_leases s)) (tk_lease_id tk) \<noteq> None"
    and codecs: "encodes (re_profile env)" "encodes (re_json env)"
  shows "\<exists>x s'. finish_execution env inp r recovered tk (Inr receipt) s = (Some (Inr x), s') \<and>
    rx_receipt x = receipt \<and> rx_decision_trace x = tk_trace tk \<and> ex_calls (rt_exec s') = ex_calls (rt_exec s)"
proof -
  let ?p = "execution_profile inp r recovered tk (Inr receipt)"
  have json: "\<exists>b. enc (re_json env) v = Inr b" for v using codecs(2) by (simp add: encodes_def)
  have h1: "healthy (Suc (Suc (Suc 0))) (rt_exec s)" using h by (simp add: numeral_eq_Suc)
  obtain j where P: "record_profile env (ri_now inp) ?p s = (None, s\<lparr>rt_exec := (rt_exec s)\<lparr>ex_journal := j\<rparr>\<rparr>)"
      and hj: "healthy (Suc (Suc 0)) ((rt_exec s)\<lparr>ex_journal := j\<rparr>)"
    using record_profile_ok [OF rt_good_wf [OF good(1)] h1 codecs(1)] by blast
  let ?s2 = "s\<lparr>rt_exec := (rt_exec s)\<lparr>ex_journal := j\<rparr>, rt_active := AList.delete (op_workload_id r) (rt_active s)\<rparr>"
  have g2: "rt_good env W ?s2"
    using journal_rules.inv_local [OF rt_good_profile [OF good(1), of "ri_now inp" ?p]] P by simp
  have h2: "healthy (Suc (Suc 0)) (rt_exec ?s2)" "ex_calls (rt_exec ?s2) = ex_calls (rt_exec s)" using hj by simp_all
  obtain e3 where A3: "rt_append env (ri_now inp) r ET_Commit ''Workload'' ''COMPLETED''
      (enc (re_json env) (JObject [(''workload_id'', JString (op_workload_id r)), (''phase'', JString ''COMPLETED'')]))
      (''workload:'' @ ''COMPLETED'') ?s2 = (Inr (), ?s2\<lparr>rt_exec := e3\<rparr>)"
      and e3: "healthy (Suc 0) e3" "journal_wf (ex_journal e3)" "ex_calls e3 = ex_calls (rt_exec ?s2)"
    using rt_append_ok [OF rt_good_wf [OF g2] h2(1) json] by blast
  obtain lm where R: "lease_release (tk_lease_id tk) (rt_leases s) = (Inr (), lm)"
    using lease by (auto simp: lease_release_def)
  let ?s5 = "?s2\<lparr>rt_exec := e3, rt_leases := lm\<rparr>"
  have h5: "healthy (Suc 0) (rt_exec ?s5)" "journal_wf (rt_journal ?s5)" using e3 by simp_all
  obtain e6 where A6: "rt_append env (ri_now inp) r ET_Commit ''ResourceLease'' ''RELEASED''
      (enc (re_json env) (JObject [(''lease_id'', JString (tk_lease_id tk))]))
      (''lease:'' @ tk_lease_id tk @ '':release'') ?s5 = (Inr (), ?s5\<lparr>rt_exec := e6\<rparr>)" 
      and e6: "ex_calls e6 = ex_calls (rt_exec ?s5)"
    using rt_append_ok [OF h5(2,1) json] by blast
  show ?thesis
    unfolding finish_execution_def P prod.case Let_def record_failure_def workload_outcome.simps
    using A3 A6 R inp e3 e6 h2 by (simp add: rt_release_def)
qed

lemma begin_execution_ok:
  assumes "answerable env W r receipt s0" "inp = re_inputs env (rt_tick s0)" "s = s0\<lparr>rt_tick := n\<rparr>"
  shows "\<exists>tk s1. begin_execution env inp r s = (Inr tk, s1) \<and>
    stage_ok (re_exec env) (\<lambda>oid w. w = W oid) r 6 (rt_exec s1) \<and> rt_good env W s1 \<and>
    commit_of (re_exec env) r (rt_exec s1) = None \<and> receipt_of (re_exec env) r (rt_exec s1) = None \<and>
    ex_calls (rt_exec s1) = ex_calls (rt_exec s)"
proof -
  note a = assms(1) [unfolded answerable_def Let_def, folded assms(2)]
  have good: "rt_good env W s" and adm: "admissible W r" and nsd: "rt_kernel s \<noteq> KS_ShuttingDown"
    using a journal_rules.inv_local [of env W s0 s] assms(3) by auto
  have "healthy 8 (rt_exec s)" using a assms(3) by simp
  then have h: "healthy (Suc (Suc 6)) (rt_exec s)" by (simp add: numeral_eq_Suc)
  have c: "commit_of (re_exec env) r (rt_exec s) = None" "receipt_of (re_exec env) r (rt_exec s) = None"
    using a assms(3) by simp_all
  obtain d trace where P: "place_with_trace (re_fo env) (re_ft env) scheduler_core_config_default (workload_for r)
      [reference_node env r] = (Some d, trace)" using reference_placement [of env r] a by blast
  have enc: "\<exists>b. enc (re_trace env) trace = Inr b" using a by (simp add: encodes_def)
  obtain e where A: "rt_append env (ri_now inp) r ET_Observation ''SchedulerDecision'' ''SELECTED''
      (enc (re_trace env) trace) ''schedule'' s = (Inr (), s\<lparr>rt_exec := e\<rparr>)"
      and e: "healthy (Suc 6) e" "journal_wf (ex_journal e)" "ex_calls e = ex_calls (rt_exec s)"
    using rt_append_ok [OF rt_good_wf [OF good] h enc] by blast
  have e': "commit_of (re_exec env) r e = None" "receipt_of (re_exec env) r e = None"
    using rt_append_receipts [OF rt_good_wf [OF good] A, of r] c by simp_all
  let ?s1 = "s\<lparr>rt_exec := e\<rparr>"
  obtain tk s2 where L: "lease_operation env inp r d trace ?s1 = (Inr tk, s2)"
      and s2: "healthy 6 (rt_exec s2)" "ex_calls (rt_exec s2) = ex_calls e"
    using lease_operation_ok [of ?s1 6 env inp r d trace] e a assms(3) by auto
  have val: "op_validate_sensitive_references r = Inr ()" using a by simp
  have read: "committed_receipt (re_exec env) r (rt_journal s) = Inr None"
    using committed_receipt_commit_in [OF good adm] c by (simp add: commit_in_def)
  have B: "begin_execution env inp r s = (Inr tk, s2)"
    unfolding begin_execution_def val sum.case read P prod.case operation_admitted AdmissionDecision.case option.case A L
    using nsd by simp
  have g2: "rt_good env W s2" using journal_rules.inv_begin [OF good, of inp r] B by simp
  have "commit_of (re_exec env) r (rt_exec s2) = None \<and> receipt_of (re_exec env) r (rt_exec s2) = None"
    using lease_operation_receipts [OF _ L] e(2) e' by simp
  then show ?thesis using B g2 s2 e adm by (auto simp: stage_ok_def rt_good_def admissible_def)
qed

lemma execution_succeeds:
  assumes "answerable env W r receipt s"
  shows "\<exists>x s'. execute_internal env r recovered s = (Some (Inr x), s') \<and> rx_receipt x = receipt \<and>
    ex_calls (rt_exec s') = ex_calls (rt_exec s) @ [r]"
proof -
  let ?inp = "re_inputs env (rt_tick s)" and ?s = "s\<lparr>rt_tick := rt_tick s + 1\<rparr>"
  note a = assms [unfolded answerable_def Let_def]
  obtain tk s1 where B: "begin_execution env ?inp r ?s = (Inr tk, s1)"
      and s1: "stage_ok (re_exec env) (\<lambda>oid w. w = W oid) r 6 (rt_exec s1)" "rt_good env W s1"
        "commit_of (re_exec env) r (rt_exec s1) = None" "receipt_of (re_exec env) r (rt_exec s1) = None"
        "ex_calls (rt_exec s1) = ex_calls (rt_exec s)"
    using begin_execution_ok [OF assms refl refl, of "rt_tick s + 1"] by auto
  have st: "stage_ok (re_exec env) (\<lambda>oid w. w = W oid) r (Suc (Suc (Suc 3))) (rt_exec s1)"
    using s1(1) by (simp add: numeral_eq_Suc)
  obtain e where X: "execute_cancellable (re_exec env) (ri_now ?inp) False None r (rt_exec s1) = (Some (Inr receipt), e)"
      and e: "stage_ok (re_exec env) (\<lambda>oid w. w = W oid) r 3 e" "ex_calls e = ex_calls (rt_exec s) @ [r]"
    using new_operation_succeeds [OF st s1(3,4)] a s1(5) by metis
  have g: "rt_good env W (s1\<lparr>rt_exec := e\<rparr>)"
    using rt_good_execute [OF s1(2), of r "ri_now ?inp" False None] X a by simp
  have "map_of (lm_leases (rt_leases s1)) (tk_lease_id tk) \<noteq> None"
    using begin_execution_leases [OF B] a by simp
  then obtain x s' where "finish_execution env ?inp r recovered tk (Inr receipt) (s1\<lparr>rt_exec := e\<rparr>) = (Some (Inr x), s')"
      "rx_receipt x = receipt" "ex_calls (rt_exec s') = ex_calls e"
    using finish_execution_ok [OF g, of r ?inp tk recovered receipt] a e(1) by (auto simp: stage_ok_def)
  then show ?thesis using B X a e(2) by (auto simp: execute_internal_def Let_def)
qed

lemma execute_internal_screened:
  "execute_internal env r recovered s = (Some (Inr x), s') \<Longrightarrow> op_validate_sensitive_references r = Inr ()"
  by (cases "op_validate_sensitive_references r") (simp_all add: execute_internal_def begin_execution_def Let_def)

section \<open>Plans and recovery\<close>

lemma candidate_same_operation:
  "validate_continuity_candidate plan sid oid r caps = Inr () \<Longrightarrow> op_operation_id r = oid"
  by (auto simp: validate_continuity_candidate_def split: if_splits)

lemma commit_in_cong: "op_operation_id r = op_operation_id q \<Longrightarrow> commit_in env r s = commit_in env q s"
  by (simp add: commit_in_def)

lemma execute_candidate_completes:
  assumes "rt_good env W s" "admissible W (fc_request c)"
    and "execute_candidate env step c caps rep sp s = (Some (CR_Completed x sp'), s')"
  shows "commit_in env (fc_request c) s' = Some (rx_receipt x)"
proof -
  obtain s1 where g1: "rt_good env W s1" and run: "execute_internal env (fc_request c) False s1 = (Some (Inr x), s')"
  proof (cases "sp_last_failure sp")
    case None
    then show ?thesis
      using assms(3) that [OF assms(1)]
      by (auto simp: execute_candidate_def runtime_execute_def split: option.splits sum.splits prod.splits if_splits)
  next
    case (Some pf)
    obtain p f where pf: "pf = (p, f)" by fastforce
    obtain res t where R: "record_rebind env (fc_request c) p f (rebind_report (Some (p, f)) rep) s = (res, t)" by fastforce
    have "rt_good env W t"
      using journal_rules.inv_rebind [OF assms(1,2), of p f "rebind_report (Some (p, f)) rep"] R by simp
    then show ?thesis
      using assms(3) that [of t] Some pf R
      by (auto simp: execute_candidate_def runtime_execute_def Let_def split: option.splits sum.splits prod.splits if_splits)
  qed
  from execute_internal_commits [OF g1 assms(2) run] show ?thesis .
qed

lemma try_candidate_completes:
  assumes "rt_good env W s" "admissible W (fc_request c)"
    and "try_candidate env plan step oid c sp s = (Some (CR_Completed x sp'), s')"
  shows "op_operation_id (fc_request c) = oid \<and> commit_in env (fc_request c) s' = Some (rx_receipt x)"
proof -
  obtain res1 s1 where O: "record_candidate_outcome env (fc_request c) (mm_provider (fc_capabilities c)) ''EVALUATING''
      ''candidate entered compatibility pipeline'' s = (res1, s1)" by fastforce
  have g1: "rt_good env W s1"
    using journal_rules.inv_candidate_outcome [OF assms(1), of "''EVALUATING''" "fc_request c"
        "mm_provider (fc_capabilities c)" "''candidate entered compatibility pipeline''"] O
    by (simp add: executor_tails_def)
  obtain res2 s2 where C: "effective_capabilities env c s1 = (res2, s2)" by fastforce
  have g2: "rt_good env W s2"
    using journal_rules.inv_local [OF g1] effective_capabilities_cases [OF C] by blast
  have "op_operation_id (fc_request c) = oid \<and>
      (\<exists>caps rep. execute_candidate env step c caps rep sp s2 = (Some (CR_Completed x sp'), s'))"
    using assms(3) unfolding try_candidate_def O prod.case C
    by (auto simp: Let_def dest: candidate_same_operation split: sum.splits if_splits prod.splits)
  with execute_candidate_completes [OF g2 assms(2)] show ?thesis by blast
qed

lemma try_candidates_completes:
  assumes "rt_good env W s" "list_all (\<lambda>c. admissible W (fc_request c)) cs"
    and "try_candidates env plan step oid cs sp s = (Some (CR_Completed x sp'), s')"
    and "op_operation_id r = oid"
  shows "commit_in env r s' = Some (rx_receipt x)"
  using assms
proof (induction cs arbitrary: sp s)
  case (Cons c cs)
  obtain res s1 where T: "try_candidate env plan step oid c sp s = (res, s1)" by fastforce
  have g1: "rt_good env W s1"
    using journal_rules.inv_try_candidate [OF Cons.prems(1), of step c plan oid sp] Cons.prems(2) T by simp
  show ?case
    using Cons.prems T Cons.IH [OF g1] try_candidate_completes [OF Cons.prems(1), of c plan step oid sp x sp' s']
      commit_in_cong [of r "fc_request c" env s']
    by (auto split: option.splits candidate_result.splits)
qed simp

lemma run_step_completes:
  assumes "rt_good env W s" "list_all (\<lambda>c. admissible W (fc_request c)) (cs_candidates step)"
    and "run_step env plan step fs s = (Some (Inr (x, fs')), s')"
  shows "cs_candidates step \<noteq> [] \<and> commit_in env (fc_request (hd (cs_candidates step))) s' = Some (rx_receipt x)"
proof (cases "cs_candidates step")
  case (Cons c0 cs)
  have adm: "admissible W (fc_request c0)" using assms(2) Cons by simp
  show ?thesis
    using assms(3) Cons committed_receipt_commit_in [OF assms(1) adm]
      try_candidates_completes [OF assms(1,2), of plan step "op_operation_id (fc_request c0)" _ x _ s' "fc_request c0"]
    by (auto simp: run_step_def split: option.splits candidate_result.splits prod.splits)
qed (use assms(3) in \<open>simp add: run_step_def\<close>)

lemma run_step_good:
  assumes "rt_good env W s" "list_all (\<lambda>c. admissible W (fc_request c)) (cs_candidates step)"
  shows "rt_good env W (snd (run_step env plan step fs s))"
  using journal_rules.inv_run_step [OF assms(1), of step plan fs] assms(2) by (auto simp: list_all_iff)

lemma run_steps_good:
  assumes "rt_good env W s" "list_all (\<lambda>st. list_all (\<lambda>c. admissible W (fc_request c)) (cs_candidates st)) steps"
  shows "rt_good env W (snd (run_steps env plan steps xs fs s))"
  using journal_rules.inv_run_steps [OF assms(1), of steps plan xs fs] assms(2) by (auto simp: list_all_iff)

lemma run_steps_completes:
  assumes "rt_good env W s" "list_all (\<lambda>st. list_all (\<lambda>c. admissible W (fc_request c)) (cs_candidates st)) steps"
    and "run_steps env plan steps xs fs s = (Some (Inr cx), s')"
  shows "\<exists>ys. cx_completed_steps cx = xs @ ys \<and>
    list_all2 (\<lambda>st y. cs_candidates st \<noteq> [] \<and> commit_in env (fc_request (hd (cs_candidates st))) s' = Some (rx_receipt y)) steps ys"
  using assms
proof (induction steps arbitrary: xs fs s)
  case (Cons st steps)
  obtain y fs1 s1 where R: "run_step env plan st fs s = (Some (Inr (y, fs1)), s1)"
      and T: "run_steps env plan steps (xs @ [y]) fs1 s1 = (Some (Inr cx), s')"
    using Cons.prems(3) by (auto split: option.splits sum.splits prod.splits)
  have g1: "rt_good env W s1" using run_step_good [OF Cons.prems(1), of st plan fs] Cons.prems(2) R by simp
  obtain ys where ys: "cx_completed_steps cx = (xs @ [y]) @ ys"
      "list_all2 (\<lambda>st y. cs_candidates st \<noteq> [] \<and> commit_in env (fc_request (hd (cs_candidates st))) s' = Some (rx_receipt y)) steps ys"
    using Cons.IH [OF g1 _ T] Cons.prems(2) by auto
  have c: "cs_candidates st \<noteq> []" "commit_in env (fc_request (hd (cs_candidates st))) s1 = Some (rx_receipt y)"
    using run_step_completes [OF Cons.prems(1) _ R] Cons.prems(2) by auto
  have "rt_good env W s'" using run_steps_good [OF g1, of steps plan "xs @ [y]" fs1] Cons.prems(2) T by simp
  moreover have "log_from (journal_log (rt_journal s1)) s'"
    using growth.inv_run_steps [OF log_from_self [OF g1], of steps env plan "xs @ [y]" fs1] T by simp
  ultimately have "commit_in env (fc_request (hd (cs_candidates st))) s' = Some (rx_receipt y)"
    using commit_in_stable c(2) by blast
  with ys c(1) show ?case by (intro exI [of _ "y # ys"]) simp
qed auto

lemma recover_loop_completes:
  assumes "rt_good env W s" "list_all (admissible W) rs" "recover_loop env rs xs s = (Some (Inr out), s')"
  shows "\<exists>ys. out = xs @ ys \<and> rt_good env W s' \<and> log_from (journal_log (rt_journal s)) s' \<and>
    list_all2 (\<lambda>r y. op_delivery r \<in> {DS_Idempotent, DS_Reconcilable} \<and> commit_in env r s' = Some (rx_receipt y)) rs ys"
  using assms
proof (induction rs arbitrary: xs s)
  case Nil
  then show ?case using log_from_self by auto
next
  case (Cons r rs)
  obtain y s1 where R: "execute_internal env r True s = (Some (Inr y), s1)" and d: "op_delivery r \<in> {DS_Idempotent, DS_Reconcilable}"
      and T: "recover_loop env rs (xs @ [y]) s1 = (Some (Inr out), s')"
    using Cons.prems(3) by (auto split: option.splits sum.splits prod.splits if_splits)
  have adm: "admissible W r" using Cons.prems(2) by simp
  have g1: "rt_good env W s1" using journal_rules.inv_execute_internal [OF Cons.prems(1) adm, of True] R by simp
  obtain ys where ys: "out = (xs @ [y]) @ ys" "rt_good env W s'" "log_from (journal_log (rt_journal s1)) s'"
      "list_all2 (\<lambda>r y. op_delivery r \<in> {DS_Idempotent, DS_Reconcilable} \<and> commit_in env r s' = Some (rx_receipt y)) rs ys"
    using Cons.IH [OF g1 _ T] Cons.prems(2) by auto
  have "commit_in env r s' = Some (rx_receipt y)"
    using commit_in_stable [OF ys(2,3)] execute_internal_commits [OF Cons.prems(1) adm R] by blast
  moreover have "log_from (journal_log (rt_journal s)) s1"
    using growth.inv_execute_internal [OF log_from_self [OF Cons.prems(1)], of env r True] R by simp
  ultimately show ?case
    using ys d by (intro exI [of _ "y # ys"]) (auto simp: log_from_def)
qed

section \<open>An example environment\<close>

definition demo_codec :: "'a codec" where
  "demo_codec = \<lparr>enc = (\<lambda>_. Inr ''bytes''), dec = (\<lambda>_. Inl ''syntax'')\<rparr>"

definition demo_lease_codec :: "FencedLease codec" where
  "demo_lease_codec =
     \<lparr>enc = (\<lambda>fl. Inr (rl_lease_id (fl_lease fl))),
      dec = (\<lambda>b. Inr \<lparr>fl_lease = \<lparr>rl_lease_id = b, rl_workload_id = [], rl_principal_id = [], rl_reserved = rv_zero,
        rl_node_id = [], rl_device_id = [], rl_granted_at = 0, rl_expires_at = 0, rl_generation = 1, rl_renewable = True\<rparr>,
        fl_fencing_token = [], fl_resource_key = []\<rparr>)\<rparr>"

definition demo_rt :: runtime_env where
  "demo_rt =
     \<lparr>re_exec = demo_xe\<lparr>xe_request := \<lparr>enc = (\<lambda>r. if r = demo_request then Inr ''q'' else Inl ''unsupported''),
        dec = (\<lambda>b. if b = ''q'' then Inr demo_request else Inl ''syntax'')\<rparr>\<rparr>,
      re_trace = demo_codec, re_lease = demo_lease_codec, re_profile = demo_codec, re_json = demo_codec,
      re_compat_json = (\<lambda>_. JNull),
      re_fo = \<lparr>fo_add = (\<lambda>_ _. lit_1), fo_sub = (\<lambda>_ _. lit_1), fo_mul = (\<lambda>_ _. lit_1), fo_div = (\<lambda>_ _. lit_1),
        fo_min = (\<lambda>_ _. lit_1), fo_max = (\<lambda>_ _. lit_1), fo_ln = (\<lambda>_. lit_1), fo_sqrt = (\<lambda>_. lit_1),
        fo_of_int = (\<lambda>_. lit_1)\<rparr>,
      re_ft = \<lparr>ft_debug = (\<lambda>_. ''Some(1.0)''), ft_fixed2 = (\<lambda>_. ''1.00'')\<rparr>, re_arch = ''x86_64'', re_os = ''linux'',
      re_inputs = (\<lambda>n. \<lparr>ri_now = 5, ri_instant = 0, ri_authorize_at = 1, ri_uuid = show_nat n, ri_cancelled = False,
        ri_crash = None, ri_queue_ms = 0, ri_latency_ms = 0\<rparr>),
      re_probe = (\<lambda>_ _. Inl KE_ShuttingDown)\<rparr>"

abbreviation demo_world :: "string \<Rightarrow> string" where
  "demo_world \<equiv> (\<lambda>_. op_workload_id demo_request)"

lemma demo_request_screened: "op_validate_sensitive_references demo_request = Inr ()"
  by (simp add: op_validate_sensitive_references_def validate_references_def demo_request_def
      validate_credential_reference_def is_ascii_alphanumeric_def is_ascii_alphabetic_def
      validate_endpoint_reference_def validate_provider_entrypoint_def first_piece_def
      split_once_str_step starts_with_def)

lemma demo_rt_codecs:
  "codec_roundtrip (xe_receipt (re_exec demo_rt))" "codec_roundtrip (xe_request (re_exec demo_rt))"
  using demo_xe_facts(1) by (auto simp: demo_rt_def codec_roundtrip_def split: if_splits)

lemma demo_admissible: "admissible demo_world demo_request"
proof -
  have "key_tail (''p'' @ CHR '':'' # ''p'') = ''p''"
    using key_tail_colon [of "''p''" "''p''"] by simp
  then have "key_tail (CHR '':'' # ''p'') = ''p''" using key_tail_last_piece [of "''p''" "''p''"] by simp
  then show ?thesis by (simp add: admissible_def plain_request_def demo_request_def executor_tails_def)
qed

lemma demo_answerable: "answerable demo_rt demo_world demo_request demo_op_receipt (runtime_fresh ''n'')"
proof -
  let ?s = "runtime_fresh ''n''"
  have ex: "rt_exec ?s = exec_start" "rt_tick ?s = 0" "rt_kernel ?s = KS_Ready"
      "rt_leases ?s = lease_manager_new ''n'' 30000000"
    by (simp_all add: runtime_fresh_def kernel_runtime_new_def exec_start_def)
  have good: "rt_good demo_rt demo_world ?s" by (rule rt_good_fresh [OF demo_rt_codecs])
  have "usable_score demo_rt demo_request"
    by (simp add: usable_score_def list_all_iff demo_rt_def weighted_score_def usable_def f64_lt_def f64_is_nan_def
        f64_is_zero_def f64_total_key_def Let_def)
  moreover have "healthy 8 exec_start"
    by (simp add: healthy_def exec_start_def journal_open_in_memory_def i64_max_def)
  moreover have "log_receipt (re_exec demo_rt) ty obj oid exec_start = None" for ty obj oid
    by (simp add: log_receipt_def exec_start_def journal_log_def journal_open_in_memory_def map_filter_simps)
  moreover have "lease_wf (lease_manager_new ''n'' 30000000)" by (rule lease_wf_new) simp
  moreover have "encodes (re_trace demo_rt)" "encodes (re_lease demo_rt)" "encodes (re_profile demo_rt)"
      "encodes (re_json demo_rt)"
    by (simp_all add: encodes_def demo_rt_def demo_codec_def demo_lease_codec_def)
  ultimately show ?thesis
    using good demo_admissible demo_request_screened demo_xe_facts(3,4)
    unfolding answerable_def Let_def ex
    by (simp add: lease_manager_new_def fencing_new_def has_active_lease_def)
      (simp add: demo_rt_def)
qed

definition demo_plan :: ContinuityPlan where
  "demo_plan =
     \<lparr>cp_workload_id = ''w'', cp_process_identity = ''pid'',
      cp_steps =
        [\<lparr>cs_step_id = ''s'',
          cs_requirements = \<lparr>mcr_chat = True, mcr_streaming = False, mcr_tools = False, mcr_structured_output = False,
            mcr_vision = False, mcr_embedding = False, mcr_reasoning = False, mcr_min_context_length = 0, mcr_local_only = False\<rparr>,
          cs_allow_degraded = False,
          cs_candidates =
            [\<lparr>fc_request = demo_request,
              fc_capabilities = \<lparr>mm_schema_version = 1, mm_provider = ''p'', mm_backend = ''b'', mm_model = ''m'',
                mm_runtime_class = RC_Reference, mm_chat = Supported, mm_streaming = Unsupported, mm_tools = Unsupported,
                mm_structured_output = Unsupported, mm_vision = Unsupported, mm_embedding = Unsupported,
                mm_reasoning = Unsupported, mm_local_execution = Supported, mm_remote_execution = Unsupported,
                mm_context_length = None, mm_privacy_local = True, mm_privacy = LocalOnly,
                mm_estimated_latency_ms = None, mm_estimated_cost_microcents = None, mm_probed_at_us = 0\<rparr>\<rparr>]\<rparr>]\<rparr>"

text \<open>An entry of another kind beside an operation leaves it answerable.\<close>

lemma answerable_append:
  assumes "answerable env W r receipt s" "healthy 9 (rt_exec s)" "\<exists>b. payload = Inr b"
    and "foreign_write env (admissible W) (\<lambda>k. key_tail k \<notin> executor_tails) r ty obj payload (op_key (op_operation_id r) what)"
    and "obj \<notin> {''StepCommit'', ''OperationReceipt''}"
  shows "\<exists>e. rt_append env now r ty obj ph payload what s = (Inr (), s\<lparr>rt_exec := e\<rparr>) \<and>
    answerable env W r receipt (s\<lparr>rt_exec := e\<rparr>)"
proof -
  have good: "rt_good env W s" using assms(1) by (simp add: answerable_def Let_def)
  have h: "healthy (Suc 8) (rt_exec s)" using assms(2) by (simp add: numeral_eq_Suc)
  obtain e where e: "rt_append env now r ty obj ph payload what s = (Inr (), s\<lparr>rt_exec := e\<rparr>)" "healthy 8 e"
    using rt_append_ok [OF rt_good_wf [OF good] h assms(3)] by blast
  have "rt_good env W (s\<lparr>rt_exec := e\<rparr>)"
    using rt_good_foreign_write [OF good assms(4), of now ph] e(1) unfolding rt_append_exec by auto
  moreover have "commit_of (re_exec env) r e = commit_of (re_exec env) r (rt_exec s)"
      "receipt_of (re_exec env) r e = receipt_of (re_exec env) r (rt_exec s)"
    using rt_append_receipts [OF rt_good_wf [OF good] e(1) assms(5), of r] by simp_all
  ultimately show ?thesis using assms(1) e unfolding answerable_def Let_def by (intro exI [of _ e]) simp
qed

lemma demo_plan_runs: "\<exists>cx s'. execute_continuously demo_rt demo_plan (runtime_fresh ''n'') = (Some (Inr cx), s')"
proof -
  let ?s = "runtime_fresh ''n''"
  let ?pl = "enc (re_json demo_rt) (JObject [(''provider'', JString ''p''), (''reason'', JString ''candidate entered compatibility pipeline'')])"
  let ?what = "''candidate:'' @ ''p'' @ '':'' @ ''EVALUATING''"
  have ex: "rt_exec ?s = exec_start" by (simp add: runtime_fresh_def kernel_runtime_new_def exec_start_def)
  have "healthy 9 exec_start" by (simp add: healthy_def exec_start_def journal_open_in_memory_def i64_max_def)
  moreover have "\<exists>b. ?pl = Inr b" by (simp add: demo_rt_def demo_codec_def)
  moreover have "foreign_write demo_rt (admissible demo_world) (\<lambda>k. key_tail k \<notin> executor_tails) demo_request
      ET_Observation ''ProviderCandidate'' ?pl (op_key (op_operation_id demo_request) ?what)"
    using key_tail_colon [of "''EVALUATING''" "''operation:'' @ op_operation_id demo_request @ '':candidate:p''"]
    by (simp add: foreign_write_def op_key_def executor_tails_def)
  ultimately obtain e where A: "rt_append demo_rt (rt_now demo_rt ?s) demo_request ET_Observation ''ProviderCandidate''
      ''EVALUATING'' ?pl ?what ?s = (Inr (), ?s\<lparr>rt_exec := e\<rparr>)"
      and a: "answerable demo_rt demo_world demo_request demo_op_receipt (?s\<lparr>rt_exec := e\<rparr>)"
    using answerable_append [OF demo_answerable, of ?pl ET_Observation "''ProviderCandidate''" ?what] unfolding ex by auto
  obtain x s' where X: "execute_internal demo_rt demo_request False (?s\<lparr>rt_exec := e\<rparr>) = (Some (Inr x), s')"
    using execution_succeeds [OF a] by blast
  let ?c = "hd (cs_candidates (hd (cp_steps demo_plan)))"
  have O: "record_candidate_outcome demo_rt demo_request (mm_provider (fc_capabilities ?c)) ''EVALUATING''
      ''candidate entered compatibility pipeline'' ?s = (Inr (), ?s\<lparr>rt_exec := e\<rparr>)"
    using A by (simp add: record_candidate_outcome_def demo_plan_def)
  have "committed_receipt (re_exec demo_rt) demo_request (rt_journal ?s) = Inr None"
    using committed_receipt_commit_in [OF rt_good_fresh [OF demo_rt_codecs] demo_admissible, of "''n''"] demo_answerable
    by (simp add: commit_in_def answerable_def Let_def)
  moreover have "op_workload_id demo_request = ''w''" "op_step_id demo_request = ''s''" "op_backend demo_request = ''b''"
      "op_model demo_request = ''m''"
    by (simp_all add: demo_request_def)
  ultimately show ?thesis
    using O X
    by (simp add: execute_continuously_def demo_plan_def run_step_def try_candidate_def validate_continuity_candidate_def
        effective_capabilities_def assess_compatibility_def capability_checks_def gate_rejects_def execute_candidate_def
        runtime_execute_def Let_def)
qed

lemma rt_good_unique_steps:
  assumes "rt_good env W s"
  shows "length (filter (is_step ET_Commit ''StepCommit'' oid) (journal_log (rt_journal s))) \<le> 1"
    and "length (filter (is_step ET_Observation ''OperationReceipt'' oid) (journal_log (rt_journal s))) \<le> 1"
proof -
  have good: "exec_good (re_exec env) (\<lambda>oid w. w = W oid) (\<lambda>_. True) (rt_exec s)" using assms by (simp add: rt_good_def)
  then have "distinct (journal_log (rt_journal s))" by (simp add: exec_good_def exec_inv_def journal_log_distinct)
  then have "length (filter (is_step ty obj oid) (journal_log (rt_journal s))) \<le> 1"
    if "owned_kind (\<lambda>_. True) ty obj" for ty obj
    using exec_step_unique [OF good that] by (intro length_filter_le_1) auto
  then show "length (filter (is_step ET_Commit ''StepCommit'' oid) (journal_log (rt_journal s))) \<le> 1"
    and "length (filter (is_step ET_Observation ''OperationReceipt'' oid) (journal_log (rt_journal s))) \<le> 1"
    by (simp_all add: owned_kind_def exec_kind_def)
qed

section \<open>Properties\<close>



text \<open>Commits are unique across the kernel: in every history of executions, plans with failover,
  recoveries, cancellations, shutdowns and restarts, with any crashes, storage faults and provider
  answers, the journal holds at most one commit and at most one receipt per operation, provided that an
  operation id belongs to one workload, that no provider revision ends like one of the executor's own
  keys, and that requests and receipts decode to what was encoded.\<close>

theorem coordinator_commits_once:
  assumes "codec_roundtrip (xe_receipt (re_exec env))" "codec_roundtrip (xe_request (re_exec env))"
    and "list_all (op_admissible W) ops"
  shows "let log = journal_log (rt_journal (runtime_run env ops (runtime_fresh uuid)))
    in length (filter (is_step ET_Commit ''StepCommit'' oid) log) \<le> 1 \<and>
       length (filter (is_step ET_Observation ''OperationReceipt'' oid) log) \<le> 1"
proof -
  have "rt_good env W (runtime_run env ops (runtime_fresh uuid))"
    by (rule rt_good_run [OF rt_good_fresh [OF assms(1,2)] assms(3)])
  then show ?thesis using rt_good_unique_steps by (simp add: Let_def)
qed

theorem coordinator_commits_once_witness:
  "let log = journal_log (rt_journal (runtime_run demo_rt
       [RO_Execute demo_request, RO_Restart ''m'', RO_Recover, RO_Execute demo_request] (runtime_fresh ''n'')))
   in length (filter (is_step ET_Commit ''StepCommit'' ''op'') log) \<le> 1"
  using coordinator_commits_once [OF demo_rt_codecs, of demo_world
      "[RO_Execute demo_request, RO_Restart ''m'', RO_Recover, RO_Execute demo_request]" "''n''" "''op''"] demo_admissible
  by (simp add: Let_def)

text \<open>A success outlives the process: after any history, when an execution returns a receipt, then
  after any further history, restarts included, executing the operation again returns the same receipt and
  neither calls a provider nor changes the journal, the leases or the active table.  The same provisos as
  for the uniqueness of commits.\<close>

theorem coordinator_success_is_durable:
  assumes "codec_roundtrip (xe_receipt (re_exec env))" "codec_roundtrip (xe_request (re_exec env))"
    and "list_all (op_admissible W) before" "admissible W r" "list_all (op_admissible W) after"
    and "runtime_execute env r (runtime_run env before (runtime_fresh uuid)) = (Some (Inr x), s1)"
    and "s2 = runtime_run env after s1" "rt_kernel s2 \<noteq> KS_ShuttingDown"
  shows "\<exists>y. runtime_execute env r s2 = (Some (Inr y), s2\<lparr>rt_tick := rt_tick s2 + 1\<rparr>) \<and> rx_receipt y = rx_receipt x"
proof -
  let ?s = "runtime_run env before (runtime_fresh uuid)"
  have g: "rt_good env W ?s" by (rule rt_good_run [OF rt_good_fresh [OF assms(1,2)] assms(3)])
  have run: "execute_internal env r False ?s = (Some (Inr x), s1)" using assms(6) by (simp add: runtime_execute_def)
  have g1: "rt_good env W s1" using journal_rules.inv_execute_internal [OF g assms(4), of False] run by simp
  have c1: "commit_in env r s1 = Some (rx_receipt x)" by (rule execute_internal_commits [OF g assms(4) run])
  have g2: "rt_good env W s2" using rt_good_run [OF g1 assms(5)] assms(7) by simp
  have "commit_in env r s2 = Some (rx_receipt x)"
    using commit_in_stable [OF g2 _ c1] log_from_run [OF log_from_self [OF g1]] assms(7) by simp
  from execute_internal_replays [OF g2 assms(4) this execute_internal_screened [OF run] assms(8)]
  show ?thesis by (auto simp: runtime_execute_def)
qed

theorem coordinator_success_is_durable_witness:
  "\<exists>x s1 y. runtime_execute demo_rt demo_request (runtime_fresh ''n'') = (Some (Inr x), s1) \<and>
     runtime_execute demo_rt demo_request (runtime_restart ''m'' s1) =
       (Some (Inr y), (runtime_restart ''m'' s1)\<lparr>rt_tick := rt_tick s1 + 1\<rparr>) \<and> rx_receipt y = rx_receipt x"
proof -
  obtain x s1 where x: "runtime_execute demo_rt demo_request (runtime_fresh ''n'') = (Some (Inr x), s1)"
    using execution_succeeds [OF demo_answerable, of False] by (auto simp: runtime_execute_def)
  have "rt_kernel (runtime_restart ''m'' s1) \<noteq> KS_ShuttingDown" "rt_tick (runtime_restart ''m'' s1) = rt_tick s1"
    by (simp_all add: runtime_restart_def kernel_runtime_new_def)
  then show ?thesis
    using coordinator_success_is_durable [OF demo_rt_codecs, of demo_world "[]" demo_request "[RO_Restart ''m'']" "''n''" x s1]
      demo_admissible x by (auto simp: runtime_run_def)
qed

text \<open>An execution returns what it took: whatever the outcome, success, refusal, provider or storage
  failure, once it answers, the lease table is the one it started from and the active table at most
  loses the operation's own workload, provided the identifier drawn for the lease was new.\<close>

theorem execution_returns_its_lease:
  assumes "execute_internal env r recovered s = (Some res, s')"
    and "map_of (lm_leases (rt_leases s)) (ri_uuid (re_inputs env (rt_tick s))) = None"
  shows "map_of (lm_leases (rt_leases s')) = map_of (lm_leases (rt_leases s)) \<and>
    map_of (rt_active s') \<in> {map_of (rt_active s), (map_of (rt_active s))(op_workload_id r := None)}"
proof -
  let ?inp = "re_inputs env (rt_tick s)" and ?s = "s\<lparr>rt_tick := rt_tick s + 1\<rparr>"
  obtain b s1 where B: "begin_execution env ?inp r ?s = (b, s1)" by fastforce
  note L = begin_execution_leases [OF B]
  show ?thesis
  proof (cases b)
    case (Inl y)
    then show ?thesis using assms B L by (simp add: execute_internal_def Let_def)
  next
    case (Inr tk)
    obtain y e where X: "execute_cancellable (re_exec env) (ri_now ?inp) (ri_cancelled ?inp) (ri_crash ?inp) r (rt_exec s1) = (y, e)"
      by fastforce
    then obtain z where "finish_execution env ?inp r recovered tk z (s1\<lparr>rt_exec := e\<rparr>) = (Some res, s')"
      using assms(1) B Inr by (auto simp: execute_internal_def Let_def split: option.splits)
    from finish_execution_leases [OF this] show ?thesis
      using L Inr assms(2) by (auto simp: fun_eq_iff)
  qed
qed

theorem execution_returns_its_lease_witness:
  "\<exists>x s'. execute_internal demo_rt demo_request False (runtime_fresh ''n'') = (Some (Inr x), s') \<and>
     map_of (lm_leases (rt_leases s')) = Map.empty"
proof -
  obtain x s' where x: "execute_internal demo_rt demo_request False (runtime_fresh ''n'') = (Some (Inr x), s')"
    using execution_succeeds [OF demo_answerable, of False] by blast
  have "lm_leases (rt_leases (runtime_fresh ''n'')) = []"
    by (simp add: runtime_fresh_def kernel_runtime_new_def lease_manager_new_def)
  with execution_returns_its_lease [OF x] x show ?thesis by simp
qed

text \<open>A plan calls a provider only for a candidate that passed the gate: every call made while a plan
  runs, with all its failovers, is for a candidate of one of its steps whose capabilities, declared by a
  reference provider or probed from any other, were not found incompatible, nor degraded where the step
  does not allow it.\<close>

theorem plan_calls_only_eligible:
  "set (ex_calls (rt_exec (snd (execute_continuously env plan s)))) \<subseteq>
     set (ex_calls (rt_exec s)) \<union>
     {fc_request c | step c. step \<in> set (cp_steps plan) \<and> c \<in> set (cs_candidates step) \<and> eligible env step c}"
proof -
  let ?E = "set (ex_calls (rt_exec s)) \<union>
     {fc_request c | step c. step \<in> set (cp_steps plan) \<and> c \<in> set (cs_candidates step) \<and> eligible env step c}"
  have "calls_within ?E (snd (execute_continuously env plan s))"
    by (rule provider_calls.inv_execute_continuously) (auto simp: calls_within_def)
  then show ?thesis by (simp add: calls_within_def)
qed





text \<open>The log of a fresh kernel after the first half of an execution: the decision and the lease.\<close>

lemma fresh_append:
  assumes "journal_wf (rt_journal s)" "rt_append env now r ty obj ph payload what s = (Inr (), s')"
    and "\<not> has_key (journal_log (rt_journal s)) (op_key (op_operation_id r) what)"
  shows "\<exists>x b. payload = Inr b \<and> journal_log (rt_journal s') = journal_log (rt_journal s) @ [x] \<and>
    same_content x (operation_entry r ty obj ph b (Some (op_key (op_operation_id r) what))) \<and> journal_wf (rt_journal s')"
proof -
  have A: "executor_append (re_exec env) now r ty obj ph payload (Some (op_key (op_operation_id r) what)) (rt_exec s) =
      (Inr (), rt_exec s')"
    using assms(2) by (auto simp: rt_append_def split: prod.splits)
  have "journal_wf (rt_journal s')"
    using executor_append_wf [OF assms(1), of "re_exec env" now r ty obj ph payload "Some (op_key (op_operation_id r) what)"] A
    by simp
  moreover from assms(1) A have "\<exists>x b. payload = Inr b \<and> journal_log (rt_journal s') = journal_log (rt_journal s) @ [x] \<and>
      same_content x (operation_entry r ty obj ph b (Some (op_key (op_operation_id r) what)))"
    by (cases rule: executor_append_cases) (use assms(3) in auto)
  ultimately show ?thesis by blast
qed

lemma fresh_begin_log:
  assumes "begin_execution env inp r s = (Inr tk, s1)" "journal_wf (rt_journal s)" "journal_log (rt_journal s) = []"
  shows "\<exists>y x b. journal_log (rt_journal s1) = [y, x] \<and> je_object_type y = ''SchedulerDecision'' \<and>
    enc (re_lease env) (tk_lease tk) = Inr b \<and> tk_lease_id tk = ri_uuid inp \<and> journal_wf (rt_journal s1) \<and>
    same_content x (operation_entry r ET_Commit ''ResourceLease'' ''ACTIVE'' b (Some (op_key (op_operation_id r)
      (''lease:'' @ tk_lease_id tk @ '':grant''))))"
proof -
  obtain d trace s2 where A: "rt_append env (ri_now inp) r ET_Observation ''SchedulerDecision'' ''SELECTED''
      (enc (re_trace env) trace) ''schedule'' s = (Inr (), s2)"
      and L: "lease_operation env inp r d trace s2 = (Inr tk, s1)"
    using assms(1)
    by (auto simp: begin_execution_def split: sum.splits if_splits option.splits AdmissionDecision.splits prod.splits)
  obtain y b where y: "journal_log (rt_journal s2) = [y]" "journal_wf (rt_journal s2)"
      "same_content y (operation_entry r ET_Observation ''SchedulerDecision'' ''SELECTED'' b (Some (op_key (op_operation_id r) ''schedule'')))"
    using fresh_append [OF assms(2) A] assms(3) by (auto simp: has_key_def)
  obtain fl lm where G: "grant_fenced (ri_instant inp) (ri_uuid inp) (op_workload_id r) ''kernel-runtime''
      (pd_resources_reserved d) (pd_node_id d) (pd_device_id d) True (rt_leases s2) = (Inr fl, lm)"
    using L by (auto simp: lease_operation_def split: prod.splits sum.splits)
  let ?what = "''lease:'' @ rl_lease_id (fl_lease fl) @ '':grant''"
  obtain res t where T: "rt_append env (ri_now inp) r ET_Commit ''ResourceLease'' ''ACTIVE'' (enc (re_lease env) fl)
      ?what (s2\<lparr>rt_leases := lm\<rparr>) = (res, t)" by fastforce
  have t: "res = Inr ()" "rt_exec s1 = rt_exec t" "tk_lease tk = fl"
    using L unfolding lease_operation_def G prod.case sum.case Let_def T
    by (auto split: sum.splits if_splits)
  have "\<not> has_key (journal_log (rt_journal (s2\<lparr>rt_leases := lm\<rparr>))) (op_key (op_operation_id r) ?what)"
    using y by (auto simp: has_key_def same_content_def operation_entry_def op_key_def)
  from fresh_append [OF _ T [unfolded t(1)] this] y(1,2) obtain x b' where
    "enc (re_lease env) fl = Inr b'" "journal_log (rt_journal t) = [y, x]" "journal_wf (rt_journal t)"
    "same_content x (operation_entry r ET_Commit ''ResourceLease'' ''ACTIVE'' b' (Some (op_key (op_operation_id r) ?what)))"
    by auto
  then show ?thesis
    using y(3) t grant_fenced_InrD(2) [OF G] by (auto simp: same_content_def operation_entry_def)
qed



end
