(* ===== verification/Program_Scheduler.thy ===== *)
theory Program_Scheduler
  imports Placement
begin

text \<open>
  The program scheduler (crates/nous-scheduler/src/program.rs): which process advances next.  Process
  candidates, the five policies, the registry, the scheduler with its history, the candidate builder,
  and \<open>SchedulerCore::schedule_processes\<close> of core.rs.  Float arithmetic is the parameter
  \<open>f64_ops\<close> and a reading of the clock is an argument, as in the placement policies.

  Four policies sort with \<open>partial_cmp(..).unwrap_or(Equal)\<close>.  The standard library leaves the result of a sort
  open when the comparison is not an order, which happens when a score is not a number; \<open>sort_desc\<close> is the
  insertion sort that it uses for short slices, and the facts about the order below ask for scores that are
  numbers, where every stable sort gives the same list.
\<close>

section \<open>Processes\<close>

datatype ProcessSchedulingStatus = PSS_Runnable | PSS_Blocked | PSS_Suspended | PSS_Running | PSS_Other

record ProcessCandidate =
  pcd_process_id :: string
  pcd_status :: ProcessSchedulingStatus
  pcd_critical_path_importance :: f64
  pcd_unlocked_work_ratio :: f64
  pcd_slo_breach_risk :: f64
  pcd_warm_state_benefit :: f64
  pcd_estimated_remaining_time_ms :: u64
  pcd_resource_cost :: f64
  pcd_prediction_uncertainty :: f64
  pcd_priority_score :: f64
  pcd_is_runnable :: bool
  pcd_blocked_reason :: "string option"
  pcd_waiting_children :: u32
  pcd_budget_remaining_ratio :: f64

record ProgramScheduleDecision =
  psd_selected :: "ProcessCandidate option"
  psd_candidates :: "ProcessCandidate list"
  psd_runnable_count :: nat
  psd_blocked_by_resource :: "string \<rightharpoonup> nat"
  psd_score_breakdown :: "string \<rightharpoonup> f64"
  psd_policy_name :: string
  psd_decided_at :: int

record ProgramSchedulingPolicy =
  ppol_name :: string
  ppol_score :: "ProcessCandidate \<Rightarrow> f64"
  ppol_select :: "int \<Rightarrow> ProcessCandidate list \<Rightarrow> ProgramScheduleDecision"

record ProcessSchedulingInfo =
  psi_process_id :: string
  psi_status :: ProcessSchedulingStatus
  psi_critical_path_importance :: f64
  psi_unlocked_work_ratio :: f64
  psi_slo_breach_risk :: f64
  psi_context_residency_ratio :: f64
  psi_estimated_remaining_time_ms :: u64
  psi_normalized_resource_cost :: f64
  psi_prediction_uncertainty :: f64
  psi_blocked_reason :: "string option"
  psi_waiting_children :: u32
  psi_budget_remaining_ratio :: f64

definition candidate_of_info :: "ProcessSchedulingInfo \<Rightarrow> ProcessCandidate" where
  "candidate_of_info i =
     \<lparr>pcd_process_id = psi_process_id i, pcd_status = psi_status i,
      pcd_critical_path_importance = psi_critical_path_importance i,
      pcd_unlocked_work_ratio = psi_unlocked_work_ratio i, pcd_slo_breach_risk = psi_slo_breach_risk i,
      pcd_warm_state_benefit = psi_context_residency_ratio i,
      pcd_estimated_remaining_time_ms = psi_estimated_remaining_time_ms i,
      pcd_resource_cost = psi_normalized_resource_cost i, pcd_prediction_uncertainty = psi_prediction_uncertainty i,
      pcd_priority_score = lit_0, pcd_is_runnable = (psi_status i = PSS_Runnable),
      pcd_blocked_reason = psi_blocked_reason i, pcd_waiting_children = psi_waiting_children i,
      pcd_budget_remaining_ratio = psi_budget_remaining_ratio i\<rparr>"

definition build_candidates :: "ProcessSchedulingInfo list \<Rightarrow> ProcessCandidate list" where
  "build_candidates infos = map candidate_of_info infos"

section \<open>Selecting\<close>

abbreviation lit_0_8 :: f64 where "lit_0_8 \<equiv> 0x3FE999999999999A"
abbreviation lit_1_2 :: f64 where "lit_1_2 \<equiv> 0x3FF3333333333333"
abbreviation lit_f64_max :: f64 where "lit_f64_max \<equiv> 0x7FEFFFFFFFFFFFFF"

text \<open>The insertion sort: the list in progress is kept in reverse, and the next element moves past every
  element whose score is smaller.\<close>

fun insert_back :: "('a \<Rightarrow> f64) \<Rightarrow> 'a \<Rightarrow> 'a list \<Rightarrow> 'a list" where
  "insert_back score x [] = [x]"
| "insert_back score x (y # ys) = (if f64_lt (score y) (score x) then y # insert_back score x ys else x # y # ys)"

definition sort_desc :: "('a \<Rightarrow> f64) \<Rightarrow> 'a list \<Rightarrow> 'a list" where
  "sort_desc score xs = rev (foldl (\<lambda>acc x. insert_back score x acc) [] xs)"

definition count_blocked :: "(string \<rightharpoonup> nat) \<Rightarrow> ProcessCandidate \<Rightarrow> (string \<rightharpoonup> nat)" where
  "count_blocked m c =
     (case pcd_blocked_reason c of
        None \<Rightarrow> m
      | Some reason \<Rightarrow> m(reason \<mapsto> (case m reason of None \<Rightarrow> 0 | Some n \<Rightarrow> n) + 1))"

definition blocked_counts :: "ProcessCandidate list \<Rightarrow> (string \<rightharpoonup> nat)" where
  "blocked_counts cs = foldl count_blocked Map.empty (filter (\<lambda>c. \<not> pcd_is_runnable c) cs)"

text \<open>What the five policies share: the runnable candidates in the order of the policy, the head of
  which is selected.\<close>

definition program_decision ::
  "string \<Rightarrow> int \<Rightarrow> (ProcessCandidate \<Rightarrow> (string \<rightharpoonup> f64)) \<Rightarrow> ProcessCandidate list \<Rightarrow> ProcessCandidate list \<Rightarrow>
     ProgramScheduleDecision" where
  "program_decision name now breakdown runnable cs =
     \<lparr>psd_selected = first_of runnable, psd_candidates = cs, psd_runnable_count = length runnable,
      psd_blocked_by_resource = blocked_counts cs,
      psd_score_breakdown = (case first_of runnable of None \<Rightarrow> Map.empty | Some c \<Rightarrow> breakdown c),
      psd_policy_name = name, psd_decided_at = now\<rparr>"

definition ranked_select ::
  "string \<Rightarrow> (ProcessCandidate \<Rightarrow> f64) \<Rightarrow> (ProcessCandidate \<Rightarrow> (string \<rightharpoonup> f64)) \<Rightarrow> int \<Rightarrow> ProcessCandidate list \<Rightarrow>
     ProgramScheduleDecision" where
  "ranked_select name score breakdown now cs =
     program_decision name now breakdown (sort_desc score (filter pcd_is_runnable cs)) cs"

section \<open>The policies\<close>

definition ProgramFifoPolicy :: ProgramSchedulingPolicy where
  "ProgramFifoPolicy =
     \<lparr>ppol_name = ''ProgramFIFO'', ppol_score = (\<lambda>_. lit_0),
      ppol_select = (\<lambda>now cs. program_decision ''ProgramFIFO'' now (\<lambda>_. Map.empty) (filter pcd_is_runnable cs) cs)\<rparr>"

definition program_priority_score :: "f64_ops \<Rightarrow> ProcessCandidate \<Rightarrow> f64" where
  "program_priority_score fo c =
     fo_add fo (fo_mul fo (pcd_slo_breach_risk c) lit_0_7)
       (fo_mul fo (fo_sub fo lit_1 (pcd_budget_remaining_ratio c)) lit_0_3)"

definition ProgramPriorityPolicy :: "f64_ops \<Rightarrow> ProgramSchedulingPolicy" where
  "ProgramPriorityPolicy fo =
     \<lparr>ppol_name = ''ProgramPriority'', ppol_score = program_priority_score fo,
      ppol_select = ranked_select ''ProgramPriority'' (program_priority_score fo) (\<lambda>_. Map.empty)\<rparr>"

definition srtf_score :: "f64_ops \<Rightarrow> ProcessCandidate \<Rightarrow> f64" where
  "srtf_score fo c =
     (if pcd_estimated_remaining_time_ms c = 0 then lit_f64_max
      else fo_div fo lit_1 (fo_max fo (fo_of_int fo (uint (pcd_estimated_remaining_time_ms c))) lit_1))"

definition ProgramSRTFPolicy :: "f64_ops \<Rightarrow> ProgramSchedulingPolicy" where
  "ProgramSRTFPolicy fo =
     \<lparr>ppol_name = ''ProgramSRTF'', ppol_score = srtf_score fo,
      ppol_select = ranked_select ''ProgramSRTF'' (srtf_score fo) (\<lambda>_. Map.empty)\<rparr>"

definition program_critical_score :: "f64_ops \<Rightarrow> ProcessCandidate \<Rightarrow> f64" where
  "program_critical_score fo c =
     fo_add fo (fo_add fo (fo_mul fo (pcd_critical_path_importance c) lit_0_5)
       (fo_mul fo (pcd_unlocked_work_ratio c) lit_0_3))
       (fo_mul fo (pcd_slo_breach_risk c) lit_0_2)"

definition critical_breakdown :: "ProcessCandidate \<Rightarrow> (string \<rightharpoonup> f64)" where
  "critical_breakdown c =
     [''critical_path'' \<mapsto> pcd_critical_path_importance c, ''unlocked_work'' \<mapsto> pcd_unlocked_work_ratio c,
      ''slo_risk'' \<mapsto> pcd_slo_breach_risk c, ''warm_state'' \<mapsto> pcd_warm_state_benefit c]"

definition ProgramCriticalPathPolicy :: "f64_ops \<Rightarrow> ProgramSchedulingPolicy" where
  "ProgramCriticalPathPolicy fo =
     \<lparr>ppol_name = ''ProgramCriticalPath'', ppol_score = program_critical_score fo,
      ppol_select = ranked_select ''ProgramCriticalPath'' (program_critical_score fo) critical_breakdown\<rparr>"

record StateAwareWeights =
  saw_critical :: f64
  saw_unlocked :: f64
  saw_slo :: f64
  saw_warm :: f64

definition state_aware_default :: StateAwareWeights where
  "state_aware_default = \<lparr>saw_critical = lit_1, saw_unlocked = lit_0_8, saw_slo = lit_1_2, saw_warm = lit_0_6\<rparr>"

definition state_aware_score :: "f64_ops \<Rightarrow> StateAwareWeights \<Rightarrow> ProcessCandidate \<Rightarrow> f64" where
  "state_aware_score fo k c =
     (let cc = fo_mul fo (pcd_critical_path_importance c) (saw_critical k);
          u = fo_mul fo (pcd_unlocked_work_ratio c) (saw_unlocked k);
          sl = fo_mul fo (pcd_slo_breach_risk c) (saw_slo k);
          w = fo_mul fo (pcd_warm_state_benefit c) (saw_warm k);
          numerator = fo_max fo (fo_mul fo (fo_mul fo (fo_mul fo cc u) sl) w) lit_0_001;
          t = fo_max fo (fo_of_int fo (uint (pcd_estimated_remaining_time_ms c))) lit_1;
          r = fo_max fo (pcd_resource_cost c) lit_0_001;
          d = fo_max fo (pcd_prediction_uncertainty c) lit_1;
          denominator = fo_max fo (fo_mul fo (fo_mul fo t r) d) lit_0_001
      in fo_div fo numerator denominator)"

definition state_aware_breakdown :: "f64_ops \<Rightarrow> StateAwareWeights \<Rightarrow> ProcessCandidate \<Rightarrow> (string \<rightharpoonup> f64)" where
  "state_aware_breakdown fo k c =
     [''priority_score'' \<mapsto> pcd_priority_score c,
      ''C_critical_path'' \<mapsto> fo_mul fo (pcd_critical_path_importance c) (saw_critical k),
      ''U_unlocked'' \<mapsto> fo_mul fo (pcd_unlocked_work_ratio c) (saw_unlocked k),
      ''S_slo_risk'' \<mapsto> fo_mul fo (pcd_slo_breach_risk c) (saw_slo k),
      ''W_warm_state'' \<mapsto> fo_mul fo (pcd_warm_state_benefit c) (saw_warm k),
      ''T_time'' \<mapsto> fo_of_int fo (uint (pcd_estimated_remaining_time_ms c)),
      ''R_cost'' \<mapsto> pcd_resource_cost c, ''D_uncertainty'' \<mapsto> pcd_prediction_uncertainty c]"

definition with_score :: "f64_ops \<Rightarrow> StateAwareWeights \<Rightarrow> ProcessCandidate \<Rightarrow> ProcessCandidate" where
  "with_score fo k c = c\<lparr>pcd_priority_score := state_aware_score fo k c\<rparr>"

definition StateAwarePolicy :: "f64_ops \<Rightarrow> StateAwareWeights \<Rightarrow> ProgramSchedulingPolicy" where
  "StateAwarePolicy fo k =
     \<lparr>ppol_name = ''StateAware (Experimental P_i)'', ppol_score = state_aware_score fo k,
      ppol_select = (\<lambda>now cs. program_decision ''StateAware (Experimental P_i)'' now (state_aware_breakdown fo k)
        (sort_desc pcd_priority_score (map (with_score fo k) (filter pcd_is_runnable cs))) cs)\<rparr>"

section \<open>The registry and the scheduler\<close>

type_synonym ProgramPolicyRegistry = "string \<rightharpoonup> ProgramSchedulingPolicy"

definition program_register :: "ProgramPolicyRegistry \<Rightarrow> ProgramSchedulingPolicy \<Rightarrow> ProgramPolicyRegistry" where
  "program_register reg p = reg(ppol_name p \<mapsto> p)"

definition program_baselines :: "f64_ops \<Rightarrow> ProgramPolicyRegistry" where
  "program_baselines fo =
     foldl program_register Map.empty
       [ProgramFifoPolicy, ProgramPriorityPolicy fo, ProgramSRTFPolicy fo, ProgramCriticalPathPolicy fo,
        StateAwarePolicy fo state_aware_default]"

definition schedule_with ::
  "ProgramPolicyRegistry \<Rightarrow> string \<Rightarrow> int \<Rightarrow> ProcessCandidate list \<Rightarrow> string + ProgramScheduleDecision" where
  "schedule_with reg policy_name now cs =
     (case reg policy_name of
        None \<Rightarrow> Inl (''Policy '' @ quoted policy_name @ '' not found'')
      | Some p \<Rightarrow> Inr (ppol_select p now cs))"

record ProgramScheduler =
  ps_policy :: ProgramSchedulingPolicy
  ps_history :: "ProgramScheduleDecision list"
  ps_decisions_made :: u64

definition program_scheduler_new :: "ProgramSchedulingPolicy \<Rightarrow> ProgramScheduler" where
  "program_scheduler_new p = \<lparr>ps_policy = p, ps_history = [], ps_decisions_made = 0\<rparr>"

definition with_state_aware :: "f64_ops \<Rightarrow> ProgramScheduler" where
  "with_state_aware fo = program_scheduler_new (StateAwarePolicy fo state_aware_default)"

definition program_schedule ::
  "int \<Rightarrow> ProcessCandidate list \<Rightarrow> ProgramScheduler \<Rightarrow> ProgramScheduleDecision \<times> ProgramScheduler" where
  "program_schedule now cs ps =
     (let decision = ppol_select (ps_policy ps) now cs
      in (decision, ps\<lparr>ps_history := ps_history ps @ [decision], ps_decisions_made := ps_decisions_made ps + 1\<rparr>))"

text \<open>\<open>SchedulerCore::schedule_processes\<close>.\<close>

fun process_policy_name :: "SchedulerPolicySet \<Rightarrow> string" where
  "process_policy_name PS_Deterministic = ''FIFO''"
| "process_policy_name PS_StateAware = ''StateAware''"
| "process_policy_name PS_Adaptive = ''StateAware''"

definition schedule_processes ::
  "f64_ops \<Rightarrow> SchedulerCoreConfig \<Rightarrow> int \<Rightarrow> ProcessCandidate list \<Rightarrow> ProgramScheduleDecision nous_result" where
  "schedule_processes fo cfg now cs =
     (let policy_name = process_policy_name (effective_policy_set cfg)
      in case schedule_with (program_baselines fo) policy_name now cs of
           Inr decision \<Rightarrow> Inr decision
         | Inl err \<Rightarrow> Inl (nous_error EC_Internal
             (''built-in scheduler policy '' @ quoted policy_name @ '' is unavailable: '' @ err)))"

section \<open>Sorting\<close>

lemma mset_insert_back [simp]: "mset (insert_back score x ys) = add_mset x (mset ys)"
  by (induction ys) simp_all

lemma mset_sort_desc [simp]: "mset (sort_desc score xs) = mset xs"
proof -
  have "mset (foldl (\<lambda>acc x. insert_back score x acc) acc xs) = mset acc + mset xs" for acc
    by (induction xs arbitrary: acc) simp_all
  then show ?thesis by (simp add: sort_desc_def)
qed

lemma set_sort_desc [simp]: "set (sort_desc score xs) = set xs"
  using mset_sort_desc by (metis set_mset_mset)

lemma length_sort_desc [simp]: "length (sort_desc score xs) = length xs"
  using mset_sort_desc by (metis size_mset)

lemma set_insert_back [simp]: "set (insert_back score x ys) = insert x (set ys)"
  using mset_insert_back [of score x ys] by (metis set_mset_add_mset_insert set_mset_mset)

text \<open>On numbers the insertion sort is the stable sort by descending value.\<close>

lemma insert_back_filter:
  "filter (\<lambda>z. f64_key (score z) = k) (insert_back score x ys) =
     (if f64_key (score x) = k then x # filter (\<lambda>z. f64_key (score z) = k) ys else filter (\<lambda>z. f64_key (score z) = k) ys)"
  if "sorted (map (\<lambda>z. f64_key (score z)) ys)" "\<forall>z \<in> set (x # ys). \<not> f64_is_nan (score z)"
  using that by (induction ys) (auto simp: f64_lt_key)

lemma insert_back_sorted:
  "sorted (map (\<lambda>z. f64_key (score z)) (insert_back score x ys))"
  if "sorted (map (\<lambda>z. f64_key (score z)) ys)" "\<forall>z \<in> set (x # ys). \<not> f64_is_nan (score z)"
  using that by (induction ys) (auto simp: f64_lt_key)

lemma fold_insert_back:
  assumes "sorted (map (\<lambda>z. f64_key (score z)) acc)" "\<forall>z \<in> set (acc @ xs). \<not> f64_is_nan (score z)"
  shows "sorted (map (\<lambda>z. f64_key (score z)) (foldl (\<lambda>acc x. insert_back score x acc) acc xs)) \<and>
    filter (\<lambda>z. f64_key (score z) = k) (foldl (\<lambda>acc x. insert_back score x acc) acc xs) =
      rev (filter (\<lambda>z. f64_key (score z) = k) xs) @ filter (\<lambda>z. f64_key (score z) = k) acc"
  using assms
proof (induction xs arbitrary: acc)
  case (Cons x xs)
  have "sorted (map (\<lambda>z. f64_key (score z)) (insert_back score x acc))"
    using insert_back_sorted [OF Cons.prems(1)] Cons.prems(2) by simp
  from Cons.IH [OF this] insert_back_filter [OF Cons.prems(1), of x k] Cons.prems(2) show ?case by simp
qed simp

lemma sort_desc_stable:
  assumes "\<forall>z \<in> set xs. \<not> f64_is_nan (score z)"
  shows "sort_desc score xs = sort_key (\<lambda>z. - f64_key (score z)) xs"
proof (rule properties_for_sort_key [symmetric])
  let ?acc = "foldl (\<lambda>acc x. insert_back score x acc) [] xs"
  have f: "sorted (map (\<lambda>z. f64_key (score z)) ?acc)"
      "filter (\<lambda>z. f64_key (score z) = k) ?acc = rev (filter (\<lambda>z. f64_key (score z) = k) xs)" for k
    using fold_insert_back [of score "[]" xs k] assms by simp_all
  show "mset (sort_desc score xs) = mset xs" by simp
  show "filter (\<lambda>y. - f64_key (score k) = - f64_key (score y)) (sort_desc score xs) =
      filter (\<lambda>y. - f64_key (score k) = - f64_key (score y)) xs" for k
    using arg_cong [OF f(2) [of "f64_key (score k)"], of rev] by (simp add: sort_desc_def rev_filter [symmetric] eq_commute)
  have "sorted (map (\<lambda>z. - f64_key (score z)) (rev ys))" if "sorted (map (\<lambda>z. f64_key (score z)) ys)" for ys
    using that by (induction ys) (auto simp: sorted_append)
  from this [OF f(1)] show "sorted (map (\<lambda>z. - f64_key (score z)) (sort_desc score xs))" by (simp add: sort_desc_def)
qed

lemma first_of_sort_desc:
  assumes "\<forall>z \<in> set xs. \<not> f64_is_nan (score z)"
  shows "first_of (sort_desc score xs) = find (\<lambda>c. list_all (\<lambda>d. \<not> f64_lt (score c) (score d)) xs) xs"
proof -
  have "list_all (\<lambda>y. - f64_key (score x) \<le> - f64_key (score y)) xs =
      list_all (\<lambda>d. \<not> f64_lt (score x) (score d)) xs" if "x \<in> set xs" for x
    using assms that by (auto simp: list_all_iff f64_lt_key not_less)
  then show ?thesis using assms
    by (auto simp: sort_desc_stable first_of_sort_key intro!: find_cong)
qed

section \<open>What a program policy promises\<close>

definition blocked_on :: "string \<Rightarrow> ProcessCandidate \<Rightarrow> bool" where
  "blocked_on reason c \<longleftrightarrow> \<not> pcd_is_runnable c \<and> pcd_blocked_reason c = Some reason"

definition positive :: "nat \<Rightarrow> nat option" where
  "positive n = (if n = 0 then None else Some n)"

lemma blocked_counts_exact: "blocked_counts cs reason = positive (length (filter (blocked_on reason) cs))"
proof -
  have "foldl count_blocked m xs reason =
      (case m reason of None \<Rightarrow> positive (length (filter (\<lambda>c. pcd_blocked_reason c = Some reason) xs))
       | Some n \<Rightarrow> Some (n + length (filter (\<lambda>c. pcd_blocked_reason c = Some reason) xs)))" for m xs
    by (induction xs arbitrary: m) (auto simp: count_blocked_def positive_def split: option.split)
  moreover have "filter (\<lambda>c. pcd_blocked_reason c = Some reason) (filter (\<lambda>c. \<not> pcd_is_runnable c) cs) = filter (blocked_on reason) cs"
    by (auto intro: filter_cong simp: blocked_on_def)
  ultimately show ?thesis by (simp add: blocked_counts_def)
qed

locale program_policy =
  fixes select :: "int \<Rightarrow> ProcessCandidate list \<Rightarrow> ProgramScheduleDecision"
  assumes considered: "psd_candidates (select now cs) = cs"
    and counts_runnable: "psd_runnable_count (select now cs) = length (filter pcd_is_runnable cs)"
    and counts_blocked: "psd_blocked_by_resource (select now cs) = blocked_counts cs"
    and selected_runnable: "psd_selected (select now cs) = Some c \<Longrightarrow>
      \<exists>d \<in> set cs. pcd_is_runnable d \<and> c\<lparr>pcd_priority_score := pcd_priority_score d\<rparr> = d"
    and selects: "filter pcd_is_runnable cs \<noteq> [] \<Longrightarrow> psd_selected (select now cs) \<noteq> None"
begin

lemma selects_exactly: "psd_selected (select now cs) = None \<longleftrightarrow> psd_runnable_count (select now cs) = 0"
  using selected_runnable [of now cs] selects [of cs now] counts_runnable [of now cs]
  by (cases "psd_selected (select now cs)") (auto simp: filter_empty_conv)

lemma accounts:
  "psd_candidates (select now cs) = cs \<and>
   psd_runnable_count (select now cs) = length (filter pcd_is_runnable cs) \<and>
   psd_blocked_by_resource (select now cs) reason = positive (length (filter (blocked_on reason) cs)) \<and>
   (psd_selected (select now cs) = None) = (filter pcd_is_runnable cs = []) \<and>
   pred_option (\<lambda>c. \<exists>d \<in> set cs. pcd_is_runnable d \<and> c\<lparr>pcd_priority_score := pcd_priority_score d\<rparr> = d)
     (psd_selected (select now cs))"
  using considered counts_runnable counts_blocked selected_runnable selects_exactly
  by (auto simp: blocked_counts_exact option.pred_set)

end

lemma first_of_iff: "first_of xs = None \<longleftrightarrow> xs = []" "first_of xs = Some x \<Longrightarrow> x \<in> set xs"
  by (auto simp: first_of_def split: list.splits)

lemma program_decision_policy:
  assumes "\<And>now cs. select now cs = program_decision name now bd (order cs) cs"
    and "\<And>cs. length (order cs) = length (filter pcd_is_runnable cs)"
    and "\<And>cs c. c \<in> set (order cs) \<Longrightarrow> \<exists>d \<in> set cs. pcd_is_runnable d \<and> c\<lparr>pcd_priority_score := pcd_priority_score d\<rparr> = d"
  shows "program_policy select"
proof
  show "psd_selected (select now cs) \<noteq> None" if "filter pcd_is_runnable cs \<noteq> []" for now cs
    using that assms(2) [of cs] by (auto simp: assms(1) program_decision_def first_of_iff)
qed (use assms in \<open>auto simp: program_decision_def dest: first_of_iff(2)\<close>)

lemma ranked_select_policy: "program_policy (ranked_select name score bd)"
  by (rule program_decision_policy [where order = "\<lambda>cs. sort_desc score (filter pcd_is_runnable cs)"])
    (auto simp: ranked_select_def)

interpretation pfifo: program_policy "ppol_select ProgramFifoPolicy"
  by (rule program_decision_policy [where order = "filter pcd_is_runnable"]) (auto simp: ProgramFifoPolicy_def)

interpretation ppriority: program_policy "ppol_select (ProgramPriorityPolicy fo)" for fo
  using ranked_select_policy by (simp add: ProgramPriorityPolicy_def)

interpretation psrtf: program_policy "ppol_select (ProgramSRTFPolicy fo)" for fo
  using ranked_select_policy by (simp add: ProgramSRTFPolicy_def)

interpretation pcritical: program_policy "ppol_select (ProgramCriticalPathPolicy fo)" for fo
  using ranked_select_policy by (simp add: ProgramCriticalPathPolicy_def)

interpretation pstate: program_policy "ppol_select (StateAwarePolicy fo k)" for fo k
  by (rule program_decision_policy
      [where order = "\<lambda>cs. sort_desc pcd_priority_score (map (with_score fo k) (filter pcd_is_runnable cs))"])
    (auto simp: StateAwarePolicy_def with_score_def)

section \<open>Properties\<close>

text \<open>Every registered program policy keeps the books: it reports the candidates as given, the number
  of runnable ones, and for each reason the number of candidates that are blocked on it; it selects a
  process exactly when one is runnable, and the selected process is one of the runnable candidates, up to
  the score that it carries.\<close>

theorem program_policies_account:
  "pred_option (\<lambda>p. let d = ppol_select p now cs in
     psd_candidates d = cs \<and> psd_runnable_count d = length (filter pcd_is_runnable cs) \<and>
     psd_blocked_by_resource d reason = positive (length (filter (blocked_on reason) cs)) \<and>
     (psd_selected d = None) = (filter pcd_is_runnable cs = []) \<and>
     pred_option (\<lambda>c. \<exists>q \<in> set cs. pcd_is_runnable q \<and> c\<lparr>pcd_priority_score := pcd_priority_score q\<rparr> = q) (psd_selected d))
   (program_baselines fo name)"
proof -
  have "p \<in> {ProgramFifoPolicy, ProgramPriorityPolicy fo, ProgramSRTFPolicy fo, ProgramCriticalPathPolicy fo,
      StateAwarePolicy fo state_aware_default}" if "program_baselines fo name = Some p" for p
    using that by (auto simp: program_baselines_def program_register_def split: if_splits)
  then show ?thesis
    using pfifo.accounts ppriority.accounts psrtf.accounts pcritical.accounts pstate.accounts
    by (cases "program_baselines fo name") (fastforce simp: Let_def)+
qed

text \<open>The ranking policies select the best: when no score of a runnable candidate fails to be a
  number, the policy selects the first runnable candidate whose score no other runnable candidate
  exceeds; the state-aware policy returns it with its score filled in.\<close>

theorem program_policies_select_best:
  assumes "p \<in> {ProgramPriorityPolicy fo, ProgramSRTFPolicy fo, ProgramCriticalPathPolicy fo, StateAwarePolicy fo k}"
    and "list_all (\<lambda>c. \<not> f64_is_nan (ppol_score p c)) (filter pcd_is_runnable cs)"
  shows "map_option pcd_process_id (psd_selected (ppol_select p now cs)) =
    map_option pcd_process_id (find (\<lambda>c. list_all (\<lambda>d. \<not> f64_lt (ppol_score p c) (ppol_score p d)) (filter pcd_is_runnable cs))
      (filter pcd_is_runnable cs))"
proof -
  let ?rs = "filter pcd_is_runnable cs"
  have ranked: "psd_selected (ranked_select name score bd now cs) =
      find (\<lambda>c. list_all (\<lambda>d. \<not> f64_lt (score c) (score d)) ?rs) ?rs"
    if "list_all (\<lambda>c. \<not> f64_is_nan (score c)) ?rs" for name score bd
    using that by (simp add: ranked_select_def program_decision_def first_of_sort_desc list_all_iff)
  have score: "pcd_priority_score (with_score fo k c) = state_aware_score fo k c" for c by (simp add: with_score_def)
  have find_map: "find P (map f xs) = map_option f (find (P \<circ> f) xs)" for P f and xs :: "ProcessCandidate list"
    by (induction xs) auto
  have "psd_selected (ppol_select (StateAwarePolicy fo k) now cs) =
      map_option (with_score fo k) (find (\<lambda>c. list_all (\<lambda>d. \<not> f64_lt (state_aware_score fo k c) (state_aware_score fo k d)) ?rs) ?rs)"
    if "list_all (\<lambda>c. \<not> f64_is_nan (state_aware_score fo k c)) ?rs"
  proof -
    have "first_of (sort_desc pcd_priority_score (map (with_score fo k) ?rs)) =
        find (\<lambda>c. list_all (\<lambda>d. \<not> f64_lt (pcd_priority_score c) (pcd_priority_score d)) (map (with_score fo k) ?rs)) (map (with_score fo k) ?rs)"
      using that by (intro first_of_sort_desc) (auto simp: score list_all_iff)
    then show ?thesis
      by (simp add: StateAwarePolicy_def program_decision_def find_map list.pred_map comp_def score)
  qed
  then show ?thesis
    using assms ranked
    by (auto simp: ProgramPriorityPolicy_def ProgramSRTFPolicy_def ProgramCriticalPathPolicy_def StateAwarePolicy_def
        option.map_comp comp_def with_score_def)
qed

definition demo_process :: "string \<Rightarrow> u64 \<Rightarrow> ProcessCandidate" where
  "demo_process pid remaining =
     \<lparr>pcd_process_id = pid, pcd_status = PSS_Runnable, pcd_critical_path_importance = lit_0_5,
      pcd_unlocked_work_ratio = lit_0_5, pcd_slo_breach_risk = lit_1, pcd_warm_state_benefit = lit_0_5,
      pcd_estimated_remaining_time_ms = remaining, pcd_resource_cost = lit_0_5, pcd_prediction_uncertainty = lit_1,
      pcd_priority_score = lit_0, pcd_is_runnable = True, pcd_blocked_reason = None, pcd_waiting_children = 0,
      pcd_budget_remaining_ratio = lit_1\<rparr>"

definition demo_fo :: f64_ops where
  "demo_fo =
     \<lparr>fo_add = (\<lambda>_ _. lit_1), fo_sub = (\<lambda>_ _. lit_1), fo_mul = (\<lambda>_ _. lit_1), fo_div = (\<lambda>_ _. lit_1),
      fo_min = (\<lambda>_ _. lit_1), fo_max = (\<lambda>_ _. lit_1), fo_ln = (\<lambda>_. lit_1), fo_sqrt = (\<lambda>_. lit_1),
      fo_of_int = (\<lambda>_. lit_1)\<rparr>"

theorem program_policies_select_best_witness:
  "map_option pcd_process_id (psd_selected (ppol_select (ProgramSRTFPolicy demo_fo) 0
     [demo_process ''long'' 10, demo_process ''finished'' 0])) = Some ''finished''"
proof -
  let ?cs = "[demo_process ''long'' 10, demo_process ''finished'' 0]"
  have score: "ppol_score (ProgramSRTFPolicy demo_fo) (demo_process pid n) = (if n = 0 then lit_f64_max else lit_1)" for pid n
    by (simp add: ProgramSRTFPolicy_def srtf_score_def demo_process_def demo_fo_def)
  have f: "filter pcd_is_runnable ?cs = ?cs" by (simp add: demo_process_def)
  show ?thesis
    using program_policies_select_best [of "ProgramSRTFPolicy demo_fo" demo_fo state_aware_default ?cs 0]
    unfolding f
    by (simp add: score f64_is_nan_def f64_lt_def f64_is_zero_def f64_total_key_def) (simp add: demo_process_def)
qed

text \<open>The scheduler core never schedules a process: the name that it looks up, for every configuration,
  is not the name of a registered policy, so that every call fails with an internal error, whatever
  the candidates.\<close>

theorem process_scheduling_always_fails:
  "\<exists>msg. schedule_processes fo cfg now cs = Inl (nous_error EC_Internal msg)"
proof -
  have "program_baselines fo (process_policy_name (effective_policy_set cfg)) = None"
    by (cases "effective_policy_set cfg")
      (simp_all add: program_baselines_def program_register_def ProgramFifoPolicy_def ProgramPriorityPolicy_def
        ProgramSRTFPolicy_def ProgramCriticalPathPolicy_def StateAwarePolicy_def)
  then show ?thesis by (auto simp: schedule_processes_def schedule_with_def Let_def)
qed

end
