(* ===== verification/Phase_Scheduler.thy ===== *)
theory Phase_Scheduler
  imports Scheduling_Policies
begin

text \<open>
  The phase scheduler (crates/nous-scheduler/src/phase.rs): whether the phases of an inference run on one
  device or on several, and the latency estimate for a choice.  Lengths, sizes and bandwidths are 64-bit
  words, floats their bits as in the placement policies.
\<close>

datatype PhasePlacement =
    PP_Colocated | PP_PrefillDecodeDisaggregated | PP_FullyDisaggregated | PP_EncoderPrefillColocated | PP_Adaptive

record PhaseSchedulerConfig =
  psc_max_prompt_len_colocated :: u64
  psc_min_output_len_disaggregated :: u64
  psc_kv_size_threshold_bytes :: u64
  psc_min_network_bw_disaggregated :: u64
  psc_adaptive_enabled :: bool

definition phase_scheduler_config_default :: PhaseSchedulerConfig where
  "phase_scheduler_config_default =
     \<lparr>psc_max_prompt_len_colocated = 4096, psc_min_output_len_disaggregated = 512,
      psc_kv_size_threshold_bytes = 1073741824, psc_min_network_bw_disaggregated = 10000000000,
      psc_adaptive_enabled = False\<rparr>"

definition phase_decide :: "PhaseSchedulerConfig \<Rightarrow> u64 \<Rightarrow> u64 \<Rightarrow> u64 \<Rightarrow> u64 \<Rightarrow> f64 \<Rightarrow> PhasePlacement" where
  "phase_decide cfg prompt_length estimated_output_length kv_cache_size_bytes available_network_bw_bps gpu_load =
     (if prompt_length \<le> psc_max_prompt_len_colocated cfg \<and>
         estimated_output_length \<le> psc_min_output_len_disaggregated cfg
      then PP_Colocated
      else if kv_cache_size_bytes \<ge> psc_kv_size_threshold_bytes cfg \<and>
              available_network_bw_bps \<ge> psc_min_network_bw_disaggregated cfg
      then PP_PrefillDecodeDisaggregated
      else if psc_adaptive_enabled cfg \<and> f64_lt 0x3FE999999999999A gpu_load
      then PP_Adaptive
      else PP_Colocated)"

record PhaseLatencyEstimate =
  ple_ttft_ms :: f64
  ple_tpot_ms :: f64
  ple_transfer_overhead_ms :: f64
  ple_total_ms :: f64

text \<open>The arms of the estimate without a transfer, and those with one: the time per prompt token, the time per output token
  and the divisor of the network latency.\<close>

definition local_estimate :: "f64_ops \<Rightarrow> f64 \<Rightarrow> f64 \<Rightarrow> u64 \<Rightarrow> u64 \<Rightarrow> PhaseLatencyEstimate" where
  "local_estimate fo per_prompt per_output prompt_length output_length =
     \<lparr>ple_ttft_ms = fo_mul fo (fo_of_int fo (uint prompt_length)) per_prompt, ple_tpot_ms = per_output,
      ple_transfer_overhead_ms = lit_0,
      ple_total_ms = fo_add fo (fo_mul fo (fo_of_int fo (uint prompt_length)) per_prompt)
        (fo_mul fo (fo_of_int fo (uint output_length)) per_output)\<rparr>"

definition remote_estimate :: "f64_ops \<Rightarrow> f64 \<Rightarrow> f64 \<Rightarrow> f64 \<Rightarrow> u64 \<Rightarrow> u64 \<Rightarrow> u64 \<Rightarrow> PhaseLatencyEstimate" where
  "remote_estimate fo per_prompt per_output divisor prompt_length output_length network_latency_us =
     \<lparr>ple_ttft_ms = fo_mul fo (fo_of_int fo (uint prompt_length)) per_prompt, ple_tpot_ms = per_output,
      ple_transfer_overhead_ms = fo_div fo (fo_of_int fo (uint network_latency_us)) divisor,
      ple_total_ms = fo_add fo (fo_add fo (fo_mul fo (fo_of_int fo (uint prompt_length)) per_prompt)
        (fo_mul fo (fo_of_int fo (uint output_length)) per_output))
        (fo_div fo (fo_of_int fo (uint network_latency_us)) divisor)\<rparr>"

fun estimate_latency :: "f64_ops \<Rightarrow> PhasePlacement \<Rightarrow> u64 \<Rightarrow> u64 \<Rightarrow> u64 \<Rightarrow> PhaseLatencyEstimate" where
  "estimate_latency fo PP_Colocated p out n = local_estimate fo 0x3F60624DD2F1A9FC 0x4034000000000000 p out"
| "estimate_latency fo PP_PrefillDecodeDisaggregated p out n =
     remote_estimate fo 0x3F589374BC6A7EFA 0x4039000000000000 lit_1000 p out n"
| "estimate_latency fo PP_FullyDisaggregated p out n =
     remote_estimate fo lit_0_001 0x403E000000000000 lit_500 p out n"
| "estimate_latency fo PP_EncoderPrefillColocated p out n =
     remote_estimate fo 0x3F5D7DBF487FCB92 0x4036000000000000 0x409F400000000000 p out n"
| "estimate_latency fo PP_Adaptive p out n = local_estimate fo 0x3F60624DD2F1A9FC 0x4034000000000000 p out"

section \<open>Properties\<close>

text \<open>The placement of phases by its rules: disaggregation is chosen exactly when the prompt or the output is long,
  the cache reaches the threshold and the network is fast enough; migration exactly when the prompt or the output
  is long, disaggregation is out, adaptive scheduling is enabled and the load is above four fifths; in all other
  cases the phases stay on one device, so that two of the five placements are never chosen, and
  a placement without disaggregation carries no transfer overhead.\<close>

theorem phase_decide_exact:
  "let long = (psc_max_prompt_len_colocated cfg < p \<or> psc_min_output_len_disaggregated cfg < out);
       fast = (psc_kv_size_threshold_bytes cfg \<le> kv \<and> psc_min_network_bw_disaggregated cfg \<le> bw);
       placement = phase_decide cfg p out kv bw load
   in (placement = PP_PrefillDecodeDisaggregated) = (long \<and> fast) \<and>
      (placement = PP_Adaptive) = (long \<and> \<not> fast \<and> psc_adaptive_enabled cfg \<and> f64_lt 0x3FE999999999999A load) \<and>
      placement \<in> {PP_Colocated, PP_PrefillDecodeDisaggregated, PP_Adaptive} \<and>
      (if placement = PP_PrefillDecodeDisaggregated then True
       else ple_transfer_overhead_ms (estimate_latency fo placement p out n) = lit_0)"
  by (auto simp: phase_decide_def Let_def not_le local_estimate_def)

end
