(* ===== verification/Topological_Order.thy ===== *)
theory Topological_Order
  imports Kernel_Prelude "HOL-Library.Multiset"
begin

text \<open>
  Kahn's algorithm as the workflow compiler uses it (crates/nous-scheduler/src/workflow.rs): the loop that
  pops a node, appends it to the order and counts down the in-degrees of its successors occurs both in
  \<open>topological_sort\<close> and in \<open>compute_critical_path\<close>.  In-degrees are an association list, so that a
  hash map's keys have an order; the counting down of a zero, which would wrap around or panic, is the
  result \<open>None\<close>.  The locale \<open>degree_graph\<close> states when the maps belong to a graph, and its lemmas say
  that the loop then always ends with an order that respects the edges, and which nodes it leaves out.
\<close>

section \<open>The loop\<close>

fun relax :: "string list \<Rightarrow> (string \<times> nat) list \<Rightarrow> string list \<Rightarrow> ((string \<times> nat) list \<times> string list) option" where
  "relax [] d q = Some (d, q)"
| "relax (n # ns) d q =
     (case map_of d n of
        None \<Rightarrow> relax ns d q
      | Some 0 \<Rightarrow> None
      | Some (Suc k) \<Rightarrow> relax ns (AList.update n k d) (if k = 0 then q @ [n] else q))"

definition degree_sum :: "(string \<times> nat) list \<Rightarrow> nat" where
  "degree_sum d = sum_list (map snd d)"

lemma degree_sum_update: "map_of d n = Some (Suc k) \<Longrightarrow> Suc (degree_sum (AList.update n k d)) = degree_sum d"
  by (induction d) (auto simp: degree_sum_def split: if_splits)

lemma relax_measure:
  "relax ns d q = Some (d', q') \<Longrightarrow> degree_sum d' + length q' \<le> degree_sum d + length q"
proof (induction ns d q rule: relax.induct)
  case (2 n ns d q)
  show ?case
  proof (cases "map_of d n")
    case (Some m)
    then obtain k where k: "m = Suc k" using 2(3) by (cases m) auto
    have "degree_sum d' + length q' \<le> degree_sum (AList.update n k d) + length (if k = 0 then q @ [n] else q)"
      using 2(2) [of m k] Some k 2(3) by simp
    with degree_sum_update [of d n k] Some k show ?thesis by (simp split: if_splits)
  qed (use 2 in simp)
qed simp

function kahn ::
  "(string \<rightharpoonup> string list) \<Rightarrow> (string \<times> nat) list \<Rightarrow> string list \<Rightarrow> string list \<Rightarrow> string list option" where
  "kahn adj d [] order = Some order"
| "kahn adj d (n # q) order =
     (case adj n of
        None \<Rightarrow> kahn adj d q (order @ [n])
      | Some ns \<Rightarrow>
          (case relax ns d q of
             None \<Rightarrow> None
           | Some (d', q') \<Rightarrow> kahn adj d' q' (order @ [n])))"
  by pat_completeness auto
termination
  by (relation "measure (\<lambda>(adj, d, q, order). degree_sum d + length q)") (auto dest: relax_measure)

text \<open>The initial queue: the nodes without incoming edges, in the order \<open>ord\<close> in which the hash map is
  traversed.\<close>

definition zero_degree :: "(string list \<Rightarrow> string list) \<Rightarrow> (string \<times> nat) list \<Rightarrow> string list" where
  "zero_degree ord d = ord (map fst (filter (\<lambda>(v, n). n = 0) d))"

definition traversal :: "('a list \<Rightarrow> 'a list) \<Rightarrow> bool" where
  "traversal ord \<longleftrightarrow> (\<forall>xs. mset (ord xs) = mset xs)"

lemma traversal_set [simp]: "traversal ord \<Longrightarrow> set (ord xs) = set xs"
  by (metis traversal_def set_mset_mset)

lemma traversal_distinct [simp]: "traversal ord \<Longrightarrow> distinct (ord xs) = distinct xs"
  by (metis traversal_def mset_eq_imp_distinct_iff)

section \<open>Counting down\<close>

lemma relax_ok:
  assumes "\<forall>v n. map_of d v = Some n \<longrightarrow> count_list ns v \<le> n" "distinct (map fst d)"
  shows "\<exists>d' q'. relax ns d q = Some (d', q @ q') \<and> map fst d' = map fst d \<and>
    (\<forall>v. map_of d' v = map_option (\<lambda>n. n - count_list ns v) (map_of d v)) \<and>
    distinct q' \<and> set q' = {v. \<exists>n > 0. map_of d v = Some n \<and> n = count_list ns v}"
  using assms
proof (induction ns arbitrary: d q)
  case Nil
  then show ?case by (auto simp: option.map_ident)
next
  case (Cons n ns)
  show ?case
  proof (cases "map_of d n")
    case None
    have c: "count_list (n # ns) v = count_list ns v" if "map_of d v = Some i" for v i using that None by auto
    then have "\<forall>v i. map_of d v = Some i \<longrightarrow> count_list ns v \<le> i" using Cons.prems(1) by metis
    from Cons.IH [OF this Cons.prems(2), of q]
    obtain d' q' where R: "relax ns d q = Some (d', q @ q')" "map fst d' = map fst d"
        "\<forall>v. map_of d' v = map_option (\<lambda>i. i - count_list ns v) (map_of d v)"
        "distinct q'" "set q' = {v. \<exists>i > 0. map_of d v = Some i \<and> i = count_list ns v}" by blast
    have "\<forall>v. map_of d' v = map_option (\<lambda>i. i - count_list (n # ns) v) (map_of d v)"
      using R(3) c by (metis (no_types, lifting) option.map_cong0 option.set_cases option.simps(8) not_None_eq)
    moreover have "set q' = {v. \<exists>i > 0. map_of d v = Some i \<and> i = count_list (n # ns) v}"
      unfolding R(5) by (intro Collect_cong) (metis c)
    moreover have "relax (n # ns) d q = Some (d', q @ q')" using R(1) None by simp
    ultimately show ?thesis using R(2,4) by blast
  next
    case (Some m)
    have "count_list (n # ns) n \<le> m" using Cons.prems(1) Some by blast
    then obtain k where k: "m = Suc k" "count_list ns n \<le> k" by (cases m) auto
    let ?d = "AList.update n k d"
    have keys: "map fst ?d = map fst d"
      using map_of_SomeD [OF Some] by (auto simp: AList.update_keys image_iff intro!: bexI [of _ "(n, m)"])
    have upd: "map_of ?d = (map_of d)(n \<mapsto> k)" by (simp add: AList.update_conv')
    have "\<forall>v i. map_of ?d v = Some i \<longrightarrow> count_list ns v \<le> i"
      using Cons.prems(1) k by (auto simp: upd) (metis)
    from Cons.IH [OF this, of "if k = 0 then q @ [n] else q"] Cons.prems(2) keys
    obtain d' q' where R: "relax ns ?d (if k = 0 then q @ [n] else q) = Some (d', (if k = 0 then q @ [n] else q) @ q')"
        "map fst d' = map fst d" "\<forall>v. map_of d' v = map_option (\<lambda>i. i - count_list ns v) (map_of ?d v)"
        "distinct q'" "set q' = {v. \<exists>i > 0. map_of ?d v = Some i \<and> i = count_list ns v}" by auto
    have dd: "map_of d' v = map_option (\<lambda>i. i - count_list (n # ns) v) (map_of d v)" for v
      using R(3) Some k by (cases "v = n") (auto simp: upd)
    let ?q = "if k = 0 then n # q' else q'"
    have "distinct ?q" using R(4,5) upd by auto
    moreover have "v \<in> set ?q \<longleftrightarrow> (\<exists>i > 0. map_of d v = Some i \<and> i = count_list (n # ns) v)" for v
      using R(5) Some k by (cases "v = n") (auto simp add: upd simp del: map_of_eq_Some_iff)
    then have "set ?q = {v. \<exists>i > 0. map_of d v = Some i \<and> i = count_list (n # ns) v}" by blast
    moreover have "relax (n # ns) d q = Some (d', q @ ?q)" using R(1) Some k by simp
    ultimately show ?thesis using R(2) dd by blast
  qed
qed

section \<open>Graphs\<close>

text \<open>Every source of an edge into a listed node stands before it.\<close>

definition in_order :: "(string \<times> string) list \<Rightarrow> string list \<Rightarrow> bool" where
  "in_order E order \<longleftrightarrow> (\<forall>xs v ys a. order = xs @ v # ys \<longrightarrow> (a, v) \<in> set E \<longrightarrow> a \<in> set xs)"

lemma in_order_Nil [simp]: "in_order E []"
  by (simp add: in_order_def)

lemma in_order_snoc: "in_order E (order @ [v]) \<longleftrightarrow> in_order E order \<and> (\<forall>a. (a, v) \<in> set E \<longrightarrow> a \<in> set order)"
proof
  assume l: "in_order E (order @ [v])"
  have "a \<in> set xs" if "order = xs @ w # ys" "(a, w) \<in> set E" for xs w ys a
    using l [unfolded in_order_def, rule_format, of xs w "ys @ [v]" a] that by simp
  moreover have "a \<in> set order" if "(a, v) \<in> set E" for a
    using l [unfolded in_order_def, rule_format, of order v "[]" a] that by simp
  ultimately show "in_order E order \<and> (\<forall>a. (a, v) \<in> set E \<longrightarrow> a \<in> set order)"
    unfolding in_order_def by blast
next
  assume r: "in_order E order \<and> (\<forall>a. (a, v) \<in> set E \<longrightarrow> a \<in> set order)"
  show "in_order E (order @ [v])"
    unfolding in_order_def
  proof (intro allI impI)
    fix xs w ys a assume e: "order @ [v] = xs @ w # ys" "(a, w) \<in> set E"
    show "a \<in> set xs"
    proof (cases ys rule: rev_cases)
      case Nil
      then show ?thesis using r e by auto
    next
      case (snoc zs z)
      then have "order = xs @ w # zs" using e(1) by simp
      then show ?thesis using r e(2) unfolding in_order_def by blast
    qed
  qed
qed

lemma in_order_acyclic:
  assumes "in_order E order" "distinct order" "snd ` set E \<subseteq> set order"
  shows "acyclic (set E)"
proof -
  have pos: "\<exists>i j. i < j \<and> j < length order \<and> order ! i = a \<and> order ! j = b" if "(a, b) \<in> set E" for a b
  proof -
    have "b \<in> set order" using assms(3) that by force
    then obtain xs ys where o: "order = xs @ b # ys" by (meson split_list)
    then have "a \<in> set xs" using assms(1) that unfolding in_order_def by blast
    then obtain i where "i < length xs" "xs ! i = a" by (meson in_set_conv_nth)
    then show ?thesis using o by (intro exI [of _ i] exI [of _ "length xs"]) (simp add: nth_append)
  qed
  define rank where "rank v = (THE i. i < length order \<and> order ! i = v)" for v
  have rank: "rank (order ! i) = i" if "i < length order" for i
    using that assms(2) by (auto simp: rank_def nth_eq_iff_index_eq intro!: the_equality)
  have "set E \<subseteq> measure rank"
  proof (rule subsetI)
    fix e assume "e \<in> set E"
    then obtain a b where e: "e = (a, b)" "(a, b) \<in> set E" by (metis surj_pair)
    from pos [OF e(2)] obtain i j where "i < j" "j < length order" "order ! i = a" "order ! j = b" by blast
    then show "e \<in> measure rank" using rank [of i] rank [of j] e(1) by simp
  qed
  then show ?thesis using wf_acyclic [OF wf_measure] acyclic_subset by blast
qed

locale degree_graph =
  fixes adj :: "string \<rightharpoonup> string list"
    and deg :: "(string \<times> nat) list"
    and E :: "(string \<times> string) list"
  assumes adj_targets: "(case adj u of None \<Rightarrow> [] | Some ns \<Rightarrow> ns) = map snd (filter (\<lambda>e. fst e = u) E)"
    and deg_counts: "map_of deg v = Some n \<Longrightarrow> n = length (filter (\<lambda>e. snd e = v) E)"
    and deg_keys: "distinct (map fst deg)"
begin

definition good :: "(string \<times> nat) list \<Rightarrow> string list \<Rightarrow> string list \<Rightarrow> bool" where
  "good d q order \<longleftrightarrow>
     map fst d = map fst deg \<and> distinct (order @ q) \<and> in_order E order \<and>
     (\<forall>v n. map_of d v = Some n \<longrightarrow> n = length (filter (\<lambda>e. snd e = v \<and> fst e \<notin> set order) E)) \<and>
     (\<forall>v. v \<in> set (order @ q) \<longleftrightarrow> map_of d v = Some 0)"

lemma goodD:
  assumes "good d q order"
  shows "map fst d = map fst deg" "distinct (order @ q)" "in_order E order"
    and "map_of d v = Some n \<Longrightarrow> n = length (filter (\<lambda>e. snd e = v \<and> fst e \<notin> set order) E)"
    and "v \<in> set (order @ q) \<longleftrightarrow> map_of d v = Some 0"
  using assms unfolding good_def by blast+

lemma good_start: "traversal ord \<Longrightarrow> good deg (zero_degree ord deg) []"
proof -
  assume t: "traversal ord"
  have "v \<in> fst ` {x \<in> set deg. case x of (v, n) \<Rightarrow> n = 0} \<longleftrightarrow> map_of deg v = Some 0" for v
    using deg_keys by force
  then show ?thesis
    using deg_keys deg_counts t by (auto simp: good_def zero_degree_def distinct_map_filter)
qed

lemma targets_count: "count_list (map snd (filter (\<lambda>e. fst e = u) E)) v = length (filter (\<lambda>e. snd e = v \<and> fst e = u) E)"
  by (induction E) auto

lemma split_count:
  "u \<notin> S \<Longrightarrow> length (filter (\<lambda>e. snd e = v \<and> fst e \<notin> S) E) =
     length (filter (\<lambda>e. snd e = v \<and> fst e = u) E) + length (filter (\<lambda>e. snd e = v \<and> fst e \<notin> insert u S) E)"
  by (induction E) auto

lemma good_step:
  assumes "good d (n # q) order"
  shows "\<exists>d' q'. relax (case adj n of None \<Rightarrow> [] | Some ns \<Rightarrow> ns) d q = Some (d', q @ q') \<and> good d' (q @ q') (order @ [n])"
proof -
  let ?ns = "map snd (filter (\<lambda>e. fst e = n) E)"
  note g = goodD [OF assms]
  have n: "n \<notin> set order" "map_of d n = Some 0" using g(2) g(5) [of n] by simp_all
  have cnt: "count_list ?ns v \<le> k" if "map_of d v = Some k" for v k
    using g(4) [OF that] split_count [OF n(1), of v] by (simp add: targets_count)
  have keys: "distinct (map fst d)" using g(1) deg_keys by simp
  obtain d' q' where R: "relax ?ns d q = Some (d', q @ q')" "map fst d' = map fst d"
      "\<forall>v. map_of d' v = map_option (\<lambda>i. i - count_list ?ns v) (map_of d v)"
      "distinct q'" "set q' = {v. \<exists>i > 0. map_of d v = Some i \<and> i = count_list ?ns v}"
    using relax_ok [of d ?ns q] cnt keys by blast
  have "length (filter (\<lambda>e. snd e = n \<and> fst e \<notin> set order) E) = 0" using g(4) [OF n(2)] by simp
  then have src: "a \<in> set order" if "(a, n) \<in> set E" for a using that by (force simp: filter_empty_conv)
  have deg': "k = length (filter (\<lambda>e. snd e = v \<and> fst e \<notin> set (order @ [n])) E)" if dv: "map_of d' v = Some k" for v k
  proof -
    obtain i where i: "map_of d v = Some i" "k = i - count_list ?ns v" using dv spec [OF R(3), of v] by (cases "map_of d v") auto
    with g(4) [OF i(1)] split_count [OF n(1), of v] show ?thesis by (simp add: targets_count)
  qed
  have zero: "v \<in> set ((order @ [n]) @ q @ q') \<longleftrightarrow> map_of d' v = Some 0" for v
  proof (cases "map_of d v")
    case None
    then show ?thesis using g(5) [of v] R(3,5) by auto
  next
    case (Some i)
    then have "i \<le> count_list ?ns v \<longleftrightarrow> i = 0 \<or> v \<in> set q'" using cnt [OF Some] R(5) by auto
    then show ?thesis using g(5) [of v] R(3) Some by auto
  qed
  have "v \<notin> set q'" if "v \<in> set (order @ n # q)" for v using that g(5) [of v] R(5) by auto
  then have dist: "distinct ((order @ [n]) @ q @ q')" using g(2) R(4) by auto
  have "good d' (q @ q') (order @ [n])"
    unfolding good_def
  proof (intro conjI allI impI)
    show "map fst d' = map fst deg" using g(1) R(2) by simp
    show "in_order E (order @ [n])" using g(3) src by (simp add: in_order_snoc)
  qed (fact dist, erule deg', rule zero)
  then show ?thesis using R(1) adj_targets by metis
qed

lemma kahn_good: "good d q order \<Longrightarrow> \<exists>d' order'. kahn adj d q order = Some order' \<and> good d' [] order'"
proof (induction "degree_sum d + length q" arbitrary: d q order rule: less_induct)
  case less
  show ?case
  proof (cases q)
    case (Cons n q1)
    obtain d' q' where R: "relax (case adj n of None \<Rightarrow> [] | Some ns \<Rightarrow> ns) d q1 = Some (d', q1 @ q')"
        and g: "good d' (q1 @ q') (order @ [n])"
      using good_step less.prems Cons by blast
    have "degree_sum d' + length (q1 @ q') < degree_sum d + length q" using relax_measure [OF R] Cons by simp
    from less.hyps [OF this g] R Cons show ?thesis by (cases "adj n") auto
  qed (use less.prems in auto)
qed

text \<open>The order that the loop produces, and what it leaves out.\<close>

lemma kahn_order:
  assumes "traversal ord"
  shows "\<exists>order. kahn adj deg (zero_degree ord deg) [] = Some order \<and> distinct order \<and> in_order E order \<and>
    set order \<subseteq> fst ` set deg \<and> (\<forall>v \<in> fst ` set deg - set order. \<exists>a. (a, v) \<in> set E \<and> a \<notin> set order)"
proof -
  obtain d' order where K: "kahn adj deg (zero_degree ord deg) [] = Some order" and g: "good d' [] order"
    using kahn_good [OF good_start [OF assms]] by blast
  note g' = goodD [OF g]
  have keys: "fst ` set d' = fst ` set deg" using g'(1) by (metis list.set_map)
  have "v \<in> fst ` set d'" if "v \<in> set order" for v
    using g'(5) [of v] that map_of_eq_None_iff [of d' v] by auto
  then have "set order \<subseteq> fst ` set deg" using keys by blast
  moreover have "\<exists>a. (a, v) \<in> set E \<and> a \<notin> set order" if v: "v \<in> fst ` set deg - set order" for v
  proof -
    obtain n where n: "map_of d' v = Some n" using v keys by (cases "map_of d' v") (auto simp: map_of_eq_None_iff)
    have "n \<noteq> 0" using g'(5) [of v] v n by auto
    with g'(4) [OF n] show ?thesis by (auto simp: filter_empty_conv)
  qed
  ultimately show ?thesis using K g'(2,3) by auto
qed

lemma kahn_complete:
  assumes "traversal ord" "kahn adj deg (zero_degree ord deg) [] = Some order" "fst ` set E \<subseteq> fst ` set deg"
    and "snd ` set E \<subseteq> fst ` set deg"
  shows "set order = fst ` set deg \<longleftrightarrow> acyclic (set E)"
proof
  have o: "distinct order" "in_order E order" "set order \<subseteq> fst ` set deg"
      "\<forall>v \<in> fst ` set deg - set order. \<exists>a. (a, v) \<in> set E \<and> a \<notin> set order"
    using kahn_order [OF assms(1)] assms(2) by auto
  show "acyclic (set E)" if "set order = fst ` set deg" using in_order_acyclic o(1,2) assms(4) that by metis
  show "set order = fst ` set deg" if "acyclic (set E)"
  proof (rule ccontr)
    assume "set order \<noteq> fst ` set deg"
    then obtain v where v: "v \<in> fst ` set deg - set order" using o(3) by blast
    have "wf (set E)" using that finite_acyclic_wf by blast
    from wfE_min [OF this v] obtain z where z: "z \<in> fst ` set deg - set order"
        "\<forall>y. (y, z) \<in> set E \<longrightarrow> y \<notin> fst ` set deg - set order" by blast
    then obtain a where "(a, z) \<in> set E" "a \<notin> set order" using o(4) by blast
    then show False using z(2) assms(3) by force
  qed
qed

end

end
