(* ===== verification/Workflow.thy ===== *)
theory Workflow
  imports Topological_Order Workload_Types
begin

text \<open>
  The agent program compiler and the critical path scheduler (crates/nous-scheduler/src/workflow.rs): the
  validation of steps, the dependency order, the phase nodes of a step, the execution graph with its edges,
  the parallel groups, the critical path, the cache reuse, the resource and duration estimates, and the
  priority order of the scheduler.

  A hash map that is traversed is an association list, and the order of its traversal a parameter of the
  definitions (\<open>hash_orders\<close>), one function per map.  Integers keep their width: durations are 32-bit
  words, sums of tokens and durations 64-bit words that wrap around.  A value \<open>None\<close> is a panic (an
  arithmetic underflow, or the \<open>unwrap\<close> of a step that is not found).  The loop that walks the predecessors back
  runs on fuel; the facts in the theory of properties say that it has enough.
\<close>

section \<open>Steps and graphs\<close>

datatype AgentStepType = ST_Think | ST_Retrieve | ST_ToolCall | ST_Generate | ST_Verify | ST_Approval | ST_Commit | ST_Compensate

record AgentStep =
  as_id :: string
  as_description :: string
  as_step_type :: AgentStepType
  as_depends_on :: "string list"
  as_model_calls :: u32
  as_requires_strong_model :: bool
  as_tools :: "string list"
  as_estimated_input_tokens :: u64
  as_estimated_output_tokens :: u64
  as_has_side_effects :: bool
  as_side_effects_reversible :: bool
  as_required_capabilities :: "string list"
  as_requires_approval :: bool
  as_requires_verification :: bool
  as_max_retries :: u32

record AgentExecutionGraph =
  ag_graph :: ExecutionGraph
  ag_critical_path :: "string list"
  ag_parallel_groups :: "string list list"
  ag_cache_reuse_nodes :: "string set"
  ag_total_resources :: ResourceVector
  ag_critical_path_duration_ms :: u64
  ag_verification_boundaries :: u32
  ag_approval_boundaries :: u32
  ag_checkpoint_nodes :: "string list"

record AgentProgramCompiler =
  co_default_verifier_model :: string
  co_auto_checkpoint :: bool
  co_auto_verify :: bool
  co_quality_threshold :: u64

definition compiler_default :: AgentProgramCompiler where
  "compiler_default =
     \<lparr>co_default_verifier_model = [], co_auto_checkpoint = True, co_auto_verify = True,
      co_quality_threshold = 0x3FE999999999999A\<rparr>"

datatype CompileError =
    CE_MissingDependency string string
  | CE_CircularDependency string
  | CE_InvalidStep string string

type_synonym 'a compile_result = "CompileError + 'a"

record hash_orders =
  ho_in_degree :: "string list \<Rightarrow> string list"
  ho_remaining :: "string list \<Rightarrow> string list"
  ho_critical :: "string list \<Rightarrow> string list"

section \<open>Validation and dependency order\<close>

definition validate_step :: "string list \<Rightarrow> AgentStep \<Rightarrow> unit compile_result" where
  "validate_step ids step =
     (case find (\<lambda>dep. dep \<notin> set ids) (as_depends_on step) of
        Some dep \<Rightarrow> Inl (CE_MissingDependency (as_id step) dep)
      | None \<Rightarrow>
          if as_id step \<in> set (as_depends_on step) then Inl (CE_CircularDependency (as_id step)) else Inr ())"

fun validate_loop :: "string list \<Rightarrow> AgentStep list \<Rightarrow> unit compile_result" where
  "validate_loop ids [] = Inr ()"
| "validate_loop ids (step # steps) =
     (case validate_step ids step of Inl err \<Rightarrow> Inl err | Inr _ \<Rightarrow> validate_loop ids steps)"

definition validate_steps :: "AgentStep list \<Rightarrow> unit compile_result" where
  "validate_steps steps = validate_loop (map as_id steps) steps"

definition push_to :: "string \<Rightarrow> string \<Rightarrow> (string \<rightharpoonup> string list) \<Rightarrow> (string \<rightharpoonup> string list)" where
  "push_to k x m = m(k \<mapsto> (case m k of None \<Rightarrow> [] | Some xs \<Rightarrow> xs) @ [x])"

definition or_default :: "string \<Rightarrow> (string \<rightharpoonup> string list) \<Rightarrow> (string \<rightharpoonup> string list)" where
  "or_default k m = (case m k of None \<Rightarrow> m(k \<mapsto> []) | Some _ \<Rightarrow> m)"

definition count_up :: "string \<Rightarrow> (string \<times> nat) list \<Rightarrow> (string \<times> nat) list" where
  "count_up k d = AList.map_default k 1 (\<lambda>n. n + 1) d"

definition or_zero :: "string \<Rightarrow> (string \<times> nat) list \<Rightarrow> (string \<times> nat) list" where
  "or_zero k d = AList.map_default k 0 (\<lambda>n. n) d"

text \<open>An edge of a graph, entered into its adjacency map and its in-degrees.\<close>

definition add_edge ::
  "(string \<rightharpoonup> string list) \<times> (string \<times> nat) list \<Rightarrow> string \<times> string \<Rightarrow> (string \<rightharpoonup> string list) \<times> (string \<times> nat) list" where
  "add_edge = (\<lambda>(g, d) (a, b). (push_to a b g, count_up b d))"

definition add_vertex ::
  "(string \<rightharpoonup> string list) \<times> (string \<times> nat) list \<Rightarrow> string \<Rightarrow> (string \<rightharpoonup> string list) \<times> (string \<times> nat) list" where
  "add_vertex = (\<lambda>(g, d) v. (or_default v g, or_zero v d))"

definition step_edges :: "AgentStep \<Rightarrow> (string \<times> string) list" where
  "step_edges step = map (\<lambda>dep. (dep, as_id step)) (as_depends_on step)"

definition dependency_graph :: "AgentStep list \<Rightarrow> (string \<rightharpoonup> string list) \<times> (string \<times> nat) list" where
  "dependency_graph steps =
     foldl (\<lambda>gd step. foldl add_edge (add_vertex gd (as_id step)) (step_edges step)) (Map.empty, []) steps"

definition topological_sort ::
  "(string list \<Rightarrow> string list) \<Rightarrow> AgentStep list \<Rightarrow> string list compile_result option" where
  "topological_sort ord steps =
     (case dependency_graph steps of (graph, in_degree) \<Rightarrow>
        map_option (\<lambda>sorted.
            if length sorted \<noteq> length steps
            then Inl (CE_CircularDependency ''cycle detected in dependency graph'') else Inr sorted)
          (kahn graph in_degree (zero_degree ord in_degree) []))"

section \<open>Phase nodes\<close>

definition phase_config_default :: PhaseConfig where
  "phase_config_default =
     \<lparr>pc_input_artifacts = [], pc_output_artifacts = [], pc_allowed_devices = [], pc_allowed_engines = [],
      pc_estimated_resources = None, pc_is_idempotent = False, pc_is_cancellable = False, pc_is_retryable = False,
      pc_is_migratable = False, pc_is_checkpointable = False, pc_is_speculatable = False,
      pc_has_side_effects = False, pc_compensation_phase_id = None, pc_timeout_seconds = 0,
      pc_estimated_duration_ms = 0, pc_quality_verifier_phase_id = None\<rparr>"

definition phase_node :: "AgentStep \<Rightarrow> string \<Rightarrow> PhaseType \<Rightarrow> PhaseConfig \<Rightarrow> string \<Rightarrow> PhaseNode" where
  "phase_node step kind ty config description =
     \<lparr>pn_node_id = as_id step @ CHR ''-'' # kind, pn_phase_type = ty, pn_config = config, pn_description = description\<rparr>"

definition generation_ms :: "AgentStep \<Rightarrow> u32" where
  "generation_ms step = ucast (as_estimated_output_tokens step) div 50 * 1000"

definition tool_nodes :: "AgentProgramCompiler \<Rightarrow> AgentStep \<Rightarrow> PhaseNode list" where
  "tool_nodes co step =
     (if co_auto_checkpoint co \<and> as_has_side_effects step
      then [phase_node step ''checkpoint'' PH_Checkpoint
              (phase_config_default\<lparr>pc_is_idempotent := True, pc_is_checkpointable := True\<rparr>)
              (''Checkpoint before: '' @ as_description step)]
      else []) @
     [phase_node step ''tool'' PH_ToolExecute
        (phase_config_default\<lparr>pc_has_side_effects := as_has_side_effects step,
           pc_is_idempotent := \<not> as_has_side_effects step, pc_is_cancellable := True,
           pc_is_retryable := \<not> as_has_side_effects step, pc_timeout_seconds := 120,
           pc_compensation_phase_id :=
             (if as_side_effects_reversible step then Some (as_id step @ ''-compensate'') else None)\<rparr>)
        (''Tool: '' @ as_description step)] @
     (if as_side_effects_reversible step
      then [phase_node step ''compensate'' PH_Compensate (phase_config_default\<lparr>pc_is_idempotent := True\<rparr>)
              (''Compensate: '' @ as_description step)]
      else [])"

fun type_nodes :: "AgentProgramCompiler \<Rightarrow> AgentStepType \<Rightarrow> AgentStep \<Rightarrow> PhaseNode list" where
  "type_nodes co ST_Think step =
     [phase_node step ''think'' PH_Plan
        (phase_config_default\<lparr>pc_is_idempotent := True, pc_is_cancellable := True, pc_is_retryable := True,
           pc_estimated_duration_ms := generation_ms step\<rparr>)
        (''Think: '' @ as_description step)]"
| "type_nodes co ST_Retrieve step =
     [phase_node step ''retrieve'' PH_Retrieve
        (phase_config_default\<lparr>pc_is_idempotent := True, pc_is_cancellable := True, pc_is_retryable := True,
           pc_estimated_duration_ms := 500\<rparr>)
        (''Retrieve: '' @ as_description step)]"
| "type_nodes co ST_ToolCall step = tool_nodes co step"
| "type_nodes co ST_Generate step =
     [phase_node step ''tokenize'' PH_Tokenize
        (phase_config_default\<lparr>pc_is_idempotent := True, pc_is_cancellable := True, pc_estimated_duration_ms := 10\<rparr>)
        ''Tokenize input'',
      phase_node step ''generate'' PH_Decode
        (phase_config_default\<lparr>pc_is_cancellable := True, pc_is_retryable := True,
           pc_estimated_duration_ms := generation_ms step, pc_timeout_seconds := 300,
           pc_allowed_engines := (if as_requires_strong_model step then [] else [''small-model''])\<rparr>)
        (''Generate: '' @ as_description step)]"
| "type_nodes co ST_Verify step =
     [phase_node step ''verify'' PH_Verify
        (phase_config_default\<lparr>pc_is_idempotent := True, pc_is_cancellable := True, pc_is_retryable := True,
           pc_quality_verifier_phase_id := Some (as_id step @ ''-verify-retry'')\<rparr>)
        (''Verify: '' @ as_description step)]"
| "type_nodes co ST_Approval step =
     [phase_node step ''approval'' PH_Validate
        (phase_config_default\<lparr>pc_is_cancellable := True, pc_is_idempotent := True\<rparr>)
        (''Await approval: '' @ as_description step)]"
| "type_nodes co ST_Commit step =
     [phase_node step ''commit'' PH_Commit
        (phase_config_default\<lparr>pc_has_side_effects := True, pc_is_idempotent := True, pc_timeout_seconds := 60\<rparr>)
        (''Commit: '' @ as_description step)]"
| "type_nodes co ST_Compensate step =
     [phase_node step ''compensate'' PH_Compensate
        (phase_config_default\<lparr>pc_has_side_effects := True, pc_is_idempotent := True\<rparr>)
        (''Compensate: '' @ as_description step)]"

definition step_to_phase_nodes :: "AgentProgramCompiler \<Rightarrow> AgentStep \<Rightarrow> PhaseNode list" where
  "step_to_phase_nodes co step =
     type_nodes co (as_step_type step) step @
     (if co_auto_verify co \<and> as_requires_verification step
      then [phase_node step ''auto-verify'' PH_Verify
              (phase_config_default\<lparr>pc_is_idempotent := True, pc_is_cancellable := True, pc_is_retryable := True,
                 pc_quality_verifier_phase_id := Some (as_id step @ ''-verifier'')\<rparr>)
              (''Auto-verify: '' @ as_description step)]
      else [])"

section \<open>The execution graph\<close>

definition success_edge :: "string \<Rightarrow> string \<Rightarrow> PhaseEdge" where
  "success_edge a b = \<lparr>pe_from_node_id = a, pe_to_node_id = b, pe_condition = Some EC_OnSuccess\<rparr>"

record graph_build =
  gb_nodes :: "PhaseNode list"
  gb_edges :: "PhaseEdge list"
  gb_node_map :: "string \<rightharpoonup> string"

text \<open>The nodes of one step: the first is joined to the last nodes of the dependencies, every other to the
  node before it.\<close>

fun chain_edges :: "(string \<rightharpoonup> string) \<Rightarrow> string list \<Rightarrow> string option \<Rightarrow> string list \<Rightarrow> PhaseEdge list" where
  "chain_edges node_map deps prev [] = []"
| "chain_edges node_map deps prev (n # ns) =
     (case prev of
        Some p \<Rightarrow> [success_edge p n]
      | None \<Rightarrow> concat (map (\<lambda>dep. case node_map dep of Some a \<Rightarrow> [success_edge a n] | None \<Rightarrow> []) deps)) @
     chain_edges node_map deps (Some n) ns"

definition add_step :: "AgentProgramCompiler \<Rightarrow> graph_build \<Rightarrow> AgentStep \<Rightarrow> graph_build" where
  "add_step co gb step =
     (let ns = step_to_phase_nodes co step; ids = map pn_node_id ns
      in \<lparr>gb_nodes = gb_nodes gb @ ns,
          gb_edges = gb_edges gb @ chain_edges (gb_node_map gb) (as_depends_on step) None ids,
          gb_node_map = (if ids = [] then gb_node_map gb else (gb_node_map gb)(as_id step \<mapsto> last ids))\<rparr>)"

fun build_graph :: "AgentProgramCompiler \<Rightarrow> AgentStep list \<Rightarrow> string list \<Rightarrow> graph_build \<Rightarrow> graph_build option" where
  "build_graph co steps [] gb = Some gb"
| "build_graph co steps (sid # order) gb =
     (case find (\<lambda>s. as_id s = sid) steps of
        None \<Rightarrow> None
      | Some step \<Rightarrow> build_graph co steps order (add_step co gb step))"

definition edge_pair :: "PhaseEdge \<Rightarrow> string \<times> string" where
  "edge_pair e = (pe_from_node_id e, pe_to_node_id e)"

section \<open>Parallel groups\<close>

definition adjacency :: "PhaseNode list \<Rightarrow> PhaseEdge list \<Rightarrow> (string \<rightharpoonup> string list) \<times> (string \<times> nat) list" where
  "adjacency nodes edges =
     foldl add_edge (foldl add_vertex (Map.empty, []) (map pn_node_id nodes)) (map edge_pair edges)"

definition incoming :: "PhaseEdge list \<Rightarrow> string \<Rightarrow> nat" where
  "incoming edges v = length (filter (\<lambda>e. pe_to_node_id e = v) edges)"

definition remaining_deps :: "PhaseNode list \<Rightarrow> PhaseEdge list \<Rightarrow> (string \<times> nat) list" where
  "remaining_deps nodes edges =
     foldl (\<lambda>m n. AList.update (pn_node_id n) (incoming edges (pn_node_id n)) m) [] nodes"

definition retire :: "(string \<rightharpoonup> string list) \<Rightarrow> (string \<times> nat) list \<Rightarrow> string \<Rightarrow> (string \<times> nat) list" where
  "retire blocks rem v =
     foldl (\<lambda>m target. AList.map_entry target (\<lambda>n. n - 1) m) (AList.delete v rem)
       (case blocks v of None \<Rightarrow> [] | Some ts \<Rightarrow> ts)"

definition ready_nodes :: "(string list \<Rightarrow> string list) \<Rightarrow> (string \<times> nat) list \<Rightarrow> string list" where
  "ready_nodes ord rem = filter (\<lambda>v. map_of rem v = Some 0) (ord (map fst rem))"

lemma length_map_entry [simp]: "length (AList.map_entry k f m) = length m"
  by (induction m) auto

lemma length_delete_le: "length (AList.delete v m) \<le> length m"
  by (simp add: AList.delete_eq)

lemma length_delete_less: "map_of m v \<noteq> None \<Longrightarrow> length (AList.delete v m) < length m"
  by (induction m) (auto simp: AList.delete_eq less_Suc_eq_le split: if_splits)

lemma length_retire: "length (retire blocks rem v) = length (AList.delete v rem)"
proof -
  have "length (foldl (\<lambda>m target. AList.map_entry target (\<lambda>n. n - 1) m) m ts) = length m" for m :: "(string \<times> nat) list" and ts
    by (induction ts arbitrary: m) simp_all
  then show ?thesis by (simp add: retire_def)
qed

lemma length_retires: "length (foldl (retire blocks) rem vs) \<le> length rem"
proof (induction vs arbitrary: rem)
  case (Cons v vs)
  then show ?case using Cons [of "retire blocks rem v"] length_retire [of blocks rem v] length_delete_le [of v rem] by simp
qed simp

function waves ::
  "(string list \<Rightarrow> string list) \<Rightarrow> (string \<rightharpoonup> string list) \<Rightarrow> (string \<times> nat) list \<Rightarrow> string list list \<Rightarrow> string list list" where
  "waves ord blocks rem groups =
     (if rem = [] then groups
      else let ready = ready_nodes ord rem
           in if ready = [] then groups
              else waves ord blocks (foldl (retire blocks) rem ready) (groups @ [ready]))"
  by pat_completeness auto
termination
proof (relation "measure (\<lambda>(ord, blocks, rem, groups). length rem)")
  fix ord blocks and rem :: "(string \<times> nat) list" and groups :: "string list list" and ready
  assume r: "ready = ready_nodes ord rem" "ready \<noteq> []"
  then obtain v vs where v: "ready = v # vs" by (metis neq_Nil_conv)
  then have "v \<in> set (ready_nodes ord rem)" using r(1) by simp
  then have "map_of rem v \<noteq> None" by (simp add: ready_nodes_def)
  then have "length (foldl (retire blocks) rem ready) < length rem"
    using length_retires [of blocks "retire blocks rem v" vs] length_retire [of blocks rem v] length_delete_less [of rem v] v
    by simp
  then show "((ord, blocks, foldl (retire blocks) rem ready, groups @ [ready]), (ord, blocks, rem, groups))
    \<in> measure (\<lambda>(ord, blocks, rem, groups). length rem)" by simp
qed simp

definition find_parallel_groups ::
  "(string list \<Rightarrow> string list) \<Rightarrow> PhaseNode list \<Rightarrow> PhaseEdge list \<Rightarrow> string list list" where
  "find_parallel_groups ord nodes edges =
     waves ord (fst (adjacency nodes edges)) (remaining_deps nodes edges) []"

section \<open>The critical path\<close>

definition duration_of :: "PhaseNode list \<Rightarrow> string \<Rightarrow> u64" where
  "duration_of nodes v =
     (case find (\<lambda>n. pn_node_id n = v) nodes of
        Some n \<Rightarrow> ucast (pc_estimated_duration_ms (pn_config n))
      | None \<Rightarrow> 1)"

record longest_paths =
  lp_longest_to :: "string \<rightharpoonup> u64"
  lp_predecessor :: "string \<rightharpoonup> string option"
  lp_max_len :: u64
  lp_max_node :: string

text \<open>The best predecessor of a node among the sources of its incoming edges.\<close>

definition better_pred ::
  "(string \<rightharpoonup> u64) \<Rightarrow> u64 \<Rightarrow> u64 \<times> string option \<Rightarrow> string \<Rightarrow> u64 \<times> string option" where
  "better_pred longest_to node_len acc from =
     (case longest_to from of
        None \<Rightarrow> acc
      | Some pred_len \<Rightarrow> if pred_len + node_len > fst acc then (pred_len + node_len, Some from) else acc)"

definition best_incoming :: "(string \<rightharpoonup> u64) \<Rightarrow> u64 \<Rightarrow> string list \<Rightarrow> u64 \<times> string option" where
  "best_incoming longest_to node_len sources = foldl (better_pred longest_to node_len) (node_len, None) sources"

definition visit_node :: "PhaseNode list \<Rightarrow> PhaseEdge list \<Rightarrow> longest_paths \<Rightarrow> string \<Rightarrow> longest_paths" where
  "visit_node nodes edges lp node =
     (case best_incoming (lp_longest_to lp) (duration_of nodes node)
             (map pe_from_node_id (filter (\<lambda>e. pe_to_node_id e = node) edges)) of
        (best, best_pred) \<Rightarrow>
          \<lparr>lp_longest_to = (lp_longest_to lp)(node \<mapsto> best), lp_predecessor = (lp_predecessor lp)(node \<mapsto> best_pred),
           lp_max_len = (if best > lp_max_len lp then best else lp_max_len lp),
           lp_max_node = (if best > lp_max_len lp then node else lp_max_node lp)\<rparr>)"

text \<open>The walk back along the predecessors, with fuel; the path is collected from its end.\<close>

fun walk_back :: "nat \<Rightarrow> (string \<rightharpoonup> string option) \<Rightarrow> string \<Rightarrow> string list \<Rightarrow> string list option" where
  "walk_back 0 pred node path = None"
| "walk_back (Suc fuel) pred node path =
     (case pred node of
        Some (Some p) \<Rightarrow> walk_back fuel pred p (node # path)
      | _ \<Rightarrow> Some (node # path))"

definition longest_paths_of :: "PhaseNode list \<Rightarrow> PhaseEdge list \<Rightarrow> string list \<Rightarrow> longest_paths" where
  "longest_paths_of nodes edges order =
     foldl (visit_node nodes edges)
       \<lparr>lp_longest_to = Map.empty, lp_predecessor = Map.empty, lp_max_len = 0,
        lp_max_node = (case order of [] \<Rightarrow> [] | v # _ \<Rightarrow> v)\<rparr> order"

definition compute_critical_path ::
  "(string list \<Rightarrow> string list) \<Rightarrow> PhaseNode list \<Rightarrow> PhaseEdge list \<Rightarrow> string list option" where
  "compute_critical_path ord nodes edges =
     (case adjacency nodes edges of (adj, in_degree) \<Rightarrow>
        Option.bind (kahn adj in_degree (zero_degree ord in_degree) [])
          (\<lambda>order. let lp = longest_paths_of nodes edges order
             in walk_back (Suc (length order)) (lp_predecessor lp) (lp_max_node lp) []))"

section \<open>Cache reuse and estimates\<close>

definition i64_of :: "u64 \<Rightarrow> int" where
  "i64_of x = (if x < 0x8000000000000000 then uint x else uint x - 2 ^ 64)"

definition i64_abs :: "u64 \<Rightarrow> int" where
  "i64_abs x = i64_of (if i64_of x < 0 then - x else x)"

definition i64_half :: "u64 \<Rightarrow> int" where
  "i64_half x = (if i64_of x < 0 then - ((- i64_of x) div 2) else i64_of x div 2)"

definition may_reuse :: "AgentStep \<Rightarrow> AgentStep \<Rightarrow> bool" where
  "may_reuse si sj \<longleftrightarrow>
     as_requires_strong_model si = as_requires_strong_model sj \<and>
     i64_abs (as_estimated_input_tokens si - as_estimated_input_tokens sj) < i64_half (as_estimated_input_tokens si)"

fun detect_cache_reuse :: "PhaseNode list \<Rightarrow> AgentStep list \<Rightarrow> string set" where
  "detect_cache_reuse nodes [] = {}"
| "detect_cache_reuse nodes (si # steps) =
     set (filter (\<lambda>v. v \<in> set (map pn_node_id nodes)) (map (\<lambda>sj. as_id sj @ ''-generate'') (filter (may_reuse si) steps)))
       \<union> detect_cache_reuse nodes steps"

definition estimate_program_resources :: "AgentStep list \<Rightarrow> ResourceVector" where
  "estimate_program_resources steps =
     (let total_tokens = sum_list (map (\<lambda>s. as_estimated_input_tokens s + as_estimated_output_tokens s) steps);
          model_calls = sum_list (map (\<lambda>s. ucast (as_model_calls s)) steps);
          kv_bytes = total_tokens * 1024
      in rv_zero\<lparr>rv_kv_cache_bytes := kv_bytes, rv_device_memory_bytes := kv_bytes + 2147483648,
           rv_ram_bytes := 4294967296, rv_cpu_time_us := model_calls * 500000\<rparr>)"

definition estimate_duration :: "string list \<Rightarrow> PhaseNode list \<Rightarrow> u64" where
  "estimate_duration path nodes =
     sum_list (map (\<lambda>n. ucast (pc_estimated_duration_ms (pn_config n)))
       (List.map_filter (\<lambda>v. find (\<lambda>n. pn_node_id n = v) nodes) path))"

section \<open>Compilation\<close>

definition agent_graph ::
  "hash_orders \<Rightarrow> AgentStep list \<Rightarrow> PhaseNode list \<Rightarrow> PhaseEdge list \<Rightarrow> AgentExecutionGraph option" where
  "agent_graph ho steps nodes edges =
     map_option (\<lambda>critical_path.
         \<lparr>ag_graph = \<lparr>eg_nodes = nodes, eg_edges = edges,
            eg_entry_node_id = (case nodes of [] \<Rightarrow> [] | n # _ \<Rightarrow> pn_node_id n)\<rparr>,
          ag_critical_path = critical_path,
          ag_parallel_groups = find_parallel_groups (ho_remaining ho) nodes edges,
          ag_cache_reuse_nodes = detect_cache_reuse nodes steps,
          ag_total_resources = estimate_program_resources steps,
          ag_critical_path_duration_ms = estimate_duration critical_path nodes,
          ag_verification_boundaries = of_nat (length (filter (\<lambda>n. pn_phase_type n = PH_Verify) nodes)),
          ag_approval_boundaries =
            of_nat (length (filter (\<lambda>n. pc_quality_verifier_phase_id (pn_config n) = Some ''approval'') nodes)),
          ag_checkpoint_nodes = map pn_node_id (filter (\<lambda>n. pn_phase_type n = PH_Checkpoint) nodes)\<rparr>)
       (compute_critical_path (ho_critical ho) nodes edges)"

definition compile ::
  "hash_orders \<Rightarrow> AgentProgramCompiler \<Rightarrow> AgentStep list \<Rightarrow> AgentExecutionGraph compile_result option" where
  "compile ho co steps =
     (case validate_steps steps of
        Inl err \<Rightarrow> Some (Inl err)
      | Inr _ \<Rightarrow>
          (case topological_sort (ho_in_degree ho) steps of
             None \<Rightarrow> None
           | Some (Inl err) \<Rightarrow> Some (Inl err)
           | Some (Inr order) \<Rightarrow>
               (case build_graph co steps order \<lparr>gb_nodes = [], gb_edges = [], gb_node_map = Map.empty\<rparr> of
                  None \<Rightarrow> None
                | Some gb \<Rightarrow> map_option Inr (agent_graph ho steps (gb_nodes gb) (gb_edges gb)))))"

section \<open>The critical path scheduler\<close>

record ScheduledProgram =
  sp_graph :: AgentExecutionGraph
  sp_execution_order :: "string list"

definition fan_out_of :: "PhaseEdge list \<Rightarrow> string \<Rightarrow> nat" where
  "fan_out_of edges v = length (filter (\<lambda>e. pe_from_node_id e = v) edges)"

definition priority_weight :: "AgentExecutionGraph \<Rightarrow> string \<Rightarrow> nat" where
  "priority_weight g v =
     fan_out_of (eg_edges (ag_graph g)) v * 10 + (if v \<in> ag_cache_reuse_nodes g then 1 else 0)"

definition schedule_program :: "hash_orders \<Rightarrow> AgentStep list \<Rightarrow> ScheduledProgram compile_result option" where
  "schedule_program ho steps =
     (case compile ho compiler_default steps of
        None \<Rightarrow> None
      | Some (Inl err) \<Rightarrow> Some (Inl err)
      | Some (Inr g) \<Rightarrow>
          (let remaining = filter (\<lambda>v. v \<notin> set (ag_critical_path g)) (map pn_node_id (eg_nodes (ag_graph g)))
           in Some (Inr \<lparr>sp_graph = g,
                sp_execution_order = ag_critical_path g @ sort_key (\<lambda>v. - int (priority_weight g v)) remaining\<rparr>)))"

end
