(* ===== verification/Workflow_Properties.thy ===== *)
theory Workflow_Properties
  imports Workflow
begin

text \<open>
  What the workflow compiler guarantees: the order of the steps respects their dependencies and is found
  exactly when there is one, the edges of the compiled graph only lead forward, compilation always ends with a graph
  or an error, the parallel groups are independent, and the critical path is a longest path.  The maps that the code
  builds are instances of the locale \<open>degree_graph\<close>.
\<close>

section \<open>The maps as graphs\<close>

definition represents ::
  "(string \<rightharpoonup> string list) \<times> (string \<times> nat) list \<Rightarrow> string set \<Rightarrow> (string \<times> string) list \<Rightarrow> bool" where
  "represents gd V E \<longleftrightarrow>
     (\<forall>u. (case fst gd u of None \<Rightarrow> [] | Some ns \<Rightarrow> ns) = map snd (filter (\<lambda>e. fst e = u) E)) \<and>
     (\<forall>v. map_of (snd gd) v = (if v \<in> V \<union> snd ` set E then Some (length (filter (\<lambda>e. snd e = v) E)) else None)) \<and>
     distinct (map fst (snd gd))"

lemma represents_empty: "represents (Map.empty, []) {} []"
  by (simp add: represents_def)

lemma represents_edge:
  assumes "represents gd V E" shows "represents (add_edge gd e) V (E @ [e])"
proof -
  obtain g d a b where gd: "gd = (g, d)" "e = (a, b)" by (cases gd; cases e)
  have d: "map_of (count_up b d) = (map_of d)(b \<mapsto> (case map_of d b of None \<Rightarrow> 1 | Some n \<Rightarrow> n + 1))"
    by (simp add: count_up_def map_of_map_default split: option.split)
  have keys: "distinct (map fst (count_up b d))"
    using assms gd by (simp add: represents_def count_up_def distinct_map_default)
  have "(case push_to a b g u of None \<Rightarrow> [] | Some ns \<Rightarrow> ns) = map snd (filter (\<lambda>e. fst e = u) (E @ [e]))" for u
    using assms gd by (auto simp: represents_def push_to_def)
  moreover have "map_of (count_up b d) v =
      (if v \<in> V \<union> snd ` set (E @ [e]) then Some (length (filter (\<lambda>e. snd e = v) (E @ [e]))) else None)" for v
  proof -
    have "filter (\<lambda>e. snd e = b) E = []" if "b \<notin> V \<union> snd ` set E" using that by (auto simp: filter_empty_conv)
    then show ?thesis using assms gd by (auto simp: represents_def d)
  qed
  ultimately show ?thesis using keys gd by (simp add: represents_def add_edge_def)
qed

lemma represents_vertex:
  assumes "represents gd V E" shows "represents (add_vertex gd v) (insert v V) E"
proof -
  obtain g d where gd: "gd = (g, d)" by fastforce
  have d: "map_of (or_zero v d) = (map_of d)(v \<mapsto> (case map_of d v of None \<Rightarrow> 0 | Some n \<Rightarrow> n))"
    by (simp add: or_zero_def map_of_map_default split: option.split)
  have keys: "distinct (map fst (or_zero v d))"
    using assms gd by (simp add: represents_def or_zero_def distinct_map_default)
  have "(case or_default v g u of None \<Rightarrow> [] | Some ns \<Rightarrow> ns) = (case g u of None \<Rightarrow> [] | Some ns \<Rightarrow> ns)" for u
    by (auto simp: or_default_def split: option.split)
  moreover have "map_of (or_zero v d) w =
      (if w \<in> insert v V \<union> snd ` set E then Some (length (filter (\<lambda>e. snd e = w) E)) else None)" for w
  proof -
    have "filter (\<lambda>e. snd e = v) E = []" if "v \<notin> V \<union> snd ` set E" using that by (auto simp: filter_empty_conv)
    then show ?thesis using assms gd by (auto simp: represents_def d)
  qed
  ultimately show ?thesis using assms keys gd by (simp add: represents_def add_vertex_def)
qed

lemma represents_edges: "represents gd V E \<Longrightarrow> represents (foldl add_edge gd es) V (E @ es)"
proof (induction es arbitrary: gd E)
  case (Cons e es)
  from Cons.IH [OF represents_edge [OF Cons.prems, of e]] show ?case by simp
qed simp

lemma represents_vertices: "represents gd V E \<Longrightarrow> represents (foldl add_vertex gd vs) (set vs \<union> V) E"
proof (induction vs arbitrary: gd V)
  case (Cons v vs)
  from Cons.IH [OF represents_vertex [OF Cons.prems, of v]] show ?case by simp
qed simp

lemma adjacency_represents: "represents (adjacency nodes edges) (set (map pn_node_id nodes)) (map edge_pair edges)"
  using represents_edges [OF represents_vertices [OF represents_empty, of "map pn_node_id nodes"], of "map edge_pair edges"]
  by (simp add: adjacency_def)

definition dependencies :: "AgentStep list \<Rightarrow> (string \<times> string) list" where
  "dependencies steps = concat (map step_edges steps)"

lemma dependency_graph_represents: "represents (dependency_graph steps) (set (map as_id steps)) (dependencies steps)"
proof -
  have "represents (foldl (\<lambda>gd step. foldl add_edge (add_vertex gd (as_id step)) (step_edges step)) gd steps)
      (set (map as_id steps) \<union> V) (E @ dependencies steps)" if "represents gd V E" for gd V E
    using that
  proof (induction steps arbitrary: gd V E)
    case (Cons s steps)
    from Cons.IH [OF represents_edges [OF represents_vertex [OF Cons.prems, of "as_id s"], of "step_edges s"]]
    show ?case by (simp add: dependencies_def)
  qed (simp add: dependencies_def)
  from this [OF represents_empty] show ?thesis by (simp add: dependency_graph_def)
qed

lemma represents_keys:
  assumes "represents gd V E" shows "fst ` set (snd gd) = V \<union> snd ` set E"
proof -
  have m: "map_of (snd gd) v = (if v \<in> V \<union> snd ` set E then Some (length (filter (\<lambda>e. snd e = v) E)) else None)" for v
    using assms unfolding represents_def by blast
  have "v \<in> fst ` set (snd gd) \<longleftrightarrow> v \<in> V \<union> snd ` set E" for v
    using m [of v] map_of_eq_None_iff [of "snd gd" v] by (metis option.distinct(1))
  then show ?thesis by blast
qed

lemma represents_degree_graph: "represents gd V E \<Longrightarrow> degree_graph (fst gd) (snd gd) E"
  by unfold_locales (auto simp: represents_def simp del: map_of_eq_Some_iff split: if_splits)

interpretation steps_graph: degree_graph "fst (dependency_graph steps)" "snd (dependency_graph steps)" "dependencies steps"
  for steps
  by (rule represents_degree_graph [OF dependency_graph_represents])

interpretation phase_graph: degree_graph "fst (adjacency nodes edges)" "snd (adjacency nodes edges)" "map edge_pair edges"
  for nodes edges
  by (rule represents_degree_graph [OF adjacency_represents])

section \<open>The order of the steps\<close>

lemma validate_loop_ok:
  "validate_loop ids steps = Inr () \<longleftrightarrow>
     (\<forall>s \<in> set steps. set (as_depends_on s) \<subseteq> set ids \<and> as_id s \<notin> set (as_depends_on s))"
proof (induction steps)
  case (Cons s steps)
  have "find (\<lambda>dep. dep \<notin> set ids) (as_depends_on s) = None \<longleftrightarrow> set (as_depends_on s) \<subseteq> set ids"
    by (auto simp: find_None_iff)
  then show ?case using Cons by (auto simp: validate_step_def split: sum.splits option.splits if_splits)
qed simp

lemma validate_steps_ok:
  "validate_steps steps = Inr () \<longleftrightarrow>
     (\<forall>s \<in> set steps. set (as_depends_on s) \<subseteq> set (map as_id steps) \<and> as_id s \<notin> set (as_depends_on s))"
  by (simp add: validate_steps_def validate_loop_ok)

lemma set_dependencies:
  "set (dependencies steps) = {(dep, as_id s) | dep s. s \<in> set steps \<and> dep \<in> set (as_depends_on s)}"
  by (auto simp: dependencies_def step_edges_def)

definition step_order :: "AgentStep list \<Rightarrow> string list \<Rightarrow> bool" where
  "step_order steps order \<longleftrightarrow>
     distinct order \<and> set order = set (map as_id steps) \<and> in_order (dependencies steps) order"

lemma topological_sort_result:
  assumes "traversal ord"
  shows "\<exists>order. topological_sort ord steps =
      Some (if length order \<noteq> length steps then Inl (CE_CircularDependency ''cycle detected in dependency graph'') else Inr order) \<and>
    distinct order \<and> in_order (dependencies steps) order \<and> set order \<subseteq> set (map as_id steps) \<and>
    (fst ` set (dependencies steps) \<subseteq> set (map as_id steps) \<longrightarrow>
      set order = set (map as_id steps) \<longleftrightarrow> acyclic (set (dependencies steps)))"
proof -
  let ?g = "dependency_graph steps"
  have keys: "fst ` set (snd ?g) = set (map as_id steps)"
    using represents_keys [OF dependency_graph_represents, of steps] by (auto simp: set_dependencies)
  obtain order where K: "kahn (fst ?g) (snd ?g) (zero_degree ord (snd ?g)) [] = Some order"
      and o: "distinct order" "in_order (dependencies steps) order" "set order \<subseteq> fst ` set (snd ?g)"
    using steps_graph.kahn_order [OF assms, of steps] by blast
  have "snd ` set (dependencies steps) \<subseteq> set (map as_id steps)" by (auto simp: set_dependencies)
  then have "fst ` set (dependencies steps) \<subseteq> set (map as_id steps) \<longrightarrow>
      set order = set (map as_id steps) \<longleftrightarrow> acyclic (set (dependencies steps))"
    using steps_graph.kahn_complete [OF assms K] keys by simp
  then show ?thesis
    using K o keys by (intro exI [of _ order]) (auto simp: topological_sort_def case_prod_unfold)
qed

lemma full_length:
  assumes "distinct order" "set order \<subseteq> set (map f xs)"
  shows "length order = length xs \<longleftrightarrow> set order = set (map f xs) \<and> distinct (map f xs)"
proof
  assume "length order = length xs"
  then have "card (set order) = length xs" using distinct_card [OF assms(1)] by simp
  moreover have "card (set order) \<le> card (set (map f xs))" by (rule card_mono) (use assms(2) in simp_all)
  moreover have "card (set (map f xs)) \<le> length (map f xs)" by (rule card_length)
  ultimately have c: "card (set (map f xs)) = length (map f xs)" "card (set order) = card (set (map f xs))" by simp_all
  have "set order = set (map f xs)" by (rule card_subset_eq) (use assms(2) c in simp_all)
  then show "set order = set (map f xs) \<and> distinct (map f xs)" using card_distinct [OF c(1)] by simp
next
  assume "set order = set (map f xs) \<and> distinct (map f xs)"
  then show "length order = length xs" by (metis assms(1) distinct_card length_map)
qed

section \<open>The compiled graph leads forward\<close>

definition leads_forward :: "string list \<Rightarrow> PhaseEdge list \<Rightarrow> bool" where
  "leads_forward ids edges \<longleftrightarrow>
     (\<forall>e \<in> set edges. \<exists>xs ys. ids = xs @ pe_to_node_id e # ys \<and> pe_from_node_id e \<in> set xs)"

lemma leads_forward_append: "leads_forward ids edges \<Longrightarrow> leads_forward (ids @ zs) edges"
  unfolding leads_forward_def by (metis append.assoc append_Cons)

lemma chain_edges_forward:
  assumes "ran node_map \<subseteq> set pre" "set_option prev \<subseteq> set pre"
  shows "leads_forward (pre @ ns) (chain_edges node_map deps prev ns)"
  using assms
proof (induction ns arbitrary: pre prev)
  case (Cons n ns)
  have "leads_forward (pre @ n # ns) (chain_edges node_map deps (Some n) ns)"
    using Cons.IH [of "pre @ [n]" "Some n"] Cons.prems(1) by auto
  moreover have "pe_to_node_id e = n \<and> pe_from_node_id e \<in> set pre"
    if "e \<in> set (case prev of Some p \<Rightarrow> [success_edge p n]
        | None \<Rightarrow> concat (map (\<lambda>dep. case node_map dep of Some a \<Rightarrow> [success_edge a n] | None \<Rightarrow> []) deps))" for e
    using that Cons.prems by (auto simp: success_edge_def ranI split: option.splits)
  ultimately show ?case
    unfolding leads_forward_def chain_edges.simps by (metis (no_types, lifting) Un_iff set_append)
qed (simp add: leads_forward_def)

definition build_ok :: "graph_build \<Rightarrow> bool" where
  "build_ok gb \<longleftrightarrow>
     leads_forward (map pn_node_id (gb_nodes gb)) (gb_edges gb) \<and> ran (gb_node_map gb) \<subseteq> set (map pn_node_id (gb_nodes gb))"

lemma build_ok_step: "build_ok gb \<Longrightarrow> build_ok (add_step co gb step)"
proof -
  assume ok: "build_ok gb"
  let ?ids = "map pn_node_id (step_to_phase_nodes co step)" and ?pre = "map pn_node_id (gb_nodes gb)"
  have "leads_forward (?pre @ ?ids) (gb_edges gb)" using ok leads_forward_append by (simp add: build_ok_def)
  moreover have "leads_forward (?pre @ ?ids) (chain_edges (gb_node_map gb) (as_depends_on step) None ?ids)"
    using ok by (intro chain_edges_forward) (simp_all add: build_ok_def)
  moreover have "ran ((gb_node_map gb)(as_id step \<mapsto> last ?ids)) \<subseteq> set (?pre @ ?ids)" if "?ids \<noteq> []"
    using ok that last_in_set [OF that] by (auto simp: build_ok_def ran_def split: if_splits)
  ultimately show ?thesis
    using ok by (auto simp: build_ok_def add_step_def Let_def leads_forward_def)
qed

lemma build_graph_ok:
  "build_ok gb \<Longrightarrow> set order \<subseteq> set (map as_id steps) \<Longrightarrow>
     \<exists>gb'. build_graph co steps order gb = Some gb' \<and> build_ok gb'"
proof (induction order arbitrary: gb)
  case (Cons sid order)
  obtain s where "find (\<lambda>s. as_id s = sid) steps = Some s"
    using Cons.prems(2) by (cases "find (\<lambda>s. as_id s = sid) steps") (auto simp: find_None_iff)
  then show ?case using Cons build_ok_step by simp
qed simp

lemma forward_in_order:
  assumes "leads_forward ids edges" "distinct ids"
  shows "in_order (map edge_pair edges) ids"
  unfolding in_order_def
proof (intro allI impI)
  fix xs v ys a assume s: "ids = xs @ v # ys" and "(a, v) \<in> set (map edge_pair edges)"
  then obtain e where e: "e \<in> set edges" "pe_from_node_id e = a" "pe_to_node_id e = v" by (auto simp: edge_pair_def)
  then obtain xs' ys' where s': "ids = xs' @ v # ys'" "a \<in> set xs'" using assms(1) by (auto simp: leads_forward_def)
  have "xs = xs'" using s s'(1) assms(2) by (auto simp: append_eq_append_conv2 append_eq_Cons_conv Cons_eq_append_conv)
  then show "a \<in> set xs" using s'(2) by simp
qed

lemma forward_nodes:
  "leads_forward ids edges \<Longrightarrow> fst ` set (map edge_pair edges) \<subseteq> set ids \<and> snd ` set (map edge_pair edges) \<subseteq> set ids"
  unfolding leads_forward_def edge_pair_def by fastforce

lemma forward_acyclic:
  assumes "leads_forward ids edges" "distinct ids" shows "acyclic (set (map edge_pair edges))"
  using in_order_acyclic [OF forward_in_order [OF assms] assms(2)] forward_nodes [OF assms(1)] by blast

section \<open>Parallel groups\<close>

text \<open>The number of edges into a node from sources that are not retired.\<close>

definition pending_into :: "(string \<times> string) list \<Rightarrow> string set \<Rightarrow> string \<Rightarrow> nat" where
  "pending_into E S w = length (filter (\<lambda>e. snd e = w \<and> fst e \<notin> S) E)"

definition counted :: "(string \<times> string) list \<Rightarrow> string set \<Rightarrow> string set \<Rightarrow> (string \<times> nat) list \<Rightarrow> bool" where
  "counted E S K rem \<longleftrightarrow>
     distinct (map fst rem) \<and> (\<forall>w. map_of rem w = (if w \<in> K then Some (pending_into E S w) else None))"

lemma pending_into_zero: "pending_into E S w = 0 \<longleftrightarrow> (\<forall>a. (a, w) \<in> set E \<longrightarrow> a \<in> S)"
  by (force simp: pending_into_def filter_empty_conv)

lemma map_of_decrements:
  "map_of (foldl (\<lambda>m t. AList.map_entry t (\<lambda>n. n - 1) m) rem ts) w =
     map_option (\<lambda>n. n - count_list ts w) (map_of rem w)"
  by (induction ts arbitrary: rem) (auto simp: map_of_map_entry option.map_comp comp_def option.map_ident split: option.split)

lemma keys_decrements:
  "distinct (map fst rem) \<Longrightarrow> distinct (map fst (foldl (\<lambda>m t. AList.map_entry t (\<lambda>n. n - 1) m) rem ts))"
  by (induction ts arbitrary: rem) (simp_all add: distinct_map_entry)

lemma counted_keys: "counted E S K rem \<Longrightarrow> set (map fst rem) = K"
proof -
  assume c: "counted E S K rem"
  have "w \<in> set (map fst rem) \<longleftrightarrow> w \<in> K" for w
    using c map_of_eq_None_iff [of rem w] unfolding counted_def by (metis list.set_map option.distinct(1))
  then show ?thesis by blast
qed

lemma counted_retire:
  assumes "counted (map edge_pair edges) S K rem" "v \<notin> S"
  shows "counted (map edge_pair edges) (insert v S) (K - {v}) (retire (fst (adjacency nodes edges)) rem v)"
proof -
  let ?E = "map edge_pair edges" and ?ts = "case fst (adjacency nodes edges) v of None \<Rightarrow> [] | Some ts \<Rightarrow> ts"
  have ts: "count_list ?ts w = length (filter (\<lambda>e. snd e = w \<and> fst e = v) ?E)" for w
    using phase_graph.adj_targets [of nodes edges v] phase_graph.targets_count [of v edges w] by metis
  have "distinct (map fst (AList.delete v rem))" using assms(1) by (simp add: counted_def distinct_delete)
  then have "distinct (map fst (retire (fst (adjacency nodes edges)) rem v))"
    unfolding retire_def by (rule keys_decrements)
  moreover have "map_of (retire (fst (adjacency nodes edges)) rem v) w =
      (if w \<in> K - {v} then Some (pending_into ?E (insert v S) w) else None)" for w
    unfolding retire_def map_of_decrements ts
    using assms(1) phase_graph.split_count [OF assms(2), of w edges]
    by (auto simp: delete_conv' counted_def pending_into_def)
  ultimately show ?thesis by (simp add: counted_def)
qed

lemma counted_retires:
  assumes "counted (map edge_pair edges) S K rem" "distinct vs" "set vs \<inter> S = {}"
  shows "counted (map edge_pair edges) (set vs \<union> S) (K - set vs) (foldl (retire (fst (adjacency nodes edges))) rem vs)"
  using assms
proof (induction vs arbitrary: S K rem)
  case (Cons v vs)
  have "counted (map edge_pair edges) (insert v S) (K - {v}) (retire (fst (adjacency nodes edges)) rem v)"
    using counted_retire [OF Cons.prems(1)] Cons.prems(3) by simp
  from Cons.IH [OF this] Cons.prems show ?case by (simp add: Diff_insert2 [symmetric] insert_commute)
qed simp

text \<open>Every source of an edge into a group stands in an earlier group.\<close>

definition staged :: "(string \<times> string) list \<Rightarrow> string list list \<Rightarrow> bool" where
  "staged E groups \<longleftrightarrow> (\<forall>gs G hs a b. groups = gs @ G # hs \<longrightarrow> b \<in> set G \<longrightarrow> (a, b) \<in> set E \<longrightarrow> a \<in> set (concat gs))"

lemma staged_snoc:
  assumes "staged E groups" "\<forall>a b. b \<in> set G \<longrightarrow> (a, b) \<in> set E \<longrightarrow> a \<in> set (concat groups)"
  shows "staged E (groups @ [G])"
  unfolding staged_def
proof (intro allI impI)
  fix gs H hs a b assume s: "groups @ [G] = gs @ H # hs" "b \<in> set H" "(a, b) \<in> set E"
  show "a \<in> set (concat gs)"
  proof (cases hs rule: rev_cases)
    case Nil
    then show ?thesis using s assms(2) by auto
  next
    case (snoc hs' h)
    then have "groups = gs @ H # hs'" using s(1) by simp
    then show ?thesis using assms(1) s(2,3) unfolding staged_def by blast
  qed
qed

lemma waves_ok:
  assumes "traversal ord" "staged (map edge_pair edges) groups" "distinct (concat groups)"
    and "counted (map edge_pair edges) (set (concat groups)) (V - set (concat groups)) rem"
    and "fst ` set (map edge_pair edges) \<subseteq> V" "acyclic (set (map edge_pair edges))" "set (concat groups) \<subseteq> V"
  shows "\<exists>out. waves ord (fst (adjacency nodes edges)) rem groups = out \<and> staged (map edge_pair edges) out \<and>
    distinct (concat out) \<and> set (concat out) = V"
  using assms
proof (induction ord "fst (adjacency nodes edges)" rem groups rule: waves.induct)
  case (1 ord rem groups)
  let ?E = "map edge_pair edges" and ?S = "set (concat groups)" and ?b = "fst (adjacency nodes edges)"
  note keys = counted_keys [OF "1.prems"(4)]
  show ?case
  proof (cases "rem = []")
    case True
    then have "?S = V" using keys "1.prems"(7) by auto
    then show ?thesis using True "1.prems" by simp
  next
    case False
    let ?ready = "ready_nodes ord rem"
    have m: "map_of rem w = (if w \<in> V - ?S then Some (pending_into ?E ?S w) else None)" for w
      using "1.prems"(4) unfolding counted_def by blast
    have ready: "w \<in> set ?ready \<longleftrightarrow> w \<in> V - ?S \<and> (\<forall>a. (a, w) \<in> set ?E \<longrightarrow> a \<in> ?S)" for w
    proof -
      have "w \<in> set ?ready \<longleftrightarrow> w \<in> set (map fst rem) \<and> map_of rem w = Some 0"
        using "1.prems"(1) by (auto simp: ready_nodes_def)
      then show ?thesis unfolding keys m using pending_into_zero [of ?E ?S w] by simp
    qed
    obtain v where v: "v \<in> V - ?S" using False keys by (cases rem) auto
    have "wf (set ?E)" using "1.prems"(6) finite_acyclic_wf by blast
    from wfE_min [OF this v] obtain z where z: "z \<in> V - ?S" "\<forall>y. (y, z) \<in> set ?E \<longrightarrow> y \<notin> V - ?S" by blast
    have "a \<in> V" if "(a, w) \<in> set ?E" for a w using "1.prems"(5) imageI [OF that, of fst] by auto
    then have "z \<in> set ?ready" using ready [of z] z by blast
    then have ne: "?ready \<noteq> []" by auto
    have d: "distinct ?ready" using "1.prems"(1,4) by (simp add: ready_nodes_def counted_def)
    have disj: "set ?ready \<inter> ?S = {}" "set ?ready \<subseteq> V" using ready by blast+
    have S': "set (concat (groups @ [?ready])) = set ?ready \<union> ?S" "V - (set ?ready \<union> ?S) = V - ?S - set ?ready" by auto
    have st: "staged ?E (groups @ [?ready])" using staged_snoc [OF "1.prems"(2)] ready by blast
    have dd: "distinct (concat (groups @ [?ready]))" using "1.prems"(3) d disj(1) by (simp add: Int_commute)
    have c: "counted ?E (set (concat (groups @ [?ready]))) (V - set (concat (groups @ [?ready]))) (foldl (retire ?b) rem ?ready)"
      unfolding S' by (rule counted_retires [OF "1.prems"(4) d disj(1)])
    have "set (concat (groups @ [?ready])) \<subseteq> V" unfolding S' using disj(2) "1.prems"(7) by blast
    from "1.hyps" [OF False refl ne "1.prems"(1) st dd c "1.prems"(5,6) this] False ne
    show ?thesis by (simp add: Let_def)
  qed
qed

lemma remaining_deps_counted:
  "counted (map edge_pair edges) {} (set (map pn_node_id nodes)) (remaining_deps nodes edges)"
proof -
  let ?f = "foldl (\<lambda>m (n :: PhaseNode). AList.update (pn_node_id n) (incoming edges (pn_node_id n)) m)"
  have "distinct (map fst rem) \<Longrightarrow> distinct (map fst (?f rem ns))" for rem ns
    by (induction ns arbitrary: rem) (simp_all add: distinct_update)
  moreover have "map_of (?f rem ns) w = (if w \<in> pn_node_id ` set ns then Some (incoming edges w) else map_of rem w)" for rem ns w
    by (induction ns arbitrary: rem) (auto simp: update_conv')
  moreover have "pending_into (map edge_pair edges) {} w = incoming edges w" for w
    by (simp add: pending_into_def incoming_def filter_map edge_pair_def comp_def)
  ultimately show ?thesis by (simp add: counted_def remaining_deps_def)
qed

section \<open>Longest paths\<close>

fun is_walk :: "(string \<times> string) list \<Rightarrow> string list \<Rightarrow> bool" where
  "is_walk E [] = False"
| "is_walk E [v] = True"
| "is_walk E (u # v # p) = ((u, v) \<in> set E \<and> is_walk E (v # p))"

lemma is_walk_snoc: "p \<noteq> [] \<Longrightarrow> is_walk E (p @ [v]) \<longleftrightarrow> is_walk E p \<and> (last p, v) \<in> set E"
  by (induction E p rule: is_walk.induct) auto

definition walk_ms :: "PhaseNode list \<Rightarrow> string list \<Rightarrow> nat" where
  "walk_ms nodes p = sum_list (map (\<lambda>v. unat (duration_of nodes v)) p)"

text \<open>The best predecessor, when no sum wraps around.\<close>

lemma best_incoming_ok:
  assumes "\<forall>u \<in> set sources. \<exists>l. longest u = Some l \<and> unat l + unat len < 2 ^ 64"
    and "best_incoming longest len sources = (best, bp)"
  shows "unat len \<le> unat best \<and> (\<forall>u \<in> set sources. unat (the (longest u)) + unat len \<le> unat best) \<and>
    (case bp of None \<Rightarrow> best = len | Some u \<Rightarrow> u \<in> set sources \<and> unat best = unat (the (longest u)) + unat len)"
  using assms
proof (induction sources arbitrary: best bp rule: rev_induct)
  case Nil
  then show ?case by (simp add: best_incoming_def)
next
  case (snoc u sources)
  obtain b0 p0 where B: "best_incoming longest len sources = (b0, p0)" by fastforce
  have IH: "unat len \<le> unat b0" "\<forall>u \<in> set sources. unat (the (longest u)) + unat len \<le> unat b0"
      "case p0 of None \<Rightarrow> b0 = len | Some u \<Rightarrow> u \<in> set sources \<and> unat b0 = unat (the (longest u)) + unat len"
    using snoc.IH [OF _ B] snoc.prems(1) by auto
  obtain l where l: "longest u = Some l" "unat l + unat len < 2 ^ 64" using snoc.prems(1) by auto
  have sum: "unat (l + len) = unat l + unat len" using l(2) by (simp add: unat_add_lem [symmetric])
  have step: "(best, bp) = (if l + len > b0 then (l + len, Some u) else (b0, p0))"
    using snoc.prems(2) B l(1) by (simp add: best_incoming_def better_pred_def split: if_splits)
  show ?case
  proof (cases "l + len > b0")
    case True
    then have "unat b0 < unat l + unat len" using sum by (simp add: word_less_nat_alt)
    moreover have "best = l + len" "bp = Some u" using step True by auto
    ultimately show ?thesis using IH l sum by fastforce
  next
    case False
    then have "unat l + unat len \<le> unat b0" using sum by (simp add: word_less_nat_alt not_less)
    moreover have "best = b0" "bp = p0" using step False by auto
    ultimately show ?thesis using IH l by (auto split: option.splits)
  qed
qed

definition sources_of :: "PhaseEdge list \<Rightarrow> string \<Rightarrow> string list" where
  "sources_of edges v = map pe_from_node_id (filter (\<lambda>e. pe_to_node_id e = v) edges)"

lemma set_sources_of: "u \<in> set (sources_of edges v) \<longleftrightarrow> (u, v) \<in> set (map edge_pair edges)"
  by (auto simp: sources_of_def edge_pair_def)

text \<open>What the loop knows of the nodes visited so far.\<close>

definition dp_ok :: "PhaseNode list \<Rightarrow> PhaseEdge list \<Rightarrow> string list \<Rightarrow> longest_paths \<Rightarrow> bool" where
  "dp_ok nodes edges seen lp \<longleftrightarrow>
     (\<forall>v. lp_longest_to lp v \<noteq> None \<longleftrightarrow> v \<in> set seen) \<and>
     (\<forall>v \<in> set seen. unat (the (lp_longest_to lp v)) \<le> walk_ms nodes seen) \<and>
     (\<forall>xs v ys. seen = xs @ v # ys \<longrightarrow>
        unat (duration_of nodes v) \<le> unat (the (lp_longest_to lp v)) \<and>
        (\<forall>u. (u, v) \<in> set (map edge_pair edges) \<longrightarrow>
           unat (the (lp_longest_to lp u)) + unat (duration_of nodes v) \<le> unat (the (lp_longest_to lp v))) \<and>
        (case lp_predecessor lp v of
           None \<Rightarrow> False
         | Some None \<Rightarrow> unat (the (lp_longest_to lp v)) = unat (duration_of nodes v)
         | Some (Some u) \<Rightarrow> u \<in> set xs \<and> (u, v) \<in> set (map edge_pair edges) \<and>
             unat (the (lp_longest_to lp v)) = unat (the (lp_longest_to lp u)) + unat (duration_of nodes v)))"

lemma dp_visit:
  assumes ok: "dp_ok nodes edges seen lp" and fresh: "v \<notin> set seen"
    and src: "\<forall>u. (u, v) \<in> set (map edge_pair edges) \<longrightarrow> u \<in> set seen"
    and into: "\<forall>w \<in> set seen. (v, w) \<notin> set (map edge_pair edges)"
    and room: "walk_ms nodes (seen @ [v]) < 2 ^ 64"
  shows "dp_ok nodes edges (seen @ [v]) (visit_node nodes edges lp v)"
proof -
  let ?L = "\<lambda>w. unat (the (lp_longest_to lp w))" and ?d = "unat (duration_of nodes v)"
  obtain best bp where B: "best_incoming (lp_longest_to lp) (duration_of nodes v) (sources_of edges v) = (best, bp)" by fastforce
  have dom: "lp_longest_to lp w \<noteq> None \<longleftrightarrow> w \<in> set seen" for w using ok by (simp add: dp_ok_def)
  have le: "?L w \<le> walk_ms nodes seen" if "w \<in> set seen" for w using ok that by (simp add: dp_ok_def)
  have "\<forall>u \<in> set (sources_of edges v). \<exists>l. lp_longest_to lp u = Some l \<and> unat l + ?d < 2 ^ 64"
  proof
    fix u assume "u \<in> set (sources_of edges v)"
    then have "u \<in> set seen" using src set_sources_of by blast
    then show "\<exists>l. lp_longest_to lp u = Some l \<and> unat l + ?d < 2 ^ 64"
      using dom [of u] le [of u] room by (auto simp: walk_ms_def)
  qed
  from best_incoming_ok [OF this B]
  have b: "?d \<le> unat best" "u \<in> set (sources_of edges v) \<Longrightarrow> ?L u + ?d \<le> unat best"
      "case bp of None \<Rightarrow> best = duration_of nodes v | Some u \<Rightarrow> u \<in> set (sources_of edges v) \<and> unat best = ?L u + ?d" for u
    by auto
  have bound: "unat best \<le> walk_ms nodes (seen @ [v])"
    using b(3) le src set_sources_of [of _ edges v] by (auto simp: walk_ms_def split: option.splits)
  let ?lp = "visit_node nodes edges lp v"
  have lp: "lp_longest_to ?lp = (lp_longest_to lp)(v \<mapsto> best)" "lp_predecessor ?lp = (lp_predecessor lp)(v \<mapsto> bp)"
    using B by (simp_all add: visit_node_def sources_of_def)
  show ?thesis
    unfolding dp_ok_def lp
  proof (intro conjI allI impI ballI)
    fix w show "((lp_longest_to lp)(v \<mapsto> best)) w \<noteq> None \<longleftrightarrow> w \<in> set (seen @ [v])" using dom [of w] by auto
  next
    fix w assume "w \<in> set (seen @ [v])"
    then show "unat (the (((lp_longest_to lp)(v \<mapsto> best)) w)) \<le> walk_ms nodes (seen @ [v])"
      using bound le [of w] by (auto simp: walk_ms_def)
  next
    fix xs w ys assume s: "seen @ [v] = xs @ w # ys"
    let ?M = "(lp_longest_to lp)(v \<mapsto> best)"
    have "unat (duration_of nodes w) \<le> unat (the (?M w)) \<and>
      (\<forall>u. (u, w) \<in> set (map edge_pair edges) \<longrightarrow> unat (the (?M u)) + unat (duration_of nodes w) \<le> unat (the (?M w))) \<and>
      (case ((lp_predecessor lp)(v \<mapsto> bp)) w of None \<Rightarrow> False
       | Some None \<Rightarrow> unat (the (?M w)) = unat (duration_of nodes w)
       | Some (Some u) \<Rightarrow> u \<in> set xs \<and> (u, w) \<in> set (map edge_pair edges) \<and>
           unat (the (?M w)) = unat (the (?M u)) + unat (duration_of nodes w))"
    proof (cases ys rule: rev_cases)
      case Nil
      then have new: "w = v" "xs = seen" using s by simp_all
      have "u \<noteq> v" if "(u, v) \<in> set (map edge_pair edges)" for u using src that fresh by blast
      then show ?thesis
        unfolding new using b src set_sources_of [of _ edges v] by (auto simp del: set_map split: option.splits)
    next
      case (snoc zs z)
      then have old: "seen = xs @ w # zs" "w \<noteq> v" using s fresh by auto
      have "u \<noteq> v" if "(u, w) \<in> set (map edge_pair edges)" for u using into that old(1) by auto
      moreover have "v \<notin> set xs" using fresh old(1) by simp
      ultimately show ?thesis
        using ok [unfolded dp_ok_def, THEN conjunct2, THEN conjunct2, rule_format, OF old(1)] old(2)
        by (auto simp del: set_map split: option.splits)
    qed
    then show "unat (duration_of nodes w) \<le> unat (the (?M w))"
      "(u, w) \<in> set (map edge_pair edges) \<Longrightarrow> unat (the (?M u)) + unat (duration_of nodes w) \<le> unat (the (?M w))"
      "case ((lp_predecessor lp)(v \<mapsto> bp)) w of None \<Rightarrow> False
       | Some None \<Rightarrow> unat (the (?M w)) = unat (duration_of nodes w)
       | Some (Some u) \<Rightarrow> u \<in> set xs \<and> (u, w) \<in> set (map edge_pair edges) \<and>
           unat (the (?M w)) = unat (the (?M u)) + unat (duration_of nodes w)" for u
      by blast+
  qed
qed

lemma walk_ms_append: "walk_ms nodes (xs @ ys) = walk_ms nodes xs + walk_ms nodes ys"
  by (simp add: walk_ms_def)

lemma dp_prefix:
  assumes "distinct (seen @ rest)" "in_order (map edge_pair edges) (seen @ rest)" "walk_ms nodes (seen @ rest) < 2 ^ 64"
    and "lp_longest_to lp0 = Map.empty" "lp_predecessor lp0 = Map.empty"
  shows "dp_ok nodes edges seen (foldl (visit_node nodes edges) lp0 seen)"
  using assms(1-3)
proof (induction seen arbitrary: rest rule: rev_induct)
  case Nil
  then show ?case using assms(4) by (simp add: dp_ok_def)
next
  case (snoc v seen)
  have ok: "dp_ok nodes edges seen (foldl (visit_node nodes edges) lp0 seen)"
    using snoc.IH [of "v # rest"] snoc.prems by simp
  have src: "u \<in> set xs" if "(seen @ [v]) @ rest = xs @ w # ys" "(u, w) \<in> set (map edge_pair edges)" for u w xs ys
    using snoc.prems(2) that unfolding in_order_def by blast
  have into: "(v, w) \<notin> set (map edge_pair edges)" if w: "w \<in> set seen" for w
  proof
    assume e: "(v, w) \<in> set (map edge_pair edges)"
    obtain xs ys where "seen = xs @ w # ys" using w by (meson split_list)
    with src [of xs w "ys @ v # rest" v] e snoc.prems(1) show False by auto
  qed
  have "dp_ok nodes edges (seen @ [v]) (visit_node nodes edges (foldl (visit_node nodes edges) lp0 seen) v)"
  proof (rule dp_visit [OF ok])
    show "v \<notin> set seen" using snoc.prems(1) by simp
    show "\<forall>u. (u, v) \<in> set (map edge_pair edges) \<longrightarrow> u \<in> set seen" using src [of seen v rest] by simp
    show "\<forall>w \<in> set seen. (v, w) \<notin> set (map edge_pair edges)" using into by blast
    show "walk_ms nodes (seen @ [v]) < 2 ^ 64" using snoc.prems(3) unfolding walk_ms_append by linarith
  qed
  then show ?case by simp
qed

lemma max_prefix:
  assumes lp0: "lp0 = \<lparr>lp_longest_to = Map.empty, lp_predecessor = Map.empty, lp_max_len = 0, lp_max_node = m0\<rparr>"
    and "distinct seen"
  shows "let lp = foldl (visit_node nodes edges) lp0 seen in
    (\<forall>v \<in> set seen. the (lp_longest_to lp v) \<le> lp_max_len lp) \<and>
    (if lp_max_len lp = 0 then lp_max_node lp = m0 else lp_max_node lp \<in> set seen \<and> lp_longest_to lp (lp_max_node lp) = Some (lp_max_len lp))"
  using assms(2)
proof (induction seen rule: rev_induct)
  case (snoc v seen)
  let ?lp = "foldl (visit_node nodes edges) lp0 seen"
  obtain best bp where B: "best_incoming (lp_longest_to ?lp) (duration_of nodes v) (map pe_from_node_id (filter (\<lambda>e. pe_to_node_id e = v) edges)) = (best, bp)"
    by fastforce
  have lp: "visit_node nodes edges ?lp v = \<lparr>lp_longest_to = (lp_longest_to ?lp)(v \<mapsto> best), lp_predecessor = (lp_predecessor ?lp)(v \<mapsto> bp),
      lp_max_len = (if best > lp_max_len ?lp then best else lp_max_len ?lp),
      lp_max_node = (if best > lp_max_len ?lp then v else lp_max_node ?lp)\<rparr>"
    using B by (simp add: visit_node_def)
  have IH: "\<forall>w \<in> set seen. the (lp_longest_to ?lp w) \<le> lp_max_len ?lp"
      "if lp_max_len ?lp = 0 then lp_max_node ?lp = m0 else lp_max_node ?lp \<in> set seen \<and> lp_longest_to ?lp (lp_max_node ?lp) = Some (lp_max_len ?lp)"
    using snoc by (simp_all add: Let_def)
  show ?case
  proof (cases "best > lp_max_len ?lp")
    case True
    then have "best \<noteq> 0" using word_not_simps(1) by auto
    then show ?thesis using True IH(1) snoc.prems by (auto simp: Let_def lp intro: order.trans [OF _ less_imp_le])
  next
    case False
    then show ?thesis using IH snoc.prems by (auto simp: Let_def lp not_less split: if_splits)
  qed
qed (simp add: lp0)

lemma walk_back_ok:
  assumes dp: "dp_ok nodes edges order lp" and split: "order = xs @ v # ys" and fuel: "length xs < fuel"
  shows "\<exists>p. walk_back fuel (lp_predecessor lp) v acc = Some (p @ acc) \<and> is_walk (map edge_pair edges) p \<and>
    last p = v \<and> set p \<subseteq> set order \<and> walk_ms nodes p = unat (the (lp_longest_to lp v))"
  using split fuel
proof (induction fuel arbitrary: xs v ys acc)
  case (Suc fuel)
  have v: "case lp_predecessor lp v of
           None \<Rightarrow> False
         | Some None \<Rightarrow> unat (the (lp_longest_to lp v)) = unat (duration_of nodes v)
         | Some (Some u) \<Rightarrow> u \<in> set xs \<and> (u, v) \<in> set (map edge_pair edges) \<and>
             unat (the (lp_longest_to lp v)) = unat (the (lp_longest_to lp u)) + unat (duration_of nodes v)"
    using dp [unfolded dp_ok_def, THEN conjunct2, THEN conjunct2, rule_format, OF Suc.prems(1)] by blast
  show ?case
  proof (cases "lp_predecessor lp v")
    case None
    then show ?thesis using v by simp
  next
    case (Some q)
    show ?thesis
    proof (cases q)
      case None
      then show ?thesis using v Some Suc.prems(1) by (intro exI [of _ "[v]"]) (simp add: walk_ms_def)
    next
      case (Some u)
      then have u: "u \<in> set xs" "(u, v) \<in> set (map edge_pair edges)"
          "unat (the (lp_longest_to lp v)) = unat (the (lp_longest_to lp u)) + unat (duration_of nodes v)"
        using v \<open>lp_predecessor lp v = Some q\<close> by simp_all
      obtain as bs where xs: "xs = as @ u # bs" using u(1) by (meson split_list)
      have "order = as @ u # (bs @ v # ys)" "length as < fuel" using xs Suc.prems by simp_all
      from Suc.IH [OF this, of "v # acc"] obtain p where p: "walk_back fuel (lp_predecessor lp) u (v # acc) = Some (p @ v # acc)"
          "is_walk (map edge_pair edges) p" "last p = u" "set p \<subseteq> set order" "walk_ms nodes p = unat (the (lp_longest_to lp u))"
        by blast
      have "p \<noteq> []" using p(2) by auto
      then have "is_walk (map edge_pair edges) (p @ [v])" using p(2,3) u(2) by (simp add: is_walk_snoc)
      then show ?thesis
        using p u(3) Some \<open>lp_predecessor lp v = Some q\<close> Suc.prems(1)
        by (intro exI [of _ "p @ [v]"]) (simp add: walk_ms_append walk_ms_def)
    qed
  qed
qed simp

lemma walk_bounded:
  assumes dp: "dp_ok nodes edges order lp" and "is_walk (map edge_pair edges) p" "set p \<subseteq> set order"
  shows "walk_ms nodes p \<le> unat (the (lp_longest_to lp (last p)))"
  using assms(2,3)
proof (induction p rule: rev_induct)
  case (snoc v p)
  have "v \<in> set order" using snoc.prems(2) by simp
  then obtain xs ys where o: "order = xs @ v # ys" by (meson split_list)
  note d = dp [unfolded dp_ok_def, THEN conjunct2, THEN conjunct2, rule_format, OF o]
  show ?case
  proof (cases "p = []")
    case True
    then show ?thesis using d by (simp add: walk_ms_def)
  next
    case False
    then have "is_walk (map edge_pair edges) p" "(last p, v) \<in> set (map edge_pair edges)"
      using snoc.prems(1) by (simp_all add: is_walk_snoc)
    then show ?thesis using snoc.IH snoc.prems(2) d by (fastforce simp: walk_ms_append walk_ms_def)
  qed
qed simp

lemma unat_sum_list:
  "sum_list (map unat (xs :: u64 list)) < 2 ^ 64 \<Longrightarrow> unat (sum_list xs) = sum_list (map unat xs)"
proof (induction xs)
  case (Cons x xs)
  then have "unat (sum_list xs) = sum_list (map unat xs)" by simp
  with Cons.prems show ?case using unat_add_lem [of x "sum_list xs"] by simp
qed simp

lemma estimate_duration_walk:
  assumes "set p \<subseteq> set (map pn_node_id nodes)" "walk_ms nodes p < 2 ^ 64"
  shows "unat (estimate_duration p nodes) = walk_ms nodes p"
proof -
  have "map (\<lambda>n. ucast (pc_estimated_duration_ms (pn_config n))) (List.map_filter (\<lambda>v. find (\<lambda>n. pn_node_id n = v) nodes) q) =
      map (duration_of nodes) q" if "set q \<subseteq> set (map pn_node_id nodes)" for q
    using that
  proof (induction q)
    case (Cons v q)
    then obtain n where "find (\<lambda>n. pn_node_id n = v) nodes = Some n"
      by (cases "find (\<lambda>n. pn_node_id n = v) nodes") (auto simp: find_None_iff)
    then show ?case using Cons by (simp add: map_filter_simps duration_of_def)
  qed (simp add: map_filter_simps)
  then have "estimate_duration p nodes = sum_list (map (duration_of nodes) p)"
    using assms(1) unfolding estimate_duration_def by metis
  then show ?thesis using unat_sum_list [of "map (duration_of nodes) p"] assms(2) by (simp add: walk_ms_def comp_def)
qed

text \<open>The longest walk, found from the order of the second topological sort.\<close>

lemma critical_path_longest:
  assumes ord: "traversal ord" and ids: "distinct (map pn_node_id nodes)" "nodes \<noteq> []"
    and inside: "fst ` set (map edge_pair edges) \<subseteq> set (map pn_node_id nodes)"
      "snd ` set (map edge_pair edges) \<subseteq> set (map pn_node_id nodes)"
    and acyc: "acyclic (set (map edge_pair edges))"
    and room: "walk_ms nodes (map pn_node_id nodes) < 2 ^ 64"
  shows "\<exists>path. compute_critical_path ord nodes edges = Some path \<and> is_walk (map edge_pair edges) path \<and>
    set path \<subseteq> set (map pn_node_id nodes) \<and> unat (estimate_duration path nodes) = walk_ms nodes path \<and>
    (\<forall>p. is_walk (map edge_pair edges) p \<longrightarrow> set p \<subseteq> set (map pn_node_id nodes) \<longrightarrow> walk_ms nodes p \<le> walk_ms nodes path)"
proof -
  let ?g = "adjacency nodes edges" and ?V = "set (map pn_node_id nodes)"
  have keys: "fst ` set (snd ?g) = ?V" using represents_keys [OF adjacency_represents, of nodes edges] inside(2) by blast
  obtain order where K: "kahn (fst ?g) (snd ?g) (zero_degree ord (snd ?g)) [] = Some order"
      and o: "distinct order" "in_order (map edge_pair edges) order"
    using phase_graph.kahn_order [OF ord, of nodes edges] by blast
  have V: "set order = ?V"
    using phase_graph.kahn_complete [OF ord K] inside acyc unfolding keys by blast
  then have "mset order = mset (map pn_node_id nodes)" using o(1) ids(1) set_eq_iff_mset_eq_distinct by blast
  then have "mset (map (\<lambda>v. unat (duration_of nodes v)) order) = mset (map (\<lambda>v. unat (duration_of nodes v)) (map pn_node_id nodes))"
    by (metis mset_map)
  then have "walk_ms nodes order = walk_ms nodes (map pn_node_id nodes)" unfolding walk_ms_def by (metis sum_mset_sum_list)
  with room have room': "walk_ms nodes order < 2 ^ 64" by simp
  obtain m0 rest where order: "order = m0 # rest" using V ids(2) by (cases order) auto
  let ?lp = "longest_paths_of nodes edges order"
  have lp: "?lp = foldl (visit_node nodes edges) \<lparr>lp_longest_to = Map.empty, lp_predecessor = Map.empty, lp_max_len = 0, lp_max_node = m0\<rparr> order"
    by (simp add: longest_paths_of_def order)
  have dp: "dp_ok nodes edges order ?lp" unfolding lp using dp_prefix [of order "[]"] o room' by simp
  have mx: "\<forall>v \<in> set order. the (lp_longest_to ?lp v) \<le> lp_max_len ?lp"
      "if lp_max_len ?lp = 0 then lp_max_node ?lp = m0 else lp_max_node ?lp \<in> set order \<and> lp_longest_to ?lp (lp_max_node ?lp) = Some (lp_max_len ?lp)"
    using max_prefix [OF refl o(1), of nodes edges m0] unfolding lp by (simp_all add: Let_def)
  have node: "lp_max_node ?lp \<in> set order" using mx(2) order by (auto split: if_splits)
  have best: "the (lp_longest_to ?lp v) \<le> the (lp_longest_to ?lp (lp_max_node ?lp))" if "v \<in> set order" for v
    using mx that order by (auto split: if_splits)
  obtain xs ys where split: "order = xs @ lp_max_node ?lp # ys" using node by (meson split_list)
  have fuel: "length xs < Suc (length order)" using arg_cong [OF split, of length] by simp
  obtain path where p: "walk_back (Suc (length order)) (lp_predecessor ?lp) (lp_max_node ?lp) [] = Some path"
      "is_walk (map edge_pair edges) path" "set path \<subseteq> set order"
      "walk_ms nodes path = unat (the (lp_longest_to ?lp (lp_max_node ?lp)))"
    using walk_back_ok [OF dp split fuel, of "[]"] by auto
  have C: "compute_critical_path ord nodes edges = Some path"
    using K p(1) by (simp add: compute_critical_path_def case_prod_unfold Let_def)
  have le: "walk_ms nodes q \<le> walk_ms nodes path" if "is_walk (map edge_pair edges) q" "set q \<subseteq> ?V" for q
  proof -
    have "last q \<in> set order" using that V by (cases q rule: rev_cases) auto
    then show ?thesis
      using walk_bounded [OF dp that(1)] that(2) V best [of "last q"] p(4) by (simp add: word_le_nat_alt)
  qed
  have "walk_ms nodes path \<le> walk_ms nodes order"
    using dp node p(4) unfolding dp_ok_def by metis
  then have "unat (estimate_duration path nodes) = walk_ms nodes path"
    using estimate_duration_walk p(3) room' V by simp
  then show ?thesis using C p le V by blast
qed

section \<open>The names of the phase nodes\<close>

definition plain_kinds :: "string list" where
  "plain_kinds =
     [''think'', ''retrieve'', ''checkpoint'', ''tool'', ''compensate'', ''tokenize'', ''generate'', ''verify'',
      ''approval'', ''commit'']"

definition node_kinds :: "AgentProgramCompiler \<Rightarrow> AgentStep \<Rightarrow> string list" where
  "node_kinds co step =
     (case as_step_type step of
        ST_Think \<Rightarrow> [''think''] | ST_Retrieve \<Rightarrow> [''retrieve'']
      | ST_ToolCall \<Rightarrow> (if co_auto_checkpoint co \<and> as_has_side_effects step then [''checkpoint''] else []) @ [''tool''] @
          (if as_side_effects_reversible step then [''compensate''] else [])
      | ST_Generate \<Rightarrow> [''tokenize'', ''generate''] | ST_Verify \<Rightarrow> [''verify''] | ST_Approval \<Rightarrow> [''approval'']
      | ST_Commit \<Rightarrow> [''commit''] | ST_Compensate \<Rightarrow> [''compensate'']) @
     (if co_auto_verify co \<and> as_requires_verification step then [''auto-verify''] else [])"

lemma step_node_ids: "map pn_node_id (step_to_phase_nodes co step) = map (\<lambda>k. as_id step @ CHR ''-'' # k) (node_kinds co step)"
  by (cases "as_step_type step") (simp_all add: step_to_phase_nodes_def node_kinds_def tool_nodes_def phase_node_def)

lemma node_kinds_facts:
  "distinct (node_kinds co step)" "set (node_kinds co step) \<subseteq> set (''auto-verify'' # plain_kinds)" "node_kinds co step \<noteq> []"
proof -
  show "distinct (node_kinds co step)" by (cases "as_step_type step") (auto simp: node_kinds_def)
  show "set (node_kinds co step) \<subseteq> set (''auto-verify'' # plain_kinds)"
    by (cases "as_step_type step") (auto simp: node_kinds_def plain_kinds_def)
  show "node_kinds co step \<noteq> []" by (cases "as_step_type step") (simp_all add: node_kinds_def)
qed

lemma plain_kinds_no_dash: "k \<in> set plain_kinds \<Longrightarrow> CHR ''-'' \<notin> set k"
  by (auto simp: plain_kinds_def)

lemma last_dash_unique:
  "a @ c # k = b @ c # l \<Longrightarrow> c \<notin> set k \<Longrightarrow> c \<notin> set l \<Longrightarrow> a = b \<and> k = l"
  by (auto simp: append_eq_append_conv2 append_eq_Cons_conv Cons_eq_append_conv)

lemma node_id_inj:
  assumes "a @ CHR ''-'' # k = b @ CHR ''-'' # l"
    and "k \<in> set (''auto-verify'' # plain_kinds)" "l \<in> set (''auto-verify'' # plain_kinds)"
    and "\<not> suffix ''-auto'' a" "\<not> suffix ''-auto'' b"
  shows "a = b \<and> k = l"
proof -
  have v: "CHR ''-'' \<notin> set ''verify''" by simp
  consider "k = ''auto-verify''" "l = ''auto-verify''" | "k = ''auto-verify''" "l \<in> set plain_kinds"
    | "k \<in> set plain_kinds" "l = ''auto-verify''" | "k \<in> set plain_kinds" "l \<in> set plain_kinds"
    using assms(2,3) by auto
  then show ?thesis
  proof cases
    case 2
    then have "(a @ ''-auto'') @ CHR ''-'' # ''verify'' = b @ CHR ''-'' # l" using assms(1) by simp
    from last_dash_unique [OF this v plain_kinds_no_dash [OF 2(2)]] assms(5) show ?thesis by (auto simp: suffix_def)
  next
    case 3
    then have "(b @ ''-auto'') @ CHR ''-'' # ''verify'' = a @ CHR ''-'' # k" using assms(1) by simp
    from last_dash_unique [OF this v plain_kinds_no_dash [OF 3(1)]] assms(4) show ?thesis by (auto simp: suffix_def)
  next
    case 4
    then show ?thesis using last_dash_unique [OF assms(1)] plain_kinds_no_dash by blast
  qed (use assms(1) in auto)
qed

lemma step_ids_disjoint:
  assumes "as_id s \<noteq> as_id t" "\<not> suffix ''-auto'' (as_id s)" "\<not> suffix ''-auto'' (as_id t)"
  shows "set (map pn_node_id (step_to_phase_nodes co s)) \<inter> set (map pn_node_id (step_to_phase_nodes co t)) = {}"
proof (rule ccontr)
  assume "\<not> ?thesis"
  then obtain k l where "k \<in> set (node_kinds co s)" "l \<in> set (node_kinds co t)"
      "as_id s @ CHR ''-'' # k = as_id t @ CHR ''-'' # l" unfolding step_node_ids by auto
  then show False using node_id_inj [of "as_id s" k "as_id t" l] node_kinds_facts(2) assms by blast
qed

lemma build_graph_nodes:
  assumes "build_graph co steps order gb = Some gb'" "distinct order" "\<forall>s \<in> set steps. \<not> suffix ''-auto'' (as_id s)"
    and "distinct (map pn_node_id (gb_nodes gb))"
    and "\<forall>s \<in> set steps. as_id s \<in> set order \<longrightarrow>
      set (map pn_node_id (gb_nodes gb)) \<inter> set (map pn_node_id (step_to_phase_nodes co s)) = {}"
  shows "distinct (map pn_node_id (gb_nodes gb')) \<and> (order \<noteq> [] \<longrightarrow> gb_nodes gb' \<noteq> []) \<and> length (gb_nodes gb) \<le> length (gb_nodes gb')"
  using assms
proof (induction order arbitrary: gb)
  case (Cons sid order)
  obtain s where s: "find (\<lambda>s. as_id s = sid) steps = Some s" "build_graph co steps order (add_step co gb s) = Some gb'"
    using Cons.prems(1) by (auto split: option.splits)
  then have sid: "s \<in> set steps" "as_id s = sid" by (auto simp: find_Some_iff)
  have nodes: "gb_nodes (add_step co gb s) = gb_nodes gb @ step_to_phase_nodes co s" by (simp add: add_step_def Let_def)
  have d: "distinct (map pn_node_id (gb_nodes (add_step co gb s)))"
    using Cons.prems(4,5) sid node_kinds_facts(1) [of co s] unfolding nodes
    by (simp add: step_node_ids distinct_map inj_on_def)
  have "set (map pn_node_id (gb_nodes (add_step co gb s))) \<inter> set (map pn_node_id (step_to_phase_nodes co t)) = {}"
    if "t \<in> set steps" "as_id t \<in> set order" for t
  proof -
    have "as_id s \<noteq> as_id t" using Cons.prems(2) that(2) sid(2) by auto
    then have "set (map pn_node_id (step_to_phase_nodes co s)) \<inter> set (map pn_node_id (step_to_phase_nodes co t)) = {}"
      using step_ids_disjoint Cons.prems(3) that(1) sid(1) by blast
    moreover have "set (map pn_node_id (gb_nodes gb)) \<inter> set (map pn_node_id (step_to_phase_nodes co t)) = {}"
      using Cons.prems(5) that by simp
    ultimately show ?thesis unfolding nodes map_append set_append by blast
  qed
  with Cons.IH [OF s(2) _ Cons.prems(3) d] Cons.prems(2) node_kinds_facts(3) [of co s] step_node_ids [of co s]
  show ?case unfolding nodes by (auto simp: Suc_le_eq)
qed simp

section \<open>Compilation ends\<close>

text \<open>Whatever the durations are, a recorded predecessor was visited before its node, so the walk back ends.\<close>

definition back_ok :: "string list \<Rightarrow> longest_paths \<Rightarrow> bool" where
  "back_ok seen lp \<longleftrightarrow>
     (\<forall>v. lp_longest_to lp v \<noteq> None \<longrightarrow> v \<in> set seen) \<and>
     (\<forall>v u. lp_predecessor lp v = Some (Some u) \<longrightarrow> (\<exists>xs ys. seen = xs @ v # ys \<and> u \<in> set xs))"

lemma best_incoming_known:
  "best_incoming longest len sources = (best, Some u) \<Longrightarrow> longest u \<noteq> None"
proof -
  have "snd (foldl (better_pred longest len) acc sources) = Some u \<Longrightarrow> (\<And>w. snd acc = Some w \<Longrightarrow> longest w \<noteq> None) \<Longrightarrow>
    longest u \<noteq> None" for acc
  proof (induction sources arbitrary: acc)
    case (Cons s sources)
    show ?case
    proof (rule Cons.IH)
      show "snd (foldl (better_pred longest len) (better_pred longest len acc s) sources) = Some u" using Cons.prems(1) by simp
      show "longest w \<noteq> None" if "snd (better_pred longest len acc s) = Some w" for w
        using that Cons.prems(2) by (auto simp: better_pred_def split: option.splits if_splits)
    qed
  qed simp
  from this [of "(len, None)"] show "best_incoming longest len sources = (best, Some u) \<Longrightarrow> longest u \<noteq> None"
    by (simp add: best_incoming_def)
qed

lemma back_ok_visit:
  assumes ok: "back_ok seen lp" and fresh: "v \<notin> set seen"
  shows "back_ok (seen @ [v]) (visit_node nodes edges lp v)"
proof -
  obtain best bp where b: "best_incoming (lp_longest_to lp) (duration_of nodes v)
      (map pe_from_node_id (filter (\<lambda>e. pe_to_node_id e = v) edges)) = (best, bp)" by fastforce
  have keep: "\<exists>xs ys. seen @ [v] = xs @ w # ys \<and> u \<in> set xs" if "lp_predecessor lp w = Some (Some u)" for w u
    using ok that unfolding back_ok_def by (metis append_Cons append_assoc)
  have "\<exists>xs ys. seen @ [v] = xs @ v # ys \<and> u \<in> set xs" if "bp = Some u" for u
    using best_incoming_known [of _ _ _ best u] b that ok unfolding back_ok_def by blast
  with keep ok show ?thesis unfolding back_ok_def visit_node_def b by (auto split: if_splits)
qed

lemma back_ok_prefix:
  assumes "distinct seen" "lp_longest_to lp0 = Map.empty" "lp_predecessor lp0 = Map.empty"
  shows "back_ok seen (foldl (visit_node nodes edges) lp0 seen)"
  using assms
proof (induction seen rule: rev_induct)
  case Nil
  then show ?case by (simp add: back_ok_def)
next
  case (snoc v seen)
  then show ?case using back_ok_visit [of seen _ v] by simp
qed

lemma walk_back_ends:
  assumes ok: "back_ok order lp" and dist: "distinct order" and fuel: "\<forall>xs ys. order = xs @ v # ys \<longrightarrow> length xs < fuel" "0 < fuel"
  shows "walk_back fuel (lp_predecessor lp) v acc \<noteq> None"
  using fuel
proof (induction fuel arbitrary: v acc)
  case (Suc fuel)
  show ?case
  proof (cases "lp_predecessor lp v")
    case (Some r)
    show ?thesis
    proof (cases r)
      case (Some u)
      obtain xs ys where s: "order = xs @ v # ys" "u \<in> set xs"
        using ok \<open>lp_predecessor lp v = Some r\<close> Some unfolding back_ok_def by blast
      then have l: "length xs \<le> fuel" using Suc.prems(1) by (simp add: less_Suc_eq_le)
      have "length as < length xs" if eq: "order = as @ u # bs" for as bs
      proof -
        obtain cs ds where "xs = cs @ u # ds" using s(2) by (meson split_list)
        then have "order = cs @ u # ds @ v # ys" using s(1) by simp
        with eq dist have "as = cs" by (metis append_Cons_eq_iff distinct_append not_distinct_conv_prefix distinct.simps(2))
        with \<open>xs = cs @ u # ds\<close> show ?thesis by simp
      qed
      with l s(2) have "walk_back fuel (lp_predecessor lp) u (v # acc) \<noteq> None"
        by (intro Suc.IH) (force, cases xs, auto)
      with Some \<open>lp_predecessor lp v = Some r\<close> show ?thesis by simp
    qed (use Some in simp)
  qed simp
qed simp

lemma critical_path_ends:
  assumes "traversal ord" shows "compute_critical_path ord nodes edges \<noteq> None"
proof -
  obtain order where o: "kahn (fst (adjacency nodes edges)) (snd (adjacency nodes edges))
      (zero_degree ord (snd (adjacency nodes edges))) [] = Some order" "distinct order"
    using phase_graph.kahn_order [OF assms] by blast
  have b: "back_ok order (longest_paths_of nodes edges order)"
    unfolding longest_paths_of_def by (rule back_ok_prefix [OF o(2)]) simp_all
  have "walk_back (Suc (length order)) (lp_predecessor (longest_paths_of nodes edges order))
      (lp_max_node (longest_paths_of nodes edges order)) [] \<noteq> None"
    by (rule walk_back_ends [OF b o(2)]) (auto dest: arg_cong [where f = length])
  then show ?thesis unfolding compute_critical_path_def using o(1) by (simp add: case_prod_beta Let_def)
qed

section \<open>What the compiler promises\<close>

definition orders_ok :: "hash_orders \<Rightarrow> bool" where
  "orders_ok ho \<longleftrightarrow> traversal (ho_in_degree ho) \<and> traversal (ho_remaining ho) \<and> traversal (ho_critical ho)"

definition sortable :: "AgentStep list \<Rightarrow> bool" where
  "sortable steps \<longleftrightarrow> distinct (map as_id steps) \<and> acyclic (set (dependencies steps))"

lemma topological_sort_total:
  assumes "traversal ord" "validate_steps steps = Inr ()"
  shows "\<exists>r. topological_sort ord steps = Some r \<and>
    (case r of Inr order \<Rightarrow> step_order steps order \<and> sortable steps
     | Inl err \<Rightarrow> err = CE_CircularDependency ''cycle detected in dependency graph'' \<and> \<not> sortable steps)"
proof -
  have inside: "fst ` set (dependencies steps) \<subseteq> set (map as_id steps)"
    using assms(2) unfolding validate_steps_ok set_dependencies by fastforce
  obtain order where o: "topological_sort ord steps =
      Some (if length order \<noteq> length steps then Inl (CE_CircularDependency ''cycle detected in dependency graph'') else Inr order)"
    "distinct order" "in_order (dependencies steps) order" "set order \<subseteq> set (map as_id steps)"
    "set order = set (map as_id steps) \<longleftrightarrow> acyclic (set (dependencies steps))"
    using topological_sort_result [OF assms(1), of steps] inside by blast
  have "length order = length steps \<longleftrightarrow> sortable steps"
    using full_length [OF o(2,4)] o(5) unfolding sortable_def by blast
  then show ?thesis using o unfolding step_order_def sortable_def by auto
qed

text \<open>The shape of a compiled program.\<close>

lemma compile_Inr:
  assumes ho: "orders_ok ho" and c: "compile ho co steps = Some (Inr g)"
  shows "\<exists>order gb. validate_steps steps = Inr () \<and> topological_sort (ho_in_degree ho) steps = Some (Inr order) \<and>
    step_order steps order \<and> sortable steps \<and>
    build_graph co steps order \<lparr>gb_nodes = [], gb_edges = [], gb_node_map = Map.empty\<rparr> = Some gb \<and> build_ok gb \<and>
    agent_graph ho steps (gb_nodes gb) (gb_edges gb) = Some g"
proof -
  have v: "validate_steps steps = Inr ()" using c unfolding compile_def by (auto split: sum.splits)
  obtain r where r: "topological_sort (ho_in_degree ho) steps = Some r"
    "case r of Inr order \<Rightarrow> step_order steps order \<and> sortable steps
     | Inl err \<Rightarrow> err = CE_CircularDependency ''cycle detected in dependency graph'' \<and> \<not> sortable steps"
    using topological_sort_total [OF _ v] ho unfolding orders_ok_def by blast
  obtain order where o: "r = Inr order" using c v r(1) unfolding compile_def by (cases r) auto
  have so: "step_order steps order" "sortable steps" using r(2) o by simp_all
  have start: "build_ok \<lparr>gb_nodes = [], gb_edges = [], gb_node_map = Map.empty\<rparr>" by (simp add: build_ok_def leads_forward_def)
  obtain gb where gb: "build_graph co steps order \<lparr>gb_nodes = [], gb_edges = [], gb_node_map = Map.empty\<rparr> = Some gb" "build_ok gb"
    using build_graph_ok [OF start, of order steps co] so(1) unfolding step_order_def by blast
  have "agent_graph ho steps (gb_nodes gb) (gb_edges gb) = Some g"
    using c v r(1) o gb(1) unfolding compile_def by auto
  with v r(1) o so gb show ?thesis by blast
qed

lemma agent_graph_parts:
  assumes "agent_graph ho steps nodes edges = Some g"
  shows "eg_nodes (ag_graph g) = nodes" "eg_edges (ag_graph g) = edges"
    and "compute_critical_path (ho_critical ho) nodes edges = Some (ag_critical_path g)"
    and "ag_parallel_groups g = find_parallel_groups (ho_remaining ho) nodes edges"
    and "ag_critical_path_duration_ms g = estimate_duration (ag_critical_path g) nodes"
  using assms unfolding agent_graph_def by auto

abbreviation graph_ids :: "AgentExecutionGraph \<Rightarrow> string list" where
  "graph_ids g \<equiv> map pn_node_id (eg_nodes (ag_graph g))"

abbreviation graph_edges :: "AgentExecutionGraph \<Rightarrow> (string \<times> string) list" where
  "graph_edges g \<equiv> map edge_pair (eg_edges (ag_graph g))"

lemma compiled_graph_forward:
  assumes "orders_ok ho" "compile ho co steps = Some (Inr g)"
  shows "leads_forward (graph_ids g) (eg_edges (ag_graph g))"
  using compile_Inr [OF assms] agent_graph_parts(1,2) unfolding build_ok_def by metis

text \<open>Names that do not end in \<open>-auto\<close> give every phase node a name of its own.\<close>

lemma compiled_graph_ids:
  assumes "orders_ok ho" "compile ho co steps = Some (Inr g)" "list_all (\<lambda>s. \<not> suffix ''-auto'' (as_id s)) steps"
  shows "distinct (graph_ids g)" "steps \<noteq> [] \<Longrightarrow> eg_nodes (ag_graph g) \<noteq> []"
proof -
  obtain order gb where o: "step_order steps order"
      "build_graph co steps order \<lparr>gb_nodes = [], gb_edges = [], gb_node_map = Map.empty\<rparr> = Some gb"
      "agent_graph ho steps (gb_nodes gb) (gb_edges gb) = Some g"
    using compile_Inr [OF assms(1,2)] by blast
  have "distinct (map pn_node_id (gb_nodes gb)) \<and> (order \<noteq> [] \<longrightarrow> gb_nodes gb \<noteq> [])"
    using build_graph_nodes [OF o(2)] o(1) assms(3) unfolding step_order_def list_all_iff by simp
  moreover have "steps \<noteq> [] \<Longrightarrow> order \<noteq> []" using o(1) unfolding step_order_def by auto
  ultimately show "distinct (graph_ids g)" "steps \<noteq> [] \<Longrightarrow> eg_nodes (ag_graph g) \<noteq> []"
    unfolding agent_graph_parts(1) [OF o(3)] by blast+
qed

lemma compiled_critical_path:
  assumes ho: "orders_ok ho" and c: "compile ho co steps = Some (Inr g)"
    and ids: "list_all (\<lambda>s. \<not> suffix ''-auto'' (as_id s)) steps" "steps \<noteq> []"
    and room: "walk_ms (eg_nodes (ag_graph g)) (graph_ids g) < 2 ^ 64"
  shows "is_walk (graph_edges g) (ag_critical_path g)" "set (ag_critical_path g) \<subseteq> set (graph_ids g)"
    and "unat (ag_critical_path_duration_ms g) = walk_ms (eg_nodes (ag_graph g)) (ag_critical_path g)"
    and "is_walk (graph_edges g) p \<Longrightarrow> set p \<subseteq> set (graph_ids g) \<Longrightarrow>
      walk_ms (eg_nodes (ag_graph g)) p \<le> walk_ms (eg_nodes (ag_graph g)) (ag_critical_path g)"
proof -
  obtain nodes edges where a: "agent_graph ho steps nodes edges = Some g" using compile_Inr [OF ho c] by blast
  note parts = agent_graph_parts [OF a]
  note fw = compiled_graph_forward [OF ho c] and d = compiled_graph_ids [OF ho c ids(1)]
  obtain path where p: "compute_critical_path (ho_critical ho) nodes edges = Some path"
      "is_walk (map edge_pair edges) path" "set path \<subseteq> set (map pn_node_id nodes)"
      "unat (estimate_duration path nodes) = walk_ms nodes path"
      "\<forall>p. is_walk (map edge_pair edges) p \<longrightarrow> set p \<subseteq> set (map pn_node_id nodes) \<longrightarrow> walk_ms nodes p \<le> walk_ms nodes path"
    using critical_path_longest [of "ho_critical ho" nodes edges] ho d(1) d(2) [OF ids(2)] forward_nodes [OF fw]
      forward_acyclic [OF fw d(1)] room unfolding parts(1,2) orders_ok_def by blast
  then have "ag_critical_path g = path" using parts(3) by simp
  then show "is_walk (graph_edges g) (ag_critical_path g)" "set (ag_critical_path g) \<subseteq> set (graph_ids g)"
      "unat (ag_critical_path_duration_ms g) = walk_ms (eg_nodes (ag_graph g)) (ag_critical_path g)"
      "is_walk (graph_edges g) p \<Longrightarrow> set p \<subseteq> set (graph_ids g) \<Longrightarrow>
        walk_ms (eg_nodes (ag_graph g)) p \<le> walk_ms (eg_nodes (ag_graph g)) (ag_critical_path g)"
    using p unfolding parts(1,2,5) by simp_all
qed

lemma is_walk_trancl: "is_walk E (u # p) \<Longrightarrow> v \<in> set p \<Longrightarrow> (u, v) \<in> (set E)\<^sup>+"
proof (induction p arbitrary: u)
  case (Cons w p)
  then have "(u, w) \<in> set E" "is_walk E (w # p)" by simp_all
  with Cons show ?case by (cases "v = w") (auto intro: trancl_into_trancl2)
qed simp

lemma is_walk_distinct: "is_walk E p \<Longrightarrow> acyclic (set E) \<Longrightarrow> distinct p"
proof (induction p)
  case (Cons u p)
  then have "u \<notin> set p" using is_walk_trancl [OF Cons.prems(1), of u] unfolding acyclic_def by blast
  with Cons show ?case by (cases p) auto
qed simp

lemma build_graph_origin:
  "build_graph co steps order gb = Some gb' \<Longrightarrow>
     set (gb_nodes gb') \<subseteq> set (gb_nodes gb) \<union> (\<Union>s \<in> set steps. set (step_to_phase_nodes co s))"
proof (induction order arbitrary: gb)
  case (Cons sid order)
  then obtain s where s: "find (\<lambda>s. as_id s = sid) steps = Some s" "build_graph co steps order (add_step co gb s) = Some gb'"
    by (auto split: option.splits)
  then have "s \<in> set steps" by (auto simp: find_Some_iff)
  moreover have "gb_nodes (add_step co gb s) = gb_nodes gb @ step_to_phase_nodes co s" by (simp add: add_step_def Let_def)
  ultimately show ?case using Cons.IH [OF s(2)] by auto
qed simp

lemma verifier_names:
  assumes "n \<in> set (step_to_phase_nodes co s)" shows "pc_quality_verifier_phase_id (pn_config n) \<noteq> Some ''approval''"
proof -
  have "as_id s @ ''-verify-retry'' \<noteq> ''approval''" "as_id s @ ''-verifier'' \<noteq> ''approval''"
    by (auto dest: arg_cong [where f = last])
  with assms show ?thesis
    by (cases "as_step_type s")
       (auto simp: step_to_phase_nodes_def tool_nodes_def phase_node_def phase_config_default_def split: if_splits)
qed

text \<open>The dependency sort of validated steps always returns.  It returns an order, in which every step stands
  exactly once and after its dependencies, exactly when the names of the steps are pairwise different and the
  dependencies have no cycle; otherwise it returns the error of a circular dependency (a duplicate name is reported
  as a cycle).\<close>

theorem topological_sort_exact:
  assumes "traversal ord" "validate_steps steps = Inr ()"
  shows "\<exists>r. topological_sort ord steps = Some r \<and>
    (case r of
       Inr order \<Rightarrow> step_order steps order \<and> sortable steps
     | Inl err \<Rightarrow> err = CE_CircularDependency ''cycle detected in dependency graph'' \<and> \<not> sortable steps)"
  using assms by (rule topological_sort_total)




text \<open>The execution order of a scheduled program contains every phase node of its graph exactly once: the
  critical path, followed by the other nodes by decreasing weight.\<close>

theorem execution_order_is_complete:
  assumes "orders_ok ho" "schedule_program ho steps = Some (Inr sp)" "list_all (\<lambda>s. \<not> suffix ''-auto'' (as_id s)) steps" "steps \<noteq> []"
    and "walk_ms (eg_nodes (ag_graph (sp_graph sp))) (graph_ids (sp_graph sp)) < 2 ^ 64"
  shows "mset (sp_execution_order sp) = mset (graph_ids (sp_graph sp)) \<and>
    take (length (ag_critical_path (sp_graph sp))) (sp_execution_order sp) = ag_critical_path (sp_graph sp) \<and>
    sorted_wrt (\<lambda>v w. priority_weight (sp_graph sp) v \<ge> priority_weight (sp_graph sp) w)
      (drop (length (ag_critical_path (sp_graph sp))) (sp_execution_order sp))"
proof -
  let ?g = "sp_graph sp" let ?rest = "filter (\<lambda>v. v \<notin> set (ag_critical_path ?g)) (graph_ids ?g)"
  have c: "compile ho compiler_default steps = Some (Inr ?g)"
    and o: "sp_execution_order sp = ag_critical_path ?g @ sort_key (\<lambda>v. - int (priority_weight ?g v)) ?rest"
    using assms(2) unfolding schedule_program_def by (auto simp: Let_def split: option.splits sum.splits)
  note d = compiled_graph_ids(1) [OF assms(1) c assms(3)]
  note path = compiled_critical_path(1,2) [OF assms(1) c assms(3-5)]
  have "distinct (ag_critical_path ?g)"
    using is_walk_distinct [OF path(1)] forward_acyclic [OF compiled_graph_forward [OF assms(1) c] d] by blast
  then have "distinct (ag_critical_path ?g @ ?rest)" "set (ag_critical_path ?g @ ?rest) = set (graph_ids ?g)"
    using d path(2) by auto
  then have "mset (ag_critical_path ?g @ ?rest) = mset (graph_ids ?g)" using d by (metis set_eq_iff_mset_eq_distinct)
  moreover have "sorted_wrt (\<lambda>v w. priority_weight ?g v \<ge> priority_weight ?g w) (sort_key (\<lambda>v. - int (priority_weight ?g v)) ?rest)"
    using sorted_sort_key [of "\<lambda>v. - int (priority_weight ?g v)" ?rest] by (simp add: sorted_wrt_map)
  ultimately show ?thesis unfolding o by simp
qed

text \<open>No compiled program has an approval boundary: the counter looks for a verifier phase named
  \<open>approval\<close>, which no phase node ever carries, not even the node of an approval step.\<close>

theorem approval_boundaries_never_counted:
  assumes "orders_ok ho" "compile ho co steps = Some (Inr g)"
  shows "ag_approval_boundaries g = 0"
proof -
  obtain order gb where gb: "build_graph co steps order \<lparr>gb_nodes = [], gb_edges = [], gb_node_map = Map.empty\<rparr> = Some gb"
      "agent_graph ho steps (gb_nodes gb) (gb_edges gb) = Some g"
    using compile_Inr [OF assms] by blast
  have "pc_quality_verifier_phase_id (pn_config n) \<noteq> Some ''approval''" if "n \<in> set (gb_nodes gb)" for n
    using build_graph_origin [OF gb(1)] that verifier_names by auto
  then have "filter (\<lambda>n. pc_quality_verifier_phase_id (pn_config n) = Some ''approval'') (gb_nodes gb) = []" by (simp add: filter_empty_conv)
  with gb(2) show ?thesis unfolding agent_graph_def by auto
qed

section \<open>A program\<close>

definition demo_step :: "string \<Rightarrow> AgentStepType \<Rightarrow> string list \<Rightarrow> AgentStep" where
  "demo_step name ty deps =
     \<lparr>as_id = name, as_description = name, as_step_type = ty, as_depends_on = deps, as_model_calls = 1,
      as_requires_strong_model = False, as_tools = [], as_estimated_input_tokens = 0, as_estimated_output_tokens = 0,
      as_has_side_effects = False, as_side_effects_reversible = False, as_required_capabilities = [],
      as_requires_approval = False, as_requires_verification = False, as_max_retries = 3\<rparr>"

definition demo_steps :: "AgentStep list" where
  "demo_steps =
     [demo_step ''a'' ST_Think [], demo_step ''b'' ST_Retrieve [], demo_step ''c'' ST_Retrieve [''a'', ''b'']]"

definition demo_orders :: hash_orders where
  "demo_orders = \<lparr>ho_in_degree = (\<lambda>xs. xs), ho_remaining = (\<lambda>xs. xs), ho_critical = (\<lambda>xs. xs)\<rparr>"

lemmas demo_program_defs = demo_steps_def demo_step_def demo_orders_def

lemma demo_orders_ok: "orders_ok demo_orders"
  by (simp add: orders_ok_def demo_orders_def traversal_def)

lemma demo_validates: "validate_steps demo_steps = Inr ()"
  by (simp add: demo_program_defs validate_steps_def validate_step_def)

lemmas graph_building_defs =
  dependency_graph_def step_edges_def add_vertex_def add_edge_def or_default_def or_zero_def push_to_def count_up_def
  zero_degree_def

lemma demo_sorted: "topological_sort (ho_in_degree demo_orders) demo_steps = Some (Inr [''a'', ''b'', ''c''])"
  by (simp add: topological_sort_def demo_program_defs graph_building_defs)

lemmas node_building_defs =
  add_step_def step_to_phase_nodes_def phase_node_def phase_config_default_def generation_ms_def success_edge_def

definition demo_build :: graph_build where
  "demo_build = the (build_graph compiler_default demo_steps [''a'', ''b'', ''c''] \<lparr>gb_nodes = [], gb_edges = [], gb_node_map = Map.empty\<rparr>)"

lemma demo_built:
  "build_graph compiler_default demo_steps [''a'', ''b'', ''c''] \<lparr>gb_nodes = [], gb_edges = [], gb_node_map = Map.empty\<rparr> = Some demo_build"
  by (simp add: demo_build_def demo_program_defs)

lemma demo_build_nodes:
  "map (\<lambda>n. (pn_node_id n, pc_estimated_duration_ms (pn_config n))) (gb_nodes demo_build) =
     [(''a-think'', 0), (''b-retrieve'', 500), (''c-retrieve'', 500)]"
  by (simp add: demo_build_def demo_program_defs node_building_defs compiler_default_def Let_def)

lemma demo_build_edges: "gb_edges demo_build = [success_edge ''a-think'' ''c-retrieve'', success_edge ''b-retrieve'' ''c-retrieve'']"
  by (simp add: demo_build_def demo_program_defs node_building_defs compiler_default_def Let_def)

lemma demo_duration:
  "duration_of (gb_nodes demo_build) ''a-think'' = 0" "duration_of (gb_nodes demo_build) ''b-retrieve'' = 500"
  "duration_of (gb_nodes demo_build) ''c-retrieve'' = 500"
  by (simp_all add: duration_of_def demo_build_def demo_program_defs node_building_defs compiler_default_def Let_def)

lemma demo_ids: "map pn_node_id (gb_nodes demo_build) = [''a-think'', ''b-retrieve'', ''c-retrieve'']"
  using arg_cong [OF demo_build_nodes, of "map fst"] by (simp add: comp_def)

lemma demo_edges: "map edge_pair (gb_edges demo_build) = [(''a-think'', ''c-retrieve''), (''b-retrieve'', ''c-retrieve'')]"
  by (simp add: demo_build_edges edge_pair_def success_edge_def)

lemma demo_kahn:
  "kahn (fst (adjacency (gb_nodes demo_build) (gb_edges demo_build))) (snd (adjacency (gb_nodes demo_build) (gb_edges demo_build)))
     (zero_degree (\<lambda>xs. xs) (snd (adjacency (gb_nodes demo_build) (gb_edges demo_build)))) [] =
   Some [''a-think'', ''b-retrieve'', ''c-retrieve'']"
  unfolding adjacency_def demo_ids demo_edges by (simp add: graph_building_defs)

lemma demo_path:
  "compute_critical_path (ho_critical demo_orders) (gb_nodes demo_build) (gb_edges demo_build) = Some [''b-retrieve'', ''c-retrieve'']"
proof -
  have "compute_critical_path (\<lambda>xs. xs) (gb_nodes demo_build) (gb_edges demo_build) =
    (let lp = longest_paths_of (gb_nodes demo_build) (gb_edges demo_build) [''a-think'', ''b-retrieve'', ''c-retrieve'']
     in walk_back (Suc (length [''a-think'', ''b-retrieve'', ''c-retrieve''])) (lp_predecessor lp) (lp_max_node lp) [])"
    unfolding compute_critical_path_def case_prod_beta demo_kahn Option.bind.simps ..
  then show ?thesis
    by (simp add: longest_paths_of_def visit_node_def best_incoming_def better_pred_def demo_duration
        demo_build_edges success_edge_def Let_def demo_orders_def)
qed

definition demo_graph :: AgentExecutionGraph where
  "demo_graph = the (agent_graph demo_orders demo_steps (gb_nodes demo_build) (gb_edges demo_build))"

lemma demo_agent_graph: "agent_graph demo_orders demo_steps (gb_nodes demo_build) (gb_edges demo_build) = Some demo_graph"
  unfolding demo_graph_def agent_graph_def by (simp add: demo_path)

lemma demo_compiles: "compile demo_orders compiler_default demo_steps = Some (Inr demo_graph)"
  by (simp only: compile_def demo_validates demo_sorted demo_built demo_agent_graph sum.case option.case option.map)

lemmas demo_graph_parts = agent_graph_parts [OF demo_agent_graph]

lemma demo_graph_path: "ag_critical_path demo_graph = [''b-retrieve'', ''c-retrieve'']"
  using demo_graph_parts(3) by (simp add: demo_path)

lemma demo_names: "list_all (\<lambda>s. \<not> suffix ''-auto'' (as_id s)) demo_steps" "demo_steps \<noteq> []"
  by (simp_all add: demo_program_defs suffix_def)

lemma demo_room: "walk_ms (eg_nodes (ag_graph demo_graph)) (graph_ids demo_graph) < 2 ^ 64"
  unfolding demo_graph_parts(1) demo_ids walk_ms_def by (simp add: demo_duration)

definition demo_scheduled :: ScheduledProgram where
  "demo_scheduled = \<lparr>sp_graph = demo_graph, sp_execution_order = [''b-retrieve'', ''c-retrieve'', ''a-think'']\<rparr>"

lemma demo_schedules: "schedule_program demo_orders demo_steps = Some (Inr demo_scheduled)"
  unfolding schedule_program_def demo_compiles demo_scheduled_def
  by (simp add: demo_graph_path demo_graph_parts(1) demo_ids Let_def)

theorem topological_sort_exact_witness:
  "\<exists>r. topological_sort (ho_in_degree demo_orders) demo_steps = Some r \<and>
    (case r of
       Inr order \<Rightarrow> step_order demo_steps order \<and> sortable demo_steps
     | Inl err \<Rightarrow> err = CE_CircularDependency ''cycle detected in dependency graph'' \<and> \<not> sortable demo_steps)"
  using topological_sort_exact [OF _ demo_validates] demo_orders_ok unfolding orders_ok_def by blast




theorem execution_order_is_complete_witness:
  "mset (sp_execution_order demo_scheduled) = mset [''a-think'', ''b-retrieve'', ''c-retrieve'']"
  using execution_order_is_complete [OF demo_orders_ok demo_schedules demo_names] demo_room
  by (simp only: demo_scheduled_def ScheduledProgram.simps demo_graph_parts(1) demo_ids)

theorem approval_boundaries_never_counted_witness: "ag_approval_boundaries demo_graph = 0"
  by (rule approval_boundaries_never_counted [OF demo_orders_ok demo_compiles])

text \<open>The execution order of a scheduled program does not respect the edges of its graph: of a program whose third
  step needs both others, the step off the critical path comes last, after the step that depends on it.\<close>

theorem execution_order_ignores_dependencies:
  "\<exists>sp. schedule_program demo_orders demo_steps = Some (Inr sp) \<and> (''a-think'', ''c-retrieve'') \<in> set (graph_edges (sp_graph sp)) \<and>
     \<not> in_order (graph_edges (sp_graph sp)) (sp_execution_order sp)"
proof -
  have "''a-think'' \<in> set [''b-retrieve'']"
    if "in_order [(''a-think'', ''c-retrieve''), (''b-retrieve'', ''c-retrieve'')] ([''b-retrieve''] @ ''c-retrieve'' # [''a-think''])"
    by (rule that [unfolded in_order_def, rule_format, OF refl]) simp
  then have "\<not> in_order (graph_edges demo_graph) [''b-retrieve'', ''c-retrieve'', ''a-think'']"
    unfolding demo_graph_parts(2) demo_edges by auto
  then show ?thesis
    using demo_schedules by (intro exI [of _ demo_scheduled]) (simp add: demo_scheduled_def demo_graph_parts(2) demo_edges)
qed

end
