(* ===== verification/Open_Runtime.thy ===== *)
theory Open_Runtime
  imports Runtime_API Resource_Vectors "HOL-Library.Char_ord" "HOL-Library.List_Lexorder"
begin

text \<open>
  The extension contracts of the open runtime (crates/nous-types/src/open_runtime.rs) and the registry of
  foundation contracts (crates/nous-types/src/contracts.rs): the declarative records, the validation of each of
  them, and the capability and resource graphs.

  A validation is a list of checks, of which the first error is the result.  A map of which only look-ups matter is
  a HOL map; one that is traversed in key order is an association list with increasing keys.  Paths are those of
  Unix: a component is what stands between two slashes, and there are no prefixes.
\<close>

section \<open>Checks\<close>

record RuntimeContractError =
  rce_contract :: string
  rce_field :: string
  rce_message :: string

type_synonym contract_result = "RuntimeContractError + unit"

definition contract_error :: "string \<Rightarrow> string \<Rightarrow> string \<Rightarrow> RuntimeContractError" where
  "contract_error contract field message = \<lparr>rce_contract = contract, rce_field = field, rce_message = message\<rparr>"

definition contract_error_display :: "RuntimeContractError \<Rightarrow> string" where
  "contract_error_display e =
     ''invalid '' @ rce_contract e @ '' field '' @ quoted (rce_field e) @ '': '' @ rce_message e"

definition contract_check :: "bool \<Rightarrow> string \<Rightarrow> string \<Rightarrow> string \<Rightarrow> contract_result" where
  "contract_check ok contract field message = (if ok then Inr () else Inl (contract_error contract field message))"

fun checks :: "('e + unit) list \<Rightarrow> 'e + unit" where
  "checks [] = Inr ()"
| "checks (c # cs) = (case c of Inl e \<Rightarrow> Inl e | Inr _ \<Rightarrow> checks cs)"

definition contract_required :: "string \<Rightarrow> string \<Rightarrow> string \<Rightarrow> contract_result" where
  "contract_required contract field v = contract_check (trim v \<noteq> []) contract field ''must not be empty''"

definition OPEN_RUNTIME_SCHEMA_VERSION :: u32 where
  "OPEN_RUNTIME_SCHEMA_VERSION = 1"

definition contract_schema :: "string \<Rightarrow> u32 \<Rightarrow> contract_result" where
  "contract_schema contract version =
     contract_check (version = OPEN_RUNTIME_SCHEMA_VERSION) contract ''schema_version''
       (''expected '' @ show_nat (unat OPEN_RUNTIME_SCHEMA_VERSION) @ '', found '' @ show_nat (unat version))"

text \<open>\<open>str::split\<close> on one character.\<close>

fun split_char :: "char \<Rightarrow> string \<Rightarrow> string list" where
  "split_char d [] = [[]]"
| "split_char d (c # cs) =
     (if c = d then [] # split_char d cs
      else (case split_char d cs of [] \<Rightarrow> [[c]] | s # ss \<Rightarrow> (c # s) # ss))"

definition is_ascii_lowercase :: "char \<Rightarrow> bool" where
  "is_ascii_lowercase c \<longleftrightarrow> 97 \<le> (of_char c :: nat) \<and> (of_char c :: nat) \<le> 122"

definition is_ascii_uppercase :: "char \<Rightarrow> bool" where
  "is_ascii_uppercase c \<longleftrightarrow> 65 \<le> (of_char c :: nat) \<and> (of_char c :: nat) \<le> 90"

definition is_ascii_hexdigit :: "char \<Rightarrow> bool" where
  "is_ascii_hexdigit c \<longleftrightarrow>
     is_ascii_digit c \<or> (97 \<le> (of_char c :: nat) \<and> (of_char c :: nat) \<le> 102) \<or>
     (65 \<le> (of_char c :: nat) \<and> (of_char c :: nat) \<le> 70)"

definition name_segment :: "string \<Rightarrow> bool" where
  "name_segment s \<longleftrightarrow>
     s \<noteq> [] \<and> list_all (\<lambda>c. is_ascii_lowercase c \<or> is_ascii_digit c \<or> c = CHR ''_'' \<or> c = CHR ''-'') s"

definition capability_name :: "string \<Rightarrow> bool" where
  "capability_name v \<longleftrightarrow> list_all name_segment (split_char (CHR ''.'') v) \<and> CHR ''.'' \<in> set v"

definition valid_digest :: "string \<Rightarrow> bool" where
  "valid_digest d \<longleftrightarrow>
     length d = 71 \<and> starts_with d ''sha256:'' \<and>
     list_all (\<lambda>c. is_ascii_hexdigit c \<and> \<not> is_ascii_uppercase c) (drop 7 d)"

text \<open>\<open>Path::is_absolute\<close> and the parent components of \<open>Path::components\<close>.\<close>

definition path_is_absolute :: "string \<Rightarrow> bool" where
  "path_is_absolute p \<longleftrightarrow> starts_with p ''/''"

definition portable_reference :: "string \<Rightarrow> string \<Rightarrow> string \<Rightarrow> contract_result" where
  "portable_reference contract field v =
     contract_check (\<not> path_is_absolute v \<and> ''..'' \<notin> set (split_char (CHR ''/'') v)) contract field
       ''must be a portable relative path without parent traversal''"

section \<open>Contracts\<close>

record CapabilityContract =
  cc_schema_version :: u32
  cc_id :: string
  cc_version :: string
  cc_input_schema :: json
  cc_output_schema :: json
  cc_constraints :: "string \<rightharpoonup> json"
  cc_requirements :: "string \<rightharpoonup> json"
  cc_metadata :: "string \<rightharpoonup> string"

definition capability_contract_validate :: "CapabilityContract \<Rightarrow> contract_result" where
  "capability_contract_validate c =
     checks
       [contract_schema ''CapabilityContract'' (cc_schema_version c),
        contract_check (capability_name (cc_id c)) ''CapabilityContract'' ''id''
          ''must be a namespaced identifier such as reasoning.generate'',
        contract_required ''CapabilityContract'' ''version'' (cc_version c)]"

text \<open>The contracts of the macro \<open>simple_contract\<close>: what they share, and what each adds.\<close>

record simple_contract =
  sc_schema_version :: u32
  sc_id :: string
  sc_version :: string
  sc_metadata :: "string \<rightharpoonup> string"

definition simple_contract_validate :: "string \<Rightarrow> 'a simple_contract_scheme \<Rightarrow> contract_result" where
  "simple_contract_validate label c =
     checks
       [contract_schema label (sc_schema_version c), contract_required label ''id'' (sc_id c),
        contract_required label ''version'' (sc_version c)]"

record TaskContract = simple_contract +
  tc_capability :: string
  tc_input :: json
  tc_context_id :: string
  tc_policy_ids :: "string list"

record ProviderContract = simple_contract +
  prc_manifest :: string
  prc_capabilities :: "string list"
  prc_lifecycle :: "string list"

record ResourceContract = simple_contract +
  rsc_requirements :: ResourceVector
  rsc_labels :: "string \<rightharpoonup> string"

record ContextContract = simple_contract +
  cxc_workspace :: string
  cxc_trace_id :: string
  cxc_values :: "string \<rightharpoonup> json"

record ArtifactContract = simple_contract +
  ac_media_type :: string
  ac_location :: string
  ac_sha256 :: string
  ac_creator :: string

record PolicyContract = simple_contract +
  plc_rules :: "json list"
  plc_enforcement :: string

record IdentityContract = simple_contract +
  idc_principal :: string
  idc_roles :: "string list"

record NodeContract = simple_contract +
  nc_capabilities :: "string list"
  nc_resources :: ResourceVector
  nc_endpoint :: string

record WorkflowContract = simple_contract +
  wc_steps :: "string list"
  wc_edges :: "(string \<times> string) list"

record EventContract =
  evc_schema_version :: u32
  evc_id :: string
  evc_version :: string
  evc_event_type :: string
  evc_source :: string
  evc_timestamp :: string
  evc_payload :: json
  evc_metadata :: "string \<rightharpoonup> json"

definition event_contract_validate :: "EventContract \<Rightarrow> contract_result" where
  "event_contract_validate c =
     checks
       [contract_schema ''EventContract'' (evc_schema_version c), contract_required ''EventContract'' ''id'' (evc_id c),
        contract_required ''EventContract'' ''version'' (evc_version c),
        contract_required ''EventContract'' ''event_type'' (evc_event_type c),
        contract_required ''EventContract'' ''source'' (evc_source c)]"

section \<open>Models, providers and packs\<close>

datatype ModelKind =
    MK_Foundation | MK_Vision | MK_Speech | MK_Embedding | MK_Mathematical | MK_Statistical | MK_Optimization
  | MK_Control | MK_Simulation | MK_Analytical | MK_Custom

record ModelBackend =
  mb_kind :: string
  mb_entrypoint :: string
  mb_runtime :: string

record DeploymentSpec =
  ds_mode :: string
  ds_target :: string
  ds_replicas :: u32

record EvaluationSpec =
  ev_dataset :: string
  ev_metrics :: "string list"
  ev_thresholds :: "(string \<times> u64) list"

record ModelSpec =
  ms_schema_version :: u32
  ms_id :: string
  ms_name :: string
  ms_kind :: ModelKind
  ms_version :: string
  ms_capabilities :: "string list"
  ms_input_schema :: json
  ms_output_schema :: json
  ms_backend :: ModelBackend
  ms_resource_requirements :: ResourceVector
  ms_deployment :: DeploymentSpec
  ms_evaluation :: EvaluationSpec
  ms_artifacts :: "ArtifactContract list"
  ms_provenance :: "string \<rightharpoonup> string"
  ms_compatibility :: "string \<rightharpoonup> string"
  ms_security :: "string \<rightharpoonup> string"

definition model_spec_validate :: "ModelSpec \<Rightarrow> contract_result" where
  "model_spec_validate m =
     checks
       ([contract_schema ''ModelSpec'' (ms_schema_version m), contract_required ''ModelSpec'' ''id'' (ms_id m),
         contract_required ''ModelSpec'' ''name'' (ms_name m), contract_required ''ModelSpec'' ''version'' (ms_version m),
         contract_required ''ModelSpec'' ''backend.kind'' (mb_kind (ms_backend m)),
         (if mb_entrypoint (ms_backend m) = [] then Inr ()
          else portable_reference ''ModelSpec'' ''backend.entrypoint'' (mb_entrypoint (ms_backend m))),
         contract_check (ms_capabilities m \<noteq> [] \<and> list_all capability_name (ms_capabilities m)) ''ModelSpec'' ''capabilities''
           ''must contain valid namespaced capability identifiers''] @
        map (simple_contract_validate ''ArtifactContract'') (ms_artifacts m))"

record ProviderManifest =
  pm_schema_version :: u32
  pm_name :: string
  pm_version :: string
  pm_backend :: string
  pm_runtime_class :: string
  pm_entrypoint :: string
  pm_model :: string
  pm_endpoint :: string
  pm_credential_env :: string
  pm_capabilities :: "string list"
  pm_lifecycle :: "string list"
  pm_metadata :: "string \<rightharpoonup> string"

definition env_name_char :: "char \<Rightarrow> bool" where
  "env_name_char c \<longleftrightarrow> c = CHR ''_'' \<or> is_ascii_uppercase c \<or> is_ascii_digit c"

definition credential_env_ok :: "string \<Rightarrow> bool" where
  "credential_env_ok v \<longleftrightarrow>
     v = [] \<or> ((hd v = CHR ''_'' \<or> is_ascii_uppercase (hd v)) \<and> list_all env_name_char v)"

definition endpoint_ok :: "string \<Rightarrow> bool" where
  "endpoint_ok v \<longleftrightarrow> v = [] \<or> (CHR ''@'' \<notin> set v \<and> CHR ''?'' \<notin> set v \<and> CHR ''#'' \<notin> set v)"

definition required_lifecycle :: "string list" where
  "required_lifecycle = [''probe'', ''metadata'', ''capabilities'', ''health'', ''execute'', ''cancel'', ''shutdown'']"

definition provider_manifest_validate :: "ProviderManifest \<Rightarrow> contract_result" where
  "provider_manifest_validate m =
     checks
       ([contract_schema ''ProviderManifest'' (pm_schema_version m),
         contract_required ''ProviderManifest'' ''name'' (pm_name m),
         contract_required ''ProviderManifest'' ''version'' (pm_version m),
         contract_required ''ProviderManifest'' ''backend'' (pm_backend m),
         contract_check (list_all capability_name (pm_capabilities m)) ''ProviderManifest'' ''capabilities''
           ''contains an invalid capability identifier'',
         contract_check (credential_env_ok (pm_credential_env m)) ''ProviderManifest'' ''credential_env''
           ''must be an environment-variable name, not a secret'',
         contract_check (endpoint_ok (pm_endpoint m)) ''ProviderManifest'' ''endpoint''
           ''must not contain credentials, query parameters, or fragments''] @
        (if pm_backend m = ''external-process''
         then [contract_required ''ProviderManifest'' ''entrypoint'' (pm_entrypoint m),
               portable_reference ''ProviderManifest'' ''entrypoint'' (pm_entrypoint m),
               contract_check (list_all (\<lambda>operation. operation \<in> set (pm_lifecycle m)) required_lifecycle)
                 ''ProviderManifest'' ''lifecycle''
                 ''external providers must declare the complete Provider SDK v1 lifecycle'']
         else []))"

record PackManifest =
  pk_schema_version :: u32
  pk_name :: string
  pk_version :: string
  pk_description :: string
  pk_models :: "string list"
  pk_providers :: "string list"
  pk_workflows :: "string list"
  pk_policies :: "string list"
  pk_resources :: "string list"
  pk_compatibility :: "string \<rightharpoonup> string"
  pk_license :: string

definition pack_manifest_validate :: "PackManifest \<Rightarrow> contract_result" where
  "pack_manifest_validate m =
     checks
       ([contract_schema ''PackManifest'' (pk_schema_version m), contract_required ''PackManifest'' ''name'' (pk_name m),
         contract_required ''PackManifest'' ''version'' (pk_version m),
         contract_required ''PackManifest'' ''license'' (pk_license m)] @
        map (portable_reference ''PackManifest'' ''references'')
          (pk_models m @ pk_providers m @ pk_workflows m @ pk_policies m @ pk_resources m))"

section \<open>Extensions\<close>

record ExtensionCapabilityRequest =
  ecr_capability :: string
  ecr_access :: string
  ecr_scope :: "string list"
  ecr_reason :: string
  ecr_required :: bool

definition scope_ok :: "string list \<Rightarrow> bool" where
  "scope_ok scope \<longleftrightarrow> list_all (\<lambda>item. item \<noteq> [] \<and> CHR 0x00 \<notin> set item) scope"

definition capability_request_validate :: "ExtensionCapabilityRequest \<Rightarrow> contract_result" where
  "capability_request_validate r =
     checks
       [contract_check (capability_name (ecr_capability r)) ''ExtensionAdmissionRequest'' ''capability_requests.capability''
          ''must be a namespaced capability identifier'',
        contract_check (ecr_access r \<in> {''read'', ''write'', ''execute'', ''connect'', ''use''})
          ''ExtensionAdmissionRequest'' ''capability_requests.access'' ''must be read, write, execute, connect, or use'',
        contract_check (scope_ok (ecr_scope r)) ''ExtensionAdmissionRequest'' ''capability_requests.scope''
          ''must contain non-empty, NUL-free values'']"

record ExtensionAdmissionRequest =
  ear_schema_version :: u32
  ear_extension_id :: string
  ear_version :: string
  ear_content_digest :: string
  ear_source_format :: string
  ear_compatibility_level :: "8 word"
  ear_kinds :: "string list"
  ear_capability_requests :: "ExtensionCapabilityRequest list"
  ear_executor :: string
  ear_metadata :: "string \<rightharpoonup> string"

record ExtensionAdmissionDecision =
  ead_admitted :: bool
  ead_extension_id :: string
  ead_normalized_digest :: string
  ead_requested_capabilities :: "string list"
  ead_granted_capabilities :: "string list"
  ead_denied_capabilities :: "string list"
  ead_approval_required :: bool
  ead_executor_constraints :: "string \<rightharpoonup> string"
  ead_scope_constraints :: "string \<rightharpoonup> string list"
  ead_policy_version :: string
  ead_decision_reason :: string
  ead_receipt_id :: string

record ExtensionAuthorizationRequest =
  eau_admission :: ExtensionAdmissionRequest
  eau_admission_receipt_id :: string
  eau_approval_id :: string
  eau_approved_capabilities :: "string list"

record ExtensionExecutionRequest =
  eer_schema_version :: u32
  eer_operation_id :: string
  eer_extension_id :: string
  eer_content_digest :: string
  eer_authorization_receipt_id :: string
  eer_capability :: string
  eer_operation :: string
  eer_parameter_hash :: string
  eer_executor :: string
  eer_scope :: "string list"

record ExtensionExecutionPermit =
  eep_allowed :: bool
  eep_operation_id :: string
  eep_actor :: string
  eep_extension_id :: string
  eep_content_digest :: string
  eep_authorization_receipt_id :: string
  eep_capability :: string
  eep_operation :: string
  eep_parameter_hash :: string
  eep_executor :: string
  eep_policy_version :: string
  eep_decision_reason :: string
  eep_issued_at_us :: int
  eep_permit_id :: string

record ExtensionRevocationRequest =
  err_schema_version :: u32
  err_extension_id :: string
  err_content_digest :: string
  err_authorization_receipt_id :: string
  err_reason :: string

definition revocation_request_validate :: "ExtensionRevocationRequest \<Rightarrow> contract_result" where
  "revocation_request_validate r =
     checks
       [contract_schema ''ExtensionRevocationRequest'' (err_schema_version r),
        contract_required ''ExtensionRevocationRequest'' ''extension_id'' (err_extension_id r),
        contract_required ''ExtensionRevocationRequest'' ''authorization_receipt_id'' (err_authorization_receipt_id r),
        contract_check (valid_digest (err_content_digest r)) ''ExtensionRevocationRequest'' ''content_digest''
          ''must be a lowercase sha256 digest'']"

definition execution_request_validate :: "ExtensionExecutionRequest \<Rightarrow> contract_result" where
  "execution_request_validate r =
     checks
       [contract_schema ''ExtensionExecutionRequest'' (eer_schema_version r),
        contract_required ''ExtensionExecutionRequest'' ''operation_id'' (eer_operation_id r),
        contract_required ''ExtensionExecutionRequest'' ''extension_id'' (eer_extension_id r),
        contract_required ''ExtensionExecutionRequest'' ''authorization_receipt_id'' (eer_authorization_receipt_id r),
        contract_required ''ExtensionExecutionRequest'' ''operation'' (eer_operation r),
        contract_check (capability_name (eer_capability r)) ''ExtensionExecutionRequest'' ''capability''
          ''must be a namespaced capability identifier'',
        contract_check (valid_digest (eer_content_digest r)) ''ExtensionExecutionRequest'' ''content_digest''
          ''must be a lowercase sha256 digest'',
        contract_check (valid_digest (eer_parameter_hash r)) ''ExtensionExecutionRequest'' ''parameter_hash''
          ''must be a lowercase sha256 digest'',
        contract_check (scope_ok (eer_scope r)) ''ExtensionExecutionRequest'' ''scope''
          ''must contain non-empty, NUL-free values'']"

definition supply_chain_check :: "(string \<rightharpoonup> string) \<Rightarrow> string \<Rightarrow> contract_result" where
  "supply_chain_check metadata field =
     contract_check (valid_digest (case metadata field of None \<Rightarrow> [] | Some v \<Rightarrow> v))
       ''ExtensionAdmissionRequest'' ''metadata.supply_chain_digest'' (field @ '' must be a lowercase sha256 digest'')"

definition allowed_kinds :: "string list" where
  "allowed_kinds = [''skill'', ''tool'', ''plugin'', ''provider'', ''agent'', ''template'', ''pack'']"

definition admission_request_validate :: "ExtensionAdmissionRequest \<Rightarrow> contract_result" where
  "admission_request_validate r =
     checks
       ([contract_schema ''ExtensionAdmissionRequest'' (ear_schema_version r),
         contract_required ''ExtensionAdmissionRequest'' ''extension_id'' (ear_extension_id r),
         contract_required ''ExtensionAdmissionRequest'' ''version'' (ear_version r),
         contract_required ''ExtensionAdmissionRequest'' ''source_format'' (ear_source_format r),
         contract_check (ear_compatibility_level r \<le> 5) ''ExtensionAdmissionRequest'' ''compatibility_level''
           ''must be between C0 and C5'',
         contract_check (valid_digest (ear_content_digest r)) ''ExtensionAdmissionRequest'' ''content_digest''
           ''must be a lowercase sha256 digest'',
         contract_check (ear_metadata r ''authority'' = Some ''none'') ''ExtensionAdmissionRequest'' ''metadata.authority''
           ''must be none at admission'',
         contract_check (ear_metadata r ''supply_chain_verified'' = Some ''true'') ''ExtensionAdmissionRequest''
           ''metadata.supply_chain_verified'' ''must confirm local evidence verification''] @
        map (supply_chain_check (ear_metadata r))
          [''normalized_ir_digest'', ''sbom_digest'', ''provenance_digest'', ''signature_digest''] @
        [contract_check (ear_metadata r ''signature_status'' \<in> {Some ''Unsigned'', Some ''Verified''})
           ''ExtensionAdmissionRequest'' ''metadata.signature_status'' ''must be Unsigned or cryptographically Verified'',
         contract_check (ear_kinds r \<noteq> [] \<and> list_all (\<lambda>k. k \<in> set allowed_kinds) (ear_kinds r))
           ''ExtensionAdmissionRequest'' ''kinds'' ''must contain known extension kinds'',
         contract_check (distinct (ear_kinds r)) ''ExtensionAdmissionRequest'' ''kinds'' ''must not contain duplicates''] @
        map capability_request_validate (ear_capability_requests r) @
        [contract_check (\<not> (''plugin'' \<in> set (ear_kinds r) \<and> ear_executor r = [])) ''ExtensionAdmissionRequest'' ''executor''
           ''code-bearing plugins must select a governed executor class''])"

definition requested_capabilities :: "ExtensionAdmissionRequest \<Rightarrow> string list" where
  "requested_capabilities r = map ecr_capability (ear_capability_requests r)"

definition authorization_request_validate :: "ExtensionAuthorizationRequest \<Rightarrow> contract_result" where
  "authorization_request_validate r =
     checks
       [admission_request_validate (eau_admission r),
        contract_required ''ExtensionAuthorizationRequest'' ''admission_receipt_id'' (eau_admission_receipt_id r),
        contract_required ''ExtensionAuthorizationRequest'' ''approval_id'' (eau_approval_id r),
        contract_check (distinct (eau_approved_capabilities r) \<and>
            set (eau_approved_capabilities r) \<subseteq> set (requested_capabilities (eau_admission r)))
          ''ExtensionAuthorizationRequest'' ''approved_capabilities'' ''must be a unique subset of requested capabilities'']"

section \<open>Capability and resource graphs\<close>

text \<open>A \<open>BTreeMap\<close> that is traversed: an association list with increasing keys.\<close>

fun btree_insert :: "string \<Rightarrow> 'v \<Rightarrow> (string \<times> 'v) list \<Rightarrow> (string \<times> 'v) list" where
  "btree_insert k v [] = [(k, v)]"
| "btree_insert k v ((k', v') # m) =
     (if k < k' then (k, v) # (k', v') # m else if k = k' then (k, v) # m else (k', v') # btree_insert k v m)"

definition btree_ok :: "(string \<times> 'v) list \<Rightarrow> bool" where
  "btree_ok m \<longleftrightarrow> sorted_wrt (<) (map fst m)"

type_synonym CapabilityGraph = "(string \<times> string list) list"

definition advertise :: "string \<Rightarrow> string \<Rightarrow> CapabilityGraph \<Rightarrow> CapabilityGraph" where
  "advertise provider capability g =
     btree_insert capability
       (map fst (btree_insert provider () (map (\<lambda>p. (p, ())) (case map_of g capability of None \<Rightarrow> [] | Some ps \<Rightarrow> ps)))) g"

definition providers_for :: "CapabilityGraph \<Rightarrow> string \<Rightarrow> string list" where
  "providers_for g capability = (case map_of g capability of None \<Rightarrow> [] | Some ps \<Rightarrow> ps)"

type_synonym ResourceGraph = "(string \<times> ResourceVector) list"

definition feasible_nodes :: "ResourceGraph \<Rightarrow> ResourceVector \<Rightarrow> string list" where
  "feasible_nodes g required = map fst (filter (\<lambda>(node, capacity). fits_within required capacity) g)"

section \<open>Foundation contracts\<close>

datatype ContractId = NEC | NSO | NTE | NRP | NPA | NKI | NMP | NCT | NLC | NSE

record ContractDescriptor =
  cd_id :: ContractId
  cd_name :: string
  cd_version :: "16 word"
  cd_authority :: string

definition foundation_contract :: "ContractId \<Rightarrow> string \<Rightarrow> string \<Rightarrow> ContractDescriptor" where
  "foundation_contract i name authority = \<lparr>cd_id = i, cd_name = name, cd_version = 1, cd_authority = authority\<rparr>"

definition FOUNDATION_CONTRACTS :: "ContractDescriptor list" where
  "FOUNDATION_CONTRACTS =
     [foundation_contract NEC ''Nous Execution Contract'' ''nousd'',
      foundation_contract NSO ''Nous State Ownership'' ''nous-state journal'',
      foundation_contract NTE ''Nous Transactional Effects'' ''effect engine'',
      foundation_contract NRP ''Nous Resource Protocol'' ''resource and scheduler core'',
      foundation_contract NPA ''Nous Provider ABI'' ''provider host'',
      foundation_contract NKI ''Nous Kernel Interface'' ''nousd NKI server'',
      foundation_contract NMP ''Nous Micro Protocol'' ''Nous Micro runtime'',
      foundation_contract NCT ''Nous Credential Contract'' ''credential broker'',
      foundation_contract NLC ''Nous Learning Contract'' ''learning governance'',
      foundation_contract NSE ''Nous Safety Envelope'' ''safety gate'']"

section \<open>What a validation guarantees\<close>

lemma contract_check_ok [simp]: "contract_check ok c f m = Inr () \<longleftrightarrow> ok"
  by (simp add: contract_check_def)

lemma checks_ok: "checks cs = Inr () \<longleftrightarrow> list_all (\<lambda>c. c = Inr ()) cs"
  by (induction cs) (auto split: sum.splits)

lemma checks_append [simp]: "checks (xs @ ys) = (case checks xs of Inl e \<Rightarrow> Inl e | Inr _ \<Rightarrow> checks ys)"
  by (induction xs) (auto split: sum.splits)

lemma portable_reference_ok:
  "portable_reference c f v = Inr () \<longleftrightarrow> \<not> path_is_absolute v \<and> ''..'' \<notin> set (split_char (CHR ''/'') v)"
  by (simp add: portable_reference_def)

lemma authorization_request_ok:
  assumes "authorization_request_validate r = Inr ()"
  shows "admission_request_validate (eau_admission r) = Inr ()" "distinct (eau_approved_capabilities r)"
    and "set (eau_approved_capabilities r) \<subseteq> set (requested_capabilities (eau_admission r))"
  using assms by (simp_all add: authorization_request_validate_def checks_ok del: checks.simps)

lemma admission_request_ok:
  assumes "admission_request_validate r = Inr ()"
  shows "valid_digest (ear_content_digest r)" "ear_metadata r ''authority'' = Some ''none''" "ear_kinds r \<noteq> []"
    and "''plugin'' \<in> set (ear_kinds r) \<Longrightarrow> ear_executor r \<noteq> []"
    and "q \<in> set (ear_capability_requests r) \<Longrightarrow> capability_request_validate q = Inr ()"
proof -
  have all: "c \<in> set cs \<Longrightarrow> c = Inr ()" if "checks cs = Inr ()" for c cs
    using that by (simp add: checks_ok list_all_iff)
  note c = all [OF assms [unfolded admission_request_validate_def]]
  have "contract_check (valid_digest (ear_content_digest r)) ''ExtensionAdmissionRequest'' ''content_digest''
    ''must be a lowercase sha256 digest'' = Inr ()" by (rule c) simp
  then show "valid_digest (ear_content_digest r)" by simp
  have "contract_check (ear_metadata r ''authority'' = Some ''none'') ''ExtensionAdmissionRequest'' ''metadata.authority''
    ''must be none at admission'' = Inr ()" by (rule c) simp
  then show "ear_metadata r ''authority'' = Some ''none''" by simp
  have "contract_check (ear_kinds r \<noteq> [] \<and> list_all (\<lambda>k. k \<in> set allowed_kinds) (ear_kinds r))
    ''ExtensionAdmissionRequest'' ''kinds'' ''must contain known extension kinds'' = Inr ()" by (rule c) simp
  then show "ear_kinds r \<noteq> []" by simp
  have "contract_check (\<not> (''plugin'' \<in> set (ear_kinds r) \<and> ear_executor r = [])) ''ExtensionAdmissionRequest'' ''executor''
    ''code-bearing plugins must select a governed executor class'' = Inr ()" by (rule c) simp
  then show "''plugin'' \<in> set (ear_kinds r) \<Longrightarrow> ear_executor r \<noteq> []" by simp
  show "capability_request_validate q = Inr ()" if "q \<in> set (ear_capability_requests r)"
    by (rule c) (use that in simp)
qed

section \<open>Paths\<close>

text \<open>Where a path leads, from the directory \<open>root\<close>: the list of names below the root of the file system.\<close>

definition path_step :: "string list \<Rightarrow> string \<Rightarrow> string list" where
  "path_step dir component =
     (if component \<in> {[], ''.''} then dir else if component = ''..'' then butlast dir else dir @ [component])"

definition resolve_path :: "string list \<Rightarrow> string \<Rightarrow> string list" where
  "resolve_path root p =
     foldl path_step (if path_is_absolute p then [] else root) (split_char (CHR ''/'') p)"

lemma path_steps_inside: "''..'' \<notin> set cs \<Longrightarrow> prefix dir (foldl path_step dir cs)"
proof (induction cs arbitrary: dir)
  case (Cons c cs)
  then have "prefix (path_step dir c) (foldl path_step (path_step dir c) cs)" by simp
  moreover have "prefix dir (path_step dir c)" using Cons.prems by (auto simp: path_step_def)
  ultimately show ?case by (simp add: prefix_order.order_trans)
qed simp

lemma portable_reference_inside: "portable_reference c f v = Inr () \<Longrightarrow> prefix root (resolve_path root v)"
  using path_steps_inside [of "split_char (CHR ''/'') v" root] by (simp add: portable_reference_ok resolve_path_def)

text \<open>C38.  The files that an accepted pack, model or external provider refers to stay inside the directory that holds
  the manifest: wherever that directory is, resolving the reference from it never leads out of it.\<close>

theorem accepted_references_stay_inside:
  assumes "pack_manifest_validate pack = Inr ()" "model_spec_validate model = Inr ()"
    and "provider_manifest_validate provider = Inr ()" "pm_backend provider = ''external-process''"
  shows "list_all (\<lambda>v. prefix root (resolve_path root v))
    (pm_entrypoint provider # mb_entrypoint (ms_backend model) #
     pk_models pack @ pk_providers pack @ pk_workflows pack @ pk_policies pack @ pk_resources pack)"
proof -
  have "list_all (\<lambda>v. portable_reference ''PackManifest'' ''references'' v = Inr ())
      (pk_models pack @ pk_providers pack @ pk_workflows pack @ pk_policies pack @ pk_resources pack)"
    using assms(1) unfolding pack_manifest_validate_def by (auto simp: checks_ok list_all_iff split: sum.splits)
  then have pack: "list_all (\<lambda>v. prefix root (resolve_path root v))
      (pk_models pack @ pk_providers pack @ pk_workflows pack @ pk_policies pack @ pk_resources pack)"
    by (rule list.pred_mono_strong) (rule portable_reference_inside)
  have empty: "prefix root (resolve_path root [])" by (simp add: resolve_path_def path_is_absolute_def starts_with_def path_step_def)
  have "mb_entrypoint (ms_backend model) = [] \<or> portable_reference ''ModelSpec'' ''backend.entrypoint'' (mb_entrypoint (ms_backend model)) = Inr ()"
    using assms(2) unfolding model_spec_validate_def by (auto simp: checks_ok split: sum.splits if_splits)
  then have model: "prefix root (resolve_path root (mb_entrypoint (ms_backend model)))"
    using empty portable_reference_inside by auto
  have "portable_reference ''ProviderManifest'' ''entrypoint'' (pm_entrypoint provider) = Inr ()"
    using assms(3,4) unfolding provider_manifest_validate_def by (auto simp: checks_ok split: sum.splits)
  then have "prefix root (resolve_path root (pm_entrypoint provider))" by (rule portable_reference_inside)
  with model pack show ?thesis by simp
qed

definition demo_pack :: PackManifest where
  "demo_pack =
     \<lparr>pk_schema_version = 1, pk_name = ''p'', pk_version = ''1'', pk_description = [], pk_models = [''models/m.yaml''],
      pk_providers = [], pk_workflows = [], pk_policies = [], pk_resources = [], pk_compatibility = Map.empty, pk_license = ''MIT''\<rparr>"

definition demo_model :: ModelSpec where
  "demo_model =
     \<lparr>ms_schema_version = 1, ms_id = ''m'', ms_name = ''m'', ms_kind = MK_Custom, ms_version = ''1'',
      ms_capabilities = [''a.b''], ms_input_schema = JNull, ms_output_schema = JNull,
      ms_backend = \<lparr>mb_kind = ''k'', mb_entrypoint = ''m.py'', mb_runtime = []\<rparr>, ms_resource_requirements = rv_zero,
      ms_deployment = \<lparr>ds_mode = [], ds_target = [], ds_replicas = 0\<rparr>,
      ms_evaluation = \<lparr>ev_dataset = [], ev_metrics = [], ev_thresholds = []\<rparr>, ms_artifacts = [],
      ms_provenance = Map.empty, ms_compatibility = Map.empty, ms_security = Map.empty\<rparr>"

definition demo_manifest :: ProviderManifest where
  "demo_manifest =
     \<lparr>pm_schema_version = 1, pm_name = ''e'', pm_version = ''1'', pm_backend = ''external-process'', pm_runtime_class = [],
      pm_entrypoint = ''src/p.py'', pm_model = [], pm_endpoint = [], pm_credential_env = ''A_KEY'', pm_capabilities = [''a.b''],
      pm_lifecycle = required_lifecycle, pm_metadata = Map.empty\<rparr>"

lemmas validation_defs =
  contract_schema_def OPEN_RUNTIME_SCHEMA_VERSION_def contract_required_def contract_check_def trim_def is_ws_def
  portable_reference_def path_is_absolute_def starts_with_def capability_name_def name_segment_def is_ascii_lowercase_def

theorem accepted_references_stay_inside_witness:
  "list_all (\<lambda>v. prefix [''home''] (resolve_path [''home''] v)) [''src/p.py'', ''m.py'', ''models/m.yaml'']"
proof -
  have "pack_manifest_validate demo_pack = Inr ()"
    by (simp add: pack_manifest_validate_def demo_pack_def validation_defs)
  moreover have "model_spec_validate demo_model = Inr ()"
    by (simp add: model_spec_validate_def demo_model_def validation_defs)
  moreover have "provider_manifest_validate demo_manifest = Inr ()"
    by (simp add: provider_manifest_validate_def demo_manifest_def validation_defs credential_env_ok_def endpoint_ok_def
        env_name_char_def is_ascii_uppercase_def list_all_iff)
  moreover have "pm_backend demo_manifest = ''external-process''" by (simp add: demo_manifest_def)
  ultimately have "list_all (\<lambda>v. prefix [''home''] (resolve_path [''home''] v))
    (pm_entrypoint demo_manifest # mb_entrypoint (ms_backend demo_model) #
     pk_models demo_pack @ pk_providers demo_pack @ pk_workflows demo_pack @ pk_policies demo_pack @ pk_resources demo_pack)"
    by (rule accepted_references_stay_inside)
  then show ?thesis by (simp only: demo_pack_def demo_model_def demo_manifest_def PackManifest.simps ModelSpec.simps
    ModelBackend.simps ProviderManifest.simps append.simps)
qed

section \<open>The capability graph\<close>

lemma btree_insert_set: "fst ` set (btree_insert k v m) = insert k (fst ` set m)"
  by (induction k v m rule: btree_insert.induct) auto

lemma btree_insert_ok: "btree_ok m \<Longrightarrow> btree_ok (btree_insert k v m)"
proof (induction k v m rule: btree_insert.induct)
  case (2 k v k' v' m)
  then show ?case using btree_insert_set [of k v m] by (auto simp: btree_ok_def image_iff)
qed (simp add: btree_ok_def)

lemma btree_insert_lookup: "btree_ok m \<Longrightarrow> map_of (btree_insert k v m) = (map_of m)(k \<mapsto> v)"
proof (induction k v m rule: btree_insert.induct)
  case (2 k v k' v' m)
  show ?case
  proof (cases "k < k'")
    case False
    with 2 show ?thesis by (auto simp: btree_ok_def fun_eq_iff)
  qed (auto simp: fun_eq_iff)
qed simp

definition capability_graph_ok :: "CapabilityGraph \<Rightarrow> bool" where
  "capability_graph_ok g \<longleftrightarrow> btree_ok g \<and> list_all (\<lambda>(c, ps). sorted_wrt (<) ps) g"

text \<open>Advertising a capability keeps the graph well formed, and from then on its providers are the former ones and
  the new one, listed once each in increasing order; the providers of every other capability are unchanged.\<close>

theorem advertise_then_lookup:
  assumes "capability_graph_ok g"
  shows "capability_graph_ok (advertise p c g) \<and>
    providers_for (advertise p c g) c' =
      (if c' = c then sorted_list_of_set (insert p (set (providers_for g c))) else providers_for g c')"
proof -
  let ?new = "map fst (btree_insert p () (map (\<lambda>p. (p, ())) (providers_for g c)))"
  have ps: "sorted_wrt (<) (providers_for g c)"
    using assms by (auto simp: providers_for_def capability_graph_ok_def list_all_iff split: option.splits dest: map_of_SomeD)
  then have "btree_ok (map (\<lambda>p. (p, ())) (providers_for g c))" by (simp add: btree_ok_def comp_def)
  then have "btree_ok (btree_insert p () (map (\<lambda>p. (p, ())) (providers_for g c)))" by (rule btree_insert_ok)
  then have new: "sorted_wrt (<) ?new" by (simp add: btree_ok_def)
  have "set ?new = insert p (set (providers_for g c))" using btree_insert_set [of p "()" "map (\<lambda>p. (p, ())) (providers_for g c)"]
    by (simp add: image_image)
  then have list: "?new = sorted_list_of_set (insert p (set (providers_for g c)))"
    using new sorted_list_of_set.idem_if_sorted_distinct [of ?new] by (metis strict_sorted_iff)
  have adv: "advertise p c g = btree_insert c ?new g" by (simp add: advertise_def providers_for_def)
  have g: "btree_ok g" using assms by (simp add: capability_graph_ok_def)
  have sub: "set (btree_insert k v m) \<subseteq> insert (k, v) (set m)" for k and v :: "string list" and m
    by (induction k v m rule: btree_insert.induct) auto
  have "sorted_wrt (<) qs" if "(d, qs) \<in> set (btree_insert c ?new g)" for d qs
  proof (cases "(d, qs) \<in> set g")
    case True
    then show ?thesis using assms unfolding capability_graph_ok_def list_all_iff by blast
  next
    case False
    then have "qs = ?new" using that sub [of c ?new g] by blast
    with new show ?thesis by simp
  qed
  then have "capability_graph_ok (advertise p c g)"
    using btree_insert_ok [OF g] unfolding adv capability_graph_ok_def list_all_iff by blast
  then show ?thesis using btree_insert_lookup [OF g] list unfolding adv by (simp add: providers_for_def)
qed

theorem advertise_then_lookup_witness:
  "providers_for (advertise ''edge-b'' ''vision.detect'' [(''vision.detect'', [''edge-a''])]) ''vision.detect'' =
     sorted_list_of_set {''edge-a'', ''edge-b''}"
proof -
  have "capability_graph_ok [(''vision.detect'', [''edge-a''])]" by (simp add: capability_graph_ok_def btree_ok_def)
  then show ?thesis using advertise_then_lookup [of "[(''vision.detect'', [''edge-a''])]" "''edge-b''" "''vision.detect''" "''vision.detect''"]
    by (simp add: providers_for_def insert_commute)
qed

end
