(* ===== verification/Intelligence_Contracts.thy ===== *)
theory Intelligence_Contracts
  imports Open_Runtime Scheduling_Policies
begin

text \<open>
  The developer-facing contracts (crates/nous-intelligence/src: lib.rs, backend.rs, data.rs, project.rs and
  model_engineering.rs): backends, datasets, experiments, project manifests, model profiles, and the guard of model
  merges.  Validations are lists of checks as for the contracts of the runtime.  A \<open>BTreeMap\<close> is an
  association list with increasing keys, a float is the word of its bits, and JSON numbers are equal when their
  texts are.
\<close>

section \<open>Errors and shared checks (lib.rs)\<close>

datatype IntelligenceError = IE_Invalid string string string | IE_Incompatible string string

type_synonym intel_result = "IntelligenceError + unit"

fun intelligence_error_display :: "IntelligenceError \<Rightarrow> string" where
  "intelligence_error_display (IE_Invalid object field message) =
     ''invalid '' @ object @ '' field '' @ quoted field @ '': '' @ message"
| "intelligence_error_display (IE_Incompatible object message) = ''incompatible '' @ object @ '': '' @ message"

definition INTELLIGENCE_SCHEMA_VERSION :: u32 where
  "INTELLIGENCE_SCHEMA_VERSION = 1"

definition intel_check :: "bool \<Rightarrow> string \<Rightarrow> string \<Rightarrow> string \<Rightarrow> intel_result" where
  "intel_check ok object field message = (if ok then Inr () else Inl (IE_Invalid object field message))"

definition intel_require :: "string \<Rightarrow> string \<Rightarrow> string \<Rightarrow> intel_result" where
  "intel_require object field v = intel_check (trim v \<noteq> []) object field ''must not be empty''"

definition intel_schema :: "string \<Rightarrow> u32 \<Rightarrow> intel_result" where
  "intel_schema object version =
     intel_check (version = INTELLIGENCE_SCHEMA_VERSION) object ''schema_version''
       (''expected '' @ show_nat (unat INTELLIGENCE_SCHEMA_VERSION) @ '', found '' @ show_nat (unat version))"

definition valid_identifier :: "string \<Rightarrow> bool" where
  "valid_identifier v \<longleftrightarrow>
     v \<noteq> [] \<and> list_all (\<lambda>c. is_ascii_alphanumeric c \<or> c \<in> {CHR ''-'', CHR ''_'', CHR ''.''}) v \<and> v \<noteq> ''.'' \<and> v \<noteq> ''..''"

text \<open>A validation of the runtime inside one of this layer.\<close>

definition nested :: "string \<Rightarrow> string \<Rightarrow> contract_result \<Rightarrow> intel_result" where
  "nested object field r = (case r of Inl e \<Rightarrow> Inl (IE_Invalid object field (contract_error_display e)) | Inr _ \<Rightarrow> Inr ())"

lemma intel_check_ok [simp]: "intel_check ok obj f m = Inr () \<longleftrightarrow> ok"
  by (simp add: intel_check_def)

lemma nested_ok [simp]: "nested obj f r = Inr () \<longleftrightarrow> r = Inr ()"
  by (cases r) (simp_all add: nested_def)

section \<open>Backends (backend.rs)\<close>

datatype BackendKind =
    BK_RemoteApi | BK_Python | BK_Native | BK_Onnx | BK_Pytorch | BK_Container | BK_Wasm | BK_Device | BK_Human | BK_Custom

record BackendSpec =
  bs_kind :: BackendKind
  bs_provider :: string
  bs_entrypoint :: string
  bs_configuration :: "(string \<times> string) list"

definition backend_spec_validate :: "BackendSpec \<Rightarrow> intel_result" where
  "backend_spec_validate b =
     checks
       [(if bs_kind b \<in> {BK_RemoteApi, BK_Device} then intel_require ''BackendSpec'' ''provider'' (bs_provider b) else Inr ()),
        (if bs_kind b \<in> {BK_Python, BK_Native, BK_Onnx, BK_Pytorch, BK_Container, BK_Wasm, BK_Custom}
         then intel_require ''BackendSpec'' ''entrypoint'' (bs_entrypoint b) else Inr ()),
        intel_check (\<not> str_contains (bs_entrypoint b) ''..'') ''BackendSpec'' ''entrypoint''
          ''parent traversal is not allowed'']"

section \<open>Datasets and experiments (data.rs)\<close>

definition f64_is_finite :: "f64 \<Rightarrow> bool" where
  "f64_is_finite x \<longleftrightarrow> take_bit 63 x < 0x7FF0000000000000"

definition f64_eq :: "f64 \<Rightarrow> f64 \<Rightarrow> bool" where
  "f64_eq x y \<longleftrightarrow> \<not> f64_is_nan x \<and> \<not> f64_is_nan y \<and> (x = y \<or> f64_is_zero x \<and> f64_is_zero y)"

record DatasetSplit =
  dsp_name :: string
  dsp_artifact :: ArtifactContract
  dsp_schema :: json
  dsp_rows :: "u64 option"

definition dataset_split_validate :: "DatasetSplit \<Rightarrow> intel_result" where
  "dataset_split_validate s =
     checks
       [intel_require ''DatasetSplit'' ''name'' (dsp_name s),
        nested ''DatasetSplit'' ''artifact'' (simple_contract_validate ''ArtifactContract'' (dsp_artifact s))]"

record DatasetManifest =
  dm_schema_version :: u32
  dm_id :: string
  dm_version :: string
  dm_license :: string
  dm_splits :: "DatasetSplit list"
  dm_transforms :: "string list"
  dm_provenance :: "(string \<times> string) list"
  dm_quality :: "(string \<times> f64) list"

text \<open>The loop over the splits with the set of names seen so far.\<close>

fun validate_splits :: "string set \<Rightarrow> DatasetSplit list \<Rightarrow> intel_result" where
  "validate_splits names [] = Inr ()"
| "validate_splits names (s # ss) =
     (case dataset_split_validate s of
        Inl e \<Rightarrow> Inl e
      | Inr _ \<Rightarrow>
          if dsp_name s \<in> names
          then Inl (IE_Invalid ''DatasetManifest'' ''splits'' (''duplicate split '' @ quoted (dsp_name s)))
          else validate_splits (insert (dsp_name s) names) ss)"

definition dataset_manifest_validate :: "DatasetManifest \<Rightarrow> intel_result" where
  "dataset_manifest_validate d =
     checks
       [intel_schema ''DatasetManifest'' (dm_schema_version d),
        intel_check (valid_identifier (dm_id d)) ''DatasetManifest'' ''id'' ''invalid identifier'',
        intel_require ''DatasetManifest'' ''version'' (dm_version d),
        intel_require ''DatasetManifest'' ''license'' (dm_license d),
        intel_check (dm_splits d \<noteq> []) ''DatasetManifest'' ''splits'' ''must contain at least one split'',
        validate_splits {} (dm_splits d),
        intel_check (list_all (\<lambda>(k, v). f64_is_finite v) (dm_quality d)) ''DatasetManifest'' ''quality''
          ''quality values must be finite'']"

datatype MetricValue = MV_Number f64 | MV_Text string | MV_Boolean bool

fun metric_eq :: "MetricValue \<Rightarrow> MetricValue \<Rightarrow> bool" where
  "metric_eq (MV_Number x) (MV_Number y) = f64_eq x y"
| "metric_eq a b = (a = b)"

fun metric_finite :: "MetricValue \<Rightarrow> bool" where
  "metric_finite (MV_Number x) = f64_is_finite x"
| "metric_finite _ = True"

datatype ExperimentStatus = XS_Created | XS_Queued | XS_Running | XS_Paused | XS_Completed | XS_Failed | XS_Cancelled

record ExperimentManifest =
  xm_schema_version :: u32
  xm_id :: string
  xm_version :: string
  xm_model :: string
  xm_dataset :: string
  xm_code_revision :: string
  xm_runtime_version :: string
  xm_seed :: u64
  xm_status :: ExperimentStatus
  xm_parameters :: "(string \<times> json) list"
  xm_resources :: ResourceVector
  xm_environment :: "(string \<times> string) list"
  xm_metrics :: "(string \<times> MetricValue) list"
  xm_artifacts :: "ArtifactContract list"

definition experiment_manifest_validate :: "ExperimentManifest \<Rightarrow> intel_result" where
  "experiment_manifest_validate x =
     checks
       ([intel_schema ''ExperimentManifest'' (xm_schema_version x),
         intel_check (valid_identifier (xm_id x)) ''ExperimentManifest'' ''id'' ''invalid identifier''] @
        map (\<lambda>(field, v). intel_require ''ExperimentManifest'' field v)
          [(''version'', xm_version x), (''model'', xm_model x), (''dataset'', xm_dataset x),
           (''code_revision'', xm_code_revision x), (''runtime_version'', xm_runtime_version x)] @
        [intel_check (list_all (\<lambda>(k, v). metric_finite v) (xm_metrics x)) ''ExperimentManifest'' ''metrics''
           ''numeric metrics must be finite''] @
        map (\<lambda>a. nested ''ExperimentManifest'' ''artifacts'' (simple_contract_validate ''ArtifactContract'' a)) (xm_artifacts x))"

text \<open>The difference of two maps: the keys of either, in order, whose values are not equal by \<open>eq\<close>.\<close>

definition map_diff ::
  "('v \<Rightarrow> 'v \<Rightarrow> bool) \<Rightarrow> (string \<times> 'v) list \<Rightarrow> (string \<times> 'v) list \<Rightarrow> (string \<times> 'v option \<times> 'v option) list" where
  "map_diff eq left right =
     map (\<lambda>k. (k, map_of left k, map_of right k))
       (filter (\<lambda>k. \<not> rel_option eq (map_of left k) (map_of right k)) (sort (remdups (map fst left @ map fst right))))"

record ExperimentDiff =
  xd_model_changed :: bool
  xd_dataset_changed :: bool
  xd_code_changed :: bool
  xd_seed_changed :: bool
  xd_parameter_changes :: "(string \<times> json option \<times> json option) list"
  xd_metric_changes :: "(string \<times> MetricValue option \<times> MetricValue option) list"

definition experiment_diff :: "ExperimentManifest \<Rightarrow> ExperimentManifest \<Rightarrow> ExperimentDiff" where
  "experiment_diff x y =
     \<lparr>xd_model_changed = (xm_model x \<noteq> xm_model y), xd_dataset_changed = (xm_dataset x \<noteq> xm_dataset y),
      xd_code_changed = (xm_code_revision x \<noteq> xm_code_revision y), xd_seed_changed = (xm_seed x \<noteq> xm_seed y),
      xd_parameter_changes = map_diff (=) (xm_parameters x) (xm_parameters y),
      xd_metric_changes = map_diff metric_eq (xm_metrics x) (xm_metrics y)\<rparr>"

section \<open>Projects (project.rs)\<close>

record ProjectReference =
  prf_id :: string
  prf_path :: string

definition project_reference_validate :: "ProjectReference \<Rightarrow> intel_result" where
  "project_reference_validate r =
     checks
       [intel_require ''ProjectReference'' ''id'' (prf_id r), intel_require ''ProjectReference'' ''path'' (prf_path r),
        intel_check (\<not> path_is_absolute (prf_path r) \<and> ''..'' \<notin> set (split_char (CHR ''/'') (prf_path r)))
          ''ProjectReference'' ''path'' ''must be a portable project-relative path without parent traversal'']"

record ProjectManifest =
  pj_schema_version :: u32
  pj_id :: string
  pj_name :: string
  pj_version :: string
  pj_description :: string
  pj_license :: string
  pj_models :: "ProjectReference list"
  pj_algorithms :: "ProjectReference list"
  pj_datasets :: "ProjectReference list"
  pj_providers :: "ProjectReference list"
  pj_workflows :: "ProjectReference list"
  pj_policies :: "ProjectReference list"
  pj_experiments :: "ProjectReference list"
  pj_deployments :: "ProjectReference list"
  pj_secret_refs :: "(string \<times> string) list"
  pj_metadata :: "(string \<times> string) list"

definition project_references :: "ProjectManifest \<Rightarrow> ProjectReference list" where
  "project_references p =
     pj_models p @ pj_algorithms p @ pj_datasets p @ pj_providers p @ pj_workflows p @ pj_policies p @
     pj_experiments p @ pj_deployments p"

definition secret_ref_ok :: "string \<Rightarrow> string \<Rightarrow> bool" where
  "secret_ref_ok name reference \<longleftrightarrow>
     valid_identifier name \<and> reference \<noteq> [] \<and> list_all env_name_char reference \<and>
     (hd reference = CHR ''_'' \<or> is_ascii_uppercase (hd reference))"

definition project_manifest_validate :: "ProjectManifest \<Rightarrow> intel_result" where
  "project_manifest_validate p =
     checks
       ([intel_schema ''ProjectManifest'' (pj_schema_version p),
         intel_check (valid_identifier (pj_id p)) ''ProjectManifest'' ''id''
           (''must use letters, digits, '' @ quoted ''.'' @ '', '' @ quoted ''-'' @ '' or '' @ quoted ''_''),
         intel_require ''ProjectManifest'' ''name'' (pj_name p),
         intel_require ''ProjectManifest'' ''version'' (pj_version p),
         intel_require ''ProjectManifest'' ''license'' (pj_license p)] @
        map project_reference_validate (project_references p) @
        map (\<lambda>(name, reference). intel_check (secret_ref_ok name reference) ''ProjectManifest'' ''secret_refs''
              ''values must be environment-variable names; secret values are forbidden'') (pj_secret_refs p))"

section \<open>Model profiles and merges (model\_engineering.rs)\<close>

record ArchitectureMetadata =
  am_architecture_id :: string
  am_layers :: "u32 option"
  am_hidden_dimension :: "u64 option"
  am_attention :: string
  am_experts :: "u32 option"
  am_activation :: string
  am_context_length :: "u64 option"
  am_tokenizer_digest :: string
  am_tensor_shapes_digest :: string

datatype ModelExtension =
    MX_None
  | MX_Llm (llm_context_length: u64) (llm_tokenizer: string) (llm_precision: string) (llm_generation: "(string \<times> json) list")
  | MX_Vision (vx_input_shape: "u64 list") (vx_classes: "string list") (vx_preprocessing: "string list")
      (vx_postprocessing: "string list")
  | MX_Mathematical (mx_solver: string) (mx_variables: "string list") (mx_parameters: "(string \<times> json) list")
      (mx_initial_conditions: "(string \<times> f64) list") (mx_tolerance: f64)
  | MX_Control (ctl_sampling_period: f64) (ctl_state_dimension: u64) (ctl_control_dimension: u64)
      (ctl_stability: "(string \<times> string) list")
  | MX_Custom (cx_name: string) (cx_values: "(string \<times> json) list")

record LicenseGrant =
  lg_id :: string
  lg_source :: string
  lg_derivative_works :: "bool option"
  lg_redistribution :: "bool option"
  lg_commercial_use :: "bool option"

record ModelProfile =
  mp_schema_version :: u32
  mp_model :: ModelSpec
  mp_architecture :: ArchitectureMetadata
  mp_extension :: ModelExtension
  mp_license :: LicenseGrant
  mp_adapters :: "string list"
  mp_quantization :: string
  mp_dataset_lineage :: "string list"
  mp_status :: string

definition extension_fits :: "ModelKind \<Rightarrow> ModelExtension \<Rightarrow> intel_result" where
  "extension_fits kind extension =
     (let incompatible = Inl (IE_Invalid ''ModelProfile'' ''extension'' ''extension type is incompatible with ModelSpec kind'')
      in case extension of
           MX_Vision shape _ _ _ \<Rightarrow>
             if kind = MK_Vision
             then intel_check (shape \<noteq> []) ''ModelProfile'' ''extension.input_shape'' ''vision input shape must not be empty''
             else incompatible
         | MX_Llm _ _ _ _ \<Rightarrow> if kind = MK_Foundation then Inr () else incompatible
         | MX_Mathematical _ _ _ _ _ \<Rightarrow>
             if kind \<in> {MK_Mathematical, MK_Statistical, MK_Optimization} then Inr () else incompatible
         | MX_Control _ _ _ _ \<Rightarrow> if kind = MK_Control then Inr () else incompatible
         | MX_Custom _ _ \<Rightarrow> Inr ()
         | MX_None \<Rightarrow> Inr ())"

definition finite_positive :: "f64 \<Rightarrow> bool" where
  "finite_positive x \<longleftrightarrow> f64_is_finite x \<and> \<not> f64_le x 0"

fun extension_valid :: "ModelExtension \<Rightarrow> intel_result" where
  "extension_valid (MX_Llm context tokenizer precision _) =
     checks
       [intel_check (context \<noteq> 0) ''ModelProfile'' ''extension.context_length'' ''must be positive'',
        intel_require ''ModelProfile'' ''extension.tokenizer'' tokenizer,
        intel_require ''ModelProfile'' ''extension.precision'' precision]"
| "extension_valid (MX_Mathematical solver _ _ _ tolerance) =
     checks
       [intel_require ''ModelProfile'' ''extension.solver'' solver,
        intel_check (finite_positive tolerance) ''ModelProfile'' ''extension.tolerance'' ''must be finite and positive'']"
| "extension_valid (MX_Control period _ _ _) =
     intel_check (finite_positive period) ''ModelProfile'' ''extension.sampling_period_seconds'' ''must be finite and positive''"
| "extension_valid _ = Inr ()"

definition model_profile_validate :: "ModelProfile \<Rightarrow> intel_result" where
  "model_profile_validate p =
     checks
       [intel_schema ''ModelProfile'' (mp_schema_version p),
        nested ''ModelProfile'' ''model'' (model_spec_validate (mp_model p)),
        intel_require ''ModelProfile'' ''architecture.architecture_id'' (am_architecture_id (mp_architecture p)),
        intel_require ''ModelProfile'' ''license.id'' (lg_id (mp_license p)),
        intel_require ''ModelProfile'' ''license.source'' (lg_source (mp_license p)),
        extension_fits (ms_kind (mp_model p)) (mp_extension p),
        extension_valid (mp_extension p)]"

definition string_set_diff :: "string list \<Rightarrow> string list \<Rightarrow> string list \<times> string list" where
  "string_set_diff left right =
     (sort (remdups (filter (\<lambda>x. x \<notin> set right) left)), sort (remdups (filter (\<lambda>x. x \<notin> set left) right)))"

text \<open>The derived equality of evaluations compares their thresholds as floats.\<close>

definition evaluation_eq :: "EvaluationSpec \<Rightarrow> EvaluationSpec \<Rightarrow> bool" where
  "evaluation_eq x y \<longleftrightarrow>
     ev_dataset x = ev_dataset y \<and> ev_metrics x = ev_metrics y \<and>
     list_all2 (\<lambda>(k, v) (k', v'). k = k' \<and> f64_eq v v') (ev_thresholds x) (ev_thresholds y)"

record ModelDiff =
  md_identity_changed :: bool
  md_version_changed :: bool
  md_kind_changed :: bool
  md_architecture_changed :: bool
  md_tokenizer_changed :: bool
  md_backend_changed :: bool
  md_capability_changes :: "string list \<times> string list"
  md_artifact_changes :: "string list \<times> string list"
  md_adapter_changes :: "string list \<times> string list"
  md_quantization_changed :: bool
  md_evaluation_changed :: bool
  md_deployment_changed :: bool
  md_license_changed :: bool

definition model_diff :: "ModelProfile \<Rightarrow> ModelProfile \<Rightarrow> ModelDiff" where
  "model_diff p q =
     \<lparr>md_identity_changed = (ms_id (mp_model p) \<noteq> ms_id (mp_model q)),
      md_version_changed = (ms_version (mp_model p) \<noteq> ms_version (mp_model q)),
      md_kind_changed = (ms_kind (mp_model p) \<noteq> ms_kind (mp_model q)),
      md_architecture_changed = (mp_architecture p \<noteq> mp_architecture q),
      md_tokenizer_changed = (am_tokenizer_digest (mp_architecture p) \<noteq> am_tokenizer_digest (mp_architecture q)),
      md_backend_changed = (ms_backend (mp_model p) \<noteq> ms_backend (mp_model q)),
      md_capability_changes = string_set_diff (ms_capabilities (mp_model p)) (ms_capabilities (mp_model q)),
      md_artifact_changes =
        string_set_diff (map ac_sha256 (ms_artifacts (mp_model p))) (map ac_sha256 (ms_artifacts (mp_model q))),
      md_adapter_changes = string_set_diff (mp_adapters p) (mp_adapters q),
      md_quantization_changed = (mp_quantization p \<noteq> mp_quantization q),
      md_evaluation_changed = (\<not> evaluation_eq (ms_evaluation (mp_model p)) (ms_evaluation (mp_model q))),
      md_deployment_changed = (ms_deployment (mp_model p) \<noteq> ms_deployment (mp_model q)),
      md_license_changed = (mp_license p \<noteq> mp_license q)\<rparr>"

datatype MergeStrategy = MS_Linear | MS_Slerp | MS_Ties | MS_Dare | MS_AdapterMerge | MS_Custom

record MergeRequest =
  mr_schema_version :: u32
  mr_output_id :: string
  mr_strategy :: MergeStrategy
  mr_publish :: bool
  mr_sources :: "ModelProfile list"
  mr_parameters :: "(string \<times> json) list"

record MergeAssessment =
  ma_compatible :: bool
  ma_strategy :: MergeStrategy
  ma_reasons :: "string list"
  ma_warnings :: "string list"

text \<open>The reasons against one source, compared with the first one, and the warnings about it.\<close>

definition merge_reasons :: "MergeRequest \<Rightarrow> ModelProfile \<Rightarrow> ModelProfile \<Rightarrow> string list" where
  "merge_reasons r b s =
     (let say = (\<lambda>c m. if c then [ms_id (mp_model s) @ m] else [])
      in say (ms_kind (mp_model s) \<noteq> ms_kind (mp_model b)) '' has a different model kind'' @
         say (am_architecture_id (mp_architecture s) \<noteq> am_architecture_id (mp_architecture b)) '' has a different architecture'' @
         say (am_tokenizer_digest (mp_architecture s) \<noteq> am_tokenizer_digest (mp_architecture b)) '' has an incompatible tokenizer'' @
         say (mr_strategy r \<noteq> MS_AdapterMerge \<and>
              am_tensor_shapes_digest (mp_architecture s) \<noteq> am_tensor_shapes_digest (mp_architecture b))
           '' has incompatible tensor shapes'' @
         say (lg_derivative_works (mp_license s) \<noteq> Some True) '' license does not explicitly permit derivative works'' @
         say (mr_publish r \<and> lg_redistribution (mp_license s) \<noteq> Some True)
           '' license does not explicitly permit redistribution'')"

definition merge_warnings :: "ModelProfile \<Rightarrow> string list" where
  "merge_warnings s =
     (if lg_commercial_use (mp_license s) = None then [ms_id (mp_model s) @ '' commercial-use permission is unknown''] else [])"

definition assess_merge :: "MergeRequest \<Rightarrow> IntelligenceError + MergeAssessment" where
  "assess_merge r =
     (case checks
        ([intel_schema ''MergeRequest'' (mr_schema_version r), intel_require ''MergeRequest'' ''output_id'' (mr_output_id r),
          intel_check (2 \<le> length (mr_sources r)) ''MergeRequest'' ''sources'' ''at least two source models are required''] @
         map model_profile_validate (mr_sources r)) of
        Inl e \<Rightarrow> Inl e
      | Inr _ \<Rightarrow>
          let reasons = remdups_adj (sort (concat (map (merge_reasons r (hd (mr_sources r))) (mr_sources r))));
              warnings = remdups_adj (sort (concat (map merge_warnings (mr_sources r))))
          in Inr \<lparr>ma_compatible = (reasons = []), ma_strategy = mr_strategy r, ma_reasons = reasons, ma_warnings = warnings\<rparr>)"

section \<open>Properties\<close>

text \<open>Environment names never hold a lower-case letter, so that a secret reference is not a literal key such as
  those that begin with \<open>sk-\<close>.  A validated project refers only to files below its own directory.\<close>

lemma project_manifest_ok:
  assumes "project_manifest_validate p = Inr ()"
  shows "valid_identifier (pj_id p)" "r \<in> set (project_references p) \<Longrightarrow> prefix root (resolve_path root (prf_path r))"
    and "(name, v) \<in> set (pj_secret_refs p) \<Longrightarrow> secret_ref_ok name v"
proof -
  have all: "c \<in> set cs \<Longrightarrow> c = Inr ()" if "checks cs = Inr ()" for c cs
    using that by (simp add: checks_ok list_all_iff)
  note c = all [OF assms [unfolded project_manifest_validate_def]]
  have "intel_check (valid_identifier (pj_id p)) ''ProjectManifest'' ''id''
     (''must use letters, digits, '' @ quoted ''.'' @ '', '' @ quoted ''-'' @ '' or '' @ quoted ''_'') = Inr ()" by (rule c) simp
  then show "valid_identifier (pj_id p)" by simp
  show "prefix root (resolve_path root (prf_path r))" if r: "r \<in> set (project_references p)"
  proof -
    have "project_reference_validate r = Inr ()" by (rule c) (use r in simp)
    then have "portable_reference a b (prf_path r) = Inr ()" for a b
      by (simp add: project_reference_validate_def checks_ok portable_reference_ok del: checks.simps)
    then show ?thesis by (rule portable_reference_inside)
  qed
  show "secret_ref_ok name v" if s: "(name, v) \<in> set (pj_secret_refs p)"
  proof -
    have "intel_check (secret_ref_ok name v) ''ProjectManifest'' ''secret_refs''
      ''values must be environment-variable names; secret values are forbidden'' = Inr ()" by (rule c) (use s in force)
    then show ?thesis by simp
  qed
qed

lemma map_diff_exact:
  "(k, old, new) \<in> set (map_diff eq left right) \<longleftrightarrow>
     old = map_of left k \<and> new = map_of right k \<and> \<not> rel_option eq old new"
proof -
  have "k \<in> set (map fst left @ map fst right)" if "\<not> rel_option eq (map_of left k) (map_of right k)"
    using that map_of_eq_None_iff [of left k] map_of_eq_None_iff [of right k] by (cases "map_of left k"; cases "map_of right k") auto
  then show ?thesis by (auto simp: map_diff_def)
qed

text \<open>The difference of experiments misses no change of a parameter: two maps differ exactly when the list of
  changes is not empty, and replaying the changes on the first one gives the second one.\<close>

definition apply_changes :: "(string \<times> 'v option \<times> 'v option) list \<Rightarrow> (string \<rightharpoonup> 'v) \<Rightarrow> (string \<rightharpoonup> 'v)" where
  "apply_changes cs m = foldl (\<lambda>m (k, old, new). m(k := new)) m cs"

lemma apply_changes_at:
  assumes "distinct (map fst cs)"
  shows "apply_changes cs m k = (case map_of cs k of None \<Rightarrow> m k | Some (old, new) \<Rightarrow> new)"
  using assms
proof (induction cs arbitrary: m)
  case (Cons c cs)
  obtain k' old new where c: "c = (k', old, new)" by (cases c)
  have "apply_changes (c # cs) m = apply_changes cs (m(k' := new))" by (simp add: apply_changes_def c)
  moreover have "map_of cs k' = None" using Cons.prems by (auto simp: c map_of_eq_None_iff)
  ultimately show ?case using Cons by (auto simp: c split: option.split)
qed (simp add: apply_changes_def)

lemma map_diff_keys: "distinct (map fst (map_diff eq left right))"
  by (simp add: map_diff_def comp_def)

text \<open>The difference of two experiments misses nothing and invents nothing: replaying the parameter changes on the
  parameters of the first gives those of the second, a parameter is listed exactly when its value differs, with both
  values, and in the order of the keys.\<close>

theorem experiment_diff_replays:
  "let cs = xd_parameter_changes (experiment_diff x y)
   in apply_changes cs (map_of (xm_parameters x)) = map_of (xm_parameters y) \<and>
      set cs = {(k, map_of (xm_parameters x) k, map_of (xm_parameters y) k) | k.
                  map_of (xm_parameters x) k \<noteq> map_of (xm_parameters y) k} \<and>
      sorted_wrt (<) (map fst cs)"
proof -
  let ?cs = "map_diff (=) (xm_parameters x) (xm_parameters y)"
  have s: "(k, old, new) \<in> set ?cs \<longleftrightarrow> old = map_of (xm_parameters x) k \<and> new = map_of (xm_parameters y) k \<and> old \<noteq> new" for k old new
    by (simp add: map_diff_exact option.rel_eq)
  have "apply_changes ?cs (map_of (xm_parameters x)) k = map_of (xm_parameters y) k" for k
  proof (cases "map_of ?cs k")
    case None
    then have "(k, map_of (xm_parameters x) k, map_of (xm_parameters y) k) \<notin> set ?cs" by (force simp: map_of_eq_None_iff)
    then show ?thesis using None s by (simp add: apply_changes_at [OF map_diff_keys])
  next
    case (Some c)
    then have "(k, fst c, snd c) \<in> set ?cs" using map_of_SomeD by fastforce
    then have "snd c = map_of (xm_parameters y) k" using s by blast
    then show ?thesis using Some by (simp add: apply_changes_at [OF map_diff_keys] case_prod_unfold)
  qed
  moreover have "set ?cs = {(k, map_of (xm_parameters x) k, map_of (xm_parameters y) k) | k.
      map_of (xm_parameters x) k \<noteq> map_of (xm_parameters y) k}" using s by auto
  moreover have "sorted_wrt (<) (map fst ?cs)"
    by (simp add: map_diff_def comp_def strict_sorted_iff sorted_wrt_filter)
  ultimately show ?thesis by (simp add: experiment_diff_def fun_eq_iff)
qed

text \<open>A merge is assessed as compatible exactly when the request is valid, all sources share the kind, the
  architecture and the tokenizer of the first, and their tensor shapes unless adapters are merged, and every license
  explicitly permits derivative works, and redistribution where the result is published; an unknown permission never
  counts as granted.\<close>

theorem merge_compatible_exact:
  "(\<exists>a. assess_merge r = Inr a \<and> ma_compatible a) \<longleftrightarrow>
     mr_schema_version r = 1 \<and> trim (mr_output_id r) \<noteq> [] \<and> 2 \<le> length (mr_sources r) \<and>
     list_all (\<lambda>s. model_profile_validate s = Inr () \<and> ms_kind (mp_model s) = ms_kind (mp_model (hd (mr_sources r))) \<and>
       am_architecture_id (mp_architecture s) = am_architecture_id (mp_architecture (hd (mr_sources r))) \<and>
       am_tokenizer_digest (mp_architecture s) = am_tokenizer_digest (mp_architecture (hd (mr_sources r))) \<and>
       (if mr_strategy r = MS_AdapterMerge then True
        else am_tensor_shapes_digest (mp_architecture s) = am_tensor_shapes_digest (mp_architecture (hd (mr_sources r)))) \<and>
       lg_derivative_works (mp_license s) = Some True \<and>
       (if mr_publish r then lg_redistribution (mp_license s) = Some True else True)) (mr_sources r)"
proof -
  have empty: "sort xs = [] \<longleftrightarrow> xs = []" for xs :: "string list"
    by (metis length_0_conv length_sort)
  have reasons: "concat (map (merge_reasons r b) ss) = [] \<longleftrightarrow> list_all (\<lambda>s. merge_reasons r b s = []) ss" for b ss
    by (simp add: list_all_iff)
  have source: "merge_reasons r b s = [] \<longleftrightarrow> ms_kind (mp_model s) = ms_kind (mp_model b) \<and>
      am_architecture_id (mp_architecture s) = am_architecture_id (mp_architecture b) \<and>
      am_tokenizer_digest (mp_architecture s) = am_tokenizer_digest (mp_architecture b) \<and>
      (if mr_strategy r = MS_AdapterMerge then True
       else am_tensor_shapes_digest (mp_architecture s) = am_tensor_shapes_digest (mp_architecture b)) \<and>
      lg_derivative_works (mp_license s) = Some True \<and>
      (if mr_publish r then lg_redistribution (mp_license s) = Some True else True)" for b s
    by (simp add: merge_reasons_def Let_def)
  have valid: "checks
      ([intel_schema ''MergeRequest'' (mr_schema_version r), intel_require ''MergeRequest'' ''output_id'' (mr_output_id r),
        intel_check (2 \<le> length (mr_sources r)) ''MergeRequest'' ''sources'' ''at least two source models are required''] @
       map model_profile_validate (mr_sources r)) = Inr () \<longleftrightarrow>
      mr_schema_version r = 1 \<and> trim (mr_output_id r) \<noteq> [] \<and> 2 \<le> length (mr_sources r) \<and>
      list_all (\<lambda>s. model_profile_validate s = Inr ()) (mr_sources r)"
    by (simp add: checks_ok intel_schema_def intel_require_def INTELLIGENCE_SCHEMA_VERSION_def list.pred_map comp_def
        del: checks.simps checks_append)
  show ?thesis
  proof (cases "checks
      ([intel_schema ''MergeRequest'' (mr_schema_version r), intel_require ''MergeRequest'' ''output_id'' (mr_output_id r),
        intel_check (2 \<le> length (mr_sources r)) ''MergeRequest'' ''sources'' ''at least two source models are required''] @
       map model_profile_validate (mr_sources r))")
    case (Inl e)
    then have "\<not> (mr_schema_version r = 1 \<and> trim (mr_output_id r) \<noteq> [] \<and> 2 \<le> length (mr_sources r) \<and>
      list_all (\<lambda>s. model_profile_validate s = Inr ()) (mr_sources r))" using valid by (metis sum.distinct(1))
    then show ?thesis unfolding assess_merge_def Inl sum.case by (auto simp: list_all_iff)
  next
    case (Inr u)
    then have "mr_schema_version r = 1 \<and> trim (mr_output_id r) \<noteq> [] \<and> 2 \<le> length (mr_sources r) \<and>
      list_all (\<lambda>s. model_profile_validate s = Inr ()) (mr_sources r)" using valid by simp
    then show ?thesis unfolding assess_merge_def Inr sum.case Let_def by (simp add: empty reasons source list_all_iff del: concat_eq_Nil_conv)
  qed
qed

end
