(* ===== verification/Intelligence_Graph.thy ===== *)
theory Intelligence_Graph
  imports Intelligence_Contracts Topological_Order "HOL-Library.Product_Lexorder"
begin

text \<open>
  Intelligence graphs (crates/nous-intelligence/src/graph.rs): nodes and edges, the validation with its own
  version of Kahn's loop, the lowering to a workflow contract and the difference of two graphs.  An unwrapped look-up
  that fails, or a counter that would fall below zero, is the result \<open>None\<close>.  The loop is related to that of the
  workflow compiler, and the maps it runs on are an instance of the locale \<open>degree_graph\<close>.
\<close>

section \<open>Data\<close>

datatype NodeKind =
    GK_Model | GK_Algorithm | GK_Preprocessor | GK_Postprocessor | GK_Router | GK_Adapter | GK_Verifier | GK_Solver
  | GK_Tool | GK_Device | GK_Human

datatype SideEffectDeclaration =
    SE_None | SE_FilesystemRead | SE_FilesystemWrite | SE_Network | SE_DeviceRead | SE_DeviceWrite | SE_HumanApproval
  | SE_Custom string

record GraphNode =
  gn_id :: string
  gn_kind :: NodeKind
  gn_reference :: string
  gn_capability :: string
  gn_input_schema :: json
  gn_output_schema :: json
  gn_resources :: ResourceVector
  gn_parameters :: "(string \<times> json) list"
  gn_side_effects :: "SideEffectDeclaration list"
  gn_backend :: BackendSpec

definition graph_node_validate :: "GraphNode \<Rightarrow> intel_result" where
  "graph_node_validate n =
     checks
       [intel_check (valid_identifier (gn_id n)) ''GraphNode'' ''id''
          (''must use letters, digits, '' @ quoted ''.'' @ '', '' @ quoted ''-'' @ '' or '' @ quoted ''_''),
        intel_check (CHR ''.'' \<in> set (gn_capability n)) ''GraphNode'' ''capability'' ''must be a namespaced capability identifier'',
        (if gn_kind n \<in> {GK_Model, GK_Tool, GK_Device} then intel_require ''GraphNode'' ''reference'' (gn_reference n) else Inr ()),
        backend_spec_validate (gn_backend n)]"

record GraphEdge =
  ge_from :: string
  ge_to :: string

record IntelligenceGraph =
  ig_schema_version :: u32
  ig_id :: string
  ig_version :: string
  ig_nodes :: "GraphNode list"
  ig_edges :: "GraphEdge list"
  ig_metadata :: "(string \<times> string) list"

section \<open>Validation\<close>

definition graph_invalid :: "string \<Rightarrow> string \<Rightarrow> IntelligenceError" where
  "graph_invalid field message = IE_Invalid ''IntelligenceGraph'' field message"

text \<open>The nodes are collected in a map by their names.\<close>

fun collect_nodes :: "GraphNode list \<Rightarrow> (string \<times> GraphNode) list \<Rightarrow> IntelligenceError + (string \<times> GraphNode) list" where
  "collect_nodes [] m = Inr m"
| "collect_nodes (n # ns) m =
     (case graph_node_validate n of
        Inl e \<Rightarrow> Inl e
      | Inr _ \<Rightarrow>
          if map_of m (gn_id n) \<noteq> None then Inl (graph_invalid ''nodes'' (''duplicate node '' @ quoted (gn_id n)))
          else collect_nodes ns (btree_insert (gn_id n) n m))"

definition json_type :: "json \<Rightarrow> string option" where
  "json_type v = Option.bind (json_get ''type'' v) json_as_str"

definition validate_schema_connection :: "json \<Rightarrow> json \<Rightarrow> string + unit" where
  "validate_schema_connection outp inp =
     (case (json_type outp, json_type inp) of
        (Some a, Some b) \<Rightarrow>
          if a \<noteq> b then Inl (''output type '' @ quoted a @ '' does not match input type '' @ quoted b) else Inr ()
      | _ \<Rightarrow> Inr ())"

text \<open>The state of the loop over the edges: the edges seen, the targets of each node, and the number of edges into
  each node.\<close>

type_synonym edge_maps = "(string \<times> string) list \<times> (string \<rightharpoonup> string list) \<times> (string \<times> nat) list"

definition validate_edge :: "(string \<times> GraphNode) list \<Rightarrow> edge_maps \<Rightarrow> GraphEdge \<Rightarrow> IntelligenceError + edge_maps" where
  "validate_edge nodes st e =
     (case st of (seen, adj, deg) \<Rightarrow>
       if ge_from e = ge_to e then Inl (graph_invalid ''edges'' (''self-cycle at '' @ quoted (ge_from e)))
       else case map_of nodes (ge_from e) of
         None \<Rightarrow> Inl (graph_invalid ''edges'' (''unknown source node '' @ quoted (ge_from e)))
       | Some source \<Rightarrow>
           (case map_of nodes (ge_to e) of
              None \<Rightarrow> Inl (graph_invalid ''edges'' (''unknown target node '' @ quoted (ge_to e)))
            | Some target \<Rightarrow>
                if (ge_from e, ge_to e) \<in> set seen
                then Inl (graph_invalid ''edges'' (''duplicate edge '' @ quoted (ge_from e @ '' -> '' @ ge_to e)))
                else case validate_schema_connection (gn_output_schema source) (gn_input_schema target) of
                  Inl message \<Rightarrow> Inl (graph_invalid ''edges'' (ge_from e @ '' -> '' @ ge_to e @ '': '' @ message))
                | Inr _ \<Rightarrow>
                    Inr ((ge_from e, ge_to e) # seen, adj(ge_from e := map_option (\<lambda>ts. ts @ [ge_to e]) (adj (ge_from e))),
                      AList.map_entry (ge_to e) Suc deg)))"

fun validate_edges :: "(string \<times> GraphNode) list \<Rightarrow> edge_maps \<Rightarrow> GraphEdge list \<Rightarrow> IntelligenceError + edge_maps" where
  "validate_edges nodes st [] = Inr st"
| "validate_edges nodes st (e # es) =
     (case validate_edge nodes st e of Inl err \<Rightarrow> Inl err | Inr st' \<Rightarrow> validate_edges nodes st' es)"

text \<open>The loop that removes the nodes without incoming edges.\<close>

fun count_down :: "string list \<Rightarrow> (string \<times> nat) list \<Rightarrow> string list \<Rightarrow> ((string \<times> nat) list \<times> string list) option" where
  "count_down [] d q = Some (d, q)"
| "count_down (t # ts) d q =
     (case map_of d t of
        Some (Suc k) \<Rightarrow> count_down ts (AList.update t k d) (if k = 0 then q @ [t] else q)
      | _ \<Rightarrow> None)"

lemma count_down_relax: "count_down ts d q = Some r \<Longrightarrow> relax ts d q = Some r"
  by (induction ts d q rule: count_down.induct) (auto split: option.splits nat.splits)

function visit_nodes :: "(string \<rightharpoonup> string list) \<Rightarrow> (string \<times> nat) list \<Rightarrow> string list \<Rightarrow> nat \<Rightarrow> nat option" where
  "visit_nodes adj d [] visited = Some visited"
| "visit_nodes adj d (n # q) visited =
     (case adj n of
        None \<Rightarrow> None
      | Some ts \<Rightarrow>
          (case count_down ts d q of
             None \<Rightarrow> None
           | Some (d', q') \<Rightarrow> visit_nodes adj d' q' (visited + 1)))"
  by pat_completeness auto
termination
  by (relation "measure (\<lambda>(adj, d, q, visited). degree_sum d + length q)") (auto dest!: count_down_relax relax_measure)

definition graph_validate :: "IntelligenceGraph \<Rightarrow> intel_result option" where
  "graph_validate g =
     (case checks
        [intel_schema ''IntelligenceGraph'' (ig_schema_version g), intel_require ''IntelligenceGraph'' ''id'' (ig_id g),
         intel_require ''IntelligenceGraph'' ''version'' (ig_version g),
         intel_check (ig_nodes g \<noteq> []) ''IntelligenceGraph'' ''nodes'' ''must contain at least one node''] of
        Inl e \<Rightarrow> Some (Inl e)
      | Inr _ \<Rightarrow>
          (case collect_nodes (ig_nodes g) [] of
             Inl e \<Rightarrow> Some (Inl e)
           | Inr nodes \<Rightarrow>
               (case validate_edges nodes ([], map_of (map (\<lambda>(v, n). (v, [])) nodes), map (\<lambda>(v, n). (v, 0)) nodes) (ig_edges g) of
                  Inl e \<Rightarrow> Some (Inl e)
                | Inr (seen, adj, deg) \<Rightarrow>
                    map_option (\<lambda>visited. intel_check (visited = length nodes) ''IntelligenceGraph'' ''edges'' ''graph contains a cycle'')
                      (visit_nodes adj deg (map fst (filter (\<lambda>(v, n). n = 0) deg)) 0))))"

section \<open>Lowering and difference\<close>

definition to_workflow_contract :: "IntelligenceGraph \<Rightarrow> (IntelligenceError + WorkflowContract) option" where
  "to_workflow_contract g =
     (case graph_validate g of
        None \<Rightarrow> None
      | Some (Inl e) \<Rightarrow> Some (Inl e)
      | Some (Inr _) \<Rightarrow>
          let workflow = \<lparr>sc_schema_version = ig_schema_version g, sc_id = ig_id g, sc_version = ig_version g,
                sc_metadata = [''source'' \<mapsto> ''IntelligenceGraph'', ''source_schema'' \<mapsto> show_nat (unat (ig_schema_version g))],
                wc_steps = map gn_id (ig_nodes g), wc_edges = map (\<lambda>e. (ge_from e, ge_to e)) (ig_edges g)\<rparr>
          in Some (case simple_contract_validate ''WorkflowContract'' workflow of
                     Inl e \<Rightarrow> Inl (graph_invalid ''workflow'' (contract_error_display e))
                   | Inr _ \<Rightarrow> Inr workflow))"

record GraphDiff =
  gd_added_nodes :: "string list"
  gd_removed_nodes :: "string list"
  gd_changed_nodes :: "string list"
  gd_added_edges :: "(string \<times> string) list"
  gd_removed_edges :: "(string \<times> string) list"

definition node_map :: "IntelligenceGraph \<Rightarrow> (string \<times> GraphNode) list" where
  "node_map g = foldl (\<lambda>m n. btree_insert (gn_id n) n m) [] (ig_nodes g)"

definition edge_set :: "IntelligenceGraph \<Rightarrow> (string \<times> string) list" where
  "edge_set g = sort (remdups (map (\<lambda>e. (ge_from e, ge_to e)) (ig_edges g)))"

definition graph_diff :: "IntelligenceGraph \<Rightarrow> IntelligenceGraph \<Rightarrow> GraphDiff" where
  "graph_diff g h =
     (let left = node_map g; right = node_map h
      in \<lparr>gd_added_nodes = sort (filter (\<lambda>v. map_of left v = None) (map fst right)),
          gd_removed_nodes = sort (filter (\<lambda>v. map_of right v = None) (map fst left)),
          gd_changed_nodes =
            sort (map fst (filter (\<lambda>(v, n). case map_of right v of None \<Rightarrow> False | Some n' \<Rightarrow> n' \<noteq> n) left)),
          gd_added_edges = filter (\<lambda>e. e \<notin> set (edge_set g)) (edge_set h),
          gd_removed_edges = filter (\<lambda>e. e \<notin> set (edge_set h)) (edge_set g)\<rparr>)"

section \<open>The loop is that of the workflow compiler\<close>

lemma relax_keys: "relax ts d q = Some (d', q') \<Longrightarrow> map fst d' = map fst d \<and> set q' \<subseteq> set q \<union> fst ` set d"
proof (induction ts d q rule: relax.induct)
  case (2 n ns d q)
  show ?case
  proof (cases "map_of d n")
    case (Some m)
    then obtain k where k: "m = Suc k" using "2.prems" by (cases m) simp_all
    have n: "n \<in> fst ` set d" using map_of_SomeD [OF Some] by force
    have keys: "map fst (AList.update n k d) = map fst d" using n by (auto simp: AList.update_keys)
    then have "fst ` set (AList.update n k d) = fst ` set d" by (metis list.set_map)
    then show ?thesis using "2.IH"(2) [OF Some k] "2.prems" Some k keys n by (auto split: if_splits)
  qed (use 2 in simp)
qed simp

lemma count_down_eq_relax: "set ts \<subseteq> fst ` set d \<Longrightarrow> count_down ts d q = relax ts d q"
proof (induction ts arbitrary: d q)
  case (Cons t ts)
  obtain m where m: "map_of d t = Some m" using Cons.prems map_of_eq_None_iff [of d t] by fastforce
  have "fst ` set (AList.update t k d) = fst ` set d" for k
  proof -
    have "map fst (AList.update t k d) = map fst d" using Cons.prems by (auto simp: AList.update_keys)
    then show ?thesis by (metis list.set_map)
  qed
  then show ?case using Cons m by (simp split: nat.split)
qed simp

lemma visit_nodes_kahn:
  assumes "\<forall>n \<in> fst ` set d. \<exists>ts. adj n = Some ts \<and> set ts \<subseteq> fst ` set d" "set q \<subseteq> fst ` set d"
  shows "visit_nodes adj d q (length order) = map_option length (kahn adj d q order)"
  using assms
proof (induction adj d q order rule: kahn.induct)
  case (2 adj d n q order)
  obtain ts where ts: "adj n = Some ts" "set ts \<subseteq> fst ` set d" using "2.prems" by auto
  have down: "count_down ts d q = relax ts d q" by (rule count_down_eq_relax [OF ts(2)])
  show ?case
  proof (cases "relax ts d q")
    case None
    then show ?thesis using ts down by simp
  next
    case (Some r)
    obtain d' q' where r: "r = (d', q')" by (cases r)
    have k: "map fst d' = map fst d" "set q' \<subseteq> set q \<union> fst ` set d" using relax_keys Some r by blast+
    then have keys: "fst ` set d' = fst ` set d" by (metis list.set_map)
    have "visit_nodes adj d' q' (length (order @ [n])) = map_option length (kahn adj d' q' (order @ [n]))"
      by (rule "2.IH"(2) [OF ts(1) Some r [symmetric]]) (use "2.prems" k keys in auto)
    then show ?thesis using ts down Some r by simp
  qed
qed simp

section \<open>What the loops collect\<close>

definition edge_pair :: "GraphEdge \<Rightarrow> string \<times> string" where
  "edge_pair e = (ge_from e, ge_to e)"

definition known_nodes :: "GraphNode list \<Rightarrow> (string \<rightharpoonup> GraphNode)" where
  "known_nodes ns = map_of (map (\<lambda>n. (gn_id n, n)) ns)"

lemma collect_nodes_ok:
  assumes "btree_ok m"
  shows "case collect_nodes ns m of
      Inl e \<Rightarrow> \<not> (list_all (\<lambda>n. graph_node_validate n = Inr () \<and> map_of m (gn_id n) = None) ns \<and> distinct (map gn_id ns))
    | Inr m' \<Rightarrow> list_all (\<lambda>n. graph_node_validate n = Inr () \<and> map_of m (gn_id n) = None) ns \<and> distinct (map gn_id ns) \<and>
        btree_ok m' \<and> map_of m' = map_of m ++ known_nodes ns"
  using assms
proof (induction ns arbitrary: m)
  case (Cons n ns)
  let ?m = "btree_insert (gn_id n) n m"
  show ?case
  proof (cases "graph_node_validate n = Inr () \<and> map_of m (gn_id n) = None")
    case True
    have look: "map_of ?m v = (if v = gn_id n then Some n else map_of m v)" for v using btree_insert_lookup [OF Cons.prems] by simp
    have c: "collect_nodes (n # ns) m = collect_nodes ns ?m" using True by simp
    have all: "list_all (\<lambda>k. graph_node_validate k = Inr () \<and> map_of ?m (gn_id k) = None) ns \<longleftrightarrow>
        list_all (\<lambda>k. graph_node_validate k = Inr () \<and> map_of m (gn_id k) = None) ns \<and> gn_id n \<notin> gn_id ` set ns"
      unfolding look list_all_iff image_iff by (auto split: if_splits)
    have upd: "map_of ?m ++ known_nodes ns = map_of m ++ known_nodes (n # ns)" if "gn_id n \<notin> gn_id ` set ns"
    proof
      fix v
      have "known_nodes ns (gn_id n) = None" using that by (auto simp: known_nodes_def map_of_eq_None_iff)
      then show "(map_of ?m ++ known_nodes ns) v = (map_of m ++ known_nodes (n # ns)) v"
        by (auto simp: look map_add_def known_nodes_def split: option.split)
    qed
    have ih: "case collect_nodes ns ?m of
        Inl e \<Rightarrow> \<not> (list_all (\<lambda>k. graph_node_validate k = Inr () \<and> map_of ?m (gn_id k) = None) ns \<and> distinct (map gn_id ns))
      | Inr m' \<Rightarrow> list_all (\<lambda>k. graph_node_validate k = Inr () \<and> map_of ?m (gn_id k) = None) ns \<and> distinct (map gn_id ns) \<and>
          btree_ok m' \<and> map_of m' = map_of ?m ++ known_nodes ns"
      by (rule Cons.IH [OF btree_insert_ok [OF Cons.prems]])
    show ?thesis
    proof (cases "collect_nodes ns ?m")
      case (Inl e)
      then show ?thesis using ih c all True by auto
    next
      case (Inr m')
      then show ?thesis using ih c all True upd by simp
    qed
  qed (auto split: sum.splits)
qed (simp add: known_nodes_def)

text \<open>The maps hold exactly the edges accepted so far.\<close>

definition edges_held :: "(string \<times> GraphNode) list \<Rightarrow> edge_maps \<Rightarrow> (string \<times> string) list \<Rightarrow> bool" where
  "edges_held nodes st E \<longleftrightarrow>
     (case st of (seen, adj, deg) \<Rightarrow>
        set seen = set E \<and> map fst deg = map fst nodes \<and>
        (\<forall>u. adj u = (if u \<in> fst ` set nodes then Some (map snd (filter (\<lambda>e. fst e = u) E)) else None)) \<and>
        (\<forall>v. map_of deg v = (if v \<in> fst ` set nodes then Some (length (filter (\<lambda>e. snd e = v) E)) else None)))"

definition edge_fits :: "(string \<rightharpoonup> GraphNode) \<Rightarrow> GraphEdge \<Rightarrow> bool" where
  "edge_fits nodes e \<longleftrightarrow>
     ge_from e \<noteq> ge_to e \<and>
     (case (nodes (ge_from e), nodes (ge_to e)) of
        (Some source, Some target) \<Rightarrow> validate_schema_connection (gn_output_schema source) (gn_input_schema target) = Inr ()
      | _ \<Rightarrow> False)"

lemma map_entry_keys: "map fst (AList.map_entry k f xs) = map fst xs"
  by (induction xs) auto

lemma validate_edge_ok:
  assumes "edges_held nodes st E"
  shows "case validate_edge nodes st e of
      Inl _ \<Rightarrow> \<not> (edge_fits (map_of nodes) e \<and> edge_pair e \<notin> set E)
    | Inr st' \<Rightarrow> edge_fits (map_of nodes) e \<and> edge_pair e \<notin> set E \<and> edges_held nodes st' (E @ [edge_pair e])"
proof -
  obtain seen adj deg where st: "st = (seen, adj, deg)" by (cases st)
  have h: "set seen = set E" "map fst deg = map fst nodes"
      "adj u = (if u \<in> fst ` set nodes then Some (map snd (filter (\<lambda>e. fst e = u) E)) else None)"
      "map_of deg v = (if v \<in> fst ` set nodes then Some (length (filter (\<lambda>e. snd e = v) E)) else None)" for u v
    using assms by (simp_all add: edges_held_def st)
  show ?thesis
  proof (cases "edge_fits (map_of nodes) e \<and> edge_pair e \<notin> set E")
    case True
    then obtain source target where n: "map_of nodes (ge_from e) = Some source" "map_of nodes (ge_to e) = Some target"
      "ge_from e \<noteq> ge_to e" "validate_schema_connection (gn_output_schema source) (gn_input_schema target) = Inr ()"
      "(ge_from e, ge_to e) \<notin> set seen"
      by (auto simp: edge_fits_def edge_pair_def h(1) split: option.splits)
    let ?st = "((ge_from e, ge_to e) # seen, adj(ge_from e := map_option (\<lambda>ts. ts @ [ge_to e]) (adj (ge_from e))),
      AList.map_entry (ge_to e) Suc deg)"
    have v: "validate_edge nodes st e = Inr ?st" by (simp add: validate_edge_def st n)
    have "edges_held nodes ?st (E @ [edge_pair e])"
      unfolding edges_held_def prod.case using h n(1,2) map_of_SomeD [OF n(1)] map_of_SomeD [OF n(2)]
      by (auto simp: edge_pair_def map_of_map_entry map_entry_keys)
    then show ?thesis using v True by simp
  next
    case False
    then show ?thesis by (auto simp: validate_edge_def st edge_fits_def edge_pair_def h(1) split: option.splits sum.splits)
  qed
qed

lemma validate_edges_ok:
  assumes "edges_held nodes st E" "distinct E"
  shows "case validate_edges nodes st es of
      Inl _ \<Rightarrow> \<not> (list_all (edge_fits (map_of nodes)) es \<and> distinct (E @ map edge_pair es))
    | Inr st' \<Rightarrow> list_all (edge_fits (map_of nodes)) es \<and> distinct (E @ map edge_pair es) \<and> edges_held nodes st' (E @ map edge_pair es)"
  using assms
proof (induction es arbitrary: st E)
  case (Cons e es)
  show ?case
  proof (cases "validate_edge nodes st e")
    case (Inl err)
    then show ?thesis using validate_edge_ok [OF Cons.prems(1), of e] by auto
  next
    case (Inr st')
    then have s: "edge_fits (map_of nodes) e" "edge_pair e \<notin> set E" "edges_held nodes st' (E @ [edge_pair e])"
      using validate_edge_ok [OF Cons.prems(1), of e] by auto
    have "distinct (E @ [edge_pair e])" using Cons.prems(2) s(2) by simp
    from Cons.IH [OF s(3) this] Inr s show ?thesis by (auto split: sum.splits)
  qed
qed simp

lemma map_of_constant: "map_of (map (\<lambda>(v, n). (v, c)) nodes) u = (if u \<in> fst ` set nodes then Some c else None)"
  by (induction nodes) auto

lemma edges_held_start: "edges_held nodes ([], map_of (map (\<lambda>(v, n). (v, [])) nodes), map (\<lambda>(v, n). (v, 0)) nodes) []"
  unfolding edges_held_def prod.case map_of_constant by (simp add: comp_def case_prod_unfold)

lemma edges_held_graph:
  assumes "edges_held nodes (seen, adj, deg) E" "distinct (map fst nodes)" "fst ` set E \<subseteq> fst ` set nodes"
  shows "degree_graph adj deg E"
proof
  have h: "adj u = (if u \<in> fst ` set nodes then Some (map snd (filter (\<lambda>e. fst e = u) E)) else None)"
      "map_of deg v = (if v \<in> fst ` set nodes then Some (length (filter (\<lambda>e. snd e = v) E)) else None)"
      "map fst deg = map fst nodes" for u v
    using assms(1) by (simp_all add: edges_held_def)
  show "(case adj u of None \<Rightarrow> [] | Some ns \<Rightarrow> ns) = map snd (filter (\<lambda>e. fst e = u) E)" for u
    using assms(3) by (force simp: h filter_empty_conv)
  show "n = length (filter (\<lambda>e. snd e = v) E)" if "map_of deg v = Some n" for v n using that h(2) [of v] by (simp split: if_splits)
  show "distinct (map fst deg)" using h(3) assms(2) by simp
qed

text \<open>The nodes that the loop visits are all of them exactly when the edges have no cycle.\<close>

lemma visits_all_nodes:
  assumes held: "edges_held nodes (seen, adj, deg) E" and keys: "distinct (map fst nodes)"
    and inside: "fst ` set E \<subseteq> fst ` set nodes" "snd ` set E \<subseteq> fst ` set nodes"
  shows "\<exists>k. visit_nodes adj deg (map fst (filter (\<lambda>(v, n). n = 0) deg)) 0 = Some k \<and> (k = length nodes \<longleftrightarrow> acyclic (set E))"
proof -
  note dg = edges_held_graph [OF held keys inside(1)]
  have t: "traversal (\<lambda>xs. xs)" by (simp add: traversal_def)
  have h: "adj u = (if u \<in> fst ` set nodes then Some (map snd (filter (\<lambda>e. fst e = u) E)) else None)"
      "map fst deg = map fst nodes" for u using held by (simp_all add: edges_held_def)
  have dk: "fst ` set deg = fst ` set nodes" using h(2) by (metis list.set_map)
  let ?q = "zero_degree (\<lambda>xs. xs) deg"
  obtain order where o: "kahn adj deg ?q [] = Some order" "distinct order" "set order \<subseteq> fst ` set deg"
    using degree_graph.kahn_order [OF dg t] by blast
  have full: "set order = fst ` set deg \<longleftrightarrow> acyclic (set E)"
    using degree_graph.kahn_complete [OF dg t o(1)] inside dk by simp
  have len: "length order = length nodes \<longleftrightarrow> set order = fst ` set deg"
  proof -
    have "length nodes = card (fst ` set deg)" using keys dk by (metis distinct_card length_map list.set_map)
    moreover have "length order = card (set order)" using o(2) by (simp add: distinct_card)
    ultimately show ?thesis using o(3) by (metis List.finite_set card_subset_eq finite_imageI)
  qed
  have "\<forall>n \<in> fst ` set deg. \<exists>ts. adj n = Some ts \<and> set ts \<subseteq> fst ` set deg"
    using inside(2) unfolding dk h(1) by auto
  moreover have "set ?q \<subseteq> fst ` set deg" by (auto simp: zero_degree_def)
  ultimately have "visit_nodes adj deg ?q (length ([] :: string list)) = map_option length (kahn adj deg ?q [])"
    by (rule visit_nodes_kahn)
  then show ?thesis using o(1) len full by (simp add: zero_degree_def)
qed

section \<open>Properties\<close>

definition graph_fits :: "IntelligenceGraph \<Rightarrow> bool" where
  "graph_fits g \<longleftrightarrow>
     ig_schema_version g = 1 \<and> trim (ig_id g) \<noteq> [] \<and> trim (ig_version g) \<noteq> [] \<and> ig_nodes g \<noteq> [] \<and>
     list_all (\<lambda>n. graph_node_validate n = Inr ()) (ig_nodes g) \<and> distinct (map gn_id (ig_nodes g)) \<and>
     list_all (edge_fits (known_nodes (ig_nodes g))) (ig_edges g) \<and> distinct (map edge_pair (ig_edges g)) \<and>
     acyclic (set (map edge_pair (ig_edges g)))"

lemma graph_validate_result: "\<exists>r. graph_validate g = Some r \<and> (r = Inr () \<longleftrightarrow> graph_fits g)"
proof -
  let ?head = "checks [intel_schema ''IntelligenceGraph'' (ig_schema_version g), intel_require ''IntelligenceGraph'' ''id'' (ig_id g),
    intel_require ''IntelligenceGraph'' ''version'' (ig_version g),
    intel_check (ig_nodes g \<noteq> []) ''IntelligenceGraph'' ''nodes'' ''must contain at least one node'']"
  have head: "?head = Inr () \<longleftrightarrow> ig_schema_version g = 1 \<and> trim (ig_id g) \<noteq> [] \<and> trim (ig_version g) \<noteq> [] \<and> ig_nodes g \<noteq> []"
    by (simp add: checks_ok intel_schema_def intel_require_def INTELLIGENCE_SCHEMA_VERSION_def del: checks.simps)
  show ?thesis
  proof (cases "?head")
    case (Inl e)
    then have "\<not> graph_fits g" using head by (auto simp: graph_fits_def)
    then show ?thesis by (simp add: graph_validate_def Inl del: checks.simps)
  next
    case head_ok: (Inr u)
    have nodes: "case collect_nodes (ig_nodes g) [] of
        Inl e \<Rightarrow> \<not> (list_all (\<lambda>n. graph_node_validate n = Inr ()) (ig_nodes g) \<and> distinct (map gn_id (ig_nodes g)))
      | Inr m \<Rightarrow> list_all (\<lambda>n. graph_node_validate n = Inr ()) (ig_nodes g) \<and> distinct (map gn_id (ig_nodes g)) \<and>
          btree_ok m \<and> map_of m = known_nodes (ig_nodes g)"
      using collect_nodes_ok [of "[]" "ig_nodes g"] by (simp add: btree_ok_def split: sum.splits)
    show ?thesis
    proof (cases "collect_nodes (ig_nodes g) []")
      case (Inl e)
      then have "\<not> graph_fits g" using nodes by (auto simp: graph_fits_def)
      then show ?thesis by (simp add: graph_validate_def head_ok Inl del: checks.simps)
    next
      case collected: (Inr m)
      let ?st = "([], map_of (map (\<lambda>(v, n). (v, [])) m), map (\<lambda>(v, n). (v, 0)) m) :: edge_maps"
      have m: "list_all (\<lambda>n. graph_node_validate n = Inr ()) (ig_nodes g)" "distinct (map gn_id (ig_nodes g))" "btree_ok m"
          "map_of m = known_nodes (ig_nodes g)" using nodes collected by simp_all
      have keys: "distinct (map fst m)" using m(3) by (simp add: btree_ok_def strict_sorted_iff)
      show ?thesis
      proof (cases "validate_edges m ?st (ig_edges g)")
        case (Inl e)
        then have "\<not> graph_fits g" using validate_edges_ok [OF edges_held_start, of m "ig_edges g"] m(4) by (auto simp: graph_fits_def)
        then show ?thesis by (simp add: graph_validate_def head_ok collected Inl del: checks.simps)
      next
        case (Inr st)
        obtain seen adj deg where st: "st = (seen, adj, deg)" by (cases st)
        have E: "list_all (edge_fits (map_of m)) (ig_edges g)" "distinct (map edge_pair (ig_edges g))"
            "edges_held m (seen, adj, deg) (map edge_pair (ig_edges g))"
          using validate_edges_ok [OF edges_held_start, of m "ig_edges g"] Inr st by simp_all
        have "ge_from e \<in> fst ` set m \<and> ge_to e \<in> fst ` set m" if "e \<in> set (ig_edges g)" for e
        proof -
          have "edge_fits (map_of m) e" using E(1) that by (simp add: list_all_iff)
          then have "map_of m (ge_from e) \<noteq> None" "map_of m (ge_to e) \<noteq> None" by (auto simp: edge_fits_def split: option.splits)
          then show ?thesis by (simp add: map_of_eq_None_iff)
        qed
        then have inside: "fst ` set (map edge_pair (ig_edges g)) \<subseteq> fst ` set m" "snd ` set (map edge_pair (ig_edges g)) \<subseteq> fst ` set m"
          by (auto simp: edge_pair_def)
        obtain k where k: "visit_nodes adj deg (map fst (filter (\<lambda>(v, n). n = 0) deg)) 0 = Some k"
            "k = length m \<longleftrightarrow> acyclic (set (map edge_pair (ig_edges g)))"
          using visits_all_nodes [OF E(3) keys inside] by blast
        have "graph_fits g \<longleftrightarrow> k = length m"
          using head head_ok m E(1,2) k(2) by (simp add: graph_fits_def del: checks.simps)
        then show ?thesis by (simp add: graph_validate_def head_ok collected Inr st k(1) del: checks.simps)
      qed
    qed
  qed
qed

text \<open>C37.  The validation of an intelligence graph never panics and its loop ends.  It accepts exactly the graphs of the
  supported version with a name, a version and at least one node, whose nodes are valid and have different names, whose
  edges connect different known nodes with matching schemas, each at most once, and have no cycle.\<close>

theorem graph_validate_exact:
  "\<exists>r. graph_validate g = Some r \<and> (r = Inr () \<longleftrightarrow> graph_fits g)"
  by (rule graph_validate_result)

text \<open>A valid graph is always lowered to a workflow contract that the runtime accepts, with one step per node and
  one edge per edge in the same order; an invalid graph is refused with the error of its validation.\<close>

theorem valid_graph_lowers:
  "case graph_validate g of
     None \<Rightarrow> False
   | Some (Inl e) \<Rightarrow> to_workflow_contract g = Some (Inl e)
   | Some (Inr _) \<Rightarrow> (\<exists>w. to_workflow_contract g = Some (Inr w) \<and> simple_contract_validate ''WorkflowContract'' w = Inr () \<and>
        sc_id w = ig_id g \<and> wc_steps w = map gn_id (ig_nodes g) \<and> distinct (wc_steps w) \<and>
        wc_edges w = map edge_pair (ig_edges g) \<and> acyclic (set (wc_edges w)))"
proof -
  obtain r where r: "graph_validate g = Some r" "r = Inr () \<longleftrightarrow> graph_fits g" using graph_validate_result by blast
  show ?thesis
  proof (cases r)
    case (Inl e)
    then show ?thesis using r(1) by (simp add: to_workflow_contract_def)
  next
    case (Inr u)
    then have fits: "graph_fits g" using r(2) by simp
    have pairs: "(\<lambda>e. (ge_from e, ge_to e)) = edge_pair" by (simp add: fun_eq_iff edge_pair_def)
    have "simple_contract_validate ''WorkflowContract'' w = Inr ()"
      if "sc_schema_version w = ig_schema_version g" "sc_id w = ig_id g" "sc_version w = ig_version g" for w :: WorkflowContract
      using fits that by (simp add: simple_contract_validate_def checks_ok contract_schema_def contract_required_def
          OPEN_RUNTIME_SCHEMA_VERSION_def graph_fits_def del: checks.simps)
    then show ?thesis using r(1) Inr fits by (simp add: to_workflow_contract_def Let_def pairs graph_fits_def)
  qed
qed

lemma node_map_ok: "btree_ok (node_map g)"
proof -
  have "btree_ok (foldl (\<lambda>m n. btree_insert (gn_id n) n m) m ns)" if "btree_ok m" for m ns
    using that by (induction ns arbitrary: m) (simp_all add: btree_insert_ok)
  from this [of "[]" "ig_nodes g"] show ?thesis by (simp add: node_map_def btree_ok_def)
qed

lemma sort_empty_iff: "sort xs = [] \<longleftrightarrow> xs = []"
  by (metis length_0_conv length_sort)

text \<open>The difference of two graphs is empty exactly when they have the same nodes, by name, and the same edges; the
  order of nodes and edges, repeated edges, the names, versions and metadata of the graphs are not compared.\<close>

theorem graph_diff_empty_iff:
  "graph_diff g h = \<lparr>gd_added_nodes = [], gd_removed_nodes = [], gd_changed_nodes = [], gd_added_edges = [], gd_removed_edges = []\<rparr>
     \<longleftrightarrow> map_of (node_map g) = map_of (node_map h) \<and> edge_pair ` set (ig_edges g) = edge_pair ` set (ig_edges h)"
proof -
  let ?l = "node_map g" and ?r = "node_map h"
  have dist: "distinct (map fst ?l)" "distinct (map fst ?r)" using node_map_ok by (simp_all add: btree_ok_def strict_sorted_iff)
  have same_map: "map_of ?l = map_of ?r" if "\<forall>v \<in> fst ` set ?r. map_of ?l v \<noteq> None" "\<forall>v \<in> fst ` set ?l. map_of ?r v \<noteq> None"
      "\<forall>(v, n) \<in> set ?l. \<not> (case map_of ?r v of None \<Rightarrow> False | Some n' \<Rightarrow> n' \<noteq> n)"
  proof
    fix v
    show "map_of ?l v = map_of ?r v"
    proof (cases "map_of ?l v")
      case None
      then have "v \<notin> fst ` set ?r" using that(1) by blast
      then show ?thesis using None map_of_eq_None_iff [of ?r v] by simp
    next
      case (Some n)
      then have n: "(v, n) \<in> set ?l" by (rule map_of_SomeD)
      then have "map_of ?r v \<noteq> None" using that(2) by force
      then show ?thesis using that(3) n Some by (auto split: option.splits)
    qed
  qed
  have left_in: "map_of ?r v \<noteq> None" if "map_of ?l = map_of ?r" "v \<in> fst ` set ?l" for v
    using that map_of_eq_None_iff [of ?l v] by simp
  have right_in: "map_of ?l v \<noteq> None" if "map_of ?l = map_of ?r" "v \<in> fst ` set ?r" for v
    using that map_of_eq_None_iff [of ?r v] by simp
  have unchanged: "map_of ?r v = Some n" if "map_of ?l = map_of ?r" "(v, n) \<in> set ?l" for v n
    using that map_of_is_SomeI [OF dist(1)] by metis
  have nodes: "map_of ?l = map_of ?r \<longleftrightarrow> (\<forall>v \<in> fst ` set ?r. map_of ?l v \<noteq> None) \<and> (\<forall>v \<in> fst ` set ?l. map_of ?r v \<noteq> None) \<and>
      (\<forall>(v, n) \<in> set ?l. \<not> (case map_of ?r v of None \<Rightarrow> False | Some n' \<Rightarrow> n' \<noteq> n))"
  proof (intro iffI conjI ballI)
    fix p assume "map_of ?l = map_of ?r" "p \<in> set ?l"
    then show "case p of (v, n) \<Rightarrow> \<not> (case map_of ?r v of None \<Rightarrow> False | Some n' \<Rightarrow> n' \<noteq> n)"
      using unchanged [of "fst p" "snd p"] by (simp add: case_prod_unfold)
  qed (use same_map left_in right_in in blast)+
  have edges: "set (edge_set k) = edge_pair ` set (ig_edges k)" for k
    by (auto simp: edge_set_def edge_pair_def)
  have changed: "filter (\<lambda>(v, n). case map_of ?r v of None \<Rightarrow> False | Some n' \<Rightarrow> n' \<noteq> n) ?l = [] \<longleftrightarrow>
      (\<forall>(v, n) \<in> set ?l. \<not> (case map_of ?r v of None \<Rightarrow> False | Some n' \<Rightarrow> n' \<noteq> n))"
    by (simp add: filter_empty_conv case_prod_unfold)
  have sub: "filter (\<lambda>e. e \<notin> set xs) ys = [] \<longleftrightarrow> set ys \<subseteq> set xs" for xs ys :: "(string \<times> string) list"
    by (auto simp: filter_empty_conv)
  have same: "filter (\<lambda>e. e \<notin> set (edge_set g)) (edge_set h) = [] \<and> filter (\<lambda>e. e \<notin> set (edge_set h)) (edge_set g) = [] \<longleftrightarrow>
      edge_pair ` set (ig_edges g) = edge_pair ` set (ig_edges h)" unfolding sub unfolding edges by blast
  have absent: "filter (\<lambda>v. map_of m v = None) (map fst m') = [] \<longleftrightarrow> (\<forall>v \<in> fst ` set m'. map_of m v \<noteq> None)"
    for m m' :: "(string \<times> GraphNode) list" by (simp add: filter_empty_conv)
  show ?thesis
    unfolding nodes same [symmetric] absent [symmetric] changed [symmetric]
    by (simp only: graph_diff_def Let_def GraphDiff.ext_inject sort_empty_iff map_is_Nil_conv) blast
qed

end
