(* ===== verification/Kernel_Interface.thy ===== *)
theory Kernel_Interface
  imports Log_View "HOL-Library.Word"
begin

unbundle bit_operations_syntax

text \<open>
  The kernel interface: the request and response envelopes (crates/nous-nki/src/envelope.rs), the method names
  (methods.rs), the length-prefixed frames (transport.rs), and the part of the daemon that reads frames, compares
  session tokens and screens envelopes before it dispatches them (daemon/nousd/src/main.rs).

  Bytes are characters.  The JSON image of an error body and its decoding, which are derived code, are the
  parameters \<open>to_json\<close> and \<open>of_json\<close>.
\<close>

section \<open>Envelopes\<close>

record NKIRequest =
  nq_request_id :: string
  nq_idempotency_key :: string
  nq_nki_version :: u32
  nq_principal_id :: string
  nq_session_token :: string
  nq_namespace :: string
  nq_deadline_us :: int
  nq_traceparent :: string
  nq_tracestate :: string
  nq_feature_flags :: "string list"
  nq_method :: string
  nq_payload :: string

record NKIErrorBody =
  ne_code :: string
  ne_message :: string
  ne_failed_phase :: string
  ne_cause :: string
  ne_retryable :: bool
  ne_recommended_delay_ms :: u32

datatype NKIOutcome = NKI_Success json | NKI_Error NKIErrorBody

record NKIResponse =
  nr_request_id :: string
  nr_nki_version :: u32
  nr_server_timestamp_us :: int
  nr_trace_id :: string
  nr_outcome :: NKIOutcome

definition error_body_display :: "NKIErrorBody \<Rightarrow> string" where
  "error_body_display e = ne_code e @ '': '' @ ne_message e"

text \<open>The derived serialization of an outcome, with its tag \<open>status\<close>, and its own deserialization.\<close>

fun outcome_to_json :: "(NKIErrorBody \<Rightarrow> json) \<Rightarrow> NKIOutcome \<Rightarrow> json" where
  "outcome_to_json to_json (NKI_Success payload) = JObject [(''status'', JString ''success''), (''payload'', payload)]"
| "outcome_to_json to_json (NKI_Error e) = JObject [(''status'', JString ''error''), (''error'', to_json e)]"

definition missing_field :: "string \<Rightarrow> string" where
  "missing_field f = ''missing field '' @ CHR 0x60 # f @ [CHR 0x60]"

definition success_field :: "(string \<times> json) list \<Rightarrow> string + NKIOutcome" where
  "success_field object =
     (case map_of object ''payload'' of Some payload \<Rightarrow> Inr (NKI_Success payload) | None \<Rightarrow> Inl (missing_field ''payload''))"

definition error_field :: "(json \<Rightarrow> string + NKIErrorBody) \<Rightarrow> (string \<times> json) list \<Rightarrow> string + NKIOutcome" where
  "error_field of_json object =
     (case map_of object ''error'' of
        Some v \<Rightarrow> (case of_json v of Inr e \<Rightarrow> Inr (NKI_Error e) | Inl m \<Rightarrow> Inl m)
      | None \<Rightarrow> Inl (missing_field ''error''))"

definition outcome_of_json :: "(json \<Rightarrow> string + NKIErrorBody) \<Rightarrow> json \<Rightarrow> string + NKIOutcome" where
  "outcome_of_json of_json v =
     (case v of
        JObject object \<Rightarrow>
          (case map_of object ''status'' of
             Some (JString status) \<Rightarrow>
               if status = ''success'' then success_field object
               else if status = ''error'' then error_field of_json object
               else Inl (''unknown NKI outcome status '' @ quoted status)
           | _ \<Rightarrow>
               if map_of object ''error'' \<noteq> None then error_field of_json object
               else if map_of object ''payload'' \<noteq> None then success_field object
               else Inl ''NKI outcome requires status, payload, or error'')
      | _ \<Rightarrow> Inl ''NKI outcome must be an object'')"

section \<open>Methods\<close>

definition nki_methods :: "string list" where
  "nki_methods =
     [''SubmitWorkload'', ''SubmitContinuityPlan'', ''GetWorkload'', ''ListWorkloads'', ''CancelWorkload'',
      ''PauseWorkload'', ''ResumeWorkload'', ''AdmitWorkload'', ''AdmitExtension'', ''AuthorizeExtension'',
      ''AuthorizeExtensionExecution'', ''RevokeExtension'', ''ReserveResources'', ''ReleaseResources'',
      ''RegisterModel'', ''ValidateModel'', ''LoadModel'', ''UnloadModel'', ''PutControlAsset'', ''GetControlAsset'',
      ''ListControlAssets'', ''DeleteControlAsset'', ''RegisterEngine'', ''ProbeEngine'', ''ListEngines'',
      ''RegisterDevice'', ''ProbeDevice'', ''ListDevices'', ''CreateCheckpoint'', ''RestoreCheckpoint'',
      ''WatchEvents'', ''GetTrace'', ''GetMetrics'', ''ExplainExecution'', ''HealthCheck'', ''RenewLease'']"

definition nki_method_is_valid :: "string \<Rightarrow> bool" where
  "nki_method_is_valid m \<longleftrightarrow> m \<in> set nki_methods"

section \<open>Frames\<close>

definition u32_to_be_bytes :: "u32 \<Rightarrow> string" where
  "u32_to_be_bytes n = map (\<lambda>i. char_of (unat (drop_bit (8 * i) n AND 0xFF))) [3, 2, 1, 0]"

fun u32_from_be_bytes :: "string \<Rightarrow> nat" where
  "u32_from_be_bytes bytes = foldl (\<lambda>n c. n * 256 + of_char c) 0 bytes"

definition encode_raw :: "string \<Rightarrow> string" where
  "encode_raw bytes = u32_to_be_bytes (of_nat (length bytes)) @ bytes"

datatype TransportError =
    TE_ConnectionFailed string | TE_Timeout u64 | TE_Serialization string | TE_Closed | TE_Unauthenticated
  | TE_Unsupported string

definition codec_encode :: "'a codec \<Rightarrow> 'a \<Rightarrow> TransportError + string" where
  "codec_encode c msg = (case enc c msg of Inl e \<Rightarrow> Inl (TE_Serialization e) | Inr body \<Rightarrow> Inr (encode_raw body))"

definition codec_decode :: "'a codec \<Rightarrow> string \<Rightarrow> TransportError + 'a" where
  "codec_decode c data =
     (if length data < 4 then Inl (TE_Serialization ''Message too short'')
      else let len = u32_from_be_bytes (take 4 data) in
           if length data < 4 + len then Inl (TE_Serialization ''Message truncated'')
           else (case dec c (take len (drop 4 data)) of Inl e \<Rightarrow> Inl (TE_Serialization e) | Inr x \<Rightarrow> Inr x))"

text \<open>The daemon's side: a connection that ends between or inside the four length bytes is closed, a frame above
  16 MiB and a body that ends early are errors.\<close>

datatype frame_read = FR_Closed | FR_TooLarge | FR_Truncated | FR_Frame string string

definition read_frame :: "string \<Rightarrow> frame_read" where
  "read_frame stream =
     (if length stream < 4 then FR_Closed
      else let len = u32_from_be_bytes (take 4 stream); rest = drop 4 stream in
           if len > 16 * 1024 * 1024 then FR_TooLarge
           else if length rest < len then FR_Truncated
           else FR_Frame (take len rest) (drop len rest))"

lemma read_frame_shorter: "read_frame stream = FR_Frame body rest \<Longrightarrow> length rest < length stream"
  by (auto simp: read_frame_def Let_def split: if_splits)

function read_frames :: "string \<Rightarrow> string list \<times> frame_read" where
  "read_frames stream =
     (case read_frame stream of
        FR_Frame body rest \<Rightarrow> (case read_frames rest of (bodies, how) \<Rightarrow> (body # bodies, how))
      | how \<Rightarrow> ([], how))"
  by pat_completeness auto
termination
  by (relation "measure length") (auto dest: read_frame_shorter)

declare read_frames.simps [simp del]

section \<open>Session tokens and the screening of envelopes\<close>

definition byte_at :: "string \<Rightarrow> nat \<Rightarrow> u64" where
  "byte_at s i = (if i < length s then of_nat (of_char (s ! i)) else 0)"

definition constant_time_equal :: "string \<Rightarrow> string \<Rightarrow> bool" where
  "constant_time_equal left right \<longleftrightarrow>
     foldl (\<lambda>difference index. difference OR (byte_at left index XOR byte_at right index))
       ((of_nat (length left) :: u64) XOR of_nat (length right)) [0..<max (length left) (length right)] = 0"

definition nki_error :: "string \<Rightarrow> string \<Rightarrow> bool \<Rightarrow> NKIOutcome" where
  "nki_error code message retryable =
     NKI_Error \<lparr>ne_code = code, ne_message = message, ne_failed_phase = ''EXECUTE'', ne_cause = [],
       ne_retryable = retryable, ne_recommended_delay_ms = (if retryable then 250 else 0)\<rparr>"

definition NKI_VERSION :: u32 where
  "NKI_VERSION = 2"

definition MIN_NKI_VERSION :: u32 where
  "MIN_NKI_VERSION = 1"

text \<open>The refusal of an envelope, or none when the request is dispatched.\<close>

definition screen_envelope :: "string \<Rightarrow> int \<Rightarrow> NKIRequest \<Rightarrow> NKIOutcome option" where
  "screen_envelope session_token now q =
     (if \<not> (MIN_NKI_VERSION \<le> nq_nki_version q \<and> nq_nki_version q \<le> NKI_VERSION)
      then Some (nki_error ''NKI_VERSION_UNSUPPORTED'' ''unsupported NKI version'' False)
      else if nq_request_id q = [] \<or> nq_idempotency_key q = [] \<or> nq_principal_id q = [] \<or> nq_namespace q = []
      then Some (nki_error ''INVALID_ENVELOPE''
             ''request_id, idempotency_key, principal_id, and namespace are required'' False)
      else if session_token \<noteq> [] \<and> \<not> constant_time_equal (nq_session_token q) session_token
      then Some (nki_error ''UNAUTHENTICATED'' ''local Runtime session is invalid'' False)
      else if nq_deadline_us q > 0 \<and> now > nq_deadline_us q
      then Some (nki_error ''DEADLINE_EXCEEDED'' ''request deadline expired'' True)
      else None)"

section \<open>Frames are read back\<close>

lemma u32_bytes_roundtrip: "u32_from_be_bytes (u32_to_be_bytes n) = unat n"
proof -
  have b: "unat (drop_bit k n AND 0xFF) = unat n div 2 ^ k mod 256" for k
  proof -
    have "(0xFF :: u32) = mask 8" by (simp add: mask_eq_exp_minus_1)
    then have "drop_bit k n AND 0xFF = take_bit 8 (drop_bit k n)" by (simp only: take_bit_eq_mask)
    then have "unat (drop_bit k n AND 0xFF) = take_bit 8 (drop_bit k (unat n))"
      using unsigned_less [of n, where ?'a = nat] by (simp only: unsigned_take_bit_eq unsigned_drop_bit_eq) (simp add: take_bit_nat_eq_self)
    then show ?thesis by (simp only: drop_bit_eq_div take_bit_eq_mod) simp
  qed
  let ?n = "unat n"
  have "?n < 2 ^ 32" using unsigned_less [of n, where ?'a = nat] by simp
  then have hi: "?n div 16777216 mod 256 = ?n div 16777216" by (simp add: div_less_iff_less_mult)
  have "?n div 65536 = ?n div 16777216 * 256 + ?n div 65536 mod 256"
    using div_mult_mod_eq [of "?n div 65536" 256] by (simp add: div_mult2_eq [symmetric])
  moreover have "?n div 256 = ?n div 65536 * 256 + ?n div 256 mod 256"
    using div_mult_mod_eq [of "?n div 256" 256] by (simp add: div_mult2_eq [symmetric])
  moreover have "?n = ?n div 256 * 256 + ?n mod 256" by simp
  ultimately have "((?n div 16777216 * 256 + ?n div 65536 mod 256) * 256 + ?n div 256 mod 256) * 256 + ?n mod 256 = ?n"
    by (simp only:)
  with hi show ?thesis unfolding u32_to_be_bytes_def by (simp add: b)
qed

lemma u32_to_be_bytes_length [simp]: "length (u32_to_be_bytes n) = 4"
  by (simp add: u32_to_be_bytes_def)

lemma unat_of_nat_u32: "n < 2 ^ 32 \<Longrightarrow> unat (of_nat n :: u32) = n"
  by (simp add: unat_of_nat take_bit_eq_mod)

lemma frame_header: "length body < 2 ^ 32 \<Longrightarrow> u32_from_be_bytes (take 4 (encode_raw body @ rest)) = length body"
  unfolding encode_raw_def by (simp add: u32_bytes_roundtrip unat_of_nat_u32 del: u32_from_be_bytes.simps)

lemma read_encoded: "length body \<le> 16 * 1024 * 1024 \<Longrightarrow> read_frame (encode_raw body @ rest) = FR_Frame body rest"
proof -
  assume l: "length body \<le> 16 * 1024 * 1024"
  have "u32_from_be_bytes (take 4 (encode_raw body @ rest)) = length body" by (rule frame_header) (use l in simp)
  moreover have "drop 4 (encode_raw body @ rest) = body @ rest" "4 \<le> length (encode_raw body @ rest)"
    by (simp_all add: encode_raw_def)
  ultimately show ?thesis using l unfolding read_frame_def Let_def by simp
qed

text \<open>What a client frames is what the daemon reads: a stream of framed messages, none longer than 16 MiB, followed
  by the end of the connection or by fewer bytes than a length takes, is read as exactly these messages in order.  A
  message above the limit ends the connection with an error, and nothing after it is read.\<close>

theorem frames_read_back:
  assumes "list_all (\<lambda>m. length m \<le> 16 * 1024 * 1024) msgs" "length tail < 4"
    and "16 * 1024 * 1024 < length big" "length big < 2 ^ 32"
  shows "read_frames (concat (map encode_raw msgs) @ tail) = (msgs, FR_Closed) \<and>
    read_frames (concat (map encode_raw msgs) @ encode_raw big @ after) = (msgs, FR_TooLarge)"
proof -
  have rd: "read_frames (concat (map encode_raw msgs) @ stream) = (msgs, how)" if "read_frames stream = ([], how)" for stream how
    using assms(1)
  proof (induction msgs)
    case (Cons m msgs)
    then have "read_frame (encode_raw m @ concat (map encode_raw msgs) @ stream) = FR_Frame m (concat (map encode_raw msgs) @ stream)"
      by (intro read_encoded) simp
    with Cons show ?case by (simp add: read_frames.simps [of "encode_raw m @ _"])
  qed (simp add: that)
  have "read_frame tail = FR_Closed" using assms(2) by (simp add: read_frame_def)
  moreover have "read_frame (encode_raw big @ after) = FR_TooLarge"
    using assms(3) frame_header [OF assms(4), of after] unfolding read_frame_def Let_def by (simp add: encode_raw_def)
  ultimately show ?thesis using rd read_frames.simps by simp
qed

section \<open>Tokens and envelopes\<close>

lemma xor_zero: "(a :: u64) XOR b = 0 \<longleftrightarrow> a = b"
  by (auto simp: bit_eq_iff bit_xor_iff)

lemma or_fold_zero:
  "foldl (\<lambda>d i. d OR f i) a is = (0 :: u64) \<longleftrightarrow> a = 0 \<and> (\<forall>i \<in> set is. f i = 0)"
  by (induction "is" arbitrary: a) (auto simp: or_eq_0_iff)

lemma token_equal:
  assumes "length left < 2 ^ 64" "length right < 2 ^ 64"
  shows "constant_time_equal left right \<longleftrightarrow> left = right"
proof
  assume "constant_time_equal left right"
  then have len: "(of_nat (length left) :: u64) XOR of_nat (length right) = 0"
    and bytes: "\<forall>i < max (length left) (length right). byte_at left i XOR byte_at right i = 0"
    unfolding constant_time_equal_def or_fold_zero by auto
  from len have "(of_nat (length left) :: u64) = of_nat (length right)" by (simp add: xor_zero)
  then have "unat (of_nat (length left) :: u64) = unat (of_nat (length right) :: u64)" by simp
  then have l: "length left = length right" using assms by (simp add: unat_of_nat take_bit_eq_mod)
  show "left = right"
  proof (rule nth_equalityI [OF l])
    fix i assume i: "i < length left"
    then have "byte_at left i = byte_at right i" using bytes l by (simp add: xor_zero)
    then have eq: "(of_nat (of_char (left ! i)) :: u64) = of_nat (of_char (right ! i))" using i l by (simp add: byte_at_def)
    have "unat (of_nat (of_char c) :: u64) = of_char c" for c
    proof -
      have "of_char c < (18446744073709551616 :: nat)" by (rule less_trans [OF nat_of_char_less_256]) simp
      then show ?thesis by (simp add: unat_of_nat take_bit_eq_mod)
    qed
    then have "(of_char (left ! i) :: nat) = of_char (right ! i)" using arg_cong [OF eq, of unat] by simp
    then show "left ! i = right ! i" by simp
  qed
qed (unfold constant_time_equal_def or_fold_zero, simp)

text \<open>The comparison of session tokens, which looks at every byte whatever the outcome, decides equality.\<close>

theorem constant_time_equal_exact:
  assumes "length left < 2 ^ 64" "length right < 2 ^ 64"
  shows "constant_time_equal left right \<longleftrightarrow> left = right"
  using assms by (rule token_equal)

text \<open>A request is dispatched exactly when its version is 1 or 2, it names its request, its idempotency key, its
  principal and its namespace, it carries the session token where the daemon has one, and its deadline, where it has
  one, has not passed.\<close>

theorem envelope_screening_exact:
  assumes "length (nq_session_token q) < 2 ^ 64" "length session_token < 2 ^ 64"
  shows "screen_envelope session_token now q = None \<longleftrightarrow>
    nq_nki_version q \<in> {1, 2} \<and> nq_request_id q \<noteq> [] \<and> nq_idempotency_key q \<noteq> [] \<and> nq_principal_id q \<noteq> [] \<and>
    nq_namespace q \<noteq> [] \<and> session_token \<in> {[], nq_session_token q} \<and> (nq_deadline_us q \<le> 0 \<or> now \<le> nq_deadline_us q)"
proof -
  have "1 \<le> v \<and> v \<le> 2 \<longleftrightarrow> v \<in> {1, 2}" for v :: u32
  proof
    assume "1 \<le> v \<and> v \<le> 2"
    then have "unat v = 1 \<or> unat v = 2" by (auto simp: word_le_nat_alt)
    then have "unat v = unat (1 :: u32) \<or> unat v = unat (2 :: u32)" by simp
    then show "v \<in> {1, 2}" by (simp only: word_unat_eq_iff [symmetric] insert_iff empty_iff simp_thms)
  qed auto
  then show ?thesis using token_equal [OF assms] by (auto simp: screen_envelope_def MIN_NKI_VERSION_def NKI_VERSION_def)
qed

text \<open>An outcome survives the wire: it is decoded from its own encoding, provided error bodies are, and an outcome
  without a status is still read from its error or its payload.\<close>

theorem outcome_json_roundtrip:
  assumes "\<And>e. of_json (to_json e) = Inr e"
  shows "outcome_of_json of_json (outcome_to_json to_json v) = Inr v \<and>
    outcome_of_json of_json (JObject [(''payload'', p)]) = Inr (NKI_Success p) \<and>
    outcome_of_json of_json (JObject [(''error'', to_json e)]) = Inr (NKI_Error e)"
  by (cases v) (simp_all add: outcome_of_json_def success_field_def error_field_def assms)

section \<open>A request\<close>

definition demo_request :: NKIRequest where
  "demo_request =
     \<lparr>nq_request_id = ''r'', nq_idempotency_key = ''k'', nq_nki_version = 2, nq_principal_id = ''p'', nq_session_token = [],
      nq_namespace = ''n'', nq_deadline_us = 0, nq_traceparent = [], nq_tracestate = [], nq_feature_flags = [],
      nq_method = ''HealthCheck'', nq_payload = []\<rparr>"

theorem constant_time_equal_exact_witness: "\<not> constant_time_equal ''token'' ''tokens''"
  using constant_time_equal_exact [of "''token''" "''tokens''"] by simp

theorem envelope_screening_exact_witness: "screen_envelope [] 7 demo_request = None"
  using envelope_screening_exact [of demo_request "[]" 7] by (simp add: demo_request_def)

definition demo_error_json :: "NKIErrorBody \<Rightarrow> json" where
  "demo_error_json e =
     JArray [JString (ne_code e), JString (ne_message e), JString (ne_failed_phase e), JString (ne_cause e),
       JBool (ne_retryable e), JNumber (replicate (unat (ne_recommended_delay_ms e)) (CHR ''0''))]"

definition demo_error_of_json :: "json \<Rightarrow> string + NKIErrorBody" where
  "demo_error_of_json v =
     (case v of
        JArray [JString c, JString m, JString p, JString q, JBool b, JNumber d] \<Rightarrow>
          Inr \<lparr>ne_code = c, ne_message = m, ne_failed_phase = p, ne_cause = q, ne_retryable = b,
            ne_recommended_delay_ms = of_nat (length d)\<rparr>
      | _ \<Rightarrow> Inl ''invalid'')"

theorem outcome_json_roundtrip_witness:
  "outcome_of_json demo_error_of_json (outcome_to_json demo_error_json (nki_error ''CODE'' ''message'' True)) =
     Inr (nki_error ''CODE'' ''message'' True)"
  using outcome_json_roundtrip [of demo_error_of_json demo_error_json] by (simp add: demo_error_of_json_def demo_error_json_def)

theorem frames_read_back_witness:
  "read_frames (concat (map encode_raw [''one'', ''two'']) @ ''x'') = ([''one'', ''two''], FR_Closed)"
proof -
  have "length (replicate 16777217 (CHR ''0'')) = 16777217" by (rule length_replicate)
  then show ?thesis
    using frames_read_back [of "[''one'', ''two'']" "''x''" "replicate 16777217 (CHR ''0'')"] by simp
qed

end
