(* ===== verification/Control_Plane.thy ===== *)
theory Control_Plane
  imports Intelligence_Graph Kernel_Interface
begin

text \<open>
  The asset catalogue of the control plane (crates/nous-control-plane/src/lib.rs) with its requests
  (crates/nous-types/src/control\_api.rs) and the errors that the daemon makes of it.

  The database is a table of rows, unique in kind and identifier.  A statement of the storage may fail: the next
  entry of \<open>cs_faults\<close> says whether and with which message, and a transaction that does not commit leaves the
  rows unchanged.  Generations are stored in a signed 64-bit column, and a larger number is a storage error.  The JSON
  coding of documents, the decoders of the asset types and SHA-256 are parameters (\<open>control_env\<close>).  A deletion
  takes the lock of the connection twice; \<open>delete_check\<close> and \<open>delete_apply\<close> are its two
  critical sections.
\<close>

section \<open>Requests and assets\<close>

definition CONTROL_API_SCHEMA_VERSION :: u32 where
  "CONTROL_API_SCHEMA_VERSION = 1"

datatype AssetKind = AK_Project | AK_Model | AK_Graph | AK_Dataset | AK_Experiment | AK_Artifact

fun asset_kind_as_str :: "AssetKind \<Rightarrow> string" where
  "asset_kind_as_str AK_Project = ''project''"
| "asset_kind_as_str AK_Model = ''model''"
| "asset_kind_as_str AK_Graph = ''graph''"
| "asset_kind_as_str AK_Dataset = ''dataset''"
| "asset_kind_as_str AK_Experiment = ''experiment''"
| "asset_kind_as_str AK_Artifact = ''artifact''"

text \<open>The derived decoding of a kind from its name.\<close>

definition asset_kind_of :: "string \<Rightarrow> AssetKind option" where
  "asset_kind_of s =
     find (\<lambda>k. asset_kind_as_str k = s) [AK_Project, AK_Model, AK_Graph, AK_Dataset, AK_Experiment, AK_Artifact]"

record PutAssetRequest =
  par_schema_version :: u32
  par_kind :: AssetKind
  par_document :: json
  par_expected_generation :: "nat option"

record AssetSelector =
  asl_schema_version :: u32
  asl_kind :: AssetKind
  asl_id :: string

record ListAssetsRequest =
  lar_schema_version :: u32
  lar_kind :: AssetKind

record ControlAsset =
  ca_schema_version :: u32
  ca_kind :: AssetKind
  ca_id :: string
  ca_version :: string
  ca_generation :: nat
  ca_sha256 :: string
  ca_document :: json
  ca_created_at_us :: int
  ca_updated_at_us :: int

datatype ControlPlaneError = CPE_Invalid string | CPE_NotFound string string | CPE_Conflict string | CPE_Storage string

fun control_error_display :: "ControlPlaneError \<Rightarrow> string" where
  "control_error_display (CPE_Invalid m) = ''invalid control request: '' @ m"
| "control_error_display (CPE_NotFound k i) = ''control asset not found: '' @ k @ ''/'' @ i"
| "control_error_display (CPE_Conflict m) = ''control asset conflict: '' @ m"
| "control_error_display (CPE_Storage m) = ''control-plane storage failure: '' @ m"

fun control_error_code :: "ControlPlaneError \<Rightarrow> string" where
  "control_error_code (CPE_Invalid _) = ''CONTROL_INVALID''"
| "control_error_code (CPE_NotFound _ _) = ''CONTROL_NOT_FOUND''"
| "control_error_code (CPE_Conflict _) = ''CONTROL_CONFLICT''"
| "control_error_code (CPE_Storage _) = ''CONTROL_STORAGE''"

definition control_error :: "ControlPlaneError \<Rightarrow> NKIOutcome" where
  "control_error e = nki_error (control_error_code e) (control_error_display e) False"

section \<open>The storage\<close>

record asset_row =
  ar_kind :: string
  ar_id :: string
  ar_version :: string
  ar_generation :: nat
  ar_sha256 :: string
  ar_document :: string
  ar_created_at_us :: int
  ar_updated_at_us :: int

record ControlPlaneStore =
  cs_rows :: "asset_row list"
  cs_faults :: "string option list"

record control_env =
  ce_json :: "json codec"
  ce_digest :: "string \<Rightarrow> string"
  ce_project :: "json \<Rightarrow> string + ProjectManifest"
  ce_profile :: "json \<Rightarrow> string + ModelProfile"
  ce_model :: "json \<Rightarrow> string + ModelSpec"
  ce_graph :: "json \<Rightarrow> string + IntelligenceGraph"
  ce_dataset :: "json \<Rightarrow> string + DatasetManifest"
  ce_experiment :: "json \<Rightarrow> string + ExperimentManifest"
  ce_artifact :: "json \<Rightarrow> string + ArtifactContract"
  ce_bad_kind :: "string \<Rightarrow> string"
  ce_bad_document :: "string \<Rightarrow> string"
  ce_out_of_range :: string

definition control_open_in_memory :: ControlPlaneStore where
  "control_open_in_memory = \<lparr>cs_rows = [], cs_faults = []\<rparr>"

text \<open>One statement: it consumes one entry of the faults.\<close>

definition statement :: "ControlPlaneStore \<Rightarrow> string option \<times> ControlPlaneStore" where
  "statement st =
     (case cs_faults st of [] \<Rightarrow> (None, st) | f # fs \<Rightarrow> (f, st\<lparr>cs_faults := fs\<rparr>))"

definition row_to_asset :: "control_env \<Rightarrow> asset_row \<Rightarrow> ControlPlaneError + ControlAsset" where
  "row_to_asset env r =
     (case asset_kind_of (ar_kind r) of
        None \<Rightarrow> Inl (CPE_Storage (ce_bad_kind env (ar_kind r)))
      | Some kind \<Rightarrow>
          (case dec (ce_json env) (ar_document r) of
             Inl e \<Rightarrow> Inl (CPE_Storage (ce_bad_document env e))
           | Inr document \<Rightarrow>
               Inr \<lparr>ca_schema_version = CONTROL_API_SCHEMA_VERSION, ca_kind = kind, ca_id = ar_id r, ca_version = ar_version r,
                    ca_generation = ar_generation r, ca_sha256 = ar_sha256 r, ca_document = document,
                    ca_created_at_us = ar_created_at_us r, ca_updated_at_us = ar_updated_at_us r\<rparr>))"

definition row_is :: "AssetKind \<Rightarrow> string \<Rightarrow> asset_row \<Rightarrow> bool" where
  "row_is kind i r \<longleftrightarrow> ar_kind r = asset_kind_as_str kind \<and> ar_id r = i"

definition select_asset ::
  "control_env \<Rightarrow> AssetKind \<Rightarrow> string \<Rightarrow> ControlPlaneStore \<Rightarrow> (ControlPlaneError + ControlAsset option) \<times> ControlPlaneStore" where
  "select_asset env kind i st =
     (case statement st of
        (Some msg, st1) \<Rightarrow> (Inl (CPE_Storage msg), st1)
      | (None, st1) \<Rightarrow>
          (case find (row_is kind i) (cs_rows st1) of
             None \<Rightarrow> (Inr None, st1)
           | Some r \<Rightarrow> (case row_to_asset env r of Inl e \<Rightarrow> (Inl e, st1) | Inr a \<Rightarrow> (Inr (Some a), st1))))"

section \<open>Validation of documents\<close>

definition to_ascii_lowercase :: "string \<Rightarrow> string" where
  "to_ascii_lowercase s =
     map (\<lambda>c. if is_ascii_uppercase c then char_of ((of_char c :: nat) + 32) else c) s"

definition secret_key :: "string \<Rightarrow> bool" where
  "secret_key key \<longleftrightarrow>
     map (\<lambda>c. if c = CHR ''-'' then CHR ''_'' else c) (to_ascii_lowercase key)
       \<in> {''api_key'', ''token'', ''secret'', ''password'', ''access_token'', ''session_token''}"

fun reject_embedded_secrets :: "json \<Rightarrow> ControlPlaneError + unit"
  and reject_fields :: "(string \<times> json) list \<Rightarrow> ControlPlaneError + unit"
  and reject_items :: "json list \<Rightarrow> ControlPlaneError + unit" where
  "reject_embedded_secrets (JObject kvs) = reject_fields kvs"
| "reject_embedded_secrets (JArray vs) = reject_items vs"
| "reject_embedded_secrets _ = Inr ()"
| "reject_fields [] = Inr ()"
| "reject_fields ((key, v) # kvs) =
     (if secret_key key \<and> v \<noteq> JNull \<and> json_as_str v \<noteq> Some []
      then Inl (CPE_Invalid (''embedded secret field '' @ quoted key @ '' is forbidden; use an environment reference''))
      else case reject_embedded_secrets v of Inl e \<Rightarrow> Inl e | Inr _ \<Rightarrow> reject_fields kvs)"
| "reject_items [] = Inr ()"
| "reject_items (v # vs) = (case reject_embedded_secrets v of Inl e \<Rightarrow> Inl e | Inr _ \<Rightarrow> reject_items vs)"

definition control_required :: "string \<Rightarrow> string \<Rightarrow> ControlPlaneError + unit" where
  "control_required field v = (if trim v = [] then Inl (CPE_Invalid (field @ '' must not be empty'')) else Inr ())"

definition control_check_schema :: "u32 \<Rightarrow> ControlPlaneError + unit" where
  "control_check_schema version =
     (if version \<noteq> CONTROL_API_SCHEMA_VERSION
      then Inl (CPE_Invalid (''expected schema version '' @ show_nat (unat CONTROL_API_SCHEMA_VERSION) @ '', found '' @ show_nat (unat version)))
      else Inr ())"

text \<open>Decode, validate, and return what names the asset.\<close>

definition checked ::
  "string + 'a \<Rightarrow> ('a \<Rightarrow> ('e + unit) option) \<Rightarrow> ('e \<Rightarrow> string) \<Rightarrow> ('a \<Rightarrow> string \<times> string) \<Rightarrow> (ControlPlaneError + string \<times> string) option" where
  "checked decoded validate show name =
     (case decoded of
        Inl e \<Rightarrow> Some (Inl (CPE_Invalid e))
      | Inr v \<Rightarrow> map_option (\<lambda>r. case r of Inl e \<Rightarrow> Inl (CPE_Invalid (show e)) | Inr _ \<Rightarrow> Inr (name v)) (validate v))"

definition validate_document :: "control_env \<Rightarrow> AssetKind \<Rightarrow> json \<Rightarrow> (ControlPlaneError + string \<times> string) option" where
  "validate_document env kind document =
     (case kind of
        AK_Project \<Rightarrow>
          checked (ce_project env document) (\<lambda>v. Some (project_manifest_validate v)) intelligence_error_display (\<lambda>v. (pj_id v, pj_version v))
      | AK_Model \<Rightarrow>
          (case ce_profile env document of
             Inr v \<Rightarrow>
               checked (Inr v) (\<lambda>v. Some (model_profile_validate v)) intelligence_error_display
                 (\<lambda>v. (ms_id (mp_model v), ms_version (mp_model v)))
           | Inl _ \<Rightarrow>
               checked (ce_model env document) (\<lambda>v. Some (model_spec_validate v)) contract_error_display (\<lambda>v. (ms_id v, ms_version v)))
      | AK_Graph \<Rightarrow>
          checked (ce_graph env document) graph_validate intelligence_error_display (\<lambda>v. (ig_id v, ig_version v))
      | AK_Dataset \<Rightarrow>
          checked (ce_dataset env document) (\<lambda>v. Some (dataset_manifest_validate v)) intelligence_error_display (\<lambda>v. (dm_id v, dm_version v))
      | AK_Experiment \<Rightarrow>
          checked (ce_experiment env document) (\<lambda>v. Some (experiment_manifest_validate v)) intelligence_error_display
            (\<lambda>v. (xm_id v, xm_version v))
      | AK_Artifact \<Rightarrow>
          checked (ce_artifact env document) (\<lambda>v. Some (simple_contract_validate ''ArtifactContract'' v)) contract_error_display
            (\<lambda>v. (sc_id v, sc_version v)))"

text \<open>What \<open>put\<close> and \<open>validate\<close> have in common: the name, the version, the encoded document and its digest.\<close>

definition screen_document :: "control_env \<Rightarrow> AssetKind \<Rightarrow> json \<Rightarrow> (ControlPlaneError + string \<times> string \<times> string \<times> string) option" where
  "screen_document env kind document =
     (case reject_embedded_secrets document of
        Inl e \<Rightarrow> Some (Inl e)
      | Inr _ \<Rightarrow>
          map_option (\<lambda>r. case r of
              Inl e \<Rightarrow> Inl e
            | Inr (i, version) \<Rightarrow>
                (case enc (ce_json env) document of
                   Inl e \<Rightarrow> Inl (CPE_Invalid e)
                 | Inr encoded \<Rightarrow> Inr (i, version, encoded, ce_digest env encoded)))
            (validate_document env kind document))"

definition control_validate :: "control_env \<Rightarrow> AssetKind \<Rightarrow> json \<Rightarrow> (ControlPlaneError + string \<times> string \<times> string) option" where
  "control_validate env kind document =
     map_option (map_sum id (\<lambda>(i, version, encoded, sha). (i, version, sha))) (screen_document env kind document)"

section \<open>Operations\<close>

text \<open>The end of a transaction: the commit may fail, and then the rows are the old ones.\<close>

definition commit_rows ::
  "asset_row list \<Rightarrow> asset_row list \<Rightarrow> 'a \<Rightarrow> ControlPlaneStore \<Rightarrow> (ControlPlaneError + 'a) \<times> ControlPlaneStore" where
  "commit_rows old new x st =
     (case statement st of
        (Some msg, st1) \<Rightarrow> (Inl (CPE_Storage msg), st1\<lparr>cs_rows := old\<rparr>)
      | (None, st1) \<Rightarrow> (Inr x, st1\<lparr>cs_rows := new\<rparr>))"

definition new_row :: "PutAssetRequest \<Rightarrow> string \<Rightarrow> string \<Rightarrow> string \<Rightarrow> string \<Rightarrow> int \<Rightarrow> asset_row" where
  "new_row q i version encoded sha now =
     \<lparr>ar_kind = asset_kind_as_str (par_kind q), ar_id = i, ar_version = version, ar_generation = 1, ar_sha256 = sha,
      ar_document = encoded, ar_created_at_us = now, ar_updated_at_us = now\<rparr>"

definition update_row ::
  "string \<Rightarrow> nat \<Rightarrow> string \<Rightarrow> string \<Rightarrow> int \<Rightarrow> asset_row \<Rightarrow> asset_row" where
  "update_row version generation sha encoded now r =
     r\<lparr>ar_version := version, ar_generation := generation, ar_sha256 := sha, ar_document := encoded, ar_updated_at_us := now\<rparr>"

definition put_asset :: "PutAssetRequest \<Rightarrow> string \<Rightarrow> string \<Rightarrow> nat \<Rightarrow> string \<Rightarrow> int \<Rightarrow> int \<Rightarrow> ControlAsset" where
  "put_asset q i version generation sha created now =
     \<lparr>ca_schema_version = CONTROL_API_SCHEMA_VERSION, ca_kind = par_kind q, ca_id = i, ca_version = version,
      ca_generation = generation, ca_sha256 = sha, ca_document = par_document q, ca_created_at_us = created, ca_updated_at_us = now\<rparr>"

definition saturating_inc :: "nat \<Rightarrow> nat" where
  "saturating_inc g = min (2 ^ 64 - 1) (g + 1)"

definition put_update ::
  "control_env \<Rightarrow> int \<Rightarrow> PutAssetRequest \<Rightarrow> string \<Rightarrow> string \<Rightarrow> string \<Rightarrow> string \<Rightarrow> ControlAsset \<Rightarrow> ControlPlaneStore \<Rightarrow>
     (ControlPlaneError + ControlAsset) \<times> ControlPlaneStore" where
  "put_update env now q i version encoded sha existing st =
     (if par_expected_generation q \<noteq> Some (ca_generation existing)
      then (Inl (CPE_Conflict (i @ '' generation is '' @ show_nat (ca_generation existing) @ ''; expected_generation is required for update'')), st)
      else let generation = saturating_inc (ca_generation existing)
           in if generation > i64_max then (Inl (CPE_Storage (ce_out_of_range env)), st)
              else case statement st of
                (Some msg, st1) \<Rightarrow> (Inl (CPE_Storage msg), st1)
              | (None, st1) \<Rightarrow>
                  commit_rows (cs_rows st)
                    (map (\<lambda>r. if row_is (par_kind q) i r then update_row version generation sha encoded now r else r) (cs_rows st))
                    (put_asset q i version generation sha (ca_created_at_us existing) now) st1)"

definition put_insert ::
  "int \<Rightarrow> PutAssetRequest \<Rightarrow> string \<Rightarrow> string \<Rightarrow> string \<Rightarrow> string \<Rightarrow> ControlPlaneStore \<Rightarrow>
     (ControlPlaneError + ControlAsset) \<times> ControlPlaneStore" where
  "put_insert now q i version encoded sha st =
     (if par_expected_generation q \<noteq> None
      then (Inl (CPE_Conflict ''expected_generation cannot be set when creating an asset''), st)
      else case statement st of
        (Some msg, st1) \<Rightarrow> (Inl (CPE_Storage msg), st1)
      | (None, st1) \<Rightarrow>
          commit_rows (cs_rows st) (cs_rows st @ [new_row q i version encoded sha now]) (put_asset q i version 1 sha now now) st1)"

text \<open>Under the lock, after the document was screened.\<close>

definition put_locked ::
  "control_env \<Rightarrow> int \<Rightarrow> PutAssetRequest \<Rightarrow> string \<Rightarrow> string \<Rightarrow> string \<Rightarrow> string \<Rightarrow> ControlPlaneStore \<Rightarrow>
     (ControlPlaneError + ControlAsset) \<times> ControlPlaneStore" where
  "put_locked env now q i version encoded sha st =
     (case statement st of
        (Some msg, st1) \<Rightarrow> (Inl (CPE_Storage msg), st1)
      | (None, st1) \<Rightarrow>
          (case select_asset env (par_kind q) i st1 of
             (Inl e, st2) \<Rightarrow> (Inl e, st2)
           | (Inr (Some existing), st2) \<Rightarrow>
               if ca_sha256 existing = sha then commit_rows (cs_rows st2) (cs_rows st2) existing st2
               else put_update env now q i version encoded sha existing st2
           | (Inr None, st2) \<Rightarrow> put_insert now q i version encoded sha st2))"

definition control_put ::
  "control_env \<Rightarrow> int \<Rightarrow> PutAssetRequest \<Rightarrow> ControlPlaneStore \<Rightarrow> (ControlPlaneError + ControlAsset) option \<times> ControlPlaneStore" where
  "control_put env now q st =
     (case control_check_schema (par_schema_version q) of
        Inl e \<Rightarrow> (Some (Inl e), st)
      | Inr _ \<Rightarrow>
          (case screen_document env (par_kind q) (par_document q) of
             None \<Rightarrow> (None, st)
           | Some (Inl e) \<Rightarrow> (Some (Inl e), st)
           | Some (Inr (i, version, encoded, sha)) \<Rightarrow> apfst Some (put_locked env now q i version encoded sha st)))"

definition control_get :: "control_env \<Rightarrow> AssetSelector \<Rightarrow> ControlPlaneStore \<Rightarrow> (ControlPlaneError + ControlAsset) \<times> ControlPlaneStore" where
  "control_get env s st =
     (case control_check_schema (asl_schema_version s) of
        Inl e \<Rightarrow> (Inl e, st)
      | Inr _ \<Rightarrow>
          (case control_required ''id'' (asl_id s) of
             Inl e \<Rightarrow> (Inl e, st)
           | Inr _ \<Rightarrow>
               (case select_asset env (asl_kind s) (asl_id s) st of
                  (Inl e, st1) \<Rightarrow> (Inl e, st1)
                | (Inr None, st1) \<Rightarrow> (Inl (CPE_NotFound (asset_kind_as_str (asl_kind s)) (asl_id s)), st1)
                | (Inr (Some a), st1) \<Rightarrow> (Inr a, st1))))"

fun rows_to_assets :: "control_env \<Rightarrow> asset_row list \<Rightarrow> ControlPlaneError + ControlAsset list" where
  "rows_to_assets env [] = Inr []"
| "rows_to_assets env (r # rs) =
     (case row_to_asset env r of
        Inl e \<Rightarrow> Inl e
      | Inr a \<Rightarrow> (case rows_to_assets env rs of Inl e \<Rightarrow> Inl e | Inr as \<Rightarrow> Inr (a # as)))"

definition control_list :: "control_env \<Rightarrow> ListAssetsRequest \<Rightarrow> ControlPlaneStore \<Rightarrow> (ControlPlaneError + ControlAsset list) \<times> ControlPlaneStore" where
  "control_list env q st =
     (case control_check_schema (lar_schema_version q) of
        Inl e \<Rightarrow> (Inl e, st)
      | Inr _ \<Rightarrow>
          (case statement st of
             (Some msg, st1) \<Rightarrow> (Inl (CPE_Storage msg), st1)
           | (None, st1) \<Rightarrow>
               (rows_to_assets env (sort_key ar_id (filter (\<lambda>r. ar_kind r = asset_kind_as_str (lar_kind q)) (cs_rows st1))), st1)))"

definition delete_check ::
  "control_env \<Rightarrow> AssetSelector \<Rightarrow> nat \<Rightarrow> ControlPlaneStore \<Rightarrow> (ControlPlaneError + unit) \<times> ControlPlaneStore" where
  "delete_check env s expected st =
     (case control_get env s st of
        (Inl e, st1) \<Rightarrow> (Inl e, st1)
      | (Inr a, st1) \<Rightarrow>
          if ca_generation a \<noteq> expected
          then (Inl (CPE_Conflict (ca_id a @ '' generation is '' @ show_nat (ca_generation a) @ '', not '' @ show_nat expected)), st1)
          else (Inr (), st1))"

definition delete_apply :: "AssetSelector \<Rightarrow> nat \<Rightarrow> ControlPlaneStore \<Rightarrow> (ControlPlaneError + unit) \<times> ControlPlaneStore" where
  "delete_apply s expected st =
     (case statement st of
        (Some msg, st1) \<Rightarrow> (Inl (CPE_Storage msg), st1)
      | (None, st1) \<Rightarrow>
          let gone = (\<lambda>r. row_is (asl_kind s) (asl_id s) r \<and> ar_generation r = expected)
          in if length (filter gone (cs_rows st1)) \<noteq> 1
             then (Inl (CPE_Conflict ''asset changed during deletion''), st1\<lparr>cs_rows := filter (\<lambda>r. \<not> gone r) (cs_rows st1)\<rparr>)
             else (Inr (), st1\<lparr>cs_rows := filter (\<lambda>r. \<not> gone r) (cs_rows st1)\<rparr>))"

definition control_delete ::
  "control_env \<Rightarrow> AssetSelector \<Rightarrow> nat \<Rightarrow> ControlPlaneStore \<Rightarrow> (ControlPlaneError + unit) \<times> ControlPlaneStore" where
  "control_delete env s expected st =
     (case delete_check env s expected st of
        (Inl e, st1) \<Rightarrow> (Inl e, st1)
      | (Inr _, st1) \<Rightarrow> delete_apply s expected st1)"

end
