(* ===== verification/Extension_Authority.thy ===== *)
theory Extension_Authority
  imports Open_Runtime Kernel_Interface
begin

text \<open>
  The authority of extensions (daemon/nousd/src/main.rs, the methods \<open>AdmitExtension\<close>, \<open>AuthorizeExtension\<close>,
  \<open>AuthorizeExtensionExecution\<close> and \<open>RevokeExtension\<close> of \<open>dispatch_request\<close>): an extension is admitted, its
  capabilities are approved, single executions are permitted, and the authority is revoked.  All of it lives in the
  journal, as commits of the workload \<open>extension::<id>\<close>.

  SHA-256 in hexadecimal, the codecs of requests, decisions and permits, and their JSON images are parameters
  (\<open>authority_env\<close>).  A handler returns the outcome that is sent, or the error that closes the connection.
\<close>

section \<open>State and parameters\<close>

record authority_env =
  ae_journal :: journal_env
  ae_digest :: "string \<Rightarrow> string"
  ae_json :: "json codec"
  ae_admission_json :: "ExtensionAdmissionRequest \<Rightarrow> json"
  ae_execution_json :: "ExtensionExecutionRequest \<Rightarrow> json"
  ae_decision_json :: "ExtensionAdmissionDecision \<Rightarrow> json"
  ae_permit_json :: "ExtensionExecutionPermit \<Rightarrow> json"
  ae_decision :: "ExtensionAdmissionDecision codec"
  ae_permit :: "ExtensionExecutionPermit codec"
  ae_admission_request :: "ExtensionAdmissionRequest codec"
  ae_authorization_request :: "ExtensionAuthorizationRequest codec"
  ae_execution_request :: "ExtensionExecutionRequest codec"
  ae_revocation_request :: "ExtensionRevocationRequest codec"

type_synonym dispatch_result = "string + NKIOutcome"

definition extension_workload :: "string \<Rightarrow> string" where
  "extension_workload extension_id = ''extension::'' @ extension_id"

definition extension_key :: "string \<Rightarrow> string \<Rightarrow> string \<Rightarrow> string \<Rightarrow> string" where
  "extension_key extension_id digest action key =
     ''extension:'' @ extension_id @ '':'' @ digest @ '':'' @ action @ '':'' @ key"

text \<open>An entry that a handler journals, and the outcome once it is journaled.\<close>

definition extension_entry ::
  "string \<Rightarrow> string \<Rightarrow> string \<Rightarrow> string option \<Rightarrow> string \<Rightarrow> nat \<Rightarrow> string \<Rightarrow> string \<Rightarrow> string \<Rightarrow> string \<Rightarrow> JournalEntry" where
  "extension_entry extension_id object_type object_id previous phase generation payload digest actor key =
     \<lparr>je_sequence = 0, je_workload_id = extension_workload extension_id, je_entry_type = ET_Commit,
      je_object_type = object_type, je_object_id = object_id, je_previous_phase = previous, je_new_phase = phase,
      je_generation = generation, je_payload = payload, je_fencing_token = digest, je_actor = actor,
      je_idempotency_key = Some key, je_timestamp_us = 0, je_checksum = []\<rparr>"

definition journal_outcome ::
  "authority_env \<Rightarrow> int \<Rightarrow> 'a codec \<Rightarrow> 'a \<Rightarrow> (string \<Rightarrow> JournalEntry) \<Rightarrow> json \<Rightarrow> Journal \<Rightarrow> dispatch_result \<times> Journal" where
  "journal_outcome env now c x entry reply j =
     (case enc c x of
        Inl e \<Rightarrow> (Inl e, j)
      | Inr payload \<Rightarrow>
          (case journal_append (ae_journal env) now (entry payload) j of
             (Inl e, j') \<Rightarrow> (Inl (show_nous_error e), j')
           | (Inr _, j') \<Rightarrow> (Inr (NKI_Success reply), j')))"

section \<open>Admission\<close>

definition admission_material :: "authority_env \<Rightarrow> ExtensionAdmissionRequest \<Rightarrow> string \<Rightarrow> string + string" where
  "admission_material env extension actor =
     enc (ae_json env) (JObject [(''extension'', ae_admission_json env extension), (''principal'', JString actor),
       (''policy'', JString ''extension-admission-v1'')])"

definition receipt_id :: "authority_env \<Rightarrow> string \<Rightarrow> string \<Rightarrow> string" where
  "receipt_id env label material = label @ take 24 (ae_digest env material)"

definition executor_constraints_of :: "ExtensionAdmissionRequest \<Rightarrow> (string \<rightharpoonup> string)" where
  "executor_constraints_of extension =
     (let base = [''authority'' \<mapsto> ''none'', ''network'' \<mapsto> ''deny_by_default'']
      in if ear_executor extension = [] then base
         else base(''isolation'' \<mapsto> ''strict'', ''executor'' \<mapsto> ear_executor extension))"

definition scope_constraints_of :: "ExtensionAdmissionRequest \<Rightarrow> (string \<rightharpoonup> string list)" where
  "scope_constraints_of extension =
     map_of (rev (map (\<lambda>item. (ecr_capability item, ecr_scope item)) (ear_capability_requests extension)))"

definition admission_decision :: "ExtensionAdmissionRequest \<Rightarrow> string \<Rightarrow> ExtensionAdmissionDecision" where
  "admission_decision extension receipt =
     \<lparr>ead_admitted = True, ead_extension_id = ear_extension_id extension,
      ead_normalized_digest = ear_content_digest extension,
      ead_requested_capabilities = requested_capabilities extension, ead_granted_capabilities = [],
      ead_denied_capabilities = [], ead_approval_required = (requested_capabilities extension \<noteq> []),
      ead_executor_constraints = executor_constraints_of extension,
      ead_scope_constraints = scope_constraints_of extension, ead_policy_version = ''extension-admission-v1'',
      ead_decision_reason =
        (if requested_capabilities extension = [] then ''admitted_without_runtime_authority'' else ''capability_approval_required''),
      ead_receipt_id = receipt\<rparr>"

definition admit_extension ::
  "authority_env \<Rightarrow> int \<Rightarrow> NKIRequest \<Rightarrow> ExtensionAdmissionRequest \<Rightarrow> Journal \<Rightarrow> dispatch_result \<times> Journal" where
  "admit_extension env now q extension j =
     (case admission_request_validate extension of
        Inl e \<Rightarrow> (Inr (nki_error ''EXTENSION_ADMISSION_DENIED'' (contract_error_display e) False), j)
      | Inr _ \<Rightarrow>
          (case admission_material env extension (nq_principal_id q) of
             Inl e \<Rightarrow> (Inl e, j)
           | Inr material \<Rightarrow>
               let decision = admission_decision extension (receipt_id env ''admission-'' material)
               in journal_outcome env now (ae_decision env) decision
                    (\<lambda>payload. extension_entry (ear_extension_id extension) ''ExtensionAdmissionDecision''
                       (ead_receipt_id decision) None
                       (if ead_approval_required decision then ''APPROVAL_REQUIRED'' else ''ADMITTED'') 1 payload
                       (ear_content_digest extension) (nq_principal_id q)
                       (extension_key (ear_extension_id extension) (ear_content_digest extension) ''admit'' (nq_idempotency_key q)))
                    (ae_decision_json env decision) j))"

section \<open>Authorization\<close>

text \<open>The last entry with a property.\<close>

definition find_last :: "('a \<Rightarrow> bool) \<Rightarrow> 'a list \<Rightarrow> 'a option" where
  "find_last P xs = find P (rev xs)"

definition decode_decision :: "authority_env \<Rightarrow> JournalEntry \<Rightarrow> ExtensionAdmissionDecision option" where
  "decode_decision env entry = (case dec (ae_decision env) (je_payload entry) of Inl _ \<Rightarrow> None | Inr d \<Rightarrow> Some d)"

definition prior_admission ::
  "authority_env \<Rightarrow> ExtensionAuthorizationRequest \<Rightarrow> JournalEntry list \<Rightarrow> ExtensionAdmissionDecision option" where
  "prior_admission env authorization entries =
     Option.bind
       (find_last (\<lambda>entry. je_entry_type entry = ET_Commit \<and> je_object_type entry = ''ExtensionAdmissionDecision'' \<and>
          je_object_id entry = eau_admission_receipt_id authorization) entries)
       (\<lambda>entry. case admission_material env (eau_admission authorization) (je_actor entry) of
          Inl _ \<Rightarrow> None
        | Inr material \<Rightarrow>
            if je_object_id entry \<noteq> receipt_id env ''admission-'' material then None else decode_decision env entry)"

definition authorization_material :: "authority_env \<Rightarrow> ExtensionAuthorizationRequest \<Rightarrow> string + string" where
  "authorization_material env authorization =
     enc (ae_json env) (JObject [(''admission_receipt'', JString (eau_admission_receipt_id authorization)),
       (''approval'', JString (eau_approval_id authorization)),
       (''approved'', JArray (map JString (eau_approved_capabilities authorization))),
       (''digest'', JString (ear_content_digest (eau_admission authorization)))])"

definition unapproved :: "ExtensionAuthorizationRequest \<Rightarrow> string list" where
  "unapproved authorization =
     filter (\<lambda>c. c \<notin> set (eau_approved_capabilities authorization)) (requested_capabilities (eau_admission authorization))"

definition authorization_decision ::
  "ExtensionAuthorizationRequest \<Rightarrow> ExtensionAdmissionDecision \<Rightarrow> string \<Rightarrow> ExtensionAdmissionDecision" where
  "authorization_decision authorization prior receipt =
     \<lparr>ead_admitted = True, ead_extension_id = ear_extension_id (eau_admission authorization),
      ead_normalized_digest = ear_content_digest (eau_admission authorization),
      ead_requested_capabilities = requested_capabilities (eau_admission authorization),
      ead_granted_capabilities = eau_approved_capabilities authorization, ead_denied_capabilities = [],
      ead_approval_required = (unapproved authorization \<noteq> []),
      ead_executor_constraints = ead_executor_constraints prior, ead_scope_constraints = ead_scope_constraints prior,
      ead_policy_version = ''extension-authorization-v1'',
      ead_decision_reason =
        (if unapproved authorization = [] then ''approved_capabilities_bound'' else ''partial_approval_requires_review''),
      ead_receipt_id = receipt\<rparr>"

definition authorization_key :: "ExtensionAuthorizationRequest \<Rightarrow> string" where
  "authorization_key authorization =
     extension_key (ear_extension_id (eau_admission authorization)) (ear_content_digest (eau_admission authorization))
       ''authorize'' (eau_approval_id authorization)"

definition record_authorization ::
  "authority_env \<Rightarrow> int \<Rightarrow> NKIRequest \<Rightarrow> ExtensionAuthorizationRequest \<Rightarrow> ExtensionAdmissionDecision \<Rightarrow> Journal \<Rightarrow>
     dispatch_result \<times> Journal" where
  "record_authorization env now q authorization prior j =
     (case authorization_material env authorization of
        Inl e \<Rightarrow> (Inl e, j)
      | Inr material \<Rightarrow>
          let decision = authorization_decision authorization prior (receipt_id env ''authorization-'' material)
          in journal_outcome env now (ae_decision env) decision
               (\<lambda>payload. extension_entry (ear_extension_id (eau_admission authorization))
                    ''ExtensionAuthorizationDecision'' (ead_receipt_id decision) (Some ''APPROVAL_REQUIRED'')
                    (if ead_approval_required decision then ''PARTIALLY_AUTHORIZED'' else ''AUTHORIZED'') 2 payload
                    (ear_content_digest (eau_admission authorization)) (nq_principal_id q) (authorization_key authorization))
               (ae_decision_json env decision) j)"

definition authorize_extension ::
  "authority_env \<Rightarrow> int \<Rightarrow> NKIRequest \<Rightarrow> ExtensionAuthorizationRequest \<Rightarrow> Journal \<Rightarrow> dispatch_result \<times> Journal" where
  "authorize_extension env now q authorization j =
     (case authorization_request_validate authorization of
        Inl e \<Rightarrow> (Inr (nki_error ''EXTENSION_AUTHORIZATION_DENIED'' (contract_error_display e) False), j)
      | Inr _ \<Rightarrow>
          (case read_workload (ae_journal env) j (extension_workload (ear_extension_id (eau_admission authorization))) of
             Inl e \<Rightarrow> (Inl (show_nous_error e), j)
           | Inr entries \<Rightarrow>
               (case prior_admission env authorization entries of
                  Some prior \<Rightarrow>
                    if ead_extension_id prior = ear_extension_id (eau_admission authorization) \<and>
                       ead_normalized_digest prior = ear_content_digest (eau_admission authorization)
                    then record_authorization env now q authorization prior j
                    else (Inr (nki_error ''EXTENSION_ADMISSION_NOT_FOUND'' ''matching admission receipt and digest are required'' False), j)
                | None \<Rightarrow>
                    (Inr (nki_error ''EXTENSION_ADMISSION_NOT_FOUND'' ''matching admission receipt and digest are required'' False), j))))"

section \<open>Execution permits\<close>

definition is_authority_entry :: "JournalEntry \<Rightarrow> bool" where
  "is_authority_entry entry \<longleftrightarrow>
     je_entry_type entry = ET_Commit \<and>
     je_object_type entry \<in> {''ExtensionAuthorizationDecision'', ''ExtensionRevocationDecision''}"

definition current_authorization ::
  "authority_env \<Rightarrow> string \<Rightarrow> JournalEntry list \<Rightarrow> ExtensionAdmissionDecision option" where
  "current_authorization env receipt entries =
     Option.bind (find_last is_authority_entry entries)
       (\<lambda>entry. if je_object_id entry \<noteq> receipt then None else decode_decision env entry)"

definition or_default_list :: "'a list option \<Rightarrow> 'a list" where
  "or_default_list x = (case x of None \<Rightarrow> [] | Some v \<Rightarrow> v)"

definition within_authorization :: "ExtensionAdmissionDecision \<Rightarrow> ExtensionExecutionRequest \<Rightarrow> bool" where
  "within_authorization authorization execution \<longleftrightarrow>
     list_all (\<lambda>item. item \<in> set (or_default_list (ead_scope_constraints authorization (eer_capability execution)))) (eer_scope execution) \<and>
     (let required_executor = or_default_list (ead_executor_constraints authorization ''executor'')
      in required_executor = [] \<or> eer_executor execution = required_executor)"

definition execution_permit ::
  "NKIRequest \<Rightarrow> int \<Rightarrow> ExtensionExecutionRequest \<Rightarrow> string \<Rightarrow> ExtensionExecutionPermit" where
  "execution_permit q now execution permit_id =
     \<lparr>eep_allowed = True, eep_operation_id = eer_operation_id execution, eep_actor = nq_principal_id q,
      eep_extension_id = eer_extension_id execution, eep_content_digest = eer_content_digest execution,
      eep_authorization_receipt_id = eer_authorization_receipt_id execution, eep_capability = eer_capability execution,
      eep_operation = eer_operation execution, eep_parameter_hash = eer_parameter_hash execution,
      eep_executor = eer_executor execution, eep_policy_version = ''extension-execution-v1'',
      eep_decision_reason = ''authorized_capability_bound'', eep_issued_at_us = now, eep_permit_id = permit_id\<rparr>"

definition execution_material :: "authority_env \<Rightarrow> NKIRequest \<Rightarrow> ExtensionExecutionRequest \<Rightarrow> string + string" where
  "execution_material env q execution =
     enc (ae_json env) (JObject [(''execution'', ae_execution_json env execution), (''principal'', JString (nq_principal_id q)),
       (''idempotency_key'', JString (nq_idempotency_key q))])"

definition execution_key :: "NKIRequest \<Rightarrow> ExtensionExecutionRequest \<Rightarrow> string" where
  "execution_key q execution =
     extension_key (eer_extension_id execution) (eer_content_digest execution) ''execute'' (nq_idempotency_key q)"

definition record_permit ::
  "authority_env \<Rightarrow> int \<Rightarrow> NKIRequest \<Rightarrow> ExtensionExecutionRequest \<Rightarrow> Journal \<Rightarrow> dispatch_result \<times> Journal" where
  "record_permit env now q execution j =
     (case execution_material env q execution of
        Inl e \<Rightarrow> (Inl e, j)
      | Inr material \<Rightarrow>
          let permit = execution_permit q now execution (receipt_id env ''extension-permit-'' material)
          in journal_outcome env now (ae_permit env) permit
               (\<lambda>payload. extension_entry (eer_extension_id execution) ''ExtensionExecutionPermit''
                    (eep_permit_id permit) (Some ''AUTHORIZED'') ''EXECUTION_PERMITTED'' 3 payload
                    (eer_content_digest execution) (nq_principal_id q) (execution_key q execution))
               (ae_permit_json env permit) j)"

definition execution_denied :: "string \<Rightarrow> dispatch_result" where
  "execution_denied message = Inr (nki_error ''EXTENSION_EXECUTION_DENIED'' message False)"

definition authorize_extension_execution ::
  "authority_env \<Rightarrow> int \<Rightarrow> NKIRequest \<Rightarrow> ExtensionExecutionRequest \<Rightarrow> Journal \<Rightarrow> dispatch_result \<times> Journal" where
  "authorize_extension_execution env now q execution j =
     (case execution_request_validate execution of
        Inl e \<Rightarrow> (execution_denied (contract_error_display e), j)
      | Inr _ \<Rightarrow>
          (case read_workload (ae_journal env) j (extension_workload (eer_extension_id execution)) of
             Inl e \<Rightarrow> (Inl (show_nous_error e), j)
           | Inr entries \<Rightarrow>
               (case current_authorization env (eer_authorization_receipt_id execution) entries of
                  Some authorization \<Rightarrow>
                    if ead_extension_id authorization = eer_extension_id execution \<and>
                       ead_normalized_digest authorization = eer_content_digest execution \<and>
                       eer_capability execution \<in> set (ead_granted_capabilities authorization)
                    then if within_authorization authorization execution then record_permit env now q execution j
                         else (execution_denied ''executor or scope exceeds the Kernel authorization'', j)
                    else (execution_denied ''matching authorization receipt, digest, and capability are required'', j)
                | None \<Rightarrow> (execution_denied ''matching authorization receipt, digest, and capability are required'', j))))"

section \<open>Revocation\<close>

definition revocation_key :: "NKIRequest \<Rightarrow> ExtensionRevocationRequest \<Rightarrow> string" where
  "revocation_key q revocation =
     extension_key (err_extension_id revocation) (err_content_digest revocation) ''revoke'' (nq_idempotency_key q)"

definition revocation_replay :: "string \<Rightarrow> JournalEntry list \<Rightarrow> JournalEntry option" where
  "revocation_replay key entries =
     find_last (\<lambda>entry. je_entry_type entry = ET_Commit \<and> je_object_type entry = ''ExtensionRevocationDecision'' \<and>
       je_idempotency_key entry = Some key) entries"

definition prior_authorization ::
  "authority_env \<Rightarrow> string \<Rightarrow> JournalEntry list \<Rightarrow> ExtensionAdmissionDecision option" where
  "prior_authorization env receipt entries =
     Option.bind (find_last is_authority_entry entries)
       (\<lambda>entry. if je_object_type entry \<noteq> ''ExtensionAuthorizationDecision'' \<or> je_object_id entry \<noteq> receipt then None
          else decode_decision env entry)"

definition revocation_material :: "authority_env \<Rightarrow> NKIRequest \<Rightarrow> ExtensionRevocationRequest \<Rightarrow> string + string" where
  "revocation_material env q revocation =
     enc (ae_json env) (JObject [(''authorization_receipt'', JString (err_authorization_receipt_id revocation)),
       (''digest'', JString (err_content_digest revocation)), (''principal'', JString (nq_principal_id q)),
       (''reason'', JString (err_reason revocation))])"

definition revocation_decision ::
  "ExtensionRevocationRequest \<Rightarrow> ExtensionAdmissionDecision \<Rightarrow> string \<Rightarrow> ExtensionAdmissionDecision" where
  "revocation_decision revocation prior receipt =
     \<lparr>ead_admitted = True, ead_extension_id = err_extension_id revocation,
      ead_normalized_digest = err_content_digest revocation,
      ead_requested_capabilities = ead_requested_capabilities prior, ead_granted_capabilities = [],
      ead_denied_capabilities = ead_granted_capabilities prior,
      ead_approval_required = (ead_requested_capabilities prior \<noteq> []),
      ead_executor_constraints = (ead_executor_constraints prior)(''authority'' \<mapsto> ''none''),
      ead_scope_constraints = ead_scope_constraints prior, ead_policy_version = ''extension-revocation-v1'',
      ead_decision_reason = ''authority_revoked'', ead_receipt_id = receipt\<rparr>"

definition record_revocation ::
  "authority_env \<Rightarrow> int \<Rightarrow> NKIRequest \<Rightarrow> ExtensionRevocationRequest \<Rightarrow> ExtensionAdmissionDecision \<Rightarrow> Journal \<Rightarrow>
     dispatch_result \<times> Journal" where
  "record_revocation env now q revocation prior j =
     (case revocation_material env q revocation of
        Inl e \<Rightarrow> (Inl e, j)
      | Inr material \<Rightarrow>
          let decision = revocation_decision revocation prior (receipt_id env ''revocation-'' material)
          in journal_outcome env now (ae_decision env) decision
               (\<lambda>payload. extension_entry (err_extension_id revocation) ''ExtensionRevocationDecision''
                    (ead_receipt_id decision) (Some ''AUTHORIZED'') ''REVOKED'' 4 payload (err_content_digest revocation)
                    (nq_principal_id q) (revocation_key q revocation))
               (ae_decision_json env decision) j)"

definition authorization_not_found :: dispatch_result where
  "authorization_not_found =
     Inr (nki_error ''EXTENSION_AUTHORIZATION_NOT_FOUND'' ''matching active authorization receipt and digest are required'' False)"

definition revoke_extension ::
  "authority_env \<Rightarrow> int \<Rightarrow> NKIRequest \<Rightarrow> ExtensionRevocationRequest \<Rightarrow> Journal \<Rightarrow> dispatch_result \<times> Journal" where
  "revoke_extension env now q revocation j =
     (case revocation_request_validate revocation of
        Inl e \<Rightarrow> (Inr (nki_error ''EXTENSION_REVOCATION_DENIED'' (contract_error_display e) False), j)
      | Inr _ \<Rightarrow>
          (case read_workload (ae_journal env) j (extension_workload (err_extension_id revocation)) of
             Inl e \<Rightarrow> (Inl (show_nous_error e), j)
           | Inr entries \<Rightarrow>
               (case revocation_replay (revocation_key q revocation) entries of
                  Some entry \<Rightarrow>
                    (case dec (ae_decision env) (je_payload entry) of
                       Inr decision \<Rightarrow> (Inr (NKI_Success (ae_decision_json env decision)), j)
                     | Inl e \<Rightarrow> (Inr (nki_error ''EXTENSION_REVOCATION_STATE_INVALID'' e False), j))
                | None \<Rightarrow>
                    (case prior_authorization env (err_authorization_receipt_id revocation) entries of
                       Some prior \<Rightarrow>
                         if ead_extension_id prior = err_extension_id revocation \<and>
                            ead_normalized_digest prior = err_content_digest revocation
                         then record_revocation env now q revocation prior j
                         else (authorization_not_found, j)
                     | None \<Rightarrow> (authorization_not_found, j)))))"

section \<open>Dispatch\<close>

definition decode_payload ::
  "'a codec \<Rightarrow> string \<Rightarrow> ('a \<Rightarrow> Journal \<Rightarrow> dispatch_result \<times> Journal) \<Rightarrow> NKIRequest \<Rightarrow> Journal \<Rightarrow> dispatch_result \<times> Journal" where
  "decode_payload c code handler q j =
     (case dec c (nq_payload q) of
        Inl e \<Rightarrow> (Inr (nki_error code e False), j)
      | Inr x \<Rightarrow> handler x j)"

definition extension_dispatch ::
  "authority_env \<Rightarrow> int \<Rightarrow> NKIRequest \<Rightarrow> Journal \<Rightarrow> dispatch_result \<times> Journal" where
  "extension_dispatch env now q j =
     (if nq_method q = ''AdmitExtension''
      then decode_payload (ae_admission_request env) ''INVALID_EXTENSION_ADMISSION'' (admit_extension env now q) q j
      else if nq_method q = ''AuthorizeExtension''
      then decode_payload (ae_authorization_request env) ''INVALID_EXTENSION_AUTHORIZATION'' (authorize_extension env now q) q j
      else if nq_method q = ''AuthorizeExtensionExecution''
      then decode_payload (ae_execution_request env) ''INVALID_EXTENSION_EXECUTION'' (authorize_extension_execution env now q) q j
      else if nq_method q = ''RevokeExtension''
      then decode_payload (ae_revocation_request env) ''INVALID_EXTENSION_REVOCATION'' (revoke_extension env now q) q j
      else (Inr (nki_error ''METHOD_NOT_SUPPORTED'' (nq_method q) False), j))"

end
