(* ===== verification/Daemon.thy ===== *)
theory Daemon
  imports Coordinator Control_Plane Extension_Authority
begin

text \<open>
  The daemon (daemon/nousd/src/main.rs): the dispatch of a request to the runtime, the extension authority and the
  control plane, and the handling of one framed request on a connection.

  The state \<open>daemon_state\<close> holds the runtime with its journal, the asset catalogue and the cached result of the
  integrity check.  A result \<open>None\<close> means that the process was aborted or the handler panicked; an error on the left
  ends the connection without an answer; everything else is the outcome of the answer.  The decoders of payloads, the
  encoders of results and the version of the package are parameters (\<open>daemon_env\<close>); a request reads the clock once; the journal of the extension
  authority is that of the runtime.
\<close>

section \<open>State and parameters\<close>

record daemon_state =
  dn_runtime :: runtime_state
  dn_control :: ControlPlaneStore
  dn_integrity :: "nat list"

record daemon_env =
  de_rt :: runtime_env
  de_authority :: authority_env
  de_control :: control_env
  de_version :: string
  de_operation :: "string \<Rightarrow> string + OperationRequest"
  de_plan :: "string \<Rightarrow> string + ContinuityPlan"
  de_probe :: "string \<Rightarrow> string + ProviderProbeRequest"
  de_value :: "string \<Rightarrow> string + json"
  de_put :: "string \<Rightarrow> string + PutAssetRequest"
  de_selector :: "string \<Rightarrow> string + AssetSelector"
  de_selector_value :: "json \<Rightarrow> string + AssetSelector"
  de_list :: "string \<Rightarrow> string + ListAssetsRequest"
  de_execution_json :: "RuntimeExecution \<Rightarrow> json"
  de_continuity_json :: "ContinuityExecution \<Rightarrow> json"
  de_profile_json :: "ExecutionProfile \<Rightarrow> json"
  de_asset_json :: "ControlAsset \<Rightarrow> json"
  de_report_json :: "ProviderProbeReport \<Rightarrow> json"
  de_trace_json :: "DecisionTrace \<Rightarrow> json"

type_synonym daemon_result = "dispatch_result option \<times> daemon_state"

abbreviation dn_journal :: "daemon_state \<Rightarrow> Journal" where
  "dn_journal d \<equiv> rt_journal (dn_runtime d)"

definition daemon_authority :: "daemon_env \<Rightarrow> authority_env" where
  "daemon_authority env = (de_authority env)\<lparr>ae_journal := xe_journal (re_exec (de_rt env))\<rparr>"

text \<open>An outcome that leaves the state alone.\<close>

definition answer :: "NKIOutcome \<Rightarrow> daemon_state \<Rightarrow> daemon_result" where
  "answer outcome d = (Some (Inr outcome), d)"

definition kernel_error :: "KernelError \<Rightarrow> NKIOutcome" where
  "kernel_error e =
     NKI_Error \<lparr>ne_code = kernel_error_code e, ne_message = show_kernel_error e, ne_failed_phase = kernel_error_category e,
       ne_cause = kernel_error_source e, ne_retryable = kernel_error_retryable e,
       ne_recommended_delay_ms = (if kernel_error_retryable e then 250 else 0)\<rparr>"

fun json_as_u64 :: "json \<Rightarrow> nat option" where
  "json_as_u64 (JNumber s) = parse_u64 s"
| "json_as_u64 _ = None"

definition json_nat :: "nat \<Rightarrow> json" where
  "json_nat n = JNumber (show_nat n)"

fun kernel_state_name :: "KernelState \<Rightarrow> string" where
  "kernel_state_name KS_Starting = ''STARTING''"
| "kernel_state_name KS_Recovering = ''RECOVERING''"
| "kernel_state_name KS_Ready = ''READY''"
| "kernel_state_name KS_Degraded = ''DEGRADED''"
| "kernel_state_name KS_Failed = ''FAILED''"
| "kernel_state_name KS_ShuttingDown = ''SHUTTING_DOWN''"

section \<open>Runtime requests\<close>

definition health_check :: "daemon_env \<Rightarrow> int \<Rightarrow> daemon_state \<Rightarrow> daemon_result" where
  "health_check env now d =
     answer (NKI_Success (JObject
       [(''state'', JString (kernel_state_name (rt_kernel (dn_runtime d)))), (''runtime_version'', JString (de_version env)),
        (''contracts'', JObject [(''foundation'', json_nat 1), (''open_runtime'', json_nat 1), (''provider_sdk'', json_nat 1)]),
        (''journal_sequence'', json_nat (current_sequence (dn_journal d))),
        (''node'', JObject
           [(''identity'', JString ''local-kernel''), (''connection'', JString ''CONNECTED''),
            (''heartbeat_us'', JNumber (if now < 0 then CHR ''-'' # show_nat (nat (- now)) else show_nat (nat now))),
            (''capabilities'', JArray (map JString
               [''nki.v2'', ''provider.process'', ''provider.external-process'', ''durable.execution'', ''mathematics.evaluate'',
                ''fenced.lease'']))])])) d"

text \<open>The deadline of the envelope bounds the timeout of the operation.\<close>

definition bound_timeout :: "int \<Rightarrow> NKIRequest \<Rightarrow> OperationRequest \<Rightarrow> OperationRequest" where
  "bound_timeout now q r =
     (if nq_deadline_us q > 0
      then let remaining_us = i64_clamp (nq_deadline_us q - now);
               remaining_ms = sat_add (of_int (max remaining_us 1)) 999 div 1000
           in r\<lparr>op_timeout_ms := min (max (op_timeout_ms r) 1) remaining_ms\<rparr>
      else r)"

definition submit_workload :: "daemon_env \<Rightarrow> int \<Rightarrow> NKIRequest \<Rightarrow> daemon_state \<Rightarrow> daemon_result" where
  "submit_workload env now q d =
     (case de_operation env (nq_payload q) of
        Inl e \<Rightarrow> answer (nki_error ''INVALID_OPERATION'' e False) d
      | Inr r \<Rightarrow>
          (case runtime_execute (de_rt env) (bound_timeout now q r) (dn_runtime d) of
             (None, s) \<Rightarrow> (None, d\<lparr>dn_runtime := s\<rparr>)
           | (Some (Inr x), s) \<Rightarrow> answer (NKI_Success (de_execution_json env x)) (d\<lparr>dn_runtime := s\<rparr>)
           | (Some (Inl e), s) \<Rightarrow> answer (kernel_error e) (d\<lparr>dn_runtime := s\<rparr>)))"

definition submit_plan :: "daemon_env \<Rightarrow> NKIRequest \<Rightarrow> daemon_state \<Rightarrow> daemon_result" where
  "submit_plan env q d =
     (case de_plan env (nq_payload q) of
        Inl e \<Rightarrow> answer (nki_error ''INVALID_CONTINUITY_PLAN'' e False) d
      | Inr plan \<Rightarrow>
          (case execute_continuously (de_rt env) plan (dn_runtime d) of
             (None, s) \<Rightarrow> (None, d\<lparr>dn_runtime := s\<rparr>)
           | (Some (Inr x), s) \<Rightarrow> answer (NKI_Success (de_continuity_json env x)) (d\<lparr>dn_runtime := s\<rparr>)
           | (Some (Inl e), s) \<Rightarrow> answer (kernel_error e) (d\<lparr>dn_runtime := s\<rparr>)))"

definition extension_request :: "daemon_env \<Rightarrow> int \<Rightarrow> NKIRequest \<Rightarrow> daemon_state \<Rightarrow> daemon_result" where
  "extension_request env now q d =
     (case extension_dispatch (daemon_authority env) now q (dn_journal d) of
        (r, j) \<Rightarrow> (Some r, d\<lparr>dn_runtime := (dn_runtime d)\<lparr>rt_exec := (rt_exec (dn_runtime d))\<lparr>ex_journal := j\<rparr>\<rparr>\<rparr>))"

text \<open>A payload that is any JSON value; one that is not ends the connection.\<close>

definition with_value :: "daemon_env \<Rightarrow> NKIRequest \<Rightarrow> (json \<Rightarrow> daemon_state \<Rightarrow> daemon_result) \<Rightarrow> daemon_state \<Rightarrow> daemon_result" where
  "with_value env q handler d = (case de_value env (nq_payload q) of Inl e \<Rightarrow> (Some (Inl e), d) | Inr v \<Rightarrow> handler v d)"

definition list_profiles :: "daemon_env \<Rightarrow> daemon_state \<Rightarrow> ExecutionProfile list nous_result" where
  "list_profiles env d = profile_list (xe_journal (re_exec (de_rt env))) (re_profile (de_rt env)) (dn_journal d)"

definition get_workload :: "daemon_env \<Rightarrow> json \<Rightarrow> daemon_state \<Rightarrow> daemon_result" where
  "get_workload env v d =
     (case Option.bind (json_get ''workload_id'' v) json_as_str of
        None \<Rightarrow> answer (nki_error ''INVALID_WORKLOAD_QUERY'' ''workload_id is required'' False) d
      | Some w \<Rightarrow>
          (case list_profiles env d of
             Inl e \<Rightarrow> (Some (Inl (show_nous_error e)), d)
           | Inr ps \<Rightarrow>
               (case find (\<lambda>p. ep_workload_id p = w) (rev ps) of
                  Some p \<Rightarrow> answer (NKI_Success (de_profile_json env p)) d
                | None \<Rightarrow> answer (nki_error ''WORKLOAD_NOT_FOUND'' w False) d)))"

definition list_workloads :: "daemon_env \<Rightarrow> json \<Rightarrow> daemon_state \<Rightarrow> daemon_result" where
  "list_workloads env v d =
     (let limit = min (case Option.bind (json_get ''limit'' v) json_as_u64 of None \<Rightarrow> 100 | Some n \<Rightarrow> n) 1000
      in case list_profiles env d of
           Inl e \<Rightarrow> (Some (Inl (show_nous_error e)), d)
         | Inr ps \<Rightarrow>
             answer (NKI_Success (JObject [(''workloads'', JArray (map (de_profile_json env) (take limit (rev ps))))])) d)"

definition get_metrics :: "daemon_env \<Rightarrow> json \<Rightarrow> daemon_state \<Rightarrow> daemon_result" where
  "get_metrics env v d =
     (let verify = (case Option.bind (json_get ''verify_integrity'' v) json_as_bool of None \<Rightarrow> False | Some b \<Rightarrow> b)
      in case boot_integrity_failures (xe_journal (re_exec (de_rt env))) verify
                \<lparr>bc_state = rt_kernel (dn_runtime d), bc_integrity_failures = dn_integrity d, bc_journal = dn_journal d\<rparr> of
           (Inl e, core) \<Rightarrow> (Some (Inl (show_kernel_error e)), d\<lparr>dn_integrity := bc_integrity_failures core\<rparr>)
         | (Inr corrupted, core) \<Rightarrow>
             answer (NKI_Success (JObject
               [(''journal_sequence'', json_nat (current_sequence (dn_journal d))), (''corrupted_sequences'', JArray (map json_nat corrupted)),
                (''integrity_verified_now'', JBool verify), (''active_operations'', json_nat (active_count (dn_runtime d))),
                (''execution_profiles'', json_nat (count_object_type (dn_journal d) ''ExecutionProfile''))]))
               (d\<lparr>dn_integrity := bc_integrity_failures core\<rparr>))"

definition probe_engine :: "daemon_env \<Rightarrow> NKIRequest \<Rightarrow> daemon_state \<Rightarrow> daemon_result" where
  "probe_engine env q d =
     (case de_probe env (nq_payload q) of
        Inl e \<Rightarrow> answer (nki_error ''INVALID_PROVIDER_PROBE'' e False) d
      | Inr p \<Rightarrow>
          (case probe_provider (de_rt env) p (dn_runtime d) of
             (Inr report, s) \<Rightarrow> answer (NKI_Success (de_report_json env report)) (d\<lparr>dn_runtime := s\<rparr>)
           | (Inl e, s) \<Rightarrow> answer (kernel_error e) (d\<lparr>dn_runtime := s\<rparr>)))"

definition explain_execution :: "daemon_env \<Rightarrow> json \<Rightarrow> daemon_state \<Rightarrow> daemon_result" where
  "explain_execution env v d =
     (let requested = Option.bind (json_get ''workload_id'' v) json_as_str
      in case (case requested of
                 Some w \<Rightarrow> latest_decision_trace_for_workload (de_rt env) w (dn_runtime d)
               | None \<Rightarrow> latest_decision_trace_any (de_rt env) (dn_runtime d)) of
           Inl e \<Rightarrow> (Some (Inl (show_kernel_error e)), d)
         | Inr trace \<Rightarrow>
             answer (NKI_Success (JObject
               [(''execution_path'', JArray (map JString [''NKI'', ''durable_intent'', ''provider_process'', ''receipt'', ''step_commit''])),
                (''workload_id'', (case requested of None \<Rightarrow> JNull | Some w \<Rightarrow> JString w)),
                (''decision_trace'', (case trace of None \<Rightarrow> JNull | Some t \<Rightarrow> de_trace_json env t)),
                (''recovery'', JString ''Committed receipts are replayed; only idempotent or reconcilable pending operations are retried.''),
                (''journal_sequence'', json_nat (current_sequence (dn_journal d)))])) d)"

definition cancel_workload :: "daemon_env \<Rightarrow> json \<Rightarrow> daemon_state \<Rightarrow> daemon_result" where
  "cancel_workload env v d =
     (case Option.bind (json_get ''workload_id'' v) json_as_str of
        None \<Rightarrow> answer (nki_error ''INVALID_CANCELLATION'' ''workload_id is required'' False) d
      | Some w \<Rightarrow>
          (case runtime_cancel (de_rt env) w (dn_runtime d) of
             (Inr oid, s) \<Rightarrow>
               answer (NKI_Success (JObject [(''workload_id'', JString w), (''operation_id'', JString oid),
                 (''cancellation_requested'', JBool True)])) (d\<lparr>dn_runtime := s\<rparr>)
           | (Inl e, s) \<Rightarrow> answer (kernel_error e) (d\<lparr>dn_runtime := s\<rparr>)))"

section \<open>Control-plane requests\<close>

definition put_outcome :: "daemon_env \<Rightarrow> int \<Rightarrow> PutAssetRequest \<Rightarrow> daemon_state \<Rightarrow> daemon_result" where
  "put_outcome env now p d =
     (case control_put (de_control env) now p (dn_control d) of
        (None, st) \<Rightarrow> (None, d\<lparr>dn_control := st\<rparr>)
      | (Some (Inr a), st) \<Rightarrow> answer (NKI_Success (de_asset_json env a)) (d\<lparr>dn_control := st\<rparr>)
      | (Some (Inl e), st) \<Rightarrow> answer (control_error e) (d\<lparr>dn_control := st\<rparr>))"

definition model_document :: "json \<Rightarrow> json" where
  "model_document v = (case json_get ''model'' v of None \<Rightarrow> v | Some m \<Rightarrow> m)"

definition register_model :: "daemon_env \<Rightarrow> int \<Rightarrow> json \<Rightarrow> daemon_state \<Rightarrow> daemon_result" where
  "register_model env now v d =
     put_outcome env now \<lparr>par_schema_version = 1, par_kind = AK_Model, par_document = model_document v,
       par_expected_generation = Option.bind (json_get ''expected_generation'' v) json_as_u64\<rparr> d"

definition validate_model :: "daemon_env \<Rightarrow> json \<Rightarrow> daemon_state \<Rightarrow> daemon_result" where
  "validate_model env v d =
     (case control_validate (de_control env) AK_Model (model_document v) of
        None \<Rightarrow> (None, d)
      | Some (Inr (i, version, sha)) \<Rightarrow>
          answer (NKI_Success (JObject [(''valid'', JBool True), (''id'', JString i), (''version'', JString version), (''sha256'', JString sha)])) d
      | Some (Inl e) \<Rightarrow> answer (control_error e) d)"

definition put_control_asset :: "daemon_env \<Rightarrow> int \<Rightarrow> NKIRequest \<Rightarrow> daemon_state \<Rightarrow> daemon_result" where
  "put_control_asset env now q d =
     (case de_put env (nq_payload q) of
        Inl e \<Rightarrow> answer (nki_error ''INVALID_CONTROL_ASSET'' e False) d
      | Inr p \<Rightarrow> put_outcome env now p d)"

definition get_control_asset :: "daemon_env \<Rightarrow> NKIRequest \<Rightarrow> daemon_state \<Rightarrow> daemon_result" where
  "get_control_asset env q d =
     (case de_selector env (nq_payload q) of
        Inl e \<Rightarrow> answer (nki_error ''INVALID_CONTROL_QUERY'' e False) d
      | Inr s \<Rightarrow>
          (case control_get (de_control env) s (dn_control d) of
             (Inr a, st) \<Rightarrow> answer (NKI_Success (de_asset_json env a)) (d\<lparr>dn_control := st\<rparr>)
           | (Inl e, st) \<Rightarrow> answer (control_error e) (d\<lparr>dn_control := st\<rparr>)))"

definition list_control_assets :: "daemon_env \<Rightarrow> NKIRequest \<Rightarrow> daemon_state \<Rightarrow> daemon_result" where
  "list_control_assets env q d =
     (case de_list env (nq_payload q) of
        Inl e \<Rightarrow> answer (nki_error ''INVALID_CONTROL_QUERY'' e False) d
      | Inr p \<Rightarrow>
          (case control_list (de_control env) p (dn_control d) of
             (Inr as, st) \<Rightarrow> answer (NKI_Success (JObject [(''assets'', JArray (map (de_asset_json env) as))])) (d\<lparr>dn_control := st\<rparr>)
           | (Inl e, st) \<Rightarrow> answer (control_error e) (d\<lparr>dn_control := st\<rparr>)))"

definition delete_control_asset :: "daemon_env \<Rightarrow> json \<Rightarrow> daemon_state \<Rightarrow> daemon_result" where
  "delete_control_asset env v d =
     (case (Option.bind (json_get ''selector'' v) (\<lambda>w. case de_selector_value env w of Inl _ \<Rightarrow> None | Inr s \<Rightarrow> Some s),
            Option.bind (json_get ''expected_generation'' v) json_as_u64) of
        (Some s, Some generation) \<Rightarrow>
          (case control_delete (de_control env) s generation (dn_control d) of
             (Inr _, st) \<Rightarrow>
               answer (NKI_Success (JObject [(''deleted'', JBool True), (''kind'', JString (asset_kind_as_str (asl_kind s))),
                 (''id'', JString (asl_id s))])) (d\<lparr>dn_control := st\<rparr>)
           | (Inl e, st) \<Rightarrow> answer (control_error e) (d\<lparr>dn_control := st\<rparr>))
      | _ \<Rightarrow> answer (nki_error ''INVALID_CONTROL_DELETE'' ''selector and expected_generation are required'' False) d)"

section \<open>Dispatch and answer\<close>

definition extension_methods :: "string list" where
  "extension_methods = [''AdmitExtension'', ''AuthorizeExtension'', ''AuthorizeExtensionExecution'', ''RevokeExtension'']"

definition dispatch_request :: "daemon_env \<Rightarrow> int \<Rightarrow> NKIRequest \<Rightarrow> daemon_state \<Rightarrow> daemon_result" where
  "dispatch_request env now q d =
     (let m = nq_method q in
      if m = ''HealthCheck'' then health_check env now d
      else if m = ''SubmitWorkload'' then submit_workload env now q d
      else if m \<in> set extension_methods then extension_request env now q d
      else if m = ''SubmitContinuityPlan'' then submit_plan env q d
      else if m = ''GetWorkload'' then with_value env q (get_workload env) d
      else if m = ''ListWorkloads'' then with_value env q (list_workloads env) d
      else if m = ''RegisterModel'' then with_value env q (register_model env now) d
      else if m = ''ValidateModel'' then with_value env q (validate_model env) d
      else if m = ''PutControlAsset'' then put_control_asset env now q d
      else if m = ''GetControlAsset'' then get_control_asset env q d
      else if m = ''ListControlAssets'' then list_control_assets env q d
      else if m = ''DeleteControlAsset'' then with_value env q (delete_control_asset env) d
      else if m = ''GetMetrics'' then with_value env q (get_metrics env) d
      else if m = ''ProbeEngine'' then probe_engine env q d
      else if m = ''ExplainExecution'' then with_value env q (explain_execution env) d
      else if m = ''CancelWorkload'' then with_value env q (cancel_workload env) d
      else answer (nki_error ''METHOD_NOT_SUPPORTED'' m False) d)"

text \<open>One request: the envelope is screened, what passes is dispatched, and the outcome goes into a response with the
  daemon's version, the time and a new trace identifier.  The clock is read for the deadline of the envelope, in the
  handler and for the response.\<close>

record request_inputs =
  in_checked_at :: int
  in_now :: int
  in_sent_at :: int
  in_trace :: string

definition respond :: "request_inputs \<Rightarrow> NKIRequest \<Rightarrow> NKIOutcome \<Rightarrow> NKIResponse" where
  "respond inp q outcome =
     \<lparr>nr_request_id = nq_request_id q, nr_nki_version = NKI_VERSION, nr_server_timestamp_us = in_sent_at inp,
      nr_trace_id = in_trace inp, nr_outcome = outcome\<rparr>"

definition handle_request ::
  "daemon_env \<Rightarrow> string \<Rightarrow> request_inputs \<Rightarrow> NKIRequest \<Rightarrow> daemon_state \<Rightarrow> (string + NKIResponse) option \<times> daemon_state" where
  "handle_request env session_token inp q d =
     (case screen_envelope session_token (in_checked_at inp) q of
        Some outcome \<Rightarrow> (Some (Inr (respond inp q outcome)), d)
      | None \<Rightarrow>
          (case dispatch_request env (in_now inp) q d of
             (None, d') \<Rightarrow> (None, d')
           | (Some (Inl e), d') \<Rightarrow> (Some (Inl e), d')
           | (Some (Inr outcome), d') \<Rightarrow> (Some (Inr (respond inp q outcome)), d')))"

section \<open>A connection\<close>

text \<open>A connection reads frames until the stream ends, a frame is too large or cut short, a body is not a request, or a
  handler fails.  The requests of a connection are answered one after the other; \<open>inputs n\<close> is what the \<open>n\<close>-th request reads.\<close>

datatype connection_end = CE_Closed | CE_Error string | CE_Aborted

record connection_env =
  cn_request :: "NKIRequest codec"
  cn_response :: "NKIResponse codec"
  cn_unexpected_eof :: string
  cn_transport_error :: "TransportError \<Rightarrow> string"

function handle_connection ::
  "daemon_env \<Rightarrow> connection_env \<Rightarrow> string \<Rightarrow> (nat \<Rightarrow> request_inputs) \<Rightarrow> nat \<Rightarrow> string \<Rightarrow> daemon_state \<Rightarrow>
   connection_end \<times> string list \<times> daemon_state" where
  "handle_connection env cn session_token inputs n stream d =
     (case read_frame stream of
        FR_Closed \<Rightarrow> (CE_Closed, [], d)
      | FR_TooLarge \<Rightarrow> (CE_Error ''NKI frame exceeds 16 MiB'', [], d)
      | FR_Truncated \<Rightarrow> (CE_Error (cn_unexpected_eof cn), [], d)
      | FR_Frame body rest \<Rightarrow>
          (case dec (cn_request cn) body of
             Inl e \<Rightarrow> (CE_Error e, [], d)
           | Inr q \<Rightarrow>
               (case handle_request env session_token (inputs n) q d of
                  (None, d') \<Rightarrow> (CE_Aborted, [], d')
                | (Some (Inl e), d') \<Rightarrow> (CE_Error e, [], d')
                | (Some (Inr response), d') \<Rightarrow>
                    (case codec_encode (cn_response cn) response of
                       Inl e \<Rightarrow> (CE_Error (cn_transport_error cn e), [], d')
                     | Inr frame \<Rightarrow>
                         (case handle_connection env cn session_token inputs (Suc n) rest d' of
                            (how, frames, d'') \<Rightarrow> (how, frame # frames, d''))))))"
  by pat_completeness auto
termination
  by (relation "measure (\<lambda>(env, cn, session_token, inputs, n, stream, d). length stream)") (auto dest: read_frame_shorter)

declare handle_connection.simps [simp del]

section \<open>The process\<close>

text \<open>The daemon starts on what the storage holds: a short session token is refused, the journal is opened and verified, the
  catalogue is opened, the runtime recovers, and the listener must be a loopback address.  The last argument is the state
  the previous process left; only the two databases survive, with the count of the provider calls and of the inputs read.\<close>

definition start_runtime :: "string \<Rightarrow> BootCore \<Rightarrow> runtime_state \<Rightarrow> runtime_state" where
  "start_runtime uuid core s =
     (kernel_runtime_new uuid core)
       \<lparr>rt_exec := \<lparr>ex_journal = bc_journal core, ex_calls = ex_calls (rt_exec s)\<rparr>, rt_tick := rt_tick s\<rparr>"

text \<open>A boot that fails may still have written the format version.\<close>

definition boot_failed :: "runtime_state \<Rightarrow> runtime_state" where
  "boot_failed s =
     s\<lparr>rt_exec := (rt_exec s)\<lparr>ex_journal := (rt_journal s)\<lparr>jn_db := snd (journal_open (jn_db (rt_journal s)))\<rparr>\<rparr>\<rparr>"

definition serve_start ::
  "daemon_env \<Rightarrow> string \<Rightarrow> bool \<Rightarrow> string \<Rightarrow> daemon_state \<Rightarrow> (string + unit) option \<times> daemon_state" where
  "serve_start env session_token loopback uuid d =
     (if session_token \<noteq> [] \<and> length session_token < 32
      then (Some (Inl ''NOUS_NKI_TOKEN must contain at least 32 characters''), d)
      else case boot_open (xe_journal (re_exec (de_rt env))) (jn_db (dn_journal d)) of
        Inl e \<Rightarrow> (Some (Inl (show_kernel_error e)), d\<lparr>dn_runtime := boot_failed (dn_runtime d)\<rparr>)
      | Inr core \<Rightarrow>
          (let booted = d\<lparr>dn_runtime := start_runtime uuid core (dn_runtime d), dn_integrity := bc_integrity_failures core\<rparr> in
           case statement (dn_control d) of
             (Some m, st) \<Rightarrow> (Some (Inl (control_error_display (CPE_Storage m))), booted\<lparr>dn_control := st\<rparr>)
           | (None, st) \<Rightarrow>
               (case runtime_recover (de_rt env) (dn_runtime booted) of
                  (None, s) \<Rightarrow> (None, booted\<lparr>dn_runtime := s, dn_control := st\<rparr>)
                | (Some (Inl e), s) \<Rightarrow> (Some (Inl (show_kernel_error e)), booted\<lparr>dn_runtime := s, dn_control := st\<rparr>)
                | (Some (Inr _), s) \<Rightarrow>
                    (Some (if loopback then Inr () else Inl ''NKI TCP listener must bind to a loopback address''),
                     booted\<lparr>dn_runtime := s, dn_control := st\<rparr>))))"

text \<open>The command \<open>run-once\<close> executes one reference operation named after the digest of its input; \<open>inspect\<close> reports on
  the journal.  The shutdown of \<open>run-once\<close> waits for active operations; nothing else runs that could end one.\<close>

definition run_once_request :: "(string \<Rightarrow> string) \<Rightarrow> string \<Rightarrow> OperationRequest" where
  "run_once_request digest_bytes input =
     (let operation_id = ''op-'' @ digest_bytes input in
      \<lparr>op_operation_id = operation_id, op_workload_id = ''workload-'' @ operation_id, op_step_id = ''step-1'',
       op_backend = ''reference'', op_execution_domain = RC_Reference, op_model = [], op_endpoint = [], op_credential_env = [],
       op_provider_entrypoint = [], op_input = input, op_delivery = DS_Idempotent,
       op_snapshot = \<lparr>sn_model_revision = ''none'', sn_provider_revision = ''reference-v1'', sn_prompt_revision = ''prompt-v1'',
         sn_tool_revision = ''none'', sn_knowledge_revision = ''none'', sn_policy_revision = ''deterministic-v1'',
         sn_capability_revision = ''reference-v1'', sn_context_revision = ''context-v1''\<rparr>,
       op_timeout_ms = 10000\<rparr>)"

definition run_once ::
  "runtime_env \<Rightarrow> (string \<Rightarrow> string) \<Rightarrow> string \<Rightarrow> string \<Rightarrow> runtime_state \<Rightarrow> (string + RuntimeExecution) option \<times> runtime_state" where
  "run_once env digest_bytes uuid input s =
     (case boot_open (xe_journal (re_exec env)) (jn_db (rt_journal s)) of
        Inl e \<Rightarrow> (Some (Inl (show_kernel_error e)), boot_failed s)
      | Inr core \<Rightarrow>
          (let s0 = start_runtime uuid core s in
           if bc_state core \<noteq> KS_Ready then (Some (Inl ''kernel did not reach READY''), s0)
           else case runtime_recover env s0 of
             (None, s1) \<Rightarrow> (None, s1)
           | (Some (Inl e), s1) \<Rightarrow> (Some (Inl (show_kernel_error e)), s1)
           | (Some (Inr _), s1) \<Rightarrow>
               (case runtime_execute env (run_once_request digest_bytes input) s1 of
                  (None, s2) \<Rightarrow> (None, s2)
                | (Some (Inl e), s2) \<Rightarrow> (Some (Inl (show_kernel_error e)), s2)
                | (Some (Inr x), s2) \<Rightarrow>
                    (Some (if rt_active s2 = [] then Inr x else Inl (show_kernel_error KE_ShuttingDown)), shutdown_request s2))))"

definition inspect_journal :: "journal_env \<Rightarrow> journal_db \<Rightarrow> string + json" where
  "inspect_journal env db =
     (case boot_open env db of
        Inl e \<Rightarrow> Inl (show_kernel_error e)
      | Inr core \<Rightarrow>
          (case verify_integrity env (bc_journal core) of
             Inl e \<Rightarrow> Inl (show_nous_error e)
           | Inr corrupted \<Rightarrow>
               Inr (JObject [(''state'', JString (kernel_state_name (bc_state core))),
                 (''journal_sequence'', json_nat (current_sequence (bc_journal core))),
                 (''corrupted_sequences'', JArray (map json_nat corrupted))])))"

text \<open>The command line of the daemon; the first argument is the name of the program.\<close>

datatype daemon_command =
    DC_Inspect string
  | DC_Serve string string string
  | DC_RunOnce string string string
  | DC_Usage
  | DC_Missing string

definition daemon_arg :: "string list \<Rightarrow> nat \<Rightarrow> string \<Rightarrow> (string \<Rightarrow> daemon_command) \<Rightarrow> daemon_command" where
  "daemon_arg args i message k = (if i < length args then k (args ! i) else DC_Missing message)"

definition daemon_main :: "string list \<Rightarrow> daemon_command" where
  "daemon_main args =
     (let action = (if 1 < length args then args ! 1 else []) in
      if action = ''inspect'' then daemon_arg args 2 ''journal path is required'' DC_Inspect
      else if action = ''serve''
      then daemon_arg args 2 ''journal path is required'' (\<lambda>journal.
        daemon_arg args 3 ''provider worker path is required'' (\<lambda>worker.
          DC_Serve journal worker (if 4 < length args then args ! 4 else ''127.0.0.1:8771'')))
      else if action \<noteq> ''run-once'' then DC_Usage
      else daemon_arg args 2 ''journal path is required'' (\<lambda>journal.
        daemon_arg args 3 ''provider worker path is required'' (\<lambda>worker.
          daemon_arg args 4 ''input is required'' (DC_RunOnce journal worker))))"

end
