(* ===== verification/Authority_Safety.thy ===== *)
theory Authority_Safety
  imports Extension_Authority
begin

text \<open>
  What the authority protocol of extensions guarantees.  The logs it can produce are an inductive predicate, one rule
  per handler and one for the rest of the kernel; every history of requests, with any storage faults and any other
  journal entries in between, produces such a log.  From it follow that a permit needs a current approval of exactly
  this capability, that a revocation ends the authority, that an approved request is permitted, and what a repeated
  idempotency key does.
\<close>

section \<open>One step\<close>

lemma journal_outcome_cases:
  assumes wf: "journal_wf j" and out: "journal_outcome env now c x entry reply j = (r, j')"
  obtains (kept) "journal_log j' = journal_log j" "journal_wf j'"
      "r = Inr (NKI_Success v) \<Longrightarrow> j' = j \<and> (\<exists>payload k. je_idempotency_key (entry payload) = Some k \<and> has_key (journal_log j) k)"
  | (written) payload e where "enc c x = Inr payload" "journal_log j' = journal_log j @ [e]" "same_content e (entry payload)"
      "journal_wf j'" "r = Inr (NKI_Success reply)"
proof (cases "enc c x")
  case (Inl err)
  with out wf show thesis by (intro kept) (auto simp: journal_outcome_def)
next
  case (Inr payload)
  obtain res j1 where ap: "journal_append (ae_journal env) now (entry payload) j = (res, j1)" by fastforce
  have j': "j' = j1" and r: "r = (case res of Inl err \<Rightarrow> Inl (show_nous_error err) | Inr _ \<Rightarrow> Inr (NKI_Success reply))"
    using out Inr ap by (auto simp: journal_outcome_def split: sum.splits)
  have wf': "journal_wf j'" using jl.inv_append [OF wf, of "ae_journal env" now "entry payload"] ap j' by simp
  from wf ap show thesis
  proof (cases rule: jl.append_cases)
    case (replay k e)
    then show thesis using j' wf' r by (intro kept) (auto simp: has_key_def)
  next
    case (new e)
    then show thesis using written [OF Inr] j' wf' r by simp
  next
    case (failed err)
    then show thesis using j' wf' r by (intro kept) auto
  qed
qed

section \<open>The logs of the protocol\<close>

definition extension_types :: "string list" where
  "extension_types = [''ExtensionAdmissionDecision'', ''ExtensionAuthorizationDecision'', ''ExtensionExecutionPermit'',
     ''ExtensionRevocationDecision'']"

definition ext_log :: "string \<Rightarrow> JournalEntry list \<Rightarrow> JournalEntry list" where
  "ext_log x es = filter (\<lambda>e. je_workload_id e = extension_workload x) es"

text \<open>An entry as a handler writes it, with the decision it carries.\<close>

definition carries ::
  "authority_env \<Rightarrow> JournalEntry \<Rightarrow> string \<Rightarrow> string \<Rightarrow> ExtensionAdmissionDecision \<Rightarrow> bool" where
  "carries env e x object_type d \<longleftrightarrow>
     je_workload_id e = extension_workload x \<and> je_entry_type e = ET_Commit \<and> je_object_type e = object_type \<and>
     je_object_id e = ead_receipt_id d \<and> decode_decision env e = Some d"

inductive authority_log :: "authority_env \<Rightarrow> JournalEntry list \<Rightarrow> bool" for env :: authority_env where
  al_empty: "authority_log env []"
| al_other: "authority_log env es \<Longrightarrow> je_object_type e \<notin> set extension_types \<Longrightarrow> authority_log env (es @ [e])"
| al_admit: "authority_log env es \<Longrightarrow> admission_request_validate extension = Inr () \<Longrightarrow>
    admission_material env extension (je_actor e) = Inr material \<Longrightarrow>
    carries env e (ear_extension_id extension) ''ExtensionAdmissionDecision''
      (admission_decision extension (receipt_id env ''admission-'' material)) \<Longrightarrow>
    authority_log env (es @ [e])"
| al_authorize: "authority_log env es \<Longrightarrow> authorization_request_validate a = Inr () \<Longrightarrow>
    prior_admission env a (ext_log (ear_extension_id (eau_admission a)) es) = Some prior \<Longrightarrow>
    ead_normalized_digest prior = ear_content_digest (eau_admission a) \<Longrightarrow>
    carries env e (ear_extension_id (eau_admission a)) ''ExtensionAuthorizationDecision'' (authorization_decision a prior receipt) \<Longrightarrow>
    authority_log env (es @ [e])"
| al_permit: "authority_log env es \<Longrightarrow> je_object_type e = ''ExtensionExecutionPermit'' \<Longrightarrow> authority_log env (es @ [e])"
| al_revoke: "authority_log env es \<Longrightarrow>
    carries env e x ''ExtensionRevocationDecision'' d \<Longrightarrow> ead_granted_capabilities d = [] \<Longrightarrow> authority_log env (es @ [e])"

inductive_cases authority_log_snoc: "authority_log env (es @ [e])"

lemma same_content_carries:
  assumes "codec_roundtrip (ae_decision env)" "enc (ae_decision env) d = Inr payload"
    and "same_content e (extension_entry x ty (ead_receipt_id d) prev phase gen payload digest actor key)"
  shows "carries env e x ty d" "je_actor e = actor"
  using assms by (simp_all add: carries_def same_content_def extension_entry_def decode_decision_def codec_roundtripD)

text \<open>The outcome of a handler that journals a decision.\<close>

lemma decision_outcome:
  assumes rt: "codec_roundtrip (ae_decision env)" and wf: "journal_wf j" and log: "authority_log env (journal_log j)"
    and out: "journal_outcome env now (ae_decision env) d
      (\<lambda>payload. extension_entry x ty (ead_receipt_id d) prev phase gen payload digest actor key) reply j = (r, j')"
    and rule: "\<And>e. carries env e x ty d \<Longrightarrow> je_actor e = actor \<Longrightarrow> authority_log env (journal_log j @ [e])"
  shows "journal_wf j' \<and> authority_log env (journal_log j')"
  using wf out
proof (cases rule: journal_outcome_cases [where v = reply])
  case (written payload e)
  then show ?thesis using rule [of e] same_content_carries [OF rt written(1,3)] by simp
qed (use log in auto)

lemma admit_keeps:
  assumes rt: "codec_roundtrip (ae_decision env)" and wf: "journal_wf j" and log: "authority_log env (journal_log j)"
    and out: "admit_extension env now q extension j = (r, j')"
  shows "journal_wf j' \<and> authority_log env (journal_log j')"
proof (cases "\<exists>material. admission_request_validate extension = Inr () \<and> admission_material env extension (nq_principal_id q) = Inr material")
  case True
  then obtain material where v: "admission_request_validate extension = Inr ()"
      "admission_material env extension (nq_principal_id q) = Inr material" by blast
  from out [unfolded admit_extension_def v sum.case Let_def] show ?thesis
    by (rule decision_outcome [OF rt wf log]) (rule al_admit [OF log v(1)], simp_all add: v(2))
next
  case False
  then have "j' = j" using out unfolding admit_extension_def by (auto split: sum.splits)
  with wf log show ?thesis by simp
qed

text \<open>What the handlers read.\<close>

lemma read_extension:
  "journal_wf j \<Longrightarrow> read_workload (ae_journal env) j (extension_workload x) = Inr (ext_log x (journal_log j))"
  by (simp add: jl.read_wl_log ext_log_def)

lemma authorize_cases:
  assumes wf: "journal_wf j" and out: "authorize_extension env now q a j = (r, j')"
  shows "(\<exists>prior. authorization_request_validate a = Inr () \<and>
      prior_admission env a (ext_log (ear_extension_id (eau_admission a)) (journal_log j)) = Some prior \<and>
      ead_normalized_digest prior = ear_content_digest (eau_admission a) \<and>
      record_authorization env now q a prior j = (r, j')) \<or> j' = j"
  using out unfolding authorize_extension_def read_extension [OF wf]
  by (auto split: sum.splits option.splits if_splits)

lemma record_authorization_keeps:
  assumes rt: "codec_roundtrip (ae_decision env)" and wf: "journal_wf j" and log: "authority_log env (journal_log j)"
    and out: "record_authorization env now q a prior j = (r, j')" and v: "authorization_request_validate a = Inr ()"
    and p: "prior_admission env a (ext_log (ear_extension_id (eau_admission a)) (journal_log j)) = Some prior"
      "ead_normalized_digest prior = ear_content_digest (eau_admission a)"
  shows "journal_wf j' \<and> authority_log env (journal_log j')"
proof (cases "authorization_material env a")
  case (Inl e)
  then show ?thesis using out wf log by (auto simp: record_authorization_def)
next
  case (Inr material)
  from out [unfolded record_authorization_def Inr sum.case Let_def] show ?thesis
    by (rule decision_outcome [OF rt wf log]) (rule al_authorize [OF log v p])
qed

lemma authorize_keeps:
  assumes "codec_roundtrip (ae_decision env)" "journal_wf j" "authority_log env (journal_log j)"
    and "authorize_extension env now q a j = (r, j')"
  shows "journal_wf j' \<and> authority_log env (journal_log j')"
  using authorize_cases [OF assms(2,4)] record_authorization_keeps [OF assms(1-3)] assms(2,3) by blast

lemma nki_error_not_success [simp]: "nki_error c m b \<noteq> NKI_Success v"
  by (simp add: nki_error_def)

text \<open>When an execution is permitted.\<close>

definition permits :: "authority_env \<Rightarrow> ExtensionExecutionRequest \<Rightarrow> JournalEntry list \<Rightarrow> ExtensionAdmissionDecision \<Rightarrow> bool" where
  "permits env x es d \<longleftrightarrow>
     execution_request_validate x = Inr () \<and>
     current_authorization env (eer_authorization_receipt_id x) (ext_log (eer_extension_id x) es) = Some d \<and>
     ead_extension_id d = eer_extension_id x \<and> ead_normalized_digest d = eer_content_digest x \<and>
     eer_capability x \<in> set (ead_granted_capabilities d) \<and> within_authorization d x"

lemma execution_cases:
  assumes wf: "journal_wf j" and out: "authorize_extension_execution env now q x j = (r, j')"
  shows "(\<exists>d. permits env x (journal_log j) d \<and> record_permit env now q x j = (r, j')) \<or> (j' = j \<and> (\<forall>v. r \<noteq> Inr (NKI_Success v)))"
  using out unfolding authorize_extension_execution_def read_extension [OF wf] permits_def
  by (auto simp: execution_denied_def split: sum.splits option.splits if_splits)

lemma execution_keeps:
  assumes wf: "journal_wf j" and log: "authority_log env (journal_log j)"
    and out: "authorize_extension_execution env now q x j = (r, j')"
  shows "journal_wf j' \<and> authority_log env (journal_log j')"
proof -
  have "journal_wf j' \<and> authority_log env (journal_log j')" if rec: "record_permit env now q x j = (r, j')"
  proof (cases "execution_material env q x")
    case (Inl e)
    then show ?thesis using rec wf log by (auto simp: record_permit_def)
  next
    case (Inr material)
    from wf rec [unfolded record_permit_def Inr sum.case Let_def] show ?thesis
    proof (cases rule: journal_outcome_cases [where v = JNull])
      case (written payload e)
      then have "je_object_type e = ''ExtensionExecutionPermit''" by (simp add: same_content_def extension_entry_def)
      with written show ?thesis using al_permit [OF log] by simp
    qed (use log in auto)
  qed
  with execution_cases [OF wf out] wf log show ?thesis by auto
qed

lemma record_revocation_keeps:
  assumes rt: "codec_roundtrip (ae_decision env)" and wf: "journal_wf j" and log: "authority_log env (journal_log j)"
    and out: "record_revocation env now q v prior j = (r, j')"
  shows "journal_wf j' \<and> authority_log env (journal_log j')"
proof (cases "revocation_material env q v")
  case (Inl e)
  then show ?thesis using out wf log by (auto simp: record_revocation_def)
next
  case (Inr material)
  from out [unfolded record_revocation_def Inr sum.case Let_def] show ?thesis
    by (rule decision_outcome [OF rt wf log]) (rule al_revoke [OF log], assumption, simp add: revocation_decision_def)
qed

lemma revoke_cases:
  assumes wf: "journal_wf j" and out: "revoke_extension env now q v j = (r, j')"
  shows "(\<exists>prior. record_revocation env now q v prior j = (r, j')) \<or> j' = j"
  using out unfolding revoke_extension_def read_extension [OF wf]
  by (auto split: sum.splits option.splits if_splits)

lemma revoke_keeps:
  assumes "codec_roundtrip (ae_decision env)" "journal_wf j" "authority_log env (journal_log j)"
    and "revoke_extension env now q v j = (r, j')"
  shows "journal_wf j' \<and> authority_log env (journal_log j')"
  using revoke_cases [OF assms(2,4)] record_revocation_keeps [OF assms(1-3)] assms(2,3) by blast

section \<open>Histories\<close>

text \<open>A request to the daemon, or an entry that another part of the kernel journals.\<close>

datatype authority_op = AO_Request int NKIRequest | AO_Entry int JournalEntry

fun authority_do :: "authority_env \<Rightarrow> Journal \<Rightarrow> authority_op \<Rightarrow> Journal" where
  "authority_do env j (AO_Request now q) = snd (extension_dispatch env now q j)"
| "authority_do env j (AO_Entry now e) = snd (journal_append (ae_journal env) now e j)"

definition authority_run :: "authority_env \<Rightarrow> authority_op list \<Rightarrow> Journal \<Rightarrow> Journal" where
  "authority_run env ops j = foldl (authority_do env) j ops"

fun foreign_op :: "authority_op \<Rightarrow> bool" where
  "foreign_op (AO_Request now q) = True"
| "foreign_op (AO_Entry now e) = (je_object_type e \<notin> set extension_types)"

definition protocol_ok :: "authority_env \<Rightarrow> Journal \<Rightarrow> bool" where
  "protocol_ok env j \<longleftrightarrow> journal_wf j \<and> authority_log env (journal_log j)"

lemma decode_payload_cases:
  assumes "decode_payload c code handler q j = (r, j')"
  shows "(\<exists>x. handler x j = (r, j')) \<or> j' = j \<and> (\<forall>v. r \<noteq> Inr (NKI_Success v))"
  using assms by (auto simp: decode_payload_def split: sum.splits)

lemma dispatch_cases:
  assumes "extension_dispatch env now q j = (r, j')"
  shows "(\<exists>x. admit_extension env now q x j = (r, j')) \<or>
    nq_method q = ''AuthorizeExtension'' \<and> (\<exists>x. authorize_extension env now q x j = (r, j')) \<or>
    (\<exists>x. authorize_extension_execution env now q x j = (r, j')) \<or> (\<exists>x. revoke_extension env now q x j = (r, j')) \<or> j' = j"
  using assms unfolding extension_dispatch_def by (auto split: if_splits dest!: decode_payload_cases)

lemma dispatch_keeps:
  assumes rt: "codec_roundtrip (ae_decision env)" and ok: "protocol_ok env j"
  shows "protocol_ok env (snd (extension_dispatch env now q j))"
proof -
  obtain r j' where out: "extension_dispatch env now q j = (r, j')" by fastforce
  have wf: "journal_wf j" and log: "authority_log env (journal_log j)" using ok by (simp_all add: protocol_ok_def)
  have "protocol_ok env j'"
    using dispatch_cases [OF out] admit_keeps [OF rt wf log] authorize_keeps [OF rt wf log] execution_keeps [OF wf log]
      revoke_keeps [OF rt wf log] ok unfolding protocol_ok_def by blast
  then show ?thesis by (simp add: out)
qed

lemma authority_append_keeps:
  assumes ok: "protocol_ok env j" and e: "je_object_type e \<notin> set extension_types"
  shows "protocol_ok env (snd (journal_append (ae_journal env) now e j))"
proof -
  obtain r j' where ap: "journal_append (ae_journal env) now e j = (r, j')" by fastforce
  have wf: "journal_wf j" using ok by (simp add: protocol_ok_def)
  have wf': "journal_wf j'" using jl.inv_append [OF wf, of "ae_journal env" now e] ap by simp
  from wf ap have "authority_log env (journal_log j')"
  proof (cases rule: jl.append_cases)
    case (new x)
    then show ?thesis using ok e al_other [of env "journal_log j" x] by (simp add: protocol_ok_def same_content_def)
  qed (use ok in \<open>auto simp: protocol_ok_def\<close>)
  with wf' show ?thesis by (simp add: ap protocol_ok_def)
qed

lemma run_keeps:
  assumes "codec_roundtrip (ae_decision env)" "list_all foreign_op ops" "protocol_ok env j"
  shows "protocol_ok env (authority_run env ops j)"
  using assms(2,3)
proof (induction ops arbitrary: j)
  case (Cons op ops)
  have "protocol_ok env (authority_do env j op)"
    using Cons.prems dispatch_keeps [OF assms(1)] authority_append_keeps by (cases op) auto
  with Cons show ?case by (simp add: authority_run_def)
qed (simp add: authority_run_def)

section \<open>Reading the log\<close>

lemma find_last_snoc [simp]: "find_last P (xs @ [x]) = (if P x then Some x else find_last P xs)"
  by (simp add: find_last_def)

lemma find_last_Nil [simp]: "find_last P [] = None"
  by (simp add: find_last_def)

lemma find_last_ext: "find_last P (ext_log x es) = find_last (\<lambda>e. je_workload_id e = extension_workload x \<and> P e) es"
  by (induction es rule: rev_induct) (simp_all add: ext_log_def)

lemma find_last_SomeD:
  "find_last P xs = Some e \<Longrightarrow> \<exists>before after. xs = before @ e # after \<and> P e \<and> list_all (\<lambda>y. \<not> P y) after"
proof (induction xs rule: rev_induct)
  case (snoc x xs)
  show ?case
  proof (cases "P x")
    case True
    with snoc.prems have "xs @ [x] = xs @ e # [] \<and> P e \<and> list_all (\<lambda>y. \<not> P y) []" by simp
    then show ?thesis by blast
  next
    case False
    with snoc obtain before after where "xs = before @ e # after" "P e" "list_all (\<lambda>y. \<not> P y) after" by auto
    with False have "xs @ [x] = before @ e # (after @ [x]) \<and> P e \<and> list_all (\<lambda>y. \<not> P y) (after @ [x])" by simp
    then show ?thesis by blast
  qed
qed simp

lemma authority_log_prefix: "authority_log env (xs @ ys) \<Longrightarrow> authority_log env xs"
proof (induction ys rule: rev_induct)
  case (snoc y ys)
  from snoc.prems have "authority_log env ((xs @ ys) @ [y])" by simp
  then have "authority_log env (xs @ ys)" by (rule authority_log_snoc) simp_all
  then show ?case by (rule snoc.IH)
qed simp

text \<open>Where the entries of the log come from.\<close>

lemma authorization_origin:
  assumes "authority_log env (before @ e # after)" "je_object_type e = ''ExtensionAuthorizationDecision''"
  shows "\<exists>a prior receipt. authorization_request_validate a = Inr () \<and>
    prior_admission env a (ext_log (ear_extension_id (eau_admission a)) before) = Some prior \<and>
    ead_normalized_digest prior = ear_content_digest (eau_admission a) \<and>
    carries env e (ear_extension_id (eau_admission a)) ''ExtensionAuthorizationDecision'' (authorization_decision a prior receipt)"
proof -
  have "authority_log env (before @ [e])" using authority_log_prefix [of env "before @ [e]" after] assms(1) by simp
  then show ?thesis using assms(2) by (cases rule: authority_log_snoc) (auto simp: carries_def extension_types_def)
qed

lemma revocation_origin:
  assumes "authority_log env (before @ e # after)" "je_object_type e = ''ExtensionRevocationDecision''"
  shows "\<exists>d. decode_decision env e = Some d \<and> ead_granted_capabilities d = []"
proof -
  have "authority_log env (before @ [e])" using authority_log_prefix [of env "before @ [e]" after] assms(1) by simp
  then show ?thesis using assms(2) by (cases rule: authority_log_snoc) (auto simp: carries_def extension_types_def)
qed

text \<open>A receipt is the digest of an admission request and of the one who made it.\<close>

definition admission_receipt_of :: "authority_env \<Rightarrow> ExtensionAdmissionRequest \<Rightarrow> string \<Rightarrow> string \<Rightarrow> bool" where
  "admission_receipt_of env extension actor receipt \<longleftrightarrow>
     (\<exists>material. admission_material env extension actor = Inr material \<and> receipt = receipt_id env ''admission-'' material)"

lemma admission_origin:
  assumes "authority_log env (before @ e # after)" "je_object_type e = ''ExtensionAdmissionDecision''"
  shows "\<exists>extension receipt. admission_request_validate extension = Inr () \<and> admission_receipt_of env extension (je_actor e) receipt \<and>
    carries env e (ear_extension_id extension) ''ExtensionAdmissionDecision'' (admission_decision extension receipt)"
proof -
  have "authority_log env (before @ [e])" using authority_log_prefix [of env "before @ [e]" after] assms(1) by simp
  then show ?thesis using assms(2)
    by (cases rule: authority_log_snoc) (auto simp: carries_def extension_types_def admission_receipt_of_def)
qed

lemma prior_admission_origin:
  assumes log: "authority_log env es" and prior: "prior_admission env a (ext_log x es) = Some prior"
  shows "\<exists>extension before adm after. es = before @ adm # after \<and> admission_request_validate extension = Inr () \<and>
    prior = admission_decision extension (eau_admission_receipt_id a) \<and> ear_extension_id extension = x \<and>
    admission_receipt_of env extension (je_actor adm) (eau_admission_receipt_id a) \<and>
    admission_receipt_of env (eau_admission a) (je_actor adm) (eau_admission_receipt_id a) \<and>
    carries env adm x ''ExtensionAdmissionDecision'' prior"
proof -
  from prior obtain adm where f: "find_last (\<lambda>e. je_workload_id e = extension_workload x \<and> je_entry_type e = ET_Commit \<and>
      je_object_type e = ''ExtensionAdmissionDecision'' \<and> je_object_id e = eau_admission_receipt_id a) es = Some adm"
    and h: "(case admission_material env (eau_admission a) (je_actor adm) of Inl _ \<Rightarrow> None
      | Inr material \<Rightarrow> if je_object_id adm \<noteq> receipt_id env ''admission-'' material then None else decode_decision env adm) = Some prior"
    unfolding prior_admission_def find_last_ext bind_eq_Some_conv by blast
  from h have d: "decode_decision env adm = Some prior" by (auto split: sum.splits if_splits)
  from find_last_SomeD [OF f] obtain before after where s: "es = before @ adm # after"
      "je_workload_id adm = extension_workload x" "je_object_type adm = ''ExtensionAdmissionDecision''"
      "je_object_id adm = eau_admission_receipt_id a" by blast
  have "admission_receipt_of env (eau_admission a) (je_actor adm) (eau_admission_receipt_id a)"
    using h s(4) by (auto simp: admission_receipt_of_def split: sum.splits if_splits)
  moreover obtain extension receipt where "admission_request_validate extension = Inr ()"
      "admission_receipt_of env extension (je_actor adm) receipt"
      "carries env adm (ear_extension_id extension) ''ExtensionAdmissionDecision'' (admission_decision extension receipt)"
    using admission_origin [of env before adm after] log s by blast
  moreover from this(3) have "prior = admission_decision extension receipt" "receipt = eau_admission_receipt_id a"
      "ear_extension_id extension = x"
    using d s(2,4) by (simp_all add: carries_def admission_decision_def extension_workload_def)
  ultimately show ?thesis using s(1) by blast
qed

section \<open>A permit needs a current approval\<close>

text \<open>The log holds the admission of an extension, then an approval under the given receipt, and since then neither
  another approval nor a revocation of this extension.\<close>

definition approval_chain ::
  "authority_env \<Rightarrow> JournalEntry list \<Rightarrow> ExtensionAdmissionRequest \<Rightarrow> ExtensionAuthorizationRequest \<Rightarrow> string \<Rightarrow> bool" where
  "approval_chain env es extension a receipt \<longleftrightarrow>
     (\<exists>xs adm ys e zs. es = xs @ adm # ys @ e # zs \<and>
        admission_receipt_of env extension (je_actor adm) (eau_admission_receipt_id a) \<and>
        admission_receipt_of env (eau_admission a) (je_actor adm) (eau_admission_receipt_id a) \<and>
        carries env adm (ear_extension_id extension) ''ExtensionAdmissionDecision''
          (admission_decision extension (eau_admission_receipt_id a)) \<and>
        carries env e (ear_extension_id extension) ''ExtensionAuthorizationDecision''
          (authorization_decision a (admission_decision extension (eau_admission_receipt_id a)) receipt) \<and>
        list_all (\<lambda>y. \<not> (je_workload_id y = extension_workload (ear_extension_id extension) \<and> is_authority_entry y)) zs)"

lemma permits_chain:
  assumes log: "authority_log env es" and p: "permits env x es d"
  shows "\<exists>extension a. approval_chain env es extension a (eer_authorization_receipt_id x) \<and>
    d = authorization_decision a (admission_decision extension (eau_admission_receipt_id a)) (eer_authorization_receipt_id x) \<and>
    authorization_request_validate a = Inr () \<and> admission_request_validate extension = Inr () \<and>
    ear_extension_id extension = eer_extension_id x \<and> ear_content_digest extension = eer_content_digest x"
proof -
  let ?P = "\<lambda>e. je_workload_id e = extension_workload (eer_extension_id x) \<and> is_authority_entry e"
  from p obtain e where f: "find_last ?P es = Some e" and id: "je_object_id e = eer_authorization_receipt_id x"
    and d: "decode_decision env e = Some d"
    unfolding permits_def current_authorization_def find_last_ext by (auto simp: bind_eq_Some_conv split: if_splits)
  obtain before after where s: "es = before @ e # after" "?P e" "list_all (\<lambda>y. \<not> ?P y) after" using find_last_SomeD [OF f] by blast
  have "je_object_type e \<noteq> ''ExtensionRevocationDecision''"
    using revocation_origin [of env before e after] log s(1) d p unfolding permits_def by auto
  then have "je_object_type e = ''ExtensionAuthorizationDecision''" using s(2) by (simp add: is_authority_entry_def)
  then obtain a prior receipt where a: "authorization_request_validate a = Inr ()"
      "prior_admission env a (ext_log (ear_extension_id (eau_admission a)) before) = Some prior"
      "ead_normalized_digest prior = ear_content_digest (eau_admission a)"
      "carries env e (ear_extension_id (eau_admission a)) ''ExtensionAuthorizationDecision'' (authorization_decision a prior receipt)"
    using authorization_origin [of env before e after] log s(1) by blast
  have dd: "d = authorization_decision a prior receipt" and r: "receipt = eer_authorization_receipt_id x"
    using a(4) d id by (simp_all add: carries_def authorization_decision_def)
  have x: "ear_extension_id (eau_admission a) = eer_extension_id x" "ear_content_digest (eau_admission a) = eer_content_digest x"
    using p dd unfolding permits_def by (simp_all add: authorization_decision_def)
  obtain extension xs adm ys where m: "before = xs @ adm # ys" "admission_request_validate extension = Inr ()"
      "prior = admission_decision extension (eau_admission_receipt_id a)" "ear_extension_id extension = eer_extension_id x"
      "admission_receipt_of env extension (je_actor adm) (eau_admission_receipt_id a)"
      "admission_receipt_of env (eau_admission a) (je_actor adm) (eau_admission_receipt_id a)"
      "carries env adm (eer_extension_id x) ''ExtensionAdmissionDecision'' prior"
    using prior_admission_origin [OF authority_log_prefix a(2), of "e # after"] log s(1) x(1) by auto
  have "ear_content_digest extension = eer_content_digest x" using a(3) x(2) m(3) by (simp add: admission_decision_def)
  moreover have "approval_chain env es extension a (eer_authorization_receipt_id x)"
    unfolding approval_chain_def
    by (rule exI [of _ xs], rule exI [of _ adm], rule exI [of _ ys], rule exI [of _ e], rule exI [of _ after])
       (use s m a(4) r x(1) in simp)
  ultimately show ?thesis using dd r m a(1) by blast
qed

lemma chain_constraints:
  assumes "within_authorization (authorization_decision a (admission_decision extension r) receipt) x"
  shows "set (eer_scope x) \<subseteq> set (or_default_list (scope_constraints_of extension (eer_capability x)))"
    and "ear_executor extension \<in> {[], eer_executor x}"
  using assms
  by (auto simp: within_authorization_def authorization_decision_def admission_decision_def executor_constraints_of_def
      or_default_list_def list_all_iff Let_def split: if_splits option.splits)

definition fresh_journal :: "string option list \<Rightarrow> Journal" where
  "fresh_journal faults = journal_open_in_memory\<lparr>jn_faults := faults\<rparr>"

lemma fresh_journal_ok: "protocol_ok env (fresh_journal faults)"
  by (simp add: protocol_ok_def fresh_journal_def journal_open_in_memory_def journal_wf_def journal_log_def map_filter_def al_empty)

lemma permitted_execution:
  assumes "protocol_ok env j" "authorize_extension_execution env now q x j = (Inr (NKI_Success v), j')"
  shows "\<exists>extension a. approval_chain env (journal_log j) extension a (eer_authorization_receipt_id x) \<and>
    authorization_request_validate a = Inr () \<and> admission_request_validate extension = Inr () \<and>
    ear_extension_id extension = eer_extension_id x \<and> ear_content_digest extension = eer_content_digest x \<and>
    eer_capability x \<in> set (eau_approved_capabilities a) \<inter> set (requested_capabilities (eau_admission a)) \<and>
    set (eer_scope x) \<subseteq> set (or_default_list (scope_constraints_of extension (eer_capability x))) \<and>
    ear_executor extension \<in> {[], eer_executor x}"
proof -
  have ok: "journal_wf j" "authority_log env (journal_log j)" using assms(1) by (simp_all add: protocol_ok_def)
  obtain d where p: "permits env x (journal_log j) d" using execution_cases [OF ok(1) assms(2)] by blast
  obtain extension a where c: "approval_chain env (journal_log j) extension a (eer_authorization_receipt_id x)"
      "d = authorization_decision a (admission_decision extension (eau_admission_receipt_id a)) (eer_authorization_receipt_id x)"
      "authorization_request_validate a = Inr ()" "admission_request_validate extension = Inr ()"
      "ear_extension_id extension = eer_extension_id x" "ear_content_digest extension = eer_content_digest x"
    using permits_chain [OF ok(2) p] by blast
  have "eer_capability x \<in> set (ead_granted_capabilities d)" "within_authorization d x" using p unfolding permits_def by blast+
  then have "eer_capability x \<in> set (eau_approved_capabilities a)"
    and "within_authorization (authorization_decision a (admission_decision extension (eau_admission_receipt_id a))
      (eer_authorization_receipt_id x)) x"
    unfolding c(2) by (simp_all add: authorization_decision_def)
  then show ?thesis using c authorization_request_ok(3) [OF c(3)] chain_constraints by blast
qed

text \<open>No extension executes without a current approval: in any history of requests, storage faults and other
  journal entries, an execution is permitted only when the journal holds, in this order, the admission of the same
  extension with the same content digest, and a valid approval of that admission that names the capability; since the
  approval nothing was approved or revoked for the extension.  The scope and the executor of the execution are those
  that the admitted request asked for, and the request that was approved has the receipt of the one that was
  admitted.\<close>

theorem permit_needs_current_approval:
  assumes "codec_roundtrip (ae_decision env)" "list_all foreign_op ops"
    and "j = authority_run env ops (fresh_journal faults)"
    and "authorize_extension_execution env now q x j = (Inr (NKI_Success v), j')"
  shows "\<exists>extension a. approval_chain env (journal_log j) extension a (eer_authorization_receipt_id x) \<and>
    authorization_request_validate a = Inr () \<and> admission_request_validate extension = Inr () \<and>
    ear_extension_id extension = eer_extension_id x \<and> ear_content_digest extension = eer_content_digest x \<and>
    eer_capability x \<in> set (eau_approved_capabilities a) \<inter> set (requested_capabilities (eau_admission a)) \<and>
    set (eer_scope x) \<subseteq> set (or_default_list (scope_constraints_of extension (eer_capability x))) \<and>
    ear_executor extension \<in> {[], eer_executor x}"
  using permitted_execution [OF run_keeps [OF assms(1,2) fresh_journal_ok] assms(4) [unfolded assms(3)]] assms(3) by simp

section \<open>Revocation\<close>

definition revoked :: "authority_env \<Rightarrow> string \<Rightarrow> JournalEntry list \<Rightarrow> bool" where
  "revoked env x es \<longleftrightarrow>
     (\<exists>e d. find_last is_authority_entry (ext_log x es) = Some e \<and> decode_decision env e = Some d \<and> ead_granted_capabilities d = [])"

definition harmless :: "authority_env \<Rightarrow> JournalEntry \<Rightarrow> bool" where
  "harmless env e \<longleftrightarrow> \<not> is_authority_entry e \<or> (\<exists>d. decode_decision env e = Some d \<and> ead_granted_capabilities d = [])"

lemma revoked_snoc: "revoked env x es \<Longrightarrow> harmless env e \<Longrightarrow> revoked env x (es @ [e])"
  by (auto simp: revoked_def harmless_def ext_log_def)

lemma revoked_denies: "revoked env (eer_extension_id x) es \<Longrightarrow> \<not> permits env x es d"
  by (auto simp: revoked_def permits_def current_authorization_def split: if_splits)

text \<open>A request that is not an approval adds nothing that grants anything.\<close>

lemma decision_outcome_harmless:
  assumes rt: "codec_roundtrip (ae_decision env)" and wf: "journal_wf j"
    and out: "journal_outcome env now (ae_decision env) d
      (\<lambda>payload. extension_entry x ty (ead_receipt_id d) prev phase gen payload digest actor key) reply j = (r, j')"
    and none: "ead_granted_capabilities d = []"
  shows "journal_wf j' \<and> (journal_log j' = journal_log j \<or> (\<exists>e. journal_log j' = journal_log j @ [e] \<and> carries env e x ty d \<and> harmless env e))"
  using wf out
proof (cases rule: journal_outcome_cases [where v = reply])
  case (written payload e)
  then show ?thesis using same_content_carries(1) [OF rt written(1,3)] none by (auto simp: harmless_def carries_def)
qed auto

lemma admit_harmless:
  assumes rt: "codec_roundtrip (ae_decision env)" and wf: "journal_wf j" and out: "admit_extension env now q extension j = (r, j')"
  shows "journal_wf j' \<and> (journal_log j' = journal_log j \<or> (\<exists>e. journal_log j' = journal_log j @ [e] \<and> harmless env e))"
proof (cases "\<exists>material. admission_request_validate extension = Inr () \<and> admission_material env extension (nq_principal_id q) = Inr material")
  case True
  then obtain material where v: "admission_request_validate extension = Inr ()"
      "admission_material env extension (nq_principal_id q) = Inr material" by blast
  have "ead_granted_capabilities (admission_decision extension (receipt_id env ''admission-'' material)) = []"
    by (simp add: admission_decision_def)
  from decision_outcome_harmless [OF rt wf out [unfolded admit_extension_def v sum.case Let_def] this] show ?thesis by blast
next
  case False
  then have "j' = j" using out unfolding admit_extension_def by (auto split: sum.splits)
  with wf show ?thesis by simp
qed

lemma execution_harmless:
  assumes wf: "journal_wf j" and out: "authorize_extension_execution env now q x j = (r, j')"
  shows "journal_wf j' \<and> (journal_log j' = journal_log j \<or> (\<exists>e. journal_log j' = journal_log j @ [e] \<and> harmless env e))"
proof -
  have "journal_wf j' \<and> (journal_log j' = journal_log j \<or> (\<exists>e. journal_log j' = journal_log j @ [e] \<and> harmless env e))"
    if rec: "record_permit env now q x j = (r, j')"
  proof (cases "execution_material env q x")
    case (Inl e)
    then show ?thesis using rec wf by (auto simp: record_permit_def)
  next
    case (Inr material)
    from wf rec [unfolded record_permit_def Inr sum.case Let_def] show ?thesis
    proof (cases rule: journal_outcome_cases [where v = JNull])
      case (written payload e)
      then have "je_object_type e = ''ExtensionExecutionPermit''" by (simp add: same_content_def extension_entry_def)
      then have "harmless env e" by (simp add: harmless_def is_authority_entry_def)
      with written show ?thesis by blast
    qed auto
  qed
  with execution_cases [OF wf out] wf show ?thesis by auto
qed

lemma revoke_harmless:
  assumes rt: "codec_roundtrip (ae_decision env)" and wf: "journal_wf j" and out: "revoke_extension env now q v j = (r, j')"
  shows "journal_wf j' \<and> (journal_log j' = journal_log j \<or>
    (\<exists>e d. journal_log j' = journal_log j @ [e] \<and> carries env e (err_extension_id v) ''ExtensionRevocationDecision'' d \<and>
       ead_granted_capabilities d = [] \<and> harmless env e))"
  using revoke_cases [OF wf out]
proof
  assume "\<exists>prior. record_revocation env now q v prior j = (r, j')"
  then obtain prior where rec: "record_revocation env now q v prior j = (r, j')" by blast
  show ?thesis
  proof (cases "revocation_material env q v")
    case (Inl e)
    then show ?thesis using rec wf by (auto simp: record_revocation_def)
  next
    case (Inr material)
    have none: "ead_granted_capabilities (revocation_decision v prior (receipt_id env ''revocation-'' material)) = []"
      by (simp add: revocation_decision_def)
    from decision_outcome_harmless [OF rt wf rec [unfolded record_revocation_def Inr sum.case Let_def] none] none
    show ?thesis by blast
  qed
qed (use wf in simp)

fun approves :: "authority_op \<Rightarrow> bool" where
  "approves (AO_Request now q) = (nq_method q = ''AuthorizeExtension'')"
| "approves (AO_Entry now e) = False"

lemma op_harmless:
  assumes rt: "codec_roundtrip (ae_decision env)" and wf: "journal_wf j" and op: "foreign_op op" "\<not> approves op"
  shows "journal_wf (authority_do env j op) \<and> (journal_log (authority_do env j op) = journal_log j \<or>
    (\<exists>e. journal_log (authority_do env j op) = journal_log j @ [e] \<and> harmless env e))"
proof (cases op)
  case (AO_Request now q)
  obtain r j' where out: "extension_dispatch env now q j = (r, j')" by fastforce
  have "journal_wf j' \<and> (journal_log j' = journal_log j \<or> (\<exists>e. journal_log j' = journal_log j @ [e] \<and> harmless env e))"
    using dispatch_cases [OF out] op(2) AO_Request admit_harmless [OF rt wf] execution_harmless [OF wf] revoke_harmless [OF rt wf] wf
    by simp blast
  then show ?thesis by (simp add: AO_Request out)
next
  case (AO_Entry now e)
  obtain r j' where ap: "journal_append (ae_journal env) now e j = (r, j')" by fastforce
  have wf': "journal_wf j'" using jl.inv_append [OF wf, of "ae_journal env" now e] ap by simp
  from wf ap have "journal_log j' = journal_log j \<or> (\<exists>e. journal_log j' = journal_log j @ [e] \<and> harmless env e)"
  proof (cases rule: jl.append_cases)
    case (new x)
    then have "je_object_type x \<notin> set extension_types" using op(1) AO_Entry by (simp add: same_content_def)
    then have "harmless env x" by (auto simp: harmless_def is_authority_entry_def extension_types_def)
    with new show ?thesis by blast
  qed auto
  with wf' show ?thesis by (simp add: AO_Entry ap)
qed

lemma run_revoked:
  assumes "codec_roundtrip (ae_decision env)" "journal_wf j" "revoked env x (journal_log j)"
    and "list_all (\<lambda>op. foreign_op op \<and> \<not> approves op) ops"
  shows "journal_wf (authority_run env ops j) \<and> revoked env x (journal_log (authority_run env ops j))"
  using assms(2-)
proof (induction ops arbitrary: j)
  case (Cons op ops)
  have "journal_wf (authority_do env j op) \<and> revoked env x (journal_log (authority_do env j op))"
    using op_harmless [OF assms(1) Cons.prems(1), of op] Cons.prems(2,3) revoked_snoc by auto
  with Cons show ?case by (simp add: authority_run_def)
qed (simp add: authority_run_def)

text \<open>C18.  A revocation ends the authority: once a revocation is journaled, and until another approval is requested, no
  execution of the extension is permitted, whatever receipt, capability or idempotency key the request carries and
  whatever else happens in between.\<close>

theorem revocation_ends_authority:
  assumes "codec_roundtrip (ae_decision env)" "journal_wf j"
    and "revoke_extension env now q v j = (r, j1)" "journal_log j1 \<noteq> journal_log j"
    and "list_all (\<lambda>op. foreign_op op \<and> \<not> approves op) ops" "eer_extension_id x = err_extension_id v"
  shows "fst (authorize_extension_execution env now' q' x (authority_run env ops j1)) \<noteq> Inr (NKI_Success reply)"
proof -
  obtain e d where e: "journal_wf j1" "journal_log j1 = journal_log j @ [e]"
      "carries env e (err_extension_id v) ''ExtensionRevocationDecision'' d" "ead_granted_capabilities d = []"
    using revoke_harmless [OF assms(1-3)] assms(4) by blast
  have "revoked env (err_extension_id v) (journal_log j1)"
    using e(2-4) by (auto simp: revoked_def ext_log_def carries_def is_authority_entry_def)
  from run_revoked [OF assms(1) e(1) this assms(5)]
  have ok: "journal_wf (authority_run env ops j1)" "revoked env (eer_extension_id x) (journal_log (authority_run env ops j1))"
    by (simp_all add: assms(6))
  obtain r' j' where out: "authorize_extension_execution env now' q' x (authority_run env ops j1) = (r', j')" by fastforce
  from execution_cases [OF ok(1) out] revoked_denies [OF ok(2)] show ?thesis by (auto simp: out)
qed

section \<open>Approved executions, and repeated keys\<close>

lemma journal_outcome_reply:
  assumes wf: "journal_wf j" and enc: "enc c x = Inr payload"
    and storage: "jn_faults j = []" "jn_next_sequence j \<le> i64_max" "je_generation (entry payload) \<le> i64_max"
  shows "\<exists>j'. journal_outcome env now c x entry reply j = (Inr (NKI_Success reply), j')"
proof -
  obtain res j' where ap: "journal_append (ae_journal env) now (entry payload) j = (res, j')" by fastforce
  obtain n where "res = Inr n" using journal_append_succeeds [OF ap storage wf] by blast
  then show ?thesis using ap enc by (simp add: journal_outcome_def)
qed

lemma journal_outcome_replay:
  assumes wf: "journal_wf j" and enc: "enc c x = Inr payload"
    and key: "je_idempotency_key (entry payload) = Some k" "has_key (journal_log j) k"
  shows "journal_outcome env now c x entry reply j = (Inr (NKI_Success reply), j)"
proof -
  obtain y :: JournalEntry where "journal_append (ae_journal env) now (entry payload) j = (Inr (je_sequence y), j)"
    using jl.append_replay [OF wf key, where env = "ae_journal env" and t = now] by blast
  with enc show ?thesis by (simp add: journal_outcome_def)
qed

lemma authorize_extension_execution_permits:
  assumes wf: "journal_wf j" and p: "permits env x (journal_log j) d"
  shows "authorize_extension_execution env now q x j = record_permit env now q x j"
  using p unfolding authorize_extension_execution_def read_extension [OF wf] permits_def by simp

text \<open>The approval that an authorization records.\<close>

lemma authorize_written:
  assumes rt: "codec_roundtrip (ae_decision env)" and wf: "journal_wf j"
    and out: "authorize_extension env now q a j = (r, j1)" and w: "journal_log j1 \<noteq> journal_log j"
  shows "\<exists>e prior receipt. journal_wf j1 \<and> journal_log j1 = journal_log j @ [e] \<and>
    carries env e (ear_extension_id (eau_admission a)) ''ExtensionAuthorizationDecision'' (authorization_decision a prior receipt)"
proof -
  have "j1 \<noteq> j" using w by blast
  then obtain prior where rec: "record_authorization env now q a prior j = (r, j1)" using authorize_cases [OF wf out] by blast
  show ?thesis
  proof (cases "authorization_material env a")
    case (Inl e)
    then show ?thesis using rec w by (auto simp: record_authorization_def)
  next
    case (Inr material)
    from wf rec [unfolded record_authorization_def Inr sum.case Let_def] show ?thesis
    proof (cases rule: journal_outcome_cases [where v = JNull])
      case (written payload e)
      then show ?thesis using same_content_carries(1) [OF rt written(1,3)] by blast
    qed (use w in auto)
  qed
qed

text \<open>C31.  What was approved is permitted: right after an approval is journaled, a valid request for one of the approved
  capabilities that carries the receipt, the extension and the content digest of the approval, and stays inside the
  scope and the executor of the decision, is answered with a permit, when the storage works and the permit encodes.\<close>

theorem approved_execution_is_permitted:
  assumes "codec_roundtrip (ae_decision env)" "journal_wf j"
    and "authorize_extension env now q a j = (r, j1)" "journal_log j1 \<noteq> journal_log j"
    and "execution_request_validate x = Inr ()" "eer_capability x \<in> set (eau_approved_capabilities a)"
    and "eer_extension_id x = ear_extension_id (eau_admission a)" "eer_content_digest x = ear_content_digest (eau_admission a)"
    and "decode_decision env (last (journal_log j1)) = Some d" "eer_authorization_receipt_id x = ead_receipt_id d"
    and "within_authorization d x"
    and "execution_material env q' x = Inr material" "jn_faults j1 = []" "jn_next_sequence j1 \<le> i64_max"
    and "enc (ae_permit env) (execution_permit q' now' x (receipt_id env ''extension-permit-'' material)) = Inr payload"
  shows "fst (authorize_extension_execution env now' q' x j1) =
    Inr (NKI_Success (ae_permit_json env (execution_permit q' now' x (receipt_id env ''extension-permit-'' material))))"
proof -
  obtain e prior receipt where e: "journal_wf j1" "journal_log j1 = journal_log j @ [e]"
      "carries env e (ear_extension_id (eau_admission a)) ''ExtensionAuthorizationDecision'' (authorization_decision a prior receipt)"
    using authorize_written [OF assms(1-4)] by blast
  have d: "d = authorization_decision a prior receipt" using e(2,3) assms(9) by (simp add: carries_def)
  have "find_last is_authority_entry (ext_log (eer_extension_id x) (journal_log j1)) = Some e"
    using e(2,3) assms(7) by (simp add: ext_log_def carries_def is_authority_entry_def)
  then have "current_authorization env (eer_authorization_receipt_id x) (ext_log (eer_extension_id x) (journal_log j1)) = Some d"
    using e(3) assms(10) d by (simp add: current_authorization_def carries_def)
  then have "permits env x (journal_log j1) d"
    unfolding permits_def using assms(5-8,11) d by (simp add: authorization_decision_def)
  note eq = authorize_extension_execution_permits [OF e(1) this]
  have "je_generation (extension_entry x1 x2 x3 x4 x5 3 x7 x8 x9 x10) \<le> i64_max" for x1 x2 x3 x4 x5 x7 x8 x9 x10
    by (simp add: extension_entry_def i64_max_def)
  then show ?thesis
    unfolding eq record_permit_def assms(12) sum.case Let_def
    using journal_outcome_reply [where c = "ae_permit env", OF e(1) assms(15,13,14)] by (metis fst_conv)
qed

text \<open>A repeated idempotency key yields a permit that is not journaled: an execution that the current approval
  covers is permitted, whatever its operation and its parameters are, also when its key was already used for another
  execution; the journal is then left as it was.\<close>

theorem repeated_key_permit_is_not_recorded:
  assumes "journal_wf j" "permits env x (journal_log j) d" "has_key (journal_log j) (execution_key q x)"
    and "execution_material env q x = Inr material"
    and "enc (ae_permit env) (execution_permit q now x (receipt_id env ''extension-permit-'' material)) = Inr payload"
  shows "authorize_extension_execution env now q x j =
    (Inr (NKI_Success (ae_permit_json env (execution_permit q now x (receipt_id env ''extension-permit-'' material)))), j)"
  unfolding authorize_extension_execution_permits [OF assms(1,2)] record_permit_def assms(4) sum.case Let_def
  by (rule journal_outcome_replay [OF assms(1,5) _ assms(3)]) (simp add: extension_entry_def)

section \<open>An extension\<close>

definition demo_hash :: string where
  "demo_hash = ''sha256:'' @ replicate 64 (CHR ''a'')"

definition demo_extension :: ExtensionAdmissionRequest where
  "demo_extension =
     \<lparr>ear_schema_version = 1, ear_extension_id = ''x'', ear_version = ''1'', ear_content_digest = demo_hash,
      ear_source_format = ''skill'', ear_compatibility_level = 2, ear_kinds = [''skill''],
      ear_capability_requests = [\<lparr>ecr_capability = ''fs.read'', ecr_access = ''read'', ecr_scope = [''guide''],
        ecr_reason = [], ecr_required = True\<rparr>],
      ear_executor = [],
      ear_metadata = [''authority'' \<mapsto> ''none'', ''supply_chain_verified'' \<mapsto> ''true'', ''normalized_ir_digest'' \<mapsto> demo_hash,
        ''sbom_digest'' \<mapsto> demo_hash, ''provenance_digest'' \<mapsto> demo_hash, ''signature_digest'' \<mapsto> demo_hash,
        ''signature_status'' \<mapsto> ''Unsigned'']\<rparr>"

definition demo_approval :: ExtensionAuthorizationRequest where
  "demo_approval =
     \<lparr>eau_admission = demo_extension, eau_admission_receipt_id = ''admission-extension'', eau_approval_id = ''ok'',
      eau_approved_capabilities = [''fs.read'']\<rparr>"

definition demo_execution :: "string \<Rightarrow> ExtensionExecutionRequest" where
  "demo_execution operation =
     \<lparr>eer_schema_version = 1, eer_operation_id = ''o'', eer_extension_id = ''x'', eer_content_digest = demo_hash,
      eer_authorization_receipt_id = ''authorization-admission_receipt'', eer_capability = ''fs.read'', eer_operation = operation,
      eer_parameter_hash = demo_hash, eer_executor = [], eer_scope = [''guide'']\<rparr>"

definition demo_revocation :: ExtensionRevocationRequest where
  "demo_revocation =
     \<lparr>err_schema_version = 1, err_extension_id = ''x'', err_content_digest = demo_hash,
      err_authorization_receipt_id = ''authorization-admission_receipt'', err_reason = []\<rparr>"

text \<open>Receipts that name their material, and a codec for the three decisions of this history.\<close>

definition demo_material :: "json codec" where
  "demo_material = \<lparr>enc = (\<lambda>v. case v of JObject ((k, w) # m) \<Rightarrow> Inr k | _ \<Rightarrow> Inl []), dec = (\<lambda>b. Inl [])\<rparr>"

definition demo_admitted :: ExtensionAdmissionDecision where
  "demo_admitted = admission_decision demo_extension ''admission-extension''"

definition demo_approved :: ExtensionAdmissionDecision where
  "demo_approved = authorization_decision demo_approval demo_admitted ''authorization-admission_receipt''"

definition demo_revoked :: ExtensionAdmissionDecision where
  "demo_revoked = revocation_decision demo_revocation demo_approved ''revocation-authorization_receipt''"

definition demo_decision :: "ExtensionAdmissionDecision codec" where
  "demo_decision =
     \<lparr>enc = (\<lambda>d. if d = demo_admitted then Inr ''1'' else if d = demo_approved then Inr ''2''
        else if d = demo_revoked then Inr ''3'' else Inl []),
      dec = (\<lambda>b. if b = ''1'' then Inr demo_admitted else if b = ''2'' then Inr demo_approved
        else if b = ''3'' then Inr demo_revoked else Inl [])\<rparr>"

definition unread :: "'a codec" where
  "unread = \<lparr>enc = (\<lambda>v. Inr []), dec = (\<lambda>b. Inl [])\<rparr>"

definition demo_authority :: authority_env where
  "demo_authority =
     \<lparr>ae_journal = demo_env, ae_digest = (\<lambda>m. m), ae_json = demo_material, ae_admission_json = (\<lambda>e. JNull),
      ae_execution_json = (\<lambda>e. JNull), ae_decision_json = (\<lambda>d. JString (ead_receipt_id d)),
      ae_permit_json = (\<lambda>p. JString (eep_operation p)), ae_decision = demo_decision, ae_permit = unread,
      ae_admission_request = unread\<lparr>dec := (\<lambda>b. Inr demo_extension)\<rparr>,
      ae_authorization_request = unread\<lparr>dec := (\<lambda>b. Inr demo_approval)\<rparr>,
      ae_execution_request = unread\<lparr>dec := (\<lambda>b. Inr (demo_execution ''op''))\<rparr>,
      ae_revocation_request = unread\<rparr>"

lemma demo_decision_roundtrip: "codec_roundtrip (ae_decision demo_authority)"
  by (auto simp: codec_roundtrip_def demo_authority_def demo_decision_def split: if_splits)

lemma demo_hash_valid: "valid_digest demo_hash"
  by (simp add: valid_digest_def demo_hash_def starts_with_def list_all_iff is_ascii_hexdigit_def is_ascii_uppercase_def)

lemma demo_extension_fields:
  "ear_schema_version demo_extension = 1" "ear_extension_id demo_extension = ''x''" "ear_version demo_extension = ''1''"
  "ear_content_digest demo_extension = demo_hash" "ear_source_format demo_extension = ''skill''"
  "ear_compatibility_level demo_extension = 2" "ear_kinds demo_extension = [''skill'']" "ear_executor demo_extension = []"
  "ear_capability_requests demo_extension =
     [\<lparr>ecr_capability = ''fs.read'', ecr_access = ''read'', ecr_scope = [''guide''], ecr_reason = [], ecr_required = True\<rparr>]"
  by (simp_all add: demo_extension_def)

lemma demo_extension_metadata:
  "ear_metadata demo_extension ''authority'' = Some ''none''" "ear_metadata demo_extension ''supply_chain_verified'' = Some ''true''"
  "ear_metadata demo_extension ''normalized_ir_digest'' = Some demo_hash" "ear_metadata demo_extension ''sbom_digest'' = Some demo_hash"
  "ear_metadata demo_extension ''provenance_digest'' = Some demo_hash" "ear_metadata demo_extension ''signature_digest'' = Some demo_hash"
  "ear_metadata demo_extension ''signature_status'' = Some ''Unsigned''"
  by (simp_all add: demo_extension_def)

lemma demo_extension_names: "capability_name ''fs.read''" "trim ''x'' \<noteq> []" "trim ''1'' \<noteq> []" "trim ''skill'' \<noteq> []" "trim ''o'' \<noteq> []"
  "trim ''admission-extension'' \<noteq> []" "trim ''ok'' \<noteq> []" "trim ''authorization-admission_receipt'' \<noteq> []"
  by (simp_all add: capability_name_def name_segment_def is_ascii_lowercase_def trim_def is_ws_def)

lemma demo_request_valid:
  "capability_request_validate \<lparr>ecr_capability = ''fs.read'', ecr_access = ''read'', ecr_scope = [''guide''], ecr_reason = [], ecr_required = True\<rparr> = Inr ()"
  unfolding capability_request_validate_def by (simp add: contract_check_def demo_extension_names scope_ok_def)

lemmas demo_checks = contract_schema_def OPEN_RUNTIME_SCHEMA_VERSION_def contract_required_def contract_check_def demo_extension_names demo_hash_valid

lemma demo_valid:
  "admission_request_validate demo_extension = Inr ()" "authorization_request_validate demo_approval = Inr ()"
  "trim operation \<noteq> [] \<Longrightarrow> execution_request_validate (demo_execution operation) = Inr ()"
  "revocation_request_validate demo_revocation = Inr ()"
proof -
  show v: "admission_request_validate demo_extension = Inr ()"
    unfolding admission_request_validate_def demo_extension_fields
    by (simp add: demo_checks demo_extension_metadata demo_request_valid supply_chain_check_def allowed_kinds_def)
  show "authorization_request_validate demo_approval = Inr ()"
    unfolding authorization_request_validate_def
    by (simp add: demo_checks v demo_approval_def requested_capabilities_def demo_extension_fields)
  show "execution_request_validate (demo_execution operation) = Inr ()" if "trim operation \<noteq> []"
    unfolding execution_request_validate_def demo_execution_def by (simp add: demo_checks scope_ok_def that)
  show "revocation_request_validate demo_revocation = Inr ()"
    unfolding revocation_request_validate_def demo_revocation_def by (simp add: demo_checks)
qed

text \<open>A handler that journals under a new key.\<close>

lemma journal_outcome_new:
  assumes wf: "journal_wf j" and enc: "enc c x = Inr payload"
    and storage: "jn_faults j = []" "jn_next_sequence j + n \<le> i64_max" "0 < n" "je_generation (entry payload) \<le> i64_max"
    and key: "je_idempotency_key (entry payload) = Some k" "\<not> has_key (journal_log j) k"
  shows "\<exists>e j'. journal_outcome env now c x entry reply j = (Inr (NKI_Success reply), j') \<and> journal_log j' = journal_log j @ [e] \<and>
    same_content e (entry payload) \<and> journal_wf j' \<and> jn_faults j' = [] \<and> jn_next_sequence j' + (n - 1) \<le> i64_max"
proof -
  obtain res j' where ap: "journal_append (ae_journal env) now (entry payload) j = (res, j')" by fastforce
  have "jn_next_sequence j \<le> i64_max" using storage(2) by simp
  with journal_append_succeeds [OF ap storage(1) _ storage(4) wf] obtain m where m: "res = Inr m" by blast
  have fr: "jn_faults j' = []" "jn_next_sequence j' \<le> jn_next_sequence j + 1"
    using journal_append_frame [OF storage(1), of "ae_journal env" now "entry payload"] ap by simp_all
  have fresh: "\<not> has_key (journal_log j) l" if "je_idempotency_key (entry payload) = Some l" for l using that key by simp
  obtain e where "journal_log j' = journal_log j @ [e]" "same_content e (entry payload)"
    using jl.append_new [OF wf fresh ap [unfolded m]] by blast
  moreover have "journal_wf j'" using jl.inv_append [OF wf, of "ae_journal env" now "entry payload"] ap by simp
  moreover have "journal_outcome env now c x entry reply j = (Inr (NKI_Success reply), j')" using ap m enc by (simp add: journal_outcome_def)
  ultimately show ?thesis using fr storage(2,3) by auto
qed

text \<open>What the journal holds after the admission, after the approval, after a permit and after the revocation.\<close>

definition demo_holds :: "Journal \<Rightarrow> JournalEntry list \<Rightarrow> nat \<Rightarrow> bool" where
  "demo_holds j es n \<longleftrightarrow> journal_wf j \<and> journal_log j = es \<and> jn_faults j = [] \<and> jn_next_sequence j + n \<le> i64_max"

lemma demo_codes:
  "enc demo_decision demo_admitted = Inr ''1''" "enc demo_decision demo_approved = Inr ''2''" "enc demo_decision demo_revoked = Inr ''3''"
  "dec demo_decision ''1'' = Inr demo_admitted" "dec demo_decision ''2'' = Inr demo_approved"
proof -
  have "ead_policy_version demo_admitted = ''extension-admission-v1''" "ead_policy_version demo_approved = ''extension-authorization-v1''"
      "ead_policy_version demo_revoked = ''extension-revocation-v1''"
    by (simp_all add: demo_admitted_def demo_approved_def demo_revoked_def admission_decision_def authorization_decision_def
        revocation_decision_def)
  then have "demo_approved \<noteq> demo_admitted" "demo_revoked \<noteq> demo_admitted" "demo_revoked \<noteq> demo_approved" by auto
  then show "enc demo_decision demo_admitted = Inr ''1''" "enc demo_decision demo_approved = Inr ''2''" "enc demo_decision demo_revoked = Inr ''3''"
      "dec demo_decision ''1'' = Inr demo_admitted" "dec demo_decision ''2'' = Inr demo_approved"
    by (simp_all add: demo_decision_def)
qed

lemma demo_env_fields:
  "ae_decision demo_authority = demo_decision" "ae_permit demo_authority = unread" "ae_digest demo_authority = (\<lambda>m. m)"
  "ae_json demo_authority = demo_material" "ae_decision_json demo_authority d = JString (ead_receipt_id d)"
  "ae_permit_json demo_authority p = JString (eep_operation p)"
  by (simp_all add: demo_authority_def)

lemma demo_materials:
  "admission_material demo_authority e actor = Inr ''extension''" "authorization_material demo_authority a = Inr ''admission_receipt''"
  "execution_material demo_authority q x = Inr ''execution''" "revocation_material demo_authority q v = Inr ''authorization_receipt''"
  by (simp_all add: admission_material_def authorization_material_def execution_material_def revocation_material_def
      demo_env_fields demo_material_def)

lemma demo_receipts:
  "receipt_id demo_authority ''admission-'' ''extension'' = ''admission-extension''"
  "receipt_id demo_authority ''authorization-'' ''admission_receipt'' = ''authorization-admission_receipt''"
  "receipt_id demo_authority ''revocation-'' ''authorization_receipt'' = ''revocation-authorization_receipt''"
  by (simp_all add: receipt_id_def demo_env_fields)

lemma demo_holds_step:
  assumes "demo_holds j es (Suc n)" "enc c x = Inr payload" "je_generation (entry payload) \<le> i64_max"
    and "je_idempotency_key (entry payload) = Some k" "\<not> has_key es k"
  shows "\<exists>e j'. journal_outcome demo_authority now c x entry reply j = (Inr (NKI_Success reply), j') \<and> demo_holds j' (es @ [e]) n \<and>
    same_content e (entry payload)"
  using journal_outcome_new [of j c x payload "Suc n" entry k demo_authority now reply] assms unfolding demo_holds_def by auto

lemma demo_fresh: "demo_holds (fresh_journal []) [] 9"
  using fresh_journal_ok [of demo_authority "[]"]
  by (simp add: demo_holds_def protocol_ok_def fresh_journal_def journal_open_in_memory_def i64_max_def journal_log_def map_filter_def)

lemma demo_admission:
  "\<exists>e1 j1. admit_extension demo_authority 1 demo_request demo_extension (fresh_journal []) = (Inr (NKI_Success (JString ''admission-extension'')), j1) \<and>
     demo_holds j1 [e1] 8 \<and> carries demo_authority e1 ''x'' ''ExtensionAdmissionDecision'' demo_admitted \<and>
     je_idempotency_key e1 = Some (extension_key ''x'' demo_hash ''admit'' ''k'')"
proof -
  let ?entry = "\<lambda>payload. extension_entry (ear_extension_id demo_extension) ''ExtensionAdmissionDecision'' (ead_receipt_id demo_admitted) None
    (if ead_approval_required demo_admitted then ''APPROVAL_REQUIRED'' else ''ADMITTED'') 1 payload (ear_content_digest demo_extension)
    (nq_principal_id demo_request)
    (extension_key (ear_extension_id demo_extension) (ear_content_digest demo_extension) ''admit'' (nq_idempotency_key demo_request))"
  have "\<exists>e1 j1. journal_outcome demo_authority 1 demo_decision demo_admitted ?entry (JString (ead_receipt_id demo_admitted)) (fresh_journal []) =
      (Inr (NKI_Success (JString (ead_receipt_id demo_admitted))), j1) \<and> demo_holds j1 ([] @ [e1]) 8 \<and> same_content e1 (?entry ''1'')"
    by (rule demo_holds_step [OF _ demo_codes(1)]) (use demo_fresh in \<open>simp_all add: extension_entry_def i64_max_def has_key_def\<close>)
  then obtain e1 j1 where o: "journal_outcome demo_authority 1 demo_decision demo_admitted ?entry (JString (ead_receipt_id demo_admitted)) (fresh_journal []) =
      (Inr (NKI_Success (JString (ead_receipt_id demo_admitted))), j1)" "demo_holds j1 ([] @ [e1]) 8" "same_content e1 (?entry ''1'')" by blast
  have "admit_extension demo_authority 1 demo_request demo_extension (fresh_journal []) = (Inr (NKI_Success (JString ''admission-extension'')), j1)"
    using o(1) unfolding admit_extension_def demo_valid demo_materials demo_receipts demo_env_fields sum.case Let_def demo_admitted_def
    by (simp add: admission_decision_def)
  moreover have "carries demo_authority e1 ''x'' ''ExtensionAdmissionDecision'' demo_admitted"
    using same_content_carries(1) [OF demo_decision_roundtrip, unfolded demo_env_fields, OF demo_codes(1) o(3)] by (simp add: demo_extension_fields)
  moreover have "je_idempotency_key e1 = Some (extension_key ''x'' demo_hash ''admit'' ''k'')"
    using o(3) by (simp add: same_content_def extension_entry_def demo_extension_fields demo_request_def)
  ultimately show ?thesis using o(2) by simp blast
qed

lemma demo_approval_step:
  assumes j1: "demo_holds j1 [e1] 8" "carries demo_authority e1 ''x'' ''ExtensionAdmissionDecision'' demo_admitted"
    and k1: "je_idempotency_key e1 = Some (extension_key ''x'' demo_hash ''admit'' ''k'')"
  shows "\<exists>e2 j2. authorize_extension demo_authority 2 demo_request demo_approval j1 =
      (Inr (NKI_Success (JString ''authorization-admission_receipt'')), j2) \<and> demo_holds j2 [e1, e2] 7 \<and>
    carries demo_authority e2 ''x'' ''ExtensionAuthorizationDecision'' demo_approved \<and>
    je_idempotency_key e2 = Some (extension_key ''x'' demo_hash ''authorize'' ''ok'')"
proof -
  let ?entry = "\<lambda>payload. extension_entry (ear_extension_id (eau_admission demo_approval)) ''ExtensionAuthorizationDecision''
    (ead_receipt_id demo_approved) (Some ''APPROVAL_REQUIRED'')
    (if ead_approval_required demo_approved then ''PARTIALLY_AUTHORIZED'' else ''AUTHORIZED'') 2 payload
    (ear_content_digest (eau_admission demo_approval)) (nq_principal_id demo_request) (authorization_key demo_approval)"
  have fields: "eau_admission demo_approval = demo_extension" "eau_admission_receipt_id demo_approval = ''admission-extension''"
      "eau_approval_id demo_approval = ''ok''" by (simp_all add: demo_approval_def)
  have "\<exists>e2 j2. journal_outcome demo_authority 2 demo_decision demo_approved ?entry (JString (ead_receipt_id demo_approved)) j1 =
      (Inr (NKI_Success (JString (ead_receipt_id demo_approved))), j2) \<and> demo_holds j2 ([e1] @ [e2]) 7 \<and> same_content e2 (?entry ''2'')"
    by (rule demo_holds_step [OF _ demo_codes(2)])
       (use j1(1) k1 in \<open>auto simp: extension_entry_def i64_max_def has_key_def authorization_key_def extension_key_def fields demo_extension_fields\<close>)
  then obtain e2 j2 where o: "journal_outcome demo_authority 2 demo_decision demo_approved ?entry (JString (ead_receipt_id demo_approved)) j1 =
      (Inr (NKI_Success (JString (ead_receipt_id demo_approved))), j2)" "demo_holds j2 ([e1] @ [e2]) 7" "same_content e2 (?entry ''2'')" by blast
  have "find_last (\<lambda>e. je_entry_type e = ET_Commit \<and> je_object_type e = ''ExtensionAdmissionDecision'' \<and>
      je_object_id e = eau_admission_receipt_id demo_approval) (ext_log ''x'' [e1]) = Some e1"
    using j1(2) by (simp add: carries_def ext_log_def find_last_def fields demo_admitted_def admission_decision_def)
  then have prior: "prior_admission demo_authority demo_approval (ext_log ''x'' [e1]) = Some demo_admitted"
    using j1(2) unfolding prior_admission_def by (simp add: demo_materials demo_receipts carries_def demo_admitted_def admission_decision_def)
  have wf: "journal_wf j1" "journal_log j1 = [e1]" using j1(1) by (simp_all add: demo_holds_def)
  have ids: "ead_extension_id demo_admitted = ''x''" "ead_normalized_digest demo_admitted = demo_hash"
      "ead_receipt_id demo_approved = ''authorization-admission_receipt''"
    by (simp_all add: demo_admitted_def demo_approved_def admission_decision_def authorization_decision_def demo_extension_fields)
  have "authorize_extension demo_authority 2 demo_request demo_approval j1 = record_authorization demo_authority 2 demo_request demo_approval demo_admitted j1"
    unfolding authorize_extension_def demo_valid read_extension [OF wf(1)] wf(2) fields demo_extension_fields prior sum.case option.case ids by simp
  also have "\<dots> = (Inr (NKI_Success (JString ''authorization-admission_receipt'')), j2)"
    using o(1) unfolding record_authorization_def demo_materials demo_receipts demo_env_fields sum.case Let_def demo_approved_def [symmetric] ids .
  finally have "authorize_extension demo_authority 2 demo_request demo_approval j1 = (Inr (NKI_Success (JString ''authorization-admission_receipt'')), j2)" .
  moreover have "carries demo_authority e2 ''x'' ''ExtensionAuthorizationDecision'' demo_approved"
    using same_content_carries(1) [OF demo_decision_roundtrip, unfolded demo_env_fields, OF demo_codes(2) o(3)] by (simp add: fields demo_extension_fields)
  moreover have "je_idempotency_key e2 = Some (extension_key ''x'' demo_hash ''authorize'' ''ok'')"
    using o(3) by (simp add: same_content_def extension_entry_def authorization_key_def fields demo_extension_fields)
  ultimately show ?thesis using o(2) by simp blast
qed

lemma demo_revocation_step:
  assumes j2: "demo_holds j2 [e1, e2] 7" "carries demo_authority e2 ''x'' ''ExtensionAuthorizationDecision'' demo_approved"
    and k: "je_idempotency_key e1 = Some (extension_key ''x'' demo_hash ''admit'' ''k'')"
      "je_idempotency_key e2 = Some (extension_key ''x'' demo_hash ''authorize'' ''ok'')"
    and e1: "carries demo_authority e1 ''x'' ''ExtensionAdmissionDecision'' demo_admitted"
  shows "\<exists>e3 j3. revoke_extension demo_authority 3 demo_request demo_revocation j2 =
      (Inr (NKI_Success (JString ''revocation-authorization_receipt'')), j3) \<and> demo_holds j3 [e1, e2, e3] 6"
proof -
  let ?entry = "\<lambda>payload. extension_entry (err_extension_id demo_revocation) ''ExtensionRevocationDecision''
    (ead_receipt_id demo_revoked) (Some ''AUTHORIZED'') ''REVOKED'' 4 payload (err_content_digest demo_revocation)
    (nq_principal_id demo_request) (revocation_key demo_request demo_revocation)"
  have fields: "err_extension_id demo_revocation = ''x''" "err_content_digest demo_revocation = demo_hash"
      "err_authorization_receipt_id demo_revocation = ''authorization-admission_receipt''" "nq_idempotency_key demo_request = ''k''"
    by (simp_all add: demo_revocation_def demo_request_def)
  have "\<exists>e3 j3. journal_outcome demo_authority 3 demo_decision demo_revoked ?entry (JString (ead_receipt_id demo_revoked)) j2 =
      (Inr (NKI_Success (JString (ead_receipt_id demo_revoked))), j3) \<and> demo_holds j3 ([e1, e2] @ [e3]) 6 \<and> same_content e3 (?entry ''3'')"
    by (rule demo_holds_step [OF _ demo_codes(3)])
       (use j2(1) k in \<open>auto simp: extension_entry_def i64_max_def has_key_def revocation_key_def extension_key_def fields\<close>)
  then obtain e3 j3 where o: "journal_outcome demo_authority 3 demo_decision demo_revoked ?entry (JString (ead_receipt_id demo_revoked)) j2 =
      (Inr (NKI_Success (JString (ead_receipt_id demo_revoked))), j3)" "demo_holds j3 ([e1, e2] @ [e3]) 6" by blast
  have wf: "journal_wf j2" "journal_log j2 = [e1, e2]" using j2(1) by (simp_all add: demo_holds_def)
  have log: "ext_log ''x'' [e1, e2] = [e1, e2]" using j2(2) e1 by (simp add: ext_log_def carries_def)
  have replay: "revocation_replay key [e1, e2] = None" for key
    using j2(2) e1 by (simp add: revocation_replay_def find_last_def carries_def)
  have prior: "prior_authorization demo_authority ''authorization-admission_receipt'' [e1, e2] = Some demo_approved"
    using j2(2) by (simp add: prior_authorization_def find_last_def is_authority_entry_def carries_def demo_approved_def authorization_decision_def)
  have ids: "ead_extension_id demo_approved = ''x''" "ead_normalized_digest demo_approved = demo_hash"
      "ead_receipt_id demo_revoked = ''revocation-authorization_receipt''"
    by (simp_all add: demo_approved_def demo_revoked_def revocation_decision_def authorization_decision_def demo_approval_def demo_extension_fields)
  have "revoke_extension demo_authority 3 demo_request demo_revocation j2 = record_revocation demo_authority 3 demo_request demo_revocation demo_approved j2"
    unfolding revoke_extension_def demo_valid read_extension [OF wf(1)] wf(2) fields log replay prior sum.case option.case ids by simp
  also have "\<dots> = (Inr (NKI_Success (JString ''revocation-authorization_receipt'')), j3)"
    using o(1) unfolding record_revocation_def demo_materials demo_receipts demo_env_fields sum.case Let_def demo_revoked_def [symmetric] ids .
  finally show ?thesis using o(2) by auto
qed

text \<open>The history as requests.\<close>

definition demo_history :: "authority_op list" where
  "demo_history =
     [AO_Request 1 (demo_request\<lparr>nq_method := ''AdmitExtension''\<rparr>), AO_Request 2 (demo_request\<lparr>nq_method := ''AuthorizeExtension''\<rparr>)]"

lemma demo_run:
  "\<exists>e1 e2. demo_holds (authority_run demo_authority demo_history (fresh_journal [])) [e1, e2] 7 \<and>
     carries demo_authority e1 ''x'' ''ExtensionAdmissionDecision'' demo_admitted \<and>
     carries demo_authority e2 ''x'' ''ExtensionAuthorizationDecision'' demo_approved \<and>
     je_idempotency_key e1 = Some (extension_key ''x'' demo_hash ''admit'' ''k'') \<and>
     je_idempotency_key e2 = Some (extension_key ''x'' demo_hash ''authorize'' ''ok'')"
proof -
  obtain e1 j1 where a: "admit_extension demo_authority 1 demo_request demo_extension (fresh_journal []) = (Inr (NKI_Success (JString ''admission-extension'')), j1)"
      "demo_holds j1 [e1] 8" "carries demo_authority e1 ''x'' ''ExtensionAdmissionDecision'' demo_admitted"
      "je_idempotency_key e1 = Some (extension_key ''x'' demo_hash ''admit'' ''k'')" using demo_admission by blast
  obtain e2 j2 where b: "authorize_extension demo_authority 2 demo_request demo_approval j1 = (Inr (NKI_Success (JString ''authorization-admission_receipt'')), j2)"
      "demo_holds j2 [e1, e2] 7" "carries demo_authority e2 ''x'' ''ExtensionAuthorizationDecision'' demo_approved"
      "je_idempotency_key e2 = Some (extension_key ''x'' demo_hash ''authorize'' ''ok'')" using demo_approval_step [OF a(2-4)] by blast
  have m: "admit_extension env now (q\<lparr>nq_method := m\<rparr>) x j = admit_extension env now q x j" for env now m x j and q :: NKIRequest
    by (simp add: admit_extension_def split: sum.split)
  have r: "record_authorization env now (q\<lparr>nq_method := m\<rparr>) x p j = record_authorization env now q x p j" for env now m x p j and q :: NKIRequest
    by (simp add: record_authorization_def split: sum.split)
  have m': "authorize_extension env now (q\<lparr>nq_method := m\<rparr>) x j = authorize_extension env now q x j" for env now m x j and q :: NKIRequest
    by (simp add: authorize_extension_def r split: sum.split option.split)
  have dec: "dec (ae_admission_request demo_authority) b = Inr demo_extension" "dec (ae_authorization_request demo_authority) b = Inr demo_approval" for b
    by (simp_all add: demo_authority_def)
  have "authority_run demo_authority demo_history (fresh_journal []) = j2"
    using a(1) b(1)
    by (simp add: authority_run_def demo_history_def extension_dispatch_def decode_payload_def dec m m')
  with a b show ?thesis by blast
qed

lemma demo_permits:
  assumes "demo_holds j [e1, e2] 7" "carries demo_authority e2 ''x'' ''ExtensionAuthorizationDecision'' demo_approved" "trim operation \<noteq> []"
  shows "permits demo_authority (demo_execution operation) [e1, e2] demo_approved"
proof -
  have fields: "eer_extension_id (demo_execution operation) = ''x''" "eer_content_digest (demo_execution operation) = demo_hash"
      "eer_authorization_receipt_id (demo_execution operation) = ''authorization-admission_receipt''"
      "eer_capability (demo_execution operation) = ''fs.read''" "eer_scope (demo_execution operation) = [''guide'']"
    by (simp_all add: demo_execution_def)
  have d: "ead_extension_id demo_approved = ''x''" "ead_normalized_digest demo_approved = demo_hash" "ead_granted_capabilities demo_approved = [''fs.read'']"
      "ead_receipt_id demo_approved = ''authorization-admission_receipt''" "ead_scope_constraints demo_approved = [''fs.read'' \<mapsto> [''guide'']]"
      "ead_executor_constraints demo_approved = [''authority'' \<mapsto> ''none'', ''network'' \<mapsto> ''deny_by_default'']"
    by (simp_all add: demo_approved_def demo_admitted_def authorization_decision_def admission_decision_def demo_approval_def demo_extension_fields
        scope_constraints_of_def executor_constraints_of_def)
  have "find_last is_authority_entry (ext_log ''x'' [e1, e2]) = Some e2"
    using assms(2) by (simp add: ext_log_def find_last_def is_authority_entry_def carries_def)
  then have "current_authorization demo_authority ''authorization-admission_receipt'' (ext_log ''x'' [e1, e2]) = Some demo_approved"
    using assms(2) d(4) by (simp add: current_authorization_def carries_def)
  moreover have "within_authorization demo_approved (demo_execution operation)"
    by (simp add: within_authorization_def fields d or_default_list_def Let_def)
  ultimately show ?thesis unfolding permits_def fields using demo_valid(3) [OF assms(3)] by (simp add: d)
qed

lemma demo_permit_step:
  assumes j2: "demo_holds j2 [e1, e2] 7" "carries demo_authority e2 ''x'' ''ExtensionAuthorizationDecision'' demo_approved"
    and k: "je_idempotency_key e1 = Some (extension_key ''x'' demo_hash ''admit'' ''k'')"
      "je_idempotency_key e2 = Some (extension_key ''x'' demo_hash ''authorize'' ''ok'')" and op: "trim operation \<noteq> []"
  shows "\<exists>e3 j3. authorize_extension_execution demo_authority 3 demo_request (demo_execution operation) j2 =
      (Inr (NKI_Success (JString operation)), j3) \<and> demo_holds j3 [e1, e2, e3] 6 \<and>
    je_object_type e3 = ''ExtensionExecutionPermit'' \<and> je_idempotency_key e3 = Some (execution_key demo_request (demo_execution operation))"
proof -
  let ?p = "execution_permit demo_request 3 (demo_execution operation) (receipt_id demo_authority ''extension-permit-'' ''execution'')"
  let ?entry = "\<lambda>payload. extension_entry (eer_extension_id (demo_execution operation)) ''ExtensionExecutionPermit'' (eep_permit_id ?p)
    (Some ''AUTHORIZED'') ''EXECUTION_PERMITTED'' 3 payload (eer_content_digest (demo_execution operation)) (nq_principal_id demo_request)
    (execution_key demo_request (demo_execution operation))"
  have code: "enc unread ?p = Inr []" by (simp add: unread_def)
  have key: "execution_key demo_request (demo_execution operation) = extension_key ''x'' demo_hash ''execute'' ''k''"
    by (simp add: execution_key_def demo_execution_def demo_request_def)
  have "\<exists>e3 j3. journal_outcome demo_authority 3 unread ?p ?entry (JString (eep_operation ?p)) j2 =
      (Inr (NKI_Success (JString (eep_operation ?p))), j3) \<and> demo_holds j3 ([e1, e2] @ [e3]) 6 \<and> same_content e3 (?entry [])"
    by (rule demo_holds_step [OF _ code])
       (use j2(1) k in \<open>auto simp: extension_entry_def i64_max_def has_key_def key extension_key_def\<close>)
  then obtain e3 j3 where o: "journal_outcome demo_authority 3 unread ?p ?entry (JString (eep_operation ?p)) j2 =
      (Inr (NKI_Success (JString (eep_operation ?p))), j3)" "demo_holds j3 ([e1, e2] @ [e3]) 6" "same_content e3 (?entry [])" by blast
  have wf: "journal_wf j2" "journal_log j2 = [e1, e2]" using j2(1) by (simp_all add: demo_holds_def)
  have "permits demo_authority (demo_execution operation) (journal_log j2) demo_approved" unfolding wf(2) by (rule demo_permits [OF j2 op])
  note eq = authorize_extension_execution_permits [OF wf(1) this, of 3 demo_request]
  have "eep_operation ?p = operation" by (simp add: execution_permit_def demo_execution_def)
  then have "authorize_extension_execution demo_authority 3 demo_request (demo_execution operation) j2 = (Inr (NKI_Success (JString operation)), j3)"
    using o(1) unfolding eq record_permit_def demo_materials demo_env_fields sum.case Let_def by simp
  moreover have "je_object_type e3 = ''ExtensionExecutionPermit''" "je_idempotency_key e3 = Some (execution_key demo_request (demo_execution operation))"
    using o(3) by (simp_all add: same_content_def extension_entry_def)
  ultimately show ?thesis using o(2) by auto
qed

lemma demo_op: "trim ''op'' \<noteq> []" "trim ''other'' \<noteq> []"
  by (simp_all add: trim_def is_ws_def)

theorem permit_needs_current_approval_witness:
  "\<exists>extension a. approval_chain demo_authority (journal_log (authority_run demo_authority demo_history (fresh_journal [])))
       extension a ''authorization-admission_receipt'' \<and>
     ''fs.read'' \<in> set (eau_approved_capabilities a)"
proof -
  let ?j = "authority_run demo_authority demo_history (fresh_journal [])"
  obtain e1 e2 where h: "demo_holds ?j [e1, e2] 7" "carries demo_authority e2 ''x'' ''ExtensionAuthorizationDecision'' demo_approved"
      "je_idempotency_key e1 = Some (extension_key ''x'' demo_hash ''admit'' ''k'')"
      "je_idempotency_key e2 = Some (extension_key ''x'' demo_hash ''authorize'' ''ok'')" using demo_run by blast
  obtain j3 where x: "authorize_extension_execution demo_authority 3 demo_request (demo_execution ''op'') ?j =
      (Inr (NKI_Success (JString ''op'')), j3)" using demo_permit_step [OF h demo_op(1)] by blast
  have "list_all foreign_op demo_history" by (simp add: demo_history_def)
  from permit_needs_current_approval [OF demo_decision_roundtrip this refl x]
  show ?thesis by (auto simp: demo_execution_def)
qed

theorem revocation_ends_authority_witness:
  "\<exists>j1. fst (authorize_extension_execution demo_authority 5 demo_request (demo_execution ''op'')
      (authority_run demo_authority [AO_Request 4 demo_request] j1)) \<noteq> Inr (NKI_Success (JString ''op''))"
proof -
  let ?j = "authority_run demo_authority demo_history (fresh_journal [])"
  obtain e1 e2 where h: "demo_holds ?j [e1, e2] 7" "carries demo_authority e2 ''x'' ''ExtensionAuthorizationDecision'' demo_approved"
      "je_idempotency_key e1 = Some (extension_key ''x'' demo_hash ''admit'' ''k'')"
      "je_idempotency_key e2 = Some (extension_key ''x'' demo_hash ''authorize'' ''ok'')"
      "carries demo_authority e1 ''x'' ''ExtensionAdmissionDecision'' demo_admitted" using demo_run by blast
  obtain e3 j3 where r: "revoke_extension demo_authority 3 demo_request demo_revocation ?j =
      (Inr (NKI_Success (JString ''revocation-authorization_receipt'')), j3)" "demo_holds j3 [e1, e2, e3] 6"
    using demo_revocation_step [OF h] by blast
  have "journal_wf ?j" "journal_log j3 \<noteq> journal_log ?j" using h(1) r(2) by (simp_all add: demo_holds_def)
  moreover have "list_all (\<lambda>op. foreign_op op \<and> \<not> approves op) [AO_Request 4 demo_request]" by (simp add: demo_request_def)
  moreover have "eer_extension_id (demo_execution ''op'') = err_extension_id demo_revocation" by (simp add: demo_execution_def demo_revocation_def)
  ultimately show ?thesis using revocation_ends_authority [OF demo_decision_roundtrip _ r(1)] by blast
qed

theorem approved_execution_is_permitted_witness:
  "\<exists>j1. fst (authorize_extension_execution demo_authority 3 demo_request (demo_execution ''op'') j1) = Inr (NKI_Success (JString ''op''))"
proof -
  obtain e1 j1 where a: "demo_holds j1 [e1] 8" "carries demo_authority e1 ''x'' ''ExtensionAdmissionDecision'' demo_admitted"
      "je_idempotency_key e1 = Some (extension_key ''x'' demo_hash ''admit'' ''k'')" using demo_admission by blast
  obtain e2 j2 where b: "authorize_extension demo_authority 2 demo_request demo_approval j1 = (Inr (NKI_Success (JString ''authorization-admission_receipt'')), j2)"
      "demo_holds j2 [e1, e2] 7" "carries demo_authority e2 ''x'' ''ExtensionAuthorizationDecision'' demo_approved"
    using demo_approval_step [OF a] by blast
  have p: "permits demo_authority (demo_execution ''op'') [e1, e2] demo_approved" by (rule demo_permits [OF b(2,3) demo_op(1)])
  have w: "journal_wf j1" "journal_log j2 \<noteq> journal_log j1" "jn_faults j2 = []" "jn_next_sequence j2 \<le> i64_max"
      "decode_decision demo_authority (last (journal_log j2)) = Some demo_approved"
    using a(1) b(2,3) by (simp_all add: demo_holds_def carries_def)
  have x: "eer_capability (demo_execution ''op'') \<in> set (eau_approved_capabilities demo_approval)"
      "eer_extension_id (demo_execution ''op'') = ear_extension_id (eau_admission demo_approval)"
      "eer_content_digest (demo_execution ''op'') = ear_content_digest (eau_admission demo_approval)"
      "eer_authorization_receipt_id (demo_execution ''op'') = ead_receipt_id demo_approved"
    by (simp_all add: demo_execution_def demo_approval_def demo_extension_fields demo_approved_def authorization_decision_def)
  have code: "enc (ae_permit demo_authority) (execution_permit demo_request 3 (demo_execution ''op'')
      (receipt_id demo_authority ''extension-permit-'' ''execution'')) = Inr []" by (simp add: demo_env_fields unread_def)
  have within: "execution_request_validate (demo_execution ''op'') = Inr ()" "within_authorization demo_approved (demo_execution ''op'')"
    using p by (simp_all add: permits_def)
  have "fst (authorize_extension_execution demo_authority 3 demo_request (demo_execution ''op'') j2) =
    Inr (NKI_Success (ae_permit_json demo_authority (execution_permit demo_request 3 (demo_execution ''op'')
      (receipt_id demo_authority ''extension-permit-'' ''execution''))))"
    by (rule approved_execution_is_permitted [OF demo_decision_roundtrip w(1) b(1) w(2) within(1) x(1-3) w(5) x(4) within(2)
        demo_materials(3) w(3,4) code])
  then show ?thesis by (auto simp: demo_env_fields execution_permit_def demo_execution_def)
qed

theorem repeated_key_permit_is_not_recorded_witness:
  "\<exists>j. authorize_extension_execution demo_authority 4 demo_request (demo_execution ''other'') j = (Inr (NKI_Success (JString ''other'')), j)"
proof -
  let ?j = "authority_run demo_authority demo_history (fresh_journal [])"
  obtain e1 e2 where h: "demo_holds ?j [e1, e2] 7" "carries demo_authority e2 ''x'' ''ExtensionAuthorizationDecision'' demo_approved"
      "je_idempotency_key e1 = Some (extension_key ''x'' demo_hash ''admit'' ''k'')"
      "je_idempotency_key e2 = Some (extension_key ''x'' demo_hash ''authorize'' ''ok'')" using demo_run by blast
  obtain e3 j3 where o: "demo_holds j3 [e1, e2, e3] 6" "je_object_type e3 = ''ExtensionExecutionPermit''"
      "je_idempotency_key e3 = Some (execution_key demo_request (demo_execution ''op''))" using demo_permit_step [OF h demo_op(1)] by blast
  have wf: "journal_wf j3" "journal_log j3 = [e1, e2, e3]" using o(1) by (simp_all add: demo_holds_def)
  have last: "find_last is_authority_entry (ext_log y [e1, e2, e3]) = find_last is_authority_entry (ext_log y [e1, e2])" for y
  proof -
    have "\<not> is_authority_entry e3" using o(2) by (simp add: is_authority_entry_def)
    then show ?thesis
      unfolding find_last_ext using find_last_snoc [of "\<lambda>e. je_workload_id e = extension_workload y \<and> is_authority_entry e" "[e1, e2]" e3]
      by simp
  qed
  have "permits demo_authority (demo_execution ''other'') [e1, e2] demo_approved" by (rule demo_permits [OF h(1,2) demo_op(2)])
  then have p: "permits demo_authority (demo_execution ''other'') (journal_log j3) demo_approved"
    unfolding wf(2) permits_def current_authorization_def last .
  have "has_key (journal_log j3) (execution_key demo_request (demo_execution ''other''))"
    unfolding wf(2) using o(3) by (simp add: has_key_def execution_key_def demo_execution_def)
  from repeated_key_permit_is_not_recorded [OF wf(1) p this demo_materials(3), of 4 "[]"]
  show ?thesis by (auto simp: demo_env_fields unread_def execution_permit_def demo_execution_def)
qed

end
