(* ===== verification/Catalog_Properties.thy ===== *)
theory Catalog_Properties
  imports Control_Plane
begin

text \<open>
  What the asset catalogue promises: the rows that any sequence of critical sections leaves behind, with storage
  faults at any statement, are valid, free of secrets and bound to their digests; a put is a compare-and-swap on the
  generation; and a deletion removes the generation that was asked for.
\<close>

section \<open>Statements and transactions\<close>

lemma statement_frame:
  assumes "statement st = (f, st1)"
  shows "cs_rows st1 = cs_rows st" "cs_faults st = [] \<Longrightarrow> f = None \<and> st1 = st" "cs_faults st1 = tl (cs_faults st)"
  using assms by (auto simp: statement_def split: list.splits)

lemma statement_ok [simp]: "cs_faults st = [] \<Longrightarrow> statement st = (None, st)"
  by (simp add: statement_def)

lemma commit_rows_cases:
  assumes "commit_rows old new x st = (res, st')"
  shows "(\<exists>e. res = Inl e \<and> cs_rows st' = old) \<or> (res = Inr x \<and> cs_rows st' = new)"
  using assms by (auto simp: commit_rows_def split: prod.splits option.splits)

lemma select_asset_cases:
  assumes "select_asset env kind i st = (res, st')"
  shows "cs_rows st' = cs_rows st \<and>
    ((\<exists>e. res = Inl e) \<or> (res = Inr None \<and> find (row_is kind i) (cs_rows st) = None) \<or>
     (\<exists>r a. res = Inr (Some a) \<and> find (row_is kind i) (cs_rows st) = Some r \<and> row_to_asset env r = Inr a))"
proof -
  obtain f st1 where s: "statement st = (f, st1)" by fastforce
  have rows: "cs_rows st1 = cs_rows st" by (rule statement_frame(1) [OF s])
  show ?thesis
  proof (cases f)
    case (Some msg)
    then show ?thesis using assms s rows by (auto simp: select_asset_def)
  next
    case None
    then show ?thesis using assms s rows by (auto simp: select_asset_def split: option.splits sum.splits)
  qed
qed

lemma asset_kind_inject [simp]: "asset_kind_as_str k = asset_kind_as_str l \<longleftrightarrow> k = l"
  by (cases k; cases l) simp_all

lemma asset_kind_of_name [simp]: "asset_kind_of (asset_kind_as_str k) = Some k"
  by (cases k) (simp_all add: asset_kind_of_def)

section \<open>The invariant of the catalogue\<close>

definition row_ok :: "control_env \<Rightarrow> asset_row \<Rightarrow> bool" where
  "row_ok env r \<longleftrightarrow>
     (\<exists>kind document. ar_kind r = asset_kind_as_str kind \<and> enc (ce_json env) document = Inr (ar_document r) \<and>
        ar_sha256 r = ce_digest env (ar_document r) \<and> reject_embedded_secrets document = Inr () \<and>
        validate_document env kind document = Some (Inr (ar_id r, ar_version r)) \<and>
        1 \<le> ar_generation r \<and> ar_generation r \<le> i64_max)"

definition row_key :: "asset_row \<Rightarrow> string \<times> string" where
  "row_key r = (ar_kind r, ar_id r)"

definition catalog_ok :: "control_env \<Rightarrow> asset_row list \<Rightarrow> bool" where
  "catalog_ok env rows \<longleftrightarrow> list_all (row_ok env) rows \<and> distinct (map row_key rows)"

lemma row_is_key: "row_is kind i r \<longleftrightarrow> row_key r = (asset_kind_as_str kind, i)"
  by (simp add: row_is_def row_key_def)

lemma screen_documentD:
  assumes "screen_document env kind document = Some (Inr (i, version, encoded, sha))"
  shows "reject_embedded_secrets document = Inr ()" "validate_document env kind document = Some (Inr (i, version))"
    "enc (ce_json env) document = Inr encoded" "sha = ce_digest env encoded"
proof -
  have v1: "reject_embedded_secrets document = Inr ()"
    using assms by (cases "reject_embedded_secrets document") (simp_all add: screen_document_def)
  obtain r where v2: "validate_document env kind document = Some r"
    using assms v1 by (cases "validate_document env kind document") (simp_all add: screen_document_def)
  note v = v1 v2
  obtain j w where r: "r = Inr (j, w)" using assms v by (cases r) (auto simp: screen_document_def)
  show "reject_embedded_secrets document = Inr ()" "validate_document env kind document = Some (Inr (i, version))"
      "enc (ce_json env) document = Inr encoded" "sha = ce_digest env encoded"
    using assms v r by (auto simp: screen_document_def split: sum.splits)
qed

lemma update_row_key [simp]: "row_key (update_row version g sha encoded now r) = row_key r"
  by (simp add: row_key_def update_row_def)

text \<open>What a put under the lock leaves behind.\<close>

lemma put_locked_cases:
  assumes "put_locked env now q i version encoded sha st = (res, st')"
  shows "(\<exists>e. res = Inl e \<and> cs_rows st' = cs_rows st) \<or>
    (\<exists>r a. res = Inr a \<and> find (row_is (par_kind q) i) (cs_rows st) = Some r \<and> row_to_asset env r = Inr a \<and> ar_sha256 r = sha \<and>
       cs_rows st' = cs_rows st) \<or>
    (\<exists>r g. find (row_is (par_kind q) i) (cs_rows st) = Some r \<and> par_expected_generation q = Some (ar_generation r) \<and>
       g = ar_generation r + 1 \<and> g \<le> i64_max \<and> res = Inr (put_asset q i version g sha (ar_created_at_us r) now) \<and>
       cs_rows st' = map (\<lambda>r. if row_is (par_kind q) i r then update_row version g sha encoded now r else r) (cs_rows st)) \<or>
    (find (row_is (par_kind q) i) (cs_rows st) = None \<and> par_expected_generation q = None \<and>
       res = Inr (put_asset q i version 1 sha now now) \<and> cs_rows st' = cs_rows st @ [new_row q i version encoded sha now])"
proof -
  obtain f st1 where s: "statement st = (f, st1)" by fastforce
  note rows1 = statement_frame(1) [OF s]
  obtain sel st2 where sel: "select_asset env (par_kind q) i st1 = (sel, st2)" by fastforce
  have rows2: "cs_rows st2 = cs_rows st" using select_asset_cases [OF sel] rows1 by simp
  have asset: "ca_sha256 a = ar_sha256 r \<and> ca_generation a = ar_generation r \<and> ca_created_at_us a = ar_created_at_us r"
    if "row_to_asset env r = Inr a" for r a
    using that by (auto simp: row_to_asset_def split: option.splits sum.splits)
  consider (fault) msg where "f = Some msg" | (err) e where "f = None" "sel = Inl e" | (new) "f = None" "sel = Inr None"
    | (old) a where "f = None" "sel = Inr (Some a)" by (cases f; cases sel) auto
  then show ?thesis
  proof cases
    case fault
    then show ?thesis using assms s rows1 by (auto simp: put_locked_def)
  next
    case err
    then show ?thesis using assms s sel rows2 by (auto simp: put_locked_def)
  next
    case new
    have p: "put_insert now q i version encoded sha st2 = (res, st')" using assms s sel new by (simp add: put_locked_def)
    obtain f2 st3 where s2: "statement st2 = (f2, st3)" by fastforce
    note rows3 = statement_frame(1) [OF s2]
    have none: "find (row_is (par_kind q) i) (cs_rows st) = None" using select_asset_cases [OF sel] new rows1 by auto
    show ?thesis
    proof (cases "par_expected_generation q = None \<and> f2 = None")
      case True
      then have "commit_rows (cs_rows st2) (cs_rows st2 @ [new_row q i version encoded sha now]) (put_asset q i version 1 sha now now) st3 = (res, st')"
        using p s2 by (simp add: put_insert_def)
      from commit_rows_cases [OF this] show ?thesis using True none rows2 by auto
    next
      case False
      then show ?thesis using p s2 rows2 rows3 by (auto simp: put_insert_def split: if_splits option.splits)
    qed
  next
    case old
    obtain r where r: "find (row_is (par_kind q) i) (cs_rows st) = Some r" "row_to_asset env r = Inr a"
      using select_asset_cases [OF sel] old rows1 by auto
    note fields = asset [OF r(2)]
    show ?thesis
    proof (cases "ca_sha256 a = sha")
      case True
      then have "commit_rows (cs_rows st2) (cs_rows st2) a st2 = (res, st')" using assms s sel old by (simp add: put_locked_def)
      from commit_rows_cases [OF this] show ?thesis using r fields True rows2 by auto
    next
      case False
      then have p: "put_update env now q i version encoded sha a st2 = (res, st')" using assms s sel old by (simp add: put_locked_def)
      let ?g = "saturating_inc (ca_generation a)"
      obtain f2 st3 where s2: "statement st2 = (f2, st3)" by fastforce
      note rows3 = statement_frame(1) [OF s2]
      show ?thesis
      proof (cases "par_expected_generation q = Some (ca_generation a) \<and> ?g \<le> i64_max \<and> f2 = None")
        case True
        then have "?g \<le> i64_max" by simp
        then have g: "?g = ar_generation r + 1" using fields by (auto simp: saturating_inc_def i64_max_def min_def split: if_splits)
        have "commit_rows (cs_rows st2)
            (map (\<lambda>r. if row_is (par_kind q) i r then update_row version ?g sha encoded now r else r) (cs_rows st2))
            (put_asset q i version ?g sha (ca_created_at_us a) now) st3 = (res, st')"
          using True p s2 by (simp add: put_update_def Let_def)
        from commit_rows_cases [OF this] show ?thesis using True r fields g rows2 by auto
      next
        case False
        then show ?thesis using p s2 rows2 rows3 by (auto simp: put_update_def Let_def split: if_splits option.splits)
      qed
    qed
  qed
qed

lemma find_SomeD: "find P xs = Some x \<Longrightarrow> x \<in> set xs \<and> P x"
  by (auto simp: find_Some_iff)

lemma put_keeps_catalog:
  assumes "control_put env now q st = (res, st')" "catalog_ok env (cs_rows st)"
  shows "catalog_ok env (cs_rows st')"
proof (cases "\<exists>i version encoded sha. screen_document env (par_kind q) (par_document q) = Some (Inr (i, version, encoded, sha)) \<and>
    control_check_schema (par_schema_version q) = Inr ()")
  case False
  then have "st' = st" using assms(1) by (auto simp: control_put_def split: sum.splits option.splits prod.splits)
  then show ?thesis using assms(2) by simp
next
  case True
  then obtain i version encoded sha where d: "screen_document env (par_kind q) (par_document q) = Some (Inr (i, version, encoded, sha))"
      "control_check_schema (par_schema_version q) = Inr ()" by blast
  note doc = screen_documentD [OF d(1)]
  obtain r where p: "put_locked env now q i version encoded sha st = (r, st')"
    using assms(1) d by (cases "put_locked env now q i version encoded sha st") (auto simp: control_put_def)
  have ok: "list_all (row_ok env) (cs_rows st)" "distinct (map row_key (cs_rows st))" using assms(2) by (simp_all add: catalog_ok_def)
  from put_locked_cases [OF p] consider (same) "cs_rows st' = cs_rows st"
    | (upd) g where "1 \<le> g" "g \<le> i64_max"
        "cs_rows st' = map (\<lambda>r. if row_is (par_kind q) i r then update_row version g sha encoded now r else r) (cs_rows st)"
    | (new) "find (row_is (par_kind q) i) (cs_rows st) = None" "cs_rows st' = cs_rows st @ [new_row q i version encoded sha now]"
    by fastforce
  then show ?thesis
  proof cases
    case same
    then show ?thesis using assms(2) by simp
  next
    case upd
    have "row_ok env (update_row version g sha encoded now r)" if "row_is (par_kind q) i r" for r
      using that doc upd(1,2) unfolding row_ok_def
      by (intro exI [of _ "par_kind q"] exI [of _ "par_document q"]) (simp add: row_is_def update_row_def)
    then have "list_all (row_ok env) (cs_rows st')" using ok(1) unfolding upd(3) by (auto simp: list_all_iff)
    moreover have "map row_key (cs_rows st') = map row_key (cs_rows st)" unfolding upd(3) by (simp add: comp_def if_distrib)
    ultimately show ?thesis using ok(2) by (simp add: catalog_ok_def)
  next
    case new
    have "row_ok env (new_row q i version encoded sha now)"
      using doc unfolding row_ok_def
      by (intro exI [of _ "par_kind q"] exI [of _ "par_document q"]) (simp add: new_row_def i64_max_def)
    moreover have "row_key (new_row q i version encoded sha now) \<notin> set (map row_key (cs_rows st))"
      using new(1) by (auto simp: find_None_iff row_is_key new_row_def row_key_def)
    ultimately show ?thesis using ok unfolding new(2) by (simp add: catalog_ok_def)
  qed
qed

lemma control_get_rows: "control_get env s st = (res, st') \<Longrightarrow> cs_rows st' = cs_rows st"
  using select_asset_cases [of env "asl_kind s" "asl_id s" st]
  by (auto simp: control_get_def split: sum.splits prod.splits option.splits)

lemma control_list_rows: "control_list env q st = (res, st') \<Longrightarrow> cs_rows st' = cs_rows st"
  using statement_frame(1) [of st] by (auto simp: control_list_def split: sum.splits prod.splits option.splits)

lemma delete_check_rows: "delete_check env s g st = (res, st') \<Longrightarrow> cs_rows st' = cs_rows st"
  using control_get_rows [of env s st] by (auto simp: delete_check_def split: sum.splits prod.splits if_splits)

lemma delete_apply_rows:
  assumes "delete_apply s g st = (res, st')"
  shows "cs_rows st' \<in> {cs_rows st, filter (\<lambda>r. \<not> (row_is (asl_kind s) (asl_id s) r \<and> ar_generation r = g)) (cs_rows st)}"
  using assms statement_frame(1) [of st] by (auto simp: delete_apply_def Let_def split: prod.splits option.splits if_splits)

text \<open>The critical sections of any number of threads, in any order; the faults of the storage may change between
  them.\<close>

datatype control_section =
    CS_Put int PutAssetRequest
  | CS_Get AssetSelector
  | CS_List ListAssetsRequest
  | CS_DeleteCheck AssetSelector nat
  | CS_DeleteApply AssetSelector nat
  | CS_Faults "string option list"

fun control_step :: "control_env \<Rightarrow> ControlPlaneStore \<Rightarrow> control_section \<Rightarrow> ControlPlaneStore" where
  "control_step env st (CS_Put now q) = snd (control_put env now q st)"
| "control_step env st (CS_Get s) = snd (control_get env s st)"
| "control_step env st (CS_List q) = snd (control_list env q st)"
| "control_step env st (CS_DeleteCheck s g) = snd (delete_check env s g st)"
| "control_step env st (CS_DeleteApply s g) = snd (delete_apply s g st)"
| "control_step env st (CS_Faults fs) = st\<lparr>cs_faults := fs\<rparr>"

lemmas section_rows =
  control_get_rows [OF prod.collapse [symmetric]] control_list_rows [OF prod.collapse [symmetric]]
  delete_check_rows [OF prod.collapse [symmetric]]

lemma catalog_ok_filter: "catalog_ok env rows \<Longrightarrow> catalog_ok env (filter P rows)"
  by (simp add: catalog_ok_def list_all_iff distinct_map_filter)

lemma step_keeps_catalog: "catalog_ok env (cs_rows st) \<Longrightarrow> catalog_ok env (cs_rows (control_step env st c))"
proof -
  assume ok: "catalog_ok env (cs_rows st)"
  show ?thesis
  proof (cases c)
    case (CS_Put now q)
    then show ?thesis using put_keeps_catalog [OF prod.collapse [symmetric] ok] by simp
  next
    case (CS_DeleteApply s g)
    then show ?thesis using delete_apply_rows [OF prod.collapse [symmetric], of s g st] ok catalog_ok_filter [OF ok] by auto
  qed (use ok in \<open>simp_all add: section_rows\<close>)
qed

definition control_run :: "control_env \<Rightarrow> control_section list \<Rightarrow> ControlPlaneStore \<Rightarrow> ControlPlaneStore" where
  "control_run env cs st = foldl (control_step env) st cs"

lemma run_keeps_catalog: "catalog_ok env (cs_rows st) \<Longrightarrow> catalog_ok env (cs_rows (control_run env cs st))"
  unfolding control_run_def by (induction cs arbitrary: st) (simp_all add: step_keeps_catalog)

lemma catalog_ok_open [simp]: "catalog_ok env (cs_rows control_open_in_memory)"
  by (simp add: catalog_ok_def control_open_in_memory_def)

section \<open>The catalogue as a map\<close>

definition catalog_at :: "ControlPlaneStore \<Rightarrow> AssetKind \<times> string \<rightharpoonup> string \<times> nat" where
  "catalog_at st k = map_option (\<lambda>r. (ar_document r, ar_generation r)) (find (row_is (fst k) (snd k)) (cs_rows st))"

text \<open>The specification of a put: a compare-and-swap on the generation, which leaves an equal document alone.\<close>

definition cas_put ::
  "(AssetKind \<times> string \<rightharpoonup> string \<times> nat) \<Rightarrow> AssetKind \<times> string \<Rightarrow> string \<Rightarrow> nat option \<Rightarrow>
     (nat \<times> (AssetKind \<times> string \<rightharpoonup> string \<times> nat)) option" where
  "cas_put m k d expected =
     (case m k of
        None \<Rightarrow> if expected = None then Some (1, m(k \<mapsto> (d, 1))) else None
      | Some (d', g) \<Rightarrow>
          if d = d' then Some (g, m)
          else if expected = Some g \<and> g < i64_max then Some (g + 1, m(k \<mapsto> (d, g + 1))) else None)"

lemma find_map_same: "(\<And>x. P (f x) = P x) \<Longrightarrow> find P (map f xs) = map_option f (find P xs)"
  by (induction xs) auto

lemma find_snoc: "find P (xs @ [x]) = (case find P xs of None \<Rightarrow> if P x then Some x else None | Some y \<Rightarrow> Some y)"
  by (induction xs) auto

lemma catalog_at_update:
  assumes "cs_rows st' = map (\<lambda>r. if row_is kind i r then update_row version g sha encoded now r else r) (cs_rows st)"
    and "catalog_at st (kind, i) \<noteq> None"
  shows "catalog_at st' = (catalog_at st)((kind, i) \<mapsto> (encoded, g))"
proof
  fix k :: "AssetKind \<times> string"
  let ?f = "\<lambda>r. if row_is kind i r then update_row version g sha encoded now r else r"
  have f: "find (row_is (fst k) (snd k)) (map ?f (cs_rows st)) = map_option ?f (find (row_is (fst k) (snd k)) (cs_rows st))"
    by (rule find_map_same) (simp add: row_is_key)
  show "catalog_at st' k = ((catalog_at st)((kind, i) \<mapsto> (encoded, g))) k"
  proof (cases "find (row_is (fst k) (snd k)) (cs_rows st)")
    case None
    then show ?thesis using assms f by (auto simp: catalog_at_def)
  next
    case (Some r)
    then have r: "row_is (fst k) (snd k) r" using find_SomeD by fast
    then have "row_is kind i r \<longleftrightarrow> k = (kind, i)" by (auto simp: row_is_def prod_eq_iff)
    then show ?thesis using Some f assms(1) by (auto simp: catalog_at_def update_row_def)
  qed
qed

lemma catalog_at_insert:
  assumes "cs_rows st' = cs_rows st @ [new_row q i version encoded sha now]" "catalog_at st (par_kind q, i) = None"
  shows "catalog_at st' = (catalog_at st)((par_kind q, i) \<mapsto> (encoded, 1))"
proof
  fix k :: "AssetKind \<times> string"
  have "row_is (fst k) (snd k) (new_row q i version encoded sha now) \<longleftrightarrow> k = (par_kind q, i)"
    by (auto simp: row_is_def new_row_def prod_eq_iff)
  then show "catalog_at st' k = ((catalog_at st)((par_kind q, i) \<mapsto> (encoded, 1))) k"
    using assms by (auto simp: catalog_at_def find_snoc new_row_def split: option.splits)
qed

text \<open>A row of the catalogue is always read back as an asset.\<close>

lemma row_ok_asset:
  assumes "row_ok env r" "row_is kind i r" "codec_roundtrip (ce_json env)"
  obtains document where "enc (ce_json env) document = Inr (ar_document r)" "ar_sha256 r = ce_digest env (ar_document r)"
    "reject_embedded_secrets document = Inr ()" "validate_document env kind document = Some (Inr (i, ar_version r))"
    "row_to_asset env r =
       Inr \<lparr>ca_schema_version = CONTROL_API_SCHEMA_VERSION, ca_kind = kind, ca_id = i, ca_version = ar_version r,
            ca_generation = ar_generation r, ca_sha256 = ar_sha256 r, ca_document = document,
            ca_created_at_us = ar_created_at_us r, ca_updated_at_us = ar_updated_at_us r\<rparr>"
proof -
  obtain kind' document where r: "ar_kind r = asset_kind_as_str kind'" "enc (ce_json env) document = Inr (ar_document r)"
      "ar_sha256 r = ce_digest env (ar_document r)" "reject_embedded_secrets document = Inr ()"
      "validate_document env kind' document = Some (Inr (ar_id r, ar_version r))"
    using assms(1) unfolding row_ok_def by blast
  have k: "kind' = kind" "ar_id r = i" using assms(2) r(1) by (simp_all add: row_is_def)
  have "dec (ce_json env) (ar_document r) = Inr document" using codec_roundtripD assms(3) r(2) by metis
  then show thesis using that r k by (simp add: row_to_asset_def)
qed

section \<open>Properties\<close>

text \<open>C17.  Every asset that the catalogue returns, after any interleaving of puts, reads and deletions with storage faults
  at any statement, is the one asked for, validates as its kind under its own name and version, contains no embedded
  secret, and carries the digest of its document and a generation that fits the column.\<close>

theorem stored_assets_are_valid:
  assumes "codec_roundtrip (ce_json env)" "st = control_run env sections control_open_in_memory"
    and "control_get env s st = (Inr a, st')"
  shows "ca_kind a = asl_kind s \<and> ca_id a = asl_id s \<and> reject_embedded_secrets (ca_document a) = Inr () \<and>
    validate_document env (ca_kind a) (ca_document a) = Some (Inr (ca_id a, ca_version a)) \<and>
    (\<exists>encoded. enc (ce_json env) (ca_document a) = Inr encoded \<and> ca_sha256 a = ce_digest env encoded) \<and>
    1 \<le> ca_generation a \<and> ca_generation a \<le> i64_max"
proof -
  have ok: "catalog_ok env (cs_rows st)" unfolding assms(2) by (rule run_keeps_catalog) simp
  obtain st1 where "select_asset env (asl_kind s) (asl_id s) st = (Inr (Some a), st1)"
    using assms(3) by (auto simp: control_get_def split: sum.splits prod.splits option.splits)
  then obtain r where r: "find (row_is (asl_kind s) (asl_id s)) (cs_rows st) = Some r" "row_to_asset env r = Inr a"
    using select_asset_cases by blast
  have row: "row_ok env r" "row_is (asl_kind s) (asl_id s) r" using find_SomeD [OF r(1)] ok by (auto simp: catalog_ok_def list_all_iff)
  then have g: "1 \<le> ar_generation r" "ar_generation r \<le> i64_max" unfolding row_ok_def by blast+
  from row assms(1) show ?thesis by (rule row_ok_asset) (use r(2) g in auto)
qed

text \<open>What the answer of a put and the catalogue after it have to do with the compare-and-swap.\<close>

definition refines_cas ::
    "PutAssetRequest \<Rightarrow> string \<Rightarrow> string \<Rightarrow> ControlPlaneStore \<Rightarrow> (ControlPlaneError + ControlAsset) option \<Rightarrow> ControlPlaneStore \<Rightarrow> bool" where
  "refines_cas q i encoded st res st' \<longleftrightarrow>
     (case cas_put (catalog_at st) (par_kind q, i) encoded (par_expected_generation q) of
        None \<Rightarrow> (\<exists>e. res = Some (Inl e)) \<and> catalog_at st' = catalog_at st
      | Some (g, m) \<Rightarrow> (\<exists>a. res = Some (Inr a) \<and> ca_generation a = g \<and> ca_id a = i \<and> ca_kind a = par_kind q \<and>
          ca_document a = par_document q) \<and> catalog_at st' = m)"

lemma put_absent_refines:
  assumes "find (row_is (par_kind q) i) (cs_rows st) = None" "cs_faults st = []"
    and "(res, st') = apfst Some (put_locked env now q i version encoded sha st)"
  shows "refines_cas q i encoded st res st'"
proof -
  have sel: "select_asset env (par_kind q) i st = (Inr None, st)" using assms(1,2) by (simp add: select_asset_def)
  have at: "catalog_at st (par_kind q, i) = None" using assms(1) by (simp add: catalog_at_def)
  let ?st = "st\<lparr>cs_rows := cs_rows st @ [new_row q i version encoded sha now]\<rparr>"
  have "catalog_at ?st = (catalog_at st)((par_kind q, i) \<mapsto> (encoded, 1))" by (rule catalog_at_insert) (simp_all add: at)
  then show ?thesis
    using assms(2,3) sel at unfolding refines_cas_def
    by (cases "par_expected_generation q") (simp_all add: put_locked_def put_insert_def commit_rows_def cas_put_def put_asset_def)
qed

lemma put_update_refines:
  assumes "catalog_at st (par_kind q, i) = Some (d, g)" "d \<noteq> encoded" "cs_faults st = []"
    and "ca_generation a = g" "(res, st') = apfst Some (put_update env now q i version encoded sha a st)"
  shows "refines_cas q i encoded st res st'"
proof -
  have upd: "catalog_at (st\<lparr>cs_rows := map (\<lambda>r. if row_is (par_kind q) i r then update_row version g' sha encoded now r else r) (cs_rows st)\<rparr>) =
      (catalog_at st)((par_kind q, i) \<mapsto> (encoded, g'))" for g'
    by (rule catalog_at_update [where version = version and sha = sha and now = now]) (simp_all add: assms(1))
  have inc: "saturating_inc g \<le> i64_max \<longleftrightarrow> g < i64_max" "g < i64_max \<Longrightarrow> saturating_inc g = g + 1"
    by (auto simp: saturating_inc_def i64_max_def)
  show ?thesis
  proof (cases "par_expected_generation q = Some g \<and> g < i64_max")
    case True
    then show ?thesis
      using assms inc upd by (simp add: refines_cas_def put_update_def commit_rows_def cas_put_def put_asset_def not_less)
  next
    case False
    then show ?thesis
      using assms inc(1) by (auto simp: refines_cas_def put_update_def cas_put_def Let_def not_less split: if_splits)
  qed
qed


text \<open>A deletion removes the asset exactly when its generation is the expected one, and nothing else.\<close>

lemma catalog_at_delete:
  assumes "distinct (map row_key (cs_rows st))" "catalog_at st (kind, i) = Some (d, g)"
  shows "length (filter (\<lambda>r. row_is kind i r \<and> ar_generation r = g) (cs_rows st)) = 1"
    "catalog_at (st\<lparr>cs_rows := filter (\<lambda>r. \<not> (row_is kind i r \<and> ar_generation r = g)) (cs_rows st)\<rparr>) = (catalog_at st)((kind, i) := None)"
proof -
  obtain r where r: "find (row_is kind i) (cs_rows st) = Some r" "ar_generation r = g" using assms(2) by (auto simp: catalog_at_def)
  obtain xs ys where xs: "cs_rows st = xs @ r # ys" using find_SomeD [OF r(1)] split_list by metis
  have r': "row_is kind i r" using find_SomeD [OF r(1)] by blast
  have other: "\<not> row_is kind i x" if "x \<in> set xs \<union> set ys" for x
    using assms(1) that r' unfolding xs by (force simp: row_is_key)
  have none: "filter (\<lambda>r. row_is kind i r \<and> ar_generation r = g) zs = []" "filter (\<lambda>r. \<not> (row_is kind i r \<and> ar_generation r = g)) zs = zs"
    if "set zs \<subseteq> set xs \<union> set ys" for zs using that other by (auto simp: filter_empty_conv filter_id_conv)
  have f: "filter (\<lambda>r. row_is kind i r \<and> ar_generation r = g) (cs_rows st) = [r]"
      "filter (\<lambda>r. \<not> (row_is kind i r \<and> ar_generation r = g)) (cs_rows st) = xs @ ys"
    using none [of xs] none [of ys] r r' unfolding xs by simp_all
  show "length (filter (\<lambda>r. row_is kind i r \<and> ar_generation r = g) (cs_rows st)) = 1" by (simp add: f)
  have app: "find P (as @ bs) = (case find P as of None \<Rightarrow> find P bs | Some y \<Rightarrow> Some y)" for P :: "asset_row \<Rightarrow> bool" and as bs
    by (induction as) auto
  have "find (row_is (fst k) (snd k)) (xs @ ys) = (if k = (kind, i) then None else find (row_is (fst k) (snd k)) (cs_rows st))" for k
  proof (cases "k = (kind, i)")
    case True
    then show ?thesis using other by (auto simp: find_None_iff)
  next
    case False
    then have "\<not> row_is (fst k) (snd k) r" using r' by (auto simp: row_is_def prod_eq_iff)
    then show ?thesis using False unfolding xs by (simp add: app split: option.split)
  qed
  then show "catalog_at (st\<lparr>cs_rows := filter (\<lambda>r. \<not> (row_is kind i r \<and> ar_generation r = g)) (cs_rows st)\<rparr>) = (catalog_at st)((kind, i) := None)"
    unfolding f(2) by (auto simp: catalog_at_def)
qed

text \<open>A deletion without storage faults removes the asset exactly when it exists with the expected generation, removes
  nothing else, and otherwise leaves the catalogue as it was and answers with an error.\<close>

theorem delete_removes_expected_generation:
  assumes "codec_roundtrip (ce_json env)" "catalog_ok env (cs_rows st)" "cs_faults st = []"
    and "asl_schema_version s = CONTROL_API_SCHEMA_VERSION" "trim (asl_id s) \<noteq> []"
    and "control_delete env s expected st = (res, st')"
  shows "if map_option snd (catalog_at st (asl_kind s, asl_id s)) = Some expected
    then res = Inr () \<and> catalog_at st' = (catalog_at st)((asl_kind s, asl_id s) := None)
    else (\<exists>e. res = Inl e) \<and> st' = st"
proof (cases "find (row_is (asl_kind s) (asl_id s)) (cs_rows st)")
  case None
  then have "control_get env s st = (Inl (CPE_NotFound (asset_kind_as_str (asl_kind s)) (asl_id s)), st)"
    using assms(3-5) by (simp add: control_get_def control_check_schema_def control_required_def select_asset_def)
  then show ?thesis using None assms(6) by (auto simp: control_delete_def delete_check_def catalog_at_def)
next
  case (Some r)
  have row: "row_ok env r" "row_is (asl_kind s) (asl_id s) r" using find_SomeD [OF Some] assms(2) by (auto simp: catalog_ok_def list_all_iff)
  obtain a where a: "row_to_asset env r = Inr a" "ca_generation a = ar_generation r" by (rule row_ok_asset [OF row assms(1)]) auto
  have get: "control_get env s st = (Inr a, st)"
    using assms(3-5) Some a(1) by (simp add: control_get_def control_check_schema_def control_required_def select_asset_def)
  have at: "catalog_at st (asl_kind s, asl_id s) = Some (ar_document r, ar_generation r)" using Some by (simp add: catalog_at_def)
  show ?thesis
  proof (cases "ar_generation r = expected")
    case False
    then show ?thesis using get at a(2) assms(6) by (auto simp: control_delete_def delete_check_def)
  next
    case True
    have "distinct (map row_key (cs_rows st))" using assms(2) by (simp add: catalog_ok_def)
    note del = catalog_at_delete [OF this at [unfolded True]]
    have "control_delete env s expected st = delete_apply s expected st" using get a(2) True by (simp add: control_delete_def delete_check_def)
    then show ?thesis using assms(3,6) at True del by (simp add: delete_apply_def)
  qed
qed

text \<open>The fields of a document at every depth.\<close>

fun json_fields :: "json \<Rightarrow> (string \<times> json) list"
  and fields_below :: "(string \<times> json) list \<Rightarrow> (string \<times> json) list"
  and items_below :: "json list \<Rightarrow> (string \<times> json) list" where
  "json_fields (JObject kvs) = fields_below kvs"
| "json_fields (JArray vs) = items_below vs"
| "json_fields _ = []"
| "fields_below [] = []"
| "fields_below ((k, v) # kvs) = (k, v) # json_fields v @ fields_below kvs"
| "items_below [] = []"
| "items_below (v # vs) = json_fields v @ items_below vs"

definition harmless_field :: "string \<times> json \<Rightarrow> bool" where
  "harmless_field kv \<longleftrightarrow> \<not> secret_key (fst kv) \<or> snd kv = JNull \<or> snd kv = JString []"

lemma json_as_str_empty: "json_as_str v = Some [] \<longleftrightarrow> v = JString []"
  by (cases v) simp_all

lemma reject_exact:
  "reject_embedded_secrets v = Inr () \<longleftrightarrow> list_all harmless_field (json_fields v)"
  "reject_fields kvs = Inr () \<longleftrightarrow> list_all harmless_field (fields_below kvs)"
  "reject_items vs = Inr () \<longleftrightarrow> list_all harmless_field (items_below vs)"
  by (induction v and kvs and vs rule: reject_embedded_secrets_reject_fields_reject_items.induct)
     (auto simp: harmless_field_def json_as_str_empty split: sum.splits)

text \<open>The screening of documents is exact: it passes exactly when no object at any depth has a field with one of the
  six secret names, in any case and with dashes or underscores, that holds anything but null or the empty text.\<close>

theorem embedded_secrets_rejected:
  "reject_embedded_secrets v = Inr () \<longleftrightarrow> list_all harmless_field (json_fields v)"
  by (rule reject_exact(1))

section \<open>Witnesses\<close>

text \<open>Documents that are texts, stored as they are; every text is an artifact of the same name whose version is the
  text.\<close>

definition demo_documents :: "json codec" where
  "demo_documents = \<lparr>enc = (\<lambda>v. case v of JString s \<Rightarrow> Inr s | _ \<Rightarrow> Inl []), dec = (\<lambda>b. Inr (JString b))\<rparr>"

definition demo_control :: control_env where
  "demo_control =
     \<lparr>ce_json = demo_documents, ce_digest = (\<lambda>b. b), ce_project = (\<lambda>v. Inl []), ce_profile = (\<lambda>v. Inl []), ce_model = (\<lambda>v. Inl []),
      ce_graph = (\<lambda>v. Inl []), ce_dataset = (\<lambda>v. Inl []), ce_experiment = (\<lambda>v. Inl []),
      ce_artifact = (\<lambda>v. case v of
          JString s \<Rightarrow> Inr \<lparr>sc_schema_version = 1, sc_id = ''a'', sc_version = s, sc_metadata = Map.empty, ac_media_type = [],
            ac_location = [], ac_sha256 = [], ac_creator = []\<rparr>
        | _ \<Rightarrow> Inl []),
      ce_bad_kind = (\<lambda>s. s), ce_bad_document = (\<lambda>s. s), ce_out_of_range = []\<rparr>"

definition demo_put :: "string \<Rightarrow> nat option \<Rightarrow> PutAssetRequest" where
  "demo_put v expected = \<lparr>par_schema_version = 1, par_kind = AK_Artifact, par_document = JString v, par_expected_generation = expected\<rparr>"

definition demo_selector :: AssetSelector where
  "demo_selector = \<lparr>asl_schema_version = 1, asl_kind = AK_Artifact, asl_id = ''a''\<rparr>"

lemma demo_documents_roundtrip: "codec_roundtrip (ce_json demo_control)"
  by (auto simp: codec_roundtrip_def demo_control_def demo_documents_def split: json.splits)

lemma demo_screen:
  assumes "trim v \<noteq> []" shows "screen_document demo_control AK_Artifact (JString v) = Some (Inr (''a'', v, v, v))"
proof -
  have "trim ''a'' \<noteq> []" by (simp add: trim_def is_ws_def)
  then show ?thesis using assms
    by (simp add: screen_document_def validate_document_def checked_def demo_control_def demo_documents_def
        simple_contract_validate_def contract_schema_def contract_required_def contract_check_def OPEN_RUNTIME_SCHEMA_VERSION_def)
qed

definition demo_row :: "int \<Rightarrow> string \<Rightarrow> asset_row" where
  "demo_row now v = \<lparr>ar_kind = ''artifact'', ar_id = ''a'', ar_version = v, ar_generation = 1, ar_sha256 = v,
     ar_document = v, ar_created_at_us = now, ar_updated_at_us = now\<rparr>"

lemma demo_create:
  assumes "trim v \<noteq> []"
  shows "control_put demo_control now (demo_put v None) control_open_in_memory =
    (Some (Inr (put_asset (demo_put v None) ''a'' v 1 v now now)), \<lparr>cs_rows = [demo_row now v], cs_faults = []\<rparr>)"
  using demo_screen [OF assms]
  by (simp add: control_put_def control_check_schema_def CONTROL_API_SCHEMA_VERSION_def demo_put_def put_locked_def
      select_asset_def put_insert_def commit_rows_def control_open_in_memory_def new_row_def demo_row_def put_asset_def)

lemma demo_versions: "trim ''one'' \<noteq> []" "trim ''two'' \<noteq> []" "trim ''three'' \<noteq> []"
  by (simp_all add: trim_def is_ws_def)

lemma demo_row_asset:
  "row_to_asset demo_control (demo_row now v) =
     Inr \<lparr>ca_schema_version = 1, ca_kind = AK_Artifact, ca_id = ''a'', ca_version = v, ca_generation = 1, ca_sha256 = v,
       ca_document = JString v, ca_created_at_us = now, ca_updated_at_us = now\<rparr>"
proof -
  have "asset_kind_of ''artifact'' = Some AK_Artifact" by (simp add: asset_kind_of_def)
  then show ?thesis
    by (simp add: row_to_asset_def demo_row_def demo_control_def demo_documents_def CONTROL_API_SCHEMA_VERSION_def)
qed

lemma demo_row_is: "row_is AK_Artifact ''a'' (demo_row now v)"
  by (simp add: row_is_def demo_row_def)

lemma row_is_update: "row_is kind i (update_row version g sha encoded now r) = row_is kind i r"
  by (simp add: row_is_key)

lemma demo_get:
  "control_get demo_control demo_selector \<lparr>cs_rows = [demo_row now v], cs_faults = []\<rparr> =
     (Inr \<lparr>ca_schema_version = 1, ca_kind = AK_Artifact, ca_id = ''a'', ca_version = v, ca_generation = 1, ca_sha256 = v,
       ca_document = JString v, ca_created_at_us = now, ca_updated_at_us = now\<rparr>, \<lparr>cs_rows = [demo_row now v], cs_faults = []\<rparr>)"
proof -
  have "trim ''a'' \<noteq> []" by (simp add: trim_def is_ws_def)
  then show ?thesis
    by (simp add: control_get_def control_check_schema_def control_required_def CONTROL_API_SCHEMA_VERSION_def
        demo_selector_def select_asset_def demo_row_asset demo_row_is)
qed

theorem stored_assets_are_valid_witness:
  "\<exists>a. fst (control_get demo_control demo_selector (control_run demo_control [CS_Put 5 (demo_put ''one'' None)] control_open_in_memory)) = Inr a \<and>
     reject_embedded_secrets (ca_document a) = Inr () \<and>
     validate_document demo_control AK_Artifact (ca_document a) = Some (Inr (''a'', ''one''))"
proof -
  let ?st = "control_run demo_control [CS_Put 5 (demo_put ''one'' None)] control_open_in_memory"
  have st: "?st = \<lparr>cs_rows = [demo_row 5 ''one''], cs_faults = []\<rparr>" using demo_create [OF demo_versions(1)] by (simp add: control_run_def)
  from stored_assets_are_valid [OF demo_documents_roundtrip refl demo_get [of 5 "''one''", folded st]]
  show ?thesis unfolding st demo_get by simp
qed


theorem delete_removes_expected_generation_witness:
  "\<exists>st'. control_delete demo_control demo_selector 1 \<lparr>cs_rows = [demo_row 5 ''one''], cs_faults = []\<rparr> = (Inr (), st') \<and>
     catalog_at st' (AK_Artifact, ''a'') = None"
proof -
  let ?st = "\<lparr>cs_rows = [demo_row 5 ''one''], cs_faults = []\<rparr>"
  obtain res st' where p: "control_delete demo_control demo_selector 1 ?st = (res, st')" by fastforce
  have "?st = control_run demo_control [CS_Put 5 (demo_put ''one'' None)] control_open_in_memory"
    using demo_create [OF demo_versions(1)] by (simp add: control_run_def)
  then have ok: "catalog_ok demo_control (cs_rows ?st)" using run_keeps_catalog [OF catalog_ok_open] by metis
  have at: "map_option snd (catalog_at ?st (asl_kind demo_selector, asl_id demo_selector)) = Some 1"
    using demo_row_is [of 5 "''one''"] by (simp add: catalog_at_def demo_row_def demo_selector_def)
  have s: "asl_schema_version demo_selector = CONTROL_API_SCHEMA_VERSION" "trim (asl_id demo_selector) \<noteq> []"
    by (simp_all add: demo_selector_def CONTROL_API_SCHEMA_VERSION_def trim_def is_ws_def)
  from delete_removes_expected_generation [OF demo_documents_roundtrip ok _ s p] at p
  show ?thesis by (auto simp: demo_selector_def)
qed

text \<open>Generations do not identify an asset over its deletion: an update that was prepared for generation 1 of an
  asset is accepted after the asset was deleted and created again with another document, and overwrites it.\<close>

theorem recreated_asset_takes_stale_update:
  "let st1 = snd (control_put demo_control 1 (demo_put ''one'' None) control_open_in_memory);
       st2 = snd (control_delete demo_control demo_selector 1 st1);
       st3 = snd (control_put demo_control 2 (demo_put ''two'' None) st2);
       r = control_put demo_control 3 (demo_put ''three'' (Some 1)) st3
   in catalog_at st1 (AK_Artifact, ''a'') = Some (''one'', 1) \<and> catalog_at st2 (AK_Artifact, ''a'') = None \<and>
      catalog_at st3 (AK_Artifact, ''a'') = Some (''two'', 1) \<and>
      catalog_at (snd r) (AK_Artifact, ''a'') = Some (''three'', 2)"
proof -
  let ?st = "\<lambda>now v. \<lparr>cs_rows = [demo_row now v], cs_faults = []\<rparr>"
  have st1: "snd (control_put demo_control now (demo_put v None) control_open_in_memory) = ?st now v" if "trim v \<noteq> []" for now v
    using demo_create [OF that] by simp
  have "control_delete demo_control demo_selector 1 (?st 1 ''one'') = delete_apply demo_selector 1 (?st 1 ''one'')"
    by (simp add: control_delete_def delete_check_def demo_get)
  moreover have "ar_generation (demo_row 1 ''one'') = 1" "asl_kind demo_selector = AK_Artifact" "asl_id demo_selector = ''a''"
    by (simp_all add: demo_row_def demo_selector_def)
  ultimately have "snd (control_delete demo_control demo_selector 1 (?st 1 ''one'')) = \<lparr>cs_rows = [], cs_faults = []\<rparr>"
    by (simp add: delete_apply_def demo_row_is)
  then have st2: "snd (control_delete demo_control demo_selector 1 (?st 1 ''one'')) = control_open_in_memory"
    by (simp add: control_open_in_memory_def)
  have at: "catalog_at (?st now v) (AK_Artifact, ''a'') = Some (v, 1)" for now v
    using demo_row_is [of now v] by (simp add: catalog_at_def demo_row_def)
  have "catalog_at (snd (control_put demo_control 3 (demo_put ''three'' (Some 1)) (?st 2 ''two''))) (AK_Artifact, ''a'') = Some (''three'', 2)"
    using demo_screen [OF demo_versions(3)]
    by (simp add: control_put_def control_check_schema_def CONTROL_API_SCHEMA_VERSION_def demo_put_def put_locked_def select_asset_def
        demo_row_asset demo_row_is put_update_def saturating_inc_def i64_max_def commit_rows_def catalog_at_def row_is_update)
       (simp add: update_row_def)
  then show ?thesis
    unfolding Let_def st1 [OF demo_versions(1)] st2 st1 [OF demo_versions(2)] at by (simp add: catalog_at_def control_open_in_memory_def)
qed

end
