(* ===== verification/Daemon_Safety.thy ===== *)
theory Daemon_Safety
  imports Daemon Coordinator_Properties Authority_Safety Catalog_Properties
begin

text \<open>
  What the composition of the daemon promises.  The runtime and the extension authority write to one journal: the
  invariant of the authority is an instance of the locale \<open>recoverable_invariant\<close>, so that the whole coordinator keeps
  it, and the entries of the authority are foreign to the executor, so that the invariant of the runtime survives them.
  Histories are sequences of requests, restarts with recovery, shutdowns and changes of the storage faults.
\<close>

section \<open>The coordinator keeps the log of the authority\<close>

lemma authority_log_others:
  assumes "authority_log env es" "\<forall>x \<in> set new. je_object_type x \<notin> set extension_types"
  shows "authority_log env (es @ new)"
  using assms(2)
proof (induction new rule: rev_induct)
  case (snoc x new)
  then have "authority_log env (es @ new)" "je_object_type x \<notin> set extension_types" by simp_all
  from al_other [OF this] show ?case by simp
qed (use assms(1) in simp)

lemma extension_type_name: "obj \<in> set extension_types \<Longrightarrow> take 9 obj = ''Extension''"
  by (auto simp: extension_types_def)

definition authority_kept :: "authority_env \<Rightarrow> runtime_state \<Rightarrow> bool" where
  "authority_kept env s \<longleftrightarrow> protocol_ok env (rt_journal s)"

lemma authority_kept_extends:
  assumes "authority_kept env s" "log_extends N (rt_exec s) e" "\<And>x. N x \<Longrightarrow> je_object_type x \<notin> set extension_types"
  shows "authority_kept env (s\<lparr>rt_exec := e\<rparr>)"
proof -
  obtain new where n: "journal_wf (ex_journal e)" "journal_log (ex_journal e) = journal_log (rt_journal s) @ new" "\<forall>x \<in> set new. N x"
    using assms(2) by (auto simp: log_extends_def)
  have "authority_log env (journal_log (rt_journal s) @ new)"
    using authority_log_others [of env "journal_log (rt_journal s)" new] assms(1,3) n(3) by (simp add: authority_kept_def protocol_ok_def)
  then show ?thesis using n by (simp add: authority_kept_def protocol_ok_def)
qed

interpretation authority_rules: recoverable_invariant env "\<lambda>_. True" "\<lambda>_. True"
  "authority_kept (aenv\<lparr>ae_journal := xe_journal (re_exec env)\<rparr>)" for env aenv
proof
  let ?a = "aenv\<lparr>ae_journal := xe_journal (re_exec env)\<rparr>"
  show "authority_kept ?a s \<Longrightarrow> rt_exec s' = rt_exec s \<Longrightarrow> authority_kept ?a s'" for s s'
    by (simp add: authority_kept_def)
  show "authority_kept ?a (s\<lparr>rt_exec := snd (executor_append (re_exec env) now r ty obj phase payload (Some k) (rt_exec s))\<rparr>)"
    if "authority_kept ?a s" "foreign_write env (\<lambda>_. True) (\<lambda>_. True) r ty obj payload k" for s r ty obj payload k now phase
  proof (rule authority_kept_extends [OF that(1) log_extends_append])
    show "journal_wf (rt_journal s)" using that(1) by (simp add: authority_kept_def protocol_ok_def)
    show "je_object_type x = obj" if "same_content x (operation_entry r ty obj phase bytes (Some k))" for x bytes
      using that by (simp add: same_content_def operation_entry_def)
    show "je_object_type x \<notin> set extension_types" if "je_object_type x = obj" for x
      using extension_type_name \<open>foreign_write env (\<lambda>_. True) (\<lambda>_. True) r ty obj payload k\<close> that by (auto simp: foreign_write_def)
  qed
  show "authority_kept ?a (s\<lparr>rt_exec := snd (execute_cancellable (re_exec env) now cancelled crash r (rt_exec s))\<rparr>)"
    if "authority_kept ?a s" for s now cancelled crash r
  proof (rule authority_kept_extends [OF that execute_extends])
    show "journal_wf (rt_journal s)" using that by (simp add: authority_kept_def protocol_ok_def)
    show "je_object_type x \<notin> set extension_types" if "executor_writes (re_exec env) r x" for x
      using that by (auto simp: executor_writes_def is_step_def extension_types_def)
  qed
  show "authority_kept ?a (snd (record_profile env now p s))" if "authority_kept ?a s" for s now p
  proof (cases "enc (re_profile env) (p\<lparr>ep_recorded_at_us := now\<rparr>)")
    case (Inr b)
    let ?e = "profile_entry (p\<lparr>ep_recorded_at_us := now\<rparr>) b"
    have "je_object_type ?e \<notin> set extension_types" by (simp add: profile_entry_def extension_types_def)
    obtain res j where A: "journal_append (xe_journal (re_exec env)) now ?e (rt_journal s) = (res, j)" by fastforce
    have "protocol_ok ?a j"
      using authority_append_keeps [of ?a "rt_journal s" ?e now] that A \<open>je_object_type ?e \<notin> set extension_types\<close>
      by (simp add: authority_kept_def)
    then show ?thesis using A Inr by (simp add: record_profile_def profile_record_def Let_def authority_kept_def)
  qed (use that in \<open>simp add: record_profile_def profile_record_def authority_kept_def\<close>)
qed simp_all

section \<open>The entries of the authority are foreign to the executor\<close>

lemma extension_key_foreign: "foreign_key (extension_key x digest what k)"
  by (simp add: foreign_key_def extension_key_def)

lemma extension_entry_foreign:
  assumes "je_idempotency_key e = Some (extension_key x digest what k)" "je_object_type e \<in> set extension_types"
  shows "foreign_entry e" "\<not> is_intent e"
  using assms by (auto simp: foreign_entry_def is_intent_def extension_types_def extension_key_foreign)

definition authority_append :: "authority_env \<Rightarrow> Journal \<Rightarrow> Journal \<Rightarrow> bool" where
  "authority_append env j j' \<longleftrightarrow>
     j' = j \<or> (\<exists>now e res. journal_append (ae_journal env) now e j = (res, j') \<and> foreign_entry e \<and> \<not> is_intent e)"

lemma journal_outcome_append:
  assumes "journal_outcome env now c v entry reply j = (r, j')"
    and "\<And>payload. \<exists>x digest what k. je_idempotency_key (entry payload) = Some (extension_key x digest what k)"
    and "\<And>payload. je_object_type (entry payload) \<in> set extension_types"
  shows "authority_append env j j'"
proof (cases "enc c v")
  case (Inl err)
  then show ?thesis using assms(1) by (simp add: journal_outcome_def authority_append_def)
next
  case (Inr payload)
  obtain x digest what k where key: "je_idempotency_key (entry payload) = Some (extension_key x digest what k)" using assms(2) by blast
  note foreign = extension_entry_foreign [OF key assms(3)]
  obtain res j1 where ap: "journal_append (ae_journal env) now (entry payload) j = (res, j1)" by fastforce
  then have "j' = j1" using assms(1) Inr by (auto simp: journal_outcome_def split: sum.splits)
  then show ?thesis using ap foreign unfolding authority_append_def by blast
qed

lemma authority_append_refl [simp]: "authority_append env j j"
  by (simp add: authority_append_def)

lemma extension_handlers_append:
  "admit_extension env now q x1 j = (r, j') \<Longrightarrow> authority_append env j j'"
  "authorize_extension env now q x2 j = (r, j') \<Longrightarrow> authority_append env j j'"
  "authorize_extension_execution env now q x3 j = (r, j') \<Longrightarrow> authority_append env j j'"
  "revoke_extension env now q x4 j = (r, j') \<Longrightarrow> authority_append env j j'"
proof -
  have types: "''ExtensionAdmissionDecision'' \<in> set extension_types" "''ExtensionAuthorizationDecision'' \<in> set extension_types"
      "''ExtensionExecutionPermit'' \<in> set extension_types" "''ExtensionRevocationDecision'' \<in> set extension_types"
    by (simp_all add: extension_types_def)
  have out: "authority_append env j j'"
    if "journal_outcome env now c v (\<lambda>payload. extension_entry a ty b p ph g payload dg ac (extension_key x digest what k)) reply j = (r, j')"
      "ty \<in> set extension_types" for c and v :: 'v and a ty b p ph g dg ac x digest what k reply
    by (rule journal_outcome_append [OF that(1)]) (use that(2) in \<open>auto simp: extension_entry_def\<close>)
  have permit: "record_permit env now q x3 j = (r, j') \<Longrightarrow> authority_append env j j'"
    by (auto simp: record_permit_def execution_key_def Let_def dest!: out split: sum.splits intro: types)
  show "admit_extension env now q x1 j = (r, j') \<Longrightarrow> authority_append env j j'"
    by (auto simp: admit_extension_def Let_def dest!: out split: sum.splits intro: types)
  show "authorize_extension env now q x2 j = (r, j') \<Longrightarrow> authority_append env j j'"
    by (auto simp: authorize_extension_def record_authorization_def authorization_key_def Let_def dest!: out
        split: sum.splits option.splits if_splits intro: types)
  show "authorize_extension_execution env now q x3 j = (r, j') \<Longrightarrow> authority_append env j j'"
    by (auto simp: authorize_extension_execution_def dest!: permit split: sum.splits option.splits if_splits)
  show "revoke_extension env now q x4 j = (r, j') \<Longrightarrow> authority_append env j j'"
    by (auto simp: revoke_extension_def record_revocation_def revocation_key_def Let_def dest!: out
        split: sum.splits option.splits if_splits intro: types)
qed

lemma extension_dispatch_append: "extension_dispatch env now q j = (r, j') \<Longrightarrow> authority_append env j j'"
  using extension_handlers_append [of env now q _ j r j'] by (auto dest!: dispatch_cases)

section \<open>Dispatch\<close>

text \<open>What a request does to the runtime.\<close>

inductive runtime_effect :: "daemon_env \<Rightarrow> int \<Rightarrow> NKIRequest \<Rightarrow> runtime_state \<Rightarrow> runtime_state \<Rightarrow> bool"
  for env now q s where
  re_none: "runtime_effect env now q s s"
| re_submit: "nq_method q = ''SubmitWorkload'' \<Longrightarrow> de_operation env (nq_payload q) = Inr r \<Longrightarrow>
    runtime_effect env now q s (snd (runtime_execute (de_rt env) (bound_timeout now q r) s))"
| re_plan: "nq_method q = ''SubmitContinuityPlan'' \<Longrightarrow> de_plan env (nq_payload q) = Inr plan \<Longrightarrow>
    runtime_effect env now q s (snd (execute_continuously (de_rt env) plan s))"
| re_extension: "nq_method q \<in> set extension_methods \<Longrightarrow>
    extension_dispatch (daemon_authority env) now q (rt_journal s) = (r, j) \<Longrightarrow>
    runtime_effect env now q s (s\<lparr>rt_exec := (rt_exec s)\<lparr>ex_journal := j\<rparr>\<rparr>)"
| re_local: "nq_method q = ''ProbeEngine'' \<Longrightarrow> rt_exec s' = rt_exec s \<Longrightarrow> rt_active s' = rt_active s \<Longrightarrow> runtime_effect env now q s s'"
| re_cancel: "nq_method q = ''CancelWorkload'' \<Longrightarrow> runtime_effect env now q s (snd (runtime_cancel (de_rt env) w s))"

definition control_methods :: "string list" where
  "control_methods = [''RegisterModel'', ''ValidateModel'', ''PutControlAsset'', ''GetControlAsset'', ''ListControlAssets'', ''DeleteControlAsset'']"

text \<open>And to the catalogue: a sequence of its critical sections.\<close>

definition control_effect :: "daemon_env \<Rightarrow> NKIRequest \<Rightarrow> ControlPlaneStore \<Rightarrow> ControlPlaneStore \<Rightarrow> bool" where
  "control_effect env q st st' \<longleftrightarrow>
     (if nq_method q \<in> set control_methods then \<exists>cs. st' = control_run (de_control env) cs st else st' = st)"

lemma control_run_single: "control_run env [c] st = control_step env st c"
  by (simp add: control_run_def)

lemma put_outcome_effect:
  assumes "put_outcome env now p d = (r, d')"
  shows "dn_runtime d' = dn_runtime d" "\<exists>cs. dn_control d' = control_run (de_control env) cs (dn_control d)"
proof -
  obtain out st where p: "control_put (de_control env) now p (dn_control d) = (out, st)" by fastforce
  have d': "d' = d\<lparr>dn_control := st\<rparr>" using assms p by (auto simp: put_outcome_def answer_def split: option.splits sum.splits)
  then show "dn_runtime d' = dn_runtime d" by simp
  have "dn_control d' = control_run (de_control env) [CS_Put now p] (dn_control d)" using d' p by (simp add: control_run_single)
  then show "\<exists>cs. dn_control d' = control_run (de_control env) cs (dn_control d)" by blast
qed

lemma control_delete_sections:
  "\<exists>cs. snd (control_delete env s g st) = control_run env cs st"
proof -
  obtain out st1 where c: "delete_check env s g st = (out, st1)" by fastforce
  show ?thesis
  proof (cases out)
    case (Inl e)
    then have "snd (control_delete env s g st) = control_run env [CS_DeleteCheck s g] st" using c by (simp add: control_delete_def control_run_def)
    then show ?thesis by blast
  next
    case (Inr u)
    then have "snd (control_delete env s g st) = control_run env [CS_DeleteCheck s g, CS_DeleteApply s g] st"
      using c by (simp add: control_delete_def control_run_def)
    then show ?thesis by blast
  qed
qed

lemma control_handlers_effect:
  "register_model env now v d = (r, d') \<Longrightarrow> dn_runtime d' = dn_runtime d \<and> (\<exists>cs. dn_control d' = control_run (de_control env) cs (dn_control d))"
  "validate_model env v d = (r, d') \<Longrightarrow> d' = d"
  "put_control_asset env now q d = (r, d') \<Longrightarrow> dn_runtime d' = dn_runtime d \<and> (\<exists>cs. dn_control d' = control_run (de_control env) cs (dn_control d))"
  "get_control_asset env q d = (r, d') \<Longrightarrow> dn_runtime d' = dn_runtime d \<and> (\<exists>cs. dn_control d' = control_run (de_control env) cs (dn_control d))"
  "list_control_assets env q d = (r, d') \<Longrightarrow> dn_runtime d' = dn_runtime d \<and> (\<exists>cs. dn_control d' = control_run (de_control env) cs (dn_control d))"
  "delete_control_asset env v d = (r, d') \<Longrightarrow> dn_runtime d' = dn_runtime d \<and> (\<exists>cs. dn_control d' = control_run (de_control env) cs (dn_control d))"
proof -
  let ?run = "\<lambda>d'. \<exists>cs. dn_control d' = control_run (de_control env) cs (dn_control d)"
  have none: "?run d" by (rule exI [of _ "[]"]) (simp add: control_run_def)
  have get: "\<exists>cs. st = control_run (de_control env) cs (dn_control d)"
    if "control_get (de_control env) s (dn_control d) = (out, st)" for s out st
    by (rule exI [of _ "[CS_Get s]"]) (simp add: control_run_single that)
  have lst: "\<exists>cs. st = control_run (de_control env) cs (dn_control d)"
    if "control_list (de_control env) p (dn_control d) = (out, st)" for p out st
    by (rule exI [of _ "[CS_List p]"]) (simp add: control_run_single that)
  have del: "\<exists>cs. st = control_run (de_control env) cs (dn_control d)"
    if "control_delete (de_control env) s g (dn_control d) = (out, st)" for s g out st
    using control_delete_sections [of "de_control env" s g "dn_control d"] that by simp
  show "register_model env now v d = (r, d') \<Longrightarrow> dn_runtime d' = dn_runtime d \<and> ?run d'"
    unfolding register_model_def using put_outcome_effect by blast
  show "validate_model env v d = (r, d') \<Longrightarrow> d' = d"
    by (auto simp: validate_model_def answer_def split: option.splits sum.splits)
  show "put_control_asset env now q d = (r, d') \<Longrightarrow> dn_runtime d' = dn_runtime d \<and> ?run d'"
    using put_outcome_effect none by (auto simp: put_control_asset_def answer_def split: sum.splits)
  show "get_control_asset env q d = (r, d') \<Longrightarrow> dn_runtime d' = dn_runtime d \<and> ?run d'"
    using none by (auto simp: get_control_asset_def answer_def split: sum.splits prod.splits dest!: get)
  show "list_control_assets env q d = (r, d') \<Longrightarrow> dn_runtime d' = dn_runtime d \<and> ?run d'"
    using none by (auto simp: list_control_assets_def answer_def split: sum.splits prod.splits dest!: lst)
  show "delete_control_asset env v d = (r, d') \<Longrightarrow> dn_runtime d' = dn_runtime d \<and> ?run d'"
    using none by (auto simp: delete_control_asset_def answer_def split: sum.splits prod.splits option.splits dest!: del)
qed

lemma runtime_handlers_effect:
  "health_check env now d = (r, d') \<Longrightarrow> d' = d"
  "get_workload env v d = (r, d') \<Longrightarrow> d' = d"
  "list_workloads env v d = (r, d') \<Longrightarrow> d' = d"
  "explain_execution env v d = (r, d') \<Longrightarrow> d' = d"
  "get_metrics env v d = (r, d') \<Longrightarrow> dn_runtime d' = dn_runtime d \<and> dn_control d' = dn_control d"
  by (auto simp: health_check_def get_workload_def list_workloads_def explain_execution_def get_metrics_def answer_def Let_def
      split: option.splits sum.splits prod.splits)

lemma submit_effect:
  assumes "submit_workload env now q d = (r, d')" "nq_method q = ''SubmitWorkload''"
  shows "runtime_effect env now q (dn_runtime d) (dn_runtime d') \<and> dn_control d' = dn_control d"
proof (cases "de_operation env (nq_payload q)")
  case (Inl e)
  then show ?thesis using assms(1) by (auto simp: submit_workload_def answer_def intro: re_none)
next
  case (Inr op)
  obtain out s where x: "runtime_execute (de_rt env) (bound_timeout now q op) (dn_runtime d) = (out, s)" by fastforce
  then have "d' = d\<lparr>dn_runtime := s\<rparr>"
    using assms(1) Inr by (auto simp: submit_workload_def answer_def split: option.splits sum.splits)
  then show ?thesis using re_submit [OF assms(2) Inr, of now "dn_runtime d"] x by simp
qed

lemma plan_effect:
  assumes "submit_plan env q d = (r, d')" "nq_method q = ''SubmitContinuityPlan''"
  shows "runtime_effect env now q (dn_runtime d) (dn_runtime d') \<and> dn_control d' = dn_control d"
proof (cases "de_plan env (nq_payload q)")
  case (Inl e)
  then show ?thesis using assms(1) by (auto simp: submit_plan_def answer_def intro: re_none)
next
  case (Inr plan)
  obtain out s where x: "execute_continuously (de_rt env) plan (dn_runtime d) = (out, s)" by fastforce
  then have "d' = d\<lparr>dn_runtime := s\<rparr>"
    using assms(1) Inr by (auto simp: submit_plan_def answer_def split: option.splits sum.splits)
  then show ?thesis using re_plan [OF assms(2) Inr, of now "dn_runtime d"] x by simp
qed

lemma extension_effect:
  assumes "extension_request env now q d = (r, d')" "nq_method q \<in> set extension_methods"
  shows "runtime_effect env now q (dn_runtime d) (dn_runtime d') \<and> dn_control d' = dn_control d"
proof -
  obtain out j where x: "extension_dispatch (daemon_authority env) now q (dn_journal d) = (out, j)" by fastforce
  then show ?thesis using assms(1) re_extension [OF assms(2) x] by (auto simp: extension_request_def)
qed

lemma probe_effect:
  assumes "probe_engine env q d = (r, d')" "nq_method q = ''ProbeEngine''"
  shows "runtime_effect env now q (dn_runtime d) (dn_runtime d') \<and> dn_control d' = dn_control d"
  using assms(1) by (auto simp: probe_engine_def probe_provider_def answer_def split: sum.splits prod.splits
      intro: re_none intro!: re_local [OF assms(2)])

lemma cancel_effect:
  assumes "cancel_workload env v d = (r, d')" "nq_method q = ''CancelWorkload''"
  shows "runtime_effect env now q (dn_runtime d) (dn_runtime d') \<and> dn_control d' = dn_control d"
proof (cases "Option.bind (json_get ''workload_id'' v) json_as_str")
  case None
  then show ?thesis using assms(1) by (auto simp: cancel_workload_def answer_def intro: re_none)
next
  case (Some w)
  obtain out s where x: "runtime_cancel (de_rt env) w (dn_runtime d) = (out, s)" by fastforce
  then have "d' = d\<lparr>dn_runtime := s\<rparr>"
    using assms(1) Some by (auto simp: cancel_workload_def answer_def split: sum.splits)
  then show ?thesis using re_cancel [OF assms(2), of env now "dn_runtime d" w] x by simp
qed

lemma with_value_cases:
  assumes "with_value env q handler d = (r, d')" shows "d' = d \<or> (\<exists>v. handler v d = (r, d'))"
  using assms by (auto simp: with_value_def split: sum.splits)

lemma dispatch_effects:
  assumes "dispatch_request env now q d = (r, d')"
  shows "runtime_effect env now q (dn_runtime d) (dn_runtime d') \<and> control_effect env q (dn_control d) (dn_control d')"
proof -
  have same: ?thesis if "dn_runtime d' = dn_runtime d" "dn_control d' = dn_control d"
    using that exI [of "\<lambda>cs. dn_control d = control_run (de_control env) cs (dn_control d)" "[]"]
    by (auto simp: control_effect_def control_run_def intro: re_none)
  have control: ?thesis if "nq_method q \<in> set control_methods"
      "dn_runtime d' = dn_runtime d \<and> (\<exists>cs. dn_control d' = control_run (de_control env) cs (dn_control d))"
    using that re_none by (simp add: control_effect_def)
  have runtime: ?thesis if "nq_method q \<notin> set control_methods"
      "runtime_effect env now q (dn_runtime d) (dn_runtime d') \<and> dn_control d' = dn_control d"
    using that by (simp add: control_effect_def)
  have value_same: "dn_runtime d' = dn_runtime d \<and> dn_control d' = dn_control d"
    if "with_value env q handler d = (r, d')" "\<And>v. handler v d = (r, d') \<Longrightarrow> dn_runtime d' = dn_runtime d \<and> dn_control d' = dn_control d"
    for handler using with_value_cases [OF that(1)] that(2) by auto
  have value_control: "dn_runtime d' = dn_runtime d \<and> (\<exists>cs. dn_control d' = control_run (de_control env) cs (dn_control d))"
    if "with_value env q handler d = (r, d')"
      "\<And>v. handler v d = (r, d') \<Longrightarrow> dn_runtime d' = dn_runtime d \<and> (\<exists>cs. dn_control d' = control_run (de_control env) cs (dn_control d))"
    for handler
    using with_value_cases [OF that(1)] that(2) exI [of "\<lambda>cs. dn_control d = control_run (de_control env) cs (dn_control d)" "[]"]
    by (auto simp: control_run_def)
  have value_cancel: "runtime_effect env now q (dn_runtime d) (dn_runtime d') \<and> dn_control d' = dn_control d"
    if "with_value env q (cancel_workload env) d = (r, d')" "nq_method q = ''CancelWorkload''"
    using with_value_cases [OF that(1)] cancel_effect [OF _ that(2)] re_none by auto
  note cases = assms [unfolded dispatch_request_def Let_def]
  show ?thesis
  proof (cases "nq_method q \<in> set control_methods")
    case True
    then consider "nq_method q = ''RegisterModel''" | "nq_method q = ''ValidateModel''" | "nq_method q = ''PutControlAsset''"
      | "nq_method q = ''GetControlAsset''" | "nq_method q = ''ListControlAssets''" | "nq_method q = ''DeleteControlAsset''"
      by (auto simp: control_methods_def)
    then show ?thesis
    proof cases
      case 1
      then have "with_value env q (register_model env now) d = (r, d')" using cases by (simp add: extension_methods_def)
      then show ?thesis using control [OF True value_control] control_handlers_effect(1) by blast
    next
      case 2
      then have "with_value env q (validate_model env) d = (r, d')" using cases by (simp add: extension_methods_def)
      then show ?thesis using same value_same control_handlers_effect(2) by metis
    next
      case 3
      then have "put_control_asset env now q d = (r, d')" using cases by (simp add: extension_methods_def)
      then show ?thesis using control [OF True] control_handlers_effect(3) by blast
    next
      case 4
      then have "get_control_asset env q d = (r, d')" using cases by (simp add: extension_methods_def)
      then show ?thesis using control [OF True] control_handlers_effect(4) by blast
    next
      case 5
      then have "list_control_assets env q d = (r, d')" using cases by (simp add: extension_methods_def)
      then show ?thesis using control [OF True] control_handlers_effect(5) by blast
    next
      case 6
      then have "with_value env q (delete_control_asset env) d = (r, d')" using cases by (simp add: extension_methods_def)
      then show ?thesis using control [OF True value_control] control_handlers_effect(6) by blast
    qed
  next
    case False
    consider "nq_method q = ''SubmitWorkload''" | "nq_method q \<in> set extension_methods" | "nq_method q = ''SubmitContinuityPlan''"
      | "nq_method q = ''ProbeEngine''" | "nq_method q = ''CancelWorkload''"
      | "nq_method q \<notin> set ([''SubmitWorkload'', ''SubmitContinuityPlan'', ''ProbeEngine'', ''CancelWorkload''] @ extension_methods)" by force
    then show ?thesis
    proof cases
      case 1
      then show ?thesis using cases runtime [OF False submit_effect] by simp
    next
      case 2
      then have "extension_request env now q d = (r, d')" using cases by (auto simp: extension_methods_def)
      then show ?thesis using runtime [OF False extension_effect] 2 by blast
    next
      case 3
      then show ?thesis using cases runtime [OF False plan_effect] by (simp add: extension_methods_def)
    next
      case 4
      then show ?thesis using cases runtime [OF False probe_effect] by (simp add: extension_methods_def)
    next
      case 5
      then show ?thesis using cases runtime [OF False value_cancel] by (simp add: extension_methods_def)
    next
      case 6
      then have "dn_runtime d' = dn_runtime d \<and> dn_control d' = dn_control d"
        using cases False
        by (auto simp: control_methods_def answer_def dest: runtime_handlers_effect(1)
            dest!: value_same runtime_handlers_effect(2-5) split: if_splits)
      then show ?thesis using same by blast
    qed
  qed
qed

section \<open>Invariants of the daemon\<close>

text \<open>An invariant of the coordinator that only reads the log, and that the extension authority keeps, is kept by the whole
  daemon: by every request, by the start of the process with its recovery, by its shutdown and by changes of what the storage
  will answer.  Histories are arbitrary sequences of such events, requests to a process that was not started
  successfully included.\<close>

datatype daemon_event =
    DV_Start string bool
  | DV_Request request_inputs NKIRequest
  | DV_Shutdown
  | DV_Faults "string option list" "string option list"

definition set_faults :: "string option list \<Rightarrow> string option list \<Rightarrow> daemon_state \<Rightarrow> daemon_state" where
  "set_faults jf cf d =
     d\<lparr>dn_runtime := (dn_runtime d)\<lparr>rt_exec := (rt_exec (dn_runtime d))\<lparr>ex_journal := (dn_journal d)\<lparr>jn_faults := jf\<rparr>\<rparr>\<rparr>,
       dn_control := (dn_control d)\<lparr>cs_faults := cf\<rparr>\<rparr>"

fun daemon_step :: "daemon_env \<Rightarrow> string \<Rightarrow> daemon_event \<Rightarrow> daemon_state \<Rightarrow> daemon_state" where
  "daemon_step env token (DV_Start uuid loopback) d = snd (serve_start env token loopback uuid d)"
| "daemon_step env token (DV_Request inp q) d = snd (handle_request env token inp q d)"
| "daemon_step env token DV_Shutdown d = d\<lparr>dn_runtime := shutdown_request (dn_runtime d)\<rparr>"
| "daemon_step env token (DV_Faults jf cf) d = set_faults jf cf d"

definition daemon_run :: "daemon_env \<Rightarrow> string \<Rightarrow> daemon_event list \<Rightarrow> daemon_state \<Rightarrow> daemon_state" where
  "daemon_run env token evs d = fold (daemon_step env token) evs d"

definition daemon_fresh :: "string \<Rightarrow> daemon_state" where
  "daemon_fresh uuid = \<lparr>dn_runtime = runtime_fresh uuid, dn_control = control_open_in_memory, dn_integrity = []\<rparr>"

definition request_ok :: "(OperationRequest \<Rightarrow> bool) \<Rightarrow> daemon_env \<Rightarrow> NKIRequest \<Rightarrow> bool" where
  "request_ok ok env q \<longleftrightarrow>
     (if nq_method q = ''SubmitWorkload'' then (case de_operation env (nq_payload q) of Inl _ \<Rightarrow> True | Inr r \<Rightarrow> ok r)
      else if nq_method q = ''SubmitContinuityPlan''
      then (case de_plan env (nq_payload q) of Inl _ \<Rightarrow> True | Inr plan \<Rightarrow> list_all ok (plan_requests plan))
      else True)"

fun event_ok :: "(OperationRequest \<Rightarrow> bool) \<Rightarrow> daemon_env \<Rightarrow> daemon_event \<Rightarrow> bool" where
  "event_ok ok env (DV_Request inp q) = request_ok ok env q"
| "event_ok ok env _ = True"

lemma reopened_journal:
  assumes "journal_wf j" "fst (journal_open (jn_db j)) = Inr j'"
  shows "journal_wf j' \<and> journal_log j' = journal_log j"
proof -
  have rows: "db_rows (jn_db j') = db_rows (jn_db j)" "jn_next_sequence j' = max_sequence_of (db_rows (jn_db j)) + 1"
    using assms(2) by (auto simp: journal_open_def Let_def split: option.splits if_splits)
  have "row_sequence r \<le> max_sequence_of rows" if "r \<in> set rows" for r rows
    using that by (induction rows) (auto simp: max_sequence_of_def)
  then have "\<forall>r \<in> set (db_rows (jn_db j)). row_sequence r < max_sequence_of (db_rows (jn_db j)) + 1" by (simp add: less_Suc_eq_le)
  then show ?thesis using assms(1) rows by (simp add: journal_wf_def journal_log_def)
qed

lemma boot_failed_log:
  "journal_wf (rt_journal s) \<Longrightarrow> journal_wf (rt_journal (boot_failed s)) \<and> journal_log (rt_journal (boot_failed s)) = journal_log (rt_journal s)"
  by (auto simp: boot_failed_def journal_wf_def journal_log_def journal_open_def Let_def split: option.splits)

lemma booted_log:
  assumes "journal_wf (rt_journal s)" "boot_open env (jn_db (rt_journal s)) = Inr core"
  shows "journal_wf (rt_journal (start_runtime uuid core s)) \<and> journal_log (rt_journal (start_runtime uuid core s)) = journal_log (rt_journal s)"
proof -
  have "fst (journal_open (jn_db (rt_journal s))) = Inr (bc_journal core)"
    using assms(2) by (auto simp: boot_open_def split: sum.splits)
  from reopened_journal [OF assms(1) this] show ?thesis by (simp add: start_runtime_def)
qed

lemma handle_request_cases:
  "snd (handle_request env token inp q d) = d \<or>
   screen_envelope token (in_checked_at inp) q = None \<and> snd (handle_request env token inp q d) = snd (dispatch_request env (in_now inp) q d)"
  by (auto simp: handle_request_def split: option.split sum.split prod.split)

locale daemon_invariant = recoverable_invariant "de_rt denv" ok K I for denv ok K I +
  assumes ok_timeout: "ok r \<Longrightarrow> ok (r\<lparr>op_timeout_ms := t\<rparr>)"
    and inv_wf: "I s \<Longrightarrow> journal_wf (rt_journal s)"
    and inv_same_log: "I s \<Longrightarrow> journal_wf (rt_journal s') \<and> journal_log (rt_journal s') = journal_log (rt_journal s) \<Longrightarrow> I s'"
    and inv_extension: "I s \<Longrightarrow> extension_dispatch (daemon_authority denv) now q (rt_journal s) = (r', j) \<Longrightarrow>
      I (s\<lparr>rt_exec := (rt_exec s)\<lparr>ex_journal := j\<rparr>\<rparr>)"
begin

lemma inv_effect:
  assumes "I s" "request_ok ok denv q" "runtime_effect denv now q s s'"
  shows "I s'"
  using assms(3)
proof cases
  case (re_submit r)
  then have "ok r" using assms(2) by (simp add: request_ok_def)
  then have "ok (bound_timeout now q r)" by (simp add: bound_timeout_def Let_def ok_timeout)
  with inv_execute_internal [OF assms(1) this] re_submit show ?thesis by (simp add: runtime_execute_def)
next
  case (re_plan plan)
  then have "list_all ok (plan_requests plan)" using assms(2) by (simp add: request_ok_def)
  then have "ok (fc_request c)" if "step \<in> set (cp_steps plan)" "c \<in> set (cs_candidates step)" for step c
    using that by (auto simp: plan_requests_def list_all_iff)
  with inv_execute_continuously [OF assms(1)] re_plan show ?thesis by simp
qed (use assms(1) inv_extension inv_local inv_cancel in auto)

lemma inv_request:
  assumes "I (dn_runtime d)" "request_ok ok denv q"
  shows "I (dn_runtime (snd (handle_request denv token inp q d)))"
proof -
  obtain r d' where x: "dispatch_request denv (in_now inp) q d = (r, d')" by fastforce
  have "I (dn_runtime d')" using inv_effect [OF assms] dispatch_effects [OF x] by blast
  then show ?thesis using handle_request_cases [of denv token inp q d] assms(1) x by auto
qed

lemma inv_start:
  assumes "I (dn_runtime d)"
  shows "I (dn_runtime (snd (serve_start denv token loopback uuid d)))"
proof (cases "boot_open (xe_journal (re_exec (de_rt denv))) (jn_db (dn_journal d))")
  case (Inl e)
  then show ?thesis
    using assms inv_same_log [OF assms boot_failed_log [OF inv_wf [OF assms]]] by (simp add: serve_start_def)
next
  case (Inr core)
  have booted: "I (start_runtime uuid core (dn_runtime d))" by (rule inv_same_log [OF assms booted_log [OF inv_wf [OF assms] Inr]])
  obtain m st res s where "statement (dn_control d) = (m, st)"
      "runtime_recover (de_rt denv) (start_runtime uuid core (dn_runtime d)) = (res, s)" by fastforce
  then show ?thesis
    using assms Inr booted inv_recover [OF booted]
    by (cases m; cases res) (auto simp: serve_start_def Let_def split: sum.splits)
qed

lemma inv_event:
  assumes "I (dn_runtime d)" "event_ok ok denv ev"
  shows "I (dn_runtime (daemon_step denv token ev d))"
proof (cases ev)
  case DV_Shutdown
  then show ?thesis using inv_local [OF assms(1)] by (simp add: shutdown_request_def)
next
  case (DV_Faults jf cf)
  have "I (dn_runtime (set_faults jf cf d))"
    by (rule inv_same_log [OF assms(1)]) (use inv_wf [OF assms(1)] in \<open>simp add: set_faults_def journal_wf_def journal_log_def\<close>)
  then show ?thesis using DV_Faults by simp
qed (use assms inv_request inv_start in auto)

lemma inv_run: "I (dn_runtime d) \<Longrightarrow> list_all (event_ok ok denv) evs \<Longrightarrow> I (dn_runtime (daemon_run denv token evs d))"
  by (induction evs arbitrary: d) (simp_all add: daemon_run_def inv_event)

end

text \<open>The log of the authority, and the log of the executor, are such invariants.\<close>

lemma daemon_authority_update:
  "(de_authority env)\<lparr>ae_journal := xe_journal (re_exec (de_rt env))\<rparr> = daemon_authority env"
  by (simp add: daemon_authority_def)

definition decisions_decode :: "daemon_env \<Rightarrow> bool" where
  "decisions_decode env \<longleftrightarrow> codec_roundtrip (ae_decision (de_authority env))"

definition authority_intact :: "daemon_env \<Rightarrow> runtime_state \<Rightarrow> bool" where
  "authority_intact env s \<longleftrightarrow> decisions_decode env \<and> authority_kept (daemon_authority env) s"

interpretation daemon_authority_rules: daemon_invariant env "\<lambda>_. True" "\<lambda>_. True" "authority_intact env" for env
proof
  note rules = authority_rules.runtime_invariant_axioms [of "de_rt env" "de_authority env", unfolded daemon_authority_update]
  show "authority_intact env s \<Longrightarrow> foreign_write (de_rt env) (\<lambda>_. True) (\<lambda>_. True) r ty obj payload k \<Longrightarrow>
      authority_intact env (s\<lparr>rt_exec := snd (executor_append (re_exec (de_rt env)) now r ty obj phase payload (Some k) (rt_exec s))\<rparr>)"
    for s r ty obj payload k now phase
    using runtime_invariant.inv_append [OF rules] by (simp add: authority_intact_def)
  show "authority_intact env s \<Longrightarrow> authority_intact env (snd (record_profile (de_rt env) now p s))" for s now p
    using runtime_invariant.inv_profile [OF rules] by (simp add: authority_intact_def)
  show "authority_intact env s \<Longrightarrow>
      authority_intact env (s\<lparr>rt_exec := snd (execute_cancellable (re_exec (de_rt env)) now cancelled crash r (rt_exec s))\<rparr>)"
    for s now cancelled crash r
    using runtime_invariant.inv_execute [OF rules] by (simp add: authority_intact_def)
  show "authority_intact env (s\<lparr>rt_exec := (rt_exec s)\<lparr>ex_journal := j\<rparr>\<rparr>)"
    if "authority_intact env s" "extension_dispatch (daemon_authority env) now q (rt_journal s) = (r', j)" for s now q r' j
    using dispatch_keeps [of "daemon_authority env" "rt_journal s" now q] that
    by (simp add: authority_intact_def authority_kept_def decisions_decode_def daemon_authority_def)
qed (auto simp: authority_intact_def authority_kept_def protocol_ok_def)

interpretation daemon_journal_rules:
  daemon_invariant env "admissible W" "\<lambda>k. key_tail k \<notin> executor_tails" "rt_good (de_rt env) W" for env W
proof
  show "rt_good (de_rt env) W (s\<lparr>rt_exec := (rt_exec s)\<lparr>ex_journal := j\<rparr>\<rparr>)"
    if good: "rt_good (de_rt env) W s" and x: "extension_dispatch (daemon_authority env) now q (rt_journal s) = (r', j)" for s now q r' j
    using extension_dispatch_append [OF x] unfolding authority_append_def
  proof (elim disjE exE conjE)
    fix now e res
    assume "journal_append (ae_journal (daemon_authority env)) now e (rt_journal s) = (res, j)" "foreign_entry e" "\<not> is_intent e"
    then show ?thesis using rt_good_foreign [OF good, of now e res j] by (simp add: daemon_authority_def intent_ok_def)
  qed (use good in simp)
  show "rt_good (de_rt env) W s'"
    if "rt_good (de_rt env) W s" "journal_wf (rt_journal s') \<and> journal_log (rt_journal s') = journal_log (rt_journal s)" for s s'
    using that by (simp add: rt_good_def exec_good_def exec_inv_def owned_by_def)
qed (simp_all add: admissible_def plain_request_def rt_good_wf)

end
