(* ===== verification/Daemon_Properties.thy ===== *)
theory Daemon_Properties
  imports Daemon_Safety
begin

text \<open>
  The properties of the daemon as its clients see it: permits need approvals, commits are unique, an answered submission is
  answered the same way for ever, requests without the session token have no effect, the catalogue and the kernel do not
  touch each other, and a connection answers its requests in order.
\<close>

section \<open>Histories only extend the log\<close>

interpretation daemon_growth: daemon_invariant env "\<lambda>_. True" "\<lambda>_. True" "log_from base" for env base
proof
  show "log_from base (s\<lparr>rt_exec := (rt_exec s)\<lparr>ex_journal := j\<rparr>\<rparr>)"
    if "log_from base s" and x: "extension_dispatch (daemon_authority env) now q (rt_journal s) = (r', j)" for s now q r' j
    using extension_dispatch_append [OF x] unfolding authority_append_def
  proof (elim disjE exE conjE)
    fix now e res
    assume a: "journal_append (ae_journal (daemon_authority env)) now e (rt_journal s) = (res, j)"
    have wf: "journal_wf (rt_journal s)" using that(1) by (simp add: log_from_def)
    have "journal_wf j" using journal_wf_append [OF wf] a by (metis snd_conv)
    moreover from wf a have "prefix base (journal_log j)"
      by (cases rule: jl.append_cases) (use that(1) in \<open>auto simp: log_from_def intro: prefix_prefix\<close>)
    ultimately show ?thesis by (simp add: log_from_def)
  qed (use that(1) in simp)
qed (auto simp: log_from_def)

lemma event_ok_any: "list_all (event_ok (\<lambda>_. True) env) evs"
proof -
  have "event_ok (\<lambda>_. True) env ev" for ev
    by (cases ev) (auto simp: request_ok_def list_all_iff split: sum.split)
  then show ?thesis by (simp add: list_all_iff)
qed

lemma fresh_authority: "decisions_decode env \<Longrightarrow> authority_intact env (dn_runtime (daemon_fresh uuid))"
  using fresh_journal_ok [of "daemon_authority env" "[]"]
  by (simp add: authority_intact_def authority_kept_def daemon_fresh_def runtime_fresh_def kernel_runtime_new_def fresh_journal_def
      journal_open_in_memory_def)

lemma fresh_good:
  "codec_roundtrip (xe_receipt (re_exec (de_rt env))) \<Longrightarrow> codec_roundtrip (xe_request (re_exec (de_rt env))) \<Longrightarrow>
   rt_good (de_rt env) W (dn_runtime (daemon_fresh uuid))"
  using rt_good_fresh by (simp add: daemon_fresh_def)

lemma handled:
  assumes "handle_request env token inp q d = (Some (Inr response), d')" "nr_outcome response = NKI_Success v"
  shows "dispatch_request env (in_now inp) q d = (Some (Inr (NKI_Success v)), d')"
proof (cases "screen_envelope token (in_checked_at inp) q")
  case None
  then show ?thesis using assms by (auto simp: handle_request_def respond_def split: option.splits sum.splits prod.splits)
next
  case (Some outcome)
  then have "outcome = NKI_Success v" using assms by (auto simp: handle_request_def respond_def)
  then show ?thesis using Some by (auto simp: screen_envelope_def split: if_splits)
qed

section \<open>Extensions\<close>

text \<open>C6.  The daemon never permits an extension to execute without a current approval: in any history of requests of every kind,
  storage faults, starts with recovery and shutdowns, a request to execute succeeds only when the journal holds,
  in this order, the admission of the same extension with the same content digest, and a valid approval of that admission
  that names the capability; since the approval nothing was approved or revoked for the extension.  The scope
  and the executor of the execution are those the admitted request asked for.  Nothing the kernel runs, no operation, plan,
  cancellation or recovery, can forge such entries, although everything is written to one journal.\<close>

theorem daemon_permits_need_approval:
  assumes "decisions_decode env" "d = daemon_run env token evs (daemon_fresh uuid)"
    and "nq_method q = ''AuthorizeExtensionExecution''" "dec (ae_execution_request (de_authority env)) (nq_payload q) = Inr x"
    and "handle_request env token inp q d = (Some (Inr response), d')" "nr_outcome response = NKI_Success v"
  shows "\<exists>extension a. approval_chain (daemon_authority env) (journal_log (dn_journal d)) extension a (eer_authorization_receipt_id x) \<and>
    authorization_request_validate a = Inr () \<and> admission_request_validate extension = Inr () \<and>
    ear_extension_id extension = eer_extension_id x \<and> ear_content_digest extension = eer_content_digest x \<and>
    eer_capability x \<in> set (eau_approved_capabilities a) \<inter> set (requested_capabilities (eau_admission a)) \<and>
    set (eer_scope x) \<subseteq> set (or_default_list (scope_constraints_of extension (eer_capability x))) \<and>
    ear_executor extension \<in> {[], eer_executor x}"
proof -
  have "authority_intact env (dn_runtime d)"
    unfolding assms(2) by (rule daemon_authority_rules.inv_run [OF fresh_authority [OF assms(1)] event_ok_any])
  then have ok: "protocol_ok (daemon_authority env) (dn_journal d)" by (simp add: authority_intact_def authority_kept_def)
  have "extension_request env (in_now inp) q d = (Some (Inr (NKI_Success v)), d')"
    using handled [OF assms(5,6)] assms(3) by (simp add: dispatch_request_def extension_methods_def)
  then obtain j where "extension_dispatch (daemon_authority env) (in_now inp) q (dn_journal d) = (Inr (NKI_Success v), j)"
    by (auto simp: extension_request_def split: prod.splits)
  then have "authorize_extension_execution (daemon_authority env) (in_now inp) q x (dn_journal d) = (Inr (NKI_Success v), j)"
    using assms(3,4) by (simp add: extension_dispatch_def decode_payload_def daemon_authority_def)
  from permitted_execution [OF ok this] show ?thesis .
qed

section \<open>Operations\<close>

text \<open>C3.  Operations commit once, whatever the clients, the storage and the process do: in every history of the daemon the journal holds at
  most one commit and at most one receipt per operation, provided that an operation id belongs to one workload, that no
  provider revision ends like one of the executor's own keys, and that requests and receipts decode to what was encoded.\<close>

theorem daemon_commits_once:
  assumes "codec_roundtrip (xe_receipt (re_exec (de_rt env)))" "codec_roundtrip (xe_request (re_exec (de_rt env)))"
    and "list_all (event_ok (admissible W) env) evs"
  shows "let log = journal_log (dn_journal (daemon_run env token evs (daemon_fresh uuid)))
    in length (filter (is_step ET_Commit ''StepCommit'' oid) log) \<le> 1 \<and>
       length (filter (is_step ET_Observation ''OperationReceipt'' oid) log) \<le> 1"
  using rt_good_unique_steps [OF daemon_journal_rules.inv_run [OF fresh_good [OF assms(1,2)] assms(3)]] by (simp add: Let_def)

lemma bound_timeout_same:
  "op_operation_id (bound_timeout now q r) = op_operation_id r" "admissible W (bound_timeout now q r) = admissible W r"
  "op_validate_sensitive_references (bound_timeout now q r) = op_validate_sensitive_references r"
  by (simp_all add: bound_timeout_def Let_def admissible_def plain_request_def op_validate_sensitive_references_def)


section \<open>Requests without the session token\<close>

fun authentic :: "string \<Rightarrow> daemon_event \<Rightarrow> bool" where
  "authentic token (DV_Request inp q) = (token = [] \<or> nq_session_token q = token)"
| "authentic token _ = True"

fun token_fits :: "daemon_event \<Rightarrow> bool" where
  "token_fits (DV_Request inp q) = (length (nq_session_token q) < 2 ^ 64)"
| "token_fits _ = True"

lemma unauthenticated_refused:
  assumes "length token < 2 ^ 64" "length (nq_session_token q) < 2 ^ 64" "token \<noteq> []" "nq_session_token q \<noteq> token"
  shows "\<exists>e. screen_envelope token now q = Some (NKI_Error e)"
proof -
  have "\<not> constant_time_equal (nq_session_token q) token" using token_equal [OF assms(2,1)] assms(4) by simp
  then show ?thesis using assms(3) by (simp add: screen_envelope_def nki_error_def)
qed

text \<open>C7.  A client without the session token can do nothing: it is answered with an error, and in every history, whatever was
  submitted, cancelled, approved or written by such requests, the daemon reaches the same state as if they had never been
  sent.\<close>

theorem unauthenticated_requests_have_no_effect:
  assumes "length token < 2 ^ 64" "list_all token_fits evs"
  shows "daemon_run env token evs d = daemon_run env token (filter (authentic token) evs) d \<and>
    list_all (\<lambda>ev. authentic token ev \<or>
      (\<exists>inp q e. ev = DV_Request inp q \<and> fst (handle_request env token inp q d) = Some (Inr (respond inp q (NKI_Error e))))) evs"
proof -
  have refused: "\<exists>inp q e. ev = DV_Request inp q \<and> (\<forall>d. handle_request env token inp q d = (Some (Inr (respond inp q (NKI_Error e))), d))"
    if fits: "token_fits ev" and bad: "\<not> authentic token ev" for ev
  proof (cases ev)
    case (DV_Request inp q)
    then obtain e where "screen_envelope token (in_checked_at inp) q = Some (NKI_Error e)"
      using unauthenticated_refused [OF assms(1), of q "in_checked_at inp"] fits bad by auto
    then show ?thesis using DV_Request by (auto simp: handle_request_def)
  qed (use bad in simp_all)
  then have "daemon_step env token ev d = d" if "token_fits ev" "\<not> authentic token ev" for ev d using that by fastforce
  then have "daemon_run env token evs d = daemon_run env token (filter (authentic token) evs) d" for d
    using assms(2) by (induction evs arbitrary: d) (simp_all add: daemon_run_def)
  moreover have "list_all (\<lambda>ev. authentic token ev \<or>
      (\<exists>inp q e. ev = DV_Request inp q \<and> fst (handle_request env token inp q d) = Some (Inr (respond inp q (NKI_Error e))))) evs"
    using assms(2) refused by (fastforce simp: list_all_iff)
  ultimately show ?thesis by blast
qed

section \<open>The catalogue and the kernel\<close>

text \<open>A session is a sequence of requests, each with the inputs it reads.\<close>

definition session :: "daemon_env \<Rightarrow> string \<Rightarrow> (request_inputs \<times> NKIRequest) list \<Rightarrow> daemon_state \<Rightarrow> daemon_state" where
  "session env token rqs d = fold (\<lambda>(inp, q) d. snd (handle_request env token inp q d)) rqs d"

lemma session_simps [simp]:
  "session env token [] d = d"
  "session env token ((inp, q) # rqs) d = session env token rqs (snd (handle_request env token inp q d))"
  by (simp_all add: session_def)

definition is_control :: "request_inputs \<times> NKIRequest \<Rightarrow> bool" where
  "is_control rq \<longleftrightarrow> nq_method (snd rq) \<in> set control_methods"

lemma put_outcome_local:
  "dn_control d = dn_control d' \<Longrightarrow> dn_control (snd (put_outcome env now p d)) = dn_control (snd (put_outcome env now p d'))"
  by (simp add: put_outcome_def answer_def split: prod.split option.split sum.split)

lemma control_local:
  assumes "nq_method q \<in> set control_methods" "dn_control d = dn_control d'"
  shows "dn_control (snd (dispatch_request env now q d)) = dn_control (snd (dispatch_request env now q d'))"
proof -
  note local = assms(2) put_outcome_local [OF assms(2)]
  have handlers: "dn_control (snd (register_model env now v d)) = dn_control (snd (register_model env now v d'))"
      "dn_control (snd (validate_model env v d)) = dn_control (snd (validate_model env v d'))"
      "dn_control (snd (delete_control_asset env v d)) = dn_control (snd (delete_control_asset env v d'))"
      "dn_control (snd (put_control_asset env now q d)) = dn_control (snd (put_control_asset env now q d'))"
      "dn_control (snd (get_control_asset env q d)) = dn_control (snd (get_control_asset env q d'))"
      "dn_control (snd (list_control_assets env q d)) = dn_control (snd (list_control_assets env q d'))" for v
    using local
    by (simp_all add: register_model_def validate_model_def delete_control_asset_def put_control_asset_def get_control_asset_def
        list_control_assets_def answer_def split: sum.split prod.split option.split)
  have valued: "dn_control (snd (with_value env q h d)) = dn_control (snd (with_value env q h d'))"
    if "\<And>v. dn_control (snd (h v d)) = dn_control (snd (h v d'))" for h
    using that assms(2) by (simp add: with_value_def split: sum.split)
  consider "nq_method q = ''RegisterModel''" | "nq_method q = ''ValidateModel''" | "nq_method q = ''PutControlAsset''"
    | "nq_method q = ''GetControlAsset''" | "nq_method q = ''ListControlAssets''" | "nq_method q = ''DeleteControlAsset''"
    using assms(1) by (auto simp: control_methods_def)
  then show ?thesis
    by cases (simp_all add: dispatch_request_def extension_methods_def valued handlers)
qed

lemma runtime_local:
  assumes "nq_method q \<notin> set control_methods" "dn_runtime d = dn_runtime d'"
  shows "dn_runtime (snd (dispatch_request env now q d)) = dn_runtime (snd (dispatch_request env now q d'))"
proof -
  have "dn_runtime (snd (submit_workload env now q d)) = dn_runtime (snd (submit_workload env now q d'))"
    using assms(2) by (simp add: submit_workload_def answer_def split: sum.split prod.split option.split)
  moreover have "dn_runtime (snd (submit_plan env q d)) = dn_runtime (snd (submit_plan env q d'))"
    using assms(2) by (simp add: submit_plan_def answer_def split: sum.split prod.split option.split)
  moreover have "dn_runtime (snd (extension_request env now q d)) = dn_runtime (snd (extension_request env now q d'))"
    using assms(2) by (simp add: extension_request_def split: prod.split)
  moreover have "dn_runtime (snd (probe_engine env q d)) = dn_runtime (snd (probe_engine env q d'))"
    using assms(2) by (simp add: probe_engine_def answer_def split: sum.split prod.split)
  moreover have "dn_runtime (snd (cancel_workload env v d)) = dn_runtime (snd (cancel_workload env v d'))" for v
    using assms(2) by (simp add: cancel_workload_def answer_def split: sum.split prod.split option.split)
  moreover have "dn_runtime (snd (get_metrics env v d)) = dn_runtime (snd (get_metrics env v d'))" for v
    using runtime_handlers_effect(5) [of env v d] runtime_handlers_effect(5) [of env v d'] assms(2) by (metis prod.collapse)
  moreover have "snd (health_check env now e) = e" "snd (get_workload env v e) = e" "snd (list_workloads env v e) = e"
      "snd (explain_execution env v e) = e" for v e
    using runtime_handlers_effect(1-4) by (metis prod.collapse)+
  ultimately show ?thesis
    using assms by (auto simp: dispatch_request_def Let_def control_methods_def with_value_def answer_def split: sum.split)
qed

lemma control_no_runtime_effect:
  assumes "runtime_effect env now q s s'" "nq_method q \<in> set control_methods"
  shows "s' = s"
proof -
  have a: "nq_method q \<notin> set extension_methods" using assms(2) by (auto simp: control_methods_def extension_methods_def)
  have b: "nq_method q \<notin> {''SubmitWorkload'', ''SubmitContinuityPlan'', ''ProbeEngine'', ''CancelWorkload''}"
    using assms(2) by (auto simp: control_methods_def)
  from assms(1) show ?thesis by cases (use a b in simp_all)
qed

lemma handle_local:
  "dn_runtime d = dn_runtime d' \<Longrightarrow> nq_method q \<notin> set control_methods \<Longrightarrow>
     dn_runtime (snd (handle_request env token inp q d)) = dn_runtime (snd (handle_request env token inp q d'))"
  "dn_control d = dn_control d' \<Longrightarrow> nq_method q \<in> set control_methods \<Longrightarrow>
     dn_control (snd (handle_request env token inp q d)) = dn_control (snd (handle_request env token inp q d'))"
  "nq_method q \<in> set control_methods \<Longrightarrow> dn_runtime (snd (handle_request env token inp q d)) = dn_runtime d"
  "nq_method q \<notin> set control_methods \<Longrightarrow> dn_control (snd (handle_request env token inp q d)) = dn_control d"
proof -
  have snd_eq: "snd (handle_request env token inp q d) =
      (case screen_envelope token (in_checked_at inp) q of Some _ \<Rightarrow> d | None \<Rightarrow> snd (dispatch_request env (in_now inp) q d))" for d
    by (simp add: handle_request_def split: option.split prod.split sum.split)
  have eff: "runtime_effect env (in_now inp) q (dn_runtime d) (dn_runtime (snd (dispatch_request env (in_now inp) q d))) \<and>
      control_effect env q (dn_control d) (dn_control (snd (dispatch_request env (in_now inp) q d)))"
    using dispatch_effects by (metis prod.collapse)
  show "dn_runtime d = dn_runtime d' \<Longrightarrow> nq_method q \<notin> set control_methods \<Longrightarrow>
     dn_runtime (snd (handle_request env token inp q d)) = dn_runtime (snd (handle_request env token inp q d'))"
    unfolding snd_eq using runtime_local [of q d d' env "in_now inp"] by (simp split: option.split)
  show "dn_control d = dn_control d' \<Longrightarrow> nq_method q \<in> set control_methods \<Longrightarrow>
     dn_control (snd (handle_request env token inp q d)) = dn_control (snd (handle_request env token inp q d'))"
    unfolding snd_eq using control_local [of q d d' env "in_now inp"] by (simp split: option.split)
  show "nq_method q \<notin> set control_methods \<Longrightarrow> dn_control (snd (handle_request env token inp q d)) = dn_control d"
    unfolding snd_eq using eff by (auto simp: control_effect_def split: option.split)
  show "nq_method q \<in> set control_methods \<Longrightarrow> dn_runtime (snd (handle_request env token inp q d)) = dn_runtime d"
    unfolding snd_eq using control_no_runtime_effect eff by (auto split: option.split)
qed

text \<open>C8.  The catalogue and the kernel do not influence each other while the daemon serves: the runtime, with its journal, leases,
  active operations and calls, is after any session what it would be without the control-plane requests, and the catalogue is what it
  would be without all others.\<close>

theorem catalogue_and_kernel_are_separate:
  "dn_runtime (session env token rqs d) = dn_runtime (session env token (filter (\<lambda>rq. \<not> is_control rq) rqs) d) \<and>
   dn_control (session env token rqs d) = dn_control (session env token (filter is_control rqs) d)"
proof -
  have kernel: "dn_runtime (session env token rqs d) = dn_runtime (session env token (filter (\<lambda>rq. \<not> is_control rq) rqs) d')"
    if "dn_runtime d = dn_runtime d'" for d d'
    using that
  proof (induction rqs arbitrary: d d')
    case (Cons rq rqs)
    obtain inp q where rq: "rq = (inp, q)" by fastforce
    show ?case
    proof (cases "is_control rq")
      case True
      then show ?thesis using Cons.IH [of "snd (handle_request env token inp q d)" d'] Cons.prems handle_local(3) rq by (simp add: is_control_def)
    next
      case False
      then have "dn_runtime (snd (handle_request env token inp q d)) = dn_runtime (snd (handle_request env token inp q d'))"
        using handle_local(1) [OF Cons.prems] rq by (simp add: is_control_def)
      from Cons.IH [OF this] False rq show ?thesis by simp
    qed
  qed simp
  have catalogue: "dn_control (session env token rqs d) = dn_control (session env token (filter is_control rqs) d')"
    if "dn_control d = dn_control d'" for d d'
    using that
  proof (induction rqs arbitrary: d d')
    case (Cons rq rqs)
    obtain inp q where rq: "rq = (inp, q)" by fastforce
    show ?case
    proof (cases "is_control rq")
      case False
      then show ?thesis using Cons.IH [of "snd (handle_request env token inp q d)" d'] Cons.prems handle_local(4) rq by (simp add: is_control_def)
    next
      case True
      then have "dn_control (snd (handle_request env token inp q d)) = dn_control (snd (handle_request env token inp q d'))"
        using handle_local(2) [OF Cons.prems] rq by (simp add: is_control_def)
      from Cons.IH [OF this] True rq show ?thesis by simp
    qed
  qed simp
  show ?thesis using kernel catalogue by blast
qed

section \<open>A connection\<close>

text \<open>The requests of a stream: the bodies of its frames, up to the first that is not a request, with the inputs they read.\<close>

definition stream_requests :: "connection_env \<Rightarrow> (nat \<Rightarrow> request_inputs) \<Rightarrow> nat \<Rightarrow> string \<Rightarrow> (request_inputs \<times> NKIRequest) list" where
  "stream_requests cn inputs n stream =
     (let bodies = takeWhile (\<lambda>b. \<exists>q. dec (cn_request cn) b = Inr q) (fst (read_frames stream))
      in map (\<lambda>(i, b). (inputs i, projr (dec (cn_request cn) b))) (zip [n..<n + length bodies] bodies))"

lemma stream_requests_end:
  "(\<And>body rest. read_frame stream \<noteq> FR_Frame body rest) \<Longrightarrow> stream_requests cn inputs n stream = []"
  by (cases "read_frame stream") (auto simp: stream_requests_def read_frames.simps [of stream])

lemma stream_requests_frame:
  "read_frame stream = FR_Frame body rest \<Longrightarrow> stream_requests cn inputs n stream =
     (case dec (cn_request cn) body of Inl _ \<Rightarrow> [] | Inr q \<Rightarrow> (inputs n, q) # stream_requests cn inputs (Suc n) rest)"
  by (auto simp: stream_requests_def read_frames.simps [of stream] Let_def upt_conv_Cons split: prod.split sum.split simp del: upt_Suc)

text \<open>What a response that is framed decodes to.\<close>

lemma encoded_response:
  assumes "codec_roundtrip c" "codec_encode c x = Inr frame" "length frame < 2 ^ 32"
  shows "codec_decode c frame = Inr x"
proof -
  obtain b where b: "enc c x = Inr b" "frame = encode_raw b" using assms(2) by (auto simp: codec_encode_def split: sum.splits)
  then have "length b < 2 ^ 32" using assms(3) by (simp add: encode_raw_def)
  from frame_header [OF this, of "[]"] b show ?thesis
    using codec_roundtripD [OF assms(1) b(1)] by (simp add: codec_decode_def Let_def encode_raw_def u32_to_be_bytes_def)
qed

definition answers :: "connection_env \<Rightarrow> string \<Rightarrow> request_inputs \<times> NKIRequest \<Rightarrow> bool" where
  "answers cn frame rq \<longleftrightarrow> (\<exists>outcome. codec_decode (cn_response cn) frame = Inr (respond (fst rq) (snd rq) outcome))"

text \<open>How far a connection got: the answers it sent, and whether the last request was handled without one.\<close>

definition served :: "daemon_env \<Rightarrow> connection_env \<Rightarrow> string \<Rightarrow> (request_inputs \<times> NKIRequest) list \<Rightarrow> daemon_state \<Rightarrow>
    connection_end \<Rightarrow> string list \<Rightarrow> daemon_state \<Rightarrow> bool" where
  "served env cn token rqs d how frames d' \<longleftrightarrow>
     list_all2 (answers cn) frames (take (length frames) rqs) \<and>
     (if how = CE_Closed then length frames = length rqs \<and> d' = session env token rqs d
      else d' \<in> {session env token (take (length frames) rqs) d, session env token (take (Suc (length frames)) rqs) d})"

lemma served_nothing: "d' \<in> {d, session env token (take 1 rqs) d} \<Longrightarrow> how \<noteq> CE_Closed \<Longrightarrow> served env cn token rqs d how [] d'"
  by (auto simp: served_def)

lemma served_one:
  assumes "served env cn token rqs (snd (handle_request env token inp q d)) how frames d'" "answers cn frame (inp, q)"
  shows "served env cn token ((inp, q) # rqs) d how (frame # frames) d'"
  using assms by (auto simp: served_def)

lemma handled_response:
  assumes "handle_request env token inp q d = (Some (Inr response), d')" shows "\<exists>outcome. response = respond inp q outcome"
  using assms by (auto simp: handle_request_def split: option.splits sum.splits prod.splits)

lemma connection_served:
  assumes "codec_roundtrip (cn_response cn)" "handle_connection env cn token inputs n stream d = (how, frames, d')"
    and "list_all (\<lambda>f. length f < 2 ^ 32) frames"
  shows "served env cn token (stream_requests cn inputs n stream) d how frames d'"
  using assms(2,3)
proof (induction stream arbitrary: n d frames rule: measure_induct_rule [of length])
  case (less stream)
  note run = less.prems(1) [unfolded handle_connection.simps [of env cn token inputs n stream d]]
  show ?case
  proof (cases "read_frame stream")
    case (FR_Frame body rest)
    show ?thesis
    proof (cases "dec (cn_request cn) body")
      case (Inl e)
      then show ?thesis using run FR_Frame by (auto simp: stream_requests_frame [OF FR_Frame] intro!: served_nothing)
    next
      case (Inr q)
      obtain res d1 where h: "handle_request env token (inputs n) q d = (res, d1)" by fastforce
      note rqs = stream_requests_frame [OF FR_Frame, of cn inputs n, unfolded Inr sum.case]
      show ?thesis
      proof (cases "\<exists>response frame. res = Some (Inr response) \<and> codec_encode (cn_response cn) response = Inr frame")
        case True
        then obtain response frame where r: "res = Some (Inr response)" "codec_encode (cn_response cn) response = Inr frame" by blast
        obtain frames' where f: "handle_connection env cn token inputs (Suc n) rest d1 = (how, frames', d')" "frames = frame # frames'"
          using run FR_Frame Inr h r by (auto split: prod.splits)
        have "served env cn token (stream_requests cn inputs (Suc n) rest) d1 how frames' d'"
          using less.IH [OF read_frame_shorter [OF FR_Frame] f(1)] less.prems(2) f(2) by simp
        moreover have "answers cn frame (inputs n, q)"
          using encoded_response [OF assms(1) r(2)] less.prems(2) f(2) handled_response h r(1) by (fastforce simp: answers_def)
        ultimately show ?thesis unfolding rqs f(2) using h by (intro served_one) simp_all
      next
        case False
        then have "frames = []" "d' = d1" "how \<noteq> CE_Closed"
          using run FR_Frame Inr h by (auto split: option.splits sum.splits)
        then show ?thesis unfolding rqs using h by (simp add: served_nothing)
      qed
    qed
  qed (use run in \<open>auto simp: stream_requests_end served_def\<close>)
qed


section \<open>Examples\<close>

text \<open>An execution does not change the state of the kernel.\<close>

lemma lease_operation_kernel: "rt_kernel (snd (lease_operation env inp r placement trace s)) = rt_kernel s"
  by (auto simp: lease_operation_def rt_release_def rt_append_exec Let_def split: sum.split prod.split)

lemma begin_execution_kernel: "rt_kernel (snd (begin_execution env inp r s)) = rt_kernel s"
proof -
  have lease: "lease_operation env inp r placement trace t = (res, t') \<Longrightarrow> rt_kernel t' = rt_kernel t" for placement trace t res t'
    using lease_operation_kernel [of env inp r placement trace t] by simp
  show ?thesis
    by (auto simp: begin_execution_def rt_append_exec dest!: lease split: sum.split prod.split option.split AdmissionDecision.split)
qed

lemma finish_execution_kernel: "rt_kernel (snd (finish_execution env inp r recovered tk x s)) = rt_kernel s"
proof -
  have append: "rt_append env now r ty obj ph pl what t = (res, t') \<Longrightarrow> rt_kernel t' = rt_kernel t" for now ty obj ph pl what t res t'
    using rt_append_frame(3) [of env now r ty obj ph pl what t] by simp
  have profile: "record_profile env now p t = (res, t') \<Longrightarrow> rt_kernel t' = rt_kernel t" for now p t res t'
    by (auto simp: record_profile_def split: prod.splits)
  have failure: "record_failure env now r err cause t = (res, t') \<Longrightarrow> rt_kernel t' = rt_kernel t" for now err cause t res t'
    by (auto simp: record_failure_def rt_append_exec split: sum.splits prod.splits)
  have release: "rt_release lid t = (res, t') \<Longrightarrow> rt_kernel t' = rt_kernel t" for lid t res t'
    by (auto simp: rt_release_def split: prod.splits)
  obtain res s' where f: "finish_execution env inp r recovered tk x s = (res, s')" by fastforce
  then have "rt_kernel s' = rt_kernel s"
    by (auto simp: finish_execution_def Let_def split: prod.splits if_splits option.splits sum.splits dest!: append profile failure release)
  with f show ?thesis by simp
qed

lemma execute_internal_kernel: "rt_kernel (snd (execute_internal env r recovered s)) = rt_kernel s"
proof -
  let ?s = "s\<lparr>rt_tick := rt_tick s + 1\<rparr>" and ?inp = "re_inputs env (rt_tick s)"
  obtain b s1 where b: "begin_execution env ?inp r ?s = (b, s1)" by fastforce
  have "rt_kernel s1 = rt_kernel s" using begin_execution_kernel [of env ?inp r ?s] b by simp
  then show ?thesis using b by (auto simp: execute_internal_def finish_execution_kernel Let_def split: sum.split prod.split option.split)
qed

definition demo_daemon :: daemon_env where
  "demo_daemon =
     \<lparr>de_rt = demo_rt, de_authority = demo_authority, de_control = demo_control, de_version = ''1'',
      de_operation = (\<lambda>_. Inr Runtime_API.demo_request), de_plan = (\<lambda>_. Inl ''plan''), de_probe = (\<lambda>_. Inl ''probe''),
      de_value = (\<lambda>_. Inr JNull), de_put = (\<lambda>_. Inr (demo_put ''one'' None)), de_selector = (\<lambda>_. Inr demo_selector),
      de_selector_value = (\<lambda>_. Inr demo_selector), de_list = (\<lambda>_. Inl ''list''), de_execution_json = (\<lambda>_. JNull),
      de_continuity_json = (\<lambda>_. JNull), de_profile_json = (\<lambda>_. JNull), de_asset_json = (\<lambda>_. JNull), de_report_json = (\<lambda>_. JNull),
      de_trace_json = (\<lambda>_. JNull)\<rparr>"

definition demo_inputs :: "int \<Rightarrow> request_inputs" where
  "demo_inputs t = \<lparr>in_checked_at = t, in_now = t, in_sent_at = t, in_trace = ''trace''\<rparr>"

definition demo_call :: "string \<Rightarrow> NKIRequest" where
  "demo_call m = Kernel_Interface.demo_request\<lparr>nq_method := m\<rparr>"

lemma demo_daemon_fields:
  "de_rt demo_daemon = demo_rt" "de_authority demo_daemon = demo_authority" "daemon_authority demo_daemon = demo_authority"
  "de_operation demo_daemon b = Inr Runtime_API.demo_request" "de_execution_json demo_daemon x = JNull"
  by (simp_all add: demo_daemon_def daemon_authority_def demo_rt_def demo_xe_def demo_authority_def)

lemma demo_call_fields [simp]:
  "nq_method (demo_call m) = m" "nq_payload (demo_call m) = []" "nq_session_token (demo_call m) = []" "nq_deadline_us (demo_call m) = 0"
  by (simp_all add: demo_call_def Kernel_Interface.demo_request_def)

lemma demo_call_passes: "screen_envelope [] t (demo_call m) = None"
  by (simp add: screen_envelope_def demo_call_def Kernel_Interface.demo_request_def MIN_NKI_VERSION_def NKI_VERSION_def)

lemma demo_inputs_fields [simp]: "in_now (demo_inputs t) = t" "in_checked_at (demo_inputs t) = t"
  by (simp_all add: demo_inputs_def)

lemma demo_extension_call:
  assumes "m \<in> set extension_methods" "extension_dispatch demo_authority t (demo_call m) (dn_journal d) = (Inr outcome, j)"
  shows "\<exists>d'. handle_request demo_daemon [] (demo_inputs t) (demo_call m) d =
      (Some (Inr (respond (demo_inputs t) (demo_call m) outcome)), d') \<and> dn_journal d' = j"
proof -
  have "dispatch_request demo_daemon t (demo_call m) d = extension_request demo_daemon t (demo_call m) d"
    using assms(1) by (auto simp: dispatch_request_def extension_methods_def)
  then show ?thesis using assms(2) by (simp add: handle_request_def demo_call_passes extension_request_def demo_daemon_fields)
qed

lemma demo_submission:
  "\<exists>d1. handle_request demo_daemon [] (demo_inputs 1) (demo_call ''SubmitWorkload'') (daemon_fresh ''n'') =
     (Some (Inr (respond (demo_inputs 1) (demo_call ''SubmitWorkload'') (NKI_Success JNull))), d1) \<and> rt_kernel (dn_runtime d1) = KS_Ready"
proof -
  obtain x s1 where x: "execute_internal demo_rt Runtime_API.demo_request False (runtime_fresh ''n'') = (Some (Inr x), s1)"
    using execution_succeeds [OF demo_answerable, of False] by blast
  have "rt_kernel s1 = KS_Ready"
    using execute_internal_kernel [of demo_rt Runtime_API.demo_request False "runtime_fresh ''n''"] x
    by (simp add: runtime_fresh_def kernel_runtime_new_def)
  then show ?thesis
    using x by (simp add: handle_request_def demo_call_passes dispatch_request_def submit_workload_def demo_daemon_fields bound_timeout_def
        runtime_execute_def answer_def daemon_fresh_def)
qed

lemma demo_request_ok: "event_ok (admissible demo_world) demo_daemon (DV_Request inp (demo_call ''SubmitWorkload''))"
  using demo_admissible by (simp add: request_ok_def demo_daemon_fields)

theorem daemon_commits_once_witness:
  "let log = journal_log (dn_journal (daemon_run demo_daemon []
       [DV_Start ''u'' True, DV_Request (demo_inputs 1) (demo_call ''SubmitWorkload''), DV_Shutdown, DV_Start ''v'' True] (daemon_fresh ''n'')))
   in length (filter (is_step ET_Commit ''StepCommit'' ''op'') log) \<le> 1"
  using daemon_commits_once [of demo_daemon demo_world
      "[DV_Start ''u'' True, DV_Request (demo_inputs 1) (demo_call ''SubmitWorkload''), DV_Shutdown, DV_Start ''v'' True]" "[]" "''n''" "''op''"]
    demo_rt_codecs demo_request_ok by (simp add: demo_daemon_fields Let_def)


theorem unauthenticated_requests_have_no_effect_witness:
  "daemon_run demo_daemon ''secret'' [DV_Request (demo_inputs 1) (demo_call ''SubmitWorkload''), DV_Shutdown] (daemon_fresh ''n'') =
   daemon_run demo_daemon ''secret'' [DV_Shutdown] (daemon_fresh ''n'')"
  using unauthenticated_requests_have_no_effect [of "''secret''" "[DV_Request (demo_inputs 1) (demo_call ''SubmitWorkload''), DV_Shutdown]"
      demo_daemon "daemon_fresh ''n''"] by simp

lemma execution_any_method:
  "authorize_extension_execution env now (q\<lparr>nq_method := m\<rparr>) x j = authorize_extension_execution env now q x j" for q :: NKIRequest
proof -
  have "record_permit env now (q\<lparr>nq_method := m\<rparr>) x j = record_permit env now q x j"
    by (simp add: record_permit_def execution_material_def execution_key_def execution_permit_def split: sum.split)
  then show ?thesis by (simp add: authorize_extension_execution_def split: sum.split option.split)
qed

lemma demo_approved_daemon:
  "dn_journal (daemon_run demo_daemon [] [DV_Request (demo_inputs 1) (demo_call ''AdmitExtension''),
     DV_Request (demo_inputs 2) (demo_call ''AuthorizeExtension'')] (daemon_fresh ''n'')) =
   authority_run demo_authority demo_history (fresh_journal [])"
proof -
  have step: "dn_journal (snd (handle_request demo_daemon [] (demo_inputs t) (demo_call m) d)) =
      snd (extension_dispatch demo_authority t (demo_call m) (dn_journal d))" if "m \<in> set extension_methods" for t m d
  proof -
    have "dispatch_request demo_daemon t (demo_call m) d = extension_request demo_daemon t (demo_call m) d"
      using that by (auto simp: dispatch_request_def extension_methods_def)
    then show ?thesis
      by (auto simp: handle_request_def demo_call_passes extension_request_def demo_daemon_fields split: prod.split sum.split)
  qed
  have "dn_journal (daemon_fresh ''n'') = fresh_journal []"
    by (simp add: daemon_fresh_def runtime_fresh_def kernel_runtime_new_def fresh_journal_def journal_open_in_memory_def)
  then show ?thesis
    by (simp add: daemon_run_def step extension_methods_def authority_run_def demo_history_def demo_call_def [symmetric])
qed

theorem daemon_permits_need_approval_witness:
  "\<exists>d extension a. approval_chain demo_authority (journal_log (dn_journal d)) extension a ''authorization-admission_receipt'' \<and>
     ''fs.read'' \<in> set (eau_approved_capabilities a)"
proof -
  let ?evs = "[DV_Request (demo_inputs 1) (demo_call ''AdmitExtension''), DV_Request (demo_inputs 2) (demo_call ''AuthorizeExtension'')]"
  let ?d = "daemon_run demo_daemon [] ?evs (daemon_fresh ''n'')" and ?q = "demo_call ''AuthorizeExtensionExecution''"
  obtain e1 e2 where h: "demo_holds (dn_journal ?d) [e1, e2] 7" "carries demo_authority e2 ''x'' ''ExtensionAuthorizationDecision'' demo_approved"
      "je_idempotency_key e1 = Some (extension_key ''x'' demo_hash ''admit'' ''k'')"
      "je_idempotency_key e2 = Some (extension_key ''x'' demo_hash ''authorize'' ''ok'')" using demo_run unfolding demo_approved_daemon by blast
  obtain j3 where "authorize_extension_execution demo_authority 3 Kernel_Interface.demo_request (demo_execution ''op'') (dn_journal ?d) =
      (Inr (NKI_Success (JString ''op'')), j3)" using demo_permit_step [OF h demo_op(1)] by blast
  then have "extension_dispatch demo_authority 3 ?q (dn_journal ?d) = (Inr (NKI_Success (JString ''op'')), j3)"
    by (simp add: extension_dispatch_def decode_payload_def demo_authority_def [THEN arg_cong, of ae_execution_request]
        execution_any_method demo_call_def)
  from demo_extension_call [OF _ this] obtain d' where
    "handle_request demo_daemon [] (demo_inputs 3) ?q ?d = (Some (Inr (respond (demo_inputs 3) ?q (NKI_Success (JString ''op'')))), d')"
    by (auto simp: extension_methods_def)
  moreover have "decisions_decode demo_daemon" using demo_decision_roundtrip by (simp add: decisions_decode_def demo_daemon_fields)
  moreover have "dec (ae_execution_request (de_authority demo_daemon)) (nq_payload ?q) = Inr (demo_execution ''op'')"
    by (simp add: demo_daemon_fields) (simp add: demo_authority_def)
  ultimately have "\<exists>extension a. approval_chain demo_authority (journal_log (dn_journal ?d)) extension a ''authorization-admission_receipt'' \<and>
     ''fs.read'' \<in> set (eau_approved_capabilities a)"
    using daemon_permits_need_approval [of demo_daemon ?d "[]" ?evs "''n''" ?q "demo_execution ''op''" "demo_inputs 3"
        "respond (demo_inputs 3) ?q (NKI_Success (JString ''op''))" d' "JString ''op''"]
    by (auto simp: demo_daemon_fields respond_def demo_execution_def)
  then show ?thesis by blast
qed

definition demo_connection :: connection_env where
  "demo_connection =
     \<lparr>cn_request = \<lparr>enc = (\<lambda>_. Inl ''none''), dec = (\<lambda>b. if b = ''q'' then Inr (demo_call ''Unknown'') else Inl ''syntax'')\<rparr>,
      cn_response = (let response = respond (demo_inputs 0) (demo_call ''Unknown'') (nki_error ''METHOD_NOT_SUPPORTED'' ''Unknown'' False)
        in \<lparr>enc = (\<lambda>r. if r = response then Inr ''r'' else Inl ''unsupported''), dec = (\<lambda>b. if b = ''r'' then Inr response else Inl ''syntax'')\<rparr>),
      cn_unexpected_eof = ''eof'', cn_transport_error = (\<lambda>_. ''transport'')\<rparr>"

lemma demo_connection_runs:
  "handle_connection demo_daemon demo_connection [] (\<lambda>_. demo_inputs 0) 0 (encode_raw ''q'') d = (CE_Closed, [encode_raw ''r''], d)"
proof -
  have "read_frame (encode_raw ''q'') = FR_Frame ''q'' []" using read_encoded [of "''q''" "[]"] by simp
  moreover have "read_frame [] = FR_Closed" by (simp add: read_frame_def)
  moreover have "handle_request demo_daemon [] (demo_inputs 0) (demo_call ''Unknown'') d =
      (Some (Inr (respond (demo_inputs 0) (demo_call ''Unknown'') (nki_error ''METHOD_NOT_SUPPORTED'' ''Unknown'' False))), d)"
    by (simp add: handle_request_def demo_call_passes dispatch_request_def extension_methods_def answer_def)
  ultimately show ?thesis
    by (simp add: handle_connection.simps [of _ _ _ _ _ "encode_raw ''q''"] handle_connection.simps [of _ _ _ _ _ "[]"]
        demo_connection_def codec_encode_def Let_def)
qed


end
