(* ===== verification/Provider_Process.thy ===== *)
theory Provider_Process
  imports Runtime_API
begin

text \<open>
  The provider that runs as a child process (\<open>ProcessProvider\<close>, crates/nous-kernel-core/src/lib.rs): which program is
  started, with which arguments and which environment, how a credential is released to it, and how its exit status and its
  output become an answer or an error.

  Parameters (\<open>process_env\<close>) are the environment variables of the daemon, the starting and the running of a process, the
  JSON coding, SHA-256 and the clock.  A race between the end of the process, a cancellation and the timeout is decided by
  the parameter \<open>pe_run\<close>.
\<close>

section \<open>Parameters\<close>

record child_spec =
  ch_program :: string
  ch_args :: "string list"
  ch_env :: "string \<rightharpoonup> string"

text \<open>What happens to a started process that gets its input: writing or waiting fails, the operation is cancelled, the time
  is over, or it exits, successfully or not, with a status as it is printed, its output and its error text.\<close>

datatype child_outcome =
    CO_IOFailed string
  | CO_Cancelled
  | CO_TimedOut
  | CO_Exited bool string string string

record process_env =
  pe_program :: string
  pe_vars :: "string \<rightharpoonup> string"
  pe_spawn :: "child_spec \<Rightarrow> string option"
  pe_run :: "child_spec \<Rightarrow> string \<Rightarrow> u64 \<Rightarrow> child_outcome"
  pe_command :: "ProviderCommand codec"
  pe_response :: "ProviderResponse codec"
  pe_json :: "json codec"
  pe_sha :: "string \<Rightarrow> string"
  pe_snapshot :: "SemanticExecutionSnapshot \<Rightarrow> string + string"
  pe_now :: int

section \<open>The child\<close>

definition external_entrypoint :: "ProviderCommand \<Rightarrow> string option" where
  "external_entrypoint command =
     (case command of
        PC_Execute r \<Rightarrow> if op_backend r = ''external-process'' then Some (op_provider_entrypoint r) else None
      | PC_Probe r \<Rightarrow> if pr_backend r = ''external-process'' then Some (pr_provider_entrypoint r) else None
      | PC_Health \<Rightarrow> None)"

definition child_program :: "process_env \<Rightarrow> string option \<Rightarrow> string \<times> string list" where
  "child_program env entrypoint =
     (case entrypoint of
        Some e \<Rightarrow> if ends_with e ''.py'' then (''python'', [e]) else (e, [])
      | None \<Rightarrow> (pe_program env, [''--stdio-once'']))"

definition kept_variables :: "string list" where
  "kept_variables =
     [''PATH'', ''SystemRoot'', ''WINDIR'', ''HOME'', ''TMP'', ''TEMP'', ''LOCALAPPDATA'', ''APPDATA'', ''USERPROFILE'']"

definition base_environment :: "process_env \<Rightarrow> string \<rightharpoonup> string" where
  "base_environment env = pe_vars env |` set kept_variables"

text \<open>A credential is released to the child when it is a valid reference and listed by the operator.\<close>

definition permitted_credential :: "process_env \<Rightarrow> string \<Rightarrow> bool" where
  "permitted_credential env name \<longleftrightarrow>
     list_ex (\<lambda>piece. trim piece = name)
       (split_char (CHR '','') (case pe_vars env ''NOUS_ALLOWED_CREDENTIALS'' of None \<Rightarrow> [] | Some v \<Rightarrow> v))"

definition child_environment :: "process_env \<Rightarrow> string \<Rightarrow> (string \<rightharpoonup> string) kernel_result" where
  "child_environment env credential_env =
     (if credential_env = [] then Inr (base_environment env)
      else case validate_credential_reference credential_env of
        Inl e \<Rightarrow> Inl (KE_Admission e)
      | Inr _ \<Rightarrow>
          if \<not> permitted_credential env credential_env
          then Inl (KE_Provider ''credential reference is not authorized for provider use'')
          else (case pe_vars env credential_env of
                  None \<Rightarrow> Inl (KE_Provider ''credential reference is unavailable'')
                | Some v \<Rightarrow> Inr ((base_environment env)(credential_env \<mapsto> v))))"

definition provider_child :: "process_env \<Rightarrow> ProviderCommand \<Rightarrow> string \<Rightarrow> child_spec kernel_result" where
  "provider_child env command credential_env =
     (case child_environment env credential_env of
        Inl e \<Rightarrow> Inl e
      | Inr vars \<Rightarrow>
          (case child_program env (external_entrypoint command) of
             (program, args) \<Rightarrow> Inr \<lparr>ch_program = program, ch_args = args, ch_env = vars\<rparr>))"

section \<open>The exchange\<close>

definition command_body :: "process_env \<Rightarrow> ProviderCommand \<Rightarrow> string kernel_result" where
  "command_body env command =
     (case (if external_entrypoint command \<noteq> None then enc (pe_json env) (external_provider_request command)
            else enc (pe_command env) command) of
        Inl e \<Rightarrow> Inl (KE_Serialization e)
      | Inr b \<Rightarrow> Inr b)"

definition read_response :: "process_env \<Rightarrow> ProviderCommand \<Rightarrow> string \<Rightarrow> ProviderResponse kernel_result" where
  "read_response env command output =
     (if external_entrypoint command \<noteq> None
      then normalize_external_provider_response (dec (pe_json env)) (pe_sha env) (pe_snapshot env) (pe_now env) command output
      else case dec (pe_response env) output of Inl e \<Rightarrow> Inl (KE_Serialization e) | Inr r \<Rightarrow> Inr r)"

definition refused :: "ProviderResponse \<Rightarrow> KernelError" where
  "refused response = KE_Provider (pres_error_code response @ '': '' @ pres_error_message response)"

definition judge_exit :: "bool \<Rightarrow> string \<Rightarrow> string \<Rightarrow> ProviderResponse kernel_result \<Rightarrow> ProviderResponse kernel_result" where
  "judge_exit success status stderr response =
     (if \<not> success
      then (case response of
              Inr r \<Rightarrow> if \<not> pres_ok r then Inl (refused r)
                else Inl (KE_Provider (if trim stderr = [] then ''provider process exited with status '' @ status else trim stderr))
            | Inl _ \<Rightarrow> Inl (KE_Provider (if trim stderr = [] then ''provider process exited with status '' @ status else trim stderr)))
      else case response of
        Inl e \<Rightarrow> Inl e
      | Inr r \<Rightarrow> if \<not> pres_ok r then Inl (refused r) else Inr r)"

definition invoke :: "process_env \<Rightarrow> ProviderCommand \<Rightarrow> string \<Rightarrow> u64 \<Rightarrow> string \<Rightarrow> ProviderResponse kernel_result" where
  "invoke env command credential_env timeout_ms operation_id =
     (case provider_child env command credential_env of
        Inl e \<Rightarrow> Inl e
      | Inr child \<Rightarrow>
          (case pe_spawn env child of
             Some e \<Rightarrow> Inl (KE_Provider e)
           | None \<Rightarrow>
               (case command_body env command of
                  Inl e \<Rightarrow> Inl e
                | Inr body \<Rightarrow>
                    (case pe_run env child body (max timeout_ms 1) of
                       CO_IOFailed e \<Rightarrow> Inl (KE_Provider e)
                     | CO_Cancelled \<Rightarrow> Inl (KE_Cancelled operation_id)
                     | CO_TimedOut \<Rightarrow> Inl (KE_DeadlineExceeded operation_id)
                     | CO_Exited success status stdout stderr \<Rightarrow>
                         judge_exit success status stderr (read_response env command stdout)))))"

definition process_execute :: "process_env \<Rightarrow> OperationRequest \<Rightarrow> OperationReceipt kernel_result" where
  "process_execute env r =
     (case invoke env (PC_Execute r) (op_credential_env r) (op_timeout_ms r) (op_operation_id r) of
        Inl e \<Rightarrow> Inl e
      | Inr response \<Rightarrow>
          (case pres_receipt response of None \<Rightarrow> Inl (KE_Provider ''provider returned no receipt'') | Some receipt \<Rightarrow> Inr receipt))"

definition process_probe :: "process_env \<Rightarrow> ProviderProbeRequest \<Rightarrow> ProviderProbeReport kernel_result" where
  "process_probe env r =
     (case invoke env (PC_Probe r) (pr_credential_env r) (pr_timeout_ms r) ''provider-probe'' of
        Inl e \<Rightarrow> Inl e
      | Inr response \<Rightarrow>
          (case pres_probe response of
             None \<Rightarrow> Inl (KE_Provider ''provider returned no capability report'') | Some report \<Rightarrow> Inr report))"

end
