(* ===== verification/Worker.thy ===== *)
theory Worker
  imports Provider_Process Intelligence_Contracts
begin

text \<open>
  The worker program (providers/worker/src/main.rs): one command from the standard input, one response on the standard
  output.  The reference backends compute locally; the others make one HTTP call to a checked endpoint.

  Parameters (\<open>worker_env\<close>) are the environment variables, the URL parser, the HTTP client, JSON coding, SHA-256, the clock
  and float arithmetic.  What is sent over HTTP is part of the result: a function that may call returns the calls it made.
\<close>

section \<open>Parameters\<close>

record url =
  ur_scheme :: string
  ur_username :: string
  ur_password :: "string option"
  ur_host :: "string option"
  ur_query :: "string option"
  ur_fragment :: "string option"

record http_call =
  hc_post :: bool
  hc_url :: url
  hc_bearer :: "string option"
  hc_body :: "json option"
  hc_timeout_ms :: u64

text \<open>A call fails, or it is answered with a status, the status as it is printed, and a body that is JSON or not.\<close>

datatype http_answer = HA_Failed string | HA_Response nat string "string + json"

record ModelInvocationOutput =
  mo_schema_version :: u32
  mo_content :: json
  mo_usage :: json
  mo_finish_reason :: string
  mo_metadata :: json

record worker_env =
  we_vars :: "string \<rightharpoonup> string"
  we_url :: "string \<Rightarrow> url option"
  we_client :: "u64 \<Rightarrow> string option"
  we_http :: "http_call \<Rightarrow> http_answer"
  we_status_error :: "http_call \<Rightarrow> nat \<Rightarrow> string"
  we_json :: "json codec"
  we_invocation :: "json \<Rightarrow> string + ModelInvocationInput"
  we_output :: "ModelInvocationOutput \<Rightarrow> string + string"
  we_sha :: "string \<Rightarrow> string"
  we_snapshot :: "SemanticExecutionSnapshot \<Rightarrow> string + string"
  we_now :: int
  we_elapsed_ms :: nat
  we_elapsed_later_ms :: nat
  we_fo :: f64_ops
  we_f64 :: "string \<Rightarrow> f64"
  we_show_f64 :: "f64 \<Rightarrow> string"
  we_command :: "ProviderCommand codec"
  we_response :: "ProviderResponse codec"

type_synonym 'a called = "http_call list \<times> 'a"

section \<open>JSON values\<close>

text \<open>\<open>Value::pointer\<close> by its pieces: a piece names a field of an object, or an element of an array when it is a number
  without sign and leading zeros.\<close>

definition array_index :: "string \<Rightarrow> nat option" where
  "array_index piece =
     (if starts_with piece ''+'' \<or> (starts_with piece ''0'' \<and> length piece \<noteq> 1) then None else parse_u64 piece)"

fun json_step :: "string \<Rightarrow> json \<Rightarrow> json option" where
  "json_step piece (JObject kvs) = map_of kvs piece"
| "json_step piece (JArray xs) =
     (case array_index piece of None \<Rightarrow> None | Some i \<Rightarrow> if i < length xs then Some (xs ! i) else None)"
| "json_step piece _ = None"

fun json_pointer :: "string list \<Rightarrow> json \<Rightarrow> json option" where
  "json_pointer [] v = Some v"
| "json_pointer (p # ps) v = (case json_step p v of None \<Rightarrow> None | Some w \<Rightarrow> json_pointer ps w)"

fun json_as_array :: "json \<Rightarrow> json list option" where
  "json_as_array (JArray xs) = Some xs"
| "json_as_array _ = None"

fun json_set :: "string \<Rightarrow> json \<Rightarrow> json \<Rightarrow> json" where
  "json_set k v (JObject kvs) = JObject (AList.update k v kvs)"
| "json_set k v w = w"

definition or_null :: "json option \<Rightarrow> json" where
  "or_null v = (case v of None \<Rightarrow> JNull | Some w \<Rightarrow> w)"

fun json_as_f64 :: "worker_env \<Rightarrow> json \<Rightarrow> f64 option" where
  "json_as_f64 env (JNumber s) = Some (we_f64 env s)"
| "json_as_f64 env _ = None"

definition json_f64 :: "worker_env \<Rightarrow> f64 \<Rightarrow> json" where
  "json_f64 env x = (if f64_is_finite x then JNumber (we_show_f64 env x) else JNull)"

section \<open>Endpoints and credentials\<close>

definition checked_endpoint :: "worker_env \<Rightarrow> string \<Rightarrow> bool \<Rightarrow> url kernel_result" where
  "checked_endpoint env value allow_loopback_http =
     (case we_url env value of
        None \<Rightarrow> Inl (KE_Provider ''provider endpoint is invalid'')
      | Some url \<Rightarrow>
          if ur_username url \<noteq> [] \<or> ur_password url \<noteq> None \<or> ur_query url \<noteq> None \<or> ur_fragment url \<noteq> None
          then Inl (KE_Provider ''provider endpoint must not contain credentials, query parameters, or fragments'')
          else let loopback = ur_host url \<in> {Some ''localhost'', Some ''127.0.0.1'', Some ''::1''} in
               if ur_scheme url \<noteq> ''https'' \<and> \<not> (allow_loopback_http \<and> loopback)
               then Inl (KE_Provider ''provider endpoint must use HTTPS (HTTP is allowed only on loopback)'')
               else Inr url)"

definition credential :: "worker_env \<Rightarrow> string \<Rightarrow> string kernel_result" where
  "credential env name =
     (if name = [] then Inl (KE_Provider ''credential reference is required'')
      else case we_vars env name of
        None \<Rightarrow> Inl (KE_Provider ''credential reference is unavailable'')
      | Some v \<Rightarrow> Inr v)"

definition trim_end_slash :: "string \<Rightarrow> string" where
  "trim_end_slash s = rev (dropWhile (\<lambda>c. c = CHR ''/'') (rev s))"

definition endpoint_path :: "string \<Rightarrow> string \<Rightarrow> string" where
  "endpoint_path endpoint path = trim_end_slash endpoint @ ''/'' @ path"

text \<open>One call: its status must not be an error, and its body must be JSON.\<close>

definition answer_json :: "string + json \<Rightarrow> json kernel_result" where
  "answer_json body = (case body of Inl e \<Rightarrow> Inl (KE_Provider e) | Inr v \<Rightarrow> Inr v)"

definition send :: "worker_env \<Rightarrow> http_call \<Rightarrow> (nat \<times> string \<times> (string + json)) kernel_result" where
  "send env call =
     (case we_http env call of
        HA_Failed e \<Rightarrow> Inl (KE_Provider e)
      | HA_Response status shown body \<Rightarrow> Inr (status, shown, body))"

definition send_checked :: "worker_env \<Rightarrow> http_call \<Rightarrow> json kernel_result" where
  "send_checked env call =
     (case send env call of
        Inl e \<Rightarrow> Inl e
      | Inr (status, shown, body) \<Rightarrow>
          if 400 \<le> status \<and> status < 600 then Inl (KE_Provider (we_status_error env call status)) else answer_json body)"

definition ensure_provider_http_success :: "nat \<Rightarrow> string \<Rightarrow> unit kernel_result" where
  "ensure_provider_http_success status shown =
     (if 200 \<le> status \<and> status < 300 then Inr ()
      else Inl (KE_Provider ((if status = 402 then ''NOUS_PROVIDER_BALANCE_EXHAUSTED'' else ''NOUS_PROVIDER_HTTP_ERROR'')
        @ '': HTTP '' @ shown)))"

section \<open>Mathematics\<close>

fun number_items :: "worker_env \<Rightarrow> string \<Rightarrow> json list \<Rightarrow> f64 list kernel_result" where
  "number_items env field [] = Inr []"
| "number_items env field (x # xs) =
     (case json_as_f64 env x of
        None \<Rightarrow> Inl (KE_Provider ([CHR 39] @ field @ [CHR 39] @ '' must be numeric''))
      | Some n \<Rightarrow> (case number_items env field xs of Inl e \<Rightarrow> Inl e | Inr ns \<Rightarrow> Inr (n # ns)))"

definition number_array :: "worker_env \<Rightarrow> json \<Rightarrow> string \<Rightarrow> f64 list kernel_result" where
  "number_array env value field =
     (case Option.bind (json_get field value) json_as_array of
        None \<Rightarrow> Inl (KE_Provider (''numeric array '' @ [CHR 39] @ field @ [CHR 39] @ '' is required''))
      | Some xs \<Rightarrow> number_items env field xs)"

definition math_linear :: "worker_env \<Rightarrow> json \<Rightarrow> f64 kernel_result" where
  "math_linear env request =
     (case number_array env request ''coefficients'' of
        Inl e \<Rightarrow> Inl e
      | Inr coefficients \<Rightarrow>
          (case number_array env request ''input'' of
             Inl e \<Rightarrow> Inl e
           | Inr values \<Rightarrow>
               if length coefficients \<noteq> length values
               then Inl (KE_Provider ''coefficients and input must have equal length'')
               else Inr (foldl (\<lambda>sum (c, v). fo_add (we_fo env) sum (fo_mul (we_fo env) c v))
                      (case Option.bind (json_get ''bias'' request) (json_as_f64 env) of None \<Rightarrow> lit_0 | Some b \<Rightarrow> b)
                      (zip coefficients values))))"

definition math_polynomial :: "worker_env \<Rightarrow> json \<Rightarrow> f64 kernel_result" where
  "math_polynomial env request =
     (case number_array env request ''coefficients'' of
        Inl e \<Rightarrow> Inl e
      | Inr coefficients \<Rightarrow>
          (case Option.bind (json_get ''input'' request) (json_as_f64 env) of
             None \<Rightarrow> Inl (KE_Provider ''numeric input is required'')
           | Some v \<Rightarrow>
               Inr (foldl (\<lambda>result c. fo_add (we_fo env) (fo_mul (we_fo env) result v) c) lit_0 (rev coefficients))))"

definition reference_math :: "worker_env \<Rightarrow> string \<Rightarrow> string kernel_result" where
  "reference_math env input =
     (case dec (we_json env) input of
        Inl e \<Rightarrow> Inl (KE_Provider (''invalid mathematical input: '' @ e))
      | Inr request \<Rightarrow>
          (case Option.bind (json_get ''operation'' request) json_as_str of
             None \<Rightarrow> Inl (KE_Provider ''mathematical operation is required'')
           | Some operation \<Rightarrow>
               (case (if operation = ''linear'' then math_linear env request
                      else if operation = ''polynomial'' then math_polynomial env request
                      else Inl (KE_Provider (''unsupported mathematical operation: '' @ operation))) of
                  Inl e \<Rightarrow> Inl e
                | Inr result \<Rightarrow>
                    (case enc (we_json env) (JObject [(''operation'', JString operation), (''result'', json_f64 env result)]) of
                       Inl e \<Rightarrow> Inl (KE_Serialization e)
                     | Inr s \<Rightarrow> Inr s))))"

section \<open>Model backends\<close>

definition decode_model_input :: "worker_env \<Rightarrow> string \<Rightarrow> ModelInvocationInput option kernel_result" where
  "decode_model_input env input =
     (case dec (we_json env) input of
        Inl _ \<Rightarrow> Inr None
      | Inr v \<Rightarrow>
          if json_get ''schema_version'' v = None \<or> (json_get ''messages'' v = None \<and> json_get ''input'' v = None) then Inr None
          else (case we_invocation env v of
                  Inl e \<Rightarrow> Inl (KE_Provider (''invalid model invocation: '' @ e))
                | Inr m \<Rightarrow>
                    (case model_invocation_validate m of
                       Inl e \<Rightarrow> Inl (KE_Provider (''invalid model invocation: '' @ e))
                     | Inr _ \<Rightarrow> Inr (Some m))))"

definition user_message :: "json \<Rightarrow> json" where
  "user_message content = JObject [(''role'', JString ''user''), (''content'', content)]"

definition model_messages :: "ModelInvocationInput \<Rightarrow> json list" where
  "model_messages m = (if mi_messages m \<noteq> [] then mi_messages m else [user_message (mi_input m)])"

definition set_some :: "string \<Rightarrow> json option \<Rightarrow> json \<Rightarrow> json" where
  "set_some k v body = (case v of None \<Rightarrow> body | Some w \<Rightarrow> json_set k w body)"

definition openai_request_body :: "worker_env \<Rightarrow> OperationRequest \<Rightarrow> ModelInvocationInput option \<Rightarrow> json" where
  "openai_request_body env r invocation =
     (case invocation of
        None \<Rightarrow> JObject [(''model'', JString (op_model r)), (''messages'', JArray [user_message (JString (op_input r))])]
      | Some m \<Rightarrow>
          if mi_capability m = ''embedding'' then JObject [(''model'', JString (op_model r)), (''input'', mi_input m)]
          else set_some ''temperature'' (map_option (json_f64 env) (mi_temperature m))
                (set_some ''max_tokens'' (map_option (\<lambda>n. JNumber (show_nat (unat n))) (mi_max_output_tokens m))
                  (set_some ''response_format'' (mi_response_format m)
                    (set_some ''tools'' (if mi_tools m = [] then None else Some (JArray (mi_tools m)))
                      (JObject [(''model'', JString (op_model r)), (''messages'', JArray (model_messages m))])))))"

definition encode_output :: "worker_env \<Rightarrow> ModelInvocationOutput \<Rightarrow> string kernel_result" where
  "encode_output env output = (case we_output env output of Inl e \<Rightarrow> Inl (KE_Serialization e) | Inr s \<Rightarrow> Inr s)"

definition text_at :: "string list \<Rightarrow> json \<Rightarrow> string option" where
  "text_at pieces v = Option.bind (json_pointer pieces v) json_as_str"

definition encode_openai_output :: "worker_env \<Rightarrow> json \<Rightarrow> ModelInvocationInput \<Rightarrow> string kernel_result" where
  "encode_openai_output env body m =
     (if mi_capability m = ''embedding''
      then (case json_pointer [''data'', ''0'', ''embedding''] body of
              None \<Rightarrow> Inl (KE_Provider ''response contains no embedding'')
            | Some content \<Rightarrow> encode_output env
                \<lparr>mo_schema_version = 1, mo_content = content, mo_usage = or_null (json_get ''usage'' body), mo_finish_reason = ''completed'',
                 mo_metadata = JObject [(''backend'', JString ''openai-compatible'')]\<rparr>)
      else (case json_pointer [''choices'', ''0'', ''message''] body of
              None \<Rightarrow> Inl (KE_Provider ''response contains no message'')
            | Some message \<Rightarrow> encode_output env
                \<lparr>mo_schema_version = 1, mo_content = or_null (json_get ''content'' message), mo_usage = or_null (json_get ''usage'' body),
                 mo_finish_reason = (case text_at [''choices'', ''0'', ''finish_reason''] body of None \<Rightarrow> ''completed'' | Some s \<Rightarrow> s),
                 mo_metadata = JObject [(''backend'', JString ''openai-compatible''),
                   (''tool_calls'', or_null (json_get ''tool_calls'' message))]\<rparr>))"

definition openai_answer :: "worker_env \<Rightarrow> ModelInvocationInput option \<Rightarrow> nat \<times> string \<times> (string + json) \<Rightarrow> string kernel_result" where
  "openai_answer env invocation answered =
     (case answered of (status, shown, body) \<Rightarrow>
        (case ensure_provider_http_success status shown of
           Inl e \<Rightarrow> Inl e
         | Inr _ \<Rightarrow>
             (case answer_json body of
                Inl e \<Rightarrow> Inl e
              | Inr v \<Rightarrow>
                  (case invocation of
                     Some m \<Rightarrow> encode_openai_output env v m
                   | None \<Rightarrow>
                       (case text_at [''choices'', ''0'', ''message'', ''content''] v of
                          None \<Rightarrow> Inl (KE_Provider ''response contains no message content'')
                        | Some s \<Rightarrow> Inr s)))))"

text \<open>The credential goes along unless the request names none and the loopback may be called without.\<close>

definition bearer_for :: "worker_env \<Rightarrow> string \<Rightarrow> bool \<Rightarrow> string option kernel_result" where
  "bearer_for env name anonymous_allowed =
     (if name = [] \<and> anonymous_allowed then Inr None
      else (case credential env name of Inl e \<Rightarrow> Inl e | Inr c \<Rightarrow> Inr (Some c)))"

definition openai_compatible :: "worker_env \<Rightarrow> OperationRequest \<Rightarrow> string kernel_result called" where
  "openai_compatible env r =
     (let allow_loopback_http = (op_backend r = ''edge-openai-compatible'') in
      case decode_model_input env (op_input r) of
        Inl e \<Rightarrow> ([], Inl e)
      | Inr invocation \<Rightarrow>
          (let capability = (case invocation of None \<Rightarrow> ''chat'' | Some m \<Rightarrow> mi_capability m);
               path = (if capability = ''embedding'' then ''embeddings'' else ''chat/completions'')
           in case checked_endpoint env (endpoint_path (op_endpoint r) path) allow_loopback_http of
                Inl e \<Rightarrow> ([], Inl e)
              | Inr url \<Rightarrow>
                  (case we_client env (max (op_timeout_ms r) 1) of
                     Some e \<Rightarrow> ([], Inl (KE_Provider e))
                   | None \<Rightarrow>
                       (case bearer_for env (op_credential_env r) allow_loopback_http of
                          Inl e \<Rightarrow> ([], Inl e)
                        | Inr bearer \<Rightarrow>
                            (let call = \<lparr>hc_post = True, hc_url = url, hc_bearer = bearer,
                                   hc_body = Some (openai_request_body env r invocation), hc_timeout_ms = max (op_timeout_ms r) 1\<rparr>
                             in ([call], (case send env call of
                                   Inl e \<Rightarrow> Inl e
                                 | Inr answered \<Rightarrow> openai_answer env invocation answered)))))))"

definition ollama_body :: "worker_env \<Rightarrow> OperationRequest \<Rightarrow> ModelInvocationInput option \<Rightarrow> json" where
  "ollama_body env r invocation =
     (case invocation of
        None \<Rightarrow> JObject [(''model'', JString (op_model r)), (''prompt'', JString (op_input r)), (''stream'', JBool False)]
      | Some m \<Rightarrow> set_some ''options'' (map_option (\<lambda>t. JObject [(''temperature'', json_f64 env t)]) (mi_temperature m))
          (JObject [(''model'', JString (op_model r)), (''messages'', JArray (model_messages m)), (''stream'', JBool False)]))"

definition ollama_answer :: "worker_env \<Rightarrow> ModelInvocationInput option \<Rightarrow> json \<Rightarrow> string kernel_result" where
  "ollama_answer env invocation body =
     (if invocation \<noteq> None
      then (case json_pointer [''message'', ''content''] body of
              None \<Rightarrow> Inl (KE_Provider ''response contains no message content'')
            | Some content \<Rightarrow> encode_output env
                \<lparr>mo_schema_version = 1, mo_content = content,
                 mo_usage = JObject [(''prompt_tokens'', or_null (json_get ''prompt_eval_count'' body)),
                   (''completion_tokens'', or_null (json_get ''eval_count'' body))],
                 mo_finish_reason = (case Option.bind (json_get ''done_reason'' body) json_as_str of None \<Rightarrow> ''completed'' | Some s \<Rightarrow> s),
                 mo_metadata = JObject [(''backend'', JString ''ollama'')]\<rparr>)
      else (case Option.bind (json_get ''response'' body) json_as_str of
              None \<Rightarrow> Inl (KE_Provider ''response contains no generated text'')
            | Some s \<Rightarrow> Inr s))"

definition ollama :: "worker_env \<Rightarrow> OperationRequest \<Rightarrow> string kernel_result called" where
  "ollama env r =
     (case decode_model_input env (op_input r) of
        Inl e \<Rightarrow> ([], Inl e)
      | Inr invocation \<Rightarrow>
          (case checked_endpoint env (endpoint_path (op_endpoint r) (if invocation \<noteq> None then ''api/chat'' else ''api/generate'')) True of
             Inl e \<Rightarrow> ([], Inl e)
           | Inr url \<Rightarrow>
               (case we_client env (max (op_timeout_ms r) 1) of
                  Some e \<Rightarrow> ([], Inl (KE_Provider e))
                | None \<Rightarrow>
                    (let call = \<lparr>hc_post = True, hc_url = url, hc_bearer = None, hc_body = Some (ollama_body env r invocation),
                           hc_timeout_ms = max (op_timeout_ms r) 1\<rparr>
                     in ([call], (case send_checked env call of
                           Inl e \<Rightarrow> Inl e
                         | Inr body \<Rightarrow> ollama_answer env invocation body))))))"

section \<open>Execution\<close>

text \<open>A backend answers, or it ends the process.  The delay of the delayed reference backend is bounded.\<close>

datatype backend_run = BR_Exit nat | BR_Answer "string kernel_result"

definition reference_delay_ms :: "OperationRequest \<Rightarrow> nat" where
  "reference_delay_ms r = min (case parse_u64 (op_model r) of None \<Rightarrow> 1000 | Some n \<Rightarrow> n) 30000"

definition execute_backend :: "worker_env \<Rightarrow> OperationRequest \<Rightarrow> backend_run called" where
  "execute_backend env r =
     (if op_backend r \<in> {''reference'', ''reference-delay''} then ([], BR_Answer (Inr (we_sha env (op_input r))))
      else if op_backend r = ''reference-crash'' then ([], BR_Exit 70)
      else if op_backend r = ''reference-math'' then ([], BR_Answer (reference_math env (op_input r)))
      else if op_backend r \<in> {''openai-compatible'', ''edge-openai-compatible''} then map_prod id BR_Answer (openai_compatible env r)
      else if op_backend r = ''ollama'' then map_prod id BR_Answer (ollama env r)
      else ([], BR_Answer (Inl (KE_Provider (''unsupported backend: '' @ op_backend r)))))"

section \<open>Probes\<close>

fun runtime_class_debug :: "ProviderRuntimeClass \<Rightarrow> string" where
  "runtime_class_debug RC_Remote = ''Remote''"
| "runtime_class_debug RC_Local = ''Local''"
| "runtime_class_debug RC_Edge = ''Edge''"
| "runtime_class_debug RC_Reference = ''Reference''"
| "runtime_class_debug RC_Unknown = ''Unknown''"

definition listed_names :: "string \<Rightarrow> string \<Rightarrow> json \<Rightarrow> string list" where
  "listed_names field name body =
     List.map_filter (\<lambda>model. Option.bind (json_get name model) json_as_str)
       (case Option.bind (json_get field body) json_as_array of None \<Rightarrow> [] | Some xs \<Rightarrow> xs)"

text \<open>A probe asks the endpoint for its models; the order of the checks differs between the backends.\<close>

definition probe_call :: "worker_env \<Rightarrow> ProviderProbeRequest \<Rightarrow> url \<Rightarrow> string option \<Rightarrow> json kernel_result called" where
  "probe_call env r url bearer =
     (let call = \<lparr>hc_post = False, hc_url = url, hc_bearer = bearer, hc_body = None, hc_timeout_ms = max (pr_timeout_ms r) 1\<rparr>
      in ([call], send_checked env call))"

definition probe_endpoint ::
  "worker_env \<Rightarrow> ProviderProbeRequest \<Rightarrow> string \<Rightarrow> bool \<Rightarrow> (unit \<Rightarrow> string option kernel_result) \<Rightarrow> json kernel_result called" where
  "probe_endpoint env r path allow_loopback_http bearer =
     (case checked_endpoint env (endpoint_path (pr_endpoint r) path) allow_loopback_http of
        Inl e \<Rightarrow> ([], Inl e)
      | Inr url \<Rightarrow>
          (case we_client env (max (pr_timeout_ms r) 1) of
             Some e \<Rightarrow> ([], Inl (KE_Provider e))
           | None \<Rightarrow> (case bearer () of Inl e \<Rightarrow> ([], Inl e) | Inr b \<Rightarrow> probe_call env r url b)))"

definition discover ::
  "worker_env \<Rightarrow> ProviderProbeRequest \<Rightarrow> (ProviderRuntimeClass \<times> string list \<times> string list) kernel_result called" where
  "discover env r =
     (let models = (\<lambda>cls field name warnings (calls, res).
            (calls, (case res of Inl e \<Rightarrow> Inl e | Inr body \<Rightarrow> Inr (cls, listed_names field name body, warnings))))
      in if pr_backend r \<in> {''reference'', ''reference-delay'', ''reference-crash'', ''reference-math''}
         then ([], Inr (RC_Reference, [''reference''], [''deterministic conformance backend; not a real model'']))
         else if pr_backend r = ''openai-compatible''
         then (case credential env (pr_credential_env r) of
                 Inl e \<Rightarrow> ([], Inl e)
               | Inr c \<Rightarrow> models RC_Remote ''data'' ''id'' [] (probe_endpoint env r ''models'' False (\<lambda>_. Inr (Some c))))
         else if pr_backend r = ''ollama''
         then models RC_Local ''models'' ''name'' [] (probe_endpoint env r ''api/tags'' True (\<lambda>_. Inr None))
         else if pr_backend r = ''edge-openai-compatible''
         then models RC_Edge ''data'' ''id'' [''capabilities not returned by the endpoint remain UNKNOWN'']
                (probe_endpoint env r ''models'' True (\<lambda>_. bearer_for env (pr_credential_env r) True))
         else ([], Inl (KE_Provider (''unsupported backend: '' @ pr_backend r))))"

definition probe_warnings :: "ProviderProbeRequest \<Rightarrow> ProviderRuntimeClass \<Rightarrow> string list \<Rightarrow> string list" where
  "probe_warnings r cls models =
     (if pr_model r \<noteq> [] \<and> models \<noteq> [] \<and> pr_model r \<notin> set models
      then [''configured model '' @ [CHR 39] @ pr_model r @ [CHR 39] @ '' was not reported by the provider''] else []) @
     (if pr_execution_domain r \<noteq> RC_Unknown \<and> pr_execution_domain r \<noteq> cls
      then [''configured execution domain '' @ [CHR 39] @ runtime_class_debug (pr_execution_domain r) @ [CHR 39]
              @ '' differs from probed domain '' @ [CHR 39] @ runtime_class_debug cls @ [CHR 39]] else [])"

definition clamp_u64 :: "nat \<Rightarrow> u64" where
  "clamp_u64 n = (if n < 2 ^ 64 then of_nat n else - 1)"

definition probed_capabilities :: "worker_env \<Rightarrow> ProviderProbeRequest \<Rightarrow> ProviderRuntimeClass \<Rightarrow> ModelCapabilityManifest" where
  "probed_capabilities env r cls =
     (let is_reference = (cls = RC_Reference); is_local = (cls \<in> {RC_Local, RC_Edge, RC_Reference}) in
      \<lparr>mm_schema_version = 1, mm_provider = pr_provider r, mm_backend = pr_backend r, mm_model = pr_model r, mm_runtime_class = cls,
       mm_chat = (if is_reference then Supported else SupportUnknown),
       mm_streaming = (if is_reference then Unsupported else SupportUnknown),
       mm_tools = SupportUnknown, mm_structured_output = SupportUnknown, mm_vision = SupportUnknown, mm_embedding = SupportUnknown,
       mm_reasoning = SupportUnknown,
       mm_local_execution = (if is_local then Supported else Unsupported),
       mm_remote_execution = (if cls = RC_Remote then Supported else Unsupported),
       mm_context_length = None, mm_privacy_local = is_local,
       mm_privacy = (if is_local then LocalOnly else ProviderManaged),
       mm_estimated_latency_ms = Some (clamp_u64 (we_elapsed_later_ms env)), mm_estimated_cost_microcents = None,
       mm_probed_at_us = we_now env\<rparr>)"

definition probe_backend :: "worker_env \<Rightarrow> ProviderProbeRequest \<Rightarrow> ProviderProbeReport kernel_result called" where
  "probe_backend env r =
     (case discover env r of
        (calls, Inl e) \<Rightarrow> (calls, Inl e)
      | (calls, Inr (cls, models, warnings)) \<Rightarrow>
          (calls, Inr \<lparr>rep_reachable = True, rep_latency_ms = clamp_u64 (we_elapsed_ms env), rep_available_models = models,
             rep_capabilities = probed_capabilities env r cls, rep_warnings = warnings @ probe_warnings r cls models\<rparr>))"

section \<open>The process\<close>

definition plain_response :: "ProviderResponse" where
  "plain_response = \<lparr>pres_ok = True, pres_receipt = None, pres_probe = None, pres_error_code = [], pres_error_message = []\<rparr>"

definition worker_receipt :: "worker_env \<Rightarrow> OperationRequest \<Rightarrow> string \<Rightarrow> OperationReceipt kernel_result" where
  "worker_receipt env r result =
     (case we_snapshot env (op_snapshot r) of
        Inl e \<Rightarrow> Inl (KE_Serialization e)
      | Inr bytes \<Rightarrow> Inr
          \<lparr>rc_operation_id = op_operation_id r, rc_input_digest = input_digest (we_sha env) r, rc_output_digest = we_sha env result,
           rc_snapshot_digest = we_sha env bytes, rc_provider_revision = sn_provider_revision (op_snapshot r), rc_result = result,
           rc_completed_at_us = we_now env\<rparr>)"

datatype worker_result = WR_Exit nat | WR_Response "ProviderResponse kernel_result"

definition worker_command :: "worker_env \<Rightarrow> ProviderCommand \<Rightarrow> worker_result called" where
  "worker_command env command =
     (case command of
        PC_Health \<Rightarrow> ([], WR_Response (Inr plain_response))
      | PC_Probe r \<Rightarrow>
          (case probe_backend env r of
             (calls, Inl e) \<Rightarrow> (calls, WR_Response (Inl e))
           | (calls, Inr report) \<Rightarrow> (calls, WR_Response (Inr (plain_response\<lparr>pres_probe := Some report\<rparr>))))
      | PC_Execute r \<Rightarrow>
          (case execute_backend env r of
             (calls, BR_Exit n) \<Rightarrow> (calls, WR_Exit n)
           | (calls, BR_Answer (Inl e)) \<Rightarrow> (calls, WR_Response (Inl e))
           | (calls, BR_Answer (Inr result)) \<Rightarrow>
               (calls, WR_Response (case worker_receipt env r result of
                  Inl e \<Rightarrow> Inl e
                | Inr receipt \<Rightarrow> Inr (plain_response\<lparr>pres_receipt := Some receipt\<rparr>)))))"

definition worker_run :: "worker_env \<Rightarrow> string list \<Rightarrow> string + string \<Rightarrow> worker_result called" where
  "worker_run env args stdin =
     (if args = [] \<or> hd args \<noteq> ''--stdio-once'' then ([], WR_Response (Inl (KE_Provider ''expected --stdio-once'')))
      else case stdin of
        Inl e \<Rightarrow> ([], WR_Response (Inl (KE_Provider e)))
      | Inr body \<Rightarrow>
          (case dec (we_command env) body of
             Inl e \<Rightarrow> ([], WR_Response (Inl (KE_Serialization e)))
           | Inr command \<Rightarrow> worker_command env command))"

definition failed_response :: "KernelError \<Rightarrow> ProviderResponse" where
  "failed_response e =
     \<lparr>pres_ok = False, pres_receipt = None, pres_probe = None, pres_error_code = ''PROVIDER_EXECUTION_FAILED'',
      pres_error_message = show_kernel_error e\<rparr>"

text \<open>The exit code and the output of the process, with the calls it made.\<close>

definition worker_main :: "worker_env \<Rightarrow> string list \<Rightarrow> string + string \<Rightarrow> (nat \<times> string) called" where
  "worker_main env args stdin =
     (case worker_run env args stdin of
        (calls, WR_Exit n) \<Rightarrow> (calls, (n, []))
      | (calls, WR_Response res) \<Rightarrow>
          (let response = (case res of Inl e \<Rightarrow> failed_response e | Inr r \<Rightarrow> r) in
           case enc (we_response env) response of
             Inl e \<Rightarrow> (calls, (2, []))
           | Inr out \<Rightarrow> (calls, (if pres_ok response then 0 else 1, out))))"

end
