(* ===== verification/Worker_Properties.thy ===== *)
theory Worker_Properties
  imports Worker
begin

text \<open>
  What the child process gets to see, what the worker sends, and what a receipt attests when the worker runs as the child of
  the kernel.
\<close>

section \<open>The environment of the child\<close>

lemma child_environmentD:
  assumes "child_environment env c = Inr vars"
  shows "vars \<subseteq>\<^sub>m pe_vars env" "dom vars \<subseteq> set kept_variables \<union> {c}"
    "c \<noteq> [] \<Longrightarrow> permitted_credential env c \<and> validate_credential_reference c = Inr () \<and> vars c = pe_vars env c"
  using assms
  by (auto simp: child_environment_def base_environment_def map_le_def restrict_map_def split: if_splits sum.splits option.splits)

text \<open>A provider process inherits nothing but what it needs: whatever the command, the environment of the child holds only the nine
  listed variables and the credential the request names, with the values of the daemon; the credential must be a valid reference
  that the operator listed.  A request without a credential gets none.\<close>

theorem provider_environment_is_confined:
  "case provider_child env command c of
     Inl e \<Rightarrow> c \<noteq> []
   | Inr child \<Rightarrow> ch_env child \<subseteq>\<^sub>m pe_vars env \<and> dom (ch_env child) \<subseteq> set kept_variables \<union> (if c = [] then {} else {c}) \<and>
       (c = [] \<or> permitted_credential env c \<and> validate_credential_reference c = Inr ())"
proof (cases "child_environment env c")
  case (Inl e)
  then show ?thesis by (auto simp: provider_child_def child_environment_def)
next
  case (Inr vars)
  have "c = [] \<Longrightarrow> dom vars \<subseteq> set kept_variables"
    using Inr by (force simp: child_environment_def base_environment_def restrict_map_def split: if_splits)
  then show ?thesis
    using Inr child_environmentD [OF Inr] by (auto simp: provider_child_def split: prod.split)
qed

section \<open>What the worker sends\<close>

definition secure_url :: "url \<Rightarrow> bool" where
  "secure_url u \<longleftrightarrow> ur_username u = [] \<and> ur_password u = None \<and> ur_query u = None \<and> ur_fragment u = None \<and>
     (ur_scheme u = ''https'' \<or> ur_host u \<in> {Some ''localhost'', Some ''127.0.0.1'', Some ''::1''})"

lemma checked_endpointD:
  assumes "checked_endpoint env s allow = Inr u"
  shows "secure_url u" "\<not> allow \<Longrightarrow> ur_scheme u = ''https''"
  using assms by (auto simp: checked_endpoint_def secure_url_def Let_def split: option.splits if_splits)

definition proper_call :: "worker_env \<Rightarrow> string \<Rightarrow> http_call \<Rightarrow> bool" where
  "proper_call env name call \<longleftrightarrow>
     secure_url (hc_url call) \<and> (case hc_bearer call of None \<Rightarrow> True | Some c \<Rightarrow> name \<noteq> [] \<and> we_vars env name = Some c)"

lemma bearer_forD: "bearer_for env name anonymous = Inr (Some c) \<Longrightarrow> name \<noteq> [] \<and> we_vars env name = Some c"
  by (auto simp: bearer_for_def credential_def split: if_splits sum.splits option.splits)

lemma openai_calls: "list_all (proper_call env (op_credential_env r)) (fst (openai_compatible env r)) \<and> length (fst (openai_compatible env r)) \<le> 1"
  by (auto simp: openai_compatible_def Let_def proper_call_def split: sum.split option.split dest!: checked_endpointD(1) bearer_forD)

lemma ollama_calls: "list_all (proper_call env name) (fst (ollama env r)) \<and> length (fst (ollama env r)) \<le> 1"
  by (auto simp: ollama_def Let_def proper_call_def split: sum.split option.split dest!: checked_endpointD(1))

lemma execute_calls_proper:
  "list_all (proper_call env (op_credential_env r)) (fst (execute_backend env r)) \<and> length (fst (execute_backend env r)) \<le> 1"
  using openai_calls [of env r] ollama_calls [of env "op_credential_env r" r] by (simp add: execute_backend_def)

lemma probe_endpoint_calls:
  assumes "\<And>c. bearer () = Inr (Some c) \<Longrightarrow> name \<noteq> [] \<and> we_vars env name = Some c"
  shows "list_all (proper_call env name) (fst (probe_endpoint env r path allow bearer)) \<and> length (fst (probe_endpoint env r path allow bearer)) \<le> 1"
  using assms
  by (auto simp: probe_endpoint_def probe_call_def Let_def proper_call_def split: sum.split option.split dest!: checked_endpointD(1))

lemma probe_calls_proper:
  "list_all (proper_call env (pr_credential_env r)) (fst (probe_backend env r)) \<and> length (fst (probe_backend env r)) \<le> 1"
proof -
  let ?ok = "\<lambda>cs. list_all (proper_call env (pr_credential_env r)) cs \<and> length cs \<le> 1"
  have cred: "?ok (fst (probe_endpoint env r path allow (\<lambda>_. Inr (Some c))))" if "credential env (pr_credential_env r) = Inr c" for path allow c
    by (rule probe_endpoint_calls) (use that in \<open>auto simp: credential_def split: if_splits option.splits\<close>)
  have none: "?ok (fst (probe_endpoint env r path allow (\<lambda>_. Inr None)))" for path allow by (rule probe_endpoint_calls) simp
  have edge: "?ok (fst (probe_endpoint env r path allow (\<lambda>_. bearer_for env (pr_credential_env r) b)))" for path allow b
    by (rule probe_endpoint_calls) (rule bearer_forD)
  have "?ok (fst (discover env r))"
    using cred none edge by (auto simp: discover_def Let_def case_prod_unfold split: sum.split)
  then show ?thesis by (auto simp: probe_backend_def split: prod.split sum.split)
qed

lemma worker_calls:
  assumes "dec (we_command env) body = Inr command"
  shows "list_all (proper_call env (case command of PC_Execute r \<Rightarrow> op_credential_env r | PC_Probe r \<Rightarrow> pr_credential_env r | PC_Health \<Rightarrow> []))
      (fst (worker_main env args (Inr body))) \<and> length (fst (worker_main env args (Inr body))) \<le> 1"
proof -
  have main: "fst (worker_main env args (Inr body)) = fst (worker_run env args (Inr body))"
    by (auto simp: worker_main_def Let_def split: prod.split worker_result.split sum.split)
  have "fst (worker_command env command) = (case command of PC_Execute r \<Rightarrow> fst (execute_backend env r) | PC_Probe r \<Rightarrow> fst (probe_backend env r) | PC_Health \<Rightarrow> [])"
    by (auto simp: worker_command_def split: ProviderCommand.split prod.split sum.split backend_run.split)
  then show ?thesis
    using assms execute_calls_proper probe_calls_proper unfolding main by (simp add: worker_run_def split: ProviderCommand.split)
qed


section \<open>Receipts\<close>

text \<open>The built-in program of the kernel is the worker: whenever a process of it exits, it exits as the worker does on the
  environment, the arguments and the input it was given.\<close>

definition runs_worker :: "process_env \<Rightarrow> worker_env \<Rightarrow> bool" where
  "runs_worker pe we \<longleftrightarrow>
     (\<forall>child body timeout. ch_program child = pe_program pe \<longrightarrow>
        (case pe_run pe child body timeout of
           CO_Exited success status stdout stderr \<Rightarrow>
             (success, stdout) = map_prod (\<lambda>n. n = 0) id (snd (worker_main (we\<lparr>we_vars := ch_env child\<rparr>) (ch_args child) (Inr body)))
         | _ \<Rightarrow> True))"

lemma runs_workerD:
  assumes "runs_worker pe we" "ch_program child = pe_program pe" "pe_run pe child body timeout = CO_Exited success status out err"
  shows "(success, out) = map_prod (\<lambda>n. n = 0) id (snd (worker_main (we\<lparr>we_vars := ch_env child\<rparr>) (ch_args child) (Inr body)))"
proof -
  have "case pe_run pe child body timeout of
      CO_Exited success status stdout stderr \<Rightarrow>
        (success, stdout) = map_prod (\<lambda>n. n = 0) id (snd (worker_main (we\<lparr>we_vars := ch_env child\<rparr>) (ch_args child) (Inr body)))
    | _ \<Rightarrow> True" using assms(1,2) unfolding runs_worker_def by blast
  then show ?thesis unfolding assms(3) by simp
qed

definition same_coding :: "process_env \<Rightarrow> worker_env \<Rightarrow> bool" where
  "same_coding pe we \<longleftrightarrow>
     we_command we = pe_command pe \<and> we_response we = pe_response pe \<and> we_sha we = pe_sha pe \<and> we_snapshot we = pe_snapshot pe \<and>
     codec_roundtrip (pe_command pe) \<and> codec_roundtrip (pe_response pe)"

definition attests :: "process_env \<Rightarrow> OperationRequest \<Rightarrow> OperationReceipt \<Rightarrow> bool" where
  "attests pe r receipt \<longleftrightarrow>
     rc_operation_id receipt = op_operation_id r \<and> rc_input_digest receipt = pe_sha pe (op_input r) \<and>
     rc_output_digest receipt = pe_sha pe (rc_result receipt) \<and> rc_provider_revision receipt = sn_provider_revision (op_snapshot r) \<and>
     Inr (rc_snapshot_digest receipt) = map_sum id (pe_sha pe) (pe_snapshot pe (op_snapshot r))"

lemma external_attests:
  assumes "external_entrypoint (PC_Execute r) \<noteq> None" "read_response pe (PC_Execute r) out = Inr response" "pres_receipt response = Some receipt"
  shows "attests pe r receipt"
  using assms
  by (auto simp: read_response_def normalize_external_provider_response_def attests_def input_digest_def
      split: sum.splits if_splits option.splits)

lemma worker_receiptD: "worker_receipt we r result = Inr receipt \<Longrightarrow> same_coding pe we \<Longrightarrow> attests pe r receipt \<and> rc_result receipt = result"
  by (auto simp: worker_receipt_def attests_def same_coding_def input_digest_def split: sum.splits)

lemma worker_main_receipt:
  assumes "same_coding pe we" "enc (pe_command pe) (PC_Execute r) = Inr body" "snd (worker_main we [''--stdio-once''] (Inr body)) = (0, out)"
    and "dec (pe_response pe) out = Inr response" "pres_receipt response = Some receipt"
  shows "attests pe r receipt"
proof -
  have dec: "dec (we_command we) body = Inr (PC_Execute r)"
    using codec_roundtripD [OF _ assms(2)] assms(1) by (simp add: same_coding_def)
  obtain calls res where run: "worker_command we (PC_Execute r) = (calls, res)" by fastforce
  show ?thesis
  proof (cases res)
    case (WR_Response x)
    let ?response = "case x of Inl e \<Rightarrow> failed_response e | Inr r \<Rightarrow> r"
    have "enc (we_response we) ?response = Inr out" "pres_ok ?response"
      using assms(3) dec run WR_Response by (auto simp: worker_main_def worker_run_def Let_def split: sum.splits if_splits)
    then have "response = ?response" "pres_ok ?response"
      using assms(1,4) codec_roundtripD [of "pe_response pe" ?response out] by (auto simp: same_coding_def)
    moreover have "\<not> pres_ok (failed_response e)" for e by (simp add: failed_response_def)
    ultimately have "x = Inr response" by (auto split: sum.splits)
    with run WR_Response assms(5) obtain result where "worker_receipt we r result = Inr receipt"
      by (auto simp: worker_command_def plain_response_def split: prod.splits backend_run.splits sum.splits)
    then show ?thesis using worker_receiptD assms(1) by blast
  next
    case (WR_Exit n)
    then have "n = 0" using assms(3) dec run by (simp add: worker_main_def worker_run_def)
    moreover have "n = 70" using run WR_Exit
      by (auto simp: worker_command_def execute_backend_def map_prod_def split: prod.splits backend_run.splits sum.splits if_splits)
    ultimately show ?thesis by simp
  qed
qed

text \<open>C11.  A receipt attests the request: when executing an operation gives a receipt, from the worker or from an external provider,
  it names the operation and its provider revision and holds the digests of its input, of its result and of its snapshot.\<close>

theorem receipt_attests_request:
  assumes "runs_worker pe we" "same_coding pe we" "process_execute pe r = Inr receipt"
  shows "rc_operation_id receipt = op_operation_id r \<and> rc_input_digest receipt = pe_sha pe (op_input r) \<and>
    rc_output_digest receipt = pe_sha pe (rc_result receipt) \<and> rc_provider_revision receipt = sn_provider_revision (op_snapshot r) \<and>
    Inr (rc_snapshot_digest receipt) = map_sum id (pe_sha pe) (pe_snapshot pe (op_snapshot r))"
proof -
  let ?c = "PC_Execute r"
  obtain response where inv: "invoke pe ?c (op_credential_env r) (op_timeout_ms r) (op_operation_id r) = Inr response"
      and receipt: "pres_receipt response = Some receipt"
    using assms(3) by (auto simp: process_execute_def split: sum.splits option.splits)
  obtain child body success status out err where child: "provider_child pe ?c (op_credential_env r) = Inr child"
      and body: "command_body pe ?c = Inr body" and ran: "pe_run pe child body (max (op_timeout_ms r) 1) = CO_Exited success status out err"
      and judged: "judge_exit success status err (read_response pe ?c out) = Inr response"
    using inv by (auto simp: invoke_def split: sum.splits option.splits child_outcome.splits)
  have ok: "success" "read_response pe ?c out = Inr response"
    using judged by (auto simp: judge_exit_def split: if_splits sum.splits)
  have "attests pe r receipt"
  proof (cases "external_entrypoint ?c")
    case (Some e)
    then show ?thesis using external_attests ok(2) receipt by blast
  next
    case None
    have prog: "ch_program child = pe_program pe" "ch_args child = [''--stdio-once'']"
      using child None by (auto simp: provider_child_def child_program_def split: sum.splits)
    have code: "enc (pe_command pe) ?c = Inr body" using body None by (auto simp: command_body_def split: sum.splits)
    have "(success, out) = map_prod (\<lambda>n. n = 0) id (snd (worker_main (we\<lparr>we_vars := ch_env child\<rparr>) (ch_args child) (Inr body)))"
      by (rule runs_workerD [OF assms(1) prog(1) ran])
    then have "snd (worker_main (we\<lparr>we_vars := ch_env child\<rparr>) [''--stdio-once''] (Inr body)) = (0, out)"
      using ok(1) prog(2) by (auto simp: map_prod_def split: prod.splits)
    moreover have "same_coding pe (we\<lparr>we_vars := ch_env child\<rparr>)" using assms(2) by (simp add: same_coding_def)
    moreover have "dec (pe_response pe) out = Inr response" using ok(2) None by (auto simp: read_response_def split: sum.splits)
    ultimately show ?thesis using worker_main_receipt [OF _ code] receipt by blast
  qed
  then show ?thesis by (simp add: attests_def)
qed

text \<open>The reference backend answers: when the worker is started and runs to its end, and the request and the response can be
  encoded, an operation of the reference backend without credentials gives the receipt of the worker, with the digest of the input as
  its result.\<close>

theorem reference_backend_answers:
  assumes "runs_worker pe we" "same_coding pe we" "op_backend r = ''reference''" "op_credential_env r = []"
    and "enc (pe_command pe) (PC_Execute r) = Inr body" "worker_receipt we r (pe_sha pe (op_input r)) = Inr receipt"
    and "enc (pe_response pe) (plain_response\<lparr>pres_receipt := Some receipt\<rparr>) = Inr out"
    and "\<And>child. pe_spawn pe child = None" "\<And>child t. \<exists>success status out err. pe_run pe child body t = CO_Exited success status out err"
  shows "process_execute pe r = Inr receipt \<and> rc_result receipt = pe_sha pe (op_input r)"
proof -
  let ?c = "PC_Execute r"
  have ext: "external_entrypoint ?c = None" using assms(3) by (simp add: external_entrypoint_def)
  let ?child = "\<lparr>ch_program = pe_program pe, ch_args = [''--stdio-once''], ch_env = base_environment pe\<rparr>"
  have child: "provider_child pe ?c (op_credential_env r) = Inr ?child"
    using assms(4) ext by (simp add: provider_child_def child_environment_def child_program_def)
  let ?w = "we\<lparr>we_vars := ch_env ?child\<rparr>"
  have sha: "we_sha we = pe_sha pe" using assms(2) by (simp add: same_coding_def)
  have receipt: "worker_receipt ?w r (pe_sha pe (op_input r)) = Inr receipt"
    using assms(6) by (simp add: worker_receipt_def split: sum.splits)
  let ?response = "plain_response\<lparr>pres_receipt := Some receipt\<rparr>"
  have dec: "dec (we_command we) body = Inr ?c" using codec_roundtripD [OF _ assms(5)] assms(2) by (simp add: same_coding_def)
  have "worker_command ?w ?c = ([], WR_Response (Inr ?response))"
    using assms(3) receipt sha by (simp add: worker_command_def execute_backend_def)
  then have main: "worker_main ?w [''--stdio-once''] (Inr body) = ([], (0, out))"
    using dec assms(2,7) by (simp add: worker_main_def worker_run_def plain_response_def same_coding_def)
  obtain success status stdout err where ran: "pe_run pe ?child body (max (op_timeout_ms r) 1) = CO_Exited success status stdout err"
    using assms(9) by blast
  have "(success, stdout) = (True, out)" using runs_workerD [OF assms(1) _ ran] main by simp
  moreover have "dec (pe_response pe) out = Inr ?response" using codec_roundtripD [OF _ assms(7)] assms(2) by (simp add: same_coding_def)
  ultimately have "invoke pe ?c (op_credential_env r) (op_timeout_ms r) (op_operation_id r) = Inr ?response"
    using child ran ext assms(5,8)
    by (simp add: invoke_def command_body_def read_response_def judge_exit_def plain_response_def)
  moreover have "rc_result receipt = pe_sha pe (op_input r)" using worker_receiptD [OF receipt] assms(2) by (simp add: same_coding_def)
  ultimately show ?thesis by (simp add: process_execute_def)
qed

section \<open>Examples\<close>

definition demo_operation :: OperationRequest where
  "demo_operation = demo_request\<lparr>op_backend := ''reference'', op_credential_env := []\<rparr>"

definition demo_result :: OperationReceipt where
  "demo_result =
     \<lparr>rc_operation_id = op_operation_id demo_operation, rc_input_digest = op_input demo_operation, rc_output_digest = op_input demo_operation,
      rc_snapshot_digest = ''s'', rc_provider_revision = sn_provider_revision (op_snapshot demo_operation), rc_result = op_input demo_operation,
      rc_completed_at_us = 7\<rparr>"

text \<open>Responses are coded by their receipts and errors.\<close>

definition demo_responses :: "ProviderResponse codec" where
  "demo_responses =
     \<lparr>enc = (\<lambda>x. if x = plain_response\<lparr>pres_receipt := Some demo_result\<rparr> then Inr ''done'' else Inl ''unsupported''),
      dec = (\<lambda>b. if b = ''done'' then Inr (plain_response\<lparr>pres_receipt := Some demo_result\<rparr>) else Inl ''syntax'')\<rparr>"

definition demo_commands :: "ProviderCommand codec" where
  "demo_commands =
     \<lparr>enc = (\<lambda>c. if c = PC_Execute demo_operation then Inr ''run'' else Inl ''unsupported''),
      dec = (\<lambda>b. if b = ''run'' then Inr (PC_Execute demo_operation) else Inl ''syntax'')\<rparr>"

definition demo_worker :: worker_env where
  "demo_worker =
     \<lparr>we_vars = Map.empty, we_url = (\<lambda>_. None), we_client = (\<lambda>_. None), we_http = (\<lambda>_. HA_Failed ''offline''), we_status_error = (\<lambda>_ _. ''status''),
      we_json = \<lparr>enc = (\<lambda>_. Inl ''none''), dec = (\<lambda>_. Inl ''none'')\<rparr>, we_invocation = (\<lambda>_. Inl ''none''), we_output = (\<lambda>_. Inl ''none''),
      we_sha = (\<lambda>s. s), we_snapshot = (\<lambda>_. Inr ''s''), we_now = 7, we_elapsed_ms = 0, we_elapsed_later_ms = 0,
      we_fo = \<lparr>fo_add = (\<lambda>_ _. 0), fo_sub = (\<lambda>_ _. 0), fo_mul = (\<lambda>_ _. 0), fo_div = (\<lambda>_ _. 0), fo_min = (\<lambda>_ _. 0), fo_max = (\<lambda>_ _. 0),
        fo_ln = (\<lambda>_. 0), fo_sqrt = (\<lambda>_. 0), fo_of_int = (\<lambda>_. 0)\<rparr>,
      we_f64 = (\<lambda>_. 0), we_show_f64 = (\<lambda>_. ''0''), we_command = demo_commands, we_response = demo_responses\<rparr>"

definition demo_process :: process_env where
  "demo_process =
     \<lparr>pe_program = ''worker'', pe_vars = [''PATH'' \<mapsto> ''/bin'', ''NOUS_ALLOWED_CREDENTIALS'' \<mapsto> ''KEY''], pe_spawn = (\<lambda>_. None),
      pe_run = (\<lambda>child body timeout.
        case snd (worker_main (demo_worker\<lparr>we_vars := ch_env child\<rparr>) (ch_args child) (Inr body)) of (n, out) \<Rightarrow> CO_Exited (n = 0) ''status'' out []),
      pe_command = demo_commands, pe_response = demo_responses, pe_json = \<lparr>enc = (\<lambda>_. Inl ''none''), dec = (\<lambda>_. Inl ''none'')\<rparr>,
      pe_sha = (\<lambda>s. s), pe_snapshot = (\<lambda>_. Inr ''s''), pe_now = 7\<rparr>"

lemma demo_runs_worker: "runs_worker demo_process demo_worker"
  by (auto simp: runs_worker_def demo_process_def split: prod.split)

lemma demo_coding: "same_coding demo_process demo_worker"
  by (auto simp: same_coding_def demo_process_def demo_worker_def codec_roundtrip_def demo_commands_def demo_responses_def split: if_splits)

lemma demo_operation_fields: "op_backend demo_operation = ''reference''" "op_credential_env demo_operation = []"
  by (simp_all add: demo_operation_def)

lemma demo_worker_codes:
  "enc (pe_command demo_process) (PC_Execute demo_operation) = Inr ''run''" "pe_spawn demo_process child = None"
  "enc (pe_response demo_process) (plain_response\<lparr>pres_receipt := Some demo_result\<rparr>) = Inr ''done''" "pe_sha demo_process x = x"
  "\<exists>success status out err. pe_run demo_process child body t = CO_Exited success status out err"
  by (auto simp: demo_process_def demo_commands_def demo_responses_def split: prod.split)

lemma demo_receipt: "worker_receipt demo_worker demo_operation (pe_sha demo_process (op_input demo_operation)) = Inr demo_result"
  by (simp add: worker_receipt_def demo_worker_def demo_result_def input_digest_def demo_worker_codes)

theorem reference_backend_answers_witness: "process_execute demo_process demo_operation = Inr demo_result"
  using reference_backend_answers [OF demo_runs_worker demo_coding demo_operation_fields demo_worker_codes(1) demo_receipt demo_worker_codes(3,2,5)] by blast

lemma demo_executes: "process_execute demo_process demo_operation = Inr demo_result"
proof -
  have child: "provider_child demo_process (PC_Execute demo_operation) [] =
      Inr \<lparr>ch_program = ''worker'', ch_args = [''--stdio-once''], ch_env = base_environment demo_process\<rparr>"
    by (simp add: provider_child_def child_environment_def child_program_def external_entrypoint_def demo_operation_fields)
      (simp add: demo_process_def)
  let ?w = "demo_worker\<lparr>we_vars := base_environment demo_process\<rparr>"
  have "worker_receipt ?w demo_operation (op_input demo_operation) = Inr demo_result"
    by (simp add: worker_receipt_def demo_worker_def demo_result_def input_digest_def)
  then have "worker_command ?w (PC_Execute demo_operation) = ([], WR_Response (Inr (plain_response\<lparr>pres_receipt := Some demo_result\<rparr>)))"
    by (simp add: worker_command_def execute_backend_def demo_operation_fields) (simp add: demo_worker_def)
  then have "worker_main ?w [''--stdio-once''] (Inr ''run'') = ([], (0, ''done''))"
    by (simp add: worker_main_def worker_run_def) (simp add: demo_worker_def demo_commands_def demo_responses_def plain_response_def)
  then have "pe_run demo_process \<lparr>ch_program = ''worker'', ch_args = [''--stdio-once''], ch_env = base_environment demo_process\<rparr> ''run'' t =
      CO_Exited True ''status'' ''done'' []" for t
    by (simp add: demo_process_def [THEN arg_cong, of pe_run])
  moreover have "dec (pe_response demo_process) ''done'' = Inr (plain_response\<lparr>pres_receipt := Some demo_result\<rparr>)"
    by (simp add: demo_process_def demo_responses_def)
  ultimately have "invoke demo_process (PC_Execute demo_operation) [] t oid = Inr (plain_response\<lparr>pres_receipt := Some demo_result\<rparr>)" for t oid
    using child demo_worker_codes
    by (simp add: invoke_def command_body_def read_response_def judge_exit_def external_entrypoint_def demo_operation_fields plain_response_def)
  then show ?thesis by (simp add: process_execute_def demo_operation_fields)
qed

theorem receipt_attests_request_witness: "rc_operation_id demo_result = op_operation_id demo_operation"
  using receipt_attests_request [OF demo_runs_worker demo_coding demo_executes] by blast

definition demo_remote :: OperationRequest where
  "demo_remote = demo_request\<lparr>op_backend := ''openai-compatible'', op_credential_env := ''KEY'', op_endpoint := ''https://h''\<rparr>"

definition demo_remote_process :: process_env where
  "demo_remote_process = demo_process\<lparr>pe_vars := [''KEY'' \<mapsto> ''secret'', ''NOUS_ALLOWED_CREDENTIALS'' \<mapsto> ''KEY''],
     pe_command := \<lparr>enc = (\<lambda>c. if c = PC_Execute demo_remote then Inr ''run'' else Inl ''unsupported''),
       dec = (\<lambda>b. if b = ''run'' then Inr (PC_Execute demo_remote) else Inl ''syntax'')\<rparr>\<rparr>"

definition demo_remote_worker :: worker_env where
  "demo_remote_worker = demo_worker\<lparr>we_vars := [''KEY'' \<mapsto> ''secret''], we_command := pe_command demo_remote_process,
     we_url := (\<lambda>_. Some \<lparr>ur_scheme = ''https'', ur_username = [], ur_password = None, ur_host = Some ''h'', ur_query = None, ur_fragment = None\<rparr>)\<rparr>"

lemma demo_remote_child:
  "provider_child demo_remote_process (PC_Execute demo_remote) ''KEY'' =
     Inr \<lparr>ch_program = ''worker'', ch_args = [''--stdio-once''], ch_env = [''KEY'' \<mapsto> ''secret'']\<rparr>"
proof -
  have "permitted_credential demo_remote_process ''KEY''"
    by (simp add: permitted_credential_def demo_remote_process_def trim_def is_ws_def)
  moreover have "validate_credential_reference ''KEY'' = Inr ()"
    by (simp add: validate_credential_reference_def is_ascii_alphabetic_def is_ascii_alphanumeric_def)
  moreover have "base_environment demo_remote_process = Map.empty"
    by (auto simp: base_environment_def demo_remote_process_def kept_variables_def restrict_map_def)
  moreover have "external_entrypoint (PC_Execute demo_remote) = None" by (simp add: external_entrypoint_def demo_remote_def)
  moreover have "pe_vars demo_remote_process ''KEY'' = Some ''secret''" "pe_program demo_remote_process = ''worker''"
    by (simp_all add: demo_remote_process_def demo_process_def)
  ultimately show ?thesis by (simp add: provider_child_def child_environment_def child_program_def)
qed

lemma demo_remote_fields:
  "codec_roundtrip (pe_command demo_remote_process)" "enc (pe_command demo_remote_process) (PC_Execute demo_remote) = Inr ''run''"
  "we_command demo_remote_worker = pe_command demo_remote_process" "we_vars demo_remote_worker = [''KEY'' \<mapsto> ''secret'']"
  "op_credential_env demo_remote = ''KEY''"
  by (auto simp: codec_roundtrip_def demo_remote_process_def demo_remote_worker_def demo_remote_def split: if_splits)


end
