(* ===== verification/Runtime_Client.thy ===== *)
theory Runtime_Client
  imports Daemon
begin

text \<open>
  The client library (crates/nous-runtime-client/src/lib.rs): the envelope of a request, the exchange of one frame for another,
  the checks of the response, and the calls built on it.

  Parameters (\<open>client_env\<close>) are the identifiers drawn, the clock, the session token of the environment, JSON coding, and the
  exchange with the peer: what the peer answers to the bytes written.  Whether the thirty seconds are over first is the
  parameter \<open>cl_expired\<close>.
\<close>

section \<open>Parameters\<close>

datatype ClientError =
    CL_ConnectionFailed string | CL_Serialization string | CL_Io string | CL_NkiError NKIErrorBody
  | CL_Unsupported string | CL_Protocol string | CL_Timeout

type_synonym 'a client_result = "ClientError + 'a"

text \<open>The exchange fails, or the peer answers with bytes, after which the stream may end.\<close>

datatype peer_answer = PA_Failed string | PA_Bytes string

record client_env =
  cl_request_id :: string
  cl_idempotency_key :: string
  cl_now_us :: "string + nat"
  cl_token :: "string option"
  cl_expired :: bool
  cl_value :: "json codec"
  cl_request :: "NKIRequest codec"
  cl_response :: "NKIResponse codec"
  cl_exchange :: "string \<Rightarrow> peer_answer"
  cl_eof :: string
  cl_put_value :: "PutAssetRequest \<Rightarrow> string + json"
  cl_selector_value :: "AssetSelector \<Rightarrow> string + json"
  cl_selector_json :: "AssetSelector \<Rightarrow> json"
  cl_list_value :: "ListAssetsRequest \<Rightarrow> string + json"
  cl_asset :: "json \<Rightarrow> string + ControlAsset"
  cl_assets :: "json \<Rightarrow> string + ControlAsset list"

definition MAX_FRAME_BYTES :: nat where
  "MAX_FRAME_BYTES = 16 * 1024 * 1024"

definition DEFAULT_TIMEOUT_us :: nat where
  "DEFAULT_TIMEOUT_us = 30000000"

section \<open>One request\<close>

definition client_deadline :: "nat \<Rightarrow> int" where
  "client_deadline now_us = int (min (now_us + DEFAULT_TIMEOUT_us) i64_max)"

definition client_envelope :: "client_env \<Rightarrow> nat \<Rightarrow> string \<Rightarrow> json \<Rightarrow> NKIRequest" where
  "client_envelope env now_us method payload =
     \<lparr>nq_request_id = cl_request_id env, nq_idempotency_key = cl_idempotency_key env, nq_nki_version = NKI_VERSION,
      nq_principal_id = ''rust-sdk'', nq_session_token = (case cl_token env of None \<Rightarrow> [] | Some t \<Rightarrow> t), nq_namespace = ''default'',
      nq_deadline_us = client_deadline now_us, nq_traceparent = [], nq_tracestate = [], nq_feature_flags = [], nq_method = method,
      nq_payload = (case enc (cl_value env) payload of Inl _ \<Rightarrow> [] | Inr b \<Rightarrow> b)\<rparr>"

definition read_reply :: "client_env \<Rightarrow> string \<Rightarrow> json client_result" where
  "read_reply env bytes =
     (if length bytes < 4 then Inl (CL_Io (cl_eof env))
      else let msg_len = u32_from_be_bytes (take 4 bytes) in
           if msg_len > MAX_FRAME_BYTES then Inl (CL_Protocol ''response exceeds 16 MiB'')
           else if length (drop 4 bytes) < msg_len then Inl (CL_Io (cl_eof env))
           else (case dec (cl_response env) (take msg_len (drop 4 bytes)) of
                   Inl e \<Rightarrow> Inl (CL_Serialization e)
                 | Inr response \<Rightarrow>
                     if nr_request_id response \<noteq> cl_request_id env then Inl (CL_Protocol ''response request_id does not match request'')
                     else if nr_nki_version response \<noteq> NKI_VERSION then Inl (CL_Protocol ''response NKI version is unsupported'')
                     else (case nr_outcome response of NKI_Success payload \<Rightarrow> Inr payload | NKI_Error e \<Rightarrow> Inl (CL_NkiError e))))"

definition request_inner :: "client_env \<Rightarrow> string \<Rightarrow> json \<Rightarrow> json client_result" where
  "request_inner env method payload =
     (case cl_now_us env of
        Inl e \<Rightarrow> Inl (CL_Protocol e)
      | Inr now_us \<Rightarrow>
          (case enc (cl_request env) (client_envelope env now_us method payload) of
             Inl e \<Rightarrow> Inl (CL_Serialization e)
           | Inr body \<Rightarrow>
               if length body > MAX_FRAME_BYTES then Inl (CL_Protocol ''request exceeds 16 MiB'')
               else (case cl_exchange env (encode_raw body) of
                       PA_Failed e \<Rightarrow> Inl (CL_Io e)
                     | PA_Bytes bytes \<Rightarrow> read_reply env bytes)))"

definition client_request :: "client_env \<Rightarrow> string \<Rightarrow> json \<Rightarrow> json client_result" where
  "client_request env method payload = (if cl_expired env then Inl CL_Timeout else request_inner env method payload)"

section \<open>Calls\<close>

definition client_submit_workload :: "client_env \<Rightarrow> json \<Rightarrow> json client_result" where
  "client_submit_workload env spec = client_request env ''SubmitWorkload'' spec"

definition client_get_workload :: "client_env \<Rightarrow> string \<Rightarrow> json client_result" where
  "client_get_workload env w = client_request env ''GetWorkload'' (JObject [(''workload_id'', JString w)])"

definition client_list_workloads :: "client_env \<Rightarrow> nat \<Rightarrow> json client_result" where
  "client_list_workloads env limit = client_request env ''ListWorkloads'' (JObject [(''limit'', json_nat limit)])"

definition client_cancel_workload :: "client_env \<Rightarrow> string \<Rightarrow> string \<Rightarrow> json client_result" where
  "client_cancel_workload env w reason =
     client_request env ''CancelWorkload''
       (JObject [(''workload_id'', JString w), (''reason'', JString reason), (''force'', JBool False)])"

definition client_health_check :: "client_env \<Rightarrow> bool \<Rightarrow> json client_result" where
  "client_health_check env deep = client_request env ''HealthCheck'' (JObject [(''deep'', JBool deep)])"

definition client_register_model :: "client_env \<Rightarrow> json \<Rightarrow> json client_result" where
  "client_register_model env model = client_request env ''RegisterModel'' (JObject [(''model'', model)])"

definition serialized :: "string + 'a \<Rightarrow> 'a client_result" where
  "serialized r = (case r of Inl e \<Rightarrow> Inl (CL_Serialization e) | Inr x \<Rightarrow> Inr x)"

definition typed_call :: "client_env \<Rightarrow> string \<Rightarrow> string + json \<Rightarrow> (json \<Rightarrow> string + 'a) \<Rightarrow> 'a client_result" where
  "typed_call env method payload decode =
     (case serialized payload of
        Inl e \<Rightarrow> Inl e
      | Inr v \<Rightarrow> (case client_request env method v of Inl e \<Rightarrow> Inl e | Inr reply \<Rightarrow> serialized (decode reply)))"

definition client_put_control_asset :: "client_env \<Rightarrow> PutAssetRequest \<Rightarrow> ControlAsset client_result" where
  "client_put_control_asset env request = typed_call env ''PutControlAsset'' (cl_put_value env request) (cl_asset env)"

definition client_get_control_asset :: "client_env \<Rightarrow> AssetSelector \<Rightarrow> ControlAsset client_result" where
  "client_get_control_asset env selector = typed_call env ''GetControlAsset'' (cl_selector_value env selector) (cl_asset env)"

definition client_list_control_assets :: "client_env \<Rightarrow> ListAssetsRequest \<Rightarrow> ControlAsset list client_result" where
  "client_list_control_assets env request =
     typed_call env ''ListControlAssets'' (cl_list_value env request)
       (\<lambda>v. cl_assets env (case json_get ''assets'' v of None \<Rightarrow> JNull | Some w \<Rightarrow> w))"

definition client_delete_control_asset :: "client_env \<Rightarrow> AssetSelector \<Rightarrow> nat \<Rightarrow> unit client_result" where
  "client_delete_control_asset env selector generation =
     (case client_request env ''DeleteControlAsset''
             (JObject [(''selector'', cl_selector_json env selector), (''expected_generation'', json_nat generation)]) of
        Inl e \<Rightarrow> Inl e
      | Inr _ \<Rightarrow> Inr ())"

definition client_list_engines :: "client_env \<Rightarrow> json client_result" where
  "client_list_engines env = client_request env ''ListEngines'' (JObject [(''namespace'', JString ''default'')])"

definition client_list_devices :: "client_env \<Rightarrow> json client_result" where
  "client_list_devices env = client_request env ''ListDevices'' (JObject [(''namespace'', JString ''default'')])"

definition client_create_checkpoint :: "client_env \<Rightarrow> string \<Rightarrow> json client_result" where
  "client_create_checkpoint env w = client_request env ''CreateCheckpoint'' (JObject [(''workload_id'', JString w)])"

text \<open>The calls of the high-level client.\<close>

definition nki_submit_workload :: "client_env \<Rightarrow> json \<Rightarrow> string client_result" where
  "nki_submit_workload env spec =
     (case client_submit_workload env spec of
        Inl e \<Rightarrow> Inl e
      | Inr v \<Rightarrow>
          (case Option.bind (json_get ''workload_id'' v) json_as_str of
             Some w \<Rightarrow> Inr w
           | None \<Rightarrow>
               (case Option.bind (json_get ''operation_id'' v) json_as_str of
                  Some w \<Rightarrow> Inr w
                | None \<Rightarrow> Inl (CL_Protocol ''submission response has no workload ID''))))"

definition nki_health :: "client_env \<Rightarrow> bool client_result" where
  "nki_health env =
     (case client_health_check env False of
        Inl e \<Rightarrow> Inl e
      | Inr v \<Rightarrow> Inr (case Option.bind (json_get ''healthy'' v) json_as_bool of
          Some b \<Rightarrow> b
        | None \<Rightarrow> Option.bind (json_get ''state'' v) json_as_str \<in> {Some ''READY'', Some ''DEGRADED''}))"

end
