(* ===== verification/Client_Properties.thy ===== *)
theory Client_Properties
  imports Runtime_Client Daemon_Properties
begin

text \<open>
  The client library against the daemon: what a call returns when the peer is the connection handler of the daemon.
\<close>

section \<open>Against the daemon\<close>

text \<open>The peer is the daemon: it answers the bytes with the frames that a connection of its own writes.\<close>

definition daemon_peer ::
  "client_env \<Rightarrow> daemon_env \<Rightarrow> connection_env \<Rightarrow> string \<Rightarrow> (nat \<Rightarrow> request_inputs) \<Rightarrow> daemon_state \<Rightarrow> bool" where
  "daemon_peer env denv cn token inputs d \<longleftrightarrow>
     cl_request env = cn_request cn \<and> cl_response env = cn_response cn \<and>
     codec_roundtrip (cn_request cn) \<and> codec_roundtrip (cn_response cn) \<and>
     (\<forall>bytes. cl_exchange env bytes =
        PA_Bytes (concat (fst (snd (handle_connection denv cn token inputs 0 bytes d)))))"

lemma connection_single:
  assumes "length body \<le> 16 * 1024 * 1024" "dec (cn_request cn) body = Inr q"
    and "handle_request denv token (inputs 0) q d = (Some (Inr response), d')"
    and "enc (cn_response cn) response = Inr out"
  shows "handle_connection denv cn token inputs 0 (encode_raw body) d = (CE_Closed, [encode_raw out], d')"
proof -
  have "read_frame (encode_raw body) = FR_Frame body []" using read_encoded [OF assms(1), of "[]"] by simp
  moreover have "read_frame [] = FR_Closed" by (simp add: read_frame_def)
  ultimately show ?thesis
    using assms(2-4)
    by (simp add: handle_connection.simps [of _ _ _ _ _ "encode_raw body"] handle_connection.simps [of _ _ _ _ _ "[]"] codec_encode_def)
qed

lemma reply_encoded:
  assumes "codec_roundtrip (cl_response env)" "enc (cl_response env) response = Inr out" "length out \<le> MAX_FRAME_BYTES"
    and "nr_request_id response = cl_request_id env" "nr_nki_version response = NKI_VERSION"
  shows "read_reply env (encode_raw out) = (case nr_outcome response of NKI_Success v \<Rightarrow> Inr v | NKI_Error e \<Rightarrow> Inl (CL_NkiError e))"
proof -
  have len: "length out < 2 ^ 32" using assms(3) by (simp add: MAX_FRAME_BYTES_def)
  have "take 4 (encode_raw out) = u32_to_be_bytes (of_nat (length out))" "drop 4 (encode_raw out) = out" "4 \<le> length (encode_raw out)"
    by (simp_all add: encode_raw_def u32_to_be_bytes_def)
  moreover have "u32_from_be_bytes (take 4 (encode_raw out)) = length out" using frame_header [OF len, of "[]"] by simp
  ultimately show ?thesis
    using assms(3-5) codec_roundtripD [OF assms(1,2)] unfolding read_reply_def Let_def by simp
qed

definition client_token :: "client_env \<Rightarrow> string" where
  "client_token env = (case cl_token env of None \<Rightarrow> [] | Some t \<Rightarrow> t)"

lemma client_envelope_passes:
  assumes "cl_request_id env \<noteq> []" "cl_idempotency_key env \<noteq> []" "client_token env = token" "length token < 2 ^ 64"
    and "checked_at \<le> client_deadline now_us"
  shows "screen_envelope token checked_at (client_envelope env now_us method payload) = None"
  using assms token_equal [OF assms(4,4)]
  by (auto simp: screen_envelope_def client_envelope_def client_token_def NKI_VERSION_def MIN_NKI_VERSION_def)

text \<open>C10.  The client sees what the daemon did: a request of the client library, sent to the daemon with its session token, before its
  own deadline and in frames of at most 16 MiB, is dispatched exactly once with its method and payload, and the call returns the payload
  of a success or the error of a failure, as the handler of the method answered it.\<close>

theorem client_sees_dispatch:
  assumes "daemon_peer env denv cn token inputs d" "\<not> cl_expired env" "cl_now_us env = Inr now_us"
    and "cl_request_id env \<noteq> []" "cl_idempotency_key env \<noteq> []" "client_token env = token" "length token < 2 ^ 64"
    and "in_checked_at (inputs 0) \<le> client_deadline now_us"
    and "q = client_envelope env now_us method payload" "enc (cn_request cn) q = Inr body" "length body \<le> MAX_FRAME_BYTES"
    and "dispatch_request denv (in_now (inputs 0)) q d = (Some (Inr outcome), d')"
    and "enc (cn_response cn) (respond (inputs 0) q outcome) = Inr out" "length out \<le> MAX_FRAME_BYTES"
  shows "client_request env method payload = (case outcome of NKI_Success v \<Rightarrow> Inr v | NKI_Error e \<Rightarrow> Inl (CL_NkiError e)) \<and>
    snd (snd (handle_connection denv cn token inputs 0 (encode_raw body) d)) = d'"
proof -
  note peer = assms(1) [unfolded daemon_peer_def]
  have pass: "screen_envelope token (in_checked_at (inputs 0)) q = None"
    unfolding assms(9) by (rule client_envelope_passes [OF assms(4-8)])
  have h: "handle_request denv token (inputs 0) q d = (Some (Inr (respond (inputs 0) q outcome)), d')"
    using pass assms(12) by (simp add: handle_request_def)
  have dec: "dec (cn_request cn) body = Inr q" using codec_roundtripD [OF _ assms(10)] peer by blast
  have conn: "handle_connection denv cn token inputs 0 (encode_raw body) d = (CE_Closed, [encode_raw out], d')"
    by (rule connection_single) (use dec h assms(11,13) in \<open>simp_all add: MAX_FRAME_BYTES_def\<close>)
  have "read_reply env (encode_raw out) = (case nr_outcome (respond (inputs 0) q outcome) of NKI_Success v \<Rightarrow> Inr v | NKI_Error e \<Rightarrow> Inl (CL_NkiError e))"
    by (rule reply_encoded) (use peer assms(9,13,14) in \<open>simp_all add: respond_def client_envelope_def\<close>)
  then have "request_inner env method payload = (case outcome of NKI_Success v \<Rightarrow> Inr v | NKI_Error e \<Rightarrow> Inl (CL_NkiError e))"
    using assms(3,9,10,11) peer conn by (simp add: request_inner_def respond_def)
  then show ?thesis using assms(2) conn by (simp add: client_request_def)
qed

text \<open>Calls that the library offers and the daemon refuses: listing engines and devices and creating checkpoints are answered with
  \<open>METHOD_NOT_SUPPORTED\<close>, as are seventeen of the listed methods in all.\<close>

definition refused_methods :: "string list" where
  "refused_methods =
     [''PauseWorkload'', ''ResumeWorkload'', ''AdmitWorkload'', ''ReserveResources'', ''ReleaseResources'', ''LoadModel'', ''UnloadModel'',
      ''RegisterEngine'', ''ListEngines'', ''RegisterDevice'', ''ProbeDevice'', ''ListDevices'', ''CreateCheckpoint'', ''RestoreCheckpoint'',
      ''WatchEvents'', ''GetTrace'', ''RenewLease'']"

theorem listed_methods_are_refused:
  "set refused_methods \<subseteq> set nki_methods \<and>
   list_all (\<lambda>m. dispatch_request denv now (client_envelope env now_us m payload) d =
     (Some (Inr (nki_error ''METHOD_NOT_SUPPORTED'' m False)), d)) refused_methods"
proof -
  have "nq_method (client_envelope env now_us m payload) = m" for m by (simp add: client_envelope_def)
  then show ?thesis
    by (simp add: refused_methods_def nki_methods_def dispatch_request_def extension_methods_def answer_def)
qed

section \<open>Example\<close>

definition demo_client :: "(string \<Rightarrow> peer_answer) \<Rightarrow> NKIRequest codec \<Rightarrow> NKIResponse codec \<Rightarrow> client_env" where
  "demo_client exchange requests responses =
     \<lparr>cl_request_id = ''id'', cl_idempotency_key = ''key'', cl_now_us = Inr 5, cl_token = None, cl_expired = False,
      cl_value = \<lparr>enc = (\<lambda>_. Inr ''v''), dec = (\<lambda>_. Inl ''none'')\<rparr>, cl_request = requests, cl_response = responses,
      cl_exchange = exchange, cl_eof = ''eof'', cl_put_value = (\<lambda>_. Inl ''none''), cl_selector_value = (\<lambda>_. Inl ''none''),
      cl_selector_json = (\<lambda>_. JNull), cl_list_value = (\<lambda>_. Inl ''none''), cl_asset = (\<lambda>_. Inl ''none''), cl_assets = (\<lambda>_. Inl ''none'')\<rparr>"

definition demo_envelope :: NKIRequest where
  "demo_envelope =
     \<lparr>nq_request_id = ''id'', nq_idempotency_key = ''key'', nq_nki_version = NKI_VERSION, nq_principal_id = ''rust-sdk'', nq_session_token = [],
      nq_namespace = ''default'', nq_deadline_us = client_deadline 5, nq_traceparent = [], nq_tracestate = [], nq_feature_flags = [],
      nq_method = ''ListEngines'', nq_payload = ''v''\<rparr>"

definition demo_reply :: NKIResponse where
  "demo_reply = respond (demo_inputs 7) demo_envelope (nki_error ''METHOD_NOT_SUPPORTED'' ''ListEngines'' False)"

definition single_codec :: "'a \<Rightarrow> 'a codec" where
  "single_codec x = \<lparr>enc = (\<lambda>y. if y = x then Inr ''x'' else Inl ''unsupported''), dec = (\<lambda>b. if b = ''x'' then Inr x else Inl ''syntax'')\<rparr>"

lemma single_codec_ok: "codec_roundtrip (single_codec x)" "enc (single_codec x) x = Inr ''x''"
  by (auto simp: codec_roundtrip_def single_codec_def split: if_splits)

definition demo_link :: connection_env where
  "demo_link =
     \<lparr>cn_request = single_codec demo_envelope, cn_response = single_codec demo_reply, cn_unexpected_eof = ''eof'', cn_transport_error = (\<lambda>_. ''transport'')\<rparr>"

theorem client_sees_dispatch_witness:
  "\<exists>env. client_list_engines env = Inl (CL_NkiError \<lparr>ne_code = ''METHOD_NOT_SUPPORTED'', ne_message = ''ListEngines'',
     ne_failed_phase = ''EXECUTE'', ne_cause = [], ne_retryable = False, ne_recommended_delay_ms = 0\<rparr>)"
proof -
  let ?d = "daemon_fresh ''n''" and ?inputs = "\<lambda>_ :: nat. demo_inputs 7"
  let ?exchange = "\<lambda>bytes. PA_Bytes (concat (fst (snd (handle_connection demo_daemon demo_link [] ?inputs 0 bytes ?d))))"
  let ?env = "demo_client ?exchange (cn_request demo_link) (cn_response demo_link)"
  let ?payload = "JObject [(''namespace'', JString ''default'')]"
  let ?outcome = "nki_error ''METHOD_NOT_SUPPORTED'' ''ListEngines'' False"
  have peer: "daemon_peer ?env demo_daemon demo_link [] ?inputs ?d"
    by (simp add: daemon_peer_def demo_client_def demo_link_def single_codec_ok)
  have q: "demo_envelope = client_envelope ?env 5 ''ListEngines'' ?payload"
    by (simp add: demo_envelope_def client_envelope_def demo_client_def)
  have d: "dispatch_request demo_daemon (in_now (?inputs 0)) demo_envelope ?d = (Some (Inr ?outcome), ?d)"
    by (simp add: dispatch_request_def extension_methods_def answer_def demo_envelope_def)
  have fields: "\<not> cl_expired ?env" "cl_now_us ?env = Inr 5" "cl_request_id ?env \<noteq> []" "cl_idempotency_key ?env \<noteq> []" "client_token ?env = []"
    by (simp_all add: demo_client_def client_token_def)
  have "in_checked_at (demo_inputs 7) \<le> client_deadline 5" by (simp add: client_deadline_def DEFAULT_TIMEOUT_us_def i64_max_def)
  moreover have "enc (cn_request demo_link) demo_envelope = Inr ''x''" "enc (cn_response demo_link) (respond (demo_inputs 7) demo_envelope ?outcome) = Inr ''x''"
    by (simp_all add: demo_link_def demo_reply_def single_codec_ok)
  moreover have "length ''x'' \<le> MAX_FRAME_BYTES" by (simp add: MAX_FRAME_BYTES_def)
  ultimately have "client_request ?env ''ListEngines'' ?payload = (case ?outcome of NKI_Success v \<Rightarrow> Inr v | NKI_Error e \<Rightarrow> Inl (CL_NkiError e))"
    using client_sees_dispatch [OF peer fields _ _ q _ _ d] by simp
  then have "client_list_engines ?env = Inl (CL_NkiError \<lparr>ne_code = ''METHOD_NOT_SUPPORTED'', ne_message = ''ListEngines'',
     ne_failed_phase = ''EXECUTE'', ne_cause = [], ne_retryable = False, ne_recommended_delay_ms = 0\<rparr>)"
    by (simp add: client_list_engines_def nki_error_def)
  then show ?thesis by blast
qed

end
