(* ===== verification/Project_Analysis.thy ===== *)
theory Project_Analysis
  imports Intelligence_Contracts
begin

text \<open>
  The analysis of a project directory (\<open>analyze_project\<close> and \<open>classify_file\<close>, crates/nous-intelligence/src/project.rs): a bounded
  scan that follows no links, skips generated directories, looks into small dependency manifests and at no other content.

  The file system below the root is a tree (\<open>fs_node\<close>); the order of the children is the order in which a directory is
  listed.  A directory that cannot be listed and an entry without metadata carry the text of the error.  A file has a size
  and, when it can be read as text, a content.
\<close>

section \<open>Trees\<close>

datatype fs_node =
    FN_File nat "string option"
  | FN_Dir "(string \<times> fs_node) list"
  | FN_Unlisted string
  | FN_Symlink
  | FN_Special
  | FN_Broken string

record MigrationProposal =
  mp_adapter_first :: bool
  mp_provider_manifest :: bool
  mp_model_spec :: bool
  mp_pack_manifest :: bool
  mp_workflow_template :: bool
  mp_user_review_required :: bool
  mp_recommendations :: "string list"

record ProjectAnalysis =
  pa_root :: string
  pa_files_scanned :: nat
  pa_languages :: "string set"
  pa_dependency_manifests :: "string list"
  pa_entrypoints :: "string list"
  pa_model_assets :: "string list"
  pa_container_files :: "string list"
  pa_test_files :: "string list"
  pa_license_files :: "string list"
  pa_frameworks :: "string set"
  pa_proposal :: MigrationProposal
  pa_warnings :: "string list"

definition MAX_FILES :: nat where "MAX_FILES = 20000"
definition MAX_DEPTH :: nat where "MAX_DEPTH = 24"
definition MAX_MANIFEST_BYTES :: nat where "MAX_MANIFEST_BYTES = 1048576"

definition SKIPPED :: "string list" where
  "SKIPPED = [''.git'', ''.nous'', ''.venv'', ''node_modules'', ''target'', ''dist'', ''build'', ''__pycache__'', ''.pytest_cache'']"

section \<open>Classification\<close>

text \<open>A path is the list of its names below the root.\<close>

definition display_relative :: "string list \<Rightarrow> string" where
  "display_relative path = map (\<lambda>c. if c = CHR 92 then CHR ''/'' else c) (str_join ''/'' path)"

definition lowercase :: "string \<Rightarrow> string" where
  "lowercase s = map ascii_lower s"

definition file_name :: "string list \<Rightarrow> string" where
  "file_name path = (if path = [] then [] else last path)"

text \<open>The text after the last dot of a name, when that dot is not in front.\<close>

definition name_extension :: "string \<Rightarrow> string" where
  "name_extension n =
     (let before = rev (dropWhile (\<lambda>c. c \<noteq> CHR ''.'') (rev n)) in if length before \<le> 1 then [] else drop (length before) n)"

definition language_of :: "string \<Rightarrow> string option" where
  "language_of extension =
     (if extension = ''py'' then Some ''Python''
      else if extension = ''rs'' then Some ''Rust''
      else if extension \<in> {''c'', ''h''} then Some ''C''
      else if extension \<in> {''cc'', ''cpp'', ''cxx'', ''hpp''} then Some ''C++''
      else if extension \<in> {''js'', ''jsx''} then Some ''JavaScript''
      else if extension \<in> {''ts'', ''tsx''} then Some ''TypeScript''
      else if extension = ''go'' then Some ''Go''
      else if extension = ''java'' then Some ''Java''
      else None)"

definition is_dependency_manifest :: "string \<Rightarrow> bool" where
  "is_dependency_manifest name \<longleftrightarrow>
     name \<in> {''pyproject.toml'', ''requirements.txt'', ''setup.py'', ''cargo.toml'', ''package.json'', ''package-lock.json'', ''poetry.lock'',
       ''uv.lock'', ''cmakelists.txt'', ''go.mod''}"

definition framework_needles :: "(string \<times> string) list" where
  "framework_needles =
     [(''torch'', ''PyTorch''), (''transformers'', ''Transformers''), (''tensorflow'', ''TensorFlow''), (''onnxruntime'', ''ONNX Runtime''),
      (''numpy'', ''NumPy''), (''scipy'', ''SciPy''), (''fastapi'', ''FastAPI''), (''flask'', ''Flask''), (''tokio'', ''Tokio''), (''serde'', ''Serde'')]"

definition frameworks_in :: "string \<Rightarrow> string set" where
  "frameworks_in content = set (map snd (filter (\<lambda>(needle, f). str_contains content needle) framework_needles))"

definition is_entrypoint :: "string \<Rightarrow> bool" where
  "is_entrypoint name \<longleftrightarrow> name \<in> {''main.py'', ''app.py'', ''cli.py'', ''main.rs'', ''lib.rs'', ''index.js'', ''index.ts''}"

definition is_model_asset :: "string \<Rightarrow> bool" where
  "is_model_asset extension \<longleftrightarrow> extension \<in> {''onnx'', ''safetensors'', ''gguf'', ''pt'', ''pth'', ''ckpt''}"

definition is_container_file :: "string \<Rightarrow> bool" where
  "is_container_file name \<longleftrightarrow> name = ''dockerfile'' \<or> starts_with name ''docker-compose''"

text \<open>The directory \<open>tests\<close> counts anywhere on the absolute path.\<close>

definition is_test_file :: "string \<Rightarrow> string list \<Rightarrow> string \<Rightarrow> bool" where
  "is_test_file root path name \<longleftrightarrow>
     starts_with name ''test_'' \<or> ends_with name ''_test.rs'' \<or> ''tests'' \<in> set (split_char (CHR ''/'') root @ path)"

definition is_license_file :: "string \<Rightarrow> bool" where
  "is_license_file name \<longleftrightarrow> name = ''license'' \<or> starts_with name ''license.'' \<or> starts_with name ''copying''"

definition push_if :: "bool \<Rightarrow> string \<Rightarrow> string list \<Rightarrow> string list" where
  "push_if b x xs = (if b then xs @ [x] else xs)"

definition file_frameworks :: "string \<Rightarrow> nat \<Rightarrow> string option \<Rightarrow> string set" where
  "file_frameworks name bytes content =
     (if is_dependency_manifest name \<and> bytes \<le> MAX_MANIFEST_BYTES
      then frameworks_in (lowercase (case content of None \<Rightarrow> [] | Some t \<Rightarrow> t)) else {})"

definition classify_file :: "string \<Rightarrow> string list \<Rightarrow> nat \<Rightarrow> string option \<Rightarrow> ProjectAnalysis \<Rightarrow> ProjectAnalysis" where
  "classify_file root path bytes content a =
     (let relative = display_relative path; name = lowercase (file_name path); extension = lowercase (name_extension (file_name path))
      in a\<lparr>pa_languages := pa_languages a \<union> set_option (language_of extension),
           pa_dependency_manifests := push_if (is_dependency_manifest name) relative (pa_dependency_manifests a),
           pa_frameworks := pa_frameworks a \<union> file_frameworks name bytes content,
           pa_entrypoints := push_if (is_entrypoint name) relative (pa_entrypoints a),
           pa_model_assets := push_if (is_model_asset extension) relative (pa_model_assets a),
           pa_container_files := push_if (is_container_file name) relative (pa_container_files a),
           pa_test_files := push_if (is_test_file root path name) relative (pa_test_files a),
           pa_license_files := push_if (is_license_file name) relative (pa_license_files a)\<rparr>)"

section \<open>The scan\<close>

type_synonym scan_item = "string list \<times> nat \<times> fs_node"

definition add_warning :: "string \<Rightarrow> ProjectAnalysis \<Rightarrow> ProjectAnalysis" where
  "add_warning w a = a\<lparr>pa_warnings := pa_warnings a @ [w]\<rparr>"

text \<open>The entries of one directory: the directories still to visit are a stack.  The file limit ends the scan.\<close>

fun scan_entries ::
  "string \<Rightarrow> string list \<Rightarrow> nat \<Rightarrow> (string \<times> fs_node) list \<Rightarrow> scan_item list \<Rightarrow> ProjectAnalysis \<Rightarrow> string + scan_item list \<times> ProjectAnalysis" where
  "scan_entries root directory depth [] pending a = Inr (pending, a)"
| "scan_entries root directory depth ((name, node) # entries) pending a =
     (if MAX_FILES \<le> pa_files_scanned a
      then Inr ([], add_warning (''file limit reached ('' @ show_nat MAX_FILES @ '')'') a)
      else let path = directory @ [name] in
        (case node of
           FN_Broken e \<Rightarrow> Inl e
         | FN_Symlink \<Rightarrow> scan_entries root directory depth entries pending (add_warning (''symlink not followed: '' @ display_relative path) a)
         | FN_Special \<Rightarrow> scan_entries root directory depth entries pending a
         | FN_File bytes content \<Rightarrow>
             scan_entries root directory depth entries pending
               (classify_file root path bytes content (a\<lparr>pa_files_scanned := pa_files_scanned a + 1\<rparr>))
         | _ \<Rightarrow>
             if name \<in> set SKIPPED then scan_entries root directory depth entries pending a
             else scan_entries root directory depth entries ((path, depth + 1, node) # pending) a))"

definition pending_size :: "scan_item list \<Rightarrow> nat" where
  "pending_size pending = sum_list (map (\<lambda>(path, depth, node). size node + 1) pending)"

lemma pending_size_Cons: "pending_size ((path, depth, node) # pending) = size node + 1 + pending_size pending"
  by (simp add: pending_size_def)

lemma scan_entries_size:
  "scan_entries root directory depth entries pending a = Inr (pending', a') \<Longrightarrow>
   pending_size pending' \<le> pending_size pending + size_list (\<lambda>(name, node). size node + 1) entries"
proof (induction entries arbitrary: pending a)
  case (Cons e entries)
  obtain name node where e: "e = (name, node)" by fastforce
  show ?case
  proof (cases "MAX_FILES \<le> pa_files_scanned a")
    case True
    then show ?thesis using Cons.prems e by (auto simp: pending_size_def)
  next
    case False
    then show ?thesis
      using Cons.prems e by (cases node) (auto simp: Let_def pending_size_Cons split: if_splits dest!: Cons.IH)
  qed
qed simp

function scan :: "string \<Rightarrow> scan_item list \<Rightarrow> ProjectAnalysis \<Rightarrow> string + ProjectAnalysis" where
  "scan root [] a = Inr a"
| "scan root ((directory, depth, node) # pending) a =
     (if MAX_DEPTH < depth
      then scan root pending (add_warning (''depth limit reached at '' @ display_relative directory) a)
      else (case node of
              FN_Dir entries \<Rightarrow>
                (case scan_entries root directory depth entries pending a of
                   Inl e \<Rightarrow> Inl e
                 | Inr (pending', a') \<Rightarrow> scan root pending' a')
            | FN_Unlisted e \<Rightarrow> Inl e
            | _ \<Rightarrow> Inl []))"
  by pat_completeness auto
termination
proof (relation "measure (\<lambda>(root, pending, a). pending_size pending)", goal_cases)
  case (3 root directory depth node pending a entries x pending' a')
  then have "pending_size pending' \<le> pending_size pending + size_list (\<lambda>(name, node). size node + 1) entries"
    using scan_entries_size [of root directory depth entries pending a pending' a'] by simp
  moreover have "size_list (\<lambda>(name, node). size node + 1) entries \<le> size (FN_Dir entries)"
    by (induction entries) auto
  ultimately show ?case using 3 by (auto simp: pending_size_Cons)
qed (auto simp: pending_size_def)

section \<open>The analysis\<close>

definition new_analysis :: "string \<Rightarrow> ProjectAnalysis" where
  "new_analysis root =
     \<lparr>pa_root = root, pa_files_scanned = 0, pa_languages = {}, pa_dependency_manifests = [], pa_entrypoints = [], pa_model_assets = [],
      pa_container_files = [], pa_test_files = [], pa_license_files = [], pa_frameworks = {},
      pa_proposal = \<lparr>mp_adapter_first = True, mp_provider_manifest = False, mp_model_spec = False, mp_pack_manifest = True,
        mp_workflow_template = False, mp_user_review_required = True, mp_recommendations = []\<rparr>,
      pa_warnings = []\<rparr>"

definition sort_dedup :: "string list \<Rightarrow> string list" where
  "sort_dedup xs = remdups_adj (sort xs)"

definition sort_lists :: "ProjectAnalysis \<Rightarrow> ProjectAnalysis" where
  "sort_lists a =
     a\<lparr>pa_dependency_manifests := sort_dedup (pa_dependency_manifests a), pa_entrypoints := sort_dedup (pa_entrypoints a),
       pa_model_assets := sort_dedup (pa_model_assets a), pa_container_files := sort_dedup (pa_container_files a),
       pa_test_files := sort_dedup (pa_test_files a), pa_license_files := sort_dedup (pa_license_files a),
       pa_warnings := sort_dedup (pa_warnings a)\<rparr>"

definition propose :: "ProjectAnalysis \<Rightarrow> ProjectAnalysis" where
  "propose a =
     (let provider = pa_entrypoints a \<noteq> []; model = pa_model_assets a \<noteq> [];
          recommendations =
            push_if model ''inspect model licenses and generate ModelSpec references without copying weights''
              (push_if provider ''wrap an existing entrypoint with a ProviderManifest adapter'' (mp_recommendations (pa_proposal a)));
          warnings =
            push_if (pa_license_files a = []) ''no top-level license file was detected; manual license review is required'' (pa_warnings a)
      in a\<lparr>pa_proposal := (pa_proposal a)
             \<lparr>mp_provider_manifest := provider, mp_model_spec := model,
              mp_workflow_template := 1 < length (pa_entrypoints a) \<or> provider \<and> model,
              mp_recommendations := sort recommendations\<rparr>,
           pa_warnings := sort warnings\<rparr>)"

text \<open>The parameter gives the canonical form of a path and what is there, or the text of the error.\<close>

definition analyze_project :: "(string \<Rightarrow> string + string \<times> fs_node) \<Rightarrow> string \<Rightarrow> string + ProjectAnalysis" where
  "analyze_project tree root =
     (case tree root of
        Inl e \<Rightarrow> Inl e
      | Inr (canonical, node) \<Rightarrow>
          (case node of
             FN_Dir _ \<Rightarrow> map_sum id (\<lambda>a. propose (sort_lists a)) (scan canonical [([], 0, node)] (new_analysis canonical))
           | FN_Unlisted _ \<Rightarrow> map_sum id (\<lambda>a. propose (sort_lists a)) (scan canonical [([], 0, node)] (new_analysis canonical))
           | _ \<Rightarrow> Inl ''project root must be a directory''))"

section \<open>Reference traversal\<close>

text \<open>The files of a tree: the regular files that are reached through directories that are not generated, up to the depth limit.\<close>

type_synonym found_file = "string list \<times> nat \<times> string option"

fun visible :: "nat \<Rightarrow> string list \<Rightarrow> fs_node \<Rightarrow> found_file list" where
  "visible depth path (FN_Dir entries) =
     (if MAX_DEPTH < depth then []
      else concat (map (\<lambda>(name, node).
        case node of
          FN_File bytes content \<Rightarrow> [(path @ [name], bytes, content)]
        | _ \<Rightarrow> if name \<in> set SKIPPED then [] else visible (depth + 1) (path @ [name]) node) entries))"
| "visible depth path _ = []"

fun listable :: "fs_node \<Rightarrow> bool" where
  "listable (FN_Dir entries) = list_all (\<lambda>(name, node). listable node) entries"
| "listable (FN_Unlisted e) = False"
| "listable (FN_Broken e) = False"
| "listable _ = True"

section \<open>The scan finds the files of the tree\<close>

definition count_file :: "string \<Rightarrow> found_file \<Rightarrow> ProjectAnalysis \<Rightarrow> ProjectAnalysis" where
  "count_file root f a = classify_file root (fst f) (fst (snd f)) (snd (snd f)) (a\<lparr>pa_files_scanned := pa_files_scanned a + 1\<rparr>)"

text \<open>Warnings aside: the classification neither reads nor changes them.\<close>

definition silent :: "ProjectAnalysis \<Rightarrow> ProjectAnalysis" where
  "silent a = a\<lparr>pa_warnings := []\<rparr>"

lemma silent_warning [simp]: "silent (add_warning w a) = silent a"
  by (simp add: silent_def add_warning_def)

lemma silent_count [simp]: "silent (count_file root f a) = count_file root f (silent a)"
  by (simp add: silent_def count_file_def classify_file_def Let_def)

lemma scanned_silent [simp]: "pa_files_scanned (silent a) = pa_files_scanned a"
  by (simp add: silent_def)

lemma scanned_warning [simp]: "pa_files_scanned (add_warning w a) = pa_files_scanned a"
  by (simp add: add_warning_def)

lemma scanned_count [simp]: "pa_files_scanned (count_file root f a) = Suc (pa_files_scanned a)"
  by (simp add: count_file_def classify_file_def Let_def)

lemma scanned_fold: "pa_files_scanned (fold (count_file root) fs a) = pa_files_scanned a + length fs"
  by (induction fs arbitrary: a) auto

lemma scan_entries_file:
  "pa_files_scanned a < MAX_FILES \<Longrightarrow>
   scan_entries root directory depth ((name, FN_File bytes content) # entries) pending a =
   scan_entries root directory depth entries pending (count_file root (directory @ [name], bytes, content) a)"
  by (simp add: count_file_def Let_def)

definition own_files :: "string list \<Rightarrow> (string \<times> fs_node) list \<Rightarrow> found_file list" where
  "own_files path entries =
     concat (map (\<lambda>(name, node). case node of FN_File bytes content \<Rightarrow> [(path @ [name], bytes, content)] | _ \<Rightarrow> []) entries)"

definition sub_dirs :: "string list \<Rightarrow> nat \<Rightarrow> (string \<times> fs_node) list \<Rightarrow> scan_item list" where
  "sub_dirs path depth entries =
     concat (map (\<lambda>(name, node). case node of FN_Dir _ \<Rightarrow> if name \<in> set SKIPPED then [] else [(path @ [name], depth + 1, node)] | _ \<Rightarrow> []) entries)"

definition item_files :: "scan_item list \<Rightarrow> found_file list" where
  "item_files pending = concat (map (\<lambda>(path, depth, node). visible depth path node) pending)"

lemma visible_split:
  "depth \<le> MAX_DEPTH \<Longrightarrow>
   mset (visible depth path (FN_Dir entries)) = mset (own_files path entries) + mset (item_files (sub_dirs path depth entries))"
  by (induction entries) (auto simp: own_files_def sub_dirs_def item_files_def split: fs_node.split)

lemma item_files_Cons: "item_files ((path, depth, node) # pending) = visible depth path node @ item_files pending"
  by (simp add: item_files_def)

lemma item_files_rev: "mset (item_files (rev xs @ ys)) = mset (item_files xs) + mset (item_files ys)"
  by (induction xs arbitrary: ys) (auto simp: item_files_def)

lemma scan_entries_complete:
  assumes "list_all (\<lambda>(name, node). listable node) entries" "pa_files_scanned a + length (own_files directory entries) < MAX_FILES"
  shows "\<exists>a'. scan_entries root directory depth entries pending a = Inr (rev (sub_dirs directory depth entries) @ pending, a') \<and>
    silent a' = fold (count_file root) (own_files directory entries) (silent a)"
  using assms
proof (induction entries arbitrary: pending a)
  case (Cons e entries)
  obtain name node where e: "e = (name, node)" by fastforce
  have len: "\<not> MAX_FILES \<le> pa_files_scanned a" using Cons.prems by simp
  show ?case
  proof (cases node)
    case (FN_File bytes content)
    then have "pa_files_scanned (count_file root (directory @ [name], bytes, content) a) + length (own_files directory entries) < MAX_FILES"
      using Cons.prems e by (simp add: own_files_def)
    with Cons.IH [of "count_file root (directory @ [name], bytes, content) a" pending] Cons.prems len FN_File e
    show ?thesis unfolding e FN_File by (simp add: scan_entries_file own_files_def sub_dirs_def del: scan_entries.simps(2))
  next
    case (FN_Dir es)
    with Cons.IH [of a pending] Cons.IH [of a "(directory @ [name], depth + 1, node) # pending"] Cons.prems len e
    show ?thesis by (auto simp: own_files_def sub_dirs_def Let_def)
  next
    case FN_Symlink
    with Cons.IH [of "add_warning (''symlink not followed: '' @ display_relative (directory @ [name])) a" pending] Cons.prems len e
    show ?thesis by (simp add: own_files_def sub_dirs_def Let_def)
  qed (use Cons e len in \<open>auto simp: own_files_def sub_dirs_def Let_def\<close>)
qed (simp add: own_files_def sub_dirs_def)

definition dirs_ok :: "scan_item list \<Rightarrow> bool" where
  "dirs_ok pending \<longleftrightarrow> list_all (\<lambda>(path, depth, node). listable node \<and> (\<exists>es. node = FN_Dir es)) pending"

lemma sub_dirs_ok: "list_all (\<lambda>(name, node). listable node) entries \<Longrightarrow> dirs_ok (sub_dirs path depth entries)"
  by (induction entries) (auto simp: dirs_ok_def sub_dirs_def split: fs_node.split)

lemma scan_complete:
  assumes "dirs_ok pending" "pa_files_scanned a + length (item_files pending) < MAX_FILES"
  shows "\<exists>a' fs. scan root pending a = Inr a' \<and> mset fs = mset (item_files pending) \<and> silent a' = fold (count_file root) fs (silent a)"
  using assms
proof (induction root pending a rule: scan.induct)
  case (1 root a)
  then show ?case by (simp add: item_files_def)
next
  case (2 root directory depth node pending a)
  obtain es where node: "node = FN_Dir es" and es: "list_all (\<lambda>(name, node). listable node) es" and rest: "dirs_ok pending"
    using "2.prems"(1) by (auto simp: dirs_ok_def)
  show ?case
  proof (cases "MAX_DEPTH < depth")
    case True
    then show ?thesis using "2.IH"(1) "2.prems" rest node by (simp add: item_files_def)
  next
    case False
    then have ms: "mset (item_files ((directory, depth, node) # pending)) =
        mset (own_files directory es) + mset (item_files (rev (sub_dirs directory depth es) @ pending))"
      using visible_split [of depth directory es] by (simp add: item_files_Cons item_files_rev node del: visible.simps)
    then have len: "length (item_files ((directory, depth, node) # pending)) =
        length (own_files directory es) + length (item_files (rev (sub_dirs directory depth es) @ pending))"
      by (metis size_mset size_union)
    obtain b where b: "scan_entries root directory depth es pending a = Inr (rev (sub_dirs directory depth es) @ pending, b)"
        "silent b = fold (count_file root) (own_files directory es) (silent a)"
      using scan_entries_complete [OF es, of a directory root depth pending] "2.prems"(2) len by auto
    have "pa_files_scanned b = pa_files_scanned a + length (own_files directory es)"
      using arg_cong [OF b(2), of pa_files_scanned] by (simp add: scanned_fold)
    moreover have "dirs_ok (rev (sub_dirs directory depth es) @ pending)"
      using sub_dirs_ok [OF es, of directory depth] rest by (auto simp: dirs_ok_def list_all_iff)
    ultimately obtain a' fs where "scan root (rev (sub_dirs directory depth es) @ pending) b = Inr a'"
        "mset fs = mset (item_files (rev (sub_dirs directory depth es) @ pending))" "silent a' = fold (count_file root) fs (silent b)"
      using "2.IH"(2) [OF False node b(1) refl] "2.prems"(2) len by auto
    then show ?thesis
      using False node b ms by (intro exI [of _ a'] exI [of _ "own_files directory es @ fs"]) simp
  qed
qed

text \<open>What the lists hold after the files were classified.\<close>

definition found :: "(string list \<Rightarrow> bool) \<Rightarrow> found_file list \<Rightarrow> string set" where
  "found P fs = (\<lambda>f. display_relative (fst f)) ` {f \<in> set fs. P (fst f)}"

lemma found_simps [simp]:
  "found P [] = {}" "found P (f # fs) = (if P (fst f) then {display_relative (fst f)} else {}) \<union> found P fs"
  by (auto simp: found_def)

abbreviation lower_name :: "string list \<Rightarrow> string" where
  "lower_name path \<equiv> lowercase (file_name path)"

abbreviation lower_extension :: "string list \<Rightarrow> string" where
  "lower_extension path \<equiv> lowercase (name_extension (file_name path))"

lemma count_file_lists:
  "set (pa_dependency_manifests (count_file root f a)) = set (pa_dependency_manifests a) \<union> found (\<lambda>p. is_dependency_manifest (lower_name p)) [f]"
  "set (pa_entrypoints (count_file root f a)) = set (pa_entrypoints a) \<union> found (\<lambda>p. is_entrypoint (lower_name p)) [f]"
  "set (pa_model_assets (count_file root f a)) = set (pa_model_assets a) \<union> found (\<lambda>p. is_model_asset (lower_extension p)) [f]"
  "set (pa_container_files (count_file root f a)) = set (pa_container_files a) \<union> found (\<lambda>p. is_container_file (lower_name p)) [f]"
  "set (pa_test_files (count_file root f a)) = set (pa_test_files a) \<union> found (\<lambda>p. is_test_file root p (lower_name p)) [f]"
  "set (pa_license_files (count_file root f a)) = set (pa_license_files a) \<union> found (\<lambda>p. is_license_file (lower_name p)) [f]"
  "pa_languages (count_file root f a) = pa_languages a \<union> set_option (language_of (lower_extension (fst f)))"
  "pa_frameworks (count_file root f a) = pa_frameworks a \<union> file_frameworks (lower_name (fst f)) (fst (snd f)) (snd (snd f))"
  by (simp_all add: count_file_def classify_file_def Let_def push_if_def)

lemma classified:
  "set (pa_dependency_manifests (fold (count_file root) fs a)) = set (pa_dependency_manifests a) \<union> found (\<lambda>p. is_dependency_manifest (lower_name p)) fs"
  "set (pa_entrypoints (fold (count_file root) fs a)) = set (pa_entrypoints a) \<union> found (\<lambda>p. is_entrypoint (lower_name p)) fs"
  "set (pa_model_assets (fold (count_file root) fs a)) = set (pa_model_assets a) \<union> found (\<lambda>p. is_model_asset (lower_extension p)) fs"
  "set (pa_container_files (fold (count_file root) fs a)) = set (pa_container_files a) \<union> found (\<lambda>p. is_container_file (lower_name p)) fs"
  "set (pa_test_files (fold (count_file root) fs a)) = set (pa_test_files a) \<union> found (\<lambda>p. is_test_file root p (lower_name p)) fs"
  "set (pa_license_files (fold (count_file root) fs a)) = set (pa_license_files a) \<union> found (\<lambda>p. is_license_file (lower_name p)) fs"
  "pa_languages (fold (count_file root) fs a) = pa_languages a \<union> (\<Union>f \<in> set fs. set_option (language_of (lower_extension (fst f))))"
  "pa_frameworks (fold (count_file root) fs a) =
     pa_frameworks a \<union> (\<Union>f \<in> set fs. file_frameworks (lower_name (fst f)) (fst (snd f)) (snd (snd f)))"
  by (induction fs arbitrary: a) (simp_all add: count_file_lists Un_assoc)

lemma set_sort_dedup [simp]: "set (sort_dedup xs) = set xs"
  by (simp add: sort_dedup_def)

lemma concluded:
  "pa_files_scanned (propose (sort_lists a)) = pa_files_scanned a"
  "set (pa_dependency_manifests (propose (sort_lists a))) = set (pa_dependency_manifests a)"
  "set (pa_entrypoints (propose (sort_lists a))) = set (pa_entrypoints a)"
  "set (pa_model_assets (propose (sort_lists a))) = set (pa_model_assets a)"
  "set (pa_container_files (propose (sort_lists a))) = set (pa_container_files a)"
  "set (pa_test_files (propose (sort_lists a))) = set (pa_test_files a)"
  "set (pa_license_files (propose (sort_lists a))) = set (pa_license_files a)"
  "pa_languages (propose (sort_lists a)) = pa_languages a"
  "pa_frameworks (propose (sort_lists a)) = pa_frameworks a"
  by (simp_all add: propose_def sort_lists_def Let_def)

lemma silent_lists:
  "pa_dependency_manifests (silent a) = pa_dependency_manifests a" "pa_entrypoints (silent a) = pa_entrypoints a"
  "pa_model_assets (silent a) = pa_model_assets a" "pa_container_files (silent a) = pa_container_files a"
  "pa_test_files (silent a) = pa_test_files a" "pa_license_files (silent a) = pa_license_files a"
  "pa_languages (silent a) = pa_languages a" "pa_frameworks (silent a) = pa_frameworks a"
  by (simp_all add: silent_def)

text \<open>C14.  The analysis of a project is that of the recursive traversal: for a directory that can be listed and has fewer files than the
  limit the analysis succeeds, counts the files that are reached without following links or entering generated directories, and lists
  exactly those of them that have the name or the extension in question; the languages and frameworks are those of these files.\<close>

theorem analysis_is_traversal:
  assumes "tree root = Inr (canonical, FN_Dir entries)" "listable (FN_Dir entries)"
    and "files = visible 0 [] (FN_Dir entries)" "length files < MAX_FILES"
  shows "\<exists>a. analyze_project tree root = Inr a \<and> pa_files_scanned a = length files \<and>
    set (pa_dependency_manifests a) = found (\<lambda>p. is_dependency_manifest (lower_name p)) files \<and>
    set (pa_entrypoints a) = found (\<lambda>p. is_entrypoint (lower_name p)) files \<and>
    set (pa_model_assets a) = found (\<lambda>p. is_model_asset (lower_extension p)) files \<and>
    set (pa_container_files a) = found (\<lambda>p. is_container_file (lower_name p)) files \<and>
    set (pa_test_files a) = found (\<lambda>p. is_test_file canonical p (lower_name p)) files \<and>
    set (pa_license_files a) = found (\<lambda>p. is_license_file (lower_name p)) files \<and>
    pa_languages a = (\<Union>f \<in> set files. set_option (language_of (lower_extension (fst f)))) \<and>
    pa_frameworks a = (\<Union>f \<in> set files. file_frameworks (lower_name (fst f)) (fst (snd f)) (snd (snd f)))"
proof -
  let ?start = "[([], 0, FN_Dir entries)]"
  have items: "item_files ?start = files" using assms(3) by (simp add: item_files_def)
  have "dirs_ok ?start" using assms(2) by (simp add: dirs_ok_def)
  then obtain a fs where scan: "scan canonical ?start (new_analysis canonical) = Inr a" and fs: "mset fs = mset files"
      and a: "silent a = fold (count_file canonical) fs (silent (new_analysis canonical))"
    using scan_complete [of ?start "new_analysis canonical" canonical] assms(4) items by (auto simp: new_analysis_def)
  have same: "set fs = set files" "length fs = length files" using fs mset_eq_setD mset_eq_length by blast+
  then have "found P fs = found P files" for P by (simp add: found_def)
  then show ?thesis
    using scan assms(1) same
      arg_cong [OF a, of pa_files_scanned] arg_cong [OF a, of pa_languages] arg_cong [OF a, of pa_frameworks]
      arg_cong [OF a, of "\<lambda>a. set (pa_dependency_manifests a)"] arg_cong [OF a, of "\<lambda>a. set (pa_entrypoints a)"]
      arg_cong [OF a, of "\<lambda>a. set (pa_model_assets a)"] arg_cong [OF a, of "\<lambda>a. set (pa_container_files a)"]
      arg_cong [OF a, of "\<lambda>a. set (pa_test_files a)"] arg_cong [OF a, of "\<lambda>a. set (pa_license_files a)"]
    by (simp add: analyze_project_def concluded classified scanned_fold silent_lists new_analysis_def)
qed

section \<open>Bounds\<close>

definition bounded :: "ProjectAnalysis \<Rightarrow> bool" where
  "bounded a \<longleftrightarrow> pa_files_scanned a \<le> MAX_FILES \<and>
     list_all (\<lambda>xs. length xs \<le> pa_files_scanned a)
       [pa_dependency_manifests a, pa_entrypoints a, pa_model_assets a, pa_container_files a, pa_test_files a, pa_license_files a]"

lemma bounded_warning [simp]: "bounded (add_warning w a) = bounded a"
  by (simp add: bounded_def add_warning_def)

lemma bounded_count: "bounded a \<Longrightarrow> pa_files_scanned a < MAX_FILES \<Longrightarrow> bounded (count_file root f a)"
  by (simp add: bounded_def count_file_def classify_file_def Let_def push_if_def)

lemma scan_entries_bounded:
  "scan_entries root directory depth entries pending a = Inr (pending', a') \<Longrightarrow> bounded a \<Longrightarrow> bounded a'"
proof (induction entries arbitrary: pending a)
  case (Cons e entries)
  obtain name node where e: "e = (name, node)" by fastforce
  show ?case
  proof (cases "MAX_FILES \<le> pa_files_scanned a")
    case True
    then show ?thesis using Cons.prems e by auto
  next
    case False
    have "bounded (count_file root (directory @ [name], bytes, content) a)" for bytes content
      using bounded_count Cons.prems(2) False by simp
    with False Cons.prems e show ?thesis
      by (cases node) (auto simp: Let_def scan_entries_file simp del: scan_entries.simps(2)
        simp: scan_entries.simps(2) [of _ _ _ _ "FN_Dir x" for x] scan_entries.simps(2) [of _ _ _ _ "FN_Unlisted x" for x]
          scan_entries.simps(2) [of _ _ _ _ FN_Symlink] scan_entries.simps(2) [of _ _ _ _ FN_Special]
          scan_entries.simps(2) [of _ _ _ _ "FN_Broken x" for x] split: if_splits dest!: Cons.IH)
  qed
qed simp

lemma scan_bounded: "scan root pending a = Inr a' \<Longrightarrow> bounded a \<Longrightarrow> bounded a'"
proof (induction root pending a rule: scan.induct)
  case (2 root directory depth node pending a)
  show ?case
  proof (cases "MAX_DEPTH < depth")
    case False
    then obtain entries pending' b where "node = FN_Dir entries" "scan_entries root directory depth entries pending a = Inr (pending', b)"
        "scan root pending' b = Inr a'"
      using "2.prems"(1) by (auto split: fs_node.splits sum.splits)
    then show ?thesis using "2.IH"(2) [OF False, of entries "(pending', b)" pending' b] "2.prems"(2) scan_entries_bounded by simp
  qed (use 2 in simp)
qed simp

lemma length_sort_dedup: "length (sort_dedup xs) \<le> length xs"
  using remdups_adj_length [of "sort xs"] by (simp add: sort_dedup_def)

text \<open>The analysis is bounded whatever the tree: it counts at most 20000 files, and none of its lists is longer than that count.\<close>

theorem analysis_is_bounded:
  "case analyze_project tree root of
     Inl e \<Rightarrow> True
   | Inr a \<Rightarrow> pa_files_scanned a \<le> 20000 \<and>
       list_all (\<lambda>xs. length xs \<le> pa_files_scanned a)
         [pa_dependency_manifests a, pa_entrypoints a, pa_model_assets a, pa_container_files a, pa_test_files a, pa_license_files a]"
proof (cases "analyze_project tree root")
  case (Inr a)
  then obtain canonical pending b where "scan canonical pending (new_analysis canonical) = Inr b" and a: "a = propose (sort_lists b)"
    by (auto simp: analyze_project_def map_sum_def simp del: scan.simps split: sum.splits prod.splits fs_node.splits)
  then have "bounded b" using scan_bounded [of canonical pending "new_analysis canonical" b] by (simp add: bounded_def new_analysis_def)
  then have "bounded a"
    unfolding a by (auto simp: bounded_def propose_def sort_lists_def Let_def intro: le_trans [OF length_sort_dedup])
  then show ?thesis using Inr by (simp add: bounded_def MAX_FILES_def)
qed simp

section \<open>Contents\<close>

text \<open>The tree without the contents of all files that are not small dependency manifests.\<close>

fun mask_node :: "string \<Rightarrow> fs_node \<Rightarrow> fs_node" where
  "mask_node name (FN_File bytes content) =
     FN_File bytes (if is_dependency_manifest (lowercase name) \<and> bytes \<le> MAX_MANIFEST_BYTES then content else None)"
| "mask_node name (FN_Dir entries) = FN_Dir (map (\<lambda>(n, node). (n, mask_node n node)) entries)"
| "mask_node name node = node"

definition mask_item :: "scan_item \<Rightarrow> scan_item" where
  "mask_item i = (case i of (path, depth, node) \<Rightarrow> (path, depth, mask_node (file_name path) node))"

lemma classify_masked:
  "classify_file root (directory @ [name]) bytes
     (if is_dependency_manifest (lowercase name) \<and> bytes \<le> MAX_MANIFEST_BYTES then content else None) a =
   classify_file root (directory @ [name]) bytes content a"
  by (simp add: classify_file_def file_frameworks_def file_name_def Let_def)

lemma mask_item_child: "mask_item (directory @ [name], depth, node) = (directory @ [name], depth, mask_node name node)"
  by (simp add: mask_item_def file_name_def)

lemma scan_entries_masked:
  "scan_entries root directory depth (map (\<lambda>(n, node). (n, mask_node n node)) entries) (map mask_item pending) a =
   (case scan_entries root directory depth entries pending a of Inl e \<Rightarrow> Inl e | Inr (pending', a') \<Rightarrow> Inr (map mask_item pending', a'))"
proof (induction entries arbitrary: pending a)
  case (Cons e entries)
  obtain name node where e: "e = (name, node)" by fastforce
  have child: "scan_entries root directory depth (map (\<lambda>(n, node). (n, mask_node n node)) entries)
      ((directory @ [name], Suc depth, mask_node name x) # map mask_item pending) a =
    (case scan_entries root directory depth entries ((directory @ [name], Suc depth, x) # pending) a of
       Inl e \<Rightarrow> Inl e | Inr (pending', a') \<Rightarrow> Inr (map mask_item pending', a'))" for x
    using Cons.IH [of "(directory @ [name], Suc depth, x) # pending" a] by (simp add: mask_item_child)
  show ?case
    unfolding e using Cons.IH child [of "FN_Dir y" for y] child [of "FN_Unlisted y" for y]
    by (cases node) (simp_all add: Let_def classify_masked)
qed simp

lemma scan_masked: "scan root (map mask_item pending) a = scan root pending a"
proof (induction root pending a rule: scan.induct)
  case (2 root directory depth node pending a)
  show ?case
  proof (cases "MAX_DEPTH < depth")
    case True
    then show ?thesis using 2(1) by (simp add: mask_item_def [of "(directory, depth, node)"])
  next
    case False
    then show ?thesis
      using 2(2) by (cases node) (auto simp: mask_item_def [of "(directory, depth, x)" for x] scan_entries_masked split: sum.split)
  qed
qed simp

text \<open>The analysis looks into no file but small dependency manifests: replacing the contents of all other files does not change it.\<close>

theorem analysis_ignores_contents:
  "analyze_project (\<lambda>p. map_sum id (map_prod id (mask_node [])) (tree p)) root = analyze_project tree root"
proof -
  have masked: "scan c [([], 0, mask_node [] node)] a = scan c [([], 0, node)] a" for c node a
    using scan_masked [of c "[([], 0, node)]" a] by (simp add: mask_item_def file_name_def del: scan.simps)
  have dirs: "scan c [([], 0, FN_Dir (map (\<lambda>(n, node). (n, mask_node n node)) es))] a = scan c [([], 0, FN_Dir es)] a" for c es a
    using masked [of c "FN_Dir es" a] by (simp only: mask_node.simps)
  show ?thesis
  proof (cases "tree root")
    case (Inr r)
    then show ?thesis using dirs by (cases r, cases "snd r") (simp_all add: analyze_project_def del: scan.simps)
  qed (simp add: analyze_project_def)
qed

section \<open>Example\<close>

text \<open>A project below a directory named \<open>tests\<close>: all its files count as tests.\<close>

definition demo_entries :: "(string \<times> fs_node) list" where
  "demo_entries =
     [(''pyproject.toml'', FN_File 30 (Some ''[Torch]'')), (''link'', FN_Symlink),
      (''target'', FN_Dir [(''main.rs'', FN_File 3 None)]), (''src'', FN_Dir [(''Main.rs'', FN_File 5 None)])]"

definition demo_tree :: "string \<Rightarrow> string + string \<times> fs_node" where
  "demo_tree path = (if path = ''.'' then Inr (''/tests/p'', FN_Dir demo_entries) else Inl ''not found'')"

lemma demo_visible:
  "visible 0 [] (FN_Dir demo_entries) = [([''pyproject.toml''], 30, Some ''[Torch]''), ([''src'', ''Main.rs''], 5, None)]"
  by (simp add: demo_entries_def MAX_DEPTH_def SKIPPED_def)

lemma demo_file_names:
  "lowercase ''pyproject.toml'' = ''pyproject.toml''" "lowercase ''Main.rs'' = ''main.rs''"
  "lowercase ''[Torch]'' = ''[torch]''"
  "file_name [''pyproject.toml''] = ''pyproject.toml''" "file_name [''src'', ''Main.rs''] = ''Main.rs''"
  "display_relative [''pyproject.toml''] = ''pyproject.toml''" "display_relative [''src'', ''Main.rs''] = ''src/Main.rs''"
  by (simp_all add: lowercase_def ascii_lower_def file_name_def display_relative_def char_of_def bit_Suc_0_iff)

lemma demo_classes:
  "\<not> is_entrypoint ''pyproject.toml''" "is_entrypoint ''main.rs''" "\<not> is_license_file ''pyproject.toml''" "\<not> is_license_file ''main.rs''"
  "is_dependency_manifest ''pyproject.toml''" "\<not> is_dependency_manifest ''main.rs''" "is_test_file ''/tests/p'' p n"
  by (simp_all add: is_entrypoint_def is_license_file_def is_dependency_manifest_def is_test_file_def starts_with_def)

lemma demo_frameworks: "frameworks_in ''[torch]'' = {''PyTorch''}"
  by (simp add: frameworks_in_def framework_needles_def str_contains_def sublist_Cons_right)

theorem analysis_is_traversal_witness:
  "\<exists>a. analyze_project demo_tree ''.'' = Inr a \<and> pa_files_scanned a = 2 \<and> set (pa_entrypoints a) = {''src/Main.rs''} \<and>
     set (pa_test_files a) = {''pyproject.toml'', ''src/Main.rs''} \<and> set (pa_license_files a) = {} \<and> pa_frameworks a = {''PyTorch''}"
proof -
  have "demo_tree ''.'' = Inr (''/tests/p'', FN_Dir demo_entries)" by (simp add: demo_tree_def)
  moreover have "listable (FN_Dir demo_entries)" by (simp add: demo_entries_def)
  moreover have "length (visible 0 [] (FN_Dir demo_entries)) < MAX_FILES" unfolding demo_visible by (simp add: MAX_FILES_def)
  ultimately have "\<exists>a. analyze_project demo_tree ''.'' = Inr a \<and> pa_files_scanned a = length (visible 0 [] (FN_Dir demo_entries)) \<and>
      set (pa_entrypoints a) = found (\<lambda>p. is_entrypoint (lower_name p)) (visible 0 [] (FN_Dir demo_entries)) \<and>
      set (pa_test_files a) = found (\<lambda>p. is_test_file ''/tests/p'' p (lower_name p)) (visible 0 [] (FN_Dir demo_entries)) \<and>
      set (pa_license_files a) = found (\<lambda>p. is_license_file (lower_name p)) (visible 0 [] (FN_Dir demo_entries)) \<and>
      pa_frameworks a = (\<Union>f \<in> set (visible 0 [] (FN_Dir demo_entries)). file_frameworks (lower_name (fst f)) (fst (snd f)) (snd (snd f)))"
    by (rule ex_forward [OF analysis_is_traversal [OF _ _ refl]]) (simp_all only:)
  then show ?thesis
    unfolding demo_visible
    by (rule ex_forward) (simp add: demo_file_names demo_classes demo_frameworks file_frameworks_def MAX_MANIFEST_BYTES_def insert_commute)
qed

end
