(* ===== verification/Command_Line.thy ===== *)
theory Command_Line
  imports Runtime_Client Project_Analysis Intelligence_Graph
begin

text \<open>
  The command line tool (tools/nous/src/main.rs): its commands over the files of the machine and the calls to the daemon.

  A command is a function on \<open>cli_state\<close>: the files with their contents, the directories, the calls made to the daemon, what
  was printed, and the faults of the coming file operations.  Paths are Unix paths; a file is known under the path that names
  it as it is written, and a directory is listed in the order of the files and directories in the state.  Parameters
  (\<open>cli_env\<close>) are the environment variables, the connections to the daemon in their order, SHA-256, the coding of documents as
  JSON and YAML (the first argument of a decoder says whether the file is JSON), the tree of a directory for the analysis of a
  project, and the two template files.
\<close>

section \<open>Paths\<close>

definition path_join :: "string \<Rightarrow> string \<Rightarrow> string" where
  "path_join a b =
     (if starts_with b ''/'' \<or> a = [] then b else if ends_with a ''/'' then a @ b else a @ ''/'' @ b)"

text \<open>The part up to the last slash, and the file name after it.\<close>

definition path_name :: "string \<Rightarrow> string" where
  "path_name p = rev (takeWhile (\<lambda>c. c \<noteq> CHR ''/'') (rev p))"

definition path_dir :: "string \<Rightarrow> string" where
  "path_dir p = rev (dropWhile (\<lambda>c. c \<noteq> CHR ''/'') (rev p))"

text \<open>The stem and the extension of a file name: a dot in front does not count.\<close>

definition name_stem :: "string \<Rightarrow> string" where
  "name_stem n =
     (let before = rev (dropWhile (\<lambda>c. c \<noteq> CHR ''.'') (rev n)) in
      if length before \<le> 1 then n else butlast before)"

definition path_extension :: "string \<Rightarrow> string option" where
  "path_extension p =
     (let n = path_name p; before = rev (dropWhile (\<lambda>c. c \<noteq> CHR ''.'') (rev n)) in
      if length before \<le> 1 then None else Some (drop (length before) n))"

definition with_extension :: "string \<Rightarrow> string \<Rightarrow> string" where
  "with_extension p e = path_dir p @ name_stem (path_name p) @ ''.'' @ e"

definition path_parent :: "string \<Rightarrow> string" where
  "path_parent p = (if path_dir p = [] then [] else if path_dir p = ''/'' then ''/'' else butlast (path_dir p))"

text \<open>The directories on the way to a path, and the path itself.\<close>

fun slash_prefixes :: "string \<Rightarrow> string \<Rightarrow> string list" where
  "slash_prefixes before [] = []"
| "slash_prefixes before (c # cs) = (if c = CHR ''/'' \<and> before \<noteq> [] then [before] else []) @ slash_prefixes (before @ [c]) cs"

definition path_ancestors :: "string \<Rightarrow> string list" where
  "path_ancestors p = slash_prefixes [] p @ [p]"

section \<open>State and effects\<close>

datatype cli_output = Out_Json json | Out_Line string | Err_Line string

record cli_state =
  ct_files :: "(string \<times> string) list"
  ct_dirs :: "string list"
  ct_faults :: "(string \<times> string) option list"
  ct_calls :: "(string \<times> string \<times> json) list"
  ct_out :: "cli_output list"

record LegacyProviderManifest =
  lm_schema_version :: u32
  lm_name :: string
  lm_backend :: string
  lm_runtime_class :: ProviderRuntimeClass
  lm_model :: string
  lm_endpoint :: string
  lm_credential_env :: string
  lm_entrypoint :: string

record cli_env =
  cc_vars :: "string \<rightharpoonup> string"
  cc_cwd :: "string + string"
  cc_canonical :: "string \<Rightarrow> string option"
  cc_io_error :: "string \<Rightarrow> string"
  cc_connect :: "nat \<Rightarrow> string \<Rightarrow> ClientError + client_env"
  cc_sha :: "string \<Rightarrow> string"
  cc_int_error :: "string \<Rightarrow> string"
  cc_json :: "json codec"
  cc_legacy :: "LegacyProviderManifest codec"
  cc_document :: "bool \<Rightarrow> string \<Rightarrow> string + json"
  cc_provider :: "bool \<Rightarrow> string \<Rightarrow> string + ProviderManifest"
  cc_model :: "bool \<Rightarrow> string \<Rightarrow> string + ModelSpec"
  cc_profile :: "bool \<Rightarrow> string \<Rightarrow> string + ModelProfile"
  cc_merge :: "bool \<Rightarrow> string \<Rightarrow> string + MergeRequest"
  cc_graph :: "bool \<Rightarrow> string \<Rightarrow> string + IntelligenceGraph"
  cc_dataset :: "bool \<Rightarrow> string \<Rightarrow> string + DatasetManifest"
  cc_experiment :: "bool \<Rightarrow> string \<Rightarrow> string + ExperimentManifest"
  cc_pack :: "bool \<Rightarrow> string \<Rightarrow> string + PackManifest"
  cc_project :: "bool \<Rightarrow> string \<Rightarrow> string + ProjectManifest"
  cc_provider_yaml :: "ProviderManifest \<Rightarrow> string + string"
  cc_model_yaml :: "ModelSpec \<Rightarrow> string + string"
  cc_pack_yaml :: "PackManifest \<Rightarrow> string + string"
  cc_project_yaml :: "ProjectManifest \<Rightarrow> string + string"
  cc_operation_value :: "OperationRequest \<Rightarrow> string + json"
  cc_probe_value :: "ProviderProbeRequest \<Rightarrow> string + json"
  cc_model_value :: "ModelSpec \<Rightarrow> string + json"
  cc_profile_value :: "ModelProfile \<Rightarrow> string + json"
  cc_model_diff_value :: "ModelDiff \<Rightarrow> string + json"
  cc_merge_value :: "MergeAssessment \<Rightarrow> string + json"
  cc_graph_diff_value :: "GraphDiff \<Rightarrow> string + json"
  cc_workflow_value :: "WorkflowContract \<Rightarrow> string + json"
  cc_experiment_diff_value :: "ExperimentDiff \<Rightarrow> string + json"
  cc_project_value :: "ProjectManifest \<Rightarrow> string + json"
  cc_analysis_value :: "ProjectAnalysis \<Rightarrow> string + json"
  cc_put_value :: "PutAssetRequest \<Rightarrow> string + json"
  cc_selector_value :: "AssetSelector \<Rightarrow> string + json"
  cc_selector_json :: "AssetSelector \<Rightarrow> json"
  cc_list_value :: "ListAssetsRequest \<Rightarrow> string + json"
  cc_kind_json :: "ModelKind \<Rightarrow> json"
  cc_status_json :: "ExperimentStatus \<Rightarrow> json"
  cc_tree :: "cli_state \<Rightarrow> string \<Rightarrow> string + string \<times> fs_node"
  cc_provider_template :: string
  cc_test_template :: string

text \<open>A command returns an error with its text, or it panics.\<close>

datatype cli_stop = CS_Error string | CS_Panic

type_synonym 'a cli = "cli_state \<Rightarrow> (cli_stop + 'a) \<times> cli_state"

definition cli_return :: "'a \<Rightarrow> 'a cli" where
  "cli_return x s = (Inr x, s)"

definition cli_fail :: "string \<Rightarrow> 'a cli" where
  "cli_fail e s = (Inl (CS_Error e), s)"

definition cli_panic :: "'a cli" where
  "cli_panic s = (Inl CS_Panic, s)"

definition cli_bind :: "'a cli \<Rightarrow> ('a \<Rightarrow> 'b cli) \<Rightarrow> 'b cli" where
  "cli_bind m f s = (case m s of (Inl e, s') \<Rightarrow> (Inl e, s') | (Inr x, s') \<Rightarrow> f x s')"

text \<open>A command that looks at the state.\<close>

definition cli_with :: "(cli_state \<Rightarrow> 'a cli) \<Rightarrow> 'a cli" where
  "cli_with f s = f s s"

text \<open>A result with an error text, with an error of a contract, and an optional argument.\<close>

definition cli_lift :: "string + 'a \<Rightarrow> 'a cli" where
  "cli_lift r = (case r of Inl e \<Rightarrow> cli_fail e | Inr x \<Rightarrow> cli_return x)"

definition cli_contract :: "RuntimeContractError + 'a \<Rightarrow> 'a cli" where
  "cli_contract r = cli_lift (map_sum contract_error_display id r)"

definition cli_intel :: "IntelligenceError + 'a \<Rightarrow> 'a cli" where
  "cli_intel r = cli_lift (map_sum intelligence_error_display id r)"

definition cli_some :: "'a option \<Rightarrow> string \<Rightarrow> 'a cli" where
  "cli_some x message = (case x of None \<Rightarrow> cli_fail message | Some y \<Rightarrow> cli_return y)"

definition nth_arg :: "string list \<Rightarrow> nat \<Rightarrow> string option" where
  "nth_arg args i = (if i < length args then Some (args ! i) else None)"

definition cli_arg :: "string list \<Rightarrow> nat \<Rightarrow> string \<Rightarrow> string cli" where
  "cli_arg args i message = cli_some (nth_arg args i) message"

definition cli_put :: "cli_output \<Rightarrow> unit cli" where
  "cli_put x s = (Inr (), s\<lparr>ct_out := ct_out s @ [x]\<rparr>)"

text \<open>\<open>print_json\<close>: a value that cannot be encoded is reported on the error stream.\<close>

definition print_json :: "cli_env \<Rightarrow> json \<Rightarrow> unit cli" where
  "print_json env v =
     (case enc (cc_json env) v of
        Inl e \<Rightarrow> cli_put (Err_Line (''nous: cannot encode output: '' @ e))
      | Inr _ \<Rightarrow> cli_put (Out_Json v))"

definition print_value :: "cli_env \<Rightarrow> string + json \<Rightarrow> unit cli" where
  "print_value env r = cli_bind (cli_lift r) (print_json env)"

section \<open>Files\<close>

definition is_file :: "cli_state \<Rightarrow> string \<Rightarrow> bool" where
  "is_file s p \<longleftrightarrow> map_of (ct_files s) p \<noteq> None"

definition is_dir :: "cli_state \<Rightarrow> string \<Rightarrow> bool" where
  "is_dir s p \<longleftrightarrow> p \<in> set (ct_dirs s)"

definition path_exists :: "cli_state \<Rightarrow> string \<Rightarrow> bool" where
  "path_exists s p \<longleftrightarrow> is_file s p \<or> is_dir s p"

text \<open>A file operation consumes one entry of the faults: a message, with what a write had written before.\<close>

definition fs_do :: "(string \<Rightarrow> string \<Rightarrow> 'a cli) \<Rightarrow> 'a cli \<Rightarrow> 'a cli" where
  "fs_do failing working s =
     (case ct_faults s of
        [] \<Rightarrow> working s
      | None # fs \<Rightarrow> working (s\<lparr>ct_faults := fs\<rparr>)
      | Some (m, part) # fs \<Rightarrow> failing m part (s\<lparr>ct_faults := fs\<rparr>))"

abbreviation fs_fail :: "string \<Rightarrow> string \<Rightarrow> 'a cli" where
  "fs_fail m part \<equiv> cli_fail m"

definition set_file :: "string \<Rightarrow> string \<Rightarrow> cli_state \<Rightarrow> cli_state" where
  "set_file p b s = s\<lparr>ct_files := AList.update p b (ct_files s)\<rparr>"

definition fs_read :: "cli_env \<Rightarrow> string \<Rightarrow> string cli" where
  "fs_read env p = fs_do fs_fail (\<lambda>s.
     case map_of (ct_files s) p of None \<Rightarrow> cli_fail (cc_io_error env p) s | Some b \<Rightarrow> cli_return b s)"

text \<open>A file can be written in the working directory or in a directory that exists, and not over a directory.\<close>

definition can_write :: "cli_state \<Rightarrow> string \<Rightarrow> bool" where
  "can_write s p \<longleftrightarrow> (path_parent p = [] \<or> is_dir s (path_parent p)) \<and> \<not> is_dir s p"

definition fs_write :: "cli_env \<Rightarrow> string \<Rightarrow> string \<Rightarrow> unit cli" where
  "fs_write env p b =
     fs_do (\<lambda>m part s. cli_fail m (if can_write s p then set_file p part s else s))
       (\<lambda>s. if can_write s p then cli_return () (set_file p b s) else cli_fail (cc_io_error env p) s)"

definition fs_rename :: "cli_env \<Rightarrow> string \<Rightarrow> string \<Rightarrow> unit cli" where
  "fs_rename env a b = fs_do fs_fail (\<lambda>s.
     case map_of (ct_files s) a of
       None \<Rightarrow> cli_fail (cc_io_error env a) s
     | Some c \<Rightarrow>
         if can_write s b then cli_return () (s\<lparr>ct_files := AList.update b c (AList.delete a (ct_files s))\<rparr>)
         else cli_fail (cc_io_error env b) s)"

definition fs_remove :: "cli_env \<Rightarrow> string \<Rightarrow> unit cli" where
  "fs_remove env p = fs_do fs_fail (\<lambda>s.
     if is_file s p then cli_return () (s\<lparr>ct_files := AList.delete p (ct_files s)\<rparr>) else cli_fail (cc_io_error env p) s)"

definition fs_copy :: "cli_env \<Rightarrow> string \<Rightarrow> string \<Rightarrow> unit cli" where
  "fs_copy env a b = cli_bind (fs_read env a) (fs_write env b)"

definition fs_create_dir_all :: "cli_env \<Rightarrow> string \<Rightarrow> unit cli" where
  "fs_create_dir_all env p = fs_do fs_fail (\<lambda>s.
     if list_ex (is_file s) (path_ancestors p) then cli_fail (cc_io_error env p) s
     else cli_return () (s\<lparr>ct_dirs := ct_dirs s @ filter (\<lambda>d. d \<notin> set (ct_dirs s)) (path_ancestors p)\<rparr>))"

definition inside :: "string \<Rightarrow> string \<Rightarrow> bool" where
  "inside directory p \<longleftrightarrow> p = path_join directory (path_name p) \<and> path_name p \<noteq> []"

definition fs_read_dir :: "cli_env \<Rightarrow> string \<Rightarrow> string list cli" where
  "fs_read_dir env p = fs_do fs_fail (\<lambda>s.
     if is_dir s p then cli_return (filter (inside p) (map fst (ct_files s) @ ct_dirs s)) s else cli_fail (cc_io_error env p) s)"

text \<open>Documents: read by the extension of the file, written to a temporary file that then takes the place of the target.\<close>

definition read_declarative :: "cli_env \<Rightarrow> (bool \<Rightarrow> string \<Rightarrow> string + 'a) \<Rightarrow> string \<Rightarrow> 'a cli" where
  "read_declarative env decode p =
     cli_bind (fs_read env p) (\<lambda>bytes. cli_lift (decode (path_extension p = Some ''json'') bytes))"

definition write_atomic :: "cli_env \<Rightarrow> string \<Rightarrow> string \<Rightarrow> string + string \<Rightarrow> unit cli" where
  "write_atomic env ending p encoded =
     (let temporary = with_extension p ending in
      cli_bind (cli_lift encoded) (\<lambda>bytes. cli_bind (fs_write env temporary bytes) (\<lambda>_. fs_rename env temporary p)))"

definition write_json_atomic :: "cli_env \<Rightarrow> string \<Rightarrow> string + string \<Rightarrow> unit cli" where
  "write_json_atomic env = write_atomic env ''json.tmp''"

definition write_yaml_atomic :: "cli_env \<Rightarrow> string \<Rightarrow> string + string \<Rightarrow> unit cli" where
  "write_yaml_atomic env = write_atomic env ''yaml.tmp''"

section \<open>Calls to the daemon\<close>

definition DEFAULT_ADDRESS :: string where
  "DEFAULT_ADDRESS = ''127.0.0.1:8771''"

definition address :: "cli_env \<Rightarrow> string" where
  "address env = (case cc_vars env ''NOUS_ADDRESS'' of None \<Rightarrow> DEFAULT_ADDRESS | Some a \<Rightarrow> a)"

fun client_error_display :: "ClientError \<Rightarrow> string" where
  "client_error_display (CL_ConnectionFailed m) = ''Connection failed: '' @ m"
| "client_error_display (CL_Serialization m) = ''Serialization error: '' @ m"
| "client_error_display (CL_Io m) = ''I/O error: '' @ m"
| "client_error_display (CL_NkiError e) = ''NKI error: '' @ NKIErrorBody.ne_code e @ '': '' @ NKIErrorBody.ne_message e"
| "client_error_display (CL_Unsupported m) = ''Unsupported: '' @ m"
| "client_error_display (CL_Protocol m) = ''Protocol error: '' @ m"
| "client_error_display CL_Timeout = ''Timeout''"

definition call :: "cli_env \<Rightarrow> string \<Rightarrow> json \<Rightarrow> json cli" where
  "call env method payload s =
     (case cc_connect env (length (ct_calls s)) (address env) of
        Inl e \<Rightarrow> cli_fail (client_error_display e) s
      | Inr client \<Rightarrow>
          cli_lift (map_sum client_error_display id (client_request client method payload))
            (s\<lparr>ct_calls := ct_calls s @ [(address env, method, payload)]\<rparr>))"

definition call_value :: "cli_env \<Rightarrow> string \<Rightarrow> string + json \<Rightarrow> json cli" where
  "call_value env method payload = cli_bind (cli_lift payload) (call env method)"

definition value_or_none :: "string \<Rightarrow> string" where
  "value_or_none v = (if v = [] then ''none'' else v)"

definition identity_digest :: "cli_env \<Rightarrow> LegacyProviderManifest \<Rightarrow> string \<Rightarrow> string" where
  "identity_digest env m input = cc_sha env (lm_backend m @ [CHR 10] @ lm_model m @ [CHR 10] @ input)"

definition cli_request :: "cli_env \<Rightarrow> string \<Rightarrow> LegacyProviderManifest \<Rightarrow> OperationRequest" where
  "cli_request env input m =
     (let digest = identity_digest env m input in
      \<lparr>op_operation_id = ''op-'' @ digest, op_workload_id = ''workload-'' @ digest, op_step_id = ''step-1'', op_backend = lm_backend m,
       op_execution_domain = lm_runtime_class m, op_model = lm_model m, op_endpoint = lm_endpoint m, op_credential_env = lm_credential_env m,
       op_provider_entrypoint = lm_entrypoint m, op_input = input, op_delivery = DS_Idempotent,
       op_snapshot =
         \<lparr>sn_model_revision = value_or_none (lm_model m), sn_provider_revision = lm_backend m @ ''-v1'', sn_prompt_revision = ''prompt-v1'',
          sn_tool_revision = ''none'', sn_knowledge_revision = ''none'', sn_policy_revision = ''deterministic-v1'',
          sn_capability_revision = lm_backend m @ ''-v1'', sn_context_revision = ''context-v1''\<rparr>,
       op_timeout_ms = 30000\<rparr>)"

definition cli_execute :: "cli_env \<Rightarrow> string \<Rightarrow> LegacyProviderManifest \<Rightarrow> json cli" where
  "cli_execute env input m =
     (let request = cli_request env input m in
      cli_bind (cli_put (Err_Line (''workload: '' @ op_workload_id request))) (\<lambda>_.
        call_value env ''SubmitWorkload'' (cc_operation_value env request)))"

definition manifest_probe :: "LegacyProviderManifest \<Rightarrow> u64 \<Rightarrow> ProviderProbeRequest" where
  "manifest_probe m timeout_ms =
     \<lparr>pr_provider = lm_name m, pr_backend = lm_backend m, pr_execution_domain = lm_runtime_class m, pr_model = lm_model m,
      pr_endpoint = lm_endpoint m, pr_credential_env = lm_credential_env m, pr_provider_entrypoint = lm_entrypoint m, pr_timeout_ms = timeout_ms\<rparr>"

definition probe_provider :: "cli_env \<Rightarrow> LegacyProviderManifest \<Rightarrow> json cli" where
  "probe_provider env m = call_value env ''ProbeEngine'' (cc_probe_value env (manifest_probe m 10000))"

definition validate_manifest :: "LegacyProviderManifest \<Rightarrow> unit cli" where
  "validate_manifest m = cli_lift (probe_validate_sensitive_references (manifest_probe m 1))"

section \<open>Arguments\<close>

definition cli_option :: "string list \<Rightarrow> string \<Rightarrow> string option" where
  "cli_option args name = (case dropWhile (\<lambda>a. a \<noteq> name) args of _ # v # _ \<Rightarrow> Some v | _ \<Rightarrow> None)"

definition or_default :: "'a \<Rightarrow> 'a option \<Rightarrow> 'a" where
  "or_default d x = (case x of None \<Rightarrow> d | Some y \<Rightarrow> y)"

definition runtime_class_for_backend :: "string \<Rightarrow> ProviderRuntimeClass" where
  "runtime_class_for_backend backend =
     (if backend = ''openai-compatible'' then RC_Remote
      else if backend = ''ollama'' then RC_Local
      else if backend = ''edge-openai-compatible'' then RC_Edge
      else if backend \<in> {''reference'', ''reference-delay'', ''reference-crash''} then RC_Reference
      else if backend = ''reference-math'' then RC_Reference
      else if backend = ''external-process'' then RC_Local
      else RC_Unknown)"

definition parse_runtime_class :: "string \<Rightarrow> ProviderRuntimeClass option" where
  "parse_runtime_class v =
     (if v = ''remote'' then Some RC_Remote
      else if v = ''local'' then Some RC_Local
      else if v = ''edge'' then Some RC_Edge
      else if v = ''reference'' then Some RC_Reference
      else if v = ''unknown'' then Some RC_Unknown
      else None)"

definition manifest_from_args :: "string \<Rightarrow> string list \<Rightarrow> LegacyProviderManifest" where
  "manifest_from_args name args =
     (let backend = or_default ''reference'' (cli_option args ''--backend'') in
      \<lparr>lm_schema_version = 1, lm_name = name, lm_backend = backend,
       lm_runtime_class = or_default (runtime_class_for_backend backend) (Option.bind (cli_option args ''--runtime-class'') parse_runtime_class),
       lm_model = or_default [] (cli_option args ''--model''), lm_endpoint = or_default [] (cli_option args ''--endpoint''),
       lm_credential_env = or_default [] (cli_option args ''--credential-env''), lm_entrypoint = or_default [] (cli_option args ''--entrypoint'')\<rparr>)"

definition parse_asset_kind :: "string \<Rightarrow> AssetKind cli" where
  "parse_asset_kind v =
     cli_some (asset_kind_of (lowercase v)) ''asset kind must be project, model, graph, dataset, experiment, or artifact''"

definition safe_name :: "string \<Rightarrow> string cli" where
  "safe_name v =
     (if v = [] \<or> \<not> list_all (\<lambda>c. is_ascii_alphanumeric c \<or> c \<in> {CHR ''-'', CHR ''_'', CHR ''.''}) v \<or> v = ''.'' \<or> v = ''..''
      then cli_fail (''name may contain only letters, digits, '' @ quoted ''.'' @ '', '' @ quoted ''-'' @ '' and '' @ quoted ''_'') else cli_return v)"

section \<open>Directories of the tool\<close>

definition config_home :: "cli_env \<Rightarrow> string option" where
  "config_home env =
     (case cc_vars env ''NOUS_CONFIG_HOME'' of
        Some r \<Rightarrow> Some r
      | None \<Rightarrow> (case cc_vars env ''USERPROFILE'' of Some r \<Rightarrow> Some r | None \<Rightarrow> cc_vars env ''HOME''))"

definition config_root :: "cli_env \<Rightarrow> string cli" where
  "config_root env = cli_some (config_home env) ''home directory is unavailable''"

definition provider_directory :: "cli_env \<Rightarrow> string cli" where
  "provider_directory env = cli_bind (config_root env) (\<lambda>r. cli_return (path_join (path_join r ''.nous-kernel'') ''providers''))"

definition model_directory :: "cli_env \<Rightarrow> string cli" where
  "model_directory env = cli_bind (config_root env) (\<lambda>r. cli_return (path_join (path_join r ''.nous-kernel'') ''models''))"

definition provider_path :: "cli_env \<Rightarrow> string \<Rightarrow> string cli" where
  "provider_path env name =
     (if name = [] \<or> \<not> list_all (\<lambda>c. is_ascii_alphanumeric c \<or> c \<in> {CHR ''-'', CHR ''_''}) name
      then cli_fail (''provider name may contain only letters, digits, '' @ quoted ''-'' @ '' and '' @ quoted ''_'')
      else cli_bind (provider_directory env) (\<lambda>directory.
        cli_bind (fs_create_dir_all env directory) (\<lambda>_. cli_return (path_join directory (name @ ''.json'')))))"

definition model_path :: "cli_env \<Rightarrow> string \<Rightarrow> string cli" where
  "model_path env i =
     cli_bind (model_directory env) (\<lambda>directory. cli_bind (safe_name i) (\<lambda>n. cli_return (path_join directory (n @ ''.yaml''))))"

definition read_manifest :: "cli_env \<Rightarrow> string \<Rightarrow> LegacyProviderManifest cli" where
  "read_manifest env name =
     cli_bind (provider_path env name) (\<lambda>p. cli_bind (fs_read env p) (\<lambda>bytes. cli_lift (dec (cc_legacy env) bytes)))"

definition resolve_manifest_entrypoint :: "string \<Rightarrow> string \<Rightarrow> string" where
  "resolve_manifest_entrypoint manifest_path entrypoint = (if entrypoint = [] then [] else path_join (path_parent manifest_path) entrypoint)"

text \<open>A step for each element of a list, in order.\<close>

fun cli_each :: "('a \<Rightarrow> 'b cli) \<Rightarrow> 'a list \<Rightarrow> 'b list cli" where
  "cli_each f [] = cli_return []"
| "cli_each f (x # xs) = cli_bind (f x) (\<lambda>y. cli_bind (cli_each f xs) (\<lambda>ys. cli_return (y # ys)))"

text \<open>The entries of a directory with an extension, nothing for a directory that does not exist.\<close>

definition directory_entries :: "cli_env \<Rightarrow> string \<Rightarrow> string \<Rightarrow> string list cli" where
  "directory_entries env directory extension =
     cli_with (\<lambda>s. if path_exists s directory
       then cli_bind (fs_read_dir env directory) (\<lambda>ps. cli_return (filter (\<lambda>p. path_extension p = Some extension) ps))
       else cli_return [])"

section \<open>Commands\<close>

definition init_workspace :: "cli_env \<Rightarrow> string option \<Rightarrow> unit cli" where
  "init_workspace env path =
     cli_bind (case path of Some p \<Rightarrow> cli_return p | None \<Rightarrow> cli_lift (cc_cwd env)) (\<lambda>root.
       let state = path_join root ''.nous'' in
       cli_bind (fs_create_dir_all env state) (\<lambda>_.
         let config = JObject [(''schema_version'', json_nat 1), (''nki_address'', JString (address env)),
               (''workspace'', JString (or_default root (cc_canonical env root)))] in
         cli_bind (write_json_atomic env (path_join state ''kernel.json'') (enc (cc_json env) config)) (\<lambda>_.
           cli_put (Out_Line (''Initialized '' @ state)))))"

definition valid_report :: "string \<Rightarrow> (string \<times> json) list \<Rightarrow> json" where
  "valid_report kind kvs = JObject ((''kind'', JString kind) # (''valid'', JBool True) # kvs)"

definition list_providers :: "cli_env \<Rightarrow> unit cli" where
  "list_providers env =
     cli_bind (provider_directory env) (\<lambda>directory.
     cli_bind (directory_entries env directory ''json'') (\<lambda>paths.
     cli_bind (cli_each (\<lambda>p. cli_bind (fs_read env p) (\<lambda>bytes. cli_lift (dec (cc_legacy env) bytes))) paths) (\<lambda>ms.
       print_json env (JObject [(''providers'', JArray (map (\<lambda>m. JObject
         [(''name'', JString (lm_name m)), (''backend'', JString (lm_backend m)), (''model'', JString (lm_model m)),
          (''credential_env'', JString (lm_credential_env m))]) (sort_key lm_name ms)))]))))"

definition provider_validate :: "cli_env \<Rightarrow> string list \<Rightarrow> unit cli" where
  "provider_validate env args =
     cli_bind (cli_arg args 1 ''provider manifest path is required'') (\<lambda>path.
     cli_bind (read_declarative env (cc_provider env) path) (\<lambda>m.
     cli_bind (cli_contract (provider_manifest_validate m)) (\<lambda>_.
       print_json env (valid_report ''ProviderManifest''
         [(''name'', JString (pm_name m)), (''schema_version'', json_nat (unat (pm_schema_version m)))]))))"

definition operational_manifest :: "string \<Rightarrow> ProviderManifest \<Rightarrow> LegacyProviderManifest" where
  "operational_manifest path m =
     \<lparr>lm_schema_version = pm_schema_version m, lm_name = pm_name m, lm_backend = pm_backend m,
      lm_runtime_class = or_default (runtime_class_for_backend (pm_backend m)) (parse_runtime_class (pm_runtime_class m)),
      lm_model = pm_model m, lm_endpoint = pm_endpoint m, lm_credential_env = pm_credential_env m,
      lm_entrypoint = resolve_manifest_entrypoint path (pm_entrypoint m)\<rparr>"

definition provider_install :: "cli_env \<Rightarrow> string list \<Rightarrow> unit cli" where
  "provider_install env args =
     cli_bind (cli_arg args 1 ''provider manifest path is required'') (\<lambda>path.
     cli_bind (read_declarative env (cc_provider env) path) (\<lambda>m.
     cli_bind (cli_contract (provider_manifest_validate m)) (\<lambda>_.
       let operational = operational_manifest path m in
       cli_bind (validate_manifest operational) (\<lambda>_.
       cli_bind (provider_path env (lm_name operational)) (\<lambda>target.
       cli_bind (write_json_atomic env target (enc (cc_legacy env) operational)) (\<lambda>_.
         print_json env (JObject [(''installed'', JBool True), (''name'', JString (lm_name operational)), (''path'', JString target)])))))))"

definition provider_init :: "cli_env \<Rightarrow> string \<Rightarrow> string list \<Rightarrow> unit cli" where
  "provider_init env name args =
     (let manifest = manifest_from_args name (drop 2 args) in
      cli_bind (validate_manifest manifest) (\<lambda>_.
      cli_bind (provider_path env name) (\<lambda>path.
      cli_bind (write_json_atomic env path (enc (cc_legacy env) manifest)) (\<lambda>_.
        cli_put (Out_Line (''Provider manifest written to '' @ path))))))"

definition provider_doctor :: "cli_env \<Rightarrow> string \<Rightarrow> unit cli" where
  "provider_doctor env name =
     cli_bind (read_manifest env name) (\<lambda>m.
     cli_bind (probe_provider env m) (\<lambda>report.
       print_json env (JObject [(''provider'', JString name), (''configured'', JBool True),
         (''credential_reference_only'', JBool (lm_credential_env m \<noteq> [] \<or> lm_backend m = ''ollama'' \<or> lm_backend m = ''reference'')),
         (''probe'', report)])))"

text \<open>Two executions of one operation, and whether they were answered alike.\<close>

definition execute_twice :: "cli_env \<Rightarrow> LegacyProviderManifest \<Rightarrow> bool cli" where
  "execute_twice env m =
     cli_bind (cli_execute env ''provider conformance probe'' m) (\<lambda>first.
     cli_bind (cli_execute env ''provider conformance probe'' m) (\<lambda>second. cli_return (first = second)))"

definition require_stable :: "bool \<Rightarrow> unit cli" where
  "require_stable steady = (if steady then cli_return () else cli_fail ''provider did not replay a stable committed receipt'')"

definition provider_certify :: "cli_env \<Rightarrow> string \<Rightarrow> unit cli" where
  "provider_certify env name =
     cli_bind (read_manifest env name) (\<lambda>m.
     cli_bind (execute_twice env m) (\<lambda>steady.
     cli_bind (print_json env (JObject [(''provider'', JString name), (''isolated_process'', JBool True), (''durable_receipt'', JBool True),
       (''idempotent_replay'', JBool steady), (''certified'', JBool steady)])) (\<lambda>_. require_stable steady)))"

definition provider_command :: "cli_env \<Rightarrow> string list \<Rightarrow> unit cli" where
  "provider_command env args =
     (let action = or_default [] (nth_arg args 0) in
      if action = ''list'' then list_providers env
      else if action = ''validate'' then provider_validate env args
      else if action \<in> {''install'', ''register''} then provider_install env args
      else cli_bind (cli_arg args 1 ''provider name is required'') (\<lambda>name.
        if action = ''init'' then provider_init env name args
        else if action = ''test''
        then cli_bind (read_manifest env name) (\<lambda>m. cli_bind (cli_execute env ''provider health probe'' m) (print_json env))
        else if action = ''probe'' then cli_bind (read_manifest env name) (\<lambda>m. cli_bind (probe_provider env m) (print_json env))
        else if action = ''doctor'' then provider_doctor env name
        else if action = ''certify'' then provider_certify env name
        else cli_fail ''expected provider init, list, probe, doctor, test, or certify''))"

text \<open>Read a document and validate it.\<close>

definition read_profile :: "cli_env \<Rightarrow> string list \<Rightarrow> ModelProfile cli" where
  "read_profile env args =
     cli_bind (cli_arg args 1 ''model profile path is required'') (\<lambda>path.
     cli_bind (read_declarative env (cc_profile env) path) (\<lambda>p.
     cli_bind (cli_intel (model_profile_validate p)) (\<lambda>_. cli_return p)))"

text \<open>Two documents: both are read before they are validated.\<close>

definition read_two ::
  "cli_env \<Rightarrow> (bool \<Rightarrow> string \<Rightarrow> string + 'a) \<Rightarrow> ('a \<Rightarrow> unit cli) \<Rightarrow> string \<Rightarrow> string \<Rightarrow> string list \<Rightarrow> ('a \<times> 'a) cli" where
  "read_two env decode validate first second args =
     cli_bind (cli_arg args 1 first) (\<lambda>p. cli_bind (read_declarative env decode p) (\<lambda>left.
     cli_bind (cli_arg args 2 second) (\<lambda>q. cli_bind (read_declarative env decode q) (\<lambda>right.
     cli_bind (validate left) (\<lambda>_. cli_bind (validate right) (\<lambda>_. cli_return (left, right)))))))"

definition read_model :: "cli_env \<Rightarrow> string list \<Rightarrow> ModelSpec cli" where
  "read_model env args =
     cli_bind (cli_arg args 1 ''model manifest path is required'') (\<lambda>path.
     cli_bind (read_declarative env (cc_model env) path) (\<lambda>m.
     cli_bind (cli_contract (model_spec_validate m)) (\<lambda>_. cli_return m)))"

definition model_register :: "cli_env \<Rightarrow> string list \<Rightarrow> unit cli" where
  "model_register env args =
     cli_bind (read_model env args) (\<lambda>m.
     cli_bind (model_path env (ms_id m)) (\<lambda>target.
     cli_bind (model_directory env) (\<lambda>directory.
     cli_bind (fs_create_dir_all env directory) (\<lambda>_.
     cli_bind (write_yaml_atomic env target (cc_model_yaml env m)) (\<lambda>_.
       print_json env (JObject [(''registered'', JBool True), (''id'', JString (ms_id m)), (''path'', JString target)]))))))"

definition model_remove :: "cli_env \<Rightarrow> string list \<Rightarrow> unit cli" where
  "model_remove env args =
     cli_bind (cli_arg args 1 ''model ID is required'') (\<lambda>i.
     cli_bind (model_path env i) (\<lambda>path.
     cli_bind (cli_with (\<lambda>s. if path_exists s path then fs_remove env path else cli_return ())) (\<lambda>_.
       print_json env (JObject [(''unregistered'', JBool True), (''id'', JString i)]))))"

definition model_list :: "cli_env \<Rightarrow> unit cli" where
  "model_list env =
     cli_bind (model_directory env) (\<lambda>directory.
     cli_bind (directory_entries env directory ''yaml'') (\<lambda>paths.
     cli_bind (cli_each (read_declarative env (cc_model env)) paths) (\<lambda>ms.
       print_json env (JObject [(''models'', JArray (map (\<lambda>m. JObject
         [(''id'', JString (ms_id m)), (''name'', JString (ms_name m)), (''kind'', cc_kind_json env (ms_kind m)),
          (''version'', JString (ms_version m))]) (sort_key ms_id ms)))]))))"

definition model_show :: "cli_env \<Rightarrow> string list \<Rightarrow> unit cli" where
  "model_show env args =
     cli_bind (cli_arg args 1 ''model ID is required'') (\<lambda>i.
     cli_bind (model_path env i) (\<lambda>path.
     cli_bind (read_declarative env (cc_model env) path) (\<lambda>m. print_value env (cc_model_value env m))))"

definition model_merge_check :: "cli_env \<Rightarrow> string list \<Rightarrow> unit cli" where
  "model_merge_check env args =
     cli_bind (cli_arg args 1 ''merge request path is required'') (\<lambda>path.
     cli_bind (read_declarative env (cc_merge env) path) (\<lambda>request.
     cli_bind (cli_intel (assess_merge request)) (\<lambda>assessment.
     cli_bind (print_value env (cc_merge_value env assessment)) (\<lambda>_.
       if ma_compatible assessment then cli_return () else cli_fail ''model merge compatibility check failed''))))"

definition model_export :: "cli_env \<Rightarrow> string list \<Rightarrow> unit cli" where
  "model_export env args =
     cli_bind (cli_arg args 1 ''model ID is required'') (\<lambda>i.
     cli_bind (cli_arg args 2 ''destination path is required'') (\<lambda>destination.
     cli_bind (model_path env i) (\<lambda>source.
     cli_bind (cli_with (\<lambda>s. if path_exists s destination then cli_fail (''refusing to overwrite '' @ destination) else fs_copy env source destination)) (\<lambda>_.
       print_json env (JObject [(''exported'', JBool True), (''id'', JString i), (''path'', JString destination)])))))"

definition model_command :: "cli_env \<Rightarrow> string list \<Rightarrow> unit cli" where
  "model_command env args =
     (let action = nth_arg args 0 in
      if action = Some ''validate''
      then cli_bind (read_model env args) (\<lambda>m. print_json env (valid_report ''ModelSpec''
        [(''id'', JString (ms_id m)), (''schema_version'', json_nat (unat (ms_schema_version m)))]))
      else if action = Some ''validate-profile''
      then cli_bind (read_profile env args) (\<lambda>p. print_json env (valid_report ''ModelProfile''
        [(''id'', JString (ms_id (mp_model p))), (''schema_version'', json_nat (unat (mp_schema_version p)))]))
      else if action = Some ''inspect-profile'' then cli_bind (read_profile env args) (\<lambda>p. print_value env (cc_profile_value env p))
      else if action = Some ''register'' then model_register env args
      else if action \<in> {Some ''unregister'', Some ''remove''} then model_remove env args
      else if action = Some ''list'' then model_list env
      else if action \<in> {Some ''show'', Some ''inspect''} then model_show env args
      else if action = Some ''diff''
      then cli_bind (read_two env (cc_profile env) (\<lambda>p. cli_intel (model_profile_validate p))
          ''first model profile path is required'' ''second model profile path is required'' args)
        (\<lambda>(left, right). print_value env (cc_model_diff_value env (model_diff left right)))
      else if action = Some ''merge-check'' then model_merge_check env args
      else if action = Some ''export'' then model_export env args
      else cli_fail (''expected model register, remove, list, inspect, validate, validate-profile, inspect-profile, diff, '' @
        ''merge-check, or export''))"

definition REQUIRED_DIRECTORIES :: "string list" where
  "REQUIRED_DIRECTORIES =
     [''models'', ''algorithms'', ''datasets'', ''providers'', ''workflows'', ''policies'', ''experiments'', ''evaluations'', ''deployment'', ''tests'']"

definition project_check :: "cli_env \<Rightarrow> string \<Rightarrow> ProjectManifest \<Rightarrow> unit cli" where
  "project_check env base m = cli_with (\<lambda>s.
      let missing_references = map prf_path (filter (\<lambda>r. \<not> is_file s (path_join base (prf_path r))) (project_references m));
          missing_directories = filter (\<lambda>d. \<not> is_dir s (path_join base d)) REQUIRED_DIRECTORIES
      in if missing_references \<noteq> [] then cli_fail (''project references missing files: '' @ str_join '', '' missing_references)
         else if missing_directories \<noteq> [] then cli_fail (''project is missing directories: '' @ str_join '', '' missing_directories)
         else print_json env (valid_report ''ProjectManifest''
           [(''id'', JString (pj_id m)), (''schema_version'', json_nat (unat (pj_schema_version m))),
            (''references'', json_nat (length (project_references m)))]))"

definition analyze_command :: "cli_env \<Rightarrow> string \<Rightarrow> unit cli" where
  "analyze_command env root =
     cli_with (\<lambda>s. cli_bind (cli_lift (analyze_project (cc_tree env s) root)) (\<lambda>a. print_value env (cc_analysis_value env a)))"

definition project_command :: "cli_env \<Rightarrow> string list \<Rightarrow> unit cli" where
  "project_command env args =
     (let action = or_default [] (nth_arg args 0); root = or_default ''.'' (nth_arg args 1) in
      if action \<in> {''analyze'', ''import''}
      then if action = ''import'' \<and> ''--dry-run'' \<notin> set args
           then cli_fail ''project import currently requires --dry-run; source is never modified''
           else analyze_command env root
      else cli_with (\<lambda>s. let manifest_path = (if is_dir s root then path_join root ''project.yaml'' else root) in
        cli_bind (read_declarative env (cc_project env) manifest_path) (\<lambda>m.
        cli_bind (cli_intel (project_manifest_validate m)) (\<lambda>_.
          if action = ''validate'' then project_check env (path_parent manifest_path) m
          else if action = ''inspect'' then print_value env (cc_project_value env m)
          else cli_fail ''expected project validate, inspect, analyze, or import PATH --dry-run''))))"

text \<open>The validation of a graph never panics (\<open>graph_validate_result\<close>); the model keeps the possibility.\<close>

definition cli_graph :: "(IntelligenceError + 'a) option \<Rightarrow> 'a cli" where
  "cli_graph r = (case r of None \<Rightarrow> cli_panic | Some x \<Rightarrow> cli_intel x)"

definition graph_command :: "cli_env \<Rightarrow> string list \<Rightarrow> unit cli" where
  "graph_command env args =
     (let action = nth_arg args 0 in
      if action = Some ''validate''
      then cli_bind (cli_arg args 1 ''graph path is required'') (\<lambda>path.
        cli_bind (read_declarative env (cc_graph env) path) (\<lambda>g.
        cli_bind (cli_graph (graph_validate g)) (\<lambda>_.
          print_json env (valid_report ''IntelligenceGraph''
            [(''id'', JString (ig_id g)), (''nodes'', json_nat (length (ig_nodes g))), (''edges'', json_nat (length (ig_edges g)))]))))
      else if action = Some ''diff''
      then cli_bind (read_two env (cc_graph env) (\<lambda>g. cli_graph (graph_validate g)) ''first graph path is required'' ''second graph path is required'' args)
        (\<lambda>(left, right). print_value env (cc_graph_diff_value env (graph_diff left right)))
      else if action = Some ''export-workflow''
      then cli_bind (cli_arg args 1 ''graph path is required'') (\<lambda>path.
        cli_bind (read_declarative env (cc_graph env) path) (\<lambda>g.
        cli_bind (cli_graph (to_workflow_contract g)) (\<lambda>w. print_value env (cc_workflow_value env w))))
      else cli_fail ''expected graph validate PATH, graph diff LEFT RIGHT, or graph export-workflow PATH'')"

definition dataset_command :: "cli_env \<Rightarrow> string list \<Rightarrow> unit cli" where
  "dataset_command env args =
     (if nth_arg args 0 \<noteq> Some ''validate'' then cli_fail ''expected dataset validate PATH''
      else cli_bind (cli_arg args 1 ''dataset manifest path is required'') (\<lambda>path.
        cli_bind (read_declarative env (cc_dataset env) path) (\<lambda>d.
        cli_bind (cli_intel (dataset_manifest_validate d)) (\<lambda>_.
          print_json env (valid_report ''DatasetManifest'' [(''id'', JString (dm_id d)), (''splits'', json_nat (length (dm_splits d)))])))))"

definition experiment_command :: "cli_env \<Rightarrow> string list \<Rightarrow> unit cli" where
  "experiment_command env args =
     (let action = nth_arg args 0 in
      if action = Some ''validate''
      then cli_bind (cli_arg args 1 ''experiment manifest path is required'') (\<lambda>path.
        cli_bind (read_declarative env (cc_experiment env) path) (\<lambda>x.
        cli_bind (cli_intel (experiment_manifest_validate x)) (\<lambda>_.
          print_json env (valid_report ''ExperimentManifest'' [(''id'', JString (xm_id x)), (''status'', cc_status_json env (xm_status x))]))))
      else if action = Some ''diff''
      then cli_bind (read_two env (cc_experiment env) (\<lambda>x. cli_intel (experiment_manifest_validate x))
          ''first experiment path is required'' ''second experiment path is required'' args)
        (\<lambda>(left, right). print_value env (cc_experiment_diff_value env (experiment_diff left right)))
      else cli_fail ''expected experiment validate PATH or experiment diff LEFT RIGHT'')"

definition parse_generation :: "cli_env \<Rightarrow> string \<Rightarrow> nat cli" where
  "parse_generation env v = cli_some (parse_u64 v) (cc_int_error env v)"

definition catalog_put :: "cli_env \<Rightarrow> AssetKind \<Rightarrow> string list \<Rightarrow> unit cli" where
  "catalog_put env kind args =
     cli_bind (cli_arg args 2 ''asset manifest path is required'') (\<lambda>path.
     cli_bind (read_declarative env (cc_document env) path) (\<lambda>document.
     cli_bind (case cli_option args ''--expected-generation'' of
         None \<Rightarrow> cli_return None | Some v \<Rightarrow> cli_bind (parse_generation env v) (\<lambda>g. cli_return (Some g))) (\<lambda>generation.
     cli_bind (call_value env ''PutControlAsset'' (cc_put_value env
       \<lparr>par_schema_version = 1, par_kind = kind, par_document = document, par_expected_generation = generation\<rparr>)) (print_json env))))"

definition catalog_remove :: "cli_env \<Rightarrow> AssetKind \<Rightarrow> string list \<Rightarrow> unit cli" where
  "catalog_remove env kind args =
     cli_bind (cli_arg args 2 ''asset ID is required'') (\<lambda>i.
     cli_bind (cli_some (cli_option args ''--expected-generation'') ''--expected-generation is required'') (\<lambda>v.
     cli_bind (parse_generation env v) (\<lambda>generation.
     cli_bind (call env ''DeleteControlAsset'' (JObject
       [(''selector'', cc_selector_json env \<lparr>asl_schema_version = 1, asl_kind = kind, asl_id = i\<rparr>),
        (''expected_generation'', json_nat generation)])) (print_json env))))"

definition catalog_command :: "cli_env \<Rightarrow> string list \<Rightarrow> unit cli" where
  "catalog_command env args =
     (let action = or_default [] (nth_arg args 0) in
      cli_bind (cli_bind (cli_arg args 1 ''asset kind is required'') parse_asset_kind) (\<lambda>kind.
        if action = ''put'' then catalog_put env kind args
        else if action = ''get''
        then cli_bind (cli_arg args 2 ''asset ID is required'') (\<lambda>i.
          cli_bind (call_value env ''GetControlAsset'' (cc_selector_value env \<lparr>asl_schema_version = 1, asl_kind = kind, asl_id = i\<rparr>)) (print_json env))
        else if action = ''list''
        then cli_bind (call_value env ''ListControlAssets'' (cc_list_value env \<lparr>lar_schema_version = 1, lar_kind = kind\<rparr>)) (print_json env)
        else if action = ''remove'' then catalog_remove env kind args
        else cli_fail ''expected catalog put|get|list|remove KIND [PATH|ID] [--expected-generation N]''))"

definition pack_command :: "cli_env \<Rightarrow> string list \<Rightarrow> unit cli" where
  "pack_command env args =
     (if nth_arg args 0 \<noteq> Some ''validate'' then cli_fail ''expected pack validate''
      else cli_bind (cli_arg args 1 ''pack manifest path is required'') (\<lambda>path.
        cli_bind (read_declarative env (cc_pack env) path) (\<lambda>p.
        cli_bind (cli_contract (pack_manifest_validate p)) (\<lambda>_.
          print_json env (valid_report ''PackManifest''
            [(''name'', JString (pk_name p)), (''schema_version'', json_nat (unat (pk_schema_version p)))])))))"

definition conformance_command :: "cli_env \<Rightarrow> string list \<Rightarrow> unit cli" where
  "conformance_command env args =
     (if nth_arg args 0 \<noteq> Some ''provider'' then cli_fail ''expected conformance provider <configured-name>''
      else cli_bind (cli_arg args 1 ''configured provider name is required'') (\<lambda>name.
        cli_bind (read_manifest env name) (\<lambda>m.
        cli_bind (probe_provider env m) (\<lambda>probe.
        cli_bind (execute_twice env m) (\<lambda>steady.
        cli_bind (print_json env (JObject [(''suite'', JString ''provider-v1''), (''provider'', JString name),
          (''checks'', JObject [(''manifest'', JString ''pass''), (''discovery'', JString ''pass''), (''health'', JString ''pass''),
             (''execution'', JString ''pass''), (''idempotent_replay'', JString (if steady then ''pass'' else ''fail'')),
             (''process_isolation'', JString ''pass'')]),
          (''probe'', probe), (''conformant'', JBool steady)])) (\<lambda>_. require_stable steady))))))"

section \<open>Scaffolding\<close>

definition new_provider_manifest :: "string \<Rightarrow> ProviderManifest" where
  "new_provider_manifest name =
     \<lparr>pm_schema_version = 1, pm_name = name, pm_version = ''0.1.0'', pm_backend = ''external-process'', pm_runtime_class = ''local'',
      pm_entrypoint = ''src/provider.py'', pm_model = [], pm_endpoint = [], pm_credential_env = [], pm_capabilities = [''example.echo''],
      pm_lifecycle = [''probe'', ''metadata'', ''capabilities'', ''health'', ''execute'', ''cancel'', ''shutdown''], pm_metadata = Map.empty\<rparr>"

definition new_pack_manifest :: "string \<Rightarrow> PackManifest" where
  "new_pack_manifest name =
     \<lparr>pk_schema_version = 1, pk_name = name, pk_version = ''0.1.0'', pk_description = ''APEIR runtime project'', pk_models = [], pk_providers = [],
      pk_workflows = [], pk_policies = [], pk_resources = [], pk_compatibility = Map.empty, pk_license = ''Apache-2.0''\<rparr>"

definition new_project_manifest :: "string \<Rightarrow> ProjectManifest" where
  "new_project_manifest name =
     \<lparr>pj_schema_version = 1, pj_id = name, pj_name = name, pj_version = ''0.1.0'', pj_description = ''APEIR intelligence project'',
      pj_license = ''Apache-2.0'', pj_models = [], pj_algorithms = [], pj_datasets = [], pj_providers = [], pj_workflows = [], pj_policies = [],
      pj_experiments = [], pj_deployments = [], pj_secret_refs = [], pj_metadata = []\<rparr>"

definition provider_readme :: "string \<Rightarrow> string" where
  "provider_readme name =
     ''# '' @ name @ [CHR 10, CHR 10] @ ''Provider SDK v1 starter. Run `apeir-kernelctl provider validate provider.yaml` before conformance.'' @ [CHR 10]"

definition in_quotes :: "string \<Rightarrow> string" where
  "in_quotes s = CHR 34 # s @ [CHR 34]"

definition example_request :: string where
  "example_request =
     ''{'' @ [CHR 10] @ ''  '' @ in_quotes ''type'' @ '': '' @ in_quotes ''execute'' @ '','' @ [CHR 10] @ ''  '' @ in_quotes ''input'' @ '': '' @
     in_quotes ''hello'' @ [CHR 10] @ ''}'' @ [CHR 10]"

definition make_dirs :: "cli_env \<Rightarrow> string \<Rightarrow> string list \<Rightarrow> unit cli" where
  "make_dirs env root names = cli_bind (cli_each (\<lambda>d. fs_create_dir_all env (path_join root d)) names) (\<lambda>_. cli_return ())"

definition scaffold_provider :: "cli_env \<Rightarrow> string \<Rightarrow> string \<Rightarrow> unit cli" where
  "scaffold_provider env root name =
     cli_bind (safe_name name) (\<lambda>_.
     cli_bind (make_dirs env root [''src'', ''tests'', ''examples'']) (\<lambda>_.
     cli_bind (write_yaml_atomic env (path_join root ''provider.yaml'') (cc_provider_yaml env (new_provider_manifest name))) (\<lambda>_.
     cli_bind (fs_write env (path_join root ''README.md'') (provider_readme name)) (\<lambda>_.
     cli_bind (fs_write env (path_join root ''src/provider.py'') (cc_provider_template env)) (\<lambda>_.
     cli_bind (fs_write env (path_join root ''tests/test_provider.py'') (cc_test_template env)) (\<lambda>_.
       fs_write env (path_join root ''examples/request.json'') example_request))))))"

definition scaffold_project :: "cli_env \<Rightarrow> string \<Rightarrow> string \<Rightarrow> unit cli" where
  "scaffold_project env root name =
     cli_bind (safe_name name) (\<lambda>_.
     cli_bind (make_dirs env root
       [''models'', ''algorithms'', ''datasets'', ''providers'', ''workflows'', ''policies'', ''experiments'', ''evaluations'', ''deployment'', ''tests'']) (\<lambda>_.
     cli_bind (write_yaml_atomic env (path_join root ''nous.yaml'') (cc_pack_yaml env (new_pack_manifest name))) (\<lambda>_.
     cli_bind (write_yaml_atomic env (path_join root ''project.yaml'') (cc_project_yaml env (new_project_manifest name))) (\<lambda>_.
       fs_write env (path_join root ''README.md'') (''# '' @ name @ [CHR 10, CHR 10] @ ''Nous runtime project.'' @ [CHR 10])))))"

definition refuse_occupied :: "cli_env \<Rightarrow> string \<Rightarrow> unit cli" where
  "refuse_occupied env root = cli_with (\<lambda>s.
     if path_exists s root
     then cli_bind (fs_read_dir env root) (\<lambda>entries.
       if entries \<noteq> [] then cli_fail (''refusing to overwrite non-empty directory '' @ root) else cli_return ())
     else cli_return ())"

definition new_command :: "cli_env \<Rightarrow> string list \<Rightarrow> unit cli" where
  "new_command env args =
     (let kind = or_default [] (nth_arg args 0) in
      cli_bind (cli_arg args 1 ''project or provider name is required'') (\<lambda>name.
        let root = or_default name (cli_option args ''--path'') in
        cli_bind (refuse_occupied env root) (\<lambda>_.
        cli_bind (if kind = ''provider'' then scaffold_provider env root name
          else if kind = ''project'' then scaffold_project env root name
          else cli_fail ''expected new provider <name> or new project <name>'') (\<lambda>_.
          print_json env (JObject [(''created'', JBool True), (''kind'', JString kind), (''name'', JString name), (''path'', JString root)])))))"

section \<open>The program\<close>

definition run_input :: "cli_env \<Rightarrow> string list \<Rightarrow> (string \<times> string list) cli" where
  "run_input env args =
     (if nth_arg args 1 = Some ''--input-file''
      then cli_bind (cli_arg args 2 ''input file path is required'') (\<lambda>path.
        cli_bind (fs_read env path) (\<lambda>input. cli_return (input, drop 3 args)))
      else cli_bind (cli_arg args 1 ''input is required'') (\<lambda>input. cli_return (input, drop 2 args)))"

definition print_call :: "cli_env \<Rightarrow> string \<Rightarrow> json \<Rightarrow> unit cli" where
  "print_call env method payload = cli_bind (call env method payload) (print_json env)"

definition usage :: string where
  "usage = ''usage: apeir-kernelctl (or nous) <init|doctor|run [INPUT | --input-file PATH]|run-plan|cancel|status|inspect|explain|provider|'' @
     ''model|project|graph|dataset|experiment|catalog|pack|conformance|new>''"

definition cli_run :: "cli_env \<Rightarrow> string list \<Rightarrow> unit cli" where
  "cli_run env args =
     (let command = nth_arg args 0; rest = drop 1 args in
      if command = Some ''init'' then init_workspace env (nth_arg args 1)
      else if command = Some ''doctor'' then print_call env ''HealthCheck'' (JObject [(''deep'', JBool True)])
      else if command = Some ''status'' then print_call env ''HealthCheck'' (JObject [])
      else if command = Some ''inspect'' then print_call env ''GetMetrics'' (JObject [])
      else if command = Some ''explain''
      then print_call env ''ExplainExecution'' (JObject [(''workload_id'', case nth_arg args 1 of None \<Rightarrow> JNull | Some w \<Rightarrow> JString w)])
      else if command = Some ''cancel''
      then cli_bind (cli_arg args 1 ''workload ID is required'') (\<lambda>w. print_call env ''CancelWorkload'' (JObject [(''workload_id'', JString w)]))
      else if command = Some ''run''
      then cli_bind (run_input env args) (\<lambda>(input, manifest_args).
        cli_bind (cli_execute env input (manifest_from_args ''inline'' manifest_args)) (print_json env))
      else if command = Some ''run-plan''
      then cli_bind (cli_arg args 1 ''continuity plan path is required'') (\<lambda>path.
        cli_bind (fs_read env path) (\<lambda>bytes.
        cli_bind (cli_lift (dec (cc_json env) bytes)) (print_call env ''SubmitContinuityPlan'')))
      else if command = Some ''provider'' then provider_command env rest
      else if command = Some ''model'' then model_command env rest
      else if command = Some ''project'' then project_command env rest
      else if command = Some ''graph'' then graph_command env rest
      else if command = Some ''dataset'' then dataset_command env rest
      else if command = Some ''experiment'' then experiment_command env rest
      else if command = Some ''catalog'' then catalog_command env rest
      else if command = Some ''pack'' then pack_command env rest
      else if command = Some ''conformance'' then conformance_command env rest
      else if command = Some ''new'' then new_command env rest
      else cli_put (Err_Line usage))"

text \<open>The exit status and the state at the end.  A panic ends the process with status 101.\<close>

definition cli_main :: "cli_env \<Rightarrow> string list \<Rightarrow> cli_state \<Rightarrow> nat \<times> cli_state" where
  "cli_main env args s =
     (case cli_run env args s of
        (Inr _, s') \<Rightarrow> (0, s')
      | (Inl (CS_Error e), s') \<Rightarrow> (1, s'\<lparr>ct_out := ct_out s' @ [Err_Line (''nous: '' @ e)]\<rparr>)
      | (Inl CS_Panic, s') \<Rightarrow> (101, s'))"

end
