(* ===== verification/Command_Properties.thy ===== *)
theory Command_Properties
  imports Command_Line
begin

text \<open>
  What the commands of the tool do to the files: most of them change nothing, the registry of providers holds whole manifests
  under the names the tool gives them whatever fails, and a new project passes its own validation.
\<close>

section \<open>Frames\<close>

text \<open>A command keeps a relation between the state before and the state after it.\<close>

definition cli_keeps :: "(cli_state \<Rightarrow> cli_state \<Rightarrow> bool) \<Rightarrow> 'a cli \<Rightarrow> bool" where
  "cli_keeps R m \<longleftrightarrow> (\<forall>s. R s (snd (m s)))"

named_theorems cli_keep "commands that keep a frame"

locale cli_frame =
  fixes R :: "cli_state \<Rightarrow> cli_state \<Rightarrow> bool"
  assumes refl: "R s s" and trans: "R s t \<Longrightarrow> R t u \<Longrightarrow> R s u"
    and quiet: "R s (s\<lparr>ct_out := x\<rparr>)" "R s (s\<lparr>ct_calls := y\<rparr>)" "R s (s\<lparr>ct_faults := z\<rparr>)"
begin

lemma keeps_return [cli_keep]: "cli_keeps R (cli_return x)"
  by (simp add: cli_keeps_def cli_return_def refl)

lemma keeps_fail [cli_keep]: "cli_keeps R (cli_fail e)"
  by (simp add: cli_keeps_def cli_fail_def refl)

lemma keeps_panic [cli_keep]: "cli_keeps R cli_panic"
  by (simp add: cli_keeps_def cli_panic_def refl)

lemma keeps_bind_result: "cli_keeps R m \<Longrightarrow> (\<And>x s t. m s = (Inr x, t) \<Longrightarrow> cli_keeps R (f x)) \<Longrightarrow> cli_keeps R (cli_bind m f)"
proof -
  assume m: "cli_keeps R m" and f: "\<And>x s t. m s = (Inr x, t) \<Longrightarrow> cli_keeps R (f x)"
  have "R s t" "r = Inr x \<Longrightarrow> R s (snd (f x t))" if "m s = (r, t)" for s r t x
    using m f [of s x t] trans that unfolding cli_keeps_def by (metis snd_conv)+
  then show ?thesis by (simp add: cli_keeps_def cli_bind_def split: prod.split sum.split)
qed

lemma keeps_bind [cli_keep]: "cli_keeps R m \<Longrightarrow> (\<And>x. cli_keeps R (f x)) \<Longrightarrow> cli_keeps R (cli_bind m f)"
  by (rule keeps_bind_result)

lemma keeps_if [cli_keep]: "cli_keeps R m \<Longrightarrow> cli_keeps R n \<Longrightarrow> cli_keeps R (if c then m else n)"
  by simp

lemma keeps_with [cli_keep]: "(\<And>t. cli_keeps R (f t)) \<Longrightarrow> cli_keeps R (cli_with f)"
  by (simp add: cli_keeps_def cli_with_def)

lemma keeps_lift [cli_keep]: "cli_keeps R (cli_lift r)"
  by (cases r) (simp_all add: cli_lift_def keeps_fail keeps_return)

lemma keeps_results [cli_keep]:
  "cli_keeps R (cli_contract rc)" "cli_keeps R (cli_intel ri)" "cli_keeps R (cli_graph rg)"
  by (simp_all add: cli_contract_def cli_intel_def cli_graph_def keeps_lift keeps_panic split: option.split)

lemma keeps_args [cli_keep]: "cli_keeps R (cli_some x message)" "cli_keeps R (cli_arg args i message)"
  by (simp_all add: cli_some_def cli_arg_def keeps_fail keeps_return split: option.split)

lemma keeps_print [cli_keep]: "cli_keeps R (cli_put x)" "cli_keeps R (print_json env v)" "cli_keeps R (print_value env r)"
proof -
  show put: "cli_keeps R (cli_put x)" for x by (simp add: cli_keeps_def cli_put_def quiet)
  then show json: "cli_keeps R (print_json env v)" for v by (simp add: print_json_def split: sum.split)
  show "cli_keeps R (print_value env r)" unfolding print_value_def by (intro cli_keep json)
qed

text \<open>An operation on files keeps what it keeps when no fault strikes and when one does.\<close>

lemma keeps_fs: "(\<And>m part. cli_keeps R (bad m part)) \<Longrightarrow> cli_keeps R good \<Longrightarrow> cli_keeps R (fs_do bad good)"
proof -
  assume "\<And>m part. cli_keeps R (bad m part)" "cli_keeps R good"
  then have "R s (snd (bad m part (s\<lparr>ct_faults := fs\<rparr>)))" "R s (snd (good (s\<lparr>ct_faults := fs\<rparr>)))" "R s (snd (good s))" for m part fs s
    unfolding cli_keeps_def using quiet(3) trans by blast+
  then show ?thesis by (simp add: cli_keeps_def fs_do_def split: list.split option.split prod.split)
qed

lemma keeps_reads [cli_keep]: "cli_keeps R (fs_read env p)" "cli_keeps R (fs_read_dir env p)" "cli_keeps R (read_declarative env decode p)"
proof -
  show read: "cli_keeps R (fs_read env p)" for p
    unfolding fs_read_def by (rule keeps_fs [OF keeps_fail]) (simp add: cli_keeps_def cli_fail_def cli_return_def refl split: option.split)
  show "cli_keeps R (fs_read_dir env p)"
    unfolding fs_read_dir_def by (rule keeps_fs [OF keeps_fail]) (simp add: cli_keeps_def cli_fail_def cli_return_def refl)
  show "cli_keeps R (read_declarative env decode p)"
    unfolding read_declarative_def by (intro cli_keep read)
qed

lemma keeps_call [cli_keep]: "cli_keeps R (call env method payload)" "cli_keeps R (call_value env method value)" "cli_keeps R (print_call env method payload)"
proof -
  show call: "cli_keeps R (call env method payload)" for payload
  proof -
    have "R s (snd (cli_lift r (s\<lparr>ct_calls := y\<rparr>)))" for s y and r :: "string + json"
      using keeps_lift [of r] quiet(2) trans unfolding cli_keeps_def by blast
    then show ?thesis by (simp add: cli_keeps_def call_def cli_fail_def refl split: sum.split)
  qed
  show "cli_keeps R (call_value env method value)" "cli_keeps R (print_call env method payload)"
    unfolding call_value_def print_call_def by (intro cli_keep call)+
qed

lemma keeps_provider_calls [cli_keep]:
  "cli_keeps R (cli_execute env input m)" "cli_keeps R (probe_provider env m)" "cli_keeps R (validate_manifest m)"
  "cli_keeps R (execute_twice env m)" "cli_keeps R (require_stable b)"
  unfolding cli_execute_def probe_provider_def validate_manifest_def execute_twice_def require_stable_def Let_def by (intro cli_keep)+

lemma keeps_names [cli_keep]:
  "cli_keeps R (parse_asset_kind v)" "cli_keeps R (safe_name v)" "cli_keeps R (config_root env)" "cli_keeps R (provider_directory env)"
  "cli_keeps R (model_directory env)" "cli_keeps R (model_path env i)" "cli_keeps R (parse_generation env v)"
  unfolding parse_asset_kind_def safe_name_def config_root_def provider_directory_def model_directory_def model_path_def parse_generation_def
  by (intro cli_keep)+

lemma keeps_each [cli_keep]: "(\<And>x. cli_keeps R (f x)) \<Longrightarrow> cli_keeps R (cli_each f xs)"
  by (induction xs) (auto intro!: cli_keep)

lemma keeps_entries [cli_keep]: "cli_keeps R (directory_entries env directory extension)"
  unfolding directory_entries_def by (intro cli_keep)

end

section \<open>Commands that change nothing\<close>

definition same_files :: "cli_state \<Rightarrow> cli_state \<Rightarrow> bool" where
  "same_files s t \<longleftrightarrow> ct_files t = ct_files s \<and> ct_dirs t = ct_dirs s"

interpretation reads: cli_frame same_files
  by unfold_locales (simp_all add: same_files_def)

lemma reads_two [cli_keep]: "(\<And>x. cli_keeps same_files (validate x)) \<Longrightarrow> cli_keeps same_files (read_two env decode validate a b args)"
  unfolding read_two_def by (intro cli_keep)

lemma reads_documents [cli_keep]:
  "cli_keeps same_files (read_profile env args)" "cli_keeps same_files (read_model env args)" "cli_keeps same_files (run_input env args)"
  unfolding read_profile_def read_model_def run_input_def by (intro cli_keep)+

lemma reads_commands [cli_keep]:
  "cli_keeps same_files (project_command env args)" "cli_keeps same_files (graph_command env args)"
  "cli_keeps same_files (dataset_command env args)" "cli_keeps same_files (experiment_command env args)"
  "cli_keeps same_files (catalog_command env args)" "cli_keeps same_files (pack_command env args)"
  unfolding project_command_def project_check_def analyze_command_def graph_command_def dataset_command_def experiment_command_def
    catalog_command_def catalog_put_def catalog_remove_def pack_command_def Let_def
  by (auto intro!: cli_keep split: option.split)

text \<open>Commands leave the files alone: apart from the five that manage the workspace, providers and models or create a project, every
  command ends with the files and directories it found, whatever fails; in particular analysing, importing and validating a project
  never change it.\<close>

theorem commands_leave_files_alone:
  "if nth_arg args 0 \<in> {Some ''init'', Some ''provider'', Some ''model'', Some ''conformance'', Some ''new''} then True
   else ct_files (snd (cli_main env args s)) = ct_files s \<and> ct_dirs (snd (cli_main env args s)) = ct_dirs s"
proof -
  have "cli_keeps same_files (cli_run env args)" if "nth_arg args 0 \<notin> {Some ''init'', Some ''provider'', Some ''model'', Some ''conformance'', Some ''new''}"
    using that unfolding cli_run_def Let_def by (auto intro!: cli_keep)
  then show ?thesis
    by (auto simp: cli_keeps_def cli_main_def same_files_def split: prod.split sum.split cli_stop.split dest!: spec [of _ s])
qed

section \<open>Paths\<close>

definition plain_name :: "string \<Rightarrow> bool" where
  "plain_name n \<longleftrightarrow> n \<noteq> [] \<and> list_all (\<lambda>c. is_ascii_alphanumeric c \<or> c \<in> {CHR ''-'', CHR ''_''}) n"

lemma plain_name_chars: "plain_name n \<Longrightarrow> CHR ''/'' \<notin> set n \<and> CHR ''.'' \<notin> set n"
  by (auto simp: plain_name_def list_all_iff is_ascii_alphanumeric_def is_ascii_alphabetic_def is_ascii_digit_def Let_def)

definition dir_prefix :: "string \<Rightarrow> string" where
  "dir_prefix d = (if d = [] then [] else if ends_with d ''/'' then d else d @ ''/'')"

lemma path_join_plain: "hd n \<noteq> CHR ''/'' \<or> n = [] \<Longrightarrow> path_join d n = dir_prefix d @ n"
  by (cases n) (auto simp: path_join_def dir_prefix_def starts_with_def)

lemma dir_prefix_end: "dir_prefix d = [] \<or> (\<exists>e. dir_prefix d = e @ ''/'')"
  by (auto simp: dir_prefix_def ends_with_def suffix_def)

lemma split_at_slash:
  assumes "CHR ''/'' \<notin> set n"
  shows "path_name (dir_prefix d @ n) = n" "path_dir (dir_prefix d @ n) = dir_prefix d"
proof -
  have ok: "c \<in> set (rev n) \<Longrightarrow> c \<noteq> CHR ''/''" for c using assms by auto
  have "takeWhile (\<lambda>c. c \<noteq> CHR ''/'') (rev n @ x) = rev n @ takeWhile (\<lambda>c. c \<noteq> CHR ''/'') x"
      "dropWhile (\<lambda>c. c \<noteq> CHR ''/'') (rev n @ x) = dropWhile (\<lambda>c. c \<noteq> CHR ''/'') x" for x
    by (rule takeWhile_append2, erule ok) (rule dropWhile_append2, erule ok)
  then show "path_name (dir_prefix d @ n) = n" "path_dir (dir_prefix d @ n) = dir_prefix d"
    using dir_prefix_end [of d] by (auto simp: path_name_def path_dir_def)
qed

lemma name_stem_plain: "CHR ''.'' \<notin> set e \<Longrightarrow> n \<noteq> [] \<Longrightarrow> name_stem (n @ ''.'' @ e) = n"
  by (auto simp: name_stem_def Let_def dropWhile_append)

lemma with_extension_plain:
  assumes "CHR ''/'' \<notin> set n" "n \<noteq> []" "CHR ''.'' \<notin> set e" "CHR ''/'' \<notin> set e"
  shows "with_extension (path_join d (n @ ''.'' @ e)) e' = path_join d (n @ ''.'' @ e')"
proof -
  have "hd n \<noteq> CHR ''/''" using assms(1,2) by (cases n) auto
  then have "path_join d (n @ x) = dir_prefix d @ n @ x" for x using path_join_plain [of "n @ x" d] assms(2) by simp
  moreover have "CHR ''/'' \<notin> set (n @ ''.'' @ e)" using assms by simp
  ultimately show ?thesis using split_at_slash [of "n @ ''.'' @ e" d] name_stem_plain [OF assms(3,2)] by (simp add: with_extension_def)
qed

section \<open>The registry of providers\<close>

definition registry_dir :: "cli_env \<Rightarrow> string option" where
  "registry_dir env = map_option (\<lambda>r. path_join (path_join r ''.nous-kernel'') ''providers'') (config_home env)"

definition screened_manifest :: "LegacyProviderManifest \<Rightarrow> bool" where
  "screened_manifest m \<longleftrightarrow> probe_validate_sensitive_references (manifest_probe m 1) = Inr ()"

text \<open>The files that a command may change, and what it may put there: temporary files, and whole manifests under their own name.\<close>

definition registry_file :: "cli_env \<Rightarrow> string \<Rightarrow> string option \<Rightarrow> bool" where
  "registry_file env p content \<longleftrightarrow>
     (\<exists>d n. registry_dir env = Some d \<and> plain_name n \<and>
        (p = path_join d (n @ ''.json.tmp'') \<or>
         p = path_join d (n @ ''.json'') \<and>
           (\<exists>m b. content = Some b \<and> enc (cc_legacy env) m = Inr b \<and> lm_name m = n \<and> screened_manifest m)))"

definition registry_change :: "cli_env \<Rightarrow> cli_state \<Rightarrow> cli_state \<Rightarrow> bool" where
  "registry_change env s t \<longleftrightarrow>
     (\<forall>p. map_of (ct_files t) p = map_of (ct_files s) p \<or> registry_file env p (map_of (ct_files t) p))"

interpretation registry: cli_frame "registry_change env" for env
proof
  fix s t u :: cli_state
  assume st: "registry_change env s t" and tu: "registry_change env t u"
  show "registry_change env s u"
    unfolding registry_change_def
  proof
    fix p
    show "map_of (ct_files u) p = map_of (ct_files s) p \<or> registry_file env p (map_of (ct_files u) p)"
      using st tu unfolding registry_change_def by (cases "map_of (ct_files u) p = map_of (ct_files t) p") auto
  qed
qed (simp_all add: registry_change_def)

lemma registry_dirs [cli_keep]: "cli_keeps (registry_change env) (fs_create_dir_all env' p)"
  unfolding fs_create_dir_all_def
  by (rule registry.keeps_fs [OF registry.keeps_fail]) (simp add: cli_keeps_def cli_fail_def cli_return_def registry_change_def)

text \<open>What an atomic write does to the files: the temporary file may be left behind, the target gets the whole content or keeps its own.\<close>

lemma write_atomic_files:
  assumes "with_extension p ending \<noteq> p"
  shows "map_of (ct_files (snd (write_atomic env ending p encoded s))) q = map_of (ct_files s) q \<or> q = with_extension p ending \<or>
    q = p \<and> (\<exists>b. encoded = Inr b \<and> map_of (ct_files (snd (write_atomic env ending p encoded s))) q = Some b)"
proof (cases encoded)
  case (Inl e)
  then show ?thesis by (simp add: write_atomic_def cli_bind_def cli_lift_def cli_fail_def Let_def)
next
  case (Inr b)
  let ?t = "with_extension p ending"
  obtain r s1 where w: "fs_write env ?t b s = (r, s1)" by fastforce
  have s1: "map_of (ct_files s1) q = map_of (ct_files s) q \<or> q = ?t" for q
    using w by (auto simp: fs_write_def fs_do_def cli_fail_def cli_return_def set_file_def map_of_update split: list.splits option.splits prod.splits if_splits)
  have b: "r = Inr () \<Longrightarrow> map_of (ct_files s1) ?t = Some b"
    using w by (auto simp: fs_write_def fs_do_def cli_fail_def cli_return_def set_file_def map_of_update split: list.splits option.splits prod.splits if_splits)
  show ?thesis
  proof (cases r)
    case (Inl e)
    then show ?thesis using s1 [of q] w \<open>encoded = Inr b\<close> by (auto simp: write_atomic_def cli_bind_def cli_lift_def cli_return_def Let_def)
  next
    case (Inr u)
    then have whole: "snd (write_atomic env ending p encoded s) = snd (fs_rename env ?t p s1)"
      using w \<open>encoded = Inr b\<close> by (simp add: write_atomic_def cli_bind_def cli_lift_def cli_return_def Let_def)
    have "ct_files (snd (fs_rename env ?t p s1)) = ct_files s1 \<or>
        ct_files (snd (fs_rename env ?t p s1)) = AList.update p b (AList.delete ?t (ct_files s1))"
      using b Inr by (auto simp: fs_rename_def fs_do_def cli_fail_def cli_return_def split: list.split option.split)
    then show ?thesis unfolding whole using s1 [of q] assms \<open>encoded = Inr b\<close> by (auto simp: map_of_update map_of_delete split: if_splits)
  qed
qed

lemma registry_writes:
  assumes "registry_dir env = Some d" "plain_name (lm_name m)" "screened_manifest m"
  shows "cli_keeps (registry_change env) (write_json_atomic env (path_join d (lm_name m @ ''.json'')) (enc (cc_legacy env) m))"
proof -
  let ?p = "path_join d (lm_name m @ ''.json'')"
  have n: "CHR ''/'' \<notin> set (lm_name m)" "lm_name m \<noteq> []" using assms(2) plain_name_chars by (auto simp: plain_name_def)
  then have t: "with_extension ?p ''json.tmp'' = path_join d (lm_name m @ ''.json.tmp'')"
    using with_extension_plain [OF n, of "''json''" d "''json.tmp''"] by simp
  have "hd (lm_name m) \<noteq> CHR ''/''" using n by (cases "lm_name m") auto
  then have "path_join d (lm_name m @ ''.json.tmp'') \<noteq> ?p" using n by (simp add: path_join_plain)
  then have "with_extension ?p ''json.tmp'' \<noteq> ?p" using t by simp
  note files = write_atomic_files [OF this, of env "enc (cc_legacy env) m"]
  have "map_of (ct_files (snd (write_atomic env ''json.tmp'' ?p (enc (cc_legacy env) m) s))) q = map_of (ct_files s) q \<or>
      registry_file env q (map_of (ct_files (snd (write_atomic env ''json.tmp'' ?p (enc (cc_legacy env) m) s))) q)" for s q
    using files [of s q] assms t unfolding registry_file_def by metis
  then show ?thesis by (simp add: cli_keeps_def registry_change_def write_json_atomic_def)
qed

lemma provider_path_result: "provider_path env name s = (Inr p, t) \<Longrightarrow> \<exists>d. registry_dir env = Some d \<and> plain_name name \<and> p = path_join d (name @ ''.json'')"
  by (auto simp: provider_path_def provider_directory_def config_root_def registry_dir_def plain_name_def cli_bind_def cli_some_def cli_fail_def
      cli_return_def split: if_splits option.splits prod.splits sum.splits)

lemma validate_manifest_result: "validate_manifest m s = (Inr x, t) \<Longrightarrow> screened_manifest m"
  by (auto simp: validate_manifest_def screened_manifest_def cli_lift_def cli_fail_def cli_return_def split: sum.splits)

lemma registry_path [cli_keep]: "cli_keeps (registry_change env) (provider_path env name)" "cli_keeps (registry_change env) (read_manifest env name)"
  unfolding provider_path_def read_manifest_def by (intro cli_keep)+

text \<open>The three steps that install a manifest.\<close>

lemma registry_install:
  assumes "lm_name m = name" "\<And>p. cli_keeps (registry_change env) (finish p)"
  shows "cli_keeps (registry_change env)
    (cli_bind (validate_manifest m) (\<lambda>_. cli_bind (provider_path env name) (\<lambda>p. cli_bind (write_json_atomic env p (enc (cc_legacy env) m)) (\<lambda>_. finish p))))"
proof (rule registry.keeps_bind_result)
  fix x s t assume "validate_manifest m s = (Inr x, t)"
  then have m: "screened_manifest m" by (rule validate_manifest_result)
  show "cli_keeps (registry_change env) (cli_bind (provider_path env name) (\<lambda>p. cli_bind (write_json_atomic env p (enc (cc_legacy env) m)) (\<lambda>_. finish p)))"
  proof (rule registry.keeps_bind_result)
    fix p s t assume "provider_path env name s = (Inr p, t)"
    then show "cli_keeps (registry_change env) (cli_bind (write_json_atomic env p (enc (cc_legacy env) m)) (\<lambda>_. finish p))"
      using provider_path_result registry_writes m assms registry.keeps_bind by metis
  qed (rule registry_path)
qed (intro cli_keep)

lemma registry_commands [cli_keep]: "cli_keeps (registry_change env) (provider_init env name args)" "cli_keeps (registry_change env) (provider_install env args)"
  unfolding provider_init_def provider_install_def Let_def
  by (rule registry_install; simp add: manifest_from_args_def Let_def cli_keep) (intro cli_keep registry_install; simp add: cli_keep)

lemma registry_provider_command: "cli_keeps (registry_change env) (provider_command env args)"
  unfolding provider_command_def list_providers_def provider_validate_def provider_doctor_def provider_certify_def Let_def
  by (intro cli_keep)

text \<open>C13.  The registry of providers is never left with a partial or foreign file: whatever a provider command does and wherever a file
  operation fails, every file that it changed lies in the directory of the registry; it is a temporary file, or the complete
  encoding of a manifest whose references passed the screening, under the name of the provider.\<close>

theorem registry_holds_whole_manifests:
  "\<forall>p. map_of (ct_files (snd (cli_main env (''provider'' # args) s))) p = map_of (ct_files s) p \<or>
     registry_file env p (map_of (ct_files (snd (cli_main env (''provider'' # args) s))) p)"
proof -
  have "cli_run env (''provider'' # args) = provider_command env args" by (simp add: cli_run_def nth_arg_def)
  then have "ct_files (snd (cli_main env (''provider'' # args) s)) = ct_files (snd (provider_command env args s))"
    by (auto simp: cli_main_def split: prod.split sum.split cli_stop.split)
  then show ?thesis using registry_provider_command [of env args] by (simp add: cli_keeps_def registry_change_def)
qed

section \<open>A new project\<close>

lemma slash_prefixes_plain: "CHR ''/'' \<notin> set n \<Longrightarrow> slash_prefixes before (n @ cs) = slash_prefixes (before @ n) cs"
  by (induction n arbitrary: before) auto

lemma path_ancestors_below:
  "CHR ''/'' \<notin> set name \<Longrightarrow> name \<noteq> [] \<Longrightarrow> CHR ''/'' \<notin> set d \<Longrightarrow> path_ancestors (name @ ''/'' @ d) = [name, name @ ''/'' @ d]"
  using slash_prefixes_plain [of name "[]" "''/'' @ d"] slash_prefixes_plain [of d "name @ ''/''" "[]"] by (simp add: path_ancestors_def)

text \<open>The file operations on working storage.\<close>

lemma create_dir_works:
  assumes "ct_faults s = []" "\<not> list_ex (is_file s) (path_ancestors p)"
  shows "\<exists>t. fs_create_dir_all env p s = (Inr (), t) \<and> ct_faults t = [] \<and> ct_files t = ct_files s \<and> ct_calls t = ct_calls s \<and>
    set (ct_dirs t) = set (ct_dirs s) \<union> set (path_ancestors p)"
  using assms by (auto simp: fs_create_dir_all_def fs_do_def cli_return_def)

lemma make_dirs_works:
  assumes "ct_faults s = []" "list_all (\<lambda>d. \<not> list_ex (is_file s) (path_ancestors (path_join root d))) names"
  shows "\<exists>t. make_dirs env root names s = (Inr (), t) \<and> ct_faults t = [] \<and> ct_files t = ct_files s \<and> ct_calls t = ct_calls s \<and>
    set (ct_dirs t) = set (ct_dirs s) \<union> (\<Union>d \<in> set names. set (path_ancestors (path_join root d)))"
proof -
  have "\<exists>t us. cli_each (\<lambda>d. fs_create_dir_all env (path_join root d)) names s = (Inr us, t) \<and> ct_faults t = [] \<and> ct_files t = ct_files s \<and>
      ct_calls t = ct_calls s \<and> set (ct_dirs t) = set (ct_dirs s) \<union> (\<Union>d \<in> set names. set (path_ancestors (path_join root d)))"
    using assms
  proof (induction names arbitrary: s)
    case (Cons d names)
    then obtain u where u: "fs_create_dir_all env (path_join root d) s = (Inr (), u)" "ct_faults u = []" "ct_files u = ct_files s"
        "ct_calls u = ct_calls s" "set (ct_dirs u) = set (ct_dirs s) \<union> set (path_ancestors (path_join root d))"
      using create_dir_works [of s "path_join root d" env] by auto
    moreover have "list_all (\<lambda>d. \<not> list_ex (is_file u) (path_ancestors (path_join root d))) names"
      using Cons.prems(2) is_file_def u(3) by (simp add: is_file_def [abs_def])
    ultimately obtain t us where "cli_each (\<lambda>d. fs_create_dir_all env (path_join root d)) names u = (Inr us, t)" "ct_faults t = []"
        "ct_files t = ct_files u" "ct_calls t = ct_calls u" "set (ct_dirs t) = set (ct_dirs u) \<union> (\<Union>d \<in> set names. set (path_ancestors (path_join root d)))"
      using Cons.IH [of u] by auto
    then show ?case using u by (auto simp: cli_bind_def cli_return_def)
  qed (simp add: cli_return_def)
  then show ?thesis by (auto simp: make_dirs_def cli_bind_def cli_return_def)
qed

lemma write_works: "ct_faults s = [] \<Longrightarrow> can_write s p \<Longrightarrow> fs_write env p b s = (Inr (), set_file p b s)"
  by (simp add: fs_write_def fs_do_def cli_return_def)

lemma write_atomic_works:
  assumes "ct_faults s = []" "can_write s (with_extension p ending)" "can_write s p"
  shows "write_atomic env ending p (Inr b) s =
    (Inr (), s\<lparr>ct_files := AList.update p b (AList.delete (with_extension p ending) (AList.update (with_extension p ending) b (ct_files s)))\<rparr>)"
proof -
  let ?t = "with_extension p ending"
  have "can_write (set_file ?t b s) p" using assms(3) by (simp add: can_write_def is_dir_def set_file_def)
  then have "fs_rename env ?t p (set_file ?t b s) = (Inr (), s\<lparr>ct_files := AList.update p b (AList.delete ?t (AList.update ?t b (ct_files s)))\<rparr>)"
    using assms(1) by (simp add: fs_rename_def fs_do_def set_file_def cli_return_def map_of_update)
  then show ?thesis using write_works [OF assms(1,2)] by (simp add: write_atomic_def cli_bind_def cli_lift_def cli_return_def Let_def)
qed

text \<open>A project below its directory: no file or directory of the state lies there yet.\<close>

definition unused :: "cli_state \<Rightarrow> string \<Rightarrow> bool" where
  "unused s name \<longleftrightarrow> list_all (\<lambda>p. p \<noteq> name \<and> \<not> starts_with p (name @ ''/'')) (map fst (ct_files s) @ ct_dirs s)"

lemma is_file_iff: "is_file s p \<longleftrightarrow> p \<in> fst ` set (ct_files s)"
  by (simp add: is_file_def map_of_eq_None_iff)

lemma unusedD:
  assumes "unused s name"
  shows "\<not> is_file s name" "\<not> is_file s (name @ CHR ''/'' # d)" "name \<notin> set (ct_dirs s)" "name @ CHR ''/'' # d \<notin> set (ct_dirs s)"
proof -
  have u: "p \<noteq> name" "\<not> starts_with p (name @ ''/'')" if "is_file s p \<or> p \<in> set (ct_dirs s)" for p
    using assms that by (auto simp: unused_def list_all_iff is_file_iff)
  show "\<not> is_file s name" "name \<notin> set (ct_dirs s)" using u(1) by blast+
  have "starts_with (name @ CHR ''/'' # d) (name @ ''/'')" by (simp add: starts_with_def)
  then show "\<not> is_file s (name @ CHR ''/'' # d)" "name @ CHR ''/'' # d \<notin> set (ct_dirs s)" using u(2) by blast+
qed

lemma valid_identifier_chars: 
  assumes "valid_identifier name"
  shows "name \<noteq> []" "CHR ''/'' \<notin> set name" "trim name \<noteq> []"
proof -
  have ok: "name \<noteq> []" "\<And>c. c \<in> set name \<Longrightarrow> is_ascii_alphanumeric c \<or> c \<in> {CHR ''-'', CHR ''_'', CHR ''.''}"
    using assms by (auto simp: valid_identifier_def list_all_iff)
  show "name \<noteq> []" by (rule ok(1))
  show "CHR ''/'' \<notin> set name"
    using ok(2) [of "CHR ''/''"] by (auto simp: is_ascii_alphanumeric_def is_ascii_alphabetic_def is_ascii_digit_def Let_def)
  have "\<not> is_ws c" if "c \<in> set name" for c
    using ok(2) [OF that] by (auto simp: is_ws_def is_ascii_alphanumeric_def is_ascii_alphabetic_def is_ascii_digit_def Let_def)
  then have "dropWhile is_ws name = name" "dropWhile is_ws (rev name) = rev name"
    using ok(1) by (auto simp: dropWhile_eq_self_iff hd_rev)
  then show "trim name \<noteq> []" using ok(1) by (simp add: trim_def)
qed

lemma path_below:
  assumes "CHR ''/'' \<notin> set name" "name \<noteq> []" "CHR ''/'' \<notin> set d"
  shows "path_join name d = name @ CHR ''/'' # d" "path_parent (name @ CHR ''/'' # d) = name"
proof -
  have pre: "dir_prefix name = name @ ''/''" using assms(1,2) by (auto simp: dir_prefix_def ends_with_def suffix_def)
  then show "path_join name d = name @ CHR ''/'' # d" using path_join_plain [of d name] assms(3) by (cases d) auto
  show "path_parent (name @ CHR ''/'' # d) = name"
    using split_at_slash(2) [OF assms(3), of name] assms(2) by (simp add: path_parent_def pre)
qed

text \<open>The parts of a directory with a plain name.\<close>

lemma project_dirs:
  assumes "valid_identifier name"
  shows "(\<Union>d \<in> set REQUIRED_DIRECTORIES. set (path_ancestors (path_join name d))) = insert name ((\<lambda>d. name @ CHR ''/'' # d) ` set REQUIRED_DIRECTORIES)"
proof -
  note n = valid_identifier_chars [OF assms]
  have "CHR ''/'' \<notin> set d" if "d \<in> set REQUIRED_DIRECTORIES" for d using that by (auto simp: REQUIRED_DIRECTORIES_def)
  then have "set (path_ancestors (path_join name d)) = {name, name @ CHR ''/'' # d}" if "d \<in> set REQUIRED_DIRECTORIES" for d
    using path_ancestors_below [OF n(2,1), of d] path_below(1) [OF n(2,1), of d] that by simp
  moreover have "set REQUIRED_DIRECTORIES \<noteq> {}" by (simp add: REQUIRED_DIRECTORIES_def)
  ultimately show ?thesis by auto
qed

lemma project_file_writable:
  assumes "valid_identifier name" "name \<in> set (ct_dirs s)" "CHR ''/'' \<notin> set d" "name @ CHR ''/'' # d \<notin> set (ct_dirs s)"
  shows "can_write s (path_join name d)"
  using assms path_below [OF valid_identifier_chars(2,1) [OF assms(1)] assms(3)] by (simp add: can_write_def is_dir_def)

lemma scaffold_project_works:
  assumes "ct_faults s = []" "valid_identifier name" "unused s name"
    and "cc_pack_yaml env (new_pack_manifest name) = Inr pack" "cc_project_yaml env (new_project_manifest name) = Inr project"
  shows "\<exists>t. scaffold_project env name name s = (Inr (), t) \<and> ct_faults t = [] \<and>
    set (ct_dirs t) = set (ct_dirs s) \<union> insert name ((\<lambda>d. name @ CHR ''/'' # d) ` set REQUIRED_DIRECTORIES) \<and>
    map_of (ct_files t) (name @ ''/project.yaml'') = Some project"
proof -
  note n = valid_identifier_chars [OF assms(2)] and below = path_below [OF valid_identifier_chars(2,1) [OF assms(2)]]
  have "list_all (\<lambda>d. \<not> list_ex (is_file s) (path_ancestors (path_join name d))) REQUIRED_DIRECTORIES"
    using unusedD(1,2) [OF assms(3)] path_ancestors_below [OF n(2,1)] below(1) by (simp add: REQUIRED_DIRECTORIES_def)
  then obtain t where t: "make_dirs env name REQUIRED_DIRECTORIES s = (Inr (), t)" "ct_faults t = []"
      "set (ct_dirs t) = set (ct_dirs s) \<union> insert name ((\<lambda>d. name @ CHR ''/'' # d) ` set REQUIRED_DIRECTORIES)"
    using make_dirs_works [OF assms(1), of name REQUIRED_DIRECTORIES env] unfolding project_dirs [OF assms(2)] by auto
  have w: "can_write u (path_join name d)" if "ct_dirs u = ct_dirs t" "CHR ''/'' \<notin> set d" "d \<notin> set REQUIRED_DIRECTORIES" for u d
    using that t(3) unusedD(4) [OF assms(3), of d] by (intro project_file_writable [OF assms(2)]) auto
  have ext: "with_extension (path_join name (x @ ''.yaml'')) ''yaml.tmp'' = path_join name (x @ ''.yaml.tmp'')" if "CHR ''/'' \<notin> set x" "x \<noteq> []" for x
    using with_extension_plain [OF that, of "''yaml''" name "''yaml.tmp''"] by simp
  have yaml: "write_yaml_atomic env (path_join name (x @ ''.yaml'')) (Inr b) u =
      (Inr (), u\<lparr>ct_files := AList.update (path_join name (x @ ''.yaml'')) b (AList.delete (path_join name (x @ ''.yaml.tmp''))
        (AList.update (path_join name (x @ ''.yaml.tmp'')) b (ct_files u)))\<rparr>)"
    if "ct_dirs u = ct_dirs t" "ct_faults u = []" "x \<in> {''nous'', ''project''}" for x b u
    using write_atomic_works [of u "path_join name (x @ ''.yaml'')" "''yaml.tmp''" env b] that ext [of x] w [OF that(1)]
    by (auto simp: write_yaml_atomic_def REQUIRED_DIRECTORIES_def)
  have readme: "fs_write env (path_join name ''README.md'') b u = (Inr (), set_file (path_join name ''README.md'') b u)"
    if "ct_dirs u = ct_dirs t" "ct_faults u = []" for b u
    using write_works that w [OF that(1), of "''README.md''"] by (simp add: REQUIRED_DIRECTORIES_def)
  have safe: "safe_name name = cli_return name" using assms(2) by (auto simp: safe_name_def valid_identifier_def)
  show ?thesis
    unfolding scaffold_project_def safe
    using t yaml [of t "''nous''" pack] yaml [of _ "''project''" project] readme below(1) assms(4,5)
    by (simp add: cli_bind_def cli_return_def REQUIRED_DIRECTORIES_def [symmetric] set_file_def map_of_update map_of_delete)
qed

lemma print_json_works: "\<exists>out. print_json env v s = (Inr (), s\<lparr>ct_out := out\<rparr>)"
  by (auto simp: print_json_def cli_put_def split: sum.split)

lemma new_project_manifest_valid: "valid_identifier name \<Longrightarrow> project_manifest_validate (new_project_manifest name) = Inr ()"
  using valid_identifier_chars(3)
  by (simp add: project_manifest_validate_def new_project_manifest_def project_references_def checks_ok intel_schema_def intel_require_def intel_check_def
      INTELLIGENCE_SCHEMA_VERSION_def trim_def is_ws_def)

text \<open>C15.  A new project passes its own validation: on working storage, with a valid name that is not in use and documents that can be
  written and read back, creating a project succeeds and validating the project it created succeeds.\<close>

theorem new_project_validates:
  assumes "ct_faults s = []" "valid_identifier name" "unused s name"
    and "cc_pack_yaml env (new_pack_manifest name) = Inr pack" "cc_project_yaml env (new_project_manifest name) = Inr project"
    and "cc_project env False project = Inr (new_project_manifest name)"
  shows "fst (cli_main env [''new'', ''project'', name] s) = 0 \<and>
    fst (cli_main env [''project'', ''validate'', name] (snd (cli_main env [''new'', ''project'', name] s))) = 0"
proof -
  note n = valid_identifier_chars [OF assms(2)] and below = path_below [OF valid_identifier_chars(2,1) [OF assms(2)]]
  obtain t where t: "scaffold_project env name name s = (Inr (), t)" "ct_faults t = []" "name \<in> set (ct_dirs t)"
      "\<And>d. d \<in> set REQUIRED_DIRECTORIES \<Longrightarrow> name @ CHR ''/'' # d \<in> set (ct_dirs t)" "map_of (ct_files t) (name @ ''/project.yaml'') = Some project"
    using scaffold_project_works [OF assms(1-5)] by auto
  have free: "\<not> path_exists s name" using unusedD(1,3) [OF assms(3)] by (simp add: path_exists_def is_dir_def)
  let ?v = "JObject [(''created'', JBool True), (''kind'', JString ''project''), (''name'', JString name), (''path'', JString name)]"
  obtain out where out: "print_json env ?v t = (Inr (), t\<lparr>ct_out := out\<rparr>)" using print_json_works by blast
  have option: "cli_option [''project'', name] ''--path'' = None" by (simp add: cli_option_def)
  have occupied: "refuse_occupied env name s = (Inr (), s)" using free by (simp add: refuse_occupied_def cli_with_def cli_return_def)
  have "new_command env [''project'', name] s = (Inr (), t\<lparr>ct_out := out\<rparr>)"
    using t(1) out occupied option
    by (simp add: new_command_def nth_arg_def cli_arg_def cli_some_def or_default_def cli_bind_def cli_return_def Let_def)
  then have new: "cli_main env [''new'', ''project'', name] s = (0, t\<lparr>ct_out := out\<rparr>)" by (simp add: cli_main_def cli_run_def nth_arg_def)
  let ?t = "t\<lparr>ct_out := out\<rparr>"
  have path: "path_join name ''project.yaml'' = name @ ''/project.yaml''" "path_parent (name @ ''/project.yaml'') = name"
    using below [of "''project.yaml''"] by simp_all
  have "dir_prefix name @ ''project.yaml'' = name @ ''/project.yaml''" by (rule trans [OF path_join_plain [symmetric] path(1)]) simp
  then have "path_name (name @ ''/project.yaml'') = ''project.yaml''" using split_at_slash(1) [of "''project.yaml''" name] by simp
  then have ext: "path_extension (name @ ''/project.yaml'') \<noteq> Some ''json''" by (simp add: path_extension_def Let_def)
  have read: "read_declarative env (cc_project env) (name @ ''/project.yaml'') ?t = (Inr (new_project_manifest name), ?t)"
    using t(2,5) ext assms(6) by (simp add: read_declarative_def fs_read_def fs_do_def cli_bind_def cli_return_def cli_lift_def)
  have dirs: "filter (\<lambda>d. \<not> is_dir ?t (path_join name d)) REQUIRED_DIRECTORIES = []"
    using t(4) below(1) by (simp add: REQUIRED_DIRECTORIES_def is_dir_def)
  have refs: "project_references (new_project_manifest name) = []" by (simp add: project_references_def new_project_manifest_def)
  have "\<exists>u. project_command env [''validate'', name] ?t = (Inr (), u)"
    using t(3) path read dirs refs new_project_manifest_valid [OF assms(2)] print_json_works [of env _ ?t]
    by (auto simp: project_command_def project_check_def nth_arg_def or_default_def cli_with_def is_dir_def cli_bind_def cli_intel_def cli_lift_def
        cli_return_def Let_def)
  then have "fst (cli_main env [''project'', ''validate'', name] ?t) = 0" by (auto simp: cli_main_def cli_run_def nth_arg_def)
  then show ?thesis using new by simp
qed

section \<open>Example\<close>

definition demo_cli :: cli_env where
  "demo_cli =
     \<lparr>cc_vars = Map.empty, cc_cwd = Inr ''.'', cc_canonical = (\<lambda>_. None), cc_io_error = (\<lambda>p. p), cc_connect = (\<lambda>_ _. Inl CL_Timeout),
      cc_sha = (\<lambda>s. s), cc_int_error = (\<lambda>v. v), cc_json = \<lparr>enc = (\<lambda>_. Inr []), dec = (\<lambda>_. Inl [])\<rparr>,
      cc_legacy = \<lparr>enc = (\<lambda>_. Inl []), dec = (\<lambda>_. Inl [])\<rparr>, cc_document = (\<lambda>_ _. Inl []), cc_provider = (\<lambda>_ _. Inl []),
      cc_model = (\<lambda>_ _. Inl []), cc_profile = (\<lambda>_ _. Inl []), cc_merge = (\<lambda>_ _. Inl []), cc_graph = (\<lambda>_ _. Inl []),
      cc_dataset = (\<lambda>_ _. Inl []), cc_experiment = (\<lambda>_ _. Inl []), cc_pack = (\<lambda>_ _. Inl []),
      cc_project = (\<lambda>_ name. Inr (new_project_manifest name)), cc_provider_yaml = (\<lambda>_. Inl []), cc_model_yaml = (\<lambda>_. Inl []),
      cc_pack_yaml = (\<lambda>m. Inr (pk_name m)), cc_project_yaml = (\<lambda>m. Inr (pj_name m)), cc_operation_value = (\<lambda>_. Inl []),
      cc_probe_value = (\<lambda>_. Inl []), cc_model_value = (\<lambda>_. Inl []), cc_profile_value = (\<lambda>_. Inl []), cc_model_diff_value = (\<lambda>_. Inl []),
      cc_merge_value = (\<lambda>_. Inl []), cc_graph_diff_value = (\<lambda>_. Inl []), cc_workflow_value = (\<lambda>_. Inl []), cc_experiment_diff_value = (\<lambda>_. Inl []),
      cc_project_value = (\<lambda>_. Inl []), cc_analysis_value = (\<lambda>_. Inl []), cc_put_value = (\<lambda>_. Inl []), cc_selector_value = (\<lambda>_. Inl []),
      cc_selector_json = (\<lambda>_. JNull), cc_list_value = (\<lambda>_. Inl []), cc_kind_json = (\<lambda>_. JNull), cc_status_json = (\<lambda>_. JNull),
      cc_tree = (\<lambda>_ _. Inl []), cc_provider_template = [], cc_test_template = []\<rparr>"

definition empty_machine :: cli_state where
  "empty_machine = \<lparr>ct_files = [], ct_dirs = [], ct_faults = [], ct_calls = [], ct_out = []\<rparr>"

theorem new_project_validates_witness:
  "fst (cli_main demo_cli [''project'', ''validate'', ''demo''] (snd (cli_main demo_cli [''new'', ''project'', ''demo''] empty_machine))) = 0"
proof -
  have "valid_identifier ''demo''" by (simp add: valid_identifier_def is_ascii_alphanumeric_def is_ascii_alphabetic_def)
  moreover have "unused empty_machine ''demo''" by (simp add: unused_def empty_machine_def)
  ultimately show ?thesis
    using new_project_validates [of empty_machine "''demo''" demo_cli "''demo''" "''demo''"]
    by (simp add: demo_cli_def empty_machine_def new_pack_manifest_def new_project_manifest_def)
qed

end
