(* ===== verification/Cancellation_Token.thy ===== *)
theory Cancellation_Token
  imports Kernel_Prelude
begin

text \<open>
  The cancellation token (crates/nous-kernel-core/src/cancellation.rs): one flag and a notification shared by the threads that cancel
  and the tasks that wait.  Each atomic access is one step, so that the steps of all threads interleave freely.

  The notification is a parameter (\<open>notify_ops\<close>): a task creates a future, which forgets an earlier one of the task, enables it, and
  drops it; \<open>nt_waits\<close> says that the future is among the waiters, \<open>nt_ready\<close> that it completes when it is polled.  \<open>notify_ok\<close> states
  what the library documents of it.
\<close>

section \<open>Model\<close>

record 'n notify_ops =
  nt_new :: 'n
  nt_notified :: "nat \<Rightarrow> 'n \<Rightarrow> 'n"
  nt_enable :: "nat \<Rightarrow> 'n \<Rightarrow> 'n"
  nt_drop :: "nat \<Rightarrow> 'n \<Rightarrow> 'n"
  nt_notify_waiters :: "'n \<Rightarrow> 'n"
  nt_waits :: "nat \<Rightarrow> 'n \<Rightarrow> bool"
  nt_ready :: "nat \<Rightarrow> 'n \<Rightarrow> bool"

definition notify_ok :: "'n notify_ops \<Rightarrow> bool" where
  "notify_ok nt \<longleftrightarrow>
     (\<forall>t n. nt_waits nt t (nt_enable nt t n) \<or> nt_ready nt t (nt_enable nt t n)) \<and>
     (\<forall>t u n. t \<noteq> u \<longrightarrow> (\<forall>f \<in> {nt_notified nt, nt_enable nt, nt_drop nt}.
        nt_waits nt u (f t n) = nt_waits nt u n \<and> nt_ready nt u (f t n) = nt_ready nt u n)) \<and>
     (\<forall>t n. nt_waits nt t n \<or> nt_ready nt t n \<longrightarrow> nt_ready nt t (nt_notify_waiters nt n))"

text \<open>Where a thread is: outside, in \<open>cancel\<close> after the exchange of the flag, in \<open>cancelled\<close> after the future was created, after it was
  enabled, waiting for it, or returned from \<open>cancelled\<close>.\<close>

datatype token_pc = PC_Idle | PC_Swapped | PC_Created | PC_Enabled | PC_Parked | PC_Returned

record 'n CancellationState =
  cs_cancelled :: bool
  cs_notification :: 'n
  cs_pc :: "nat \<Rightarrow> token_pc"

definition token_new :: "'n notify_ops \<Rightarrow> 'n CancellationState" where
  "token_new nt = \<lparr>cs_cancelled = False, cs_notification = nt_new nt, cs_pc = (\<lambda>_. PC_Idle)\<rparr>"

definition goto :: "nat \<Rightarrow> token_pc \<Rightarrow> 'n CancellationState \<Rightarrow> 'n CancellationState" where
  "goto t pc c = c\<lparr>cs_pc := (cs_pc c)(t := pc)\<rparr>"

definition set_notification :: "'n \<Rightarrow> 'n CancellationState \<Rightarrow> 'n CancellationState" where
  "set_notification n c = c\<lparr>cs_notification := n\<rparr>"

inductive token_step :: "'n notify_ops \<Rightarrow> 'n CancellationState \<Rightarrow> 'n CancellationState \<Rightarrow> bool" for nt where
  cancel_first: "cs_pc c t = PC_Idle \<Longrightarrow> \<not> cs_cancelled c \<Longrightarrow> token_step nt c (goto t PC_Swapped (c\<lparr>cs_cancelled := True\<rparr>))"
| cancel_again: "cs_pc c t = PC_Idle \<Longrightarrow> cs_cancelled c \<Longrightarrow> token_step nt c c"
| cancel_notify: "cs_pc c t = PC_Swapped \<Longrightarrow>
    token_step nt c (goto t PC_Idle (set_notification (nt_notify_waiters nt (cs_notification c)) c))"
| wait_begin: "cs_pc c t = PC_Idle \<Longrightarrow> token_step nt c (goto t PC_Created (set_notification (nt_notified nt t (cs_notification c)) c))"
| wait_enable: "cs_pc c t = PC_Created \<Longrightarrow> token_step nt c (goto t PC_Enabled (set_notification (nt_enable nt t (cs_notification c)) c))"
| wait_return: "cs_pc c t = PC_Enabled \<Longrightarrow> cs_cancelled c \<Longrightarrow> token_step nt c (goto t PC_Returned c)"
| wait_park: "cs_pc c t = PC_Enabled \<Longrightarrow> \<not> cs_cancelled c \<Longrightarrow> token_step nt c (goto t PC_Parked c)"
| wait_wake: "cs_pc c t = PC_Parked \<Longrightarrow> nt_ready nt t (cs_notification c) \<Longrightarrow>
    token_step nt c (goto t PC_Created (set_notification (nt_notified nt t (cs_notification c)) c))"
| wait_drop: "cs_pc c t \<in> {PC_Created, PC_Enabled, PC_Parked} \<Longrightarrow>
    token_step nt c (goto t PC_Idle (set_notification (nt_drop nt t (cs_notification c)) c))"

inductive token_reachable :: "'n notify_ops \<Rightarrow> 'n CancellationState \<Rightarrow> bool" for nt where
  reach_new: "token_reachable nt (token_new nt)"
| reach_step: "token_reachable nt c \<Longrightarrow> token_step nt c c' \<Longrightarrow> token_reachable nt c'"

section \<open>Invariant\<close>

lemma goto_simps [simp]:
  "cs_cancelled (goto t pc c) = cs_cancelled c" "cs_notification (goto t pc c) = cs_notification c"
  "cs_pc (goto t pc c) u = (if u = t then pc else cs_pc c u)"
  "cs_cancelled (set_notification n c) = cs_cancelled c" "cs_notification (set_notification n c) = n" "cs_pc (set_notification n c) = cs_pc c"
  by (simp_all add: goto_def set_notification_def)

lemma notify_okD:
  assumes "notify_ok nt"
  shows "nt_waits nt t (nt_enable nt t n) \<or> nt_ready nt t (nt_enable nt t n)"
    "t \<noteq> u \<Longrightarrow> nt_waits nt u (nt_notified nt t n) = nt_waits nt u n" "t \<noteq> u \<Longrightarrow> nt_ready nt u (nt_notified nt t n) = nt_ready nt u n"
    "t \<noteq> u \<Longrightarrow> nt_waits nt u (nt_enable nt t n) = nt_waits nt u n" "t \<noteq> u \<Longrightarrow> nt_ready nt u (nt_enable nt t n) = nt_ready nt u n"
    "t \<noteq> u \<Longrightarrow> nt_waits nt u (nt_drop nt t n) = nt_waits nt u n" "t \<noteq> u \<Longrightarrow> nt_ready nt u (nt_drop nt t n) = nt_ready nt u n"
    "nt_waits nt t n \<or> nt_ready nt t n \<Longrightarrow> nt_ready nt t (nt_notify_waiters nt n)"
  using assms unfolding notify_ok_def by auto

text \<open>A thread behind the enabling of its future is among the waiters or notified; a thread that waits although the token is cancelled is
  notified, unless the thread that cancelled is about to notify.\<close>

definition token_inv :: "'n notify_ops \<Rightarrow> 'n CancellationState \<Rightarrow> bool" where
  "token_inv nt c \<longleftrightarrow>
     (\<forall>t. cs_pc c t \<in> {PC_Enabled, PC_Parked} \<longrightarrow> nt_waits nt t (cs_notification c) \<or> nt_ready nt t (cs_notification c)) \<and>
     (\<forall>t. cs_pc c t \<in> {PC_Swapped, PC_Returned} \<longrightarrow> cs_cancelled c) \<and>
     (\<forall>t. cs_pc c t = PC_Parked \<and> cs_cancelled c \<longrightarrow> nt_ready nt t (cs_notification c) \<or> (\<exists>u. cs_pc c u = PC_Swapped))"

lemma token_inv_step:
  assumes "notify_ok nt" "token_step nt c c'" "token_inv nt c"
  shows "token_inv nt c'"
  using assms(2,3)
proof cases
  case (cancel_first t)
  with assms(3) show ?thesis unfolding token_inv_def by (auto simp: goto_def)
next
  case (cancel_notify t)
  with assms(3) notify_okD(8) [OF assms(1)] show ?thesis unfolding token_inv_def by auto
next
  case (wait_begin t)
  with assms(3) notify_okD(2,3) [OF assms(1)] show ?thesis unfolding token_inv_def by (auto split: if_splits) (metis token_pc.distinct)
next
  case (wait_enable t)
  with assms(3) notify_okD(1,4,5) [OF assms(1)] show ?thesis unfolding token_inv_def by (auto split: if_splits) (metis token_pc.distinct)+
next
  case (wait_wake t)
  with assms(3) notify_okD(2,3) [OF assms(1)] show ?thesis unfolding token_inv_def by (auto split: if_splits) (metis token_pc.distinct)+
next
  case (wait_drop t)
  with assms(3) notify_okD(6,7) [OF assms(1)] show ?thesis unfolding token_inv_def by (auto split: if_splits) (metis token_pc.distinct)+
next
  case (wait_return t)
  with assms(3) show ?thesis unfolding token_inv_def by auto (metis token_pc.distinct)
qed (auto simp: token_inv_def)

lemma token_inv_reachable:
  assumes "notify_ok nt" "token_reachable nt c"
  shows "token_inv nt c"
  using assms(2)
proof induction
  case reach_new
  then show ?case by (simp add: token_inv_def token_new_def)
next
  case (reach_step c c')
  then show ?case using token_inv_step [OF assms(1)] by blast
qed

text \<open>From a state in which the token is cancelled, a thread that waits has steps to its return: it is woken if it is notified, and
  otherwise after the step of the thread that cancelled.\<close>

lemma woken_returns:
  assumes "cs_cancelled c" "cs_pc c t = PC_Parked" "nt_ready nt t (cs_notification c)"
  shows "\<exists>c'. (token_step nt)\<^sup>*\<^sup>* c c' \<and> cs_pc c' t = PC_Returned"
proof -
  let ?c1 = "goto t PC_Created (set_notification (nt_notified nt t (cs_notification c)) c)"
  let ?c2 = "goto t PC_Enabled (set_notification (nt_enable nt t (cs_notification ?c1)) ?c1)"
  have "token_step nt c ?c1" using assms by (intro wait_wake)
  moreover have "token_step nt ?c1 ?c2" by (intro wait_enable) simp
  moreover have "token_step nt ?c2 (goto t PC_Returned ?c2)" using assms(1) by (intro wait_return) simp_all
  ultimately have "(token_step nt)\<^sup>*\<^sup>* c (goto t PC_Returned ?c2)" by (meson converse_rtranclp_into_rtranclp rtranclp.rtrancl_refl)
  moreover have "cs_pc (goto t PC_Returned ?c2) t = PC_Returned" by simp
  ultimately show ?thesis by blast
qed

text \<open>C12.  No wake-up is lost: under every interleaving of cancelling and waiting threads, a thread that waits although the token is
  cancelled is notified, or the thread that cancelled has yet to notify; in both cases the waiting thread can run to its return.  A
  thread returns only from a cancelled token.\<close>

theorem no_wakeup_is_lost:
  assumes "notify_ok nt" "token_reachable nt c"
  shows "(cs_pc c t = PC_Returned \<longrightarrow> cs_cancelled c) \<and>
    (cs_pc c t = PC_Parked \<and> cs_cancelled c \<longrightarrow>
       (nt_ready nt t (cs_notification c) \<or> (\<exists>u. cs_pc c u = PC_Swapped)) \<and>
       (\<exists>c'. (token_step nt)\<^sup>*\<^sup>* c c' \<and> cs_pc c' t = PC_Returned))"
proof -
  note inv = token_inv_reachable [OF assms, unfolded token_inv_def]
  have "\<exists>c'. (token_step nt)\<^sup>*\<^sup>* c c' \<and> cs_pc c' t = PC_Returned" if t: "cs_pc c t = PC_Parked" "cs_cancelled c"
  proof (cases "nt_ready nt t (cs_notification c)")
    case True
    then show ?thesis using woken_returns t by blast
  next
    case False
    then obtain u where u: "cs_pc c u = PC_Swapped" using inv t by blast
    let ?c = "goto u PC_Idle (set_notification (nt_notify_waiters nt (cs_notification c)) c)"
    have step: "token_step nt c ?c" using u by (rule cancel_notify)
    have "nt_ready nt t (cs_notification ?c)" using notify_okD(8) [OF assms(1)] inv t(1) by simp
    moreover have "cs_pc ?c t = PC_Parked" "cs_cancelled ?c" using t u by auto
    ultimately show ?thesis using woken_returns step by (meson converse_rtranclp_into_rtranclp)
  qed
  then show ?thesis using inv by blast
qed

section \<open>Example\<close>

text \<open>A notification as two predicates on tasks: waiting and notified.\<close>

definition demo_notify :: "((nat \<Rightarrow> bool) \<times> (nat \<Rightarrow> bool)) notify_ops" where
  "demo_notify =
     \<lparr>nt_new = (\<lambda>_. False, \<lambda>_. False), nt_notified = (\<lambda>t (w, r). (w(t := False), r(t := False))), nt_enable = (\<lambda>t (w, r). (w(t := True), r)),
      nt_drop = (\<lambda>t (w, r). (w(t := False), r(t := False))), nt_notify_waiters = (\<lambda>(w, r). (\<lambda>_. False, \<lambda>t. r t \<or> w t)),
      nt_waits = (\<lambda>t (w, r). w t), nt_ready = (\<lambda>t (w, r). r t)\<rparr>"

lemma demo_notify_ok: "notify_ok demo_notify"
  by (auto simp: notify_ok_def demo_notify_def)

text \<open>Task 0 waits, thread 1 cancels, and has not yet notified.\<close>

theorem no_wakeup_is_lost_witness:
  "\<exists>c. token_reachable demo_notify c \<and> cs_pc c 0 = PC_Parked \<and> cs_cancelled c \<and> \<not> nt_ready demo_notify 0 (cs_notification c) \<and>
     (\<exists>c'. (token_step demo_notify)\<^sup>*\<^sup>* c c' \<and> cs_pc c' 0 = PC_Returned)"
proof -
  let ?n = "nt_notified demo_notify 0 (nt_new demo_notify)"
  let ?c1 = "goto 0 PC_Created (set_notification ?n (token_new demo_notify))"
  let ?c2 = "goto 0 PC_Enabled (set_notification (nt_enable demo_notify 0 ?n) ?c1)"
  let ?c3 = "goto 0 PC_Parked ?c2"
  let ?c4 = "goto 1 PC_Swapped (?c3\<lparr>cs_cancelled := True\<rparr>)"
  have start: "cs_notification (token_new demo_notify) = nt_new demo_notify" "cs_pc (token_new demo_notify) t = PC_Idle"
      "\<not> cs_cancelled (token_new demo_notify)" for t by (simp_all add: token_new_def)
  have "token_step demo_notify (token_new demo_notify) ?c1" using wait_begin [of "token_new demo_notify" 0 demo_notify] start by simp
  moreover have "token_step demo_notify ?c1 ?c2" using wait_enable [of ?c1 0 demo_notify] by simp
  moreover have "token_step demo_notify ?c2 ?c3" using wait_park [of ?c2 0 demo_notify] start by simp
  moreover have "token_step demo_notify ?c3 ?c4" using cancel_first [of ?c3 1 demo_notify] start by simp
  ultimately have reach: "token_reachable demo_notify ?c4" using reach_new reach_step by meson
  have c4: "cs_pc ?c4 0 = PC_Parked" "cs_cancelled ?c4" "\<not> nt_ready demo_notify 0 (cs_notification ?c4)"
    by (simp_all add: demo_notify_def)
  then have "\<exists>c'. (token_step demo_notify)\<^sup>*\<^sup>* ?c4 c' \<and> cs_pc c' 0 = PC_Returned"
    using no_wakeup_is_lost [OF demo_notify_ok reach, of 0] by blast
  then show ?thesis using reach c4 by blast
qed

end
