(* ===== verification/Spec2Isabelle.thy ===== *)
theory Spec2Isabelle
  imports Kernel_Objects Lease_Interleaving State_Machine Recovery Semantic_State Effects Certificates
    Object_Meta Workload_Types Admission Security Runtime_API Durable_Executor Placement Coordinator_Properties
    Program_Scheduler Phase_Scheduler Workflow_Properties Daemon_Properties Worker_Properties
    Client_Properties Command_Properties Cancellation_Token
begin

text \<open>
  APEIR kernel: a verification library for the kernel of an AI runtime (crates, daemon, providers and tools under
  src/).

  \<^bold>\<open>The program.\<close>  A client sends framed JSON requests (NKI) to the daemon.  The daemon authenticates the envelope
  and dispatches it to the runtime coordinator (workloads, plans, probes, cancellation), to the extension authority or to
  the control plane.  The coordinator admits, places and leases an operation, records an intent in the journal, lets a
  provider process execute it, records the receipt and commits it; after a crash the journal is replayed and pending
  operations are executed again.  A provider is a child process, normally the worker program, which computes locally or
  calls a model endpoint over HTTP.  Around this core stand the scheduler, the workflow compiler, effects with execution
  certificates, the security engine, the contracts of models, projects and graphs, the client library and the command line
  tool.

  \<^bold>\<open>The theories\<close>, with the sources they translate.  Definitions keep the names of the source; the fields of a struct
  carry a prefix; an enum is a datatype with the constructors of the source.

  \<^item> Kernel_Prelude: results, saturating 64-bit arithmetic, decimal numbers, strings, association lists.
    Log_View: codecs, and functions of the journal that are folds over its log.
  \<^item> Kernel_Errors (crates/nous-types/src/error.rs), Object_Meta (meta.rs, traits.rs, principal.rs), Workload_Types
    (workload.rs), Kernel_Objects (device.rs, engine.rs, node.rs, model.rs, profile.rs, checkpoint.rs, event.rs,
    audit.rs): the shared data, the lifecycle of metadata, the phases of a workload, and the objects the kernel observes,
    whose status updates keep specification and identity.
  \<^item> Fencing, Journal, State_Machine, Recovery, Semantic_State (crates/nous-state): fencing tokens over a 64-bit counter;
    the journal as a table of rows with append, reads, reopening and the integrity check; state machines with hooks,
    compare-and-swap and a journaled transition; replay and recovery decisions; the semantic store and execution profiles.
  \<^item> Resource_Vectors, Leases, Lease_Interleaving, Admission (crates/nous-resource): vectors of thirteen saturating words,
    the domain hierarchy, every lease operation as one call and as a step relation over the critical sections of many
    threads, and the admission decision.
  \<^item> Effects, Certificates (crates/nous-execution-proof): transactional effects with a step relation over threads, and the
    generation and verification of certificates.  Security (crates/nous-security): the execution gate, capability grants
    and credentials.
  \<^item> Runtime_API, Durable_Executor, Coordinator, Provider_Process, Cancellation_Token (crates/nous-kernel-core and runtime_api.rs):
    requests and their screening, boot, the intent/receipt/commit protocol with its fault points, the runtime with failover
    plans and recovery, the child process of a provider, and the cancellation token as a step relation over its atomic
    accesses.  Coordinator_Safety and Coordinator_Properties hold their invariants
    and theorems.
  \<^item> Scheduling_Policies, Placement, Program_Scheduler, Phase_Scheduler, Topological_Order, Workflow
    (crates/nous-scheduler): nine placement policies, the placement with its trace, five program policies, the phase
    decision, and the workflow compiler.  Workflow_Properties proves the compiler correct.
  \<^item> Open_Runtime (open_runtime.rs, contracts.rs), Intelligence_Contracts, Intelligence_Graph, Project_Analysis
    (crates/nous-intelligence): every manifest and contract with its validation, differences, the merge assessment, graphs
    with their cycle check and lowering, and the bounded scan of a project directory.
  \<^item> Control_Plane (crates/nous-control-plane): the catalogue of assets; Catalog_Properties proves it.
  \<^item> Kernel_Interface (crates/nous-nki), Extension_Authority and Daemon (daemon/nousd/src/main.rs): frames and envelopes, the
    admission, approval, execution and revocation of extensions, and every request of the daemon.  Authority_Safety,
    Daemon_Safety and Daemon_Properties hold the theorems over whole histories of the daemon.
  \<^item> Worker (providers/worker/src/main.rs) and Runtime_Client (crates/nous-runtime-client), with Worker_Properties and
    Client_Properties.
  \<^item> Command_Line (tools/nous/src/main.rs): the commands over the files of the machine and the calls to the daemon, with
    Command_Properties.

  \<^bold>\<open>State and effects.\<close>  A component with state is a record that its operations take and return; an operation that can
  fail returns a sum with the error on the left, and a process that stops in the middle is the result None together with
  the state it leaves.  Where the code has several critical sections (leases, effects, the cancellation token, deletion in the
  catalogue), each section is one step of a relation and the theorems hold for every interleaving; the requests of the
  daemon interleave as whole requests, in any order and with any number of restarts and storage faults between them.

  \<^bold>\<open>Interfaces.\<close>  Where components rely on a contract the contract is a locale, interpreted on the model: the journal as
  an append-only log (Journal) and the views folded from it (Log_View, for recovery, semantic state and profiles),
  scheduling policies (Scheduling_Policies, Placement, Program_Scheduler), graphs with their degrees (Topological_Order, for
  both graphs of the compiler), invariants that the operations of the runtime and of the daemon keep (Coordinator_Safety,
  Daemon_Safety), and relations that the commands of the tool keep (Command_Properties).

  \<^bold>\<open>What is shown.\<close>
  Safety over histories: one commit and one receipt per operation, replay of answered submissions, no double booking of
  leases and fencing of stale tokens, permits only under a current approval, no effect of unauthenticated requests, effects
  run at most once, credentials sent only to checked endpoints, receipts that attest their request, a registry of whole
  manifests.  Liveness: a healthy kernel answers, a retry after a crash succeeds with at most one more call, an
  approval permits, no wake-up of the cancellation token is lost.  Refinement: the journal implements an append-only log with idempotent keys, replay computes the state
  that the log determines, the catalogue implements compare-and-swap on a map.  The compiler returns exactly for the
  programs without cycles, its critical path is longest, its groups are independent; the scan of a project finds what a
  recursive traversal finds.  Round trips of frames, reopened
  journals and client calls; bounds of durations, scans and frames; where the code falls short of its documentation, a
  theorem states what it does.

  \<^bold>\<open>Parameters.\<close>  Clocks, uuids, SHA-256, JSON and YAML coding, base64, the URL parser, the HTTP client, processes and
  sockets, environment variables, float arithmetic (an ordered type with the operations the code uses), storage faults and
  the traversal orders of hash maps are arguments.  What a theorem needs of them is a hypothesis by name, such as
  \<open>codec_roundtrip\<close> for a coding or \<open>traversal\<close> for an order, and a witness shows that it can hold.

  \<^bold>\<open>Bounds and fuel.\<close>  No function runs on fuel.  Loops of the code are structural recursions or have a measure: the
  stream of a connection its length, the topological sort the sum of the degrees, the scan of a project the size of the
  pending trees.  Waiting for running operations at shutdown is a bounded number of polls, as the deadline of the code
  bounds it.  Counters keep their width where the code can wrap or saturate.

  \<^bold>\<open>Not modelled.\<close>  Opening sockets and the accept loop of the daemon are input and output without a decision of their own.
  The poisoning of locks, which takes a panic inside a critical section, is left out.  The requests of the daemon are atomic
  with respect to each other, although the runtime runs them concurrently.  The derived default values of the records of
  Kernel_Objects, which no code reads, are left out.  Documentation, SDKs in other languages, examples and tests are not part
  of the implementation.
\<close>

end
